(* ===== verification/Prelude.thy ===== *)
theory Prelude
  imports Main "HOL-Library.Word" "HOL-Library.Char_ord" "HOL-Library.List_Lexorder"
begin

text \<open>
  Shared vocabulary of the development: the types every component uses (identifiers, bytes,
  instants), the collections of facts the component proofs draw on, and the generic lemmas on
  lists, maps and machine words that more than one component needs.
\<close>

section \<open>Types\<close>

text \<open>
  Go's \<^verbatim>\<open>uint64\<close> identifiers and counters are kept at their width; \<^verbatim>\<open>[]byte\<close> is a list of
  8-bit words. An instant (\<^verbatim>\<open>time.Time\<close>) and a \<^verbatim>\<open>time.Duration\<close> are numbers of nanoseconds.
  A \<^verbatim>\<open>string\<close> is a list of characters, one per byte, as in Go.
\<close>

type_synonym u8 = "8 word"
type_synonym u32 = "32 word"
type_synonym u64 = "64 word"
type_synonym bytes = "8 word list"
type_synonym instant = int
type_synonym duration = int

abbreviation second_ns :: duration where
  "second_ns \<equiv> 1000000000"

section \<open>Collections of facts\<close>

named_theorems frame \<open>what an operation leaves unchanged\<close>
named_theorems inv_intros \<open>an operation preserves an invariant\<close>

section \<open>Lists\<close>

lemma take_append_exact [simp]: "length xs = n \<Longrightarrow> take n (xs @ ys) = xs"
  by simp

lemma drop_append_exact [simp]: "length xs = n \<Longrightarrow> drop n (xs @ ys) = ys"
  by simp

lemma sorted_wrt_drop: "sorted_wrt P xs \<Longrightarrow> sorted_wrt P (drop n xs)"
  by (metis append_take_drop_id sorted_wrt_append)

lemma last_drop_suffix: "n < length xs \<Longrightarrow> last (drop n xs) = last xs"
  by simp

lemma distinct_map_nth_inj:
  "distinct (map f xs) \<Longrightarrow> i < length xs \<Longrightarrow> j < length xs \<Longrightarrow> f (xs ! i) = f (xs ! j) \<Longrightarrow> i = j"
  by (metis length_map nth_eq_iff_index_eq nth_map)

section \<open>Maps\<close>

lemma map_upd_SomeD:
  "(m(k \<mapsto> v)) x = Some w \<Longrightarrow> (x = k \<and> w = v) \<or> (x \<noteq> k \<and> m x = Some w)"
  by (simp split: if_splits)

text \<open>A Go map is a finite map; \<^verbatim>\<open>len(m)\<close> is the number of its keys.\<close>

definition map_len :: "('k \<rightharpoonup> 'v) \<Rightarrow> nat" where
  "map_len m = card (dom m)"

lemma map_len_empty [simp]: "map_len Map.empty = 0"
  by (simp add: map_len_def)

lemma map_len_upd:
  "finite (dom m) \<Longrightarrow> map_len (m(k \<mapsto> v)) = (if k \<in> dom m then map_len m else Suc (map_len m))"
  by (simp add: map_len_def insert_absorb)

lemma map_len_del:
  "finite (dom m) \<Longrightarrow> map_len (m(k := None)) = (if k \<in> dom m then map_len m - 1 else map_len m)"
  by (auto simp: map_len_def)

section \<open>Machine words\<close>

text \<open>
  An \<^verbatim>\<open>atomic.Uint64\<close> counter hands out \<open>Add(1)\<close>: the value after the increment. As long as
  the counter has not reached its last value the result is larger than everything before.
\<close>

lemma unat_inc: "c \<noteq> (- 1 :: 'a::len word) \<Longrightarrow> unat (c + 1) = Suc (unat c)"
  by (metis add.commute add_eq_0_iff unatSuc)

lemma word_less_inc: "c \<noteq> (- 1 :: 'a::len word) \<Longrightarrow> c < c + 1"
  by (simp add: word_less_nat_alt unat_inc)

lemma word_le_inc: "x \<le> c \<Longrightarrow> c \<noteq> (- 1 :: 'a::len word) \<Longrightarrow> x < c + 1"
  by (rule order_le_less_trans [OF _ word_less_inc])

section \<open>Tables keyed by a counter\<close>

text \<open>
  Sessions, nodes, directory cursors, file handles and watches all live in a Go map whose keys
  come from an \<^verbatim>\<open>atomic.Uint64\<close>: \<open>Add(1)\<close> and then an insertion under the new value. The
  contract is the same for all of them: as long as the counter has not wrapped, the new key is
  fresh, so no live entry is overwritten and no key is handed out twice.
\<close>

locale id_table =
  fixes last_id :: "'s \<Rightarrow> u64"
    and entries :: "'s \<Rightarrow> u64 \<rightharpoonup> 'v"
    and alloc :: "'a \<Rightarrow> 's \<Rightarrow> u64 \<times> 's"
  assumes alloc_id: "fst (alloc a s) = last_id s + 1"
    and alloc_last: "last_id (snd (alloc a s)) = last_id s + 1"
    and alloc_entries: "\<exists>v. entries (snd (alloc a s)) = (entries s)(last_id s + 1 \<mapsto> v)"
begin

definition bounded :: "'s \<Rightarrow> bool" where
  "bounded s \<longleftrightarrow> (\<forall>k \<in> dom (entries s). k \<le> last_id s)"

lemma boundedD: "bounded s \<Longrightarrow> entries s k = Some v \<Longrightarrow> k \<le> last_id s"
  by (auto simp: bounded_def)

lemma alloc_fresh:
  assumes "bounded s" and "last_id s \<noteq> - 1"
  shows "entries s (fst (alloc a s)) = None"
proof (rule ccontr)
  assume "entries s (fst (alloc a s)) \<noteq> None"
  then have "last_id s + 1 \<le> last_id s" using assms(1) boundedD by (auto simp: alloc_id)
  then show False using word_less_inc [OF assms(2)] by simp
qed

lemma alloc_stored: "entries (snd (alloc a s)) (fst (alloc a s)) \<noteq> None"
  using alloc_entries [of a s] by (auto simp: alloc_id)

lemma alloc_keeps:
  "bounded s \<Longrightarrow> last_id s \<noteq> - 1 \<Longrightarrow> entries s k = Some v \<Longrightarrow> entries (snd (alloc a s)) k = Some v"
  using alloc_fresh [of s a] alloc_entries [of a s] by (auto simp: alloc_id)

lemma alloc_other: "k \<noteq> fst (alloc a s) \<Longrightarrow> entries (snd (alloc a s)) k = entries s k"
  using alloc_entries [of a s] by (auto simp: alloc_id)

lemma alloc_bounded:
  assumes "bounded s" and "last_id s \<noteq> - 1"
  shows "bounded (snd (alloc a s))"
proof -
  have "k \<le> last_id s + 1" if "k \<in> dom (entries (snd (alloc a s)))" for k
    using that assms(1) alloc_entries [of a s] word_less_inc [OF assms(2)]
    by (cases "k = last_id s + 1") (auto dest: boundedD)
  then show ?thesis by (simp add: bounded_def alloc_last)
qed

text \<open>Any number of allocations hands out strictly increasing keys.\<close>

fun alloc_ids :: "'a list \<Rightarrow> 's \<Rightarrow> u64 list" where
  "alloc_ids [] s = []"
| "alloc_ids (a # as) s = fst (alloc a s) # alloc_ids as (snd (alloc a s))"

lemma alloc_ids_increasing:
  "unat (last_id s) + length as < 2 ^ 64 \<Longrightarrow>
   sorted_wrt (<) (alloc_ids as s) \<and> (\<forall>k \<in> set (alloc_ids as s). last_id s < k)"
proof (induction as arbitrary: s)
  case (Cons a as)
  have ne: "last_id s \<noteq> - 1"
    using Cons.prems by (auto simp: unsigned_minus_1_eq_mask mask_eq_exp_minus_1)
  then have "unat (last_id (snd (alloc a s))) + length as < 2 ^ 64"
    using Cons.prems by (simp add: alloc_last unat_inc)
  from Cons.IH [OF this] show ?case
    using word_less_inc [OF ne] by (auto simp: alloc_last alloc_id)
qed simp

end

end
