(* ===== verification/GoLib.thy ===== *)
theory GoLib
  imports Prelude
begin

text \<open>
  The parts of the Go standard library the program calls on strings, paths and times
  (packages \<^verbatim>\<open>strings\<close>, \<^verbatim>\<open>path/filepath\<close>, \<^verbatim>\<open>sort\<close>, \<^verbatim>\<open>fmt\<close>,
  \<^verbatim>\<open>time\<close>), for a platform
  whose path separator is the slash. \<^verbatim>\<open>filepath.ToSlash\<close> is the identity there and does not
  appear. Case conversion and white space are those of the ASCII range.
\<close>

section \<open>Package strings\<close>

definition HasPrefix :: "string \<Rightarrow> string \<Rightarrow> bool" where
  "HasPrefix s p = (take (length p) s = p)"

definition TrimPrefix :: "string \<Rightarrow> string \<Rightarrow> string" where
  "TrimPrefix s p = (if HasPrefix s p then drop (length p) s else s)"

fun Contains :: "string \<Rightarrow> string \<Rightarrow> bool" where
  "Contains [] sub = (sub = [])"
| "Contains (c # s) sub = (HasPrefix (c # s) sub \<or> Contains s sub)"

text \<open>\<^verbatim>\<open>strings.Split(s, sep)\<close> for a one-byte separator: never the empty list.\<close>

fun Split :: "string \<Rightarrow> char \<Rightarrow> string list" where
  "Split [] sep = [[]]"
| "Split (c # s) sep =
     (if c = sep then [] # Split s sep
      else (case Split s sep of [] \<Rightarrow> [[c]] | w # ws \<Rightarrow> (c # w) # ws))"

fun Join :: "string list \<Rightarrow> string \<Rightarrow> string" where
  "Join [] sep = []"
| "Join [x] sep = x"
| "Join (x # y # zs) sep = x @ sep @ Join (y # zs) sep"

text \<open>\<^verbatim>\<open>strings.Trim(s, c)\<close> for a one-byte cut set, and \<^verbatim>\<open>strings.TrimSpace\<close>.\<close>

definition trim_by :: "(char \<Rightarrow> bool) \<Rightarrow> string \<Rightarrow> string" where
  "trim_by P s = rev (dropWhile P (rev (dropWhile P s)))"

definition Trim :: "string \<Rightarrow> char \<Rightarrow> string" where
  "Trim s c = trim_by (\<lambda>x. x = c) s"

definition is_space :: "char \<Rightarrow> bool" where
  "is_space c \<longleftrightarrow> (of_char c :: nat) \<in> {9, 10, 11, 12, 13, 32}"

definition TrimSpace :: "string \<Rightarrow> string" where
  "TrimSpace s = trim_by is_space s"

definition ReplaceAll :: "string \<Rightarrow> char \<Rightarrow> char \<Rightarrow> string" where
  "ReplaceAll s old new = map (\<lambda>c. if c = old then new else c) s"

definition lower_char :: "char \<Rightarrow> char" where
  "lower_char c =
     (let n = (of_char c :: nat) in if 65 \<le> n \<and> n \<le> 90 then char_of (n + 32) else c)"

definition upper_char :: "char \<Rightarrow> char" where
  "upper_char c =
     (let n = (of_char c :: nat) in if 97 \<le> n \<and> n \<le> 122 then char_of (n - 32) else c)"

definition ToLower :: "string \<Rightarrow> string" where
  "ToLower s = map lower_char s"

definition ToUpper :: "string \<Rightarrow> string" where
  "ToUpper s = map upper_char s"

section \<open>Package path/filepath\<close>

abbreviation slash :: char where
  "slash \<equiv> CHR ''/''"

text \<open>
  \<^verbatim>\<open>Clean\<close>: the components are pushed on a stack (its top first); empty components and dots
  are dropped, a double dot removes the component before it, and at the root it is dropped.
\<close>

definition clean_step :: "bool \<Rightarrow> string \<Rightarrow> string list \<Rightarrow> string list" where
  "clean_step rooted c stack =
     (if c = [] \<or> c = ''.'' then stack
      else if c = ''..'' then
        (case stack of
           [] \<Rightarrow> if rooted then [] else [''..'']
         | t # rest \<Rightarrow> if t = ''..'' then ''..'' # stack else rest)
      else c # stack)"

definition Clean :: "string \<Rightarrow> string" where
  "Clean p =
     (if p = [] then ''.''
      else let rooted = (hd p = slash);
               out = Join (rev (fold (clean_step rooted) (Split p slash) [])) ''/''
           in if rooted then slash # out else if out = [] then ''.'' else out)"

definition path_Join :: "string \<Rightarrow> string \<Rightarrow> string" where
  "path_Join a b =
     (if a \<noteq> [] then Clean (a @ ''/'' @ b) else if b \<noteq> [] then Clean b else [])"

definition Dir :: "string \<Rightarrow> string" where
  "Dir p = Clean (rev (dropWhile (\<lambda>c. c \<noteq> slash) (rev p)))"

definition Base :: "string \<Rightarrow> string" where
  "Base p =
     (if p = [] then ''.''
      else let s = rev (dropWhile (\<lambda>c. c = slash) (rev p));
               t = rev (takeWhile (\<lambda>c. c \<noteq> slash) (rev s))
           in if t = [] then ''/'' else t)"

definition Ext :: "string \<Rightarrow> string" where
  "Ext p =
     (let r = takeWhile (\<lambda>c. c \<noteq> slash \<and> c \<noteq> CHR ''.'') (rev p);
          rest = drop (length r) (rev p)
      in if rest \<noteq> [] \<and> hd rest = CHR ''.'' then CHR ''.'' # rev r else [])"

text \<open>
  \<^verbatim>\<open>filepath.Rel\<close>: what is left of the two cleaned paths after their common leading components;
  \<open>None\<close> stands for its error.
\<close>

fun strip_common :: "string list \<Rightarrow> string list \<Rightarrow> string list \<times> string list" where
  "strip_common (x # xs) (y # ys) = (if x = y then strip_common xs ys else (x # xs, y # ys))"
| "strip_common xs ys = (xs, ys)"

definition path_comps :: "string \<Rightarrow> string list" where
  "path_comps p = filter (\<lambda>c. c \<noteq> []) (Split p slash)"

definition path_Rel :: "string \<Rightarrow> string \<Rightarrow> string option" where
  "path_Rel basepath targpath =
     (let base = Clean basepath; targ = Clean targpath in
      if targ = base then Some ''.''
      else
        let base = (if base = ''.'' then [] else base) in
        if (base \<noteq> [] \<and> hd base = slash) \<noteq> (targ \<noteq> [] \<and> hd targ = slash) then None
        else
          let (bs, ts) = strip_common (path_comps base) (path_comps targ) in
          if bs \<noteq> [] \<and> hd bs = ''..'' then None
          else Some (Join (replicate (length bs) ''..'' @ ts) ''/''))"

definition IsAbs :: "string \<Rightarrow> bool" where
  "IsAbs p \<longleftrightarrow> HasPrefix p ''/''"

text \<open>\<^verbatim>\<open>filepath.Abs\<close>; the working directory is \<open>None\<close> when it cannot be read.\<close>

definition path_Abs :: "string option \<Rightarrow> string \<Rightarrow> string option" where
  "path_Abs cwd p = (if IsAbs p then Some (Clean p) else map_option (\<lambda>wd. path_Join wd p) cwd)"

section \<open>Package sort\<close>

text \<open>The binary search of \<^verbatim>\<open>sort.Search\<close>.\<close>

function search_loop :: "(nat \<Rightarrow> bool) \<Rightarrow> nat \<Rightarrow> nat \<Rightarrow> nat" where
  "search_loop f i j =
     (if i < j then
        let h = (i + j) div 2 in if \<not> f h then search_loop f (Suc h) j else search_loop f i h
      else i)"
  by pat_completeness auto
termination
  by (relation "measure (\<lambda>(f, i, j). j - i)") auto

declare search_loop.simps [simp del]

definition sort_Search :: "nat \<Rightarrow> (nat \<Rightarrow> bool) \<Rightarrow> nat" where
  "sort_Search n f = search_loop f 0 n"

section \<open>Package fmt\<close>

fun decimal :: "nat \<Rightarrow> string" where
  "decimal n =
     (if n < 10 then [char_of (48 + n)] else decimal (n div 10) @ [char_of (48 + n mod 10)])"

declare decimal.simps [simp del]

definition format_bool :: "bool \<Rightarrow> string" where
  "format_bool b = (if b then ''true'' else ''false'')"

definition format_u64 :: "u64 \<Rightarrow> string" where
  "format_u64 v = decimal (unat v)"

definition format_u32 :: "u32 \<Rightarrow> string" where
  "format_u32 v = decimal (unat v)"

definition format_int :: "int \<Rightarrow> string" where
  "format_int v = (if v < 0 then ''-'' @ decimal (nat (- v)) else decimal (nat v))"

text \<open>\<^verbatim>\<open>%08x\<close>: the eight hexadecimal digits of a 32-bit value, and \<^verbatim>\<open>%08X\<close>.\<close>

definition hex_digit :: "nat \<Rightarrow> char" where
  "hex_digit n = (if n < 10 then char_of (48 + n) else char_of (87 + n))"

definition format_hex :: "u32 \<Rightarrow> string" where
  "format_hex v = map (\<lambda>k. hex_digit (unat v div 16 ^ k mod 16)) [7, 6, 5, 4, 3, 2, 1, 0]"

text \<open>\<^verbatim>\<open>%q\<close> of a string of ASCII characters.\<close>

definition quote_char :: "char \<Rightarrow> string" where
  "quote_char c =
     (let n = (of_char c :: nat) in
      if n = 34 \<or> n = 92 then [CHR 0x5C, c]
      else if n = 7 then [CHR 0x5C, CHR ''a'']
      else if n = 8 then [CHR 0x5C, CHR ''b'']
      else if n = 9 then [CHR 0x5C, CHR ''t'']
      else if n = 10 then [CHR 0x5C, CHR ''n'']
      else if n = 11 then [CHR 0x5C, CHR ''v'']
      else if n = 12 then [CHR 0x5C, CHR ''f'']
      else if n = 13 then [CHR 0x5C, CHR ''r'']
      else if n < 32 \<or> n = 127 then [CHR 0x5C, CHR ''x'', hex_digit (n div 16), hex_digit (n mod 16)]
      else [c])"

definition Quote :: "string \<Rightarrow> string" where
  "Quote s = [CHR 0x22] @ concat (map quote_char s) @ [CHR 0x22]"

section \<open>Package time\<close>

definition pad :: "nat \<Rightarrow> nat \<Rightarrow> string" where
  "pad w n = (let d = decimal n in replicate (w - length d) (CHR ''0'') @ d)"

text \<open>The civil date of a day number counted from 1970-01-01 (proleptic Gregorian calendar).\<close>

definition civil_from_days :: "int \<Rightarrow> int \<times> int \<times> int" where
  "civil_from_days day =
     (let z = day + 719468;
          era = z div 146097;
          doe = z - era * 146097;
          yoe = (doe - doe div 1460 + doe div 36524 - doe div 146096) div 365;
          doy = doe - (365 * yoe + yoe div 4 - yoe div 100);
          mp = (5 * doy + 2) div 153;
          d = doy - (153 * mp + 2) div 5 + 1;
          m = (if mp < 10 then mp + 3 else mp - 9)
      in (yoe + era * 400 + (if m \<le> 2 then 1 else 0), m, d))"

text \<open>\<^verbatim>\<open>t.UTC().Format(time.RFC3339)\<close> for the years 0 to 9999.\<close>

definition FormatRFC3339 :: "instant \<Rightarrow> string" where
  "FormatRFC3339 t =
     (let secs = t div second_ns; day = secs div 86400; sod = secs mod 86400;
          (y, m, d) = civil_from_days day
      in pad 4 (nat y) @ ''-'' @ pad 2 (nat m) @ ''-'' @ pad 2 (nat d) @ ''T'' @
         pad 2 (nat (sod div 3600)) @ '':'' @ pad 2 (nat (sod div 60 mod 60)) @ '':'' @
         pad 2 (nat (sod mod 60)) @ ''Z'')"

section \<open>Facts about strings and paths\<close>

lemma HasPrefix_append [simp]: "HasPrefix (p @ s) p"
  by (simp add: HasPrefix_def)

lemma HasPrefix_iff: "HasPrefix s p \<longleftrightarrow> (\<exists>t. s = p @ t)"
  by (metis HasPrefix_append HasPrefix_def append_take_drop_id)

lemma TrimPrefix_slash:
  "TrimPrefix s [c] = (case s of [] \<Rightarrow> [] | x # t \<Rightarrow> if x = c then t else x # t)"
  by (simp add: TrimPrefix_def HasPrefix_def split: list.split)

lemma Contains_single [simp]: "Contains s [c] \<longleftrightarrow> c \<in> set s"
  by (induction s) (auto simp: HasPrefix_def)

lemma Split_nonempty [simp]: "Split s sep \<noteq> []"
  by (cases s) (auto split: list.split)

lemma Split_free: "sep \<notin> set s \<Longrightarrow> Split s sep = [s]"
  by (induction s) auto

lemma Split_append: "sep \<notin> set s \<Longrightarrow> Split (s @ sep # t) sep = s # Split t sep"
  by (induction s) auto

lemma Split_parts_free: "w \<in> set (Split s sep) \<Longrightarrow> sep \<notin> set w"
  by (induction s arbitrary: w) (auto split: if_splits list.splits)

lemma Split_Join:
  "xs \<noteq> [] \<Longrightarrow> \<forall>x \<in> set xs. sep \<notin> set x \<Longrightarrow> Split (Join xs [sep]) sep = xs"
  by (induction xs "[sep]" rule: Join.induct) (auto simp: Split_free Split_append)

lemma Join_Cons: "xs \<noteq> [] \<Longrightarrow> Join (x # xs) sep = x @ sep @ Join xs sep"
  by (cases xs) auto

lemma Join_Split: "Join (Split s sep) [sep] = s"
proof (induction s)
  case (Cons c s)
  then show ?case
    by (cases "Split s sep"; cases "tl (Split s sep)") (auto simp: Join_Cons)
qed simp

lemma Join_snoc: "xs \<noteq> [] \<Longrightarrow> Join (xs @ [y]) sep = Join xs sep @ sep @ y"
  by (induction xs sep rule: Join.induct) (auto simp: Join_Cons)

text \<open>
  A valid name is one path component: \<^verbatim>\<open>isValidSingleName\<close> of the server accepts exactly
  these. A clean relative path is the empty string (the root) or valid names joined by slashes.
\<close>

definition valid_name :: "string \<Rightarrow> bool" where
  "valid_name n \<longleftrightarrow> n \<noteq> [] \<and> n \<noteq> ''.'' \<and> n \<noteq> ''..'' \<and> slash \<notin> set n"

definition clean_rel :: "string \<Rightarrow> bool" where
  "clean_rel p \<longleftrightarrow> p = [] \<or> list_all valid_name (Split p slash)"

lemma clean_rel_Nil [simp]: "clean_rel []"
  by (simp add: clean_rel_def)

lemma clean_rel_Join:
  "list_all valid_name cs \<Longrightarrow> clean_rel (Join cs ''/'')"
  by (cases "cs = []") (auto simp: clean_rel_def Split_Join list_all_iff valid_name_def)

lemma clean_relE:
  assumes "clean_rel p"
  obtains cs where "list_all valid_name cs" "p = Join cs ''/''"
proof (cases "p = []")
  case True
  then show ?thesis using that [of "[]"] by simp
next
  case False
  then show ?thesis
    using assms that [of "Split p slash"] by (simp add: clean_rel_def Join_Split)
qed

lemma clean_rel_name: "valid_name n \<Longrightarrow> clean_rel n"
  using clean_rel_Join [of "[n]"] by simp

lemma fold_clean_step:
  "list_all valid_name cs \<Longrightarrow> fold (clean_step r) cs stack = rev cs @ stack"
  by (induction cs arbitrary: stack) (auto simp: clean_step_def valid_name_def)

lemma Join_valid_nonempty: "cs \<noteq> [] \<Longrightarrow> list_all valid_name cs \<Longrightarrow> Join cs sep \<noteq> []"
  by (cases cs; cases "tl cs") (auto simp: valid_name_def Join_Cons)

lemma Join_valid_hd:
  "cs \<noteq> [] \<Longrightarrow> list_all valid_name cs \<Longrightarrow> hd (Join cs sep) \<noteq> slash"
proof (cases cs)
  case (Cons c rest)
  assume "list_all valid_name cs"
  with Cons have "c \<noteq> []" and "slash \<notin> set c" by (auto simp: valid_name_def)
  then have "hd c \<noteq> slash" by (metis list.set_sel(1))
  moreover have "hd (Join cs sep) = hd c"
    using Cons \<open>c \<noteq> []\<close> by (cases rest) (auto simp: Join_Cons)
  ultimately show ?thesis by simp
qed simp

lemma Clean_Join:
  assumes "cs \<noteq> []" and "list_all valid_name cs"
  shows "Clean (Join cs ''/'') = Join cs ''/''"
proof -
  have "Split (Join cs ''/'') slash = cs"
    using assms by (intro Split_Join) (auto simp: list_all_iff valid_name_def)
  then show ?thesis
    using Join_valid_nonempty [OF assms, of "''/''"] Join_valid_hd [OF assms, of "''/''"] assms(2)
    by (simp add: Clean_def fold_clean_step Let_def)
qed

lemma Clean_clean_rel: "clean_rel p \<Longrightarrow> p \<noteq> [] \<Longrightarrow> Clean p = p"
  by (erule clean_relE) (metis Clean_Join Join.simps(1))

text \<open>Joining a valid name to a clean path appends one component.\<close>

lemma path_Join_clean:
  assumes "clean_rel p" and "valid_name n"
  shows "path_Join p n = (if p = [] then n else p @ ''/'' @ n)" and "clean_rel (path_Join p n)"
proof -
  obtain cs where cs: "list_all valid_name cs" "p = Join cs ''/''"
    using assms(1) by (rule clean_relE)
  have all: "list_all valid_name (cs @ [n])" using cs assms(2) by simp
  have p: "p = [] \<longleftrightarrow> cs = []" using cs Join_valid_nonempty by fastforce
  have eq: "path_Join p n = Join (cs @ [n]) ''/''"
  proof (cases "cs = []")
    case True
    then show ?thesis
      using assms(2) Clean_Join [of "[n]"] p by (auto simp: path_Join_def valid_name_def)
  next
    case False
    then have "p @ ''/'' @ n = Join (cs @ [n]) ''/''"
      using cs by (simp add: Join_snoc)
    then show ?thesis
      using p False Clean_Join [OF _ all] by (simp add: path_Join_def)
  qed
  show "path_Join p n = (if p = [] then n else p @ ''/'' @ n)"
    using eq p cs(2) by (simp add: Join_snoc)
  show "clean_rel (path_Join p n)"
    using eq all clean_rel_Join by simp
qed

lemma clean_rel_hd: "clean_rel p \<Longrightarrow> p \<noteq> [] \<Longrightarrow> hd p \<noteq> slash"
  by (erule clean_relE) (metis Join.simps(1) Join_valid_hd)

lemma TrimPrefix_clean [simp]: "clean_rel p \<Longrightarrow> TrimPrefix p ''/'' = p"
  using clean_rel_hd [of p] by (cases p) (auto simp: TrimPrefix_slash)

text \<open>The last component of a path made by joining, and what is before it.\<close>

lemma dropWhile_name:
  "valid_name n \<Longrightarrow> dropWhile (\<lambda>c. c = slash) (rev n @ ys) = rev n @ ys"
  by (cases n rule: rev_cases) (auto simp: valid_name_def)

lemma takeWhile_name:
  "valid_name n \<Longrightarrow> takeWhile (\<lambda>c. c \<noteq> slash) (rev n) = rev n"
  "valid_name n \<Longrightarrow> takeWhile (\<lambda>c. c \<noteq> slash) (rev n @ slash # ys) = rev n"
  by (auto simp: valid_name_def takeWhile_append intro!: takeWhile_eq_all_conv [THEN iffD2])

lemma Base_name: "valid_name n \<Longrightarrow> Base n = n"
  using dropWhile_name [of n "[]"]
  by (simp add: Base_def takeWhile_name valid_name_def)

lemma Base_snoc: "valid_name n \<Longrightarrow> Base (p @ slash # n) = n"
  by (simp add: Base_def dropWhile_name takeWhile_name) (simp add: valid_name_def)

lemma Base_path_Join: "clean_rel p \<Longrightarrow> valid_name n \<Longrightarrow> Base (path_Join p n) = n"
  by (simp add: path_Join_clean Base_name Base_snoc)

section \<open>Binary search\<close>

definition mono_upto :: "nat \<Rightarrow> (nat \<Rightarrow> bool) \<Rightarrow> bool" where
  "mono_upto n f \<longleftrightarrow> (\<forall>a b. a \<le> b \<longrightarrow> b < n \<longrightarrow> f a \<longrightarrow> f b)"

lemma mono_uptoD: "mono_upto n f \<Longrightarrow> f a \<Longrightarrow> a \<le> b \<Longrightarrow> b < n \<Longrightarrow> f b"
  by (auto simp: mono_upto_def)

lemma search_loop_spec:
  assumes "i \<le> j" and "mono_upto n f" and "\<forall>k < i. \<not> f k" and "\<forall>k < n. j \<le> k \<longrightarrow> f k" and "j \<le> n"
  shows "search_loop f i j \<le> n \<and> (\<forall>k < search_loop f i j. \<not> f k) \<and>
    (search_loop f i j < n \<longrightarrow> f (search_loop f i j))"
  using assms
proof (induction f i j rule: search_loop.induct)
  case (1 f i j)
  show ?case
  proof (cases "i < j")
    case False
    then have "search_loop f i j = i" by (simp add: search_loop.simps [of f i j])
    with False 1(3-) show ?thesis by auto
  next
    case lt: True
    let ?h = "(i + j) div 2"
    have h: "?h < n" "i \<le> ?h" "Suc ?h \<le> j" using lt 1(7) by auto
    show ?thesis
    proof (cases "f ?h")
      case True
      then have eq: "search_loop f i j = search_loop f i ?h"
        using lt by (simp add: search_loop.simps [of f i j] Let_def)
      have above: "\<forall>k < n. ?h \<le> k \<longrightarrow> f k" using mono_uptoD [OF 1(4) True] by blast
      show ?thesis unfolding eq
        by (rule 1(2) [OF lt refl _ h(2) 1(4,5) above less_imp_le [OF h(1)]]) (simp add: True)
    next
      case False
      then have eq: "search_loop f i j = search_loop f (Suc ?h) j"
        using lt by (simp add: search_loop.simps [of f i j] Let_def)
      have below: "\<forall>k < Suc ?h. \<not> f k"
        using False h(1) mono_uptoD [OF 1(4)] by (metis less_Suc_eq_le)
      show ?thesis unfolding eq by (rule 1(1) [OF lt refl False h(3) 1(4) below 1(6,7)])
    qed
  qed
qed

text \<open>On a monotone predicate the search returns the first index where it holds, or the bound.\<close>

lemma sort_Search_spec:
  assumes "mono_upto n f"
  shows "sort_Search n f \<le> n" and "k < sort_Search n f \<Longrightarrow> \<not> f k"
    and "sort_Search n f < n \<Longrightarrow> f (sort_Search n f)"
  using search_loop_spec [of 0 n n f, OF _ assms] by (auto simp: sort_Search_def)

end
