(* ===== verification/Filesystem.thy ===== *)
theory Filesystem
  imports GoLib
begin

text \<open>
  The part of package \<^verbatim>\<open>os\<close> the server calls, over a file system as a POSIX host has it: a table
  from absolute paths to inode numbers, the inodes, and open files that refer to inodes, so that
  an open file survives renaming and removal of its path. There are no links of either kind.
  Permission bits are reduced to readable and writable, and every inode carries the set of
  operations that fail on it with an input/output error, so that each error branch of the callers
  can be reached; a write that fails this way writes nothing, and a file that is created has no
  such operations. \<open>fs_clock\<close> is the clock the host stamps modification times with.
\<close>

section \<open>Errors\<close>

datatype errno = ENOENT | EEXIST | EACCES | ENOTDIR | EISDIR | ENOTEMPTY | EINVAL | EFBIG | EIO

fun errno_text :: "errno \<Rightarrow> string" where
  "errno_text ENOENT = ''no such file or directory''"
| "errno_text EEXIST = ''file exists''"
| "errno_text EACCES = ''permission denied''"
| "errno_text ENOTDIR = ''not a directory''"
| "errno_text EISDIR = ''is a directory''"
| "errno_text ENOTEMPTY = ''directory not empty''"
| "errno_text EINVAL = ''invalid argument''"
| "errno_text EFBIG = ''file too large''"
| "errno_text EIO = ''input/output error''"

text \<open>
  Go errors as they reach the server's handlers: \<^verbatim>\<open>os.ErrNotExist\<close>, path and link errors of
  package \<^verbatim>\<open>os\<close>, the server's own sentinel errors, and formatted errors.
\<close>

datatype go_error =
    ErrNotExist
  | PathError string string errno
  | LinkError string string string errno
  | errInvalidHandle
  | errAlreadyExists
  | errNotDir
  | errIsDir
  | errAccessDenied
  | Errorf string

fun error_text :: "go_error \<Rightarrow> string" where
  "error_text ErrNotExist = ''file does not exist''"
| "error_text (PathError oper path e) = oper @ '' '' @ path @ '': '' @ errno_text e"
| "error_text (LinkError oper old new e) = oper @ '' '' @ old @ '' '' @ new @ '': '' @ errno_text e"
| "error_text errInvalidHandle = ''invalid handle''"
| "error_text errAlreadyExists = ''already exists''"
| "error_text errNotDir = ''not a directory''"
| "error_text errIsDir = ''is a directory''"
| "error_text errAccessDenied = ''access denied''"
| "error_text (Errorf msg) = msg"

fun error_errno :: "go_error \<Rightarrow> errno option" where
  "error_errno (PathError _ _ e) = Some e"
| "error_errno (LinkError _ _ _ e) = Some e"
| "error_errno _ = None"

definition IsNotExist :: "go_error \<Rightarrow> bool" where
  "IsNotExist err \<longleftrightarrow> err = ErrNotExist \<or> error_errno err = Some ENOENT"

definition IsExist :: "go_error \<Rightarrow> bool" where
  "IsExist err \<longleftrightarrow> error_errno err \<in> {Some EEXIST, Some ENOTEMPTY}"

definition IsPermission :: "go_error \<Rightarrow> bool" where
  "IsPermission err \<longleftrightarrow> error_errno err = Some EACCES"

section \<open>State\<close>

datatype fs_fault = FStat | FRead | FWrite | FTruncate | FSync | FClose

record inode =
  i_isdir :: bool
  i_data :: bytes
  i_mode :: u32
  i_mtime :: instant
  i_readable :: bool
  i_writable :: bool
  i_faults :: "fs_fault list"

record fs =
  fs_paths :: "(string \<times> nat) list"
  fs_inodes :: "nat \<rightharpoonup> inode"
  fs_next :: nat
  fs_clock :: instant

record FileInfo =
  fi_Name :: string
  fi_Size :: int
  fi_Mode :: u32
  fi_ModTime :: instant
  fi_IsDir :: bool

record OsFile =
  of_inode :: nat
  of_name :: string

section \<open>Path resolution\<close>

text \<open>The directories above a path, from the top, the root directory itself left out.\<close>

definition ancestors :: "string \<Rightarrow> string list" where
  "ancestors p = (let cs = Split p slash in map (\<lambda>k. Join (take k cs) ''/'') [2..<length cs])"

definition inode_at :: "fs \<Rightarrow> string \<Rightarrow> (nat \<times> inode) option" where
  "inode_at f p =
     (case map_of (fs_paths f) p of
        None \<Rightarrow> None
      | Some i \<Rightarrow> map_option (Pair i) (fs_inodes f i))"

fun check_dirs :: "fs \<Rightarrow> string list \<Rightarrow> errno option" where
  "check_dirs f [] = None"
| "check_dirs f (a # as) =
     (case inode_at f a of
        None \<Rightarrow> Some ENOENT
      | Some (i, n) \<Rightarrow>
          if \<not> i_isdir n then Some ENOTDIR
          else if \<not> i_readable n then Some EACCES
          else check_dirs f as)"

definition resolve :: "fs \<Rightarrow> string \<Rightarrow> errno + nat \<times> inode" where
  "resolve f p =
     (case check_dirs f (ancestors p) of
        Some e \<Rightarrow> Inl e
      | None \<Rightarrow> (case inode_at f p of None \<Rightarrow> Inl ENOENT | Some r \<Rightarrow> Inr r))"

section \<open>Updates\<close>

definition upd_inode :: "nat \<Rightarrow> (inode \<Rightarrow> inode) \<Rightarrow> fs \<Rightarrow> fs" where
  "upd_inode i g f = f\<lparr>fs_inodes := (fs_inodes f)(i := map_option g (fs_inodes f i))\<rparr>"

definition touch_path :: "string \<Rightarrow> fs \<Rightarrow> fs" where
  "touch_path p f =
     (case inode_at f p of
        None \<Rightarrow> f
      | Some (i, n) \<Rightarrow> upd_inode i (\<lambda>n. n\<lparr>i_mtime := fs_clock f\<rparr>) f)"

definition set_data :: "bytes \<Rightarrow> instant \<Rightarrow> inode \<Rightarrow> inode" where
  "set_data d t n = n\<lparr>i_data := d, i_mtime := t\<rparr>"

section \<open>Operations on paths\<close>

definition file_info :: "string \<Rightarrow> inode \<Rightarrow> FileInfo" where
  "file_info name n =
     \<lparr>fi_Name = name, fi_Size = int (length (i_data n)), fi_Mode = i_mode n,
      fi_ModTime = i_mtime n, fi_IsDir = i_isdir n\<rparr>"

definition os_Stat :: "fs \<Rightarrow> string \<Rightarrow> go_error + FileInfo" where
  "os_Stat f p =
     (case resolve f p of
        Inl e \<Rightarrow> Inl (PathError ''stat'' p e)
      | Inr (i, n) \<Rightarrow>
          if FStat \<in> set (i_faults n) then Inl (PathError ''stat'' p EIO)
          else Inr (file_info (Base p) n))"

text \<open>\<^verbatim>\<open>os.OpenFile\<close> with the flags write, create, exclusive and truncate.\<close>

definition os_OpenFile ::
  "bool \<Rightarrow> bool \<Rightarrow> bool \<Rightarrow> bool \<Rightarrow> string \<Rightarrow> fs \<Rightarrow> (go_error + OsFile) \<times> fs" where
  "os_OpenFile wr cr ex tr p f =
     (case resolve f p of
        Inl e \<Rightarrow>
          if e = ENOENT \<and> cr then
            (case resolve f (Dir p) of
               Inl e' \<Rightarrow> (Inl (PathError ''open'' p e'), f)
             | Inr (d, dn) \<Rightarrow>
                 if \<not> i_isdir dn then (Inl (PathError ''open'' p ENOTDIR), f)
                 else if \<not> i_writable dn then (Inl (PathError ''open'' p EACCES), f)
                 else
                   let i = fs_next f;
                       n = \<lparr>i_isdir = False, i_data = [], i_mode = 420, i_mtime = fs_clock f,
                            i_readable = True, i_writable = True, i_faults = []\<rparr>
                   in (Inr \<lparr>of_inode = i, of_name = p\<rparr>,
                       touch_path (Dir p)
                         (f\<lparr>fs_paths := (p, i) # filter (\<lambda>(q, _). q \<noteq> p) (fs_paths f),
                            fs_inodes := (fs_inodes f)(i \<mapsto> n), fs_next := Suc i\<rparr>)))
          else (Inl (PathError ''open'' p e), f)
      | Inr (i, n) \<Rightarrow>
          if cr \<and> ex then (Inl (PathError ''open'' p EEXIST), f)
          else if i_isdir n \<and> (wr \<or> cr) then (Inl (PathError ''open'' p EISDIR), f)
          else if \<not> i_readable n \<or> (wr \<and> \<not> i_writable n) then (Inl (PathError ''open'' p EACCES), f)
          else (Inr \<lparr>of_inode = i, of_name = p\<rparr>,
                if tr then upd_inode i (set_data [] (fs_clock f)) f else f))"

definition child_name :: "string \<Rightarrow> string \<Rightarrow> string option" where
  "child_name p q =
     (let pre = (if p = ''/'' then ''/'' else p @ ''/''); n = drop (length pre) q
      in if HasPrefix q pre \<and> n \<noteq> [] \<and> slash \<notin> set n then Some n else None)"

definition dir_children :: "fs \<Rightarrow> string \<Rightarrow> (string \<times> bool) list" where
  "dir_children f p =
     sort_key fst
       (List.map_filter
         (\<lambda>(q, i). case child_name p q of
             None \<Rightarrow> None
           | Some n \<Rightarrow> (case fs_inodes f i of None \<Rightarrow> None | Some nd \<Rightarrow> Some (n, i_isdir nd)))
         (fs_paths f))"

definition os_ReadDir :: "fs \<Rightarrow> string \<Rightarrow> go_error + (string \<times> bool) list" where
  "os_ReadDir f p =
     (case resolve f p of
        Inl e \<Rightarrow> Inl (PathError ''open'' p e)
      | Inr (i, n) \<Rightarrow>
          if \<not> i_readable n then Inl (PathError ''open'' p EACCES)
          else if \<not> i_isdir n then Inl (PathError ''fdopendir'' p ENOTDIR)
          else if FRead \<in> set (i_faults n) then Inl (PathError ''readdirent'' p EIO)
          else Inr (dir_children f p))"

definition os_ReadFile :: "fs \<Rightarrow> string \<Rightarrow> go_error + bytes" where
  "os_ReadFile f p =
     (case resolve f p of
        Inl e \<Rightarrow> Inl (PathError ''open'' p e)
      | Inr (i, n) \<Rightarrow>
          if \<not> i_readable n then Inl (PathError ''open'' p EACCES)
          else if i_isdir n then Inl (PathError ''read'' p EISDIR)
          else if FRead \<in> set (i_faults n) then Inl (PathError ''read'' p EIO)
          else Inr (i_data n))"

definition os_Remove :: "string \<Rightarrow> fs \<Rightarrow> go_error option \<times> fs" where
  "os_Remove p f =
     (case resolve f p of
        Inl e \<Rightarrow> (Some (PathError ''remove'' p e), f)
      | Inr (i, n) \<Rightarrow>
          if i_isdir n \<and> dir_children f p \<noteq> [] then (Some (PathError ''remove'' p ENOTEMPTY), f)
          else (case resolve f (Dir p) of
             Inl e \<Rightarrow> (Some (PathError ''remove'' p e), f)
           | Inr (d, dn) \<Rightarrow>
               if \<not> i_writable dn then (Some (PathError ''remove'' p EACCES), f)
               else (None, touch_path (Dir p) (f\<lparr>fs_paths := filter (\<lambda>(q, _). q \<noteq> p) (fs_paths f)\<rparr>))))"

definition move_path :: "string \<Rightarrow> string \<Rightarrow> string \<Rightarrow> string" where
  "move_path a b q =
     (if q = a then b else if HasPrefix q (a @ ''/'') then b @ drop (length a) q else q)"

definition os_Rename :: "string \<Rightarrow> string \<Rightarrow> fs \<Rightarrow> go_error option \<times> fs" where
  "os_Rename a b f =
     (case resolve f a of
        Inl e \<Rightarrow> (Some (LinkError ''rename'' a b e), f)
      | Inr (i, n) \<Rightarrow>
          let dst = resolve f b in
          if (case dst of Inr (j, m) \<Rightarrow> i_isdir m | _ \<Rightarrow> False)
            then (Some (LinkError ''rename'' a b EEXIST), f)
          else if a = b then (None, f)
          else if HasPrefix b (a @ ''/'') then (Some (LinkError ''rename'' a b EINVAL), f)
          else if (case dst of Inr (j, m) \<Rightarrow> i_isdir n | _ \<Rightarrow> False)
            then (Some (LinkError ''rename'' a b ENOTDIR), f)
          else (case (resolve f (Dir a), resolve f (Dir b)) of
             (Inr (da, an), Inr (db, bn)) \<Rightarrow>
               if \<not> i_isdir bn then (Some (LinkError ''rename'' a b ENOTDIR), f)
               else if \<not> i_writable an \<or> \<not> i_writable bn
                 then (Some (LinkError ''rename'' a b EACCES), f)
               else (None,
                 touch_path (Dir b) (touch_path (Dir a)
                   (f\<lparr>fs_paths := map (\<lambda>(q, k). (move_path a b q, k))
                        (filter (\<lambda>(q, _). q \<noteq> b \<and> \<not> HasPrefix q (b @ ''/'')) (fs_paths f))\<rparr>)))
           | (Inl e, _) \<Rightarrow> (Some (LinkError ''rename'' a b e), f)
           | (_, Inl e) \<Rightarrow> (Some (LinkError ''rename'' a b e), f)))"

section \<open>Operations on open files\<close>

definition file_ReadAt :: "fs \<Rightarrow> OsFile \<Rightarrow> nat \<Rightarrow> int \<Rightarrow> go_error + bytes \<times> bool" where
  "file_ReadAt f file n offset =
     (case fs_inodes f (of_inode file) of
        None \<Rightarrow> Inl (PathError ''read'' (of_name file) EIO)
      | Some nd \<Rightarrow>
          if FRead \<in> set (i_faults nd) then Inl (PathError ''read'' (of_name file) EIO)
          else let d = take n (drop (nat offset) (i_data nd)) in Inr (d, length d < n))"

text \<open>Bytes written past the end leave a gap of zero bytes.\<close>

definition overlay :: "bytes \<Rightarrow> nat \<Rightarrow> bytes \<Rightarrow> bytes" where
  "overlay old k data =
     (if data = [] then old
      else take k (old @ replicate (k - length old) 0) @ data @ drop (k + length data) old)"

definition file_WriteAt :: "OsFile \<Rightarrow> bytes \<Rightarrow> int \<Rightarrow> fs \<Rightarrow> (nat \<times> go_error option) \<times> fs" where
  "file_WriteAt file data offset f =
     (case fs_inodes f (of_inode file) of
        None \<Rightarrow> ((0, Some (PathError ''write'' (of_name file) EIO)), f)
      | Some nd \<Rightarrow>
          if 2 ^ 63 \<le> offset + int (length data)
            then ((0, Some (PathError ''write'' (of_name file) EFBIG)), f)
          else if FWrite \<in> set (i_faults nd) then ((0, Some (PathError ''write'' (of_name file) EIO)), f)
          else ((length data, None),
                upd_inode (of_inode file)
                  (\<lambda>n. set_data (overlay (i_data n) (nat offset) data) (fs_clock f) n) f))"

definition resize :: "nat \<Rightarrow> bytes \<Rightarrow> bytes" where
  "resize k d = take k d @ replicate (k - length d) 0"

definition file_Truncate :: "OsFile \<Rightarrow> int \<Rightarrow> fs \<Rightarrow> go_error option \<times> fs" where
  "file_Truncate file sz f =
     (case fs_inodes f (of_inode file) of
        None \<Rightarrow> (Some (PathError ''truncate'' (of_name file) EIO), f)
      | Some nd \<Rightarrow>
          if sz < 0 then (Some (PathError ''truncate'' (of_name file) EINVAL), f)
          else if FTruncate \<in> set (i_faults nd)
            then (Some (PathError ''truncate'' (of_name file) EIO), f)
          else (None,
                upd_inode (of_inode file)
                  (\<lambda>n. set_data (resize (nat sz) (i_data n)) (fs_clock f) n) f))"

definition file_fault :: "fs_fault \<Rightarrow> fs \<Rightarrow> OsFile \<Rightarrow> bool" where
  "file_fault x f file =
     (case fs_inodes f (of_inode file) of None \<Rightarrow> True | Some nd \<Rightarrow> x \<in> set (i_faults nd))"

definition file_Sync :: "fs \<Rightarrow> OsFile \<Rightarrow> go_error option" where
  "file_Sync f file =
     (if file_fault FSync f file then Some (PathError ''sync'' (of_name file) EIO) else None)"

definition file_Close :: "fs \<Rightarrow> OsFile \<Rightarrow> go_error option" where
  "file_Close f file =
     (if file_fault FClose f file then Some (PathError ''close'' (of_name file) EIO) else None)"

definition file_Stat :: "fs \<Rightarrow> OsFile \<Rightarrow> go_error + FileInfo" where
  "file_Stat f file =
     (case fs_inodes f (of_inode file) of
        None \<Rightarrow> Inl (PathError ''stat'' (of_name file) EIO)
      | Some nd \<Rightarrow>
          if FStat \<in> set (i_faults nd) then Inl (PathError ''stat'' (of_name file) EIO)
          else Inr (file_info (Base (of_name file)) nd))"

end
