(* ===== verification/Protocol.thy ===== *)
theory Protocol
  imports GoLib
begin

text \<open>
  The wire vocabulary of \<^verbatim>\<open>internal/protocol/types.go\<close>: channels, opcodes, flags, the frame
  header and every request, response and event structure, field by field. A structure
  \<^verbatim>\<open>S\<close> with field \<^verbatim>\<open>F\<close> is the record \<open>S\<close> with field \<open>S_F\<close> (shorter prefixes for the header,
  node information, directory entries and watch events). The string-typed enumerations stay
  strings, since a decoded payload may carry any string. \<^verbatim>\<open>int64\<close> fields are integers.
  The free-form \<^verbatim>\<open>Details\<close> of an error response only ever holds strings.
\<close>

section \<open>Constants\<close>

type_synonym Channel = u8
type_synonym Opcode = u8
type_synonym FileType = string
type_synonym EventType = string
type_synonym ErrorCode = string

abbreviation (input) Magic :: bytes where
  "Magic \<equiv> [68, 77, 78, 84]"

abbreviation (input) Version :: u8 where
  "Version \<equiv> 1"

abbreviation (input) HeaderLength :: nat where
  "HeaderLength \<equiv> 32"

abbreviation (input) ChannelControl :: u8 where
  "ChannelControl \<equiv> 1"

abbreviation (input) ChannelMetadata :: u8 where
  "ChannelMetadata \<equiv> 2"

abbreviation (input) ChannelData :: u8 where
  "ChannelData \<equiv> 3"

abbreviation (input) ChannelEvents :: u8 where
  "ChannelEvents \<equiv> 4"

abbreviation (input) ChannelRecovery :: u8 where
  "ChannelRecovery \<equiv> 5"

abbreviation (input) OpcodeHelloReq :: u8 where
  "OpcodeHelloReq \<equiv> 1"

abbreviation (input) OpcodeHelloResp :: u8 where
  "OpcodeHelloResp \<equiv> 2"

abbreviation (input) OpcodeAuthReq :: u8 where
  "OpcodeAuthReq \<equiv> 3"

abbreviation (input) OpcodeAuthResp :: u8 where
  "OpcodeAuthResp \<equiv> 4"

abbreviation (input) OpcodeCreateSessionReq :: u8 where
  "OpcodeCreateSessionReq \<equiv> 5"

abbreviation (input) OpcodeCreateSessionResp :: u8 where
  "OpcodeCreateSessionResp \<equiv> 6"

abbreviation (input) OpcodeResumeSessionReq :: u8 where
  "OpcodeResumeSessionReq \<equiv> 7"

abbreviation (input) OpcodeResumeSessionResp :: u8 where
  "OpcodeResumeSessionResp \<equiv> 8"

abbreviation (input) OpcodeHeartbeatReq :: u8 where
  "OpcodeHeartbeatReq \<equiv> 9"

abbreviation (input) OpcodeHeartbeatResp :: u8 where
  "OpcodeHeartbeatResp \<equiv> 10"

abbreviation (input) OpcodeErrorResp :: u8 where
  "OpcodeErrorResp \<equiv> 11"

abbreviation (input) OpcodeLookupReq :: u8 where
  "OpcodeLookupReq \<equiv> 20"

abbreviation (input) OpcodeLookupResp :: u8 where
  "OpcodeLookupResp \<equiv> 21"

abbreviation (input) OpcodeGetAttrReq :: u8 where
  "OpcodeGetAttrReq \<equiv> 22"

abbreviation (input) OpcodeGetAttrResp :: u8 where
  "OpcodeGetAttrResp \<equiv> 23"

abbreviation (input) OpcodeOpenDirReq :: u8 where
  "OpcodeOpenDirReq \<equiv> 24"

abbreviation (input) OpcodeOpenDirResp :: u8 where
  "OpcodeOpenDirResp \<equiv> 25"

abbreviation (input) OpcodeReadDirReq :: u8 where
  "OpcodeReadDirReq \<equiv> 26"

abbreviation (input) OpcodeReadDirResp :: u8 where
  "OpcodeReadDirResp \<equiv> 27"

abbreviation (input) OpcodeRenameReq :: u8 where
  "OpcodeRenameReq \<equiv> 28"

abbreviation (input) OpcodeRenameResp :: u8 where
  "OpcodeRenameResp \<equiv> 29"

abbreviation (input) OpcodeCloseDirReq :: u8 where
  "OpcodeCloseDirReq \<equiv> 30"

abbreviation (input) OpcodeCloseDirResp :: u8 where
  "OpcodeCloseDirResp \<equiv> 31"

abbreviation (input) OpcodeOpenReq :: u8 where
  "OpcodeOpenReq \<equiv> 40"

abbreviation (input) OpcodeOpenResp :: u8 where
  "OpcodeOpenResp \<equiv> 41"

abbreviation (input) OpcodeCreateReq :: u8 where
  "OpcodeCreateReq \<equiv> 42"

abbreviation (input) OpcodeCreateResp :: u8 where
  "OpcodeCreateResp \<equiv> 43"

abbreviation (input) OpcodeReadReq :: u8 where
  "OpcodeReadReq \<equiv> 44"

abbreviation (input) OpcodeReadResp :: u8 where
  "OpcodeReadResp \<equiv> 45"

abbreviation (input) OpcodeWriteReq :: u8 where
  "OpcodeWriteReq \<equiv> 46"

abbreviation (input) OpcodeWriteResp :: u8 where
  "OpcodeWriteResp \<equiv> 47"

abbreviation (input) OpcodeFlushReq :: u8 where
  "OpcodeFlushReq \<equiv> 48"

abbreviation (input) OpcodeFlushResp :: u8 where
  "OpcodeFlushResp \<equiv> 49"

abbreviation (input) OpcodeTruncateReq :: u8 where
  "OpcodeTruncateReq \<equiv> 50"

abbreviation (input) OpcodeTruncateResp :: u8 where
  "OpcodeTruncateResp \<equiv> 51"

abbreviation (input) OpcodeSetDeleteOnCloseReq :: u8 where
  "OpcodeSetDeleteOnCloseReq \<equiv> 52"

abbreviation (input) OpcodeSetDeleteOnCloseResp :: u8 where
  "OpcodeSetDeleteOnCloseResp \<equiv> 53"

abbreviation (input) OpcodeCloseReq :: u8 where
  "OpcodeCloseReq \<equiv> 54"

abbreviation (input) OpcodeCloseResp :: u8 where
  "OpcodeCloseResp \<equiv> 55"

abbreviation (input) OpcodeSubscribeReq :: u8 where
  "OpcodeSubscribeReq \<equiv> 60"

abbreviation (input) OpcodeSubscribeResp :: u8 where
  "OpcodeSubscribeResp \<equiv> 61"

abbreviation (input) OpcodePollEventsReq :: u8 where
  "OpcodePollEventsReq \<equiv> 62"

abbreviation (input) OpcodePollEventsResp :: u8 where
  "OpcodePollEventsResp \<equiv> 63"

abbreviation (input) OpcodeAckEventsReq :: u8 where
  "OpcodeAckEventsReq \<equiv> 64"

abbreviation (input) OpcodeAckEventsResp :: u8 where
  "OpcodeAckEventsResp \<equiv> 65"

abbreviation (input) OpcodeResyncReq :: u8 where
  "OpcodeResyncReq \<equiv> 66"

abbreviation (input) OpcodeResyncResp :: u8 where
  "OpcodeResyncResp \<equiv> 67"

abbreviation (input) OpcodeRecoverHandlesReq :: u8 where
  "OpcodeRecoverHandlesReq \<equiv> 70"

abbreviation (input) OpcodeRecoverHandlesResp :: u8 where
  "OpcodeRecoverHandlesResp \<equiv> 71"

abbreviation (input) OpcodeRevalidateReq :: u8 where
  "OpcodeRevalidateReq \<equiv> 72"

abbreviation (input) OpcodeRevalidateResp :: u8 where
  "OpcodeRevalidateResp \<equiv> 73"

abbreviation (input) OpcodeResubscribeReq :: u8 where
  "OpcodeResubscribeReq \<equiv> 74"

abbreviation (input) OpcodeResubscribeResp :: u8 where
  "OpcodeResubscribeResp \<equiv> 75"

abbreviation (input) FlagRequest :: u32 where
  "FlagRequest \<equiv> 1"

abbreviation (input) FlagResponse :: u32 where
  "FlagResponse \<equiv> 2"

abbreviation (input) FlagError :: u32 where
  "FlagError \<equiv> 4"

abbreviation (input) FlagAckRequired :: u32 where
  "FlagAckRequired \<equiv> 8"

abbreviation (input) FlagReplay :: u32 where
  "FlagReplay \<equiv> 16"

abbreviation (input) FlagCompressed :: u32 where
  "FlagCompressed \<equiv> 32"

abbreviation (input) FileTypeFile :: FileType where
  "FileTypeFile \<equiv> ''file''"

abbreviation (input) FileTypeDirectory :: FileType where
  "FileTypeDirectory \<equiv> ''directory''"

abbreviation (input) EventCreate :: EventType where
  "EventCreate \<equiv> ''create''"

abbreviation (input) EventDelete :: EventType where
  "EventDelete \<equiv> ''delete''"

abbreviation (input) EventContentChanged :: EventType where
  "EventContentChanged \<equiv> ''content_changed''"

abbreviation (input) EventMetaChanged :: EventType where
  "EventMetaChanged \<equiv> ''meta_changed''"

abbreviation (input) EventRenameFrom :: EventType where
  "EventRenameFrom \<equiv> ''rename_from''"

abbreviation (input) EventRenameTo :: EventType where
  "EventRenameTo \<equiv> ''rename_to''"

abbreviation (input) ErrInvalidRequest :: ErrorCode where
  "ErrInvalidRequest \<equiv> ''ERR_INVALID_REQUEST''"

abbreviation (input) ErrUnsupportedVersion :: ErrorCode where
  "ErrUnsupportedVersion \<equiv> ''ERR_UNSUPPORTED_VERSION''"

abbreviation (input) ErrUnsupportedOp :: ErrorCode where
  "ErrUnsupportedOp \<equiv> ''ERR_UNSUPPORTED_OPERATION''"

abbreviation (input) ErrAuthRequired :: ErrorCode where
  "ErrAuthRequired \<equiv> ''ERR_AUTH_REQUIRED''"

abbreviation (input) ErrSessionExpired :: ErrorCode where
  "ErrSessionExpired \<equiv> ''ERR_SESSION_EXPIRED''"

abbreviation (input) ErrSessionNotFound :: ErrorCode where
  "ErrSessionNotFound \<equiv> ''ERR_SESSION_NOT_FOUND''"

abbreviation (input) ErrCapabilityMismatch :: ErrorCode where
  "ErrCapabilityMismatch \<equiv> ''ERR_CAPABILITY_MISMATCH''"

abbreviation (input) ErrNotFound :: ErrorCode where
  "ErrNotFound \<equiv> ''ERR_NOT_FOUND''"

abbreviation (input) ErrAlreadyExists :: ErrorCode where
  "ErrAlreadyExists \<equiv> ''ERR_ALREADY_EXISTS''"

abbreviation (input) ErrNotDir :: ErrorCode where
  "ErrNotDir \<equiv> ''ERR_NOT_DIR''"

abbreviation (input) ErrIsDir :: ErrorCode where
  "ErrIsDir \<equiv> ''ERR_IS_DIR''"

abbreviation (input) ErrInvalidHandle :: ErrorCode where
  "ErrInvalidHandle \<equiv> ''ERR_INVALID_HANDLE''"

abbreviation (input) ErrAccessDenied :: ErrorCode where
  "ErrAccessDenied \<equiv> ''ERR_ACCESS_DENIED''"

abbreviation (input) ErrWatchNotFound :: ErrorCode where
  "ErrWatchNotFound \<equiv> ''ERR_WATCH_NOT_FOUND''"

abbreviation (input) ErrRecoveryFailed :: ErrorCode where
  "ErrRecoveryFailed \<equiv> ''ERR_RECOVERY_FAILED''"

abbreviation (input) ErrInternal :: ErrorCode where
  "ErrInternal \<equiv> ''ERR_INTERNAL''"

section \<open>Structures\<close>

record Header =
  h_Magic :: bytes
  h_Version :: u8
  h_HeaderLength :: u8
  h_Channel :: Channel
  h_Opcode :: Opcode
  h_Flags :: u32
  h_RequestID :: u64
  h_SessionID :: u64
  h_PayloadLength :: u32

record CapabilitySet =
  CapabilitySet_Transport :: "string list"
  CapabilitySet_Channels :: "string list"
  CapabilitySet_Features :: "string list"

record HelloReq =
  HelloReq_ClientName :: string
  HelloReq_ClientVersion :: string
  HelloReq_SupportedProtocolVersions :: "u8 list"
  HelloReq_Capabilities :: CapabilitySet

record HelloResp =
  HelloResp_ServerName :: string
  HelloResp_ServerVersion :: string
  HelloResp_SelectedProtocolVersion :: u8
  HelloResp_ServerTime :: string
  HelloResp_Capabilities :: CapabilitySet

record AuthReq =
  AuthReq_Scheme :: string
  AuthReq_Token :: string

record AuthResp =
  AuthResp_Authenticated :: bool
  AuthResp_PrincipalID :: string
  AuthResp_DisplayName :: string
  AuthResp_GrantedFeature :: "string list"

record CreateSessionReq =
  CreateSessionReq_ClientInstanceID :: string
  CreateSessionReq_RequestedLeaseSeconds :: u32
  CreateSessionReq_MountName :: string

record CreateSessionResp =
  CreateSessionResp_SessionID :: u64
  CreateSessionResp_LeaseSeconds :: u32
  CreateSessionResp_ExpiresAt :: string
  CreateSessionResp_State :: string

record ResumeSessionReq =
  ResumeSessionReq_SessionID :: u64
  ResumeSessionReq_ClientInstanceID :: string
  ResumeSessionReq_LastKnownServerTime :: string

record ResumeSessionResp =
  ResumeSessionResp_SessionID :: u64
  ResumeSessionResp_LeaseSeconds :: u32
  ResumeSessionResp_ExpiresAt :: string
  ResumeSessionResp_State :: string

record HeartbeatReq =
  HeartbeatReq_SessionID :: u64
  HeartbeatReq_ClientTime :: string

record HeartbeatResp =
  HeartbeatResp_SessionID :: u64
  HeartbeatResp_ServerTime :: string
  HeartbeatResp_ExpiresAt :: string
  HeartbeatResp_State :: string

record NodeInfo =
  ni_NodeID :: u64
  ni_ParentNodeID :: u64
  ni_Name :: string
  ni_FileType :: FileType
  ni_Size :: int
  ni_Mode :: u32
  ni_ModTime :: string

record LookupReq =
  LookupReq_ParentNodeID :: u64
  LookupReq_Name :: string

record LookupResp =
  LookupResp_Entry :: NodeInfo

record GetAttrReq =
  GetAttrReq_NodeID :: u64

record GetAttrResp =
  GetAttrResp_Entry :: NodeInfo

record OpenDirReq =
  OpenDirReq_NodeID :: u64

record OpenDirResp =
  OpenDirResp_DirCursorID :: u64

record DirEntry =
  de_NodeID :: u64
  de_Name :: string
  de_FileType :: FileType
  de_Size :: int
  de_Mode :: u32
  de_ModTime :: string

record ReadDirReq =
  ReadDirReq_DirCursorID :: u64
  ReadDirReq_Cookie :: u64
  ReadDirReq_MaxEntries :: u32

record ReadDirResp =
  ReadDirResp_Entries :: "DirEntry list"
  ReadDirResp_NextCookie :: u64
  ReadDirResp_EOF :: bool

record CloseDirReq =
  CloseDirReq_DirCursorID :: u64

record CloseDirResp =
  CloseDirResp_Closed :: bool

record RenameReq =
  RenameReq_SrcParentNodeID :: u64
  RenameReq_SrcName :: string
  RenameReq_DstParentNodeID :: u64
  RenameReq_DstName :: string
  RenameReq_ReplaceExisting :: bool

record RenameResp =
  RenameResp_Entry :: NodeInfo

record OpenReq =
  OpenReq_NodeID :: u64
  OpenReq_Writable :: bool
  OpenReq_Truncate :: bool

record OpenResp =
  OpenResp_HandleID :: u64
  OpenResp_Size :: int

record CreateReq =
  CreateReq_ParentNodeID :: u64
  CreateReq_Name :: string
  CreateReq_Overwrite :: bool

record CreateResp =
  CreateResp_Entry :: NodeInfo
  CreateResp_HandleID :: u64

record ReadReq =
  ReadReq_HandleID :: u64
  ReadReq_Offset :: int
  ReadReq_Length :: u32

record ReadResp =
  ReadResp_Data :: bytes
  ReadResp_EOF :: bool
  ReadResp_Offset :: int

record WriteReq =
  WriteReq_HandleID :: u64
  WriteReq_Offset :: int
  WriteReq_Data :: bytes

record WriteResp =
  WriteResp_BytesWritten :: int
  WriteResp_NewSize :: int

record FlushReq =
  FlushReq_HandleID :: u64

record FlushResp =
  FlushResp_Flushed :: bool

record TruncateReq =
  TruncateReq_HandleID :: u64
  TruncateReq_Size :: int

record TruncateResp =
  TruncateResp_Size :: int

record SetDeleteOnCloseReq =
  SetDeleteOnCloseReq_HandleID :: u64
  SetDeleteOnCloseReq_DeleteOnClose :: bool

record SetDeleteOnCloseResp =
  SetDeleteOnCloseResp_DeleteOnClose :: bool

record CloseReq =
  CloseReq_HandleID :: u64

record CloseResp =
  CloseResp_Closed :: bool

record SubscribeReq =
  SubscribeReq_NodeID :: u64
  SubscribeReq_Recursive :: bool
  SubscribeReq_BufferHint :: u32

record SubscribeResp =
  SubscribeResp_WatchID :: u64
  SubscribeResp_StartSeq :: u64

record WatchEvent =
  we_EventSeq :: u64
  we_EventTime :: string
  we_WatchID :: u64
  we_EventType :: EventType
  we_NodeID :: u64
  we_ParentNodeID :: u64
  we_OldParentNodeID :: u64
  we_Name :: string
  we_OldName :: string
  we_Path :: string
  we_OldPath :: string

record PollEventsReq =
  PollEventsReq_WatchID :: u64
  PollEventsReq_AfterSeq :: u64
  PollEventsReq_MaxEvents :: u32

record PollEventsResp =
  PollEventsResp_Events :: "WatchEvent list"
  PollEventsResp_LatestSeq :: u64
  PollEventsResp_Overflow :: bool
  PollEventsResp_NeedsResync :: bool
  PollEventsResp_AckedSeq :: u64

record AckEventsReq =
  AckEventsReq_WatchID :: u64
  AckEventsReq_EventSeq :: u64

record AckEventsResp =
  AckEventsResp_WatchID :: u64
  AckEventsResp_AckedSeq :: u64

record SnapshotEntry =
  SnapshotEntry_RelativePath :: string
  SnapshotEntry_Entry :: NodeInfo

record ResyncReq =
  ResyncReq_WatchID :: u64

record ResyncResp =
  ResyncResp_WatchID :: u64
  ResyncResp_SnapshotSeq :: u64
  ResyncResp_Entries :: "SnapshotEntry list"

record RecoverHandleSpec =
  RecoverHandleSpec_PreviousHandleID :: u64
  RecoverHandleSpec_NodeID :: u64
  RecoverHandleSpec_Writable :: bool
  RecoverHandleSpec_DeleteOnClose :: bool

record RecoverHandlesReq =
  RecoverHandlesReq_Handles :: "RecoverHandleSpec list"

record RecoverHandleResult =
  RecoverHandleResult_PreviousHandleID :: u64
  RecoverHandleResult_HandleID :: u64
  RecoverHandleResult_NodeID :: u64
  RecoverHandleResult_Size :: int
  RecoverHandleResult_DeleteOnClose :: bool
  RecoverHandleResult_Error :: string

record RecoverHandlesResp =
  RecoverHandlesResp_Handles :: "RecoverHandleResult list"

record RevalidateReq =
  RevalidateReq_NodeIDs :: "u64 list"

record RevalidateEntry =
  RevalidateEntry_NodeID :: u64
  RevalidateEntry_Exists :: bool
  RevalidateEntry_Entry :: NodeInfo
  RevalidateEntry_Error :: string

record RevalidateResp =
  RevalidateResp_Entries :: "RevalidateEntry list"

record ResubscribeSpec =
  ResubscribeSpec_PreviousWatchID :: u64
  ResubscribeSpec_NodeID :: u64
  ResubscribeSpec_Recursive :: bool
  ResubscribeSpec_AfterSeq :: u64

record ResubscribeResult =
  ResubscribeResult_PreviousWatchID :: u64
  ResubscribeResult_WatchID :: u64
  ResubscribeResult_StartSeq :: u64
  ResubscribeResult_AckedSeq :: u64
  ResubscribeResult_Error :: string

record ResubscribeReq =
  ResubscribeReq_Watches :: "ResubscribeSpec list"

record ResubscribeResp =
  ResubscribeResp_Watches :: "ResubscribeResult list"

record ErrorResp =
  ErrorResp_Code :: ErrorCode
  ErrorResp_Message :: string
  ErrorResp_Retryable :: bool
  ErrorResp_Details :: "(string \<times> string) list"

section \<open>Functions\<close>

definition DefaultCapabilities :: CapabilitySet where
  "DefaultCapabilities =
     \<lparr>CapabilitySet_Transport = [''tcp-json''],
      CapabilitySet_Channels = [''control'', ''metadata'', ''data'', ''events'', ''recovery''],
      CapabilitySet_Features =
        [''auth-basic'', ''session-create'', ''resume-session'', ''heartbeat'',
         ''lookup'', ''getattr'', ''readdir'', ''read-open'',
         ''create'', ''write'', ''flush'', ''truncate'', ''rename'', ''delete-on-close'',
         ''watcher-journal'', ''subscribe'', ''poll-events'', ''ack-events'', ''resync-snapshot'',
         ''recover-handles'', ''revalidate-cache'', ''resubscribe-watch'']\<rparr>"

definition NowRFC3339 :: "instant \<Rightarrow> string" where
  "NowRFC3339 now = FormatRFC3339 now"

end
