(* ===== verification/Profile.thy ===== *)
theory Profile
  imports Filesystem Protocol
begin

text \<open>
  The workspace profile of \<^verbatim>\<open>internal/server/editor_profile.go\<close>: which directories and files of a
  workspace are worth prefetching. The three name sets are sets of strings, as the Go maps with
  empty values are.
\<close>

datatype prefetchPriority = prefetchPriorityNormal | prefetchPriorityHigh

datatype prefetchJobKind = prefetchJobDirSnapshot | prefetchJobSmallFile

record prefetchJob =
  pj_priority :: prefetchPriority
  pj_kind :: prefetchJobKind
  pj_nodeID :: u64
  pj_relPath :: string

record workspaceProfile =
  HotDirs :: "string set"
  HotFiles :: "string set"
  IgnoreDirs :: "string set"
  SmallFileThreshold :: int

definition defaultWorkspaceProfile :: workspaceProfile where
  "defaultWorkspaceProfile =
     \<lparr>HotDirs = {''.git'', ''.vscode'', ''src'', ''cmd'', ''internal'', ''pkg'', ''include'', ''lib''},
      HotFiles = {''package.json'', ''tsconfig.json'', ''go.mod'', ''Cargo.toml'', ''pyproject.toml'',
        ''.gitignore'', ''README.md'', ''README''},
      IgnoreDirs = {''node_modules'', ''dist'', ''build'', ''target'', ''.venv'', ''__pycache__''},
      SmallFileThreshold = 256 * 1024\<rparr>"

definition hot_dir_candidates :: "string list" where
  "hot_dir_candidates =
     [''web'', ''app'', ''apps'', ''services'', ''configs'', ''config'', ''scripts'', ''test'', ''tests'']"

definition hot_file_candidates :: "string list" where
  "hot_file_candidates =
     [''pnpm-lock.yaml'', ''yarn.lock'', ''package-lock.json'', ''requirements.txt'', ''Makefile'',
      ''Taskfile.yml'']"

definition inferWorkspaceProfile :: "fs \<Rightarrow> string \<Rightarrow> workspaceProfile" where
  "inferWorkspaceProfile f rootPath =
     (let profile = defaultWorkspaceProfile;
          profile = fold (\<lambda>name p.
            case os_Stat f (path_Join rootPath name) of
              Inr info \<Rightarrow> if fi_IsDir info then p\<lparr>HotDirs := insert name (HotDirs p)\<rparr> else p
            | Inl _ \<Rightarrow> p) hot_dir_candidates profile
      in fold (\<lambda>name p.
            case os_Stat f (path_Join rootPath name) of
              Inr info \<Rightarrow> if \<not> fi_IsDir info then p\<lparr>HotFiles := insert name (HotFiles p)\<rparr> else p
            | Inl _ \<Rightarrow> p) hot_file_candidates profile)"

definition IsHotDir :: "workspaceProfile \<Rightarrow> string \<Rightarrow> bool" where
  "IsHotDir p name \<longleftrightarrow> name \<in> HotDirs p"

definition IsIgnoredDir :: "workspaceProfile \<Rightarrow> string \<Rightarrow> bool" where
  "IsIgnoredDir p name \<longleftrightarrow> name \<in> IgnoreDirs p"

definition IsHotFile :: "workspaceProfile \<Rightarrow> string \<Rightarrow> bool" where
  "IsHotFile p name \<longleftrightarrow> name \<in> HotFiles p"

definition small_file_exts :: "string set" where
  "small_file_exts =
     {''.json'', ''.ts'', ''.tsx'', ''.js'', ''.jsx'', ''.py'', ''.go'', ''.c'', ''.cc'', ''.cpp'', ''.h'',
      ''.hpp'', ''.rs'', ''.md'', ''.toml'', ''.yml'', ''.yaml'', ''.txt'', ''.lock''}"

definition IsSmallFileCandidate :: "workspaceProfile \<Rightarrow> string \<Rightarrow> NodeInfo \<Rightarrow> bool" where
  "IsSmallFileCandidate p relPath info =
     (if ni_FileType info \<noteq> FileTypeFile then False
      else if SmallFileThreshold p < ni_Size info then False
      else
        let base = Base relPath in
        if IsHotFile p base then True
        else ToLower (Ext base) \<in> small_file_exts)"

text \<open>
  Whatever the workspace holds, the inferred profile keeps the default's threshold and ignored
  directories, and adds exactly the candidates that exist with the right kind.
\<close>

lemma fold_insert_dirs:
  "fold (\<lambda>name p. case os_Stat f (path_Join r name) of
      Inr info \<Rightarrow> if fi_IsDir info then p\<lparr>HotDirs := insert name (HotDirs p)\<rparr> else p | Inl _ \<Rightarrow> p) ns p
   = p\<lparr>HotDirs := HotDirs p \<union>
        {n \<in> set ns. \<exists>info. os_Stat f (path_Join r n) = Inr info \<and> fi_IsDir info}\<rparr>"
  by (induction ns arbitrary: p) (auto intro!: workspaceProfile.equality split: sum.split)

lemma fold_insert_files:
  "fold (\<lambda>name p. case os_Stat f (path_Join r name) of
      Inr info \<Rightarrow> if \<not> fi_IsDir info then p\<lparr>HotFiles := insert name (HotFiles p)\<rparr> else p | Inl _ \<Rightarrow> p) ns p
   = p\<lparr>HotFiles := HotFiles p \<union>
        {n \<in> set ns. \<exists>info. os_Stat f (path_Join r n) = Inr info \<and> \<not> fi_IsDir info}\<rparr>"
  by (induction ns arbitrary: p) (auto intro!: workspaceProfile.equality split: sum.split)

lemma inferWorkspaceProfile_eq:
  "inferWorkspaceProfile f r =
     defaultWorkspaceProfile
       \<lparr>HotDirs := HotDirs defaultWorkspaceProfile \<union>
          {n \<in> set hot_dir_candidates. \<exists>info. os_Stat f (path_Join r n) = Inr info \<and> fi_IsDir info},
        HotFiles := HotFiles defaultWorkspaceProfile \<union>
          {n \<in> set hot_file_candidates.
             \<exists>info. os_Stat f (path_Join r n) = Inr info \<and> \<not> fi_IsDir info}\<rparr>"
  by (simp add: inferWorkspaceProfile_def fold_insert_dirs fold_insert_files)

lemma inferWorkspaceProfile_threshold [simp]:
  "SmallFileThreshold (inferWorkspaceProfile f r) = 262144"
  by (simp add: inferWorkspaceProfile_eq) (simp add: defaultWorkspaceProfile_def)

lemma IsSmallFileCandidate_bound:
  "IsSmallFileCandidate p rel info \<Longrightarrow>
   ni_FileType info = FileTypeFile \<and> ni_Size info \<le> SmallFileThreshold p"
  by (auto simp: IsSmallFileCandidate_def split: if_splits)

end
