(* ===== verification/Metadata.thy ===== *)
theory Metadata
  imports Profile "HOL-Library.Sublist"
begin

text \<open>
  The state of the metadata backend (\<^verbatim>\<open>internal/server/metadata_backend.go\<close> and
  \<^verbatim>\<open>metadata_cache.go\<close>) and its internal operations: the node table, the four caches with their
  time to live, directory snapshots and the prefetcher. The public operations are in the next
  theory. Every operation takes the state and returns its result with the new state; the clock
  stands still during one operation (\<open>b_now\<close>) and moves between operations. The duration counters
  of \<^verbatim>\<open>b.diag\<close>, which no operation reads, are left out. The identifier counters are kept as natural
  numbers, and the \<^verbatim>\<open>uint64\<close> the code reads is their value modulo \<open>2 ^ 64\<close>.
\<close>

section \<open>State\<close>

record nodeRecord =
  nr_id :: u64
  nr_parentID :: u64
  nr_relPath :: string

record dirCursor =
  dc_id :: u64
  dc_nodeID :: u64
  dc_entries :: "DirEntry list"

record fileHandle =
  fh_id :: u64
  fh_nodeID :: u64
  fh_parentID :: u64
  fh_relPath :: string
  fh_file :: OsFile
  fh_size :: int
  fh_writable :: bool
  fh_deleteOnClose :: bool

record attrCacheEntry =
  ac_info :: NodeInfo
  ac_expiresAt :: instant

record negativeCacheEntry =
  nc_expiresAt :: instant

record dirSnapshotEntry =
  ds_entries :: "DirEntry list"
  ds_expiresAt :: instant

record smallFileCacheEntry =
  sf_data :: bytes
  sf_expiresAt :: instant

record metadataCacheStats =
  attrHits :: u64
  attrMisses :: u64
  negativeHits :: u64
  negativeMisses :: u64
  dirSnapshotHits :: u64
  dirSnapshotMisses :: u64
  smallFileHits :: u64
  smallFileMisses :: u64
  smallFilePrefetches :: u64
  rootPrefetches :: u64
  hotDirPrefetches :: u64
  hotFilePrefetches :: u64
  highPriorityPrefetches :: u64
  normalPriorityPrefetches :: u64

definition zero_stats :: metadataCacheStats where
  "zero_stats =
     \<lparr>attrHits = 0, attrMisses = 0, negativeHits = 0, negativeMisses = 0, dirSnapshotHits = 0,
      dirSnapshotMisses = 0, smallFileHits = 0, smallFileMisses = 0, smallFilePrefetches = 0,
      rootPrefetches = 0, hotDirPrefetches = 0, hotFilePrefetches = 0, highPriorityPrefetches = 0,
      normalPriorityPrefetches = 0\<rparr>"

record metadataBackend =
  b_rootPath :: string
  b_now :: instant
  b_cacheTTL :: duration
  b_nextNodeID :: nat
  b_nextCursorID :: nat
  b_nextHandleID :: nat
  b_stats :: metadataCacheStats
  b_profile :: workspaceProfile
  b_nodesByID :: "u64 \<rightharpoonup> nodeRecord"
  b_nodesByPath :: "string \<rightharpoonup> u64"
  b_cursors :: "u64 \<rightharpoonup> dirCursor"
  b_handles :: "u64 \<rightharpoonup> fileHandle"
  b_attrCache :: "string \<rightharpoonup> attrCacheEntry"
  b_negativeCache :: "string \<rightharpoonup> negativeCacheEntry"
  b_dirSnapshots :: "u64 \<rightharpoonup> dirSnapshotEntry"
  b_smallFileCache :: "string \<rightharpoonup> smallFileCacheEntry"
  b_fs :: fs

type_synonym 'a outcome = "(go_error + 'a) \<times> metadataBackend"

abbreviation (input) defaultMetadataCacheTTL :: duration where
  "defaultMetadataCacheTTL \<equiv> 2 * second_ns"

text \<open>\<^verbatim>\<open>stats.x.Add(1)\<close>, with the field given by its update function.\<close>

abbreviation (input) count ::
  "((u64 \<Rightarrow> u64) \<Rightarrow> metadataCacheStats \<Rightarrow> metadataCacheStats) \<Rightarrow> metadataBackend \<Rightarrow> metadataBackend" where
  "count field b \<equiv> b_stats_update (field (\<lambda>n. n + 1)) b"

definition RootNodeID :: u64 where
  "RootNodeID = 1"

definition zero_NodeInfo :: NodeInfo where
  "zero_NodeInfo =
     \<lparr>ni_NodeID = 0, ni_ParentNodeID = 0, ni_Name = [], ni_FileType = [], ni_Size = 0, ni_Mode = 0,
      ni_ModTime = []\<rparr>"

section \<open>Names, paths and errors\<close>

definition isValidSingleName :: "string \<Rightarrow> bool" where
  "isValidSingleName name \<longleftrightarrow>
     name \<noteq> [] \<and> name \<noteq> ''.'' \<and> name \<noteq> ''..'' \<and> \<not> Contains name ''/'' \<and> \<not> Contains name [slash]"

definition absPath :: "metadataBackend \<Rightarrow> string \<Rightarrow> string" where
  "absPath b relPath = (if relPath = [] then b_rootPath b else path_Join (b_rootPath b) relPath)"

definition child_rel :: "string \<Rightarrow> string \<Rightarrow> string" where
  "child_rel relPath name = TrimPrefix (path_Join relPath name) [slash]"

definition parent_path :: "string \<Rightarrow> string" where
  "parent_path relPath = (if Dir relPath = ''.'' then [] else Dir relPath)"

definition isNotExist :: "go_error option \<Rightarrow> bool" where
  "isNotExist err = (case err of None \<Rightarrow> False | Some e \<Rightarrow> IsNotExist e)"

definition isNotDir :: "go_error option \<Rightarrow> bool" where
  "isNotDir err =
     (case err of None \<Rightarrow> False
      | Some e \<Rightarrow> e = errNotDir \<or> Contains (ToLower (error_text e)) ''not a directory'')"

definition isDir :: "go_error option \<Rightarrow> bool" where
  "isDir err =
     (case err of None \<Rightarrow> False
      | Some e \<Rightarrow> e = errIsDir \<or> Contains (ToLower (error_text e)) ''is a directory'')"

section \<open>Node table\<close>

definition nodeByID :: "u64 \<Rightarrow> metadataBackend \<Rightarrow> go_error + nodeRecord" where
  "nodeByID nodeID b =
     (case b_nodesByID b nodeID of None \<Rightarrow> Inl ErrNotExist | Some rec \<Rightarrow> Inr rec)"

definition handleByID :: "u64 \<Rightarrow> metadataBackend \<Rightarrow> go_error + fileHandle" where
  "handleByID handleID b =
     (case b_handles b handleID of None \<Rightarrow> Inl errInvalidHandle | Some h \<Rightarrow> Inr h)"

text \<open>
  The second half of \<^verbatim>\<open>ensureNode\<close>: an identifier is taken from the counter, and then, under the
  lock, the table is read again, because another request may have entered the path meanwhile.
\<close>

definition insert_node :: "string \<Rightarrow> u64 \<Rightarrow> metadataBackend \<Rightarrow> u64 \<times> metadataBackend" where
  "insert_node relPath parentHint b =
     (let n = Suc (b_nextNodeID b); i = of_nat n; b = b\<lparr>b_nextNodeID := n\<rparr> in
      case b_nodesByPath b relPath of
        Some existing \<Rightarrow> (existing, b)
      | None \<Rightarrow>
          (i, b\<lparr>b_nodesByPath := (b_nodesByPath b)(relPath \<mapsto> i),
                b_nodesByID := (b_nodesByID b)
                  (i \<mapsto> \<lparr>nr_id = i, nr_parentID = parentHint, nr_relPath = relPath\<rparr>)\<rparr>))"

text \<open>
  \<^verbatim>\<open>ensureNode\<close> calls itself once, on the parent path and with the non-zero hint 1, and that call
  does not call itself again: \<open>ensureNode_hinted\<close> is the function on non-zero hints.
\<close>

definition ensureNode_hinted :: "string \<Rightarrow> u64 \<Rightarrow> metadataBackend \<Rightarrow> u64 \<times> metadataBackend" where
  "ensureNode_hinted relPath parentHint b =
     (let relPath = TrimPrefix relPath [slash] in
      case b_nodesByPath b relPath of
        Some i \<Rightarrow> (i, b)
      | None \<Rightarrow> if relPath = [] then (1, b) else insert_node relPath parentHint b)"

definition ensureNode :: "string \<Rightarrow> u64 \<Rightarrow> metadataBackend \<Rightarrow> u64 \<times> metadataBackend" where
  "ensureNode relPath parentHint b =
     (let relPath = TrimPrefix relPath [slash] in
      case b_nodesByPath b relPath of
        Some i \<Rightarrow> (i, b)
      | None \<Rightarrow>
          if relPath = [] then (1, b)
          else if parentHint = 0 then
            (let (hint, b) = ensureNode_hinted (parent_path relPath) 1 b
             in insert_node relPath hint b)
          else insert_node relPath parentHint b)"

definition movePathMapping :: "string \<Rightarrow> string \<Rightarrow> u64 \<Rightarrow> metadataBackend \<Rightarrow> metadataBackend" where
  "movePathMapping srcRel dstRel dstParentID b =
     (let b = (case b_nodesByPath b srcRel of
          None \<Rightarrow> b
        | Some i \<Rightarrow>
            let rec = (case b_nodesByID b i of
                 Some rec \<Rightarrow> rec
               | None \<Rightarrow> \<lparr>nr_id = 0, nr_parentID = 0, nr_relPath = []\<rparr>)
            in b\<lparr>b_nodesByPath := (b_nodesByPath b)(srcRel := None, dstRel \<mapsto> i),
                 b_nodesByID := (b_nodesByID b)
                   (i \<mapsto> rec\<lparr>nr_relPath := dstRel, nr_parentID := dstParentID\<rparr>)\<rparr>)
      in b\<lparr>b_attrCache := (b_attrCache b)(srcRel := None, dstRel := None),
           b_negativeCache := (b_negativeCache b)(srcRel := None, dstRel := None),
           b_smallFileCache := (b_smallFileCache b)(srcRel := None, dstRel := None)\<rparr>)"

definition removePathMapping :: "string \<Rightarrow> metadataBackend \<Rightarrow> metadataBackend" where
  "removePathMapping relPath b =
     (let b = (case b_nodesByPath b relPath of
          None \<Rightarrow> b
        | Some i \<Rightarrow> b\<lparr>b_nodesByPath := (b_nodesByPath b)(relPath := None),
                        b_nodesByID := (b_nodesByID b)(i := None)\<rparr>)
      in b\<lparr>b_attrCache := (b_attrCache b)(relPath := None),
           b_negativeCache := (b_negativeCache b)(relPath := None),
           b_smallFileCache := (b_smallFileCache b)(relPath := None)\<rparr>)"

section \<open>Caches\<close>

definition isFresh :: "metadataBackend \<Rightarrow> instant \<Rightarrow> bool" where
  "isFresh b expiresAt \<longleftrightarrow> \<not> expiresAt < b_now b"

definition expiry :: "metadataBackend \<Rightarrow> instant" where
  "expiry b = b_now b + b_cacheTTL b"

definition cachedNodeInfo :: "string \<Rightarrow> metadataBackend \<Rightarrow> NodeInfo option" where
  "cachedNodeInfo relPath b =
     (case b_attrCache b relPath of
        None \<Rightarrow> None
      | Some e \<Rightarrow> if isFresh b (ac_expiresAt e) then Some (ac_info e) else None)"

definition cachedDirSnapshot :: "u64 \<Rightarrow> metadataBackend \<Rightarrow> DirEntry list option" where
  "cachedDirSnapshot nodeID b =
     (case b_dirSnapshots b nodeID of
        None \<Rightarrow> None
      | Some e \<Rightarrow> if isFresh b (ds_expiresAt e) then Some (ds_entries e) else None)"

definition isNegativeCached :: "string \<Rightarrow> metadataBackend \<Rightarrow> bool" where
  "isNegativeCached relPath b =
     (case b_negativeCache b relPath of None \<Rightarrow> False | Some e \<Rightarrow> isFresh b (nc_expiresAt e))"

definition cachedSmallFileData :: "string \<Rightarrow> metadataBackend \<Rightarrow> bytes option" where
  "cachedSmallFileData relPath b =
     (case b_smallFileCache b relPath of
        None \<Rightarrow> None
      | Some e \<Rightarrow> if isFresh b (sf_expiresAt e) then Some (sf_data e) else None)"

definition recordNegative :: "string \<Rightarrow> metadataBackend \<Rightarrow> metadataBackend" where
  "recordNegative relPath b =
     b\<lparr>b_negativeCache := (b_negativeCache b)(relPath \<mapsto> \<lparr>nc_expiresAt = expiry b\<rparr>)\<rparr>"

definition clearNegative :: "string \<Rightarrow> metadataBackend \<Rightarrow> metadataBackend" where
  "clearNegative relPath b = b\<lparr>b_negativeCache := (b_negativeCache b)(relPath := None)\<rparr>"

definition put_attr :: "string \<Rightarrow> NodeInfo \<Rightarrow> metadataBackend \<Rightarrow> metadataBackend" where
  "put_attr relPath info b =
     b\<lparr>b_attrCache := (b_attrCache b)(relPath \<mapsto> \<lparr>ac_info = info, ac_expiresAt = expiry b\<rparr>)\<rparr>"

definition put_snapshot :: "u64 \<Rightarrow> DirEntry list \<Rightarrow> metadataBackend \<Rightarrow> metadataBackend" where
  "put_snapshot nodeID es b =
     b\<lparr>b_dirSnapshots := (b_dirSnapshots b)
         (nodeID \<mapsto> \<lparr>ds_entries = es, ds_expiresAt = expiry b\<rparr>)\<rparr>"

definition put_small :: "string \<Rightarrow> bytes \<Rightarrow> metadataBackend \<Rightarrow> metadataBackend" where
  "put_small relPath data b =
     b\<lparr>b_smallFileCache := (b_smallFileCache b)
         (relPath \<mapsto> \<lparr>sf_data = data, sf_expiresAt = expiry b\<rparr>)\<rparr>"

definition invalidateDirSnapshot :: "u64 \<Rightarrow> metadataBackend \<Rightarrow> metadataBackend" where
  "invalidateDirSnapshot nodeID b =
     (if nodeID = 0 then b else b\<lparr>b_dirSnapshots := (b_dirSnapshots b)(nodeID := None)\<rparr>)"

definition invalidateEntry :: "string \<Rightarrow> metadataBackend \<Rightarrow> metadataBackend" where
  "invalidateEntry relPath b =
     (let relPath = TrimPrefix relPath [slash] in
      b\<lparr>b_attrCache := (b_attrCache b)(relPath := None),
        b_negativeCache := (b_negativeCache b)(relPath := None),
        b_smallFileCache := (b_smallFileCache b)(relPath := None)\<rparr>)"

definition invalidatePath :: "string \<Rightarrow> u64 \<Rightarrow> metadataBackend \<Rightarrow> metadataBackend" where
  "invalidatePath relPath parentID b =
     (let b = invalidateEntry relPath b;
          b = (if parentID \<noteq> 0 then invalidateDirSnapshot parentID b else b)
      in if TrimPrefix relPath [slash] = [] then invalidateDirSnapshot 1 b else b)"

definition drop_expired :: "('v \<Rightarrow> instant) \<Rightarrow> instant \<Rightarrow> ('k \<rightharpoonup> 'v) \<Rightarrow> ('k \<rightharpoonup> 'v)" where
  "drop_expired ex now m =
     (\<lambda>k. case m k of None \<Rightarrow> None | Some v \<Rightarrow> if ex v < now then None else Some v)"

definition pruneExpiredCachesLocked :: "instant \<Rightarrow> metadataBackend \<Rightarrow> metadataBackend" where
  "pruneExpiredCachesLocked now b =
     b\<lparr>b_attrCache := drop_expired ac_expiresAt now (b_attrCache b),
       b_negativeCache := drop_expired nc_expiresAt now (b_negativeCache b),
       b_dirSnapshots := drop_expired ds_expiresAt now (b_dirSnapshots b),
       b_smallFileCache := drop_expired sf_expiresAt now (b_smallFileCache b)\<rparr>"

section \<open>Node information\<close>

definition dirEntryFromNodeInfo :: "NodeInfo \<Rightarrow> DirEntry" where
  "dirEntryFromNodeInfo info =
     \<lparr>de_NodeID = ni_NodeID info, de_Name = ni_Name info, de_FileType = ni_FileType info,
      de_Size = ni_Size info, de_Mode = ni_Mode info, de_ModTime = ni_ModTime info\<rparr>"

definition file_type :: "FileInfo \<Rightarrow> FileType" where
  "file_type info = (if fi_IsDir info then FileTypeDirectory else FileTypeFile)"

definition nodeInfoFromOSInfo :: "string \<Rightarrow> u64 \<Rightarrow> u64 \<Rightarrow> FileInfo \<Rightarrow> NodeInfo" where
  "nodeInfoFromOSInfo relPath parentID nodeID info =
     \<lparr>ni_NodeID = nodeID, ni_ParentNodeID = parentID,
      ni_Name = (if relPath \<noteq> [] then Base relPath else fi_Name info),
      ni_FileType = file_type info, ni_Size = fi_Size info, ni_Mode = fi_Mode info,
      ni_ModTime = NowRFC3339 (fi_ModTime info)\<rparr>"

definition storeNodeInfo ::
  "string \<Rightarrow> u64 \<Rightarrow> u64 \<Rightarrow> FileInfo \<Rightarrow> metadataBackend \<Rightarrow> NodeInfo \<times> metadataBackend" where
  "storeNodeInfo relPath parentID nodeID info b =
     (let entry = nodeInfoFromOSInfo relPath parentID nodeID info
      in (entry, put_attr relPath entry (clearNegative relPath b)))"

definition refreshNodeInfo :: "string \<Rightarrow> u64 \<Rightarrow> metadataBackend \<Rightarrow> NodeInfo outcome" where
  "refreshNodeInfo relPath parentHint b =
     (case os_Stat (b_fs b) (absPath b relPath) of
        Inl err \<Rightarrow> (Inl err, if IsNotExist err then recordNegative relPath b else b)
      | Inr info \<Rightarrow>
          let b = clearNegative relPath b;
              (nodeID, b) = ensureNode relPath parentHint b;
              (parentID, b) =
                (if relPath = [] then (nodeID, b)
                 else if parentHint = 0 then ensureNode (parent_path relPath) 1 b
                 else (parentHint, b));
              entry =
                \<lparr>ni_NodeID = nodeID, ni_ParentNodeID = parentID, ni_Name = fi_Name info,
                 ni_FileType = file_type info, ni_Size = fi_Size info, ni_Mode = fi_Mode info,
                 ni_ModTime = NowRFC3339 (fi_ModTime info)\<rparr>
          in (Inr entry, put_attr relPath entry b))"

definition withResolvedParent ::
  "NodeInfo \<Rightarrow> string \<Rightarrow> u64 \<Rightarrow> metadataBackend \<Rightarrow> NodeInfo \<times> metadataBackend" where
  "withResolvedParent info relPath parentHint b =
     (if relPath = [] then (info\<lparr>ni_ParentNodeID := ni_NodeID info\<rparr>, b)
      else if parentHint \<noteq> 0 then (info\<lparr>ni_ParentNodeID := parentHint\<rparr>, b)
      else let (p, b) = ensureNode (parent_path relPath) 1 b in (info\<lparr>ni_ParentNodeID := p\<rparr>, b))"

definition nodeInfoForSnapshotPath :: "string \<Rightarrow> u64 \<Rightarrow> metadataBackend \<Rightarrow> NodeInfo outcome" where
  "nodeInfoForSnapshotPath relPath parentHint b =
     (let relPath = TrimPrefix relPath [slash] in
      if isNegativeCached relPath b then (Inl ErrNotExist, count negativeHits_update b)
      else
        let b = count negativeMisses_update b in
        case cachedNodeInfo relPath b of
          Some info \<Rightarrow>
            (let (r, b) = withResolvedParent info relPath parentHint (count attrHits_update b)
             in (Inr r, b))
        | None \<Rightarrow> refreshNodeInfo relPath parentHint (count attrMisses_update b))"

section \<open>Directory snapshots\<close>

text \<open>The loop over the directory's entries: an entry whose attributes cannot be read is skipped.\<close>

fun snapshot_items ::
  "string \<Rightarrow> u64 \<Rightarrow> (string \<times> bool) list \<Rightarrow> metadataBackend \<Rightarrow> DirEntry list \<times> metadataBackend" where
  "snapshot_items relPath nodeID [] b = ([], b)"
| "snapshot_items relPath nodeID ((name, _) # es) b =
     (case nodeInfoForSnapshotPath (child_rel relPath name) nodeID b of
        (Inl _, b) \<Rightarrow> snapshot_items relPath nodeID es b
      | (Inr childInfo, b) \<Rightarrow>
          let (items, b) = snapshot_items relPath nodeID es b
          in (dirEntryFromNodeInfo childInfo # items, b))"

definition refreshDirSnapshot :: "u64 \<Rightarrow> metadataBackend \<Rightarrow> DirEntry list outcome" where
  "refreshDirSnapshot nodeID b =
     (case nodeByID nodeID b of
        Inl err \<Rightarrow> (Inl err, b)
      | Inr rec \<Rightarrow>
          let abs = absPath b (nr_relPath rec) in
          (case os_Stat (b_fs b) abs of
             Inl err \<Rightarrow> (Inl err, b)
           | Inr info \<Rightarrow>
               if \<not> fi_IsDir info then (Inl errNotDir, b)
               else (case os_ReadDir (b_fs b) abs of
                  Inl err \<Rightarrow> (Inl (if isNotDir (Some err) then errNotDir else err), b)
                | Inr es \<Rightarrow>
                    let (items, b) = snapshot_items (nr_relPath rec) nodeID es b;
                        items = sort_key de_Name items
                    in (Inr items, put_snapshot nodeID items b))))"

definition snapshotDir :: "u64 \<Rightarrow> metadataBackend \<Rightarrow> DirEntry list outcome" where
  "snapshotDir nodeID b =
     (case cachedDirSnapshot nodeID b of
        Some es \<Rightarrow> (Inr es, count dirSnapshotHits_update b)
      | None \<Rightarrow> refreshDirSnapshot nodeID (count dirSnapshotMisses_update b))"

text \<open>
  A cached snapshot is patched in place of being read again: the position of the name comes from
  a binary search.
\<close>

definition name_index :: "DirEntry list \<Rightarrow> string \<Rightarrow> nat" where
  "name_index es name = sort_Search (length es) (\<lambda>i. name \<le> de_Name (es ! i))"

definition upsert_entries :: "DirEntry \<Rightarrow> DirEntry list \<Rightarrow> DirEntry list" where
  "upsert_entries entry es =
     (let idx = name_index es (de_Name entry) in
      if idx < length es \<and> de_Name (es ! idx) = de_Name entry then es[idx := entry]
      else take idx es @ entry # drop idx es)"

definition upsertCachedDirSnapshot :: "u64 \<Rightarrow> NodeInfo \<Rightarrow> metadataBackend \<Rightarrow> metadataBackend" where
  "upsertCachedDirSnapshot parentID info b =
     (if parentID = 0 then b
      else (case cachedDirSnapshot parentID b of
         None \<Rightarrow> b
       | Some es \<Rightarrow> put_snapshot parentID (upsert_entries (dirEntryFromNodeInfo info) es) b))"

definition remove_entries :: "string \<Rightarrow> DirEntry list \<Rightarrow> DirEntry list option" where
  "remove_entries name es =
     (let idx = name_index es name in
      if length es \<le> idx \<or> de_Name (es ! idx) \<noteq> name then None
      else Some (take idx es @ drop (Suc idx) es))"

definition removeCachedDirSnapshotEntry :: "u64 \<Rightarrow> string \<Rightarrow> metadataBackend \<Rightarrow> metadataBackend" where
  "removeCachedDirSnapshotEntry parentID name b =
     (if parentID = 0 \<or> name = [] then b
      else (case cachedDirSnapshot parentID b of
         None \<Rightarrow> b
       | Some es \<Rightarrow> (case remove_entries name es of
            None \<Rightarrow> b
          | Some es' \<Rightarrow> put_snapshot parentID es' b)))"

definition refreshNodeInfoAndPatchParent :: "string \<Rightarrow> u64 \<Rightarrow> metadataBackend \<Rightarrow> metadataBackend" where
  "refreshNodeInfoAndPatchParent relPath parentID b =
     (case refreshNodeInfo relPath parentID b of
        (Inl _, b) \<Rightarrow> invalidateDirSnapshot parentID b
      | (Inr entry, b) \<Rightarrow> upsertCachedDirSnapshot parentID entry b)"

section \<open>Prefetching\<close>

definition loadSmallFileCache :: "string \<Rightarrow> metadataBackend \<Rightarrow> (bytes \<times> bool) outcome" where
  "loadSmallFileCache relPath b =
     (case cachedSmallFileData relPath b of
        Some data \<Rightarrow> (Inr (data, True), b)
      | None \<Rightarrow>
          (case (case cachedNodeInfo relPath b of
                   Some info \<Rightarrow> (Inr info, b)
                 | None \<Rightarrow>
                     let (parentID, b) = ensureNode (parent_path relPath) 1 b
                     in refreshNodeInfo relPath parentID b) of
             (Inl err, b) \<Rightarrow> (Inl err, b)
           | (Inr info, b) \<Rightarrow>
               if \<not> IsSmallFileCandidate (b_profile b) relPath info then (Inr ([], False), b)
               else (case os_ReadFile (b_fs b) (absPath b relPath) of
                  Inl err \<Rightarrow> (Inl err, b)
                | Inr data \<Rightarrow>
                    (Inr (data, True), count smallFilePrefetches_update (put_small relPath data b)))))"

definition run_prefetch_job :: "prefetchJob \<Rightarrow> metadataBackend \<Rightarrow> metadataBackend" where
  "run_prefetch_job job b =
     (let b = (case pj_priority job of
          prefetchPriorityHigh \<Rightarrow> count highPriorityPrefetches_update b
        | prefetchPriorityNormal \<Rightarrow> count normalPriorityPrefetches_update b)
      in case pj_kind job of
           prefetchJobDirSnapshot \<Rightarrow> snd (snapshotDir (pj_nodeID job) b)
         | prefetchJobSmallFile \<Rightarrow> snd (loadSmallFileCache (pj_relPath job) b))"

definition runPrefetchJobs :: "prefetchJob list \<Rightarrow> metadataBackend \<Rightarrow> metadataBackend" where
  "runPrefetchJobs jobs b =
     fold (\<lambda>priority.
         fold (\<lambda>job b. if pj_priority job \<noteq> priority then b else run_prefetch_job job b) jobs)
       [prefetchPriorityHigh, prefetchPriorityNormal] b"

definition maybeWarmNode :: "string \<Rightarrow> NodeInfo \<Rightarrow> metadataBackend \<Rightarrow> metadataBackend" where
  "maybeWarmNode relPath info b =
     (let (jobs, b) =
        (if ni_FileType info = FileTypeDirectory \<and> IsHotDir (b_profile b) (ni_Name info)
         then ([\<lparr>pj_priority = prefetchPriorityHigh, pj_kind = prefetchJobDirSnapshot,
                 pj_nodeID = ni_NodeID info, pj_relPath = relPath\<rparr>], count hotDirPrefetches_update b)
         else ([], b));
          (jobs, b) =
        (if IsSmallFileCandidate (b_profile b) relPath info
         then (jobs @ [\<lparr>pj_priority = prefetchPriorityHigh, pj_kind = prefetchJobSmallFile,
                 pj_nodeID = ni_NodeID info, pj_relPath = relPath\<rparr>], count hotFilePrefetches_update b)
         else (jobs, b))
      in runPrefetchJobs jobs b)"

definition maybeWarmDir :: "u64 \<Rightarrow> metadataBackend \<Rightarrow> metadataBackend" where
  "maybeWarmDir nodeID b =
     (case nodeByID nodeID b of
        Inl _ \<Rightarrow> b
      | Inr rec \<Rightarrow>
          let base = (if nr_relPath rec = [] then [] else Base (nr_relPath rec)) in
          if base = [] \<or> IsHotDir (b_profile b) base
          then runPrefetchJobs [\<lparr>pj_priority = prefetchPriorityNormal,
                 pj_kind = prefetchJobDirSnapshot, pj_nodeID = nodeID, pj_relPath = nr_relPath rec\<rparr>] b
          else b)"

text \<open>The jobs \<^verbatim>\<open>prefetchRoot\<close> collects from the root's entries.\<close>

fun root_jobs :: "DirEntry list \<Rightarrow> metadataBackend \<Rightarrow> prefetchJob list \<times> metadataBackend" where
  "root_jobs [] b = ([], b)"
| "root_jobs (entry # es) b =
     (let (j1, b) =
        (if IsHotDir (b_profile b) (de_Name entry) \<and> de_FileType entry = FileTypeDirectory
         then ([\<lparr>pj_priority = prefetchPriorityHigh, pj_kind = prefetchJobDirSnapshot,
                 pj_nodeID = de_NodeID entry, pj_relPath = de_Name entry\<rparr>],
               count hotDirPrefetches_update b)
         else ([], b));
          (j2, b) =
        (if IsSmallFileCandidate (b_profile b) (de_Name entry)
              (zero_NodeInfo\<lparr>ni_FileType := de_FileType entry, ni_Size := de_Size entry,
                 ni_Name := de_Name entry\<rparr>)
         then ([\<lparr>pj_priority = prefetchPriorityHigh, pj_kind = prefetchJobSmallFile,
                 pj_nodeID = de_NodeID entry, pj_relPath = de_Name entry\<rparr>],
               count hotFilePrefetches_update b)
         else ([], b));
          (js, b) = root_jobs es b
      in (j1 @ j2 @ js, b))"

definition prefetchRoot :: "metadataBackend \<Rightarrow> unit outcome" where
  "prefetchRoot b =
     (case refreshDirSnapshot RootNodeID (count rootPrefetches_update b) of
        (Inl err, b) \<Rightarrow> (Inl err, b)
      | (Inr es, b) \<Rightarrow>
          let (jobs, b) = root_jobs es b;
              jobs = \<lparr>pj_priority = prefetchPriorityNormal, pj_kind = prefetchJobDirSnapshot,
                      pj_nodeID = RootNodeID, pj_relPath = []\<rparr> # jobs
          in (Inr (), runPrefetchJobs jobs b))"

definition nodeInfoForPath :: "string \<Rightarrow> u64 \<Rightarrow> metadataBackend \<Rightarrow> NodeInfo outcome" where
  "nodeInfoForPath relPath parentHint b =
     (let relPath = TrimPrefix relPath [slash] in
      if isNegativeCached relPath b then (Inl ErrNotExist, count negativeHits_update b)
      else
        let b = count negativeMisses_update b in
        case cachedNodeInfo relPath b of
          Some info \<Rightarrow>
            (let (r, b) = withResolvedParent info relPath parentHint (count attrHits_update b)
             in (Inr r, maybeWarmNode relPath r b))
        | None \<Rightarrow>
            (case refreshNodeInfo relPath parentHint (count attrMisses_update b) of
               (Inl err, b) \<Rightarrow> (Inl err, b)
             | (Inr info, b) \<Rightarrow> (Inr info, maybeWarmNode relPath info b)))"

end
