(* ===== verification/Backend.thy ===== *)
theory Backend
  imports Metadata
begin

text \<open>
  The public operations of the metadata backend (\<^verbatim>\<open>internal/server/metadata_backend.go\<close>): the
  whole of each method, its error branches included, on the state of theory \<open>Metadata\<close>.
\<close>

section \<open>Construction and lookup\<close>

definition empty_backend :: "string \<Rightarrow> instant \<Rightarrow> fs \<Rightarrow> metadataBackend" where
  "empty_backend absRoot now f =
     \<lparr>b_rootPath = absRoot, b_now = now, b_cacheTTL = defaultMetadataCacheTTL,
      b_nextNodeID = 1, b_nextCursorID = 1000, b_nextHandleID = 2000, b_stats = zero_stats,
      b_profile = inferWorkspaceProfile f absRoot,
      b_nodesByID = [1 \<mapsto> \<lparr>nr_id = 1, nr_parentID = 1, nr_relPath = []\<rparr>],
      b_nodesByPath = [[] \<mapsto> 1],
      b_cursors = Map.empty, b_handles = Map.empty, b_attrCache = Map.empty,
      b_negativeCache = Map.empty, b_dirSnapshots = Map.empty, b_smallFileCache = Map.empty,
      b_fs = f\<rparr>"

definition newMetadataBackend ::
  "string option \<Rightarrow> instant \<Rightarrow> fs \<Rightarrow> string \<Rightarrow> go_error + metadataBackend" where
  "newMetadataBackend cwd now f rootPath =
     (case path_Abs cwd rootPath of
        None \<Rightarrow> Inl (Errorf ''abs root path'')
      | Some absRoot \<Rightarrow>
          (case os_Stat f absRoot of
             Inl err \<Rightarrow> Inl (Errorf (''stat root path: '' @ error_text err))
           | Inr info \<Rightarrow>
               if \<not> fi_IsDir info then Inl (Errorf ''root path must be a directory'')
               else (case refreshNodeInfo [] 1 (empty_backend absRoot now f) of
                  (Inl err, _) \<Rightarrow> Inl err
                | (Inr _, b) \<Rightarrow> Inr (snd (prefetchRoot b)))))"

definition Lookup :: "u64 \<Rightarrow> string \<Rightarrow> metadataBackend \<Rightarrow> NodeInfo outcome" where
  "Lookup parentNodeID name b =
     (if \<not> isValidSingleName name then (Inl ErrNotExist, b)
      else (case nodeByID parentNodeID b of
         Inl err \<Rightarrow> (Inl err, b)
       | Inr parent \<Rightarrow> nodeInfoForPath (child_rel (nr_relPath parent) name) parentNodeID b))"

definition GetAttr :: "u64 \<Rightarrow> metadataBackend \<Rightarrow> NodeInfo outcome" where
  "GetAttr nodeID b =
     (case nodeByID nodeID b of
        Inl err \<Rightarrow> (Inl err, b)
      | Inr rec \<Rightarrow> nodeInfoForPath (nr_relPath rec) (nr_parentID rec) b)"

section \<open>Directory cursors\<close>

definition add_cursor :: "u64 \<times> DirEntry list \<Rightarrow> metadataBackend \<Rightarrow> u64 \<times> metadataBackend" where
  "add_cursor = (\<lambda>(nodeID, es) b.
     let n = Suc (b_nextCursorID b); i = of_nat n
     in (i, b\<lparr>b_nextCursorID := n,
              b_cursors := (b_cursors b)(i \<mapsto> \<lparr>dc_id = i, dc_nodeID = nodeID, dc_entries = es\<rparr>)\<rparr>))"

definition OpenDir :: "u64 \<Rightarrow> metadataBackend \<Rightarrow> u64 outcome" where
  "OpenDir nodeID b =
     (case snapshotDir nodeID b of
        (Inl err, b) \<Rightarrow> (Inl err, b)
      | (Inr es, b) \<Rightarrow> let (cursorID, b) = add_cursor (nodeID, es) b in (Inr cursorID, b))"

definition ReadDir :: "u64 \<Rightarrow> u64 \<Rightarrow> u32 \<Rightarrow> metadataBackend \<Rightarrow> go_error + ReadDirResp" where
  "ReadDir cursorID cookie maxEntries b =
     (case b_cursors b cursorID of
        None \<Rightarrow> Inl ErrNotExist
      | Some cursor \<Rightarrow>
          let len = int (length (dc_entries cursor));
              start = sint cookie;
              start = (if start < 0 \<or> len < start then len else start);
              maxEntries = (if maxEntries = 0 then 128 else maxEntries);
              stop = start + uint maxEntries;
              stop = (if len < stop then len else stop)
          in Inr \<lparr>ReadDirResp_Entries = take (nat (stop - start)) (drop (nat start) (dc_entries cursor)),
                  ReadDirResp_NextCookie = word_of_int stop,
                  ReadDirResp_EOF = (len \<le> stop)\<rparr>)"

definition CloseDir :: "u64 \<Rightarrow> metadataBackend \<Rightarrow> unit outcome" where
  "CloseDir cursorID b =
     (case b_cursors b cursorID of
        None \<Rightarrow> (Inl ErrNotExist, b)
      | Some _ \<Rightarrow> (Inr (), b\<lparr>b_cursors := (b_cursors b)(cursorID := None)\<rparr>))"

section \<open>File handles\<close>

text \<open>A handle is entered under the next identifier; \<open>mk\<close> builds it from that identifier.\<close>

definition add_handle :: "(u64 \<Rightarrow> fileHandle) \<Rightarrow> metadataBackend \<Rightarrow> u64 \<times> metadataBackend" where
  "add_handle mk b =
     (let n = Suc (b_nextHandleID b); i = of_nat n
      in (i, b\<lparr>b_nextHandleID := n, b_handles := (b_handles b)(i \<mapsto> mk i)\<rparr>))"

definition upd_handle :: "u64 \<Rightarrow> fileHandle \<Rightarrow> metadataBackend \<Rightarrow> metadataBackend" where
  "upd_handle handleID h b = b\<lparr>b_handles := (b_handles b)(handleID \<mapsto> h)\<rparr>"

definition OpenFile :: "u64 \<Rightarrow> bool \<Rightarrow> bool \<Rightarrow> metadataBackend \<Rightarrow> (u64 \<times> int) outcome" where
  "OpenFile nodeID writable trunc b =
     (case nodeByID nodeID b of
        Inl err \<Rightarrow> (Inl err, b)
      | Inr rec \<Rightarrow>
          let abs = absPath b (nr_relPath rec) in
          (case os_Stat (b_fs b) abs of
             Inl err \<Rightarrow> (Inl err, b)
           | Inr info \<Rightarrow>
               if fi_IsDir info then (Inl errIsDir, b)
               else (case os_OpenFile writable False False (writable \<and> trunc) abs (b_fs b) of
                  (Inl err, f) \<Rightarrow>
                    (Inl (if IsPermission err then errAccessDenied else err), b\<lparr>b_fs := f\<rparr>)
                | (Inr file, f) \<Rightarrow>
                    let currentSize = (if trunc then 0 else fi_Size info);
                        (handleID, b) = add_handle (\<lambda>i.
                            \<lparr>fh_id = i, fh_nodeID = nodeID, fh_parentID = nr_parentID rec,
                             fh_relPath = nr_relPath rec, fh_file = file, fh_size = currentSize,
                             fh_writable = writable, fh_deleteOnClose = False\<rparr>) (b\<lparr>b_fs := f\<rparr>);
                        b = (if writable \<or> trunc then invalidateEntry (nr_relPath rec) b else b);
                        b = (if trunc
                             then refreshNodeInfoAndPatchParent (nr_relPath rec) (nr_parentID rec) b
                             else b)
                    in (Inr (handleID, currentSize), b))))"

definition CreateFile ::
  "u64 \<Rightarrow> string \<Rightarrow> bool \<Rightarrow> metadataBackend \<Rightarrow> (NodeInfo \<times> u64) outcome" where
  "CreateFile parentNodeID name overwrite b =
     (if \<not> isValidSingleName name then (Inl ErrNotExist, b)
      else (case nodeByID parentNodeID b of
         Inl err \<Rightarrow> (Inl err, b)
       | Inr parent \<Rightarrow>
           (case nodeInfoForPath (nr_relPath parent) (nr_parentID parent) b of
              (Inl err, b) \<Rightarrow> (Inl err, b)
            | (Inr parentInfo, b) \<Rightarrow>
                if ni_FileType parentInfo \<noteq> FileTypeDirectory then (Inl errNotDir, b)
                else
                  let relPath = child_rel (nr_relPath parent) name;
                      abs = absPath b relPath in
                  (case os_OpenFile True True (\<not> overwrite) overwrite abs (b_fs b) of
                     (Inl err, f) \<Rightarrow>
                       (Inl (if IsExist err then errAlreadyExists
                             else if IsPermission err then errAccessDenied else err), b\<lparr>b_fs := f\<rparr>)
                   | (Inr file, f) \<Rightarrow>
                       let (nodeID, b) = ensureNode relPath parentNodeID (b\<lparr>b_fs := f\<rparr>);
                           (handleID, b) = add_handle (\<lambda>i.
                               \<lparr>fh_id = i, fh_nodeID = nodeID, fh_parentID = parentNodeID,
                                fh_relPath = relPath, fh_file = file, fh_size = 0,
                                fh_writable = True, fh_deleteOnClose = False\<rparr>) b;
                           b = invalidateEntry relPath b
                       in (case file_Stat (b_fs b) file of
                          Inl err \<Rightarrow> (Inl err, invalidateDirSnapshot parentNodeID b)
                        | Inr info \<Rightarrow>
                            let (entry, b) = storeNodeInfo relPath parentNodeID nodeID info b
                            in (Inr (entry, handleID), upsertCachedDirSnapshot parentNodeID entry b))))))"

text \<open>Serving a read from the cached contents of a small file.\<close>

definition slice_cached :: "bytes \<Rightarrow> int \<Rightarrow> u32 \<Rightarrow> bytes \<times> bool" where
  "slice_cached data offset len =
     (if int (length data) < offset then ([], True)
      else
        let stop = offset + uint len;
            stop = (if len = 0 \<or> int (length data) < stop then int (length data) else stop)
        in (take (nat (stop - offset)) (drop (nat offset) data), int (length data) \<le> stop))"

definition read_open_file :: "fileHandle \<Rightarrow> int \<Rightarrow> u32 \<Rightarrow> metadataBackend \<Rightarrow> go_error + bytes \<times> bool" where
  "read_open_file h offset len b =
     (let len = (if len = 0 then 4096 else len) in
      case file_ReadAt (b_fs b) (fh_file h) (unat len) offset of
        Inl err \<Rightarrow> Inl err
      | Inr (buf, hit_end) \<Rightarrow> Inr (buf, fh_size h \<le> offset + int (length buf) \<or> hit_end))"

definition ReadFile :: "u64 \<Rightarrow> int \<Rightarrow> u32 \<Rightarrow> metadataBackend \<Rightarrow> (bytes \<times> bool) outcome" where
  "ReadFile handleID offset len b =
     (case handleByID handleID b of
        Inl err \<Rightarrow> (Inl err, b)
      | Inr h \<Rightarrow>
          if offset < 0 then (Inl (Errorf ''invalid offset''), b)
          else if fh_writable h then (read_open_file h offset len b, b)
          else (case cachedSmallFileData (fh_relPath h) b of
             Some data \<Rightarrow> (Inr (slice_cached data offset len), count smallFileHits_update b)
           | None \<Rightarrow>
               (case loadSmallFileCache (fh_relPath h) (count smallFileMisses_update b) of
                  (Inr (data, True), b) \<Rightarrow> (Inr (slice_cached data offset len), b)
                | (_, b) \<Rightarrow> (read_open_file h offset len b, b))))"

text \<open>
  \<^verbatim>\<open>WriteFile\<close> returns the count and the size also when the write fails; the handler drops them
  then, and so does the model.
\<close>

definition WriteFile :: "u64 \<Rightarrow> int \<Rightarrow> bytes \<Rightarrow> metadataBackend \<Rightarrow> (nat \<times> int) outcome" where
  "WriteFile handleID offset data b =
     (case handleByID handleID b of
        Inl err \<Rightarrow> (Inl err, b)
      | Inr h \<Rightarrow>
          if \<not> fh_writable h then (Inl errAccessDenied, b)
          else if offset < 0 then (Inl (Errorf ''invalid offset''), b)
          else (case file_WriteAt (fh_file h) data offset (b_fs b) of
             ((_, Some err), f) \<Rightarrow> (Inl err, b\<lparr>b_fs := f\<rparr>)
           | ((n, None), f) \<Rightarrow>
               let newSize = (if fh_size h < offset + int n then offset + int n else fh_size h);
                   b = upd_handle handleID (h\<lparr>fh_size := newSize\<rparr>) (b\<lparr>b_fs := f\<rparr>)
               in (Inr (n, newSize), invalidateEntry (fh_relPath h) b)))"

definition FlushHandle :: "u64 \<Rightarrow> metadataBackend \<Rightarrow> unit outcome" where
  "FlushHandle handleID b =
     (case handleByID handleID b of
        Inl err \<Rightarrow> (Inl err, b)
      | Inr h \<Rightarrow>
          (case file_Sync (b_fs b) (fh_file h) of
             Some err \<Rightarrow> (Inl err, b)
           | None \<Rightarrow>
               let b = invalidateEntry (fh_relPath h) b in
               (case file_Stat (b_fs b) (fh_file h) of
                  Inl err \<Rightarrow> (Inl err, invalidateDirSnapshot (fh_parentID h) b)
                | Inr info \<Rightarrow>
                    let (entry, b) = storeNodeInfo (fh_relPath h) (fh_parentID h) (fh_nodeID h) info b;
                        b = upd_handle handleID (h\<lparr>fh_size := ni_Size entry\<rparr>) b
                    in (Inr (), upsertCachedDirSnapshot (fh_parentID h) entry b))))"

definition TruncateHandle :: "u64 \<Rightarrow> int \<Rightarrow> metadataBackend \<Rightarrow> int outcome" where
  "TruncateHandle handleID sz b =
     (case handleByID handleID b of
        Inl err \<Rightarrow> (Inl err, b)
      | Inr h \<Rightarrow>
          if \<not> fh_writable h then (Inl errAccessDenied, b)
          else (case file_Truncate (fh_file h) sz (b_fs b) of
             (Some err, f) \<Rightarrow> (Inl err, b\<lparr>b_fs := f\<rparr>)
           | (None, f) \<Rightarrow>
               let b = upd_handle handleID (h\<lparr>fh_size := sz\<rparr>) (b\<lparr>b_fs := f\<rparr>);
                   b = invalidateEntry (fh_relPath h) b
               in (Inr sz, refreshNodeInfoAndPatchParent (fh_relPath h) (fh_parentID h) b)))"

definition SetDeleteOnClose :: "u64 \<Rightarrow> bool \<Rightarrow> metadataBackend \<Rightarrow> unit outcome" where
  "SetDeleteOnClose handleID enabled b =
     (case handleByID handleID b of
        Inl err \<Rightarrow> (Inl err, b)
      | Inr h \<Rightarrow> (Inr (), upd_handle handleID (h\<lparr>fh_deleteOnClose := enabled\<rparr>) b))"

definition CloseHandle :: "u64 \<Rightarrow> metadataBackend \<Rightarrow> unit outcome" where
  "CloseHandle handleID b =
     (case b_handles b handleID of
        None \<Rightarrow> (Inl errInvalidHandle, b)
      | Some h \<Rightarrow>
          let b = b\<lparr>b_handles := (b_handles b)(handleID := None)\<rparr> in
          (case file_Close (b_fs b) (fh_file h) of
             Some closeErr \<Rightarrow> (Inl closeErr, b)
           | None \<Rightarrow>
               if fh_deleteOnClose h then
                 (case os_Remove (absPath b (fh_relPath h)) (b_fs b) of
                    (err, f) \<Rightarrow>
                      let b = b\<lparr>b_fs := f\<rparr> in
                      if err \<noteq> None \<and> \<not> IsNotExist (the err) then (Inl (the err), b)
                      else
                        let b = removePathMapping (fh_relPath h) b;
                            b = invalidateEntry (fh_relPath h) b;
                            b = removeCachedDirSnapshotEntry (fh_parentID h) (Base (fh_relPath h)) b
                        in (Inr (), recordNegative (fh_relPath h) b))
               else if fh_writable h then
                 (Inr (), refreshNodeInfoAndPatchParent (fh_relPath h) (fh_parentID h)
                            (invalidateEntry (fh_relPath h) b))
               else (Inr (), b)))"

section \<open>Renaming\<close>

definition RenamePath ::
  "u64 \<Rightarrow> string \<Rightarrow> u64 \<Rightarrow> string \<Rightarrow> bool \<Rightarrow> metadataBackend \<Rightarrow> NodeInfo outcome" where
  "RenamePath srcParentNodeID srcName dstParentNodeID dstName replace b =
     (if \<not> isValidSingleName srcName \<or> \<not> isValidSingleName dstName then (Inl ErrNotExist, b)
      else (case (nodeByID srcParentNodeID b, nodeByID dstParentNodeID b) of
         (Inl err, _) \<Rightarrow> (Inl err, b)
       | (_, Inl err) \<Rightarrow> (Inl err, b)
       | (Inr srcParent, Inr dstParent) \<Rightarrow>
           let srcRel = child_rel (nr_relPath srcParent) srcName;
               dstRel = child_rel (nr_relPath dstParent) dstName;
               srcAbs = absPath b srcRel;
               dstAbs = absPath b dstRel in
           (case os_Stat (b_fs b) srcAbs of
              Inl err \<Rightarrow> (Inl err, b)
            | Inr srcInfo \<Rightarrow>
                (case (if replace then None
                       else (case os_Stat (b_fs b) dstAbs of
                          Inr _ \<Rightarrow> Some errAlreadyExists
                        | Inl err \<Rightarrow> if \<not> IsNotExist err then Some err else None)) of
                   Some err \<Rightarrow> (Inl err, b)
                 | None \<Rightarrow>
                     (case os_Rename srcAbs dstAbs (b_fs b) of
                        (Some err, f) \<Rightarrow>
                          (Inl (if IsPermission err then errAccessDenied else err), b\<lparr>b_fs := f\<rparr>)
                      | (None, f) \<Rightarrow>
                          let b = movePathMapping srcRel dstRel dstParentNodeID (b\<lparr>b_fs := f\<rparr>);
                              b = invalidateEntry srcRel b;
                              b = invalidateEntry dstRel b;
                              b = removeCachedDirSnapshotEntry srcParentNodeID srcName b;
                              (nodeID, b) = ensureNode dstRel dstParentNodeID b;
                              (entry, b) = storeNodeInfo dstRel dstParentNodeID nodeID srcInfo b
                          in (Inr entry, upsertCachedDirSnapshot dstParentNodeID entry b))))))"

section \<open>Snapshots and recovery\<close>

record HandleSnapshot =
  hs_NodeID :: u64
  hs_ParentNodeID :: u64
  hs_RelPath :: string
  hs_Name :: string
  hs_DeleteOnClose :: bool
  hs_Size :: int

definition handle_snapshot :: "u64 \<Rightarrow> metadataBackend \<Rightarrow> go_error + HandleSnapshot" where
  "handle_snapshot handleID b =
     (case handleByID handleID b of
        Inl err \<Rightarrow> Inl err
      | Inr h \<Rightarrow> Inr \<lparr>hs_NodeID = fh_nodeID h, hs_ParentNodeID = fh_parentID h,
          hs_RelPath = fh_relPath h, hs_Name = Base (fh_relPath h),
          hs_DeleteOnClose = fh_deleteOnClose h, hs_Size = fh_size h\<rparr>)"

definition RelPathByNodeID :: "u64 \<Rightarrow> metadataBackend \<Rightarrow> go_error + string" where
  "RelPathByNodeID nodeID b =
     (case nodeByID nodeID b of Inl err \<Rightarrow> Inl err | Inr rec \<Rightarrow> Inr (nr_relPath rec))"

text \<open>
  The recursive walk of \<^verbatim>\<open>SnapshotSubtree\<close>. Its loop over the entries of one directory calls the
  walk again (\<open>descend\<close>) on subdirectories. The recursion goes one directory down each time; the
  fuel bounds its depth, and \<open>None\<close> would be running out of it. The entries collected before an
  error are dropped by the caller, so an error returns none.
\<close>

type_synonym walk_result = "SnapshotEntry list outcome option"

definition walk_then ::
  "walk_result \<Rightarrow> (SnapshotEntry list \<Rightarrow> metadataBackend \<Rightarrow> walk_result) \<Rightarrow> walk_result" where
  "walk_then m k =
     (case m of
        None \<Rightarrow> None
      | Some (Inl err, b) \<Rightarrow> Some (Inl err, b)
      | Some (Inr es, b) \<Rightarrow> k es b)"

fun walk_loop ::
  "(string \<Rightarrow> metadataBackend \<Rightarrow> walk_result) \<Rightarrow> u64 \<Rightarrow> bool \<Rightarrow> string \<Rightarrow> string \<Rightarrow>
    (string \<times> bool) list \<Rightarrow> metadataBackend \<Rightarrow> walk_result" where
  "walk_loop descend nodeID recursive baseAbs currentRel [] b = Some (Inr [], b)"
| "walk_loop descend nodeID recursive baseAbs currentRel ((name, is_dir) # es) b =
     (let childRel = child_rel currentRel name in
      case nodeInfoForPath childRel nodeID b of
        (Inl err, b) \<Rightarrow> Some (Inl err, b)
      | (Inr childInfo, b) \<Rightarrow>
          (case path_Rel baseAbs (absPath b childRel) of
             None \<Rightarrow> Some (Inl (Errorf ''Rel''), b)
           | Some relToRoot \<Rightarrow>
               let entry = \<lparr>SnapshotEntry_RelativePath = relToRoot, SnapshotEntry_Entry = childInfo\<rparr> in
               walk_then (if recursive \<and> is_dir then descend childRel b else Some (Inr [], b))
                 (\<lambda>sub b. walk_then (walk_loop descend nodeID recursive baseAbs currentRel es b)
                   (\<lambda>rest b. Some (Inr (entry # sub @ rest), b)))))"

primrec walk :: "nat \<Rightarrow> u64 \<Rightarrow> bool \<Rightarrow> string \<Rightarrow> string \<Rightarrow> metadataBackend \<Rightarrow> walk_result" where
  "walk 0 nodeID recursive baseAbs currentRel b = None"
| "walk (Suc fuel) nodeID recursive baseAbs currentRel b =
     (case os_ReadDir (b_fs b) (absPath b currentRel) of
        Inl err \<Rightarrow> Some (Inl err, b)
      | Inr es \<Rightarrow>
          walk_loop (walk fuel nodeID recursive baseAbs) nodeID recursive baseAbs currentRel es b)"

definition walk_fuel :: "metadataBackend \<Rightarrow> nat" where
  "walk_fuel b = Suc (Suc (fold (\<lambda>(p, _). max (length p)) (fs_paths (b_fs b)) 0))"

definition SnapshotSubtree :: "u64 \<Rightarrow> bool \<Rightarrow> metadataBackend \<Rightarrow> walk_result" where
  "SnapshotSubtree nodeID recursive b =
     (case nodeByID nodeID b of
        Inl err \<Rightarrow> Some (Inl err, b)
      | Inr rec \<Rightarrow>
          (case GetAttr nodeID b of
             (Inl err, b) \<Rightarrow> Some (Inl err, b)
           | (Inr rootInfo, b) \<Rightarrow>
               let es = [\<lparr>SnapshotEntry_RelativePath = [], SnapshotEntry_Entry = rootInfo\<rparr>] in
               if ni_FileType rootInfo \<noteq> FileTypeDirectory then Some (Inr es, b)
               else walk_then
                      (walk (walk_fuel b) nodeID recursive (absPath b (nr_relPath rec)) (nr_relPath rec) b)
                      (\<lambda>sub b. Some (Inr (sort_key SnapshotEntry_RelativePath (es @ sub)), b))))"

definition RecoverFileHandle :: "u64 \<Rightarrow> bool \<Rightarrow> bool \<Rightarrow> metadataBackend \<Rightarrow> (u64 \<times> int) outcome" where
  "RecoverFileHandle nodeID writable deleteOnClose b =
     (case OpenFile nodeID writable False b of
        (Inl err, b) \<Rightarrow> (Inl err, b)
      | (Inr (handleID, sz), b) \<Rightarrow>
          if deleteOnClose then
            (case SetDeleteOnClose handleID True b of
               (Inl err, b) \<Rightarrow> (Inl err, snd (CloseHandle handleID b))
             | (Inr _, b) \<Rightarrow> (Inr (handleID, sz), b))
          else (Inr (handleID, sz), b))"

definition RevalidateNode :: "u64 \<Rightarrow> metadataBackend \<Rightarrow> RevalidateEntry outcome" where
  "RevalidateNode nodeID b =
     (let gone = \<lparr>RevalidateEntry_NodeID = nodeID, RevalidateEntry_Exists = False,
                  RevalidateEntry_Entry = zero_NodeInfo, RevalidateEntry_Error = []\<rparr> in
      case nodeByID nodeID b of
        Inl err \<Rightarrow> (if IsNotExist err then Inr gone else Inl err, b)
      | Inr rec \<Rightarrow>
          (case nodeInfoForPath (nr_relPath rec) (nr_parentID rec) b of
             (Inl err, b) \<Rightarrow>
               if IsNotExist err then (Inr gone, removePathMapping (nr_relPath rec) b)
               else (Inl err, b)
           | (Inr entry, b) \<Rightarrow>
               (Inr (gone\<lparr>RevalidateEntry_Exists := True, RevalidateEntry_Entry := entry\<rparr>), b)))"

end
