(* ===== verification/Snapshots.thy ===== *)
theory Snapshots
  imports Metadata
begin

text \<open>
  Directory snapshots as finite maps from names to entries. The backend patches a cached snapshot
  at a position found by binary search (\<open>upsert_entries\<close>, \<open>remove_entries\<close>); the lemmas show that on
  snapshots sorted by name this is the update of the map, that the order is kept, and that the
  patched list is the one a fresh listing of the updated map would give.
\<close>

definition by_name :: "DirEntry list \<Rightarrow> bool" where
  "by_name es \<longleftrightarrow> sorted_wrt (\<lambda>a b. de_Name a < de_Name b) es"

definition listing :: "DirEntry list \<Rightarrow> string \<rightharpoonup> DirEntry" where
  "listing es = map_of (map (\<lambda>e. (de_Name e, e)) es)"

definition delete_entries :: "string \<Rightarrow> DirEntry list \<Rightarrow> DirEntry list" where
  "delete_entries name es = (case remove_entries name es of None \<Rightarrow> es | Some es' \<Rightarrow> es')"

section \<open>The interface\<close>

text \<open>
  What the backend relies on: a listing in which the two patches act as update and deletion of a
  map, and which is determined by its map.
\<close>

locale patchable_listing =
  fixes ok :: "'l \<Rightarrow> bool"
    and look :: "'l \<Rightarrow> 'n \<rightharpoonup> 'e"
    and name_of :: "'e \<Rightarrow> 'n"
    and put :: "'e \<Rightarrow> 'l \<Rightarrow> 'l"
    and del :: "'n \<Rightarrow> 'l \<Rightarrow> 'l"
  assumes put_ok: "ok l \<Longrightarrow> ok (put e l)"
    and del_ok: "ok l \<Longrightarrow> ok (del n l)"
    and look_put: "ok l \<Longrightarrow> look (put e l) = (look l)(name_of e \<mapsto> e)"
    and look_del: "ok l \<Longrightarrow> look (del n l) = (look l)(n := None)"
    and look_inj: "ok l \<Longrightarrow> ok l' \<Longrightarrow> look l = look l' \<Longrightarrow> l = l'"
begin

fun patch :: "'e + 'n \<Rightarrow> 'l \<Rightarrow> 'l" where
  "patch (Inl e) l = put e l"
| "patch (Inr n) l = del n l"

fun patch_map :: "'e + 'n \<Rightarrow> ('n \<rightharpoonup> 'e) \<Rightarrow> ('n \<rightharpoonup> 'e)" where
  "patch_map (Inl e) m = m(name_of e \<mapsto> e)"
| "patch_map (Inr n) m = m(n := None)"

lemma patch_ok: "ok l \<Longrightarrow> ok (patch p l)"
  by (cases p) (auto intro: put_ok del_ok)

lemma look_patch: "ok l \<Longrightarrow> look (patch p l) = patch_map p (look l)"
  by (cases p) (auto simp: look_put look_del)

lemma patches_look:
  "ok l \<Longrightarrow> ok (fold patch ps l) \<and> look (fold patch ps l) = fold patch_map ps (look l)"
  by (induction ps arbitrary: l) (auto simp: patch_ok look_patch)

lemma patches_eq_relisting:
  assumes "ok l" and "ok fresh" and "look fresh = fold patch_map ps (look l)"
  shows "fold patch ps l = fresh"
  using patches_look [OF assms(1)] assms(2, 3) look_inj by auto

lemma put_put: "ok l \<Longrightarrow> name_of e = name_of e' \<Longrightarrow> put e (put e' l) = put e l"
  by (auto intro!: look_inj simp: put_ok look_put)

lemma del_put: "ok l \<Longrightarrow> look l (name_of e) = None \<Longrightarrow> del (name_of e) (put e l) = l"
  by (intro look_inj) (auto simp: put_ok del_ok look_put look_del fun_upd_idem)

end

section \<open>The binary search\<close>

lemma by_name_nth: "by_name es \<Longrightarrow> i < j \<Longrightarrow> j < length es \<Longrightarrow> de_Name (es ! i) < de_Name (es ! j)"
  by (auto simp: by_name_def sorted_wrt_iff_nth_less)

lemma by_name_mono: "by_name es \<Longrightarrow> mono_upto (length es) (\<lambda>i. n \<le> de_Name (es ! i))"
  unfolding mono_upto_def
  by (metis by_name_nth le_neq_implies_less less_imp_le order_trans)

lemma name_index_le: "by_name es \<Longrightarrow> name_index es n \<le> length es"
  unfolding name_index_def by (rule sort_Search_spec(1) [OF by_name_mono])

lemma name_index_split:
  assumes "by_name es"
  shows "\<forall>e \<in> set (take (name_index es n) es). de_Name e < n"
    and "\<forall>e \<in> set (drop (name_index es n) es). n \<le> de_Name e"
proof -
  note spec = sort_Search_spec [OF by_name_mono [OF assms, of n], folded name_index_def]
  show "\<forall>e \<in> set (take (name_index es n) es). de_Name e < n"
    using spec(2) by (auto simp: in_set_conv_nth not_le)
  have "n \<le> de_Name (es ! j)" if "name_index es n \<le> j" "j < length es" for j
    using spec(3) mono_uptoD [OF by_name_mono [OF assms, of n]] that by auto
  then show "\<forall>e \<in> set (drop (name_index es n) es). n \<le> de_Name e"
    by (auto simp: in_set_conv_nth)
qed

text \<open>A sorted list split at a name: what is before it, the entry with the name if any, the rest.\<close>

lemma name_index_cases:
  assumes "by_name es"
  obtains (absent) xs ys where "es = xs @ ys" "name_index es n = length xs"
      "\<forall>e \<in> set xs. de_Name e < n" "\<forall>e \<in> set ys. n < de_Name e"
    | (present) xs e ys where "es = xs @ e # ys" "name_index es n = length xs" "de_Name e = n"
      "\<forall>e \<in> set xs. de_Name e < n" "\<forall>e \<in> set ys. n < de_Name e"
proof -
  define xs where "xs = take (name_index es n) es"
  define zs where "zs = drop (name_index es n) es"
  have len: "name_index es n = length xs" using name_index_le [OF assms] by (simp add: xs_def)
  have es: "es = xs @ zs" by (simp add: xs_def zs_def)
  have xs: "\<forall>e \<in> set xs. de_Name e < n" and zs: "\<forall>e \<in> set zs. n \<le> de_Name e"
    using name_index_split [OF assms] by (auto simp: xs_def zs_def)
  show thesis
  proof (cases "zs \<noteq> [] \<and> de_Name (hd zs) = n")
    case True
    then obtain e ys where "zs = e # ys" "de_Name e = n" by (cases zs) auto
    then show thesis using assms es len xs present [of xs e ys]
      by (auto simp: by_name_def sorted_wrt_append)
  next
    case False
    then have "\<forall>e \<in> set zs. n < de_Name e"
      using zs assms es by (cases zs) (force simp: by_name_def sorted_wrt_append)+
    then show thesis using es len xs absent by blast
  qed
qed

section \<open>The patches\<close>

lemma listing_Cons: "listing (e # es) = (listing es)(de_Name e \<mapsto> e)"
  by (simp add: listing_def)

lemma dom_listing: "dom (listing es) = de_Name ` set es"
  by (simp add: listing_def dom_map_of_conv_image_fst image_image)

lemma listing_append:
  assumes "by_name (xs @ ys)"
  shows "listing (xs @ ys) = listing xs ++ listing ys"
proof -
  have "dom (listing xs) \<inter> dom (listing ys) = {}"
    using assms by (force simp: dom_listing by_name_def sorted_wrt_append)
  from map_add_comm [OF this] show ?thesis by (simp add: listing_def)
qed

lemma listing_None: "listing es n = None \<longleftrightarrow> n \<notin> de_Name ` set es"
  using dom_listing [of es] by auto

lemma upsert_entries_sorted:
  assumes "by_name es"
  shows "by_name (upsert_entries e es) \<and>
    listing (upsert_entries e es) = (listing es)(de_Name e \<mapsto> e)"
  using assms
proof (cases rule: name_index_cases [of es "de_Name e"])
  case (absent xs ys)
  then have "\<not> (name_index es (de_Name e) < length es \<and> de_Name (es ! name_index es (de_Name e)) = de_Name e)"
    by (cases ys) (auto simp: nth_append)
  then have up: "upsert_entries e es = xs @ e # ys"
    using absent(1,2) unfolding upsert_entries_def Let_def by (simp only: if_False) simp
  have ok: "by_name (xs @ e # ys)" using assms absent by (auto simp: by_name_def sorted_wrt_append)
  moreover have "listing (xs @ e # ys) = (listing es)(de_Name e \<mapsto> e)"
    using listing_append [OF ok] listing_append assms absent(1)
    by (simp add: listing_Cons map_add_upd)
  ultimately show ?thesis by (simp add: up)
next
  case (present xs d ys)
  then have up: "upsert_entries e es = xs @ e # ys" by (simp add: upsert_entries_def Let_def)
  have ok: "by_name (xs @ e # ys)" using assms present by (auto simp: by_name_def sorted_wrt_append)
  moreover have "listing (xs @ e # ys) = (listing es)(de_Name e \<mapsto> e)"
    using listing_append [OF ok] listing_append assms present(1,3)
    by (simp add: listing_Cons map_add_upd)
  ultimately show ?thesis by (simp add: up)
qed

lemma delete_entries_sorted:
  assumes "by_name es"
  shows "by_name (delete_entries n es) \<and> listing (delete_entries n es) = (listing es)(n := None)"
  using assms
proof (cases rule: name_index_cases [of es n])
  case (absent xs ys)
  then have "length es \<le> name_index es n \<or> de_Name (es ! name_index es n) \<noteq> n"
    by (cases ys) (auto simp: nth_append)
  then have "delete_entries n es = es"
    by (simp add: delete_entries_def remove_entries_def Let_def)
  moreover have "listing es n = None" using absent by (auto simp: listing_None)
  ultimately show ?thesis using assms by (simp add: fun_upd_idem)
next
  case (present xs d ys)
  then have del: "delete_entries n es = xs @ ys"
    by (simp add: delete_entries_def remove_entries_def Let_def)
  have ok: "by_name (xs @ ys)" using assms present by (auto simp: by_name_def sorted_wrt_append)
  have "listing xs n = None" "listing ys n = None" using present by (auto simp: listing_None)
  then have "listing (xs @ ys) = (listing es)(n := None)"
    using listing_append [OF ok] listing_append assms present(1,3)
    by (auto simp: listing_Cons map_add_def split: option.splits)
  then show ?thesis using ok by (simp add: del)
qed

lemma listing_inj:
  assumes "by_name es" and "by_name es'" and "listing es = listing es'"
  shows "es = es'"
proof -
  have ran: "set l = ran (listing l)" if "by_name l" for l
  proof -
    have "distinct (map de_Name l)"
      using that by (auto simp: by_name_def distinct_conv_nth sorted_wrt_iff_nth_less) (metis linorder_neqE_nat less_irrefl)
    then show ?thesis by (simp add: listing_def ran_map_of_zip ran_distinct o_def image_image)
  qed
  have "sorted_wrt (\<lambda>a b. de_Name a < de_Name b) es" "sorted_wrt (\<lambda>a b. de_Name a < de_Name b) es'"
    using assms by (simp_all add: by_name_def)
  moreover have "set es = set es'" using ran assms by metis
  ultimately show ?thesis
  proof (induction es arbitrary: es')
    case (Cons a es)
    then obtain b es'' where b: "es' = b # es''" by (cases es') auto
    have "a \<in> insert b (set es'')" "b \<in> insert a (set es)" using Cons.prems b by auto
    then have "a = b" using Cons.prems b by (auto dest: less_asym)
    moreover have "a \<notin> set es" "b \<notin> set es''" using Cons.prems b by auto
    ultimately have "set es = set es''" using Cons.prems b by auto
    then have "es = es''" using Cons.IH [of es''] Cons.prems b by simp
    then show ?case using \<open>a = b\<close> b by simp
  qed simp
qed

text \<open>Sorting entries with distinct names gives such a list.\<close>

lemma by_name_sort_key:
  "distinct (map de_Name es) \<Longrightarrow> by_name (sort_key de_Name es)"
proof -
  assume "distinct (map de_Name es)"
  then have "distinct (map de_Name (sort_key de_Name es))"
    by (simp add: distinct_map distinct_sort)
  moreover have "sorted (map de_Name (sort_key de_Name es))" by simp
  ultimately have "sorted_wrt (<) (map de_Name (sort_key de_Name es))"
    by (simp add: strict_sorted_iff)
  then show ?thesis by (simp add: by_name_def sorted_wrt_map)
qed

section \<open>Results\<close>

interpretation snaps: patchable_listing by_name listing de_Name upsert_entries delete_entries
  by unfold_locales (auto simp: upsert_entries_sorted delete_entries_sorted intro: listing_inj)

lemma cachedDirSnapshot_put:
  "0 \<le> b_cacheTTL b \<Longrightarrow> cachedDirSnapshot p (put_snapshot p es b) = Some es"
  by (simp add: cachedDirSnapshot_def put_snapshot_def isFresh_def expiry_def)

lemma cachedDirSnapshot_upsert:
  "cachedDirSnapshot p b = Some es \<Longrightarrow> p \<noteq> 0 \<Longrightarrow> 0 \<le> b_cacheTTL b \<Longrightarrow>
   cachedDirSnapshot p (upsertCachedDirSnapshot p info b)
     = Some (upsert_entries (dirEntryFromNodeInfo info) es)"
  by (simp add: upsertCachedDirSnapshot_def cachedDirSnapshot_put)

lemma cachedDirSnapshot_remove:
  "cachedDirSnapshot p b = Some es \<Longrightarrow> p \<noteq> 0 \<Longrightarrow> name \<noteq> [] \<Longrightarrow> 0 \<le> b_cacheTTL b \<Longrightarrow>
   cachedDirSnapshot p (removeCachedDirSnapshotEntry p name b) = Some (delete_entries name es)"
  by (simp add: removeCachedDirSnapshotEntry_def delete_entries_def cachedDirSnapshot_put
      split: option.split)

text \<open>
  C9: Patching a cached directory snapshot is as good as listing the directory again: after
  upsertCachedDirSnapshot the cached listing is the one sorted list whose name-to-entry map is the
  old map with the entry put under its name, and after removeCachedDirSnapshotEntry it is the one
  whose map is the old map without the name.
\<close>

theorem snapshot_patch_is_relisting:
  assumes "cachedDirSnapshot p b = Some es" and "by_name es" and "p \<noteq> 0" and "name \<noteq> []"
    and "0 \<le> b_cacheTTL b"
    and "by_name up" and "listing up = (listing es)(ni_Name info \<mapsto> dirEntryFromNodeInfo info)"
    and "by_name del" and "listing del = (listing es)(name := None)"
  shows "cachedDirSnapshot p (upsertCachedDirSnapshot p info b) = Some up \<and>
    cachedDirSnapshot p (removeCachedDirSnapshotEntry p name b) = Some del"
proof -
  have "de_Name (dirEntryFromNodeInfo info) = ni_Name info" by (simp add: dirEntryFromNodeInfo_def)
  then have "upsert_entries (dirEntryFromNodeInfo info) es = up"
    using snaps.patches_eq_relisting [of es up "[Inl (dirEntryFromNodeInfo info)]"] assms by simp
  moreover have "delete_entries name es = del"
    using snaps.patches_eq_relisting [of es del "[Inr name]"] assms by simp
  ultimately show ?thesis
    using assms by (simp add: cachedDirSnapshot_upsert cachedDirSnapshot_remove)
qed

definition sample_entry :: "string \<Rightarrow> int \<Rightarrow> DirEntry" where
  "sample_entry name sz =
     \<lparr>de_NodeID = 2, de_Name = name, de_FileType = FileTypeFile, de_Size = sz, de_Mode = 420,
      de_ModTime = []\<rparr>"

definition sample_backend :: metadataBackend where
  "sample_backend =
     \<lparr>b_rootPath = ''/w'', b_now = 100, b_cacheTTL = 2000000000, b_nextNodeID = 2,
      b_nextCursorID = 1000, b_nextHandleID = 2000, b_stats = zero_stats,
      b_profile = defaultWorkspaceProfile,
      b_nodesByID = Map.empty, b_nodesByPath = Map.empty, b_cursors = Map.empty,
      b_handles = Map.empty, b_attrCache = Map.empty, b_negativeCache = Map.empty,
      b_dirSnapshots = [1 \<mapsto> \<lparr>ds_entries = [sample_entry ''a'' 1, sample_entry ''c'' 3],
        ds_expiresAt = 200\<rparr>],
      b_smallFileCache = Map.empty,
      b_fs = \<lparr>fs_paths = [], fs_inodes = Map.empty, fs_next = 0, fs_clock = 100\<rparr>\<rparr>"

theorem snapshot_patch_is_relisting_witness:
  "cachedDirSnapshot 1 (upsertCachedDirSnapshot 1
      (zero_NodeInfo\<lparr>ni_NodeID := 2, ni_Name := ''b'', ni_FileType := FileTypeFile, ni_Size := 2,
         ni_Mode := 420\<rparr>) sample_backend)
     = Some [sample_entry ''a'' 1, sample_entry ''b'' 2, sample_entry ''c'' 3] \<and>
   cachedDirSnapshot 1 (removeCachedDirSnapshotEntry 1 ''a'' sample_backend)
     = Some [sample_entry ''c'' 3]"
  by (rule snapshot_patch_is_relisting [of 1 sample_backend
        "[sample_entry ''a'' 1, sample_entry ''c'' 3]"])
    (auto simp: cachedDirSnapshot_def sample_backend_def by_name_def listing_def isFresh_def
      zero_NodeInfo_def dirEntryFromNodeInfo_def sample_entry_def fun_eq_iff)

end
