(* ===== verification/Paths.thy ===== *)
theory Paths
  imports Filesystem
begin

text \<open>
  Clean paths: how the components of a path behave under \<^verbatim>\<open>filepath.Join\<close>, \<^verbatim>\<open>Dir\<close> and \<^verbatim>\<open>Base\<close>,
  and that the file-system operations keep a table of clean absolute paths without duplicates.
\<close>

section \<open>Clean relative paths\<close>

lemma Split_append_sep: "Split (s @ sep # t) sep = Split s sep @ Split t sep"
  by (induction s) (auto simp: append_eq_Cons_conv split: list.split)

lemma clean_rel_append_iff:
  "clean_rel (s @ slash # t) \<longleftrightarrow> s \<noteq> [] \<and> t \<noteq> [] \<and> clean_rel s \<and> clean_rel t"
  by (auto simp: clean_rel_def Split_append_sep valid_name_def)

lemma clean_rel_cases:
  assumes "clean_rel p"
  obtains (root) "p = []"
    | (name) "valid_name p"
    | (below) u n where "p = u @ slash # n" "clean_rel u" "u \<noteq> []" "valid_name n"
proof -
  consider "p = []" | "p \<noteq> []" "slash \<notin> set p" | "slash \<in> set p" by blast
  then show thesis
  proof cases
    case 1
    then show thesis by (rule root)
  next
    case 2
    then show thesis using assms name by (auto simp: clean_rel_def Split_free)
  next
    case 3
    then obtain u n where p: "p = u @ slash # n" "slash \<notin> set n"
      using split_list_last [of slash p] by blast
    then have "clean_rel n" "n \<noteq> []" "clean_rel u" "u \<noteq> []"
      using assms by (auto simp: clean_rel_append_iff)
    then show thesis using p below by (auto simp: clean_rel_def Split_free)
  qed
qed

lemma valid_name_clean: "clean_rel n \<Longrightarrow> slash \<notin> set n \<Longrightarrow> n \<noteq> [] \<Longrightarrow> valid_name n"
  by (simp add: clean_rel_def Split_free)

lemma Base_append:
  assumes "clean_rel p" and "p \<noteq> []"
  shows "Base (s @ slash # p) = Base p"
  using assms(1)
proof (cases rule: clean_rel_cases)
  case (below u n)
  then show ?thesis using Base_snoc [of n "s @ slash # u"] Base_snoc [of n u] by simp
qed (use assms in \<open>auto simp: Base_snoc Base_name\<close>)

lemma valid_name_Base: "clean_rel p \<Longrightarrow> p \<noteq> [] \<Longrightarrow> valid_name (Base p)"
  by (erule clean_rel_cases) (auto simp: Base_snoc Base_name)

lemma dropWhile_not_slash:
  "slash \<notin> set n \<Longrightarrow> dropWhile (\<lambda>c. c \<noteq> slash) (rev n @ slash # ys) = slash # ys"
  by (induction n rule: rev_induct) auto

lemma Clean_trailing: "clean_rel u \<Longrightarrow> u \<noteq> [] \<Longrightarrow> Clean (u @ ''/'') = u"
  using clean_rel_hd [of u]
  by (auto simp: Clean_def Let_def Split_append_sep clean_rel_def fold_clean_step Join_Split
      clean_step_def)

lemma Dir_below: "clean_rel u \<Longrightarrow> u \<noteq> [] \<Longrightarrow> valid_name n \<Longrightarrow> Dir (u @ slash # n) = u"
  using Clean_trailing [of u] by (simp add: Dir_def dropWhile_not_slash valid_name_def)

lemma Dir_name: "valid_name n \<Longrightarrow> Dir n = ''.''"
  by (simp add: Dir_def Clean_def valid_name_def dropWhile_eq_Nil_conv)

section \<open>Clean absolute paths\<close>

definition abs_clean :: "string \<Rightarrow> bool" where
  "abs_clean p \<longleftrightarrow> (\<exists>t. p = slash # t \<and> clean_rel t)"

lemma Clean_abs: "clean_rel t \<Longrightarrow> t \<noteq> [] \<Longrightarrow> Clean (slash # t) = slash # t"
  by (auto simp: Clean_def Let_def clean_rel_def fold_clean_step Join_Split clean_step_def)

lemma Clean_abs2: "clean_rel t \<Longrightarrow> t \<noteq> [] \<Longrightarrow> Clean (slash # slash # t) = slash # t"
  by (auto simp: Clean_def Let_def clean_rel_def fold_clean_step Join_Split clean_step_def)

text \<open>Joining a clean relative path to a clean absolute one only appends to it.\<close>

lemma path_Join_abs:
  assumes "abs_clean r" and "clean_rel p" and "p \<noteq> []"
  shows "path_Join r p = (if r = ''/'' then slash # p else r @ slash # p)"
    and "abs_clean (path_Join r p)"
proof -
  obtain t where t: "r = slash # t" "clean_rel t" using assms(1) by (auto simp: abs_clean_def)
  show eq: "path_Join r p = (if r = ''/'' then slash # p else r @ slash # p)"
    using t assms Clean_abs2 [of p] Clean_abs [of "t @ slash # p"]
    by (simp add: path_Join_def clean_rel_append_iff)
  then show "abs_clean (path_Join r p)"
    using t assms by (auto simp: abs_clean_def clean_rel_append_iff)
qed

lemma Base_path_Join_abs:
  "abs_clean r \<Longrightarrow> clean_rel p \<Longrightarrow> p \<noteq> [] \<Longrightarrow> Base (path_Join r p) = Base p"
  using Base_append [of p "[]"] Base_append [of p r] by (simp add: path_Join_abs)

text \<open>The directory part of a clean absolute path.\<close>

lemma abs_clean_below:
  "abs_clean (p @ slash # q) \<Longrightarrow> p \<noteq> [] \<Longrightarrow> q \<noteq> [] \<Longrightarrow> abs_clean p \<and> p \<noteq> ''/'' \<and> clean_rel q"
  by (cases p) (auto simp: abs_clean_def clean_rel_append_iff)

lemma abs_clean_append:
  "abs_clean p \<Longrightarrow> p \<noteq> ''/'' \<Longrightarrow> clean_rel q \<Longrightarrow> q \<noteq> [] \<Longrightarrow> abs_clean (p @ slash # q)"
  by (auto simp: abs_clean_def clean_rel_append_iff)

section \<open>Well-formed file systems\<close>

definition fs_wf :: "fs \<Rightarrow> bool" where
  "fs_wf f \<longleftrightarrow> distinct (map fst (fs_paths f)) \<and> (\<forall>p \<in> fst ` set (fs_paths f). abs_clean p)"

lemma fs_wf_inodes [simp]: "fs_wf (f\<lparr>fs_inodes := m\<rparr>) = fs_wf f"
  by (simp add: fs_wf_def)

lemma fs_wf_next [simp]: "fs_wf (f\<lparr>fs_next := n\<rparr>) = fs_wf f"
  by (simp add: fs_wf_def)

lemma fs_wf_upd_inode [simp]: "fs_wf (upd_inode i g f) = fs_wf f"
  by (simp add: upd_inode_def)

lemma fs_wf_touch_path [simp]: "fs_wf (touch_path p f) = fs_wf f"
  by (simp add: touch_path_def split: option.split)

lemma fs_wf_add:
  "fs_wf f \<Longrightarrow> abs_clean p \<Longrightarrow>
   fs_wf (f\<lparr>fs_paths := (p, i) # filter (\<lambda>(q, _). q \<noteq> p) (fs_paths f)\<rparr>)"
  by (auto simp: fs_wf_def distinct_map intro: inj_on_subset)

lemma fs_wf_filter: "fs_wf f \<Longrightarrow> fs_wf (f\<lparr>fs_paths := filter P (fs_paths f)\<rparr>)"
  by (auto simp: fs_wf_def distinct_map intro: inj_on_subset)

lemma abs_clean_slash [simp]: "abs_clean ''/''"
  by (simp add: abs_clean_def)

lemma fs_wf_OpenFile:
  assumes "fs_wf f" and "abs_clean p"
  shows "fs_wf (snd (os_OpenFile wr cr ex tr p f))"
proof -
  have "fs_wf (f\<lparr>fs_paths := (p, i) # filter (\<lambda>(q, _). q \<noteq> p) (fs_paths f),
      fs_inodes := m, fs_next := k\<rparr>)" for i m k
    using fs_wf_add [OF assms, of i] by (simp add: fs_wf_def)
  then show ?thesis
    using assms by (simp add: os_OpenFile_def Let_def split: sum.split prod.split)
qed

lemma fs_wf_Remove: "fs_wf f \<Longrightarrow> fs_wf (snd (os_Remove p f))"
  by (simp add: os_Remove_def fs_wf_filter split: sum.split)

lemma fs_wf_WriteAt: "fs_wf f \<Longrightarrow> fs_wf (snd (file_WriteAt h d off f))"
  by (simp add: file_WriteAt_def split: option.split)

lemma fs_wf_Truncate: "fs_wf f \<Longrightarrow> fs_wf (snd (file_Truncate h sz f))"
  by (simp add: file_Truncate_def split: option.split)

text \<open>Renaming moves a whole subtree to a place with nothing below it.\<close>

lemma move_path_under: "HasPrefix q (a @ ''/'') \<Longrightarrow> q \<noteq> a \<Longrightarrow> HasPrefix (move_path a b q) (b @ ''/'')"
  by (auto simp: move_path_def HasPrefix_iff)

lemma move_path_inj:
  "inj_on (move_path a b) {q. q \<noteq> b \<and> \<not> HasPrefix q (b @ ''/'')}"
  unfolding inj_on_def move_path_def by (auto simp: HasPrefix_iff)

lemma abs_clean_move_path:
  assumes "abs_clean q" and "abs_clean b" and "b \<noteq> ''/''" and "a \<noteq> []" and "a \<noteq> ''/''"
  shows "abs_clean (move_path a b q)"
proof (cases "HasPrefix q (a @ ''/'') \<and> q \<noteq> a")
  case True
  then obtain t where q: "q = a @ slash # t" by (auto simp: HasPrefix_iff)
  show ?thesis
  proof (cases "t = []")
    case True
    then have False using assms(1,4,5) q by (cases a) (auto simp: abs_clean_def clean_rel_append_iff)
    then show ?thesis ..
  next
    case False
    then have "clean_rel t" using q assms(1,4) abs_clean_below by blast
    then show ?thesis
      using q assms False abs_clean_append [of b t] by (simp add: move_path_def)
  qed
qed (use assms in \<open>auto simp: move_path_def\<close>)

lemma fs_wf_Rename:
  assumes "fs_wf f" and "abs_clean a" and "abs_clean b" and "a \<noteq> ''/''" and "b \<noteq> ''/''"
  shows "fs_wf (snd (os_Rename a b f))"
proof -
  let ?keep = "filter (\<lambda>(q, _). q \<noteq> b \<and> \<not> HasPrefix q (b @ ''/'')) (fs_paths f)"
  have "fst \<circ> (\<lambda>(q, k :: nat). (move_path a b q, k)) = move_path a b \<circ> fst" by (auto simp: fun_eq_iff)
  moreover have "distinct (map fst ?keep)"
    using assms(1) by (auto simp: fs_wf_def distinct_map intro: inj_on_subset)
  then have "distinct (map (move_path a b) (map fst ?keep))"
    using inj_on_subset [OF move_path_inj, of "set (map fst ?keep)" b a]
    by (subst distinct_map) force
  moreover have "\<forall>q \<in> set (map fst ?keep). abs_clean (move_path a b q)"
    using assms by (auto simp: fs_wf_def abs_clean_def intro!: abs_clean_move_path [unfolded abs_clean_def])
  ultimately have "fs_wf (f\<lparr>fs_paths := map (\<lambda>(q, k). (move_path a b q, k)) ?keep\<rparr>)"
    by (auto simp: fs_wf_def)
  then show ?thesis
    using assms(1) by (simp add: os_Rename_def Let_def split: sum.split prod.split)
qed

section \<open>Directory listings\<close>

lemma child_name_path:
  assumes "child_name p q = Some n"
  shows "q = (if p = ''/'' then ''/'' else p @ ''/'') @ n"
proof -
  have "q = pre @ n" if "child_name p q = Some n" "pre = (if p = ''/'' then ''/'' else p @ ''/'')" for pre
    using that(1) unfolding child_name_def that(2) [symmetric] Let_def
    by (auto simp: HasPrefix_iff split: if_splits)
  then show ?thesis using assms by blast
qed

lemma child_name_name: "child_name p q = Some n \<Longrightarrow> n \<noteq> [] \<and> slash \<notin> set n"
  unfolding child_name_def Let_def by (metis option.distinct(1) option.sel)

lemma child_name_valid:
  assumes "abs_clean q" and "child_name p q = Some n"
  shows "valid_name n"
proof -
  note q = child_name_path [OF assms(2)] and n = child_name_name [OF assms(2)]
  have "clean_rel n"
  proof (cases "p = ''/'' \<or> p = []")
    case True
    then show ?thesis using q assms(1) by (auto simp: abs_clean_def)
  next
    case False
    then show ?thesis using q n assms(1) abs_clean_below [of p n] by auto
  qed
  then show ?thesis using n by (simp add: valid_name_clean)
qed

lemma child_name_inj: "child_name p q = Some n \<Longrightarrow> child_name p q' = Some n \<Longrightarrow> q = q'"
  using child_name_path by metis

lemma distinct_map_filter_inj:
  assumes "distinct (map fst xs)"
    and "\<And>x y a b. g x = Some a \<Longrightarrow> g y = Some b \<Longrightarrow> fst a = fst b \<Longrightarrow> fst x = fst y"
  shows "distinct (map fst (List.map_filter g xs))"
  using assms(1)
proof (induction xs)
  case (Cons x xs)
  have "fst a \<notin> fst ` set (List.map_filter g xs)" if "g x = Some a" for a
  proof
    assume "fst a \<in> fst ` set (List.map_filter g xs)"
    then obtain y b where "y \<in> set xs" "g y = Some b" "fst a = fst b"
      by (auto simp: List.map_filter_def)
    then show False using assms(2) [OF that] Cons.prems by auto
  qed
  then show ?case using Cons by (auto simp: List.map_filter_simps split: option.split)
qed (simp add: List.map_filter_simps)

lemma dir_children_names:
  assumes "fs_wf f"
  shows "distinct (map fst (dir_children f p))" and "(n, d) \<in> set (dir_children f p) \<Longrightarrow> valid_name n"
proof -
  let ?g = "\<lambda>(q, i). case child_name p q of None \<Rightarrow> None
     | Some n \<Rightarrow> (case fs_inodes f i of None \<Rightarrow> None | Some nd \<Rightarrow> Some (n, i_isdir nd))"
  have "distinct (map fst (List.map_filter ?g (fs_paths f)))"
    using assms by (intro distinct_map_filter_inj)
      (auto simp: fs_wf_def split: option.splits dest: child_name_inj)
  then show "distinct (map fst (dir_children f p))"
    by (simp add: dir_children_def distinct_map distinct_sort)
  assume "(n, d) \<in> set (dir_children f p)"
  then obtain q i where "(q, i) \<in> set (fs_paths f)" "child_name p q = Some n"
    by (auto simp: dir_children_def List.map_filter_def split: option.splits)
  then show "valid_name n" using assms child_name_valid by (force simp: fs_wf_def)
qed

lemma os_ReadDir_names:
  "fs_wf f \<Longrightarrow> os_ReadDir f p = Inr es \<Longrightarrow>
   distinct (map fst es) \<and> (\<forall>n \<in> fst ` set es. valid_name n)"
  by (auto dest: dir_children_names(2) intro: dir_children_names(1) simp: os_ReadDir_def split: sum.splits if_splits)

end
