(* ===== verification/Tables.thy ===== *)
theory Tables
  imports Backend Snapshots Paths
begin

text \<open>
  The invariant of the metadata backend. Node records, open handles and cached attributes are
  filed under clean relative paths, directory snapshots and cursors are strictly sorted by name,
  and, as long as the node counter has not wrapped, the two node maps agree: a path leads to a
  record with that path. Every internal and public operation keeps it.
\<close>

section \<open>The invariant\<close>

definition node_maps_ok :: "nat \<Rightarrow> (u64 \<rightharpoonup> nodeRecord) \<Rightarrow> (string \<rightharpoonup> u64) \<Rightarrow> bool" where
  "node_maps_ok n byID byPath \<longleftrightarrow>
     (\<forall>p i. byPath p = Some i \<longrightarrow> (\<exists>r. byID i = Some r \<and> nr_relPath r = p)) \<and>
     (\<forall>i r. byID i = Some r \<longrightarrow> nr_id r = i \<and> 1 \<le> unat i \<and> unat i \<le> n)"

definition node_paths_ok :: "(u64 \<rightharpoonup> nodeRecord) \<Rightarrow> bool" where
  "node_paths_ok byID \<longleftrightarrow> (\<forall>i r. byID i = Some r \<longrightarrow> clean_rel (nr_relPath r))"

definition handles_ok :: "(u64 \<rightharpoonup> fileHandle) \<Rightarrow> bool" where
  "handles_ok hs \<longleftrightarrow> (\<forall>i h. hs i = Some h \<longrightarrow> fh_id h = i \<and> clean_rel (fh_relPath h))"

definition cursors_ok :: "(u64 \<rightharpoonup> dirCursor) \<Rightarrow> bool" where
  "cursors_ok cs \<longleftrightarrow> (\<forall>i c. cs i = Some c \<longrightarrow> dc_id c = i \<and> by_name (dc_entries c))"

definition attrs_ok :: "(string \<rightharpoonup> attrCacheEntry) \<Rightarrow> bool" where
  "attrs_ok ac \<longleftrightarrow>
     (\<forall>p e. ac p = Some e \<longrightarrow> clean_rel p \<and> (p \<noteq> [] \<longrightarrow> ni_Name (ac_info e) = Base p))"

definition snaps_ok :: "(u64 \<rightharpoonup> dirSnapshotEntry) \<Rightarrow> bool" where
  "snaps_ok ds \<longleftrightarrow> (\<forall>i e. ds i = Some e \<longrightarrow> by_name (ds_entries e))"

definition backend_inv :: "metadataBackend \<Rightarrow> bool" where
  "backend_inv b \<longleftrightarrow>
     abs_clean (b_rootPath b) \<and> fs_wf (b_fs b) \<and> node_paths_ok (b_nodesByID b) \<and>
     (b_nextNodeID b < 2 ^ 64 \<longrightarrow> node_maps_ok (b_nextNodeID b) (b_nodesByID b) (b_nodesByPath b)) \<and>
     handles_ok (b_handles b) \<and> cursors_ok (b_cursors b) \<and> attrs_ok (b_attrCache b) \<and>
     snaps_ok (b_dirSnapshots b)"

lemmas inv_parts = node_paths_ok_def handles_ok_def cursors_ok_def attrs_ok_def snaps_ok_def

section \<open>Fields the invariant does not constrain\<close>

lemma inv_stats [simp]: "backend_inv (b_stats_update g b) = backend_inv b"
  by (simp add: backend_inv_def)

lemma inv_now [simp]: "backend_inv (b\<lparr>b_now := t\<rparr>) = backend_inv b"
  by (simp add: backend_inv_def)

lemma inv_negative [simp]: "backend_inv (b\<lparr>b_negativeCache := m\<rparr>) = backend_inv b"
  by (simp add: backend_inv_def)

lemma inv_small [simp]: "backend_inv (b\<lparr>b_smallFileCache := m\<rparr>) = backend_inv b"
  by (simp add: backend_inv_def)

lemma inv_fs [simp]: "backend_inv b \<Longrightarrow> fs_wf f \<Longrightarrow> backend_inv (b\<lparr>b_fs := f\<rparr>)"
  by (simp add: backend_inv_def)

lemma inv_attr_del [simp]: "backend_inv b \<Longrightarrow> backend_inv (b\<lparr>b_attrCache := (b_attrCache b)(p := None)\<rparr>)"
  by (simp add: backend_inv_def attrs_ok_def)

lemma inv_snap_del [simp]:
  "backend_inv b \<Longrightarrow> backend_inv (b\<lparr>b_dirSnapshots := (b_dirSnapshots b)(i := None)\<rparr>)"
  by (simp add: backend_inv_def snaps_ok_def)

lemma inv_recordNegative [simp]: "backend_inv (recordNegative p b) = backend_inv b"
  by (simp add: recordNegative_def)

lemma inv_clearNegative [simp]: "backend_inv (clearNegative p b) = backend_inv b"
  by (simp add: clearNegative_def)

lemma inv_put_small [simp]: "backend_inv (put_small p d b) = backend_inv b"
  by (simp add: put_small_def)

lemma inv_put_attr [simp]:
  "backend_inv b \<Longrightarrow> clean_rel p \<Longrightarrow> (p \<noteq> [] \<Longrightarrow> ni_Name info = Base p) \<Longrightarrow> backend_inv (put_attr p info b)"
  by (auto simp: backend_inv_def put_attr_def attrs_ok_def)

lemma inv_put_snapshot [simp]: "backend_inv b \<Longrightarrow> by_name es \<Longrightarrow> backend_inv (put_snapshot i es b)"
  by (auto simp: backend_inv_def put_snapshot_def snaps_ok_def)

lemma inv_invalidateDirSnapshot [simp]: "backend_inv b \<Longrightarrow> backend_inv (invalidateDirSnapshot i b)"
  by (simp add: invalidateDirSnapshot_def)

lemma inv_invalidateEntry [simp]: "backend_inv b \<Longrightarrow> backend_inv (invalidateEntry p b)"
  by (simp add: invalidateEntry_def Let_def backend_inv_def attrs_ok_def)

lemma inv_invalidatePath [simp]: "backend_inv b \<Longrightarrow> backend_inv (invalidatePath p i b)"
  by (simp add: invalidatePath_def Let_def)

lemma inv_prune [simp]: "backend_inv b \<Longrightarrow> backend_inv (pruneExpiredCachesLocked t b)"
  by (auto simp: pruneExpiredCachesLocked_def backend_inv_def attrs_ok_def snaps_ok_def
      drop_expired_def split: option.splits if_splits)

lemma inv_cached_name:
  "backend_inv b \<Longrightarrow> cachedNodeInfo p b = Some info \<Longrightarrow> p \<noteq> [] \<Longrightarrow> ni_Name info = Base p"
  by (auto simp: backend_inv_def attrs_ok_def cachedNodeInfo_def split: option.splits if_splits)

lemma inv_cached_snapshot: "backend_inv b \<Longrightarrow> cachedDirSnapshot i b = Some es \<Longrightarrow> by_name es"
  by (auto simp: backend_inv_def snaps_ok_def cachedDirSnapshot_def split: option.splits if_splits)

lemma inv_nodeByID: "backend_inv b \<Longrightarrow> nodeByID i b = Inr r \<Longrightarrow> clean_rel (nr_relPath r)"
  by (auto simp: backend_inv_def node_paths_ok_def nodeByID_def split: option.splits)

lemma inv_handleByID: "backend_inv b \<Longrightarrow> handleByID i b = Inr h \<Longrightarrow> clean_rel (fh_relPath h) \<and> fh_id h = i"
  by (auto simp: backend_inv_def handles_ok_def handleByID_def split: option.splits)

section \<open>Paths\<close>

lemma isValidSingleName_iff [simp]: "isValidSingleName n \<longleftrightarrow> valid_name n"
  by (auto simp: isValidSingleName_def valid_name_def)

lemma clean_child_rel [simp]: "clean_rel p \<Longrightarrow> valid_name n \<Longrightarrow> clean_rel (child_rel p n)"
  by (simp add: child_rel_def path_Join_clean(2))

lemma child_rel_eq: "clean_rel p \<Longrightarrow> valid_name n \<Longrightarrow> child_rel p n = (if p = [] then n else p @ ''/'' @ n)"
  using path_Join_clean [of p n] by (simp add: child_rel_def)

lemma child_rel_nonempty [simp]: "clean_rel p \<Longrightarrow> valid_name n \<Longrightarrow> child_rel p n \<noteq> []"
  by (simp add: child_rel_eq valid_name_def)

lemma Base_child_rel [simp]: "clean_rel p \<Longrightarrow> valid_name n \<Longrightarrow> Base (child_rel p n) = n"
  by (simp add: child_rel_eq Base_name Base_snoc)

lemma Dir_root: "Dir [] = ''.''"
  by (simp add: Dir_def Clean_def)

lemma clean_parent_path [simp]: "clean_rel p \<Longrightarrow> clean_rel (parent_path p)"
  by (erule clean_rel_cases) (auto simp: parent_path_def Dir_below Dir_name Dir_root)

lemma absPath_clean: "backend_inv b \<Longrightarrow> clean_rel p \<Longrightarrow> abs_clean (absPath b p)"
  by (simp add: absPath_def backend_inv_def path_Join_abs(2))

lemma Base_absPath: "backend_inv b \<Longrightarrow> clean_rel p \<Longrightarrow> p \<noteq> [] \<Longrightarrow> Base (absPath b p) = Base p"
  by (simp add: absPath_def backend_inv_def Base_path_Join_abs)

lemma os_Stat_name: "os_Stat f p = Inr info \<Longrightarrow> fi_Name info = Base p"
  by (auto simp: os_Stat_def file_info_def split: sum.splits if_splits)

section \<open>The node table\<close>

lemma inv_insert_node:
  assumes "backend_inv b" and "clean_rel p"
  shows "backend_inv (snd (insert_node p hint b))"
proof (cases "b_nodesByPath b p")
  case None
  let ?n = "Suc (b_nextNodeID b)"
  let ?byID = "(b_nodesByID b)(of_nat ?n \<mapsto> \<lparr>nr_id = of_nat ?n, nr_parentID = hint, nr_relPath = p\<rparr>)"
  have "node_maps_ok ?n ?byID ((b_nodesByPath b)(p \<mapsto> of_nat ?n))" if lt: "?n < 2 ^ 64"
  proof -
    have u: "unat (of_nat ?n :: u64) = ?n" using lt by (simp add: unat_of_nat del: of_nat_Suc)
    have old: "node_maps_ok (b_nextNodeID b) (b_nodesByID b) (b_nodesByPath b)"
      using assms(1) lt by (simp add: backend_inv_def)
    then have "b_nodesByID b (of_nat ?n) = None"
      using u unfolding node_maps_ok_def by (metis not_None_eq not_less_eq_eq order_refl)
    then show ?thesis using old u
      by (auto simp: node_maps_ok_def le_Suc_eq simp del: of_nat_Suc) (metis option.distinct(1))+
  qed
  then show ?thesis
    using assms None by (simp add: backend_inv_def insert_node_def Let_def node_paths_ok_def)
next
  case (Some i)
  have "node_maps_ok (Suc n) m m'" if "node_maps_ok n m m'" for n m m'
    using that by (auto simp: node_maps_ok_def le_Suc_eq)
  then show ?thesis using assms Some by (simp add: backend_inv_def insert_node_def)
qed

lemma inv_ensureNode_hinted:
  "backend_inv b \<Longrightarrow> clean_rel p \<Longrightarrow> backend_inv (snd (ensureNode_hinted p hint b))"
  by (simp add: ensureNode_hinted_def Let_def inv_insert_node split: option.split)

lemma inv_ensureNode: "backend_inv b \<Longrightarrow> clean_rel p \<Longrightarrow> backend_inv (snd (ensureNode p hint b))"
  using inv_ensureNode_hinted [of b "parent_path p" 1]
  by (auto simp: ensureNode_def Let_def inv_insert_node split: option.split prod.split)

lemma inv_ensureNodeD [dest]:
  "ensureNode p hint b = (i, b') \<Longrightarrow> backend_inv b \<Longrightarrow> clean_rel p \<Longrightarrow> backend_inv b'"
  using inv_ensureNode [of b p hint] by simp

lemma inv_movePathMapping:
  assumes "backend_inv b" and "clean_rel dst"
  shows "backend_inv (movePathMapping src dst parent b)"
proof (cases "b_nodesByPath b src")
  case (Some i)
  let ?r = "case b_nodesByID b i of Some rec \<Rightarrow> rec | None \<Rightarrow> \<lparr>nr_id = 0, nr_parentID = 0, nr_relPath = []\<rparr>"
  let ?byID = "(b_nodesByID b)(i \<mapsto> ?r\<lparr>nr_relPath := dst, nr_parentID := parent\<rparr>)"
  have "node_maps_ok n ?byID ((b_nodesByPath b)(src := None, dst \<mapsto> i))"
    if old: "node_maps_ok n (b_nodesByID b) (b_nodesByPath b)" for n
  proof -
    obtain r where r: "b_nodesByID b i = Some r" "nr_relPath r = src"
      using old Some by (auto simp: node_maps_ok_def)
    then have "j \<noteq> i" if "b_nodesByPath b q = Some j" "q \<noteq> src" for q j
      using old that unfolding node_maps_ok_def by (metis option.inject)
    then show ?thesis using old r by (auto simp: node_maps_ok_def)
  qed
  then show ?thesis
    using assms Some
    by (auto simp: backend_inv_def movePathMapping_def Let_def node_paths_ok_def attrs_ok_def)
qed (use assms in \<open>simp add: backend_inv_def movePathMapping_def attrs_ok_def\<close>)

lemma inv_removePathMapping:
  assumes "backend_inv b"
  shows "backend_inv (removePathMapping p b)"
proof (cases "b_nodesByPath b p")
  case (Some i)
  have "node_maps_ok n ((b_nodesByID b)(i := None)) ((b_nodesByPath b)(p := None))"
    if old: "node_maps_ok n (b_nodesByID b) (b_nodesByPath b)" for n
    using old Some unfolding node_maps_ok_def by (auto, metis option.inject)
  then show ?thesis
    using assms Some
    by (simp add: backend_inv_def removePathMapping_def Let_def node_paths_ok_def attrs_ok_def)
qed (use assms in \<open>simp add: backend_inv_def removePathMapping_def attrs_ok_def\<close>)

section \<open>Node information\<close>

lemma absPath_clearNegative [simp]: "absPath (clearNegative p b) q = absPath b q"
  by (simp add: absPath_def clearNegative_def)

lemma inv_refreshNodeInfo:
  assumes "backend_inv b" and "clean_rel p"
  shows "backend_inv (snd (refreshNodeInfo p hint b))"
proof (cases "os_Stat (b_fs b) (absPath b p)")
  case (Inr info)
  obtain i b1 where e1: "ensureNode p hint (clearNegative p b) = (i, b1)" by fastforce
  obtain j b2 where e2: "ensureNode (parent_path p) 1 b1 = (j, b2)" by fastforce
  have "backend_inv b1" using inv_ensureNodeD [OF e1] assms by simp
  moreover have "backend_inv b2" using inv_ensureNodeD [OF e2] \<open>backend_inv b1\<close> assms by simp
  moreover have "fi_Name info = Base p" if "p \<noteq> []"
    using Inr os_Stat_name Base_absPath [OF assms that] by metis
  ultimately show ?thesis
    using assms Inr e1 e2 by (auto simp: refreshNodeInfo_def Let_def)
qed (use assms in \<open>simp add: refreshNodeInfo_def\<close>)

lemma inv_refreshNodeInfoD [dest]:
  "refreshNodeInfo p hint b = (r, b') \<Longrightarrow> backend_inv b \<Longrightarrow> clean_rel p \<Longrightarrow> backend_inv b'"
  using inv_refreshNodeInfo [of b p hint] by simp

lemma refreshNodeInfo_name:
  "refreshNodeInfo p hint b = (Inr info, b') \<Longrightarrow> backend_inv b \<Longrightarrow> clean_rel p \<Longrightarrow> p \<noteq> [] \<Longrightarrow>
   ni_Name info = Base p"
  using os_Stat_name Base_absPath [of b p]
  by (auto simp: refreshNodeInfo_def Let_def split: sum.splits prod.splits if_splits)

lemma inv_withResolvedParentD [dest]:
  "withResolvedParent info p hint b = (r, b') \<Longrightarrow> backend_inv b \<Longrightarrow> clean_rel p \<Longrightarrow> backend_inv b'"
  by (auto simp: withResolvedParent_def split: if_splits prod.splits dest!: inv_ensureNodeD)

lemma withResolvedParent_name:
  "withResolvedParent info p hint b = (r, b') \<Longrightarrow> ni_Name r = ni_Name info"
  by (auto simp: withResolvedParent_def split: if_splits prod.splits)

lemma cachedNodeInfo_stats [simp]: "cachedNodeInfo p (b_stats_update g b) = cachedNodeInfo p b"
  by (simp add: cachedNodeInfo_def isFresh_def split: option.split)

lemma inv_nodeInfoForSnapshotPathD [dest]:
  assumes "nodeInfoForSnapshotPath p hint b = (r, b')" and "backend_inv b" and "clean_rel p"
  shows "backend_inv b'"
  using assms
  by (auto simp: nodeInfoForSnapshotPath_def Let_def split: if_splits option.splits prod.splits)

lemma nodeInfoForSnapshotPath_name:
  assumes "nodeInfoForSnapshotPath p hint b = (Inr info, b')" and "backend_inv b" and "clean_rel p"
    and "p \<noteq> []"
  shows "ni_Name info = Base p"
  using assms inv_cached_name [of b p]
  by (auto simp: nodeInfoForSnapshotPath_def Let_def withResolvedParent_name
      split: if_splits option.splits prod.splits dest: refreshNodeInfo_name)

section \<open>Directory snapshots\<close>

text \<open>The entries read for a snapshot carry names of the listing, in the order of the listing.\<close>

lemma snapshot_items_spec:
  assumes "snapshot_items rel i es b = (items, b')" and "backend_inv b" and "clean_rel rel"
    and "\<forall>n \<in> fst ` set es. valid_name n"
  shows "backend_inv b' \<and> subseq (map de_Name items) (map fst es)"
  using assms
proof (induction rel i es b arbitrary: items b' rule: snapshot_items.induct)
  case (2 rel i name d es b)
  obtain r b1 where n: "nodeInfoForSnapshotPath (child_rel rel name) i b = (r, b1)" by fastforce
  have ok: "clean_rel (child_rel rel name)" "child_rel rel name \<noteq> []" "Base (child_rel rel name) = name"
    using 2 by simp_all
  have inv: "backend_inv b1" using n ok 2 by blast
  obtain items1 b2 where rest: "snapshot_items rel i es b1 = (items1, b2)" by fastforce
  show ?case
  proof (cases r)
    case (Inl err)
    then show ?thesis using 2 n inv by (auto intro: subseq_Cons2)
  next
    case (Inr info)
    then have "ni_Name info = name"
      using n ok 2 nodeInfoForSnapshotPath_name by metis
    moreover have "backend_inv b2 \<and> subseq (map de_Name items1) (map fst es)"
      using "2.IH"(2) [OF n [symmetric] Inr rest] inv 2 by simp
    ultimately show ?thesis
      using 2 n Inr rest by (auto simp: dirEntryFromNodeInfo_def)
  qed
qed auto

lemma inv_refreshDirSnapshot:
  assumes "refreshDirSnapshot i b = (r, b')" and "backend_inv b"
  shows "backend_inv b' \<and>
    (\<forall>es. r = Inr es \<longrightarrow> by_name es \<and> (\<forall>e \<in> set es. valid_name (de_Name e)))"
proof (cases "\<exists>es. r = Inr es")
  case False
  then show ?thesis using assms
    by (auto simp: refreshDirSnapshot_def Let_def split: sum.splits if_splits prod.splits)
next
  case True
  then obtain es where r: "r = Inr es" by blast
  then obtain rec es0 items b1 where rec: "nodeByID i b = Inr rec"
    and rd: "os_ReadDir (b_fs b) (absPath b (nr_relPath rec)) = Inr es0"
    and items: "snapshot_items (nr_relPath rec) i es0 b = (items, b1)"
    and es: "es = sort_key de_Name items" and b': "b' = put_snapshot i es b1"
    using assms(1)
    by (auto simp: refreshDirSnapshot_def Let_def split: sum.splits if_splits prod.splits)
  have names: "distinct (map fst es0) \<and> (\<forall>n \<in> fst ` set es0. valid_name n)"
    using os_ReadDir_names [OF _ rd] assms(2) by (simp add: backend_inv_def)
  then have spec: "backend_inv b1 \<and> subseq (map de_Name items) (map fst es0)"
    using snapshot_items_spec [OF items assms(2) inv_nodeByID [OF assms(2) rec]] by blast
  then have "distinct (map de_Name items)"
    using names by (metis distinct_nthsI subseq_conv_nths)
  then have "by_name es" using es by_name_sort_key by blast
  moreover have "valid_name (de_Name e)" if "e \<in> set items" for e
  proof -
    have "set (map de_Name items) \<subseteq> set (map fst es0)"
      using spec set_nths_subset by (metis subseq_conv_nths)
    then show ?thesis using that names by (metis image_eqI list.set_map subset_iff)
  qed
  ultimately show ?thesis using spec es b' r by auto
qed

lemma inv_refreshDirSnapshotD [dest]:
  "refreshDirSnapshot i b = (r, b') \<Longrightarrow> backend_inv b \<Longrightarrow> backend_inv b'"
  using inv_refreshDirSnapshot by blast

lemma inv_snapshotDirD [dest]: "snapshotDir i b = (r, b') \<Longrightarrow> backend_inv b \<Longrightarrow> backend_inv b'"
  by (auto simp: snapshotDir_def split: option.splits)

lemma snapshotDir_by_name: "snapshotDir i b = (Inr es, b') \<Longrightarrow> backend_inv b \<Longrightarrow> by_name es"
  by (auto simp: snapshotDir_def split: option.splits
      dest: inv_cached_snapshot inv_refreshDirSnapshot)

lemma inv_upsertCachedDirSnapshot [simp]:
  "backend_inv b \<Longrightarrow> backend_inv (upsertCachedDirSnapshot i info b)"
  by (auto simp: upsertCachedDirSnapshot_def upsert_entries_sorted inv_cached_snapshot
      split: option.split)

lemma inv_removeCachedDirSnapshotEntry [simp]:
  assumes "backend_inv b"
  shows "backend_inv (removeCachedDirSnapshotEntry i n b)"
proof -
  have "by_name es'" if "cachedDirSnapshot i b = Some es" "remove_entries n es = Some es'" for es es'
    using delete_entries_sorted [OF inv_cached_snapshot [OF assms that(1)], of n] that(2)
    by (simp add: delete_entries_def)
  then show ?thesis
    using assms by (auto simp: removeCachedDirSnapshotEntry_def split: option.split)
qed

lemma inv_refreshNodeInfoAndPatchParent [simp]:
  "backend_inv b \<Longrightarrow> clean_rel p \<Longrightarrow> backend_inv (refreshNodeInfoAndPatchParent p i b)"
  by (auto simp: refreshNodeInfoAndPatchParent_def split: prod.split sum.split)

lemma inv_storeNodeInfoD [dest]:
  "storeNodeInfo p parent i info b = (e, b') \<Longrightarrow> backend_inv b \<Longrightarrow> clean_rel p \<Longrightarrow> backend_inv b'"
  by (auto simp: storeNodeInfo_def Let_def nodeInfoFromOSInfo_def)

section \<open>Prefetching\<close>

lemma inv_loadSmallFileCache:
  assumes "backend_inv b" and "clean_rel p"
  shows "backend_inv (snd (loadSmallFileCache p b))"
proof -
  define src where "src = (case cachedNodeInfo p b of Some info \<Rightarrow> (Inr info, b)
     | None \<Rightarrow> let (parentID, b) = ensureNode (parent_path p) 1 b in refreshNodeInfo p parentID b)"
  obtain r b1 where s: "src = (r, b1)" by fastforce
  have "backend_inv b1"
    using s assms by (auto simp: src_def split: option.splits prod.splits)
  then show ?thesis
    using assms s
    by (auto simp: loadSmallFileCache_def src_def [symmetric] split: option.split sum.split)
qed

lemma inv_loadSmallFileCacheD [dest]:
  "loadSmallFileCache p b = (r, b') \<Longrightarrow> backend_inv b \<Longrightarrow> clean_rel p \<Longrightarrow> backend_inv b'"
  using inv_loadSmallFileCache [of b p] by simp

lemma inv_snapshotDir_snd [simp]: "backend_inv b \<Longrightarrow> backend_inv (snd (snapshotDir i b))"
  by (cases "snapshotDir i b") auto

lemma inv_run_prefetch_job:
  "backend_inv b \<Longrightarrow> clean_rel (pj_relPath job) \<Longrightarrow> backend_inv (run_prefetch_job job b)"
  by (simp add: run_prefetch_job_def Let_def inv_loadSmallFileCache
      split: prefetchPriority.split prefetchJobKind.split)

lemma inv_runPrefetchJobs:
  assumes "backend_inv b" and "\<forall>job \<in> set jobs. clean_rel (pj_relPath job)"
  shows "backend_inv (runPrefetchJobs jobs b)"
proof -
  let ?run = "\<lambda>priority job b. if pj_priority job \<noteq> priority then b else run_prefetch_job job b"
  have "backend_inv (fold (?run priority) jobs b)" if "backend_inv b" for priority b
    using assms(2) that by (induction jobs arbitrary: b) (auto simp: inv_run_prefetch_job)
  then show ?thesis using assms(1) by (simp add: runPrefetchJobs_def)
qed

lemma inv_maybeWarmNode [simp]: "backend_inv b \<Longrightarrow> clean_rel p \<Longrightarrow> backend_inv (maybeWarmNode p info b)"
  by (auto simp: maybeWarmNode_def Let_def intro!: inv_runPrefetchJobs)

lemma inv_maybeWarmDir [simp]: "backend_inv b \<Longrightarrow> backend_inv (maybeWarmDir i b)"
  by (auto simp: maybeWarmDir_def Let_def split: sum.split intro!: inv_runPrefetchJobs inv_nodeByID)

lemma inv_root_jobs:
  "root_jobs es b = (jobs, b') \<Longrightarrow> backend_inv b \<Longrightarrow> \<forall>e \<in> set es. valid_name (de_Name e) \<Longrightarrow>
   backend_inv b' \<and> (\<forall>job \<in> set jobs. clean_rel (pj_relPath job))"
  by (induction es b arbitrary: jobs b' rule: root_jobs.induct)
     (auto simp: Let_def clean_rel_name split: prod.splits if_splits)

lemma inv_prefetchRoot:
  assumes "backend_inv b"
  shows "backend_inv (snd (prefetchRoot b))"
proof -
  obtain r b1 where r: "refreshDirSnapshot RootNodeID (count rootPrefetches_update b) = (r, b1)" by fastforce
  note spec = inv_refreshDirSnapshot [OF r]
  show ?thesis
  proof (cases r)
    case (Inr es)
    obtain jobs b2 where "root_jobs es b1 = (jobs, b2)" by fastforce
    then show ?thesis
      using Inr r spec assms inv_root_jobs [of es b1 jobs b2]
      by (auto simp: prefetchRoot_def intro!: inv_runPrefetchJobs)
  qed (use r spec assms in \<open>simp add: prefetchRoot_def\<close>)
qed

lemma inv_nodeInfoForPathD [dest]:
  assumes "nodeInfoForPath p hint b = (r, b')" and "backend_inv b" and "clean_rel p"
  shows "backend_inv b'"
  using assms
  by (auto simp: nodeInfoForPath_def Let_def split: if_splits option.splits prod.splits sum.splits)

section \<open>Public operations\<close>

lemma inv_add_cursor [simp]:
  "backend_inv b \<Longrightarrow> by_name es \<Longrightarrow> backend_inv (snd (add_cursor (i, es) b))"
  by (auto simp: add_cursor_def Let_def backend_inv_def cursors_ok_def simp del: of_nat_Suc)

lemma inv_add_handle [simp]:
  "backend_inv b \<Longrightarrow> (\<And>i. fh_id (mk i) = i \<and> clean_rel (fh_relPath (mk i))) \<Longrightarrow>
   backend_inv (snd (add_handle mk b))"
  by (auto simp: add_handle_def Let_def backend_inv_def handles_ok_def simp del: of_nat_Suc)

lemma inv_add_handleD:
  "add_handle mk b = (i, b') \<Longrightarrow> backend_inv b \<Longrightarrow> (\<And>i. fh_id (mk i) = i \<and> clean_rel (fh_relPath (mk i))) \<Longrightarrow>
   backend_inv b'"
  using inv_add_handle [of b mk] by simp

lemma inv_upd_handle [simp]:
  "backend_inv b \<Longrightarrow> fh_id h = i \<Longrightarrow> clean_rel (fh_relPath h) \<Longrightarrow> backend_inv (upd_handle i h b)"
  by (auto simp: upd_handle_def backend_inv_def handles_ok_def)

lemma inv_del_handle [simp]:
  "backend_inv b \<Longrightarrow> backend_inv (b\<lparr>b_handles := (b_handles b)(i := None)\<rparr>)"
  by (simp add: backend_inv_def handles_ok_def)

lemma inv_Lookup:
  assumes "Lookup i n b = (r, b')" and "backend_inv b"
  shows "backend_inv b'"
  using assms inv_nodeByID [OF assms(2)]
  by (auto simp: Lookup_def split: if_splits sum.splits dest!: inv_nodeInfoForPathD)

lemma inv_GetAttr: "GetAttr i b = (r, b') \<Longrightarrow> backend_inv b \<Longrightarrow> backend_inv b'"
  by (auto simp: GetAttr_def split: sum.splits dest: inv_nodeByID)

lemma inv_OpenDir: "OpenDir i b = (r, b') \<Longrightarrow> backend_inv b \<Longrightarrow> backend_inv b'"
  using inv_add_cursor
  by (auto simp: OpenDir_def split: prod.splits sum.splits dest: snapshotDir_by_name)
     (metis inv_add_cursor inv_snapshotDirD snapshotDir_by_name snd_conv)

lemma inv_CloseDir: "CloseDir i b = (r, b') \<Longrightarrow> backend_inv b \<Longrightarrow> backend_inv b'"
  by (auto simp: CloseDir_def backend_inv_def cursors_ok_def split: option.splits if_splits)

lemma inv_fs_OpenFile:
  "os_OpenFile wr cr ex tr (absPath b p) (b_fs b) = (r, f) \<Longrightarrow> backend_inv b \<Longrightarrow> clean_rel p \<Longrightarrow>
   backend_inv (b\<lparr>b_fs := f\<rparr>)"
  using fs_wf_OpenFile [of "b_fs b" "absPath b p" wr cr ex tr] absPath_clean [of b p]
  by (simp add: backend_inv_def)

lemma inv_OpenFile:
  assumes "OpenFile i wr tr b = (r, b')" and "backend_inv b"
  shows "backend_inv b'"
  using assms inv_nodeByID [OF assms(2)]
  by (auto simp: OpenFile_def Let_def split: sum.splits if_splits prod.splits
      dest!: inv_fs_OpenFile inv_add_handleD)

lemma inv_CreateFile:
  assumes "CreateFile i n ov b = (r, b')" and "backend_inv b"
  shows "backend_inv b'"
  using assms inv_nodeByID [OF assms(2)]
  by (auto simp: CreateFile_def Let_def split: sum.splits if_splits prod.splits
      dest!: inv_fs_OpenFile inv_add_handleD inv_nodeInfoForPathD)

lemma inv_ReadFile:
  assumes "ReadFile i off n b = (r, b')" and "backend_inv b"
  shows "backend_inv b'"
  using assms inv_handleByID [OF assms(2)]
  by (auto simp: ReadFile_def split: sum.splits if_splits option.splits prod.splits bool.splits)

lemma inv_WriteFile:
  assumes "WriteFile i off d b = (r, b')" and "backend_inv b"
  shows "backend_inv b'"
proof -
  have "fs_wf f" if "file_WriteAt h d off (b_fs b) = (x, f)" for h x f
    using fs_wf_WriteAt [of "b_fs b" h d off] that assms(2) by (simp add: backend_inv_def)
  then show ?thesis
    using assms inv_handleByID [OF assms(2)]
    by (auto simp: WriteFile_def Let_def split: sum.splits if_splits option.splits prod.splits)
qed

lemma inv_FlushHandle:
  assumes "FlushHandle i b = (r, b')" and "backend_inv b"
  shows "backend_inv b'"
  using assms inv_handleByID [OF assms(2)]
  by (auto simp: FlushHandle_def Let_def split: sum.splits option.splits prod.splits)

lemma inv_TruncateHandle:
  assumes "TruncateHandle i sz b = (r, b')" and "backend_inv b"
  shows "backend_inv b'"
proof -
  have "fs_wf f" if "file_Truncate h sz (b_fs b) = (x, f)" for h x f
    using fs_wf_Truncate [of "b_fs b" h sz] that assms(2) by (simp add: backend_inv_def)
  then show ?thesis
    using assms inv_handleByID [OF assms(2)]
    by (auto simp: TruncateHandle_def Let_def split: sum.splits if_splits option.splits prod.splits)
qed

lemma inv_SetDeleteOnClose:
  assumes "SetDeleteOnClose i e b = (r, b')" and "backend_inv b"
  shows "backend_inv b'"
  using assms inv_handleByID [OF assms(2)] by (auto simp: SetDeleteOnClose_def split: sum.splits)

lemma inv_CloseHandle:
  assumes "CloseHandle i b = (r, b')" and "backend_inv b"
  shows "backend_inv b'"
proof -
  have "fs_wf f" if "os_Remove p (b_fs b) = (x, f)" for p x f
    using fs_wf_Remove [of "b_fs b" p] that assms(2) by (simp add: backend_inv_def)
  moreover have "clean_rel (fh_relPath h)" if "b_handles b i = Some h" for h
    using that assms(2) by (auto simp: backend_inv_def handles_ok_def)
  ultimately show ?thesis
    using assms
    by (auto simp: CloseHandle_def Let_def inv_removePathMapping
        split: option.splits if_splits prod.splits)
qed

lemma absPath_not_root:
  "backend_inv b \<Longrightarrow> clean_rel p \<Longrightarrow> p \<noteq> [] \<Longrightarrow> absPath b p \<noteq> ''/''"
  by (simp add: absPath_def backend_inv_def path_Join_abs(1) append_eq_Cons_conv)

lemma inv_rename_tables:
  assumes "backend_inv b" and "clean_rel src" and "clean_rel dst"
    and "ensureNode dst j (removeCachedDirSnapshotEntry i n
        (invalidateEntry dst (invalidateEntry src (movePathMapping src dst j b)))) = (k, b1)"
    and "storeNodeInfo dst j k info b1 = (e, b2)"
  shows "backend_inv b2"
  using assms inv_ensureNodeD [OF assms(4)] by (auto simp: inv_movePathMapping)

lemma inv_RenamePath:
  assumes "RenamePath i n j m rep b = (r, b')" and "backend_inv b"
  shows "backend_inv b'"
proof -
  have "backend_inv (b\<lparr>b_fs := f\<rparr>)" if "os_Rename (absPath b p) (absPath b q) (b_fs b) = (x, f)"
    "clean_rel p" "clean_rel q" "p \<noteq> []" "q \<noteq> []" for p q x f
    using fs_wf_Rename [of "b_fs b" "absPath b p" "absPath b q"] that assms(2)
      absPath_clean [OF assms(2)] absPath_not_root [OF assms(2)] by (simp add: backend_inv_def)
  then show ?thesis
    using assms inv_nodeByID [OF assms(2)]
    by (auto simp: RenamePath_def Let_def split: option.splits if_splits prod.splits sum.splits
        intro!: inv_upsertCachedDirSnapshot elim!: inv_rename_tables [rotated 3])
qed

lemma inv_RecoverFileHandle:
  assumes "RecoverFileHandle i wr del b = (r, b')" and "backend_inv b"
  shows "backend_inv b'"
  using assms
  by (auto simp: RecoverFileHandle_def split: if_splits prod.splits sum.splits
      dest!: inv_OpenFile inv_SetDeleteOnClose) (metis inv_CloseHandle prod.collapse)

lemma inv_RevalidateNode:
  assumes "RevalidateNode i b = (r, b')" and "backend_inv b"
  shows "backend_inv b'"
  using assms inv_nodeByID [OF assms(2)]
  by (auto simp: RevalidateNode_def Let_def inv_removePathMapping
      split: if_splits prod.splits sum.splits)

text \<open>The walk: \<open>walk_inv m\<close> says that every state the walk \<open>m\<close> can end in satisfies the invariant.\<close>

definition walk_inv :: "walk_result \<Rightarrow> bool" where
  "walk_inv m \<longleftrightarrow> (\<forall>r b. m = Some (r, b) \<longrightarrow> backend_inv b)"

lemma walk_inv_then:
  "walk_inv m \<Longrightarrow> (\<And>es b. backend_inv b \<Longrightarrow> walk_inv (k es b)) \<Longrightarrow> walk_inv (walk_then m k)"
  by (auto simp: walk_inv_def walk_then_def split: option.splits sum.splits)

lemma walk_inv_Some [simp]: "walk_inv (Some (r, b)) \<longleftrightarrow> backend_inv b"
  by (auto simp: walk_inv_def)

lemma inv_walk_loop:
  assumes "\<And>rel b. backend_inv b \<Longrightarrow> clean_rel rel \<Longrightarrow> walk_inv (descend rel b)" and "clean_rel rel"
  shows "backend_inv b \<Longrightarrow> \<forall>n \<in> fst ` set es. valid_name n \<Longrightarrow>
    walk_inv (walk_loop descend i rc base rel es b)"
proof (induction es arbitrary: b)
  case (Cons e es)
  obtain name d where e: "e = (name, d)" by fastforce
  obtain r b1 where n: "nodeInfoForPath (child_rel rel name) i b = (r, b1)" by fastforce
  have ok: "clean_rel (child_rel rel name)" using Cons.prems e assms(2) by simp
  have inv: "backend_inv b1" using n ok Cons.prems by blast
  have "walk_inv (walk_loop descend i rc base rel es b2)" if "backend_inv b2" for b2
    using Cons that by simp
  then show ?case
    using e n inv assms(1) [OF inv ok]
    by (auto simp: Let_def intro!: walk_inv_then split: sum.split option.split)
qed simp

lemma inv_walk: "backend_inv b \<Longrightarrow> clean_rel rel \<Longrightarrow> walk_inv (walk k i rc base rel b)"
proof (induction k arbitrary: rel b)
  case (Suc k)
  have "\<forall>n \<in> fst ` set es. valid_name n" if "os_ReadDir (b_fs b) p = Inr es" for p es
    using Suc.prems that os_ReadDir_names by (auto simp: backend_inv_def)
  then show ?case using Suc by (auto intro!: inv_walk_loop split: sum.split)
qed (simp add: walk_inv_def)

lemma inv_SnapshotSubtree: "backend_inv b \<Longrightarrow> walk_inv (SnapshotSubtree i rc b)"
  by (auto simp: SnapshotSubtree_def Let_def
      intro!: walk_inv_then inv_walk intro: inv_GetAttr inv_nodeByID split: sum.split prod.split)

end
