(* ===== verification/BackendFrame.thy ===== *)
theory BackendFrame
  imports Tables
begin

text \<open>
  What the internal operations of the backend leave alone: none of them touches the file system,
  the root path, the clock, the profile, the handles or the cursors. Answering a metadata request
  therefore never changes a file, and the recursive walk of a snapshot sees one file system
  throughout, which is why it ends.
\<close>

definition same_env :: "metadataBackend \<Rightarrow> metadataBackend \<Rightarrow> bool" where
  "same_env b b' \<longleftrightarrow>
     b_rootPath b' = b_rootPath b \<and> b_now b' = b_now b \<and> b_cacheTTL b' = b_cacheTTL b \<and>
     b_profile b' = b_profile b \<and> b_fs b' = b_fs b \<and> b_handles b' = b_handles b \<and>
     b_cursors b' = b_cursors b \<and> b_nextHandleID b' = b_nextHandleID b \<and>
     b_nextCursorID b' = b_nextCursorID b \<and> b_nextNodeID b \<le> b_nextNodeID b'"

lemma same_env_refl [simp, intro]: "same_env b b"
  by (simp add: same_env_def)

lemma same_env_trans [trans]: "same_env a b \<Longrightarrow> same_env b c \<Longrightarrow> same_env a c"
  by (auto simp: same_env_def)

lemma same_env_stats [simp]: "same_env a (b_stats_update g b) = same_env a b"
  by (simp add: same_env_def)

lemma same_env_caches [simp]:
  "same_env a (recordNegative p b) = same_env a b"
  "same_env a (clearNegative p b) = same_env a b"
  "same_env a (put_attr p info b) = same_env a b"
  "same_env a (put_snapshot i es b) = same_env a b"
  "same_env a (put_small p d b) = same_env a b"
  "same_env a (invalidateDirSnapshot i b) = same_env a b"
  "same_env a (invalidateEntry p b) = same_env a b"
  by (simp_all add: same_env_def recordNegative_def clearNegative_def put_attr_def
      put_snapshot_def put_small_def invalidateDirSnapshot_def invalidateEntry_def Let_def)

lemma same_env_patches [simp]:
  "same_env a (upsertCachedDirSnapshot i info b) = same_env a b"
  "same_env a (removeCachedDirSnapshotEntry i n b) = same_env a b"
  by (simp_all add: upsertCachedDirSnapshot_def removeCachedDirSnapshotEntry_def split: option.split)

lemma same_env_mappings [simp]:
  "same_env a (movePathMapping src dst i b) = same_env a b"
  "same_env a (removePathMapping p b) = same_env a b"
  by (simp_all add: same_env_def movePathMapping_def removePathMapping_def Let_def split: option.split)

section \<open>Internal operations\<close>

lemma env_insert_node [simp]: "same_env b (snd (insert_node p hint b))"
  by (simp add: same_env_def insert_node_def Let_def split: option.split)

lemma env_ensureNode_hinted [simp]: "same_env b (snd (ensureNode_hinted p hint b))"
  by (simp add: ensureNode_hinted_def Let_def split: option.split)

lemma env_ensureNode [simp]: "same_env b (snd (ensureNode p hint b))"
proof -
  have "same_env b (snd (insert_node q i (snd (ensureNode_hinted q' 1 b))))" for q q' i
    by (rule same_env_trans [OF env_ensureNode_hinted env_insert_node])
  then show ?thesis by (simp add: ensureNode_def Let_def case_prod_unfold split: option.split)
qed

lemma env_ensureNodeD: "ensureNode p hint b = (i, b') \<Longrightarrow> same_env a b \<Longrightarrow> same_env a b'"
  using env_ensureNode [of b p hint] same_env_trans by auto

lemma env_refreshNodeInfoD: "refreshNodeInfo p hint b = (r, b') \<Longrightarrow> same_env a b \<Longrightarrow> same_env a b'"
  by (auto simp: refreshNodeInfo_def Let_def split: sum.splits prod.splits if_splits
      dest!: env_ensureNodeD [where a = a])

lemma env_withResolvedParentD:
  "withResolvedParent info p hint b = (r, b') \<Longrightarrow> same_env a b \<Longrightarrow> same_env a b'"
  by (auto simp: withResolvedParent_def split: if_splits prod.splits dest!: env_ensureNodeD [where a = a])

lemma env_nodeInfoForSnapshotPathD:
  "nodeInfoForSnapshotPath p hint b = (r, b') \<Longrightarrow> same_env a b \<Longrightarrow> same_env a b'"
  by (auto simp: nodeInfoForSnapshotPath_def Let_def split: if_splits option.splits prod.splits
      dest!: env_refreshNodeInfoD [where a = a] env_withResolvedParentD [where a = a])

lemma env_snapshot_itemsD:
  "snapshot_items rel i es b = (items, b') \<Longrightarrow> same_env a b \<Longrightarrow> same_env a b'"
  by (induction rel i es b arbitrary: items b' rule: snapshot_items.induct)
     (auto split: sum.splits prod.splits dest!: env_nodeInfoForSnapshotPathD [where a = a])

lemma env_refreshDirSnapshotD: "refreshDirSnapshot i b = (r, b') \<Longrightarrow> same_env a b \<Longrightarrow> same_env a b'"
  by (auto simp: refreshDirSnapshot_def Let_def split: sum.splits prod.splits if_splits
      dest!: env_snapshot_itemsD [where a = a])

lemma env_snapshotDirD: "snapshotDir i b = (r, b') \<Longrightarrow> same_env a b \<Longrightarrow> same_env a b'"
  by (auto simp: snapshotDir_def split: option.splits dest!: env_refreshDirSnapshotD [where a = a])

lemma env_refreshNodeInfoAndPatchParent:
  "same_env a b \<Longrightarrow> same_env a (refreshNodeInfoAndPatchParent p i b)"
  by (auto simp: refreshNodeInfoAndPatchParent_def split: prod.split sum.split
      dest!: env_refreshNodeInfoD [where a = a])

lemma env_storeNodeInfoD: "storeNodeInfo p parent i info b = (e, b') \<Longrightarrow> same_env a b \<Longrightarrow> same_env a b'"
  by (auto simp: storeNodeInfo_def Let_def)

lemma env_loadSmallFileCacheD:
  assumes "loadSmallFileCache p b = (r, b')" and "same_env a b"
  shows "same_env a b'"
  using assms
  by (auto simp: loadSmallFileCache_def split: option.splits prod.splits sum.splits if_splits
      dest!: env_ensureNodeD [where a = a] env_refreshNodeInfoD [where a = a])

lemma env_run_prefetch_job:
  assumes "same_env a b"
  shows "same_env a (run_prefetch_job job b)"
proof -
  have "same_env a (snd (snapshotDir i c))" "same_env a (snd (loadSmallFileCache p c))"
    if "same_env a c" for i p c
    using that by (metis env_snapshotDirD prod.collapse) (metis that env_loadSmallFileCacheD prod.collapse)
  then show ?thesis using assms
    by (simp add: run_prefetch_job_def Let_def split: prefetchPriority.split prefetchJobKind.split)
qed

lemma env_runPrefetchJobs: "same_env a b \<Longrightarrow> same_env a (runPrefetchJobs jobs b)"
proof -
  let ?run = "\<lambda>priority job b. if pj_priority job \<noteq> priority then b else run_prefetch_job job b"
  have "same_env a (fold (?run priority) jobs b)" if "same_env a b" for priority b
    using that by (induction jobs arbitrary: b) (auto simp: env_run_prefetch_job)
  then show "same_env a b \<Longrightarrow> ?thesis" by (simp add: runPrefetchJobs_def)
qed

lemma env_maybeWarmNode: "same_env a b \<Longrightarrow> same_env a (maybeWarmNode p info b)"
  by (simp add: maybeWarmNode_def Let_def env_runPrefetchJobs)

lemma env_nodeInfoForPathD:
  assumes "nodeInfoForPath p hint b = (r, b')" and "same_env a b"
  shows "same_env a b'"
  using assms
  by (auto simp: nodeInfoForPath_def Let_def env_maybeWarmNode
      split: if_splits option.splits prod.splits sum.splits
      dest!: env_refreshNodeInfoD [where a = a] env_withResolvedParentD [where a = a])

lemma env_GetAttrD: "GetAttr i b = (r, b') \<Longrightarrow> same_env a b \<Longrightarrow> same_env a b'"
  by (auto simp: GetAttr_def split: sum.splits dest!: env_nodeInfoForPathD [where a = a])

lemma env_LookupD: "Lookup i n b = (r, b') \<Longrightarrow> same_env a b \<Longrightarrow> same_env a b'"
  by (auto simp: Lookup_def split: sum.splits if_splits dest!: env_nodeInfoForPathD [where a = a])

lemma env_RevalidateNodeD: "RevalidateNode i b = (r, b') \<Longrightarrow> same_env a b \<Longrightarrow> same_env a b'"
  by (auto simp: RevalidateNode_def Let_def split: sum.splits prod.splits if_splits
      dest!: env_nodeInfoForPathD [where a = a])

lemma env_absPath: "same_env b b' \<Longrightarrow> absPath b' p = absPath b p"
  by (simp add: absPath_def same_env_def)

lemma env_walk_fuel: "same_env b b' \<Longrightarrow> walk_fuel b' = walk_fuel b"
  by (simp add: walk_fuel_def same_env_def)

section \<open>The walk of a snapshot ends\<close>

lemma fold_max_ge:
  fixes n :: nat
  shows "n \<le> fold (\<lambda>(p, _). max (length p)) xs n"
    and "(q, j) \<in> set xs \<Longrightarrow> length q \<le> fold (\<lambda>(p, _). max (length p)) xs n"
proof (induction xs arbitrary: n)
  case (Cons x xs)
  obtain p i where x: "x = (p, i)" by fastforce
  { case 1 show ?case using Cons.IH(1) [of "max (length p) n"] by (simp add: x) }
  { case 2 show ?case
      using Cons.IH(1) [of "max (length p) n"] Cons.IH(2) [of "max (length p) n"] 2
      by (auto simp: x) }
qed auto

lemma os_ReadDir_child:
  assumes "os_ReadDir f p = Inr es" and "(n, d) \<in> set es"
  shows "\<exists>i. ((if p = ''/'' then p @ n else p @ ''/'' @ n), i) \<in> set (fs_paths f)"
proof -
  have "(n, d) \<in> set (dir_children f p)"
    using assms by (auto simp: os_ReadDir_def split: sum.splits if_splits)
  then obtain q i where "(q, i) \<in> set (fs_paths f)" "child_name p q = Some n"
    by (auto simp: dir_children_def List.map_filter_def split: option.splits)
  then show ?thesis using child_name_path [of p q n] by auto
qed

lemma absPath_child:
  assumes "backend_inv b" and "clean_rel rel" and "valid_name n"
  shows "absPath b (child_rel rel n) =
    (if absPath b rel = ''/'' then absPath b rel @ n else absPath b rel @ ''/'' @ n)"
proof (cases "rel = []")
  case True
  then show ?thesis using assms
    by (auto simp: absPath_def child_rel_eq backend_inv_def path_Join_abs(1) clean_rel_name valid_name_def)
next
  case False
  then have "absPath b rel \<noteq> ''/''" using assms absPath_not_root by blast
  moreover have "clean_rel (rel @ slash # n)"
    using assms False by (simp add: clean_rel_append_iff clean_rel_name valid_name_def)
  ultimately show ?thesis using assms False
    by (simp add: absPath_def child_rel_eq backend_inv_def path_Join_abs(1))
qed

definition in_fs :: "fs \<Rightarrow> string \<Rightarrow> bool" where
  "in_fs f p \<longleftrightarrow> (\<exists>i. (p, i) \<in> set (fs_paths f))"

definition walk_ends :: "metadataBackend \<Rightarrow> walk_result \<Rightarrow> bool" where
  "walk_ends b m \<longleftrightarrow> (\<exists>r b'. m = Some (r, b') \<and> same_env b b' \<and> backend_inv b')"

lemma walk_ends_then:
  assumes "walk_ends b m" and "\<And>es b'. same_env b b' \<Longrightarrow> backend_inv b' \<Longrightarrow> walk_ends b' (k es b')"
  shows "walk_ends b (walk_then m k)"
proof -
  obtain r b' where m: "m = Some (r, b')" "same_env b b'" "backend_inv b'"
    using assms(1) by (auto simp: walk_ends_def)
  show ?thesis
  proof (cases r)
    case (Inr es)
    have "walk_ends b' (k es b')" using assms(2) m by blast
    then show ?thesis
      using Inr m by (auto simp: walk_then_def walk_ends_def intro: same_env_trans)
  qed (use m in \<open>simp add: walk_then_def walk_ends_def\<close>)
qed

lemma walk_ends_Some [simp]: "walk_ends b (Some (r, b')) \<longleftrightarrow> same_env b b' \<and> backend_inv b'"
  by (simp add: walk_ends_def)

lemma walk_ends_env: "same_env b b1 \<Longrightarrow> walk_ends b1 m \<Longrightarrow> walk_ends b m"
  by (auto simp: walk_ends_def intro: same_env_trans)

lemma walk_loop_ends:
  assumes "\<And>n d b'. (n, d) \<in> set es0 \<Longrightarrow> same_env b0 b' \<Longrightarrow> backend_inv b' \<Longrightarrow>
      walk_ends b' (descend (child_rel rel n) b')"
    and "clean_rel rel" and "\<forall>n \<in> fst ` set es0. valid_name n"
  shows "set es \<subseteq> set es0 \<Longrightarrow> same_env b0 b \<Longrightarrow> backend_inv b \<Longrightarrow>
    walk_ends b (walk_loop descend i rc base rel es b)"
proof (induction es arbitrary: b)
  case (Cons e es)
  obtain name d where e: "e = (name, d)" by fastforce
  obtain r b1 where n: "nodeInfoForPath (child_rel rel name) i b = (r, b1)" by fastforce
  have "valid_name name" using Cons.prems e assms(3) by force
  then have inv: "backend_inv b1" using n assms(2) Cons.prems by auto
  have env: "same_env b b1" using env_nodeInfoForPathD [OF n] by simp
  then have env0: "same_env b0 b1" using Cons.prems same_env_trans by blast
  have sub: "walk_ends b1 (descend (child_rel rel name) b1)"
    using assms(1) [of name d b1] Cons.prems e env0 inv by simp
  have rest: "walk_ends b2 (walk_loop descend i rc base rel es b2)"
    if "same_env b1 b2" "backend_inv b2" for b2
    using Cons.IH [of b2] Cons.prems that env0 same_env_trans by auto
  show ?case
    using e n inv env sub rest
    by (auto simp: Let_def intro!: walk_ends_env [OF env] walk_ends_then split: sum.split option.split)
qed simp

definition max_path :: "fs \<Rightarrow> nat" where
  "max_path f = fold (\<lambda>(p, _). max (length p)) (fs_paths f) 0"

lemma max_path_ge: "in_fs f p \<Longrightarrow> length p \<le> max_path f"
  using fold_max_ge(2) by (auto simp: in_fs_def max_path_def)

lemma walk_step_ends:
  assumes "\<And>n b'. valid_name n \<Longrightarrow> in_fs (b_fs b) (absPath b (child_rel rel n)) \<Longrightarrow> same_env b b' \<Longrightarrow>
      backend_inv b' \<Longrightarrow> walk_ends b' (walk k i rc base (child_rel rel n) b')"
    and "backend_inv b" and "clean_rel rel"
  shows "walk_ends b (walk (Suc k) i rc base rel b)"
proof (cases "os_ReadDir (b_fs b) (absPath b rel)")
  case (Inr es)
  have names: "\<forall>n \<in> fst ` set es. valid_name n"
    using os_ReadDir_names [OF _ Inr] assms(2) by (simp add: backend_inv_def)
  have "in_fs (b_fs b) (absPath b (child_rel rel n))" if "(n, d) \<in> set es" for n d
  proof -
    have "valid_name n" using that names by force
    then show ?thesis
      using os_ReadDir_child [OF Inr that] absPath_child [OF assms(2,3)] by (auto simp: in_fs_def)
  qed
  then have "walk_ends b (walk_loop (walk k i rc base) i rc base rel es b)"
    using assms names by (intro walk_loop_ends [where es0 = es and b0 = b]) force+
  then show ?thesis using Inr by simp
qed (use assms in simp)

lemma walk_ends_inside:
  "in_fs (b_fs b) (absPath b rel) \<Longrightarrow> Suc (max_path (b_fs b)) \<le> length (absPath b rel) + k \<Longrightarrow>
   backend_inv b \<Longrightarrow> clean_rel rel \<Longrightarrow> walk_ends b (walk k i rc base rel b)"
proof (induction k arbitrary: rel b)
  case 0
  then show ?case using max_path_ge [OF 0(1)] by simp
next
  case (Suc k)
  show ?case
  proof (rule walk_step_ends)
    fix n b'
    assume a: "valid_name n" "in_fs (b_fs b) (absPath b (child_rel rel n))" "same_env b b'" "backend_inv b'"
    have "length (absPath b rel) < length (absPath b (child_rel rel n))"
      using absPath_child [OF Suc.prems(3,4) a(1)] a(1) by (auto simp: valid_name_def)
    then show "walk_ends b' (walk k i rc base (child_rel rel n) b')"
      using a Suc.prems env_absPath [OF a(3)] by (intro Suc.IH) (auto simp: same_env_def)
  qed (use Suc.prems in auto)
qed

lemma walk_fuel_enough:
  "backend_inv b \<Longrightarrow> clean_rel rel \<Longrightarrow> walk_ends b (walk (walk_fuel b) i rc base rel b)"
  unfolding walk_fuel_def max_path_def [symmetric]
  by (rule walk_step_ends)
     (auto intro!: walk_ends_inside simp: env_absPath same_env_def simp del: walk.simps)

lemma SnapshotSubtree_ends:
  assumes "backend_inv b"
  shows "walk_ends b (SnapshotSubtree i rc b)"
proof (cases "nodeByID i b")
  case (Inr rec)
  obtain r b1 where g: "GetAttr i b = (r, b1)" by fastforce
  have env: "same_env b b1" and inv: "backend_inv b1"
    using env_GetAttrD [OF g] inv_GetAttr [OF g assms] by auto
  show ?thesis
    using Inr g env inv inv_nodeByID [OF assms Inr]
    by (auto simp: SnapshotSubtree_def Let_def split: sum.split
        intro!: walk_ends_env [OF env] walk_ends_then walk_fuel_enough)
qed (use assms in \<open>simp add: SnapshotSubtree_def\<close>)

end
