(* ===== verification/BackendProps.thy ===== *)
theory BackendProps
  imports BackendFrame
begin

text \<open>
  The properties of the metadata backend over whole runs: a step relation with one rule per
  public operation, the invariant of all reachable states, and what clients get from it.
\<close>

section \<open>Runs\<close>

text \<open>
  Between two operations time passes and anybody may change the exported tree: \<open>env_fs\<close> replaces the
  file system by any other well-formed one.
\<close>

inductive backend_step :: "metadataBackend \<Rightarrow> metadataBackend \<Rightarrow> bool" where
  step_Lookup: "backend_step b (snd (Lookup i n b))"
| step_GetAttr: "backend_step b (snd (GetAttr i b))"
| step_OpenDir: "backend_step b (snd (OpenDir i b))"
| step_CloseDir: "backend_step b (snd (CloseDir i b))"
| step_OpenFile: "backend_step b (snd (OpenFile i wr tr b))"
| step_CreateFile: "backend_step b (snd (CreateFile i n ov b))"
| step_ReadFile: "backend_step b (snd (ReadFile i off len b))"
| step_WriteFile: "backend_step b (snd (WriteFile i off d b))"
| step_FlushHandle: "backend_step b (snd (FlushHandle i b))"
| step_TruncateHandle: "backend_step b (snd (TruncateHandle i sz b))"
| step_SetDeleteOnClose: "backend_step b (snd (SetDeleteOnClose i e b))"
| step_CloseHandle: "backend_step b (snd (CloseHandle i b))"
| step_RenamePath: "backend_step b (snd (RenamePath i n j m rep b))"
| step_SnapshotSubtree: "SnapshotSubtree i rc b = Some (r, b') \<Longrightarrow> backend_step b b'"
| step_RecoverFileHandle: "backend_step b (snd (RecoverFileHandle i wr del b))"
| step_RevalidateNode: "backend_step b (snd (RevalidateNode i b))"
| step_prune: "backend_step b (pruneExpiredCachesLocked (b_now b) b)"
| env_time: "b_now b \<le> t \<Longrightarrow> backend_step b (b\<lparr>b_now := t\<rparr>)"
| env_fs: "fs_wf f \<Longrightarrow> backend_step b (b\<lparr>b_fs := f\<rparr>)"

lemmas inv_public = inv_Lookup inv_GetAttr inv_OpenDir inv_CloseDir inv_OpenFile inv_CreateFile
  inv_ReadFile inv_WriteFile inv_FlushHandle inv_TruncateHandle inv_SetDeleteOnClose
  inv_CloseHandle inv_RenamePath inv_RecoverFileHandle inv_RevalidateNode

lemma inv_backend_step: "backend_step b b' \<Longrightarrow> backend_inv b \<Longrightarrow> backend_inv b'"
proof (induction rule: backend_step.induct)
  case (step_SnapshotSubtree i rc b r b')
  then show ?case using inv_SnapshotSubtree [of b i rc] by (simp add: walk_inv_def)
qed (auto intro: inv_public [OF prod.collapse [symmetric]])

lemma inv_backend_steps: "backend_step\<^sup>*\<^sup>* b b' \<Longrightarrow> backend_inv b \<Longrightarrow> backend_inv b'"
  by (induction rule: rtranclp_induct) (auto intro: inv_backend_step)

section \<open>The initial state\<close>

lemma fold_clean_step_rooted:
  "list_all valid_name stack \<Longrightarrow> \<forall>c \<in> set cs. slash \<notin> set c \<Longrightarrow>
   list_all valid_name (fold (clean_step True) cs stack)"
proof (induction cs arbitrary: stack)
  case (Cons c cs)
  have "list_all valid_name (clean_step True c stack)"
    using Cons.prems by (auto simp: clean_step_def valid_name_def list_all_iff split: list.split)
  then show ?case using Cons by simp
qed simp

lemma abs_clean_Clean:
  assumes "p \<noteq> []" and "hd p = slash"
  shows "abs_clean (Clean p)"
proof -
  have "\<forall>c \<in> set (Split p slash). slash \<notin> set c" using Split_parts_free by blast
  then have "list_all valid_name (fold (clean_step True) (Split p slash) [])"
    using fold_clean_step_rooted by simp
  then have "clean_rel (Join (rev (fold (clean_step True) (Split p slash) [])) ''/'')"
    by (intro clean_rel_Join) (simp add: list_all_iff)
  then show ?thesis using assms by (simp add: Clean_def abs_clean_def)
qed

lemma abs_clean_path_Abs:
  assumes "path_Abs cwd p = Some a" and "\<And>wd. cwd = Some wd \<Longrightarrow> abs_clean wd"
  shows "abs_clean a"
proof (cases "IsAbs p")
  case True
  then have "p \<noteq> []" "hd p = slash" by (auto simp: IsAbs_def HasPrefix_iff)
  then show ?thesis using assms True abs_clean_Clean by (auto simp: path_Abs_def)
next
  case False
  then obtain wd where "cwd = Some wd" "a = path_Join wd p" using assms(1) by (auto simp: path_Abs_def)
  moreover then obtain t where "wd = slash # t" using assms(2) by (auto simp: abs_clean_def)
  ultimately show ?thesis by (auto simp: path_Join_def intro!: abs_clean_Clean)
qed

lemma inv_empty_backend: "fs_wf f \<Longrightarrow> abs_clean r \<Longrightarrow> backend_inv (empty_backend r now f)"
  by (auto simp: empty_backend_def backend_inv_def inv_parts node_maps_ok_def split: if_splits)

lemma inv_newMetadataBackend:
  assumes "newMetadataBackend cwd now f root = Inr b" and "fs_wf f"
    and "\<And>wd. cwd = Some wd \<Longrightarrow> abs_clean wd"
  shows "backend_inv b"
proof -
  obtain a info r b1 where a: "path_Abs cwd root = Some a"
    and r: "refreshNodeInfo [] 1 (empty_backend a now f) = (r, b1)" and b: "b = snd (prefetchRoot b1)"
    using assms(1) by (auto simp: newMetadataBackend_def split: option.splits sum.splits if_splits prod.splits)
  have "backend_inv b1"
    using r inv_empty_backend [OF assms(2) abs_clean_path_Abs [OF a assms(3)]] by auto
  then show ?thesis using b inv_prefetchRoot by simp
qed

lemma newMetadataBackend_succeeds:
  assumes "path_Abs cwd root = Some a" and "os_Stat f a = Inr info" and "fi_IsDir info"
  shows "\<exists>b. newMetadataBackend cwd now f root = Inr b"
proof -
  have "os_Stat (b_fs (empty_backend a now f)) (absPath (empty_backend a now f) []) = Inr info"
    using assms(2) by (simp add: empty_backend_def absPath_def)
  then show ?thesis
    using assms by (simp add: newMetadataBackend_def refreshNodeInfo_def case_prod_unfold Let_def)
qed

text \<open>A small exported tree for the concrete instances below.\<close>

definition tree_node :: "bool \<Rightarrow> bytes \<Rightarrow> inode" where
  "tree_node d data =
     \<lparr>i_isdir = d, i_data = data, i_mode = 420, i_mtime = 0, i_readable = True, i_writable = True,
      i_faults = []\<rparr>"

definition sample_fs :: fs where
  "sample_fs =
     \<lparr>fs_paths = [(''/'', 0), (''/w'', 1)],
      fs_inodes = [0 \<mapsto> tree_node True [], 1 \<mapsto> tree_node True []], fs_next = 2, fs_clock = 50\<rparr>"

definition sample_start :: metadataBackend where
  "sample_start = projr (newMetadataBackend None 100 sample_fs ''/w'')"

lemma fs_wf_sample: "fs_wf sample_fs"
  by (simp add: fs_wf_def sample_fs_def abs_clean_def clean_rel_def valid_name_def)

lemma sample_start_ok: "newMetadataBackend None 100 sample_fs ''/w'' = Inr sample_start"
proof -
  have "path_Abs None ''/w'' = Some ''/w''" by code_simp
  moreover have "os_Stat sample_fs ''/w'' = Inr (file_info ''w'' (tree_node True []))" by code_simp
  moreover have "fi_IsDir (file_info ''w'' (tree_node True []))" by code_simp
  ultimately obtain b where "newMetadataBackend None 100 sample_fs ''/w'' = Inr b"
    using newMetadataBackend_succeeds by blast
  then show ?thesis by (simp add: sample_start_def)
qed

lemma sample_start_root:
  "b_nodesByID sample_start 1 = Some \<lparr>nr_id = 1, nr_parentID = 1, nr_relPath = []\<rparr>"
  by code_simp

lemma sample_start_nodes: "b_nextNodeID sample_start = 1 \<and> b_nodesByPath sample_start [] = Some 1"
  by code_simp

section \<open>Paths stay inside the exported tree\<close>

fun descend_path :: "string \<Rightarrow> string list \<Rightarrow> string" where
  "descend_path r [] = r"
| "descend_path r (c # cs) = descend_path (if r = ''/'' then r @ c else r @ ''/'' @ c) cs"

definition inside :: "string \<Rightarrow> string \<Rightarrow> bool" where
  "inside r p \<longleftrightarrow> (\<exists>cs. list_all valid_name cs \<and> p = descend_path r cs)"

lemma descend_path_snoc:
  "descend_path r (cs @ [c]) = (let p = descend_path r cs in if p = ''/'' then p @ c else p @ ''/'' @ c)"
  by (induction r cs rule: descend_path.induct) (auto simp: Let_def)

lemma inside_absPath:
  assumes "backend_inv b"
  shows "clean_rel p \<Longrightarrow> inside (b_rootPath b) (absPath b p)"
proof (induction "length p" arbitrary: p rule: less_induct)
  case less
  from less.prems show ?case
  proof (cases rule: clean_rel_cases)
    case root
    then show ?thesis by (auto simp: inside_def absPath_def intro!: exI [of _ "[]"])
  next
    case name
    then show ?thesis
      using absPath_child [OF assms clean_rel_Nil name]
      by (auto simp: inside_def child_rel_eq absPath_def intro!: exI [of _ "[p]"])
  next
    case (below u n)
    have "child_rel u n = p" using below by (simp add: child_rel_eq)
    moreover obtain cs where "list_all valid_name cs" "absPath b u = descend_path (b_rootPath b) cs"
      using less.hyps [of u] below by (auto simp: inside_def)
    ultimately show ?thesis
      using absPath_child [OF assms below(2,4)] below(4)
      by (auto simp: inside_def descend_path_snoc Let_def intro!: exI [of _ "cs @ [n]"])
  qed
qed

lemma backend_confined_aux:
  assumes "backend_inv b"
  shows "(\<forall>i rec. b_nodesByID b i = Some rec \<longrightarrow> inside (b_rootPath b) (absPath b (nr_relPath rec))) \<and>
    (\<forall>i h. b_handles b i = Some h \<longrightarrow> inside (b_rootPath b) (absPath b (fh_relPath h))) \<and>
    (\<forall>i rec name. b_nodesByID b i = Some rec \<longrightarrow> isValidSingleName name \<longrightarrow>
       inside (b_rootPath b) (absPath b (child_rel (nr_relPath rec) name)))"
  using assms inside_absPath [OF assms]
  by (auto simp: backend_inv_def node_paths_ok_def handles_ok_def)

text \<open>
  C5: No request can reach a file outside the exported directory. In every state a backend can
  get into, whatever the clients send and however the exported tree changes, the absolute path of
  every node, of every open handle, and of every name a lookup, create or rename accepts below a
  node, is the root followed by ordinary path components, none of them empty, a dot or a double
  dot.
\<close>

theorem backend_confined:
  assumes "newMetadataBackend cwd now f root = Inr b0" and "fs_wf f"
    and "\<And>wd. cwd = Some wd \<Longrightarrow> abs_clean wd" and "backend_step\<^sup>*\<^sup>* b0 b"
  shows "(\<forall>i rec. b_nodesByID b i = Some rec \<longrightarrow> inside (b_rootPath b) (absPath b (nr_relPath rec))) \<and>
    (\<forall>i h. b_handles b i = Some h \<longrightarrow> inside (b_rootPath b) (absPath b (fh_relPath h))) \<and>
    (\<forall>i rec name. b_nodesByID b i = Some rec \<longrightarrow> isValidSingleName name \<longrightarrow>
       inside (b_rootPath b) (absPath b (child_rel (nr_relPath rec) name)))"
  using backend_confined_aux inv_backend_steps [OF assms(4)] inv_newMetadataBackend [OF assms(1-3)]
  by blast

theorem backend_confined_witness:
  "inside (b_rootPath sample_start) (absPath sample_start (child_rel [] ''n''))"
proof -
  have "isValidSingleName ''n''" by code_simp
  then show ?thesis
    using backend_confined [OF sample_start_ok fs_wf_sample, of sample_start] sample_start_root
    by fastforce
qed

text \<open>
  C6: In every reachable state the tables are consistent (as long as fewer than 2 ^ 64 identifiers have
  been taken): a path leads to a record that carries that path, so two paths never lead to the same
  node; every record, cursor and handle is filed under its own identifier, and no identifier above the
  counter is in use; the cached directory snapshots and the open cursors are strictly sorted by name,
  so no name is listed twice. A record need not be the one its path leads to.
\<close>

theorem backend_tables_consistent:
  assumes "newMetadataBackend cwd now f root = Inr b0" and "fs_wf f"
    and "\<And>wd. cwd = Some wd \<Longrightarrow> abs_clean wd" and "backend_step\<^sup>*\<^sup>* b0 b"
    and "b_nextNodeID b < 2 ^ 64"
  shows "(\<forall>p i. b_nodesByPath b p = Some i \<longrightarrow>
        (\<exists>rec. b_nodesByID b i = Some rec \<and> nr_relPath rec = p \<and> nr_id rec = i)) \<and>
    (\<forall>p q i. b_nodesByPath b p = Some i \<longrightarrow> b_nodesByPath b q = Some i \<longrightarrow> p = q) \<and>
    (\<forall>i rec. b_nodesByID b i = Some rec \<longrightarrow> nr_id rec = i \<and> 1 \<le> unat i \<and> unat i \<le> b_nextNodeID b) \<and>
    (\<forall>i e. b_dirSnapshots b i = Some e \<longrightarrow> by_name (ds_entries e)) \<and>
    (\<forall>i c. b_cursors b i = Some c \<longrightarrow> dc_id c = i \<and> by_name (dc_entries c)) \<and>
    (\<forall>i h. b_handles b i = Some h \<longrightarrow> fh_id h = i)"
proof -
  have inv: "backend_inv b"
    using inv_backend_steps [OF assms(4)] inv_newMetadataBackend [OF assms(1-3)] by blast
  then have maps: "node_maps_ok (b_nextNodeID b) (b_nodesByID b) (b_nodesByPath b)"
    using assms(5) by (simp add: backend_inv_def)
  have "p = q" if "b_nodesByPath b p = Some i" "b_nodesByPath b q = Some i" for p q i
    using maps that unfolding node_maps_ok_def by (metis option.inject)
  then show ?thesis
    using inv maps
    by (simp add: backend_inv_def node_maps_ok_def snaps_ok_def cursors_ok_def handles_ok_def) blast
qed

theorem backend_tables_consistent_witness:
  "\<exists>rec. b_nodesByID sample_start 1 = Some rec \<and> nr_relPath rec = [] \<and> nr_id rec = 1"
  using backend_tables_consistent [OF sample_start_ok fs_wf_sample, of sample_start]
  by (simp add: sample_start_nodes)

text \<open>
  A rename onto an existing path moves the source's node there and leaves the record of the replaced
  node in the table, still with the path that now belongs to the other node: a request that names the
  old node works on the new file.
\<close>

theorem replaced_record_stays:
  assumes "b_nodesByPath b src = Some i" and "b_nodesByPath b dst = Some j" and "i \<noteq> j" and "src \<noteq> dst"
    and "b_nodesByID b j = Some rec" and "nr_relPath rec = dst"
  shows "nodeByID j (movePathMapping src dst parent b) = Inr rec \<and>
    b_nodesByPath (movePathMapping src dst parent b) dst = Some i"
  using assms by (simp add: movePathMapping_def nodeByID_def Let_def)

section \<open>Recursive snapshots end\<close>

text \<open>
  C10: SnapshotSubtree always returns: the depth its fuel allows (two more than the longest path of
  the file system) is never used up, for any node and any file system without duplicate paths.
  It changes nothing but caches, counters and the node table.
\<close>

theorem SnapshotSubtree_returns:
  assumes "backend_inv b"
  shows "\<exists>r b'. SnapshotSubtree i rc b = Some (r, b') \<and> b_fs b' = b_fs b \<and>
    b_handles b' = b_handles b \<and> b_cursors b' = b_cursors b \<and> backend_inv b'"
  using SnapshotSubtree_ends [OF assms, of i rc] by (auto simp: walk_ends_def same_env_def)

theorem SnapshotSubtree_returns_witness:
  "\<exists>r b'. SnapshotSubtree 1 True (empty_backend ''/w'' 100 sample_fs) = Some (r, b') \<and>
     b_fs b' = sample_fs"
proof -
  have "b_fs (empty_backend ''/w'' 100 sample_fs) = sample_fs" by (simp add: empty_backend_def)
  moreover have "abs_clean ''/w''" by (simp add: abs_clean_def clean_rel_def valid_name_def)
  ultimately show ?thesis
    using SnapshotSubtree_returns [OF inv_empty_backend [OF fs_wf_sample], of "''/w''" 1 True 100]
    by fastforce
qed

section \<open>Reading a directory in pages\<close>

text \<open>
  A client reads a directory by asking for pages, each from the cookie the page before returned,
  until it is told that the end is reached. \<open>None\<close> is an error of a page or running out of fuel.
\<close>

fun read_pages :: "nat \<Rightarrow> u64 \<Rightarrow> u64 \<Rightarrow> u32 \<Rightarrow> metadataBackend \<Rightarrow> DirEntry list option" where
  "read_pages 0 cursorID cookie maxEntries b = None"
| "read_pages (Suc fuel) cursorID cookie maxEntries b =
     (case ReadDir cursorID cookie maxEntries b of
        Inl _ \<Rightarrow> None
      | Inr page \<Rightarrow>
          if ReadDirResp_EOF page then Some (ReadDirResp_Entries page)
          else map_option (\<lambda>rest. ReadDirResp_Entries page @ rest)
                 (read_pages fuel cursorID (ReadDirResp_NextCookie page) maxEntries b))"

lemma sint_word_of_nat: "k < 2 ^ 63 \<Longrightarrow> sint (word_of_int (int k) :: u64) = int k"
  by (simp add: signed_of_nat signed_take_bit_int_eq_self)

lemma ReadDir_at:
  assumes "b_cursors b c = Some cur" and "k \<le> length (dc_entries cur)" and "length (dc_entries cur) < 2 ^ 63"
    and "m = (if maxEntries = 0 then 128 else unat maxEntries)"
    and "stop = min (length (dc_entries cur)) (k + m)"
  shows "ReadDir c (word_of_int (int k)) maxEntries b =
    Inr \<lparr>ReadDirResp_Entries = take (stop - k) (drop k (dc_entries cur)),
         ReadDirResp_NextCookie = word_of_int (int stop),
         ReadDirResp_EOF = (stop = length (dc_entries cur))\<rparr>"
proof -
  have "sint (word_of_int (int k) :: u64) = int k" using assms by (intro sint_word_of_nat) simp
  moreover have "uint (if maxEntries = 0 then 128 else maxEntries) = int m"
    using assms(4) by simp
  ultimately have "ReadDir c (word_of_int (int k)) maxEntries b =
      (let s = (if int (length (dc_entries cur)) < int k + int m then int (length (dc_entries cur))
                else int k + int m)
       in Inr \<lparr>ReadDirResp_Entries = take (nat (s - int k)) (drop k (dc_entries cur)),
               ReadDirResp_NextCookie = word_of_int s,
               ReadDirResp_EOF = (int (length (dc_entries cur)) \<le> s)\<rparr>)"
    using assms(1,2) by (simp add: ReadDir_def Let_def)
  moreover have "(if int (length (dc_entries cur)) < int k + int m then int (length (dc_entries cur))
      else int k + int m) = int stop"
    using assms(5) by (simp add: min_def)
  ultimately show ?thesis
    using assms(2,5) by (simp add: nat_diff_distrib) (simp add: min_def)
qed

lemma read_pages_from:
  assumes "b_cursors b c = Some cur" and "length (dc_entries cur) < 2 ^ 63"
  shows "k \<le> length (dc_entries cur) \<Longrightarrow> length (dc_entries cur) - k < fuel \<Longrightarrow>
    read_pages fuel c (word_of_int (int k)) maxEntries b = Some (drop k (dc_entries cur))"
proof (induction fuel arbitrary: k)
  case (Suc fuel)
  define m where "m = (if maxEntries = 0 then 128 else unat maxEntries)"
  define stop where "stop = min (length (dc_entries cur)) (k + m)"
  have "m > 0" by (auto simp: m_def unat_gt_0)
  note page = ReadDir_at [OF assms(1) Suc.prems(1) assms(2) m_def stop_def]
  show ?case
  proof (cases "stop = length (dc_entries cur)")
    case True
    then show ?thesis using page by simp
  next
    case False
    then have "stop \<le> length (dc_entries cur)" "stop = k + m" by (auto simp: stop_def)
    then have "read_pages fuel c (word_of_int (int stop)) maxEntries b = Some (drop stop (dc_entries cur))"
      using Suc.prems False \<open>m > 0\<close> by (intro Suc.IH) auto
    moreover have "drop stop (dc_entries cur) = drop m (drop k (dc_entries cur))"
      using \<open>stop = k + m\<close> by (simp add: add.commute)
    ultimately show ?thesis
      using page False \<open>stop = k + m\<close> by (simp del: drop_drop)
  qed
qed simp

text \<open>
  C12: Reading a directory page by page, with any page size (0 means 128), returns exactly the
  entries captured when the directory was opened, in order, none twice and none missing, after at
  most one page more than there are entries.
\<close>

theorem read_pages_complete:
  assumes "b_cursors b c = Some cur" and "length (dc_entries cur) < 2 ^ 63"
  shows "read_pages (Suc (length (dc_entries cur))) c 0 maxEntries b = Some (dc_entries cur)"
  using read_pages_from [OF assms, of 0 "Suc (length (dc_entries cur))" maxEntries] by simp

theorem read_pages_complete_witness:
  "read_pages 4 1001 0 2 (sample_backend\<lparr>b_cursors := [1001 \<mapsto> \<lparr>dc_id = 1001, dc_nodeID = 1,
      dc_entries = [sample_entry ''a'' 1, sample_entry ''b'' 2, sample_entry ''c'' 3]\<rparr>]\<rparr>)
   = Some [sample_entry ''a'' 1, sample_entry ''b'' 2, sample_entry ''c'' 3]"
proof -
  let ?cur = "\<lparr>dc_id = 1001, dc_nodeID = 1,
      dc_entries = [sample_entry ''a'' 1, sample_entry ''b'' 2, sample_entry ''c'' 3]\<rparr>"
  have "b_cursors (sample_backend\<lparr>b_cursors := [1001 \<mapsto> ?cur]\<rparr>) 1001 = Some ?cur" by simp
  note all = read_pages_complete [OF this, of 2]
  have "Suc (length (dc_entries ?cur)) = 4" by simp
  with all show ?thesis by (simp only: dirCursor.select_convs) simp
qed

end
