(* ===== verification/FileIO.thy ===== *)
theory FileIO
  imports BackendProps
begin

text \<open>
  File contents through handles. The abstract file is a list of bytes; a write is \<open>overlay\<close> (zero
  bytes fill a gap past the end), truncation is \<open>resize\<close>, a read is a slice. The locale \<open>byte_store\<close>
  states this contract and derives what clients use; the backend's WriteFile, TruncateHandle and
  ReadFile on writable handles are an instance.
\<close>

section \<open>Slices of spliced bytes\<close>

lemma length_overlay: "d \<noteq> [] \<Longrightarrow> length (overlay old k d) = max (length old) (k + length d)"
  by (auto simp: overlay_def)

lemma overlay_Nil [simp]: "overlay old k [] = old"
  by (simp add: overlay_def)

lemma read_overlay_same: "take (length d) (drop k (overlay old k d)) = d"
  by (cases "d = []") (auto simp: overlay_def)

lemma overlay_parts:
  assumes "d \<noteq> []"
  obtains pre where "overlay old k d = pre @ d @ drop (k + length d) old" "length pre = k"
    "\<And>i. i < k \<Longrightarrow> pre ! i = (if i < length old then old ! i else 0)"
  using that [of "take k (old @ replicate (k - length old) 0)"] assms
  by (auto simp: overlay_def nth_append)

lemma nth_overlay:
  assumes "i < length (overlay old k d)"
  shows "overlay old k d ! i =
    (if k \<le> i \<and> i < k + length d then d ! (i - k) else if i < length old then old ! i else 0)"
proof (cases "d = []")
  case False
  then obtain pre where pre: "overlay old k d = pre @ d @ drop (k + length d) old" "length pre = k"
    "\<And>i. i < k \<Longrightarrow> pre ! i = (if i < length old then old ! i else 0)"
    using overlay_parts by blast
  show ?thesis
    using assms length_overlay [OF False, of old k] by (auto simp: pre nth_append)
qed (use assms in auto)

text \<open>A slice that does not meet the written range is what it was.\<close>

lemma read_overlay_before:
  assumes "j + n \<le> k" and "j + n \<le> length old"
  shows "take n (drop j (overlay old k d)) = take n (drop j old)"
proof (cases "d = []")
  case False
  have "j + n \<le> length (overlay old k d)" using length_overlay [OF False, of old k] assms by simp
  then show ?thesis
    using assms nth_overlay [of _ old k d] by (intro nth_equalityI) auto
qed simp

lemma read_overlay_after:
  assumes "k + length d \<le> j" and "k \<le> length old"
  shows "take n (drop j (overlay old k d)) = take n (drop j old)"
proof (cases "d = []")
  case False
  have "drop j (overlay old k d) = drop j old"
    using assms False length_overlay [OF False, of old k] nth_overlay [of _ old k d]
    by (intro nth_equalityI) auto
  then show ?thesis by simp
qed simp

lemma length_resize [simp]: "length (resize k d) = k"
  by (simp add: resize_def)

lemma read_resize: "j + n \<le> k \<Longrightarrow> j + n \<le> length d \<Longrightarrow> take n (drop j (resize k d)) = take n (drop j d)"
  by (intro nth_equalityI) (auto simp: resize_def nth_append)

section \<open>The contract\<close>

locale byte_store =
  fixes bytes_of :: "'s \<Rightarrow> 'h \<Rightarrow> bytes option"
    and apart :: "'s \<Rightarrow> 'h \<Rightarrow> 'h \<Rightarrow> bool"
    and wr :: "'h \<Rightarrow> nat \<Rightarrow> bytes \<Rightarrow> 's \<Rightarrow> 's option"
    and tr :: "'h \<Rightarrow> nat \<Rightarrow> 's \<Rightarrow> 's option"
    and rd :: "'h \<Rightarrow> nat \<Rightarrow> nat \<Rightarrow> 's \<Rightarrow> bytes option"
  assumes wr_same: "wr h k d s = Some s' \<Longrightarrow> bytes_of s' h = map_option (\<lambda>old. overlay old k d) (bytes_of s h)"
    and wr_apart: "wr h k d s = Some s' \<Longrightarrow> apart s h g \<Longrightarrow> bytes_of s' g = bytes_of s g \<and> apart s' h g"
    and tr_same: "tr h k s = Some s' \<Longrightarrow> bytes_of s' h = map_option (resize k) (bytes_of s h)"
    and tr_apart: "tr h k s = Some s' \<Longrightarrow> apart s h g \<Longrightarrow> bytes_of s' g = bytes_of s g \<and> apart s' h g"
    and rd_slice: "rd h k n s = Some d \<Longrightarrow> 0 < n \<Longrightarrow> \<exists>bs. bytes_of s h = Some bs \<and> d = take n (drop k bs)"
begin

lemma read_after_write:
  assumes "wr h k d s = Some s'" and "rd h k (length d) s' = Some d'" and "d \<noteq> []"
  shows "d' = d"
proof -
  obtain bs where "bytes_of s' h = Some bs" "d' = take (length d) (drop k bs)"
    using rd_slice [OF assms(2)] assms(3) by auto
  then show ?thesis
    using wr_same [OF assms(1)] by (auto simp: read_overlay_same)
qed

text \<open>A sequence of writes (left) and truncations (right) on one handle.\<close>

fun run :: "'h \<Rightarrow> (nat \<times> bytes + nat) list \<Rightarrow> 's \<Rightarrow> 's option" where
  "run h [] s = Some s"
| "run h (Inl (k, d) # ops) s = Option.bind (wr h k d s) (run h ops)"
| "run h (Inr k # ops) s = Option.bind (tr h k s) (run h ops)"

fun run_bytes :: "(nat \<times> bytes + nat) list \<Rightarrow> bytes \<Rightarrow> bytes" where
  "run_bytes [] bs = bs"
| "run_bytes (Inl (k, d) # ops) bs = run_bytes ops (overlay bs k d)"
| "run_bytes (Inr k # ops) bs = run_bytes ops (resize k bs)"

lemma run_refines:
  "run h ops s = Some s' \<Longrightarrow> bytes_of s h = Some bs \<Longrightarrow> bytes_of s' h = Some (run_bytes ops bs)"
  by (induction h ops s arbitrary: bs rule: run.induct)
     (auto simp: wr_same tr_same split: bind_splits)

lemma run_apart:
  "run h ops s = Some s' \<Longrightarrow> apart s h g \<Longrightarrow> bytes_of s' g = bytes_of s g"
  by (induction h ops s rule: run.induct)
     (auto simp: wr_apart tr_apart split: bind_splits dest: wr_apart tr_apart)

end

section \<open>The backend as a byte store\<close>

definition handle_bytes :: "metadataBackend \<Rightarrow> u64 \<Rightarrow> bytes option" where
  "handle_bytes b i =
     (case b_handles b i of
        None \<Rightarrow> None
      | Some h \<Rightarrow> map_option i_data (fs_inodes (b_fs b) (of_inode (fh_file h))))"

text \<open>Two handles on different files.\<close>

definition other_file :: "metadataBackend \<Rightarrow> u64 \<Rightarrow> u64 \<Rightarrow> bool" where
  "other_file b i j \<longleftrightarrow>
     (\<exists>h g. b_handles b i = Some h \<and> b_handles b j = Some g \<and>
        of_inode (fh_file h) \<noteq> of_inode (fh_file g))"

definition bk_write :: "u64 \<Rightarrow> nat \<Rightarrow> bytes \<Rightarrow> metadataBackend \<Rightarrow> metadataBackend option" where
  "bk_write i k d b = (case WriteFile i (int k) d b of (Inr _, b') \<Rightarrow> Some b' | (Inl _, _) \<Rightarrow> None)"

definition bk_truncate :: "u64 \<Rightarrow> nat \<Rightarrow> metadataBackend \<Rightarrow> metadataBackend option" where
  "bk_truncate i k b = (case TruncateHandle i (int k) b of (Inr _, b') \<Rightarrow> Some b' | (Inl _, _) \<Rightarrow> None)"

definition bk_read :: "u64 \<Rightarrow> nat \<Rightarrow> nat \<Rightarrow> metadataBackend \<Rightarrow> bytes option" where
  "bk_read i k n b =
     (if n < 2 ^ 32 \<and> (\<exists>h. b_handles b i = Some h \<and> fh_writable h)
      then (case ReadFile i (int k) (of_nat n) b of (Inr (d, _), _) \<Rightarrow> Some d | (Inl _, _) \<Rightarrow> None)
      else None)"

lemma handle_bytes_env: "same_env b b' \<Longrightarrow> handle_bytes b' i = handle_bytes b i"
  by (simp add: handle_bytes_def same_env_def split: option.split)

lemma other_file_env: "same_env b b' \<Longrightarrow> other_file b' i j = other_file b i j"
  by (simp add: other_file_def same_env_def)

lemma upd_inode_at [simp]:
  "fs_inodes (upd_inode i g f) j = (if j = i then map_option g (fs_inodes f i) else fs_inodes f j)"
  by (simp add: upd_inode_def)

lemma WriteFile_ok:
  assumes "WriteFile i off d b = (Inr (n, sz), b')"
  shows "\<exists>h nd. b_handles b i = Some h \<and> fh_writable h \<and> 0 \<le> off \<and>
    fs_inodes (b_fs b) (of_inode (fh_file h)) = Some nd \<and> n = length d \<and>
    sz = max (fh_size h) (off + int (length d)) \<and>
    b' = invalidateEntry (fh_relPath h) (upd_handle i (h\<lparr>fh_size := sz\<rparr>)
      (b\<lparr>b_fs := upd_inode (of_inode (fh_file h))
         (\<lambda>n. set_data (overlay (i_data n) (nat off) d) (fs_clock (b_fs b)) n) (b_fs b)\<rparr>))"
proof (cases "b_handles b i")
  case (Some h)
  then show ?thesis
    using assms
    by (auto simp: WriteFile_def handleByID_def file_WriteAt_def Let_def
        split: option.splits if_splits)
qed (use assms in \<open>simp add: WriteFile_def handleByID_def\<close>)

lemma TruncateHandle_ok:
  assumes "TruncateHandle i sz b = (Inr r, b')"
  shows "\<exists>h nd. b_handles b i = Some h \<and> fh_writable h \<and> 0 \<le> sz \<and> r = sz \<and>
    fs_inodes (b_fs b) (of_inode (fh_file h)) = Some nd \<and>
    same_env (upd_handle i (h\<lparr>fh_size := sz\<rparr>)
      (b\<lparr>b_fs := upd_inode (of_inode (fh_file h))
         (\<lambda>n. set_data (resize (nat sz) (i_data n)) (fs_clock (b_fs b)) n) (b_fs b)\<rparr>)) b'"
  using assms
  by (auto simp: TruncateHandle_def handleByID_def file_Truncate_def Let_def
      split: option.splits if_splits prod.splits intro!: env_refreshNodeInfoAndPatchParent)

lemma bk_write_spec:
  assumes "bk_write i k d b = Some b'"
  shows "handle_bytes b' i = map_option (\<lambda>old. overlay old k d) (handle_bytes b i)"
    and "other_file b i j \<Longrightarrow> handle_bytes b' j = handle_bytes b j \<and> other_file b' i j"
proof -
  obtain n sz where "WriteFile i (int k) d b = (Inr (n, sz), b')"
    using assms by (auto simp: bk_write_def split: prod.splits sum.splits)
  from WriteFile_ok [OF this]
  show "handle_bytes b' i = map_option (\<lambda>old. overlay old k d) (handle_bytes b i)"
    and "other_file b i j \<Longrightarrow> handle_bytes b' j = handle_bytes b j \<and> other_file b' i j"
    by (auto simp: handle_bytes_def other_file_def upd_handle_def invalidateEntry_def Let_def
        set_data_def)
qed

lemma bk_truncate_spec:
  assumes "bk_truncate i k b = Some b'"
  shows "handle_bytes b' i = map_option (resize k) (handle_bytes b i)"
    and "other_file b i j \<Longrightarrow> handle_bytes b' j = handle_bytes b j \<and> other_file b' i j"
proof -
  obtain r where "TruncateHandle i (int k) b = (Inr r, b')"
    using assms by (auto simp: bk_truncate_def split: prod.splits sum.splits)
  from TruncateHandle_ok [OF this]
  show "handle_bytes b' i = map_option (resize k) (handle_bytes b i)"
    and "other_file b i j \<Longrightarrow> handle_bytes b' j = handle_bytes b j \<and> other_file b' i j"
    by (auto simp: handle_bytes_env other_file_env)
      (auto simp: handle_bytes_def other_file_def upd_handle_def set_data_def)
qed

lemma unat_of_nat_small: "n < 2 ^ 32 \<Longrightarrow> unat (of_nat n :: u32) = n"
  by (simp add: unat_of_nat)

lemma of_nat_u32_zero: "n < 2 ^ 32 \<Longrightarrow> 0 < n \<Longrightarrow> (of_nat n :: u32) \<noteq> 0"
  by (metis unat_of_nat_small unat_0 less_irrefl)

lemma bk_read_spec:
  assumes "bk_read i k n b = Some d" and "0 < n"
  shows "\<exists>bs. handle_bytes b i = Some bs \<and> d = take n (drop k bs)"
  using assms of_nat_u32_zero [of n]
  by (auto simp: bk_read_def ReadFile_def handleByID_def read_open_file_def file_ReadAt_def Let_def
      handle_bytes_def unat_of_nat_small split: option.splits if_splits sum.splits prod.splits)

interpretation files: byte_store handle_bytes other_file bk_write bk_truncate bk_read
  by unfold_locales
    (auto simp: bk_write_spec bk_truncate_spec dest: bk_read_spec)

section \<open>Results\<close>

text \<open>When the host reports no error, a write and a read through a writable handle succeed.\<close>

lemma WriteFile_succeeds:
  assumes "b_handles b i = Some h" and "fh_writable h" and "0 \<le> off"
    and "fs_inodes (b_fs b) (of_inode (fh_file h)) = Some nd" and "i_faults nd = []"
    and "off + int (length d) < 2 ^ 63"
  shows "\<exists>b'. WriteFile i off d b = (Inr (length d, max (fh_size h) (off + int (length d))), b')"
  using assms by (simp add: WriteFile_def handleByID_def file_WriteAt_def Let_def max_def)

lemma ReadFile_writable:
  assumes "b_handles b i = Some h" and "fh_writable h" and "0 \<le> off"
    and "fs_inodes (b_fs b) (of_inode (fh_file h)) = Some nd" and "i_faults nd = []"
    and "0 < n" and "n < 2 ^ 32"
  shows "ReadFile i off (of_nat n) b =
    (Inr (take n (drop (nat off) (i_data nd)),
          fh_size h \<le> off + int (length (take n (drop (nat off) (i_data nd)))) \<or>
          length (take n (drop (nat off) (i_data nd))) < n), b)"
  using assms of_nat_u32_zero [of n]
  by (simp add: ReadFile_def handleByID_def read_open_file_def file_ReadAt_def Let_def unat_of_nat_small)

lemma write_then_read_aux:
  assumes h: "b_handles b i = Some h" "fh_writable h"
    and nd: "fs_inodes (b_fs b) (of_inode (fh_file h)) = Some nd" "i_faults nd = []"
    and "0 \<le> off" and "off + int (length d) < 2 ^ 63" and "d \<noteq> []" and "length d < 2 ^ 32"
  shows "\<exists>b'. WriteFile i off d b = (Inr (length d, max (fh_size h) (off + int (length d))), b') \<and>
    ReadFile i off (of_nat (length d)) b' = (Inr (d, fh_size h \<le> off + int (length d)), b')"
proof -
  obtain b' where w: "WriteFile i off d b = (Inr (length d, max (fh_size h) (off + int (length d))), b')"
    using WriteFile_succeeds [OF h assms(5) nd assms(6)] by blast
  let ?h = "h\<lparr>fh_size := max (fh_size h) (off + int (length d))\<rparr>"
  let ?nd = "set_data (overlay (i_data nd) (nat off) d) (fs_clock (b_fs b)) nd"
  have b': "b_handles b' i = Some ?h" "fs_inodes (b_fs b') (of_inode (fh_file ?h)) = Some ?nd"
    using WriteFile_ok [OF w] h nd by (auto simp: upd_handle_def invalidateEntry_def Let_def)
  have r: "take (length d) (drop (nat off) (i_data ?nd)) = d"
    by (simp add: set_data_def read_overlay_same)
  have "i_faults ?nd = []" using nd by (simp add: set_data_def)
  with ReadFile_writable [OF b'(1) _ assms(5) b'(2), of "length d"] h assms(7,8) r
  have "ReadFile i off (of_nat (length d)) b' = (Inr (d, fh_size h \<le> off + int (length d)), b')"
    by (auto simp: max_def)
  with w show ?thesis by blast
qed

text \<open>
  C7: A write through an open writable handle is acknowledged in full with the new size, and a read
  of the same range through that handle then returns exactly the bytes written; the read reports
  the end of the file just when the range reaches the handle's size.
\<close>

theorem write_then_read:
  assumes "b_handles b i = Some h" and "fh_writable h"
    and "fs_inodes (b_fs b) (of_inode (fh_file h)) = Some nd" and "i_faults nd = []"
    and "0 \<le> off" and "off + int (length d) < 2 ^ 63" and "d \<noteq> []" and "length d < 2 ^ 32"
  shows "\<exists>b'. WriteFile i off d b = (Inr (length d, max (fh_size h) (off + int (length d))), b') \<and>
    ReadFile i off (of_nat (length d)) b' = (Inr (d, fh_size h \<le> off + int (length d)), b')"
  using assms by (rule write_then_read_aux)

definition sample_handle :: fileHandle where
  "sample_handle =
     \<lparr>fh_id = 2001, fh_nodeID = 2, fh_parentID = 1, fh_relPath = ''a.txt'',
      fh_file = \<lparr>of_inode = 2, of_name = ''/w/a.txt''\<rparr>, fh_size = 2, fh_writable = True,
      fh_deleteOnClose = False\<rparr>"

definition sample_open :: metadataBackend where
  "sample_open = sample_backend
     \<lparr>b_handles := [2001 \<mapsto> sample_handle],
      b_fs := \<lparr>fs_paths = [(''/w/a.txt'', 2)], fs_inodes = [2 \<mapsto> tree_node False [104, 105]],
        fs_next = 3, fs_clock = 50\<rparr>\<rparr>"

theorem write_then_read_witness:
  "\<exists>b'. WriteFile 2001 4 [1, 2, 3] sample_open = (Inr (3, 7), b') \<and>
     ReadFile 2001 4 3 b' = (Inr ([1, 2, 3], True), b')"
  using write_then_read [of sample_open 2001 sample_handle "tree_node False [104, 105]" 4 "[1, 2, 3]"]
  by (simp add: sample_open_def sample_handle_def tree_node_def numeral_3_eq_3)

text \<open>
  C8: Through handles the backend is a byte store. Any sequence of successful writes and truncations
  through one handle leaves behind it the bytes that the same sequence of overlays and resizes of
  a plain byte list gives, and leaves the bytes behind every handle on another file as they were.
\<close>

theorem file_updates_refine_bytes:
  assumes "files.run i ops b = Some b'" and "handle_bytes b i = Some bs"
  shows "handle_bytes b' i = Some (files.run_bytes ops bs) \<and>
    (\<forall>j. other_file b i j \<longrightarrow> handle_bytes b' j = handle_bytes b j)"
  using files.run_refines [OF assms] files.run_apart [OF assms(1)] by blast

theorem file_updates_refine_bytes_witness:
  "\<exists>b'. files.run 2001 [Inl (1, [7, 8]), Inr 2] sample_open = Some b' \<and>
     handle_bytes b' 2001 = Some [104, 7]"
proof -
  have "\<exists>b'. files.run 2001 [Inl (1, [7, 8]), Inr 2] sample_open = Some b'"
    by (simp add: bk_write_def bk_truncate_def WriteFile_def TruncateHandle_def handleByID_def
        file_WriteAt_def file_Truncate_def sample_open_def sample_handle_def tree_node_def Let_def
        upd_handle_def invalidateEntry_def set_data_def)
  then obtain b' where b': "files.run 2001 [Inl (1, [7, 8]), Inr 2] sample_open = Some b'" by blast
  have "handle_bytes sample_open 2001 = Some [104, 105]"
    by (simp add: handle_bytes_def sample_open_def sample_handle_def tree_node_def)
  then have "handle_bytes b' 2001 = Some (files.run_bytes [Inl (1, [7, 8]), Inr 2] [104, 105])"
    using file_updates_refine_bytes [OF b'] by blast
  then show ?thesis using b' by (simp add: overlay_def resize_def numeral_eq_Suc)
qed

end
