(* ===== verification/Codec.thy ===== *)
theory Codec
  imports Protocol
begin

text \<open>
  The frame codec of \<^verbatim>\<open>internal/transport/codec.go\<close>. A frame is a 4-byte big-endian length, the
  32-byte header and the payload. The JSON encoder is a parameter \<open>marshal\<close>, which may fail; a
  reader is the list of bytes still to come. The theorems show that decoding inverts encoding on
  a stream, and that every accepted frame is exactly one the encoder produces.
\<close>

unbundle bit_operations_syntax

section \<open>Big-endian integers\<close>

definition PutUint32 :: "u32 \<Rightarrow> bytes" where
  "PutUint32 v = [ucast (drop_bit 24 v), ucast (drop_bit 16 v), ucast (drop_bit 8 v), ucast v]"

definition Uint32 :: "bytes \<Rightarrow> u32" where
  "Uint32 b =
     ucast (b ! 3) OR push_bit 8 (ucast (b ! 2)) OR push_bit 16 (ucast (b ! 1)) OR
     push_bit 24 (ucast (b ! 0))"

definition PutUint64 :: "u64 \<Rightarrow> bytes" where
  "PutUint64 v =
     [ucast (drop_bit 56 v), ucast (drop_bit 48 v), ucast (drop_bit 40 v), ucast (drop_bit 32 v),
      ucast (drop_bit 24 v), ucast (drop_bit 16 v), ucast (drop_bit 8 v), ucast v]"

definition Uint64 :: "bytes \<Rightarrow> u64" where
  "Uint64 b =
     ucast (b ! 7) OR push_bit 8 (ucast (b ! 6)) OR push_bit 16 (ucast (b ! 5)) OR
     push_bit 24 (ucast (b ! 4)) OR push_bit 32 (ucast (b ! 3)) OR push_bit 40 (ucast (b ! 2)) OR
     push_bit 48 (ucast (b ! 1)) OR push_bit 56 (ucast (b ! 0))"

section \<open>The header\<close>

definition writeHeader :: "Header \<Rightarrow> bytes" where
  "writeHeader h =
     h_Magic h @ [h_Version h, h_HeaderLength h, h_Channel h, h_Opcode h] @
     PutUint32 (h_Flags h) @ PutUint64 (h_RequestID h) @ PutUint64 (h_SessionID h) @
     PutUint32 (h_PayloadLength h)"

definition readHeader :: "bytes \<Rightarrow> Header" where
  "readHeader src =
     \<lparr>h_Magic = take 4 src, h_Version = src ! 4, h_HeaderLength = src ! 5, h_Channel = src ! 6,
      h_Opcode = src ! 7, h_Flags = Uint32 (take 4 (drop 8 src)),
      h_RequestID = Uint64 (take 8 (drop 12 src)), h_SessionID = Uint64 (take 8 (drop 20 src)),
      h_PayloadLength = Uint32 (take 4 (drop 28 src))\<rparr>"

section \<open>Frames\<close>

datatype frame_error =
    EOF
  | UnexpectedEOF
  | InvalidFrameLength u32
  | InvalidMagic bytes
  | UnsupportedVersion u8
  | InvalidHeaderLength u8
  | PayloadLengthMismatch u32 nat

text \<open>The header as \<^verbatim>\<open>EncodeFrame\<close> completes it before writing.\<close>

definition seal_header :: "Header \<Rightarrow> nat \<Rightarrow> Header" where
  "seal_header h n =
     h\<lparr>h_Magic := Magic, h_Version := Version, h_HeaderLength := of_nat HeaderLength,
       h_PayloadLength := of_nat n\<rparr>"

definition EncodeFrame :: "('p \<Rightarrow> bytes option) \<Rightarrow> Header \<Rightarrow> 'p \<Rightarrow> bytes option" where
  "EncodeFrame marshal header payload =
     (case marshal payload of
        None \<Rightarrow> None
      | Some payloadBytes \<Rightarrow>
          let header = seal_header header (length payloadBytes);
              frameLen = HeaderLength + length payloadBytes
          in Some (PutUint32 (of_nat frameLen) @ writeHeader header @ payloadBytes))"

text \<open>\<^verbatim>\<open>io.ReadFull\<close> of \<open>n\<close> bytes, with \<open>n\<close> positive: the bytes and the rest of the stream.\<close>

definition ReadFull :: "nat \<Rightarrow> bytes \<Rightarrow> frame_error + bytes \<times> bytes" where
  "ReadFull n r =
     (if n \<le> length r then Inr (take n r, drop n r)
      else if r = [] then Inl EOF else Inl UnexpectedEOF)"

definition DecodeFrame :: "bytes \<Rightarrow> frame_error + (Header \<times> bytes) \<times> bytes" where
  "DecodeFrame r =
     (case ReadFull 4 r of
        Inl e \<Rightarrow> Inl e
      | Inr (lenBuf, r1) \<Rightarrow>
          let frameLen = Uint32 lenBuf in
          if frameLen < of_nat HeaderLength then Inl (InvalidFrameLength frameLen)
          else (case ReadFull (unat frameLen) r1 of
             Inl e \<Rightarrow> Inl e
           | Inr (frame, r2) \<Rightarrow>
               let header = readHeader (take HeaderLength frame);
                   payload = drop HeaderLength frame
               in if h_Magic header \<noteq> Magic then Inl (InvalidMagic (h_Magic header))
                  else if h_Version header \<noteq> Version
                    then Inl (UnsupportedVersion (h_Version header))
                  else if h_HeaderLength header \<noteq> of_nat HeaderLength
                    then Inl (InvalidHeaderLength (h_HeaderLength header))
                  else if of_nat (length payload) \<noteq> h_PayloadLength header
                    then Inl (PayloadLengthMismatch (h_PayloadLength header) (length payload))
                  else Inr ((header, payload), r2)))"

text \<open>\<^verbatim>\<open>DecodePayload\<close> hands the payload to the JSON decoder of the target type.\<close>

definition DecodePayload :: "(bytes \<Rightarrow> 't option) \<Rightarrow> bytes \<Rightarrow> 't option" where
  "DecodePayload unmarshal payload = unmarshal payload"

section \<open>Round trips of the integers\<close>

lemma length_PutUint32 [simp]: "length (PutUint32 v) = 4"
  by (simp add: PutUint32_def)

lemma length_PutUint64 [simp]: "length (PutUint64 v) = 8"
  by (simp add: PutUint64_def)

lemma byte_bit_bound: "bit (b :: u8) n \<Longrightarrow> n < 8"
  using bit_imp_le_length [of b n] by simp

lemma byte_bit_out: "8 \<le> n \<Longrightarrow> \<not> bit (b :: u8) n"
  using byte_bit_bound [of b n] by auto

lemma bit_Uint32:
  "bit (Uint32 [b0, b1, b2, b3]) n \<longleftrightarrow>
     n < 8 \<and> bit b3 n \<or> 8 \<le> n \<and> n < 16 \<and> bit b2 (n - 8) \<or>
     16 \<le> n \<and> n < 24 \<and> bit b1 (n - 16) \<or> 24 \<le> n \<and> n < 32 \<and> bit b0 (n - 24)"
  by (auto simp: Uint32_def bit_simps dest: byte_bit_bound)

text \<open>Which byte of a 64-bit word a bit position falls into.\<close>

lemma byte_slots:
  fixes n :: nat
  shows "n < 8 \<or> (8 \<le> n \<and> n < 16) \<or> (16 \<le> n \<and> n < 24) \<or> (24 \<le> n \<and> n < 32) \<or>
    (32 \<le> n \<and> n < 40) \<or> (40 \<le> n \<and> n < 48) \<or> (48 \<le> n \<and> n < 56) \<or> (56 \<le> n \<and> n < 64) \<or> 64 \<le> n"
  by linarith

lemma bit_Uint64:
  "bit (Uint64 [b0, b1, b2, b3, b4, b5, b6, b7]) n \<longleftrightarrow>
     n < 8 \<and> bit b7 n \<or> 8 \<le> n \<and> n < 16 \<and> bit b6 (n - 8) \<or>
     16 \<le> n \<and> n < 24 \<and> bit b5 (n - 16) \<or> 24 \<le> n \<and> n < 32 \<and> bit b4 (n - 24) \<or>
     32 \<le> n \<and> n < 40 \<and> bit b3 (n - 32) \<or> 40 \<le> n \<and> n < 48 \<and> bit b2 (n - 40) \<or>
     48 \<le> n \<and> n < 56 \<and> bit b1 (n - 48) \<or> 56 \<le> n \<and> n < 64 \<and> bit b0 (n - 56)"
  using byte_slots [of n]
  by (elim disjE conjE; simp add: Uint64_def bit_simps byte_bit_out less_diff_conv2)

lemma Uint32_PutUint32 [simp]: "Uint32 (PutUint32 v) = v"
proof (rule bit_word_eqI)
  fix n assume "n < LENGTH(32)"
  then show "bit (Uint32 (PutUint32 v)) n = bit v n"
    using byte_slots [of n]
    by (elim disjE conjE; simp add: PutUint32_def bit_Uint32 bit_simps less_diff_conv2)
qed

lemma Uint64_PutUint64 [simp]: "Uint64 (PutUint64 v) = v"
proof (rule bit_word_eqI)
  fix n assume "n < LENGTH(64)"
  then show "bit (Uint64 (PutUint64 v)) n = bit v n"
    using byte_slots [of n]
    by (elim disjE conjE; simp add: PutUint64_def bit_Uint64 bit_simps less_diff_conv2)
qed

lemma list4E:
  assumes "length b = 4"
  obtains b0 b1 b2 b3 where "b = [b0, b1, b2, b3]"
  using assms by (auto simp: numeral_eq_Suc length_Suc_conv)

lemma list8E:
  assumes "length b = 8"
  obtains b0 b1 b2 b3 b4 b5 b6 b7 where "b = [b0, b1, b2, b3, b4, b5, b6, b7]"
  using assms by (auto simp: numeral_eq_Suc length_Suc_conv)

lemma PutUint32_Uint32: "length b = 4 \<Longrightarrow> PutUint32 (Uint32 b) = b"
  by (erule list4E) (auto simp: PutUint32_def bit_Uint32 bit_simps intro!: bit_word_eqI)

lemma PutUint64_Uint64: "length b = 8 \<Longrightarrow> PutUint64 (Uint64 b) = b"
  by (erule list8E) (auto simp: PutUint64_def bit_Uint64 bit_simps intro!: bit_word_eqI)

section \<open>Round trips of the header\<close>

lemma length_writeHeader: "length (h_Magic h) = 4 \<Longrightarrow> length (writeHeader h) = 32"
  by (simp add: writeHeader_def)

lemma readHeader_writeHeader:
  assumes "length (h_Magic h) = 4"
  shows "readHeader (writeHeader h) = h"
proof -
  obtain m0 m1 m2 m3 where m: "h_Magic h = [m0, m1, m2, m3]" using assms by (rule list4E)
  show ?thesis
    by (simp add: readHeader_def writeHeader_def m nth_append)
qed

lemma writeHeader_readHeader:
  assumes "length b = 32"
  shows "writeHeader (readHeader b) = b"
proof -
  have "take 4 (drop 4 b) = [b ! 4, b ! 5, b ! 6, b ! 7]"
    using assms by (simp add: list_eq_iff_nth_eq less_Suc_eq numeral_eq_Suc)
  then have "writeHeader (readHeader b) =
      take 4 b @ take 4 (drop 4 b) @ take 4 (drop 8 b) @ take 8 (drop 12 b) @ take 8 (drop 20 b) @
      take 4 (drop 28 b)"
    using assms by (simp add: readHeader_def writeHeader_def PutUint32_Uint32 PutUint64_Uint64)
  also have "\<dots> = take 32 b"
    by (simp add: take_add [of 4 28 b, simplified] take_add [of 4 24 "drop 4 b", simplified]
        take_add [of 4 20 "drop 8 b", simplified] take_add [of 8 12 "drop 12 b", simplified]
        take_add [of 8 4 "drop 20 b", simplified])
  finally show ?thesis using assms by simp
qed

section \<open>Decoding inverts encoding\<close>

lemma length_Magic_seal [simp]: "length (h_Magic (seal_header h n)) = 4"
  by (simp add: seal_header_def)

lemma ReadFull_append [simp]: "n = length b \<Longrightarrow> ReadFull n (b @ r) = Inr (b, r)"
  by (simp add: ReadFull_def)

lemma ReadFull_Inr: "ReadFull n r = Inr (b, r') \<longleftrightarrow> r = b @ r' \<and> length b = n"
  by (auto simp: ReadFull_def)

lemma seal_header_simps [simp]:
  "h_Magic (seal_header h n) = Magic" "h_Version (seal_header h n) = Version"
  "h_HeaderLength (seal_header h n) = 32" "h_PayloadLength (seal_header h n) = of_nat n"
  by (simp_all add: seal_header_def)

lemma seal_header_fixed:
  "h_Magic h = Magic \<Longrightarrow> h_Version h = Version \<Longrightarrow> h_HeaderLength h = 32 \<Longrightarrow>
   h_PayloadLength h = of_nat n \<Longrightarrow> seal_header h n = h"
  by (simp add: seal_header_def)

lemma decode_sealed:
  assumes "marshal payload = Some pb" and "HeaderLength + length pb < 2 ^ 32"
  shows "\<exists>frame. EncodeFrame marshal h payload = Some frame \<and>
    DecodeFrame (frame @ rest) = Inr ((seal_header h (length pb), pb), rest)"
proof -
  let ?h = "seal_header h (length pb)" and ?n = "of_nat (32 + length pb) :: u32"
  have len: "unat ?n = 32 + length pb"
    using assms(2) by (simp only: unat_of_nat) simp
  then have "\<not> ?n < 32" by (simp only: word_less_nat_alt) simp
  moreover have "ReadFull (unat ?n) (writeHeader ?h @ pb @ rest) = Inr (writeHeader ?h @ pb, rest)"
    unfolding len append_assoc [symmetric] by (rule ReadFull_append) (simp add: length_writeHeader)
  ultimately have "DecodeFrame (PutUint32 ?n @ writeHeader ?h @ pb @ rest) = Inr ((?h, pb), rest)"
    by (simp add: DecodeFrame_def Let_def length_writeHeader readHeader_writeHeader del: of_nat_add)
  then show ?thesis using assms(1) by (simp add: EncodeFrame_def Let_def)
qed

text \<open>
  C1: what \<^verbatim>\<open>EncodeFrame\<close> writes, \<^verbatim>\<open>DecodeFrame\<close> reads back as the completed header and the
  payload, and leaves exactly the bytes that follow the frame on the stream, for every payload
  whose frame length fits the 32-bit length field.
\<close>

theorem DecodeFrame_EncodeFrame:
  assumes "marshal payload = Some pb" and "HeaderLength + length pb < 2 ^ 32"
  shows "\<exists>frame. EncodeFrame marshal h payload = Some frame \<and>
    DecodeFrame (frame @ rest) = Inr ((seal_header h (length pb), pb), rest)"
  using assms by (rule decode_sealed)

theorem DecodeFrame_EncodeFrame_witness:
  "\<exists>frame. EncodeFrame Some \<lparr>h_Magic = [], h_Version = 0, h_HeaderLength = 0, h_Channel = 1,
       h_Opcode = 1, h_Flags = 1, h_RequestID = 7, h_SessionID = 0, h_PayloadLength = 0\<rparr> [123, 125]
     = Some frame \<and>
     DecodeFrame (frame @ [9]) =
       Inr ((\<lparr>h_Magic = Magic, h_Version = 1, h_HeaderLength = 32, h_Channel = 1, h_Opcode = 1,
         h_Flags = 1, h_RequestID = 7, h_SessionID = 0, h_PayloadLength = 2\<rparr>, [123, 125]), [9])"
  using DecodeFrame_EncodeFrame [of Some "[123, 125]" "[123, 125]"
      "\<lparr>h_Magic = [], h_Version = 0, h_HeaderLength = 0, h_Channel = 1, h_Opcode = 1, h_Flags = 1,
        h_RequestID = 7, h_SessionID = 0, h_PayloadLength = 0\<rparr>" "[9]"]
  by (simp add: seal_header_def)

text \<open>
  C2: the decoder accepts nothing but what the encoder writes: an accepted frame is the length
  prefix, the written header and the payload, the header is a completed one, and only these bytes
  are consumed.
\<close>

theorem DecodeFrame_canonical:
  assumes "DecodeFrame r = Inr ((h, payload), rest)"
  shows "EncodeFrame Some h payload = Some (take (length r - length rest) r) \<and>
    r = take (length r - length rest) r @ rest \<and>
    seal_header h (length payload) = h \<and> HeaderLength + length payload < 2 ^ 32"
proof -
  obtain lenBuf r1 frame where
    lb: "r = lenBuf @ r1" "length lenBuf = 4" and
    fr: "r1 = frame @ rest" "length frame = unat (Uint32 lenBuf)" "\<not> Uint32 lenBuf < 32" and
    hd: "h = readHeader (take 32 frame)" "payload = drop 32 frame" and
    ok: "h_Magic h = Magic" "h_Version h = Version" "h_HeaderLength h = 32"
        "of_nat (length payload) = h_PayloadLength h"
    using assms
    by (auto simp: DecodeFrame_def ReadFull_Inr Let_def split: sum.splits prod.splits if_splits)
  have ge: "32 \<le> length frame" using fr(2,3) by (simp add: word_less_nat_alt)
  have fl: "length frame = 32 + length payload" using hd(2) ge by simp
  have seal: "seal_header h (length payload) = h" using ok by (simp add: seal_header_fixed)
  have "frame = writeHeader h @ payload"
    using hd ge by (simp add: writeHeader_readHeader)
  moreover have "PutUint32 (of_nat (length frame)) = lenBuf"
    unfolding fr(2) using lb(2) by (simp add: PutUint32_Uint32)
  ultimately have "lenBuf @ frame = PutUint32 (of_nat (32 + length payload)) @ writeHeader h @ payload"
    unfolding fl by simp
  moreover have "length frame < 2 ^ 32" unfolding fr(2) using unsigned_less [of "Uint32 lenBuf"] by simp
  ultimately show ?thesis using lb fr fl seal by (simp add: EncodeFrame_def Let_def)
qed

theorem DecodeFrame_canonical_witness:
  "\<exists>h payload rest. DecodeFrame (PutUint32 34 @
      writeHeader \<lparr>h_Magic = Magic, h_Version = 1, h_HeaderLength = 32, h_Channel = 2, h_Opcode = 20,
        h_Flags = 1, h_RequestID = 5, h_SessionID = 1001, h_PayloadLength = 2\<rparr> @ [123, 125] @ [1, 2])
      = Inr ((h, payload), rest) \<and> EncodeFrame Some h payload \<noteq> None"
proof -
  have d: "DecodeFrame (PutUint32 34 @
      writeHeader \<lparr>h_Magic = Magic, h_Version = 1, h_HeaderLength = 32, h_Channel = 2, h_Opcode = 20,
        h_Flags = 1, h_RequestID = 5, h_SessionID = 1001, h_PayloadLength = 2\<rparr> @ [123, 125] @ [1, 2])
      = Inr ((\<lparr>h_Magic = Magic, h_Version = 1, h_HeaderLength = 32, h_Channel = 2, h_Opcode = 20,
        h_Flags = 1, h_RequestID = 5, h_SessionID = 1001, h_PayloadLength = 2\<rparr>, [123, 125]), [1, 2])"
    by code_simp
  show ?thesis using d DecodeFrame_canonical [OF d] by auto
qed

section \<open>Streams of frames\<close>

text \<open>Reading up to \<open>n\<close> frames one after the other, as the connection loops do.\<close>

fun drain :: "(bytes \<Rightarrow> 'e + 'm \<times> bytes) \<Rightarrow> nat \<Rightarrow> bytes \<Rightarrow> 'm list \<times> bytes" where
  "drain dec 0 r = ([], r)"
| "drain dec (Suc n) r =
     (case dec r of
        Inl e \<Rightarrow> ([], r)
      | Inr (m, r') \<Rightarrow> (case drain dec n r' of (ms, r'') \<Rightarrow> (m # ms, r'')))"

text \<open>
  The contract between the two ends of a connection: an encoder and a decoder that agree on where
  a message ends. Whatever follows a message on the stream does not matter.
\<close>

locale framing =
  fixes enc :: "'a \<Rightarrow> bytes option"
    and dec :: "bytes \<Rightarrow> 'e + 'm \<times> bytes"
    and delivered :: "'a \<Rightarrow> 'm"
    and sendable :: "'a \<Rightarrow> bool"
  assumes dec_enc: "sendable a \<Longrightarrow> \<exists>f. enc a = Some f \<and> dec (f @ r) = Inr (delivered a, r)"
begin

lemma enc_sendable: "sendable a \<Longrightarrow> enc a \<noteq> None"
  using dec_enc [of a "[]"] by auto

lemma dec_the_enc: "sendable a \<Longrightarrow> dec (the (enc a) @ r) = Inr (delivered a, r)"
  using dec_enc [of a r] by auto

lemma drain_sent:
  "list_all sendable as \<Longrightarrow>
   drain dec (length as) (concat (map (the \<circ> enc) as) @ r) = (map delivered as, r)"
  by (induction as) (simp_all add: dec_the_enc)

end

text \<open>The frame codec is such a contract, for every JSON encoder.\<close>

definition frame_sendable :: "('p \<Rightarrow> bytes option) \<Rightarrow> Header \<times> 'p \<Rightarrow> bool" where
  "frame_sendable marshal hp =
     (case marshal (snd hp) of None \<Rightarrow> False | Some pb \<Rightarrow> HeaderLength + length pb < 2 ^ 32)"

definition frame_delivered :: "('p \<Rightarrow> bytes option) \<Rightarrow> Header \<times> 'p \<Rightarrow> Header \<times> bytes" where
  "frame_delivered marshal hp =
     (let pb = the (marshal (snd hp)) in (seal_header (fst hp) (length pb), pb))"

lemma frame_dec_enc:
  "frame_sendable marshal hp \<Longrightarrow>
   \<exists>f. EncodeFrame marshal (fst hp) (snd hp) = Some f \<and>
     DecodeFrame (f @ r) = Inr (frame_delivered marshal hp, r)"
  by (auto simp: frame_sendable_def frame_delivered_def split: option.splits
      intro: decode_sealed)

interpretation frames: framing "\<lambda>hp. EncodeFrame marshal (fst hp) (snd hp)" DecodeFrame
    "frame_delivered marshal" "frame_sendable marshal" for marshal
  by unfold_locales (rule frame_dec_enc)

text \<open>
  A sequence of frames written back to back is read back frame by frame, in order, with
  nothing lost between them and the rest of the stream left alone.
\<close>

theorem frame_stream_roundtrip:
  assumes "list_all (frame_sendable marshal) hps"
  shows "drain DecodeFrame (length hps)
      (concat (map (the \<circ> (\<lambda>hp. EncodeFrame marshal (fst hp) (snd hp))) hps) @ rest) =
    (map (frame_delivered marshal) hps, rest)"
  using assms by (rule frames.drain_sent)

theorem frame_stream_roundtrip_witness:
  "fst (drain DecodeFrame (Suc (Suc 0))
      (concat (map (the \<circ> (\<lambda>hp. EncodeFrame Some (fst hp) (snd hp)))
        [(\<lparr>h_Magic = [], h_Version = 0, h_HeaderLength = 0, h_Channel = 1, h_Opcode = 1, h_Flags = 1,
           h_RequestID = 1, h_SessionID = 0, h_PayloadLength = 0\<rparr>, [65]),
         (\<lparr>h_Magic = [], h_Version = 0, h_HeaderLength = 0, h_Channel = 1, h_Opcode = 9, h_Flags = 1,
           h_RequestID = 2, h_SessionID = 4, h_PayloadLength = 0\<rparr>, [])]) @ [255])) =
   [(\<lparr>h_Magic = Magic, h_Version = 1, h_HeaderLength = 32, h_Channel = 1, h_Opcode = 1, h_Flags = 1,
       h_RequestID = 1, h_SessionID = 0, h_PayloadLength = 1\<rparr>, [65]),
    (\<lparr>h_Magic = Magic, h_Version = 1, h_HeaderLength = 32, h_Channel = 1, h_Opcode = 9, h_Flags = 1,
       h_RequestID = 2, h_SessionID = 4, h_PayloadLength = 0\<rparr>, [])]"
  using frame_stream_roundtrip [of Some
      "[(\<lparr>h_Magic = [], h_Version = 0, h_HeaderLength = 0, h_Channel = 1, h_Opcode = 1, h_Flags = 1,
           h_RequestID = 1, h_SessionID = 0, h_PayloadLength = 0\<rparr>, [65]),
         (\<lparr>h_Magic = [], h_Version = 0, h_HeaderLength = 0, h_Channel = 1, h_Opcode = 9, h_Flags = 1,
           h_RequestID = 2, h_SessionID = 4, h_PayloadLength = 0\<rparr>, [])]" "[255]"]
  by (simp add: frame_sendable_def frame_delivered_def seal_header_def)

end
