(* ===== verification/Journal.thy ===== *)
theory Journal
  imports BackendProps
begin

text \<open>
  The event journal (\<^verbatim>\<open>internal/server/journal.go\<close>): a bounded list of numbered events and the
  table of watch subscriptions. The backend and the time are arguments of the operations that use
  them. \<open>Append\<close> takes its number from an atomic counter before it takes the lock; its two halves
  are separate definitions, so that runs in which two calls overlap can be written down.
\<close>

section \<open>State\<close>

record watchSubscription =
  ws_ID :: u64
  ws_NodeID :: u64
  ws_RelPath :: string
  ws_Recursive :: bool
  ws_AckedSeq :: u64

record journalBroker =
  j_retention :: nat
  j_nextSeq :: u64
  j_nextWatchID :: u64
  j_events :: "WatchEvent list"
  j_watches :: "u64 \<rightharpoonup> watchSubscription"

definition newJournalBroker :: "int \<Rightarrow> journalBroker" where
  "newJournalBroker retention =
     \<lparr>j_retention = (if retention \<le> 0 then 256 else nat retention), j_nextSeq = 0,
      j_nextWatchID = 5000, j_events = [], j_watches = Map.empty\<rparr>"

section \<open>Matching events to watches\<close>

definition cleanEventPath :: "string \<Rightarrow> string" where
  "cleanEventPath path =
     (let path = TrimPrefix path ''./'' in if path = ''.'' then [] else Trim path slash)"

definition pathMatchesWatch :: "string \<Rightarrow> bool \<Rightarrow> string \<Rightarrow> bool" where
  "pathMatchesWatch root recursive path =
     (if path = [] then False
      else
        let root = cleanEventPath root; path = cleanEventPath path in
        if root = [] then
          if recursive then True
          else let parent = cleanEventPath (Dir path) in parent = ''.'' \<or> parent = []
        else if recursive then path = root \<or> HasPrefix path (root @ ''/'')
        else if path = root then True
        else cleanEventPath (Dir path) = root)"

definition watchMatches :: "watchSubscription \<Rightarrow> WatchEvent \<Rightarrow> bool" where
  "watchMatches watch evt \<longleftrightarrow>
     pathMatchesWatch (ws_RelPath watch) (ws_Recursive watch) (we_Path evt) \<or>
     pathMatchesWatch (ws_RelPath watch) (ws_Recursive watch) (we_OldPath evt)"

section \<open>Operations\<close>

definition latestSeqFromSlice :: "WatchEvent list \<Rightarrow> u64" where
  "latestSeqFromSlice es = (if es = [] then 0 else we_EventSeq (last es))"

definition latestSeq :: "journalBroker \<Rightarrow> u64" where
  "latestSeq j = (if j_events j = [] then 0 else we_EventSeq (last (j_events j)))"

definition watchByID :: "u64 \<Rightarrow> journalBroker \<Rightarrow> go_error + watchSubscription" where
  "watchByID watchID j =
     (case j_watches j watchID of None \<Rightarrow> Inl (Errorf ''watch not found'') | Some w \<Rightarrow> Inr w)"

definition add_watch ::
  "u64 \<times> string \<times> bool \<times> u64 \<Rightarrow> journalBroker \<Rightarrow> u64 \<times> journalBroker" where
  "add_watch = (\<lambda>(nodeID, relPath, recursive, seqno) j.
     let i = j_nextWatchID j + 1
     in (i, j\<lparr>j_nextWatchID := i,
              j_watches := (j_watches j)(i \<mapsto> \<lparr>ws_ID = i, ws_NodeID = nodeID, ws_RelPath = relPath,
                ws_Recursive = recursive, ws_AckedSeq = seqno\<rparr>)\<rparr>))"

definition Subscribe ::
  "metadataBackend \<Rightarrow> u64 \<Rightarrow> bool \<Rightarrow> journalBroker \<Rightarrow> (go_error + u64 \<times> u64) \<times> journalBroker" where
  "Subscribe b nodeID recursive j =
     (case RelPathByNodeID nodeID b of
        Inl err \<Rightarrow> (Inl err, j)
      | Inr relPath \<Rightarrow>
          let startSeq = latestSeq j;
              (watchID, j) = add_watch (nodeID, relPath, recursive, startSeq) j
          in (Inr (watchID, startSeq), j))"

text \<open>The loop of \<^verbatim>\<open>Poll\<close>; \<open>acc\<close> is \<^verbatim>\<open>resp.Events\<close> so far.\<close>

fun poll_loop ::
  "watchSubscription \<Rightarrow> u64 \<Rightarrow> u32 \<Rightarrow> WatchEvent list \<Rightarrow> WatchEvent list \<Rightarrow> WatchEvent list" where
  "poll_loop watch afterSeq maxEvents acc [] = acc"
| "poll_loop watch afterSeq maxEvents acc (evt # es) =
     (if we_EventSeq evt \<le> afterSeq then poll_loop watch afterSeq maxEvents acc es
      else if \<not> watchMatches watch evt then poll_loop watch afterSeq maxEvents acc es
      else
        let acc = acc @ [evt] in
        if maxEvents \<le> of_nat (length acc) then acc
        else poll_loop watch afterSeq maxEvents acc es)"

definition Poll :: "u64 \<Rightarrow> u64 \<Rightarrow> u32 \<Rightarrow> journalBroker \<Rightarrow> go_error + PollEventsResp" where
  "Poll watchID afterSeq maxEvents j =
     (case watchByID watchID j of
        Inl err \<Rightarrow> Inl err
      | Inr watch \<Rightarrow>
          let maxEvents = (if maxEvents = 0 then 128 else maxEvents);
              resp = \<lparr>PollEventsResp_Events = [], PollEventsResp_LatestSeq = latestSeqFromSlice (j_events j),
                      PollEventsResp_Overflow = False, PollEventsResp_NeedsResync = False,
                      PollEventsResp_AckedSeq = ws_AckedSeq watch\<rparr> in
          if j_events j = [] then Inr resp
          else if afterSeq + 1 < we_EventSeq (hd (j_events j))
            then Inr (resp\<lparr>PollEventsResp_Overflow := True, PollEventsResp_NeedsResync := True\<rparr>)
          else Inr (resp\<lparr>PollEventsResp_Events := poll_loop watch afterSeq maxEvents [] (j_events j)\<rparr>))"

definition Ack :: "u64 \<Rightarrow> u64 \<Rightarrow> journalBroker \<Rightarrow> (go_error + u64) \<times> journalBroker" where
  "Ack watchID eventSeq j =
     (case j_watches j watchID of
        None \<Rightarrow> (Inl (Errorf ''watch not found''), j)
      | Some watch \<Rightarrow>
          let watch = (if ws_AckedSeq watch < eventSeq then watch\<lparr>ws_AckedSeq := eventSeq\<rparr> else watch)
          in (Inr (ws_AckedSeq watch), j\<lparr>j_watches := (j_watches j)(watchID \<mapsto> watch)\<rparr>))"

definition Resync ::
  "u64 \<Rightarrow> journalBroker \<Rightarrow> metadataBackend \<Rightarrow> ResyncResp outcome option" where
  "Resync watchID j b =
     (case watchByID watchID j of
        Inl err \<Rightarrow> Some (Inl err, b)
      | Inr watch \<Rightarrow>
          (case SnapshotSubtree (ws_NodeID watch) (ws_Recursive watch) b of
             None \<Rightarrow> None
           | Some (Inl err, b) \<Rightarrow> Some (Inl err, b)
           | Some (Inr es, b) \<Rightarrow>
               Some (Inr \<lparr>ResyncResp_WatchID = watchID, ResyncResp_SnapshotSeq = latestSeq j,
                          ResyncResp_Entries = es\<rparr>, b)))"

text \<open>The event gets its number, its time and the names its paths imply.\<close>

definition stamp_event :: "u64 \<Rightarrow> instant \<Rightarrow> WatchEvent \<Rightarrow> WatchEvent" where
  "stamp_event seqno now event =
     (let event = event\<lparr>we_EventSeq := seqno, we_EventTime := NowRFC3339 now\<rparr>;
          event = (if we_Name event = [] \<and> we_Path event \<noteq> []
                   then event\<lparr>we_Name := Base (we_Path event)\<rparr> else event)
      in if we_OldName event = [] \<and> we_OldPath event \<noteq> []
         then event\<lparr>we_OldName := Base (we_OldPath event)\<rparr> else event)"

definition append_prepare ::
  "instant \<Rightarrow> WatchEvent \<Rightarrow> journalBroker \<Rightarrow> WatchEvent \<times> journalBroker" where
  "append_prepare now event j =
     (let seqno = j_nextSeq j + 1 in (stamp_event seqno now event, j\<lparr>j_nextSeq := seqno\<rparr>))"

definition append_locked :: "WatchEvent \<Rightarrow> journalBroker \<Rightarrow> journalBroker" where
  "append_locked event j =
     (let es = j_events j @ [event] in
      j\<lparr>j_events := (if j_retention j < length es then drop (length es - j_retention j) es else es)\<rparr>)"

definition Append :: "instant \<Rightarrow> WatchEvent \<Rightarrow> journalBroker \<Rightarrow> journalBroker" where
  "Append now event j = (let (event, j) = append_prepare now event j in append_locked event j)"

fun Resubscribe ::
  "metadataBackend \<Rightarrow> ResubscribeSpec list \<Rightarrow> journalBroker \<Rightarrow> ResubscribeResult list \<times> journalBroker" where
  "Resubscribe b [] j = ([], j)"
| "Resubscribe b (spec # specs) j =
     (let old = j_watches j (ResubscribeSpec_PreviousWatchID spec);
          nodeID = (case old of
             Some w \<Rightarrow> if ResubscribeSpec_NodeID spec = 0 then ws_NodeID w else ResubscribeSpec_NodeID spec
           | None \<Rightarrow> ResubscribeSpec_NodeID spec);
          startSeq = (case old of
             Some w \<Rightarrow> if ResubscribeSpec_AfterSeq spec < ws_AckedSeq w then ws_AckedSeq w
                       else ResubscribeSpec_AfterSeq spec
           | None \<Rightarrow> ResubscribeSpec_AfterSeq spec)
      in case RelPathByNodeID nodeID b of
           Inl err \<Rightarrow>
             (let (rs, j) = Resubscribe b specs j
              in (\<lparr>ResubscribeResult_PreviousWatchID = ResubscribeSpec_PreviousWatchID spec,
                   ResubscribeResult_WatchID = 0, ResubscribeResult_StartSeq = 0,
                   ResubscribeResult_AckedSeq = 0, ResubscribeResult_Error = error_text err\<rparr> # rs, j))
         | Inr relPath \<Rightarrow>
             (let (watchID, j) = add_watch (nodeID, relPath, ResubscribeSpec_Recursive spec, startSeq) j;
                  (rs, j) = Resubscribe b specs j
              in (\<lparr>ResubscribeResult_PreviousWatchID = ResubscribeSpec_PreviousWatchID spec,
                   ResubscribeResult_WatchID = watchID, ResubscribeResult_StartSeq = startSeq,
                   ResubscribeResult_AckedSeq = startSeq, ResubscribeResult_Error = []\<rparr> # rs, j)))"

interpretation watch_ids: id_table j_nextWatchID j_watches add_watch
  by unfold_locales (auto simp: add_watch_def Let_def split: prod.splits)

section \<open>The journal and its history\<close>

text \<open>
  \<open>recorded j H\<close>: \<open>H\<close> is the list of all events appended so far, numbered from 1 without gaps, and
  the journal holds the last of them, as many as its retention allows.
\<close>

definition recorded :: "journalBroker \<Rightarrow> WatchEvent list \<Rightarrow> bool" where
  "recorded j H \<longleftrightarrow>
     length H < 2 ^ 64 \<and> unat (j_nextSeq j) = length H \<and>
     (\<forall>k < length H. unat (we_EventSeq (H ! k)) = Suc k) \<and>
     j_events j = drop (length H - j_retention j) H \<and> 0 < j_retention j"

lemma recorded_new: "recorded (newJournalBroker r) []"
  by (simp add: recorded_def newJournalBroker_def)

lemma stamp_event_seq [simp]: "we_EventSeq (stamp_event s now e) = s"
  by (simp add: stamp_event_def Let_def)

lemma recorded_Append:
  assumes "recorded j H" and "Suc (length H) < 2 ^ 64"
  shows "recorded (Append now e j) (H @ [stamp_event (j_nextSeq j + 1) now e])"
proof -
  have "j_nextSeq j \<noteq> - 1"
    using assms by (auto simp: recorded_def unsigned_minus_1_eq_mask mask_eq_exp_minus_1)
  then have "unat (j_nextSeq j + 1) = Suc (length H)"
    using assms(1) by (simp add: unat_inc recorded_def)
  moreover have "j_events (Append now e j)
      = drop (Suc (length H) - j_retention j) (H @ [stamp_event (j_nextSeq j + 1) now e])"
    using assms(1)
    by (auto simp: recorded_def Append_def append_prepare_def append_locked_def Let_def Suc_diff_le)
  moreover have "j_nextSeq (Append now e j) = j_nextSeq j + 1" "j_retention (Append now e j) = j_retention j"
    by (simp_all add: Append_def append_prepare_def append_locked_def Let_def)
  ultimately show ?thesis
    using assms by (auto simp: recorded_def nth_append less_Suc_eq)
qed

text \<open>The other operations do not touch the events.\<close>

definition same_events :: "journalBroker \<Rightarrow> journalBroker \<Rightarrow> bool" where
  "same_events j j' \<longleftrightarrow>
     j_events j' = j_events j \<and> j_nextSeq j' = j_nextSeq j \<and> j_retention j' = j_retention j"

lemma recorded_same: "same_events j j' \<Longrightarrow> recorded j H \<Longrightarrow> recorded j' H"
  by (simp add: same_events_def recorded_def)

lemma same_events_add_watch: "same_events j (snd (add_watch a j))"
  by (simp add: same_events_def add_watch_def Let_def split: prod.split)

lemma same_events_Subscribe: "same_events j (snd (Subscribe b i rc j))"
  by (simp add: same_events_def Subscribe_def add_watch_def Let_def split: sum.split)

lemma same_events_Ack: "same_events j (snd (Ack w s j))"
  by (simp add: same_events_def Ack_def Let_def split: option.split)

lemma same_events_trans: "same_events i j \<Longrightarrow> same_events j k \<Longrightarrow> same_events i k"
  by (simp add: same_events_def)

lemma same_events_Resubscribe: "same_events j (snd (Resubscribe b specs j))"
proof (induction specs arbitrary: j)
  case (Cons spec specs)
  have "same_events j (snd (Resubscribe b specs (snd (add_watch a j))))" for a
    by (rule same_events_trans [OF same_events_add_watch Cons.IH])
  then show ?case
    using Cons.IH by (simp add: Let_def case_prod_unfold split: sum.split)
qed (simp add: same_events_def)

inductive journal_step :: "journalBroker \<Rightarrow> WatchEvent list \<Rightarrow> journalBroker \<Rightarrow> WatchEvent list \<Rightarrow> bool" where
  js_Append: "Suc (length H) < 2 ^ 64 \<Longrightarrow>
    journal_step j H (Append now e j) (H @ [stamp_event (j_nextSeq j + 1) now e])"
| js_Subscribe: "journal_step j H (snd (Subscribe b i rc j)) H"
| js_Ack: "journal_step j H (snd (Ack w s j)) H"
| js_Resubscribe: "journal_step j H (snd (Resubscribe b specs j)) H"

inductive journal_run :: "int \<Rightarrow> journalBroker \<Rightarrow> WatchEvent list \<Rightarrow> bool" for r where
  jr_new: "journal_run r (newJournalBroker r) []"
| jr_step: "journal_run r j H \<Longrightarrow> journal_step j H j' H' \<Longrightarrow> journal_run r j' H'"

lemma recorded_step: "journal_step j H j' H' \<Longrightarrow> recorded j H \<Longrightarrow> recorded j' H'"
  by (induction rule: journal_step.induct)
     (auto intro: recorded_Append recorded_same same_events_Subscribe same_events_Ack
       same_events_Resubscribe)

lemma recorded_run: "journal_run r j H \<Longrightarrow> recorded j H"
  by (induction rule: journal_run.induct) (auto intro: recorded_new recorded_step)

section \<open>Polling\<close>

lemma unat_of_nat_le: "n < 2 ^ 32 \<Longrightarrow> (m :: u32) \<le> of_nat n \<longleftrightarrow> unat m \<le> n"
  by (simp add: word_le_nat_alt unat_of_nat)

lemma poll_loop_take:
  assumes "length acc + length es < 2 ^ 32" and "length acc < unat m"
  shows "poll_loop w s m acc es =
    take (unat m) (acc @ filter (\<lambda>e. s < we_EventSeq e \<and> watchMatches w e) es)"
  using assms
proof (induction w s m acc es rule: poll_loop.induct)
  case (2 w s m acc e es)
  have le: "m \<le> of_nat (length (acc @ [e])) \<longleftrightarrow> unat m \<le> Suc (length acc)"
    using unat_of_nat_le [of "length (acc @ [e])" m] 2 by simp
  show ?case
  proof (cases "s < we_EventSeq e \<and> watchMatches w e \<and> unat m \<le> Suc (length acc)")
    case True
    then have "unat m - length acc = Suc 0" using 2(4,5) by linarith
    then show ?thesis using True 2 le by (auto simp: Let_def)
  next
    case False
    then show ?thesis using 2 le by (auto simp: Let_def not_le)
  qed
qed simp

lemma filter_after_drop:
  assumes "\<forall>k < n. k < length H \<longrightarrow> \<not> P (H ! k)"
  shows "filter P (drop n H) = filter P H"
proof -
  have "filter P (take n H) = []" using assms by (auto simp: filter_empty_conv in_set_conv_nth)
  then show ?thesis by (metis append_take_drop_id append_Nil filter_append)
qed

lemma recorded_hd:
  assumes "recorded j H" and "H \<noteq> []"
  shows "j_events j \<noteq> [] \<and> unat (we_EventSeq (hd (j_events j))) = Suc (length H - j_retention j)"
proof -
  have lt: "length H - j_retention j < length H" using assms by (intro diff_less) (auto simp: recorded_def)
  have ev: "j_events j = drop (length H - j_retention j) H" using assms(1) by (simp add: recorded_def)
  show ?thesis
    using lt assms(1) unfolding ev by (simp add: hd_drop_conv_nth recorded_def)
qed

lemma Poll_exact_aux:
  assumes rec: "recorded j H" and w: "j_watches j i = Some w" and s: "s \<noteq> - 1"
    and len: "length H < 2 ^ 32"
  shows "\<exists>resp. Poll i s m j = Inr resp \<and> PollEventsResp_NeedsResync resp = PollEventsResp_Overflow resp \<and>
    (PollEventsResp_Overflow resp \<longleftrightarrow> unat s < length H - j_retention j) \<and>
    (\<not> PollEventsResp_Overflow resp \<longrightarrow>
       PollEventsResp_Events resp =
         take (if m = 0 then 128 else unat m)
           (filter (\<lambda>e. s < we_EventSeq e \<and> watchMatches w e) H)) \<and>
    PollEventsResp_LatestSeq resp = of_nat (length H)"
proof (cases "H = []")
  case True
  then show ?thesis
    using rec w by (simp add: Poll_def watchByID_def recorded_def latestSeqFromSlice_def)
next
  case False
  let ?m = "if m = 0 then 128 else m"
  note hd = recorded_hd [OF rec False]
  have over: "s + 1 < we_EventSeq (hd (j_events j)) \<longleftrightarrow> unat s < length H - j_retention j"
    using hd s by (simp add: word_less_nat_alt unat_inc)
  have ev: "j_events j = drop (length H - j_retention j) H" using rec by (simp add: recorded_def)
  have "last (j_events j) = H ! (length H - 1)"
    using ev hd False by (simp add: last_conv_nth)
  then have latest: "latestSeqFromSlice (j_events j) = of_nat (length H)"
    using hd rec False
    by (simp add: latestSeqFromSlice_def recorded_def word_unat_eq_iff unat_of_nat)
  have loop: "poll_loop w s ?m [] (j_events j) =
      take (unat ?m) (filter (\<lambda>e. s < we_EventSeq e \<and> watchMatches w e) (j_events j))"
    using poll_loop_take [of "[]" "j_events j" ?m w s] ev len by (auto simp: unat_gt_0)
  have all: "filter (\<lambda>e. s < we_EventSeq e \<and> watchMatches w e) (j_events j) =
      filter (\<lambda>e. s < we_EventSeq e \<and> watchMatches w e) H" if "\<not> unat s < length H - j_retention j"
    unfolding ev using rec that
    by (intro filter_after_drop) (auto simp: recorded_def word_less_nat_alt)
  show ?thesis
    using w hd over latest loop all by (auto simp: Poll_def watchByID_def Let_def)
qed

text \<open>
  C11: No event is lost silently. In every state the journal reaches by calls that do not overlap, a
  poll after number \<open>s\<close> either returns the first matching events with a larger number, as many as
  were asked for, out of ALL events ever appended, or reports an overflow, and it reports an
  overflow exactly when the event after \<open>s\<close> has fallen out of the retention window.
\<close>

theorem Poll_exact:
  assumes "journal_run r j H" and "j_watches j i = Some w" and "s \<noteq> - 1" and "length H < 2 ^ 32"
  shows "\<exists>resp. Poll i s m j = Inr resp \<and> PollEventsResp_NeedsResync resp = PollEventsResp_Overflow resp \<and>
    (PollEventsResp_Overflow resp \<longleftrightarrow> unat s < length H - j_retention j) \<and>
    (\<not> PollEventsResp_Overflow resp \<longrightarrow>
       PollEventsResp_Events resp =
         take (if m = 0 then 128 else unat m)
           (filter (\<lambda>e. s < we_EventSeq e \<and> watchMatches w e) H)) \<and>
    PollEventsResp_LatestSeq resp = of_nat (length H)"
  using Poll_exact_aux [OF recorded_run [OF assms(1)] assms(2-4)] .

definition sample_event :: "string \<Rightarrow> WatchEvent" where
  "sample_event path =
     \<lparr>we_EventSeq = 0, we_EventTime = [], we_WatchID = 0, we_EventType = ''create'', we_NodeID = 2,
      we_ParentNodeID = 1, we_OldParentNodeID = 0, we_Name = [], we_OldName = [], we_Path = path,
      we_OldPath = []\<rparr>"

definition watched_backend :: metadataBackend where
  "watched_backend = sample_backend
     \<lparr>b_nodesByID := [1 \<mapsto> \<lparr>nr_id = 1, nr_parentID = 1, nr_relPath = []\<rparr>]\<rparr>"

definition sample_journal :: journalBroker where
  "sample_journal =
     Append 0 (sample_event ''b.txt'') (Append 0 (sample_event ''src/a.txt'')
       (snd (Subscribe watched_backend 1 True (newJournalBroker 4))))"

definition sample_history :: "WatchEvent list" where
  "sample_history = [stamp_event 1 0 (sample_event ''src/a.txt''), stamp_event 2 0 (sample_event ''b.txt'')]"

lemma sample_journal_run: "journal_run 4 sample_journal sample_history"
proof -
  let ?j0 = "newJournalBroker 4"
  let ?j1 = "snd (Subscribe watched_backend 1 True ?j0)"
  let ?j2 = "Append 0 (sample_event ''src/a.txt'') ?j1"
  have seq: "j_nextSeq ?j1 = 0" "j_nextSeq ?j2 = 1"
    using same_events_Subscribe [of ?j0 watched_backend 1 True]
    by (simp_all add: same_events_def newJournalBroker_def Append_def append_prepare_def
        append_locked_def Let_def)
  have "journal_run 4 ?j1 []" by (rule jr_step [OF jr_new js_Subscribe])
  then have "journal_run 4 ?j2 [stamp_event 1 0 (sample_event ''src/a.txt'')]"
    using js_Append [of "[]" ?j1 0 "sample_event ''src/a.txt''"] seq(1) by (auto intro: jr_step)
  then show ?thesis
    using js_Append [of "[stamp_event 1 0 (sample_event ''src/a.txt'')]" ?j2 0 "sample_event ''b.txt''"]
      seq(2) by (auto simp: sample_journal_def sample_history_def intro: jr_step)
qed

theorem Poll_exact_witness:
  "\<exists>resp. Poll 5001 0 1 sample_journal = Inr resp \<and> \<not> PollEventsResp_Overflow resp \<and>
     PollEventsResp_Events resp = [stamp_event 1 0 (sample_event ''src/a.txt'')] \<and>
     PollEventsResp_LatestSeq resp = 2"
proof -
  let ?w = "\<lparr>ws_ID = 5001, ws_NodeID = 1, ws_RelPath = [], ws_Recursive = True, ws_AckedSeq = 0\<rparr>"
  have w: "j_watches sample_journal 5001 = Some ?w" by code_simp
  have f: "filter (\<lambda>e. 0 < we_EventSeq e \<and> watchMatches ?w e) sample_history = sample_history"
    by code_simp
  have "j_retention sample_journal = 4" by code_simp
  then show ?thesis
    using Poll_exact [OF sample_journal_run w, of 0 1, unfolded f] by (auto simp: sample_history_def)
qed

section \<open>Which events a watch sees\<close>

lemma Trim_clean: "clean_rel p \<Longrightarrow> Trim p slash = p"
proof (cases "p = []")
  case False
  assume p: "clean_rel p"
  have "dropWhile (\<lambda>x. x = slash) p = p"
    using clean_rel_hd [OF p False] by (cases p) auto
  moreover have "last p \<noteq> slash"
    using p
  proof (cases rule: clean_rel_cases)
    case name
    then show ?thesis by (metis last_in_set valid_name_def)
  next
    case (below u n)
    then have "last p = last n" by (simp add: valid_name_def)
    with below(4) show ?thesis by (metis last_in_set valid_name_def)
  qed (use False in simp)
  then have "dropWhile (\<lambda>x. x = slash) (rev p) = rev p"
    using False by (cases p rule: rev_cases) auto
  ultimately show ?thesis by (simp add: Trim_def trim_by_def)
qed (simp add: Trim_def trim_by_def)

lemma clean_rel_not_dot: "clean_rel p \<Longrightarrow> p \<noteq> ''.'' \<and> \<not> HasPrefix p ''./''"
  using clean_rel_append_iff [of "''.''"]
  by (auto simp: HasPrefix_iff clean_rel_def valid_name_def)

lemma cleanEventPath_clean [simp]: "clean_rel p \<Longrightarrow> cleanEventPath p = p"
  using clean_rel_not_dot [of p] by (simp add: cleanEventPath_def Trim_clean TrimPrefix_def)

lemma cleanEventPath_Dir:
  assumes "clean_rel p" and "p \<noteq> []"
  shows "cleanEventPath (Dir p) = parent_path p"
proof (cases "Dir p = ''.''")
  case True
  then show ?thesis by (simp add: parent_path_def cleanEventPath_def TrimPrefix_def HasPrefix_def)
next
  case False
  then show ?thesis
    using clean_parent_path [OF assms(1)] by (simp add: parent_path_def)
qed

text \<open>
  A recursive watch on a directory sees exactly the events whose new or old path is that
  directory or lies below it; a plain watch sees exactly those on the directory and on its direct
  children (on the root: on its direct children).
\<close>

theorem pathMatchesWatch_exact:
  assumes "clean_rel root" and "clean_rel path" and "path \<noteq> []"
  shows "(pathMatchesWatch root True path \<longleftrightarrow>
      root = [] \<or> path = root \<or> (\<exists>below. path = root @ ''/'' @ below)) \<and>
    (pathMatchesWatch root False path \<longleftrightarrow>
      (root \<noteq> [] \<and> path = root) \<or> parent_path path = root)"
  using assms cleanEventPath_Dir [OF assms(2,3)] clean_rel_not_dot [OF clean_parent_path [OF assms(2)]]
  by (auto simp: pathMatchesWatch_def Let_def HasPrefix_iff)

theorem pathMatchesWatch_exact_witness:
  "pathMatchesWatch ''src'' True ''src/a/b'' \<and> \<not> pathMatchesWatch ''src'' False ''src/a/b''"
proof -
  have "clean_rel ''src''" "clean_rel ''src/a/b''" by code_simp+
  moreover have "parent_path ''src/a/b'' \<noteq> ''src''" by code_simp
  ultimately show ?thesis
    using pathMatchesWatch_exact [of "''src''" "''src/a/b''"] by auto
qed

section \<open>Overlapping calls\<close>

text \<open>
  Two calls of \<open>Append\<close> may overlap: both take their numbers, and then enter the lock in either
  order. In \<open>overlap_append\<close> the call that took its number first enters last; \<open>overlap_middle\<close> is
  the state between the two entries, with the event still to be entered.
\<close>

definition overlap_middle ::
  "instant \<Rightarrow> WatchEvent \<Rightarrow> WatchEvent \<Rightarrow> journalBroker \<Rightarrow> WatchEvent \<times> journalBroker" where
  "overlap_middle now e1 e2 j =
     (let (s1, j) = append_prepare now e1 j;
          (s2, j) = append_prepare now e2 j
      in (s1, append_locked s2 j))"

definition overlap_append :: "instant \<Rightarrow> WatchEvent \<Rightarrow> WatchEvent \<Rightarrow> journalBroker \<Rightarrow> journalBroker" where
  "overlap_append now e1 e2 j = (let (s1, j) = overlap_middle now e1 e2 j in append_locked s1 j)"

text \<open>
  When two appends overlap, a watcher can miss an event for good: numbers 2 and 3 are taken, 3 is
  entered first, and a client that polls then (after number 1) is given 3; it goes on after 3, and
  event 2, entered later, is never returned to it, although no overflow is reported. The latest
  number the journal reports at the end is 2.
\<close>

theorem overlapping_appends_lose_event:
  "\<exists>j e1 e2.
     map_sum (\<lambda>_. ()) (map we_EventSeq \<circ> PollEventsResp_Events)
       (Poll 5001 1 0 (snd (overlap_middle 0 e1 e2 j))) = Inr [3] \<and>
     map we_EventSeq (j_events (overlap_append 0 e1 e2 j)) = [1, 3, 2] \<and>
     map_sum (\<lambda>_. ()) (\<lambda>r. (PollEventsResp_Events r, PollEventsResp_Overflow r, PollEventsResp_LatestSeq r))
       (Poll 5001 3 0 (overlap_append 0 e1 e2 j)) = Inr ([], False, 2)"
proof (intro exI conjI)
  let ?j = "Append 0 (sample_event ''x'')
      (snd (Subscribe watched_backend 1 True (newJournalBroker 4)))"
  let ?e1 = "sample_event ''a''" and ?e2 = "sample_event ''b''"
  show "map_sum (\<lambda>_. ()) (map we_EventSeq \<circ> PollEventsResp_Events)
       (Poll 5001 1 0 (snd (overlap_middle 0 ?e1 ?e2 ?j))) = Inr [3]"
    by code_simp
  show "map we_EventSeq (j_events (overlap_append 0 ?e1 ?e2 ?j)) = [1, 3, 2]"
    by code_simp
  show "map_sum (\<lambda>_. ())
      (\<lambda>r. (PollEventsResp_Events r, PollEventsResp_Overflow r, PollEventsResp_LatestSeq r))
      (Poll 5001 3 0 (overlap_append 0 ?e1 ?e2 ?j)) = Inr ([], False, 2)"
    by code_simp
qed

end
