(* ===== verification/Sessions.thy ===== *)
theory Sessions
  imports Protocol
begin

text \<open>
  The session table of \<^verbatim>\<open>internal/server/session_manager.go\<close>: sessions with a lease, renewed by
  heartbeats and by resuming, and expired when the lease has run out. Every operation runs under
  the manager's lock, so each is one step on the table; the instant \<open>now\<close> is the caller's reading
  of the server clock. The results keep the code's booleans: found, active and, for resuming,
  whether the client instance matches. A missing session gives Go's zero value.
\<close>

section \<open>State\<close>

record Session =
  Session_ID :: u64
  Session_PrincipalID :: string
  Session_ClientInstanceID :: string
  Session_LeaseSeconds :: u32
  Session_ExpiresAt :: instant
  Session_State :: string

record SessionManager =
  sm_nextID :: u64
  sm_sessions :: "u64 \<rightharpoonup> Session"

definition zero_Session :: Session where
  "zero_Session =
     \<lparr>Session_ID = 0, Session_PrincipalID = [], Session_ClientInstanceID = [],
      Session_LeaseSeconds = 0, Session_ExpiresAt = 0, Session_State = []\<rparr>"

abbreviation lease_ns :: "u32 \<Rightarrow> duration" where
  "lease_ns l \<equiv> uint l * second_ns"

section \<open>Operations\<close>

definition NewSessionManager :: SessionManager where
  "NewSessionManager = \<lparr>sm_nextID = 1000, sm_sessions = Map.empty\<rparr>"

definition Create ::
  "string \<Rightarrow> string \<Rightarrow> u32 \<Rightarrow> instant \<Rightarrow> SessionManager \<Rightarrow> Session \<times> SessionManager" where
  "Create principalID clientInstanceID leaseSeconds now m =
     (let sid = sm_nextID m + 1;
          s = \<lparr>Session_ID = sid, Session_PrincipalID = principalID,
               Session_ClientInstanceID = clientInstanceID, Session_LeaseSeconds = leaseSeconds,
               Session_ExpiresAt = now + lease_ns leaseSeconds, Session_State = ''active''\<rparr>
      in (s, m\<lparr>sm_nextID := sid, sm_sessions := (sm_sessions m)(sid \<mapsto> s)\<rparr>))"

definition Heartbeat ::
  "u64 \<Rightarrow> instant \<Rightarrow> SessionManager \<Rightarrow> (Session \<times> bool \<times> bool) \<times> SessionManager" where
  "Heartbeat sid now m =
     (case sm_sessions m sid of
        None \<Rightarrow> ((zero_Session, False, False), m)
      | Some s \<Rightarrow>
          if now > Session_ExpiresAt s then
            let s' = s\<lparr>Session_State := ''expired''\<rparr>
            in ((s', True, False), m\<lparr>sm_sessions := (sm_sessions m)(sid \<mapsto> s')\<rparr>)
          else
            let s' = s\<lparr>Session_ExpiresAt := now + lease_ns (Session_LeaseSeconds s),
                       Session_State := ''active''\<rparr>
            in ((s', True, True), m\<lparr>sm_sessions := (sm_sessions m)(sid \<mapsto> s')\<rparr>))"

definition ValidateActive :: "u64 \<Rightarrow> instant \<Rightarrow> SessionManager \<Rightarrow> Session \<times> bool \<times> bool" where
  "ValidateActive sid now m =
     (case sm_sessions m sid of
        None \<Rightarrow> (zero_Session, False, False)
      | Some s \<Rightarrow>
          if now > Session_ExpiresAt s \<or> Session_State s \<noteq> ''active'' then (s, True, False)
          else (s, True, True))"

definition Resume ::
  "u64 \<Rightarrow> string \<Rightarrow> instant \<Rightarrow> SessionManager \<Rightarrow> (Session \<times> bool \<times> bool \<times> bool) \<times> SessionManager"
where
  "Resume sid clientInstanceID now m =
     (case sm_sessions m sid of
        None \<Rightarrow> ((zero_Session, False, False, False), m)
      | Some s \<Rightarrow>
          if Session_ClientInstanceID s \<noteq> clientInstanceID then ((s, True, False, False), m)
          else if now > Session_ExpiresAt s \<or> Session_State s \<noteq> ''active'' then
            let s' = s\<lparr>Session_State := ''expired''\<rparr>
            in ((s', True, False, True), m\<lparr>sm_sessions := (sm_sessions m)(sid \<mapsto> s')\<rparr>)
          else
            let s' = s\<lparr>Session_ExpiresAt := now + lease_ns (Session_LeaseSeconds s),
                       Session_State := ''active''\<rparr>
            in ((s', True, True, True), m\<lparr>sm_sessions := (sm_sessions m)(sid \<mapsto> s')\<rparr>))"

section \<open>Fresh identifiers\<close>

definition create_alloc ::
  "string \<times> string \<times> u32 \<times> instant \<Rightarrow> SessionManager \<Rightarrow> u64 \<times> SessionManager" where
  "create_alloc a m =
     (case a of (p, c, l, t) \<Rightarrow> case Create p c l t m of (s, m') \<Rightarrow> (Session_ID s, m'))"

interpretation session_ids: id_table sm_nextID sm_sessions create_alloc
  by unfold_locales (auto simp: create_alloc_def Create_def Let_def)

section \<open>Invariant\<close>

text \<open>
  A stored session carries the key it is stored under, its key was handed out by the counter, and
  its state is one of the two strings the code ever writes.
\<close>

definition session_inv :: "SessionManager \<Rightarrow> bool" where
  "session_inv m \<longleftrightarrow>
     (\<forall>sid s. sm_sessions m sid = Some s \<longrightarrow>
        Session_ID s = sid \<and> sid \<le> sm_nextID m \<and> Session_State s \<in> {''active'', ''expired''})"

lemma session_invD:
  "session_inv m \<Longrightarrow> sm_sessions m sid = Some s \<Longrightarrow>
   Session_ID s = sid \<and> sid \<le> sm_nextID m \<and> Session_State s \<in> {''active'', ''expired''}"
  by (simp add: session_inv_def)

lemma session_inv_bounded: "session_inv m \<Longrightarrow> session_ids.bounded m"
  by (auto simp: session_ids.bounded_def dest: session_invD)

lemma session_inv_new [inv_intros]: "session_inv NewSessionManager"
  by (simp add: session_inv_def NewSessionManager_def)

lemma session_inv_Create [inv_intros]:
  "session_inv m \<Longrightarrow> sm_nextID m \<noteq> - 1 \<Longrightarrow> session_inv (snd (Create p c l now m))"
  using word_less_inc [of "sm_nextID m"]
  by (fastforce simp: session_inv_def Create_def Let_def split: if_splits)

lemma session_inv_Heartbeat [inv_intros]:
  "session_inv m \<Longrightarrow> session_inv (snd (Heartbeat sid now m))"
  by (auto simp: session_inv_def Heartbeat_def Let_def split: option.splits)

lemma session_inv_Resume [inv_intros]:
  "session_inv m \<Longrightarrow> session_inv (snd (Resume sid c now m))"
  by (auto simp: session_inv_def Resume_def Let_def split: option.splits)

section \<open>Frames\<close>

lemma Create_other [frame]:
  "k \<noteq> sm_nextID m + 1 \<Longrightarrow> sm_sessions (snd (Create p c l now m)) k = sm_sessions m k"
  by (simp add: Create_def Let_def)

lemma Heartbeat_other [frame]:
  "k \<noteq> sid \<Longrightarrow> sm_sessions (snd (Heartbeat sid now m)) k = sm_sessions m k"
  by (simp add: Heartbeat_def Let_def split: option.splits)

lemma Resume_other [frame]:
  "k \<noteq> sid \<Longrightarrow> sm_sessions (snd (Resume sid c now m)) k = sm_sessions m k"
  by (simp add: Resume_def Let_def split: option.splits)

section \<open>Runs under a clock that does not go back\<close>

datatype session_op =
    OpCreate string string u32
  | OpHeartbeat u64
  | OpResume u64 string

fun session_apply :: "session_op \<Rightarrow> instant \<Rightarrow> SessionManager \<Rightarrow> SessionManager" where
  "session_apply (OpCreate p c l) now m = snd (Create p c l now m)"
| "session_apply (OpHeartbeat sid) now m = snd (Heartbeat sid now m)"
| "session_apply (OpResume sid c) now m = snd (Resume sid c now m)"

text \<open>
  One step: the clock moves on (or stands still) and one operation runs. The identifier counter
  has not wrapped.
\<close>

inductive session_step :: "instant \<times> SessionManager \<Rightarrow> instant \<times> SessionManager \<Rightarrow> bool" where
  step: "t \<le> t' \<Longrightarrow> sm_nextID m \<noteq> - 1 \<Longrightarrow> session_step (t, m) (t', session_apply oper t' m)"

inductive_cases session_stepE: "session_step (t, m) tm'"

definition session_reachable :: "instant \<Rightarrow> SessionManager \<Rightarrow> bool" where
  "session_reachable t m \<longleftrightarrow> (\<exists>t0. session_step\<^sup>*\<^sup>* (t0, NewSessionManager) (t, m))"

text \<open>A session marked expired is past its deadline: this is what makes expiry final.\<close>

definition lease_inv :: "instant \<Rightarrow> SessionManager \<Rightarrow> bool" where
  "lease_inv t m \<longleftrightarrow> session_inv m \<and>
     (\<forall>sid s. sm_sessions m sid = Some s \<longrightarrow> Session_State s \<noteq> ''active'' \<longrightarrow> Session_ExpiresAt s < t)"

lemma lease_inv_mono: "lease_inv t m \<Longrightarrow> t \<le> t' \<Longrightarrow> lease_inv t' m"
  by (fastforce simp: lease_inv_def)

lemma session_inv_apply:
  "session_inv m \<Longrightarrow> sm_nextID m \<noteq> - 1 \<Longrightarrow> session_inv (session_apply oper t m)"
  by (cases oper) (simp_all add: inv_intros)

lemma lease_inv_apply:
  assumes "lease_inv t m" and "sm_nextID m \<noteq> - 1"
  shows "lease_inv t (session_apply oper t m)"
proof -
  have "Session_ExpiresAt s < t"
    if "sm_sessions (session_apply oper t m) sid = Some s" "Session_State s \<noteq> ''active''" for sid s
    using that assms
    by (cases oper)
      (auto simp: lease_inv_def Create_def Heartbeat_def Resume_def Let_def
        split: option.splits if_splits)
  then show ?thesis using assms session_inv_apply by (auto simp: lease_inv_def)
qed

lemma lease_inv_steps:
  "session_step\<^sup>*\<^sup>* (t, m) (t', m') \<Longrightarrow> lease_inv t m \<Longrightarrow> t \<le> t' \<and> lease_inv t' m'"
proof (induction "(t', m')" arbitrary: t' m' rule: rtranclp_induct)
  case (step tm)
  then show ?case
    by (cases tm) (auto elim!: session_stepE intro: lease_inv_apply lease_inv_mono)
qed simp

lemma lease_inv_new: "lease_inv t NewSessionManager"
  by (simp add: lease_inv_def inv_intros) (simp add: NewSessionManager_def)

lemma reachable_lease_inv: "session_reachable t m \<Longrightarrow> lease_inv t m"
  using lease_inv_steps lease_inv_new by (auto simp: session_reachable_def)

definition session_active :: "u64 \<Rightarrow> instant \<Rightarrow> SessionManager \<Rightarrow> bool" where
  "session_active sid now m = snd (snd (ValidateActive sid now m))"

lemma session_active_iff:
  "session_active sid now m \<longleftrightarrow>
     (\<exists>s. sm_sessions m sid = Some s \<and> now \<le> Session_ExpiresAt s \<and> Session_State s = ''active'')"
  by (auto simp: session_active_def ValidateActive_def split: option.splits)

text \<open>A stored session that is not active at one instant is not active after any later operation.\<close>

lemma apply_keeps_expired:
  assumes "lease_inv t m" and "sm_nextID m \<noteq> - 1" and "t \<le> t'"
    and "sm_sessions m sid \<noteq> None" and "\<not> session_active sid t m"
  shows "sm_sessions (session_apply oper t' m) sid \<noteq> None \<and>
    \<not> session_active sid t' (session_apply oper t' m)"
proof -
  obtain s where s: "sm_sessions m sid = Some s" using assms(4) by auto
  have past: "Session_ExpiresAt s < t"
    using assms(1,5) s by (fastforce simp: session_active_iff lease_inv_def)
  have le: "sid \<le> sm_nextID m" using assms(1) s by (auto simp: lease_inv_def session_inv_def)
  have fresh: "sid \<noteq> sm_nextID m + 1" using word_le_inc [OF le assms(2)] by auto
  show ?thesis
    using s past fresh assms(3)
    by (cases oper)
      (auto simp: session_active_iff Create_def Heartbeat_def Resume_def Let_def
        split: option.splits)
qed

lemma steps_keep_expired:
  "session_step\<^sup>*\<^sup>* (t, m) (t', m') \<Longrightarrow> lease_inv t m \<Longrightarrow> sm_sessions m sid \<noteq> None \<Longrightarrow>
   \<not> session_active sid t m \<Longrightarrow> sm_sessions m' sid \<noteq> None \<and> \<not> session_active sid t' m'"
proof (induction "(t', m')" arbitrary: t' m' rule: rtranclp_induct)
  case (step tm)
  obtain t1 m1 where tm: "tm = (t1, m1)" by (cases tm)
  have "lease_inv t1 m1" using step.hyps(1) step.prems(1) lease_inv_steps tm by blast
  moreover obtain oper where "t1 \<le> t'" "sm_nextID m1 \<noteq> - 1" "m' = session_apply oper t' m1"
    using step.hyps(2) tm by (auto elim!: session_stepE)
  moreover have "sm_sessions m1 sid \<noteq> None \<and> \<not> session_active sid t1 m1"
    using step.hyps(3) step.prems tm by blast
  ultimately show ?case using apply_keeps_expired by metis
qed simp

text \<open>
  C3: expiry is final. Once a stored session is found inactive in a reachable state of the table,
  no sequence of creations, heartbeats and resumptions makes it active again, as long as the
  clock does not go back.
\<close>

theorem session_expiry_final:
  assumes "session_reachable t m" and "sm_sessions m sid \<noteq> None" and "\<not> session_active sid t m"
    and "session_step\<^sup>*\<^sup>* (t, m) (t', m')"
  shows "\<not> session_active sid t' m'"
  using steps_keep_expired [OF assms(4) reachable_lease_inv [OF assms(1)] assms(2,3)] by simp

theorem session_expiry_final_witness:
  "\<exists>m m'. session_reachable 40000000000 m \<and> sm_sessions m 1001 \<noteq> None \<and>
     \<not> session_active 1001 40000000000 m \<and>
     session_step\<^sup>*\<^sup>* (40000000000, m) (50000000000, m') \<and> \<not> session_active 1001 50000000000 m'"
proof -
  let ?m1 = "session_apply (OpCreate ''developer'' ''client-1'' 30) 0 NewSessionManager"
  let ?m = "session_apply (OpHeartbeat 1001) 40000000000 ?m1"
  let ?m' = "session_apply (OpResume 1001 ''client-1'') 50000000000 ?m"
  have n: "sm_nextID NewSessionManager \<noteq> - 1" "sm_nextID ?m1 \<noteq> - 1" "sm_nextID ?m \<noteq> - 1"
    by (simp_all add: NewSessionManager_def Create_def Heartbeat_def Let_def)
  have "session_step (0, NewSessionManager) (0, ?m1)" by (rule step) (use n in simp_all)
  moreover have "session_step (0, ?m1) (40000000000, ?m)" by (rule step) (use n in simp_all)
  ultimately have r: "session_reachable 40000000000 ?m"
    unfolding session_reachable_def
    by (intro exI [of _ 0]) (rule rtranclp.rtrancl_into_rtrancl [OF r_into_rtranclp])
  have s: "sm_sessions ?m 1001 \<noteq> None" "\<not> session_active 1001 40000000000 ?m"
    by (simp_all add: session_active_iff NewSessionManager_def Create_def Heartbeat_def Let_def)
  have st: "session_step\<^sup>*\<^sup>* (40000000000, ?m) (50000000000, ?m')"
    by (intro r_into_rtranclp step) (use n in simp_all)
  show ?thesis using r s st session_expiry_final [OF r s st] by blast
qed

section \<open>Keeping a session alive\<close>

fun beats :: "u64 \<Rightarrow> instant list \<Rightarrow> SessionManager \<Rightarrow> SessionManager" where
  "beats sid [] m = m"
| "beats sid (t # ts) m = beats sid ts (snd (Heartbeat sid t m))"

text \<open>Each heartbeat comes no later than the deadline the one before has set.\<close>

fun in_time :: "instant \<Rightarrow> duration \<Rightarrow> instant list \<Rightarrow> bool" where
  "in_time deadline lease [] = True"
| "in_time deadline lease (t # ts) = (t \<le> deadline \<and> in_time (t + lease) lease ts)"

lemma Heartbeat_in_time:
  assumes "sm_sessions m sid = Some s" and "t \<le> Session_ExpiresAt s"
  shows "Heartbeat sid t m =
    (let s' = s\<lparr>Session_ExpiresAt := t + lease_ns (Session_LeaseSeconds s), Session_State := ''active''\<rparr>
     in ((s', True, True), m\<lparr>sm_sessions := (sm_sessions m)(sid \<mapsto> s')\<rparr>))"
  using assms by (simp add: Heartbeat_def)

lemma beats_in_time:
  assumes "sm_sessions m sid = Some s" and "Session_State s = ''active''"
    and "in_time (Session_ExpiresAt s) (lease_ns (Session_LeaseSeconds s)) ts"
    and "t \<le> (if ts = [] then Session_ExpiresAt s else last ts + lease_ns (Session_LeaseSeconds s))"
  shows "session_active sid t (beats sid ts m)"
  using assms
proof (induction ts arbitrary: m s)
  case Nil
  then show ?case by (simp add: session_active_iff)
next
  case (Cons t0 ts)
  let ?s = "s\<lparr>Session_ExpiresAt := t0 + lease_ns (Session_LeaseSeconds s), Session_State := ''active''\<rparr>"
  let ?m = "m\<lparr>sm_sessions := (sm_sessions m)(sid \<mapsto> ?s)\<rparr>"
  have "beats sid (t0 # ts) m = beats sid ts ?m"
    using Cons.prems by (simp add: Heartbeat_in_time Let_def)
  moreover have "session_active sid t (beats sid ts ?m)"
    by (rule Cons.IH [of ?m ?s]) (use Cons.prems in \<open>auto split: if_splits\<close>)
  ultimately show ?case by simp
qed

text \<open>
  a session whose heartbeats each arrive within the lease of the one before is active up to
  one lease after the last of them.
\<close>

theorem session_kept_alive:
  assumes "in_time (t0 + lease_ns lease) (lease_ns lease) ts"
    and "Create p c lease t0 m = (s, m')"
    and "t \<le> last (t0 # ts) + lease_ns lease"
  shows "session_active (Session_ID s) t (beats (Session_ID s) ts m')"
proof (rule beats_in_time)
  show "sm_sessions m' (Session_ID s) = Some s" "Session_State s = ''active''"
    using assms(2) by (auto simp: Create_def Let_def)
qed (use assms in \<open>auto simp: Create_def Let_def split: if_splits\<close>)

theorem session_kept_alive_witness:
  "session_active 1001 60000000000
     (beats 1001 [10000000000, 35000000000]
       (snd (Create ''developer'' ''c'' 30 0 NewSessionManager)))"
  using session_kept_alive [of 0 30 "[10000000000, 35000000000]" "''developer''" "''c''"
      NewSessionManager "fst (Create ''developer'' ''c'' 30 0 NewSessionManager)"
      "snd (Create ''developer'' ''c'' 30 0 NewSessionManager)" 60000000000]
  by (simp add: Create_def NewSessionManager_def Let_def)

section \<open>The abstract lease table\<close>

text \<open>
  What the session manager promises: a map from live session identifiers to the client that owns
  the session, its lease and its deadline. Touching a live session in time renews the deadline;
  touching it late removes it; a wrong client changes nothing.
\<close>

type_synonym lease_table = "u64 \<rightharpoonup> string \<times> u32 \<times> instant"

definition spec_touch :: "u64 \<Rightarrow> (string \<Rightarrow> bool) \<Rightarrow> instant \<Rightarrow> lease_table \<Rightarrow> lease_table" where
  "spec_touch sid owner now a =
     (case a sid of
        None \<Rightarrow> a
      | Some (c, l, d) \<Rightarrow>
          if \<not> owner c then a
          else if now > d then a(sid := None)
          else a(sid \<mapsto> (c, l, now + lease_ns l)))"

definition spec_live :: "u64 \<Rightarrow> instant \<Rightarrow> lease_table \<Rightarrow> bool" where
  "spec_live sid now a = (case a sid of None \<Rightarrow> False | Some (c, l, d) \<Rightarrow> now \<le> d)"

definition lease_abs :: "SessionManager \<Rightarrow> lease_table" where
  "lease_abs m sid =
     (case sm_sessions m sid of
        None \<Rightarrow> None
      | Some s \<Rightarrow>
          if Session_State s = ''active''
          then Some (Session_ClientInstanceID s, Session_LeaseSeconds s, Session_ExpiresAt s)
          else None)"

lemma lease_abs_upd:
  "lease_abs (m\<lparr>sm_sessions := (sm_sessions m)(sid \<mapsto> s)\<rparr>) =
     (lease_abs m)(sid := (if Session_State s = ''active''
        then Some (Session_ClientInstanceID s, Session_LeaseSeconds s, Session_ExpiresAt s) else None))"
  by (auto simp: lease_abs_def fun_eq_iff)

lemma lease_abs_inactive:
  "sm_sessions m sid = Some s \<Longrightarrow> Session_State s \<noteq> ''active'' \<Longrightarrow> lease_abs m sid = None"
  by (simp add: lease_abs_def)

lemma reachable_late:
  "session_reachable t m \<Longrightarrow> t \<le> now \<Longrightarrow> sm_sessions m sid = Some s \<Longrightarrow>
   Session_State s \<noteq> ''active'' \<Longrightarrow> Session_ExpiresAt s < now"
  using reachable_lease_inv [of t m] by (force simp: lease_inv_def)

lemma Create_abs:
  "lease_abs (snd (Create p c l now m)) = (lease_abs m)(sm_nextID m + 1 \<mapsto> (c, l, now + lease_ns l))"
  by (auto simp: Create_def Let_def lease_abs_def fun_eq_iff)

lemma Heartbeat_abs:
  assumes "session_reachable t m" and "t \<le> now"
  shows "lease_abs (snd (Heartbeat sid now m)) = spec_touch sid (\<lambda>_. True) now (lease_abs m)"
    and "snd (snd (fst (Heartbeat sid now m))) = spec_live sid now (lease_abs m)"
  using reachable_late [OF assms, of sid]
  by (cases "sm_sessions m sid";
      force simp: Heartbeat_def spec_touch_def spec_live_def Let_def lease_abs_def fun_eq_iff)+

lemma Resume_abs:
  assumes "session_reachable t m" and "t \<le> now"
  shows "lease_abs (snd (Resume sid c now m)) = spec_touch sid (\<lambda>c'. c' = c) now (lease_abs m)"
    and "fst (snd (snd (fst (Resume sid c now m)))) \<longleftrightarrow>
      spec_live sid now (lease_abs m) \<and> fst (the (lease_abs m sid)) = c"
  using reachable_late [OF assms, of sid]
  by (cases "sm_sessions m sid";
      force simp: Resume_def spec_touch_def spec_live_def Let_def lease_abs_def fun_eq_iff)+

lemma ValidateActive_abs:
  "snd (snd (ValidateActive sid now m)) = spec_live sid now (lease_abs m)"
  by (auto simp: ValidateActive_def spec_live_def lease_abs_def split: option.splits)

text \<open>
  C4: the session manager implements the lease table: in every reachable state creating, heartbeat
  and resuming act on the abstract table as the specification says, and the active answers of
  validation, heartbeat and resumption are those of the table.
\<close>

theorem session_manager_refines:
  assumes "session_reachable t m" and "t \<le> now"
  shows "lease_abs (snd (Create p c l now m)) =
           (lease_abs m)(sm_nextID m + 1 \<mapsto> (c, l, now + lease_ns l)) \<and>
    lease_abs (snd (Heartbeat sid now m)) = spec_touch sid (\<lambda>_. True) now (lease_abs m) \<and>
    lease_abs (snd (Resume sid c now m)) = spec_touch sid (\<lambda>c'. c' = c) now (lease_abs m) \<and>
    snd (snd (ValidateActive sid now m)) = spec_live sid now (lease_abs m) \<and>
    snd (snd (fst (Heartbeat sid now m))) = spec_live sid now (lease_abs m) \<and>
    (fst (snd (snd (fst (Resume sid c now m)))) \<longleftrightarrow>
       spec_live sid now (lease_abs m) \<and> fst (the (lease_abs m sid)) = c)"
  by (intro conjI Create_abs Heartbeat_abs [OF assms] Resume_abs [OF assms] ValidateActive_abs)

theorem session_manager_refines_witness:
  "lease_abs (snd (Heartbeat 1001 5 (snd (Create ''developer'' ''c'' 30 0 NewSessionManager)))) 1001 =
     Some (''c'', 30, 5 + lease_ns 30)"
proof -
  let ?m = "snd (Create ''developer'' ''c'' 30 0 NewSessionManager)"
  have "session_reachable 0 ?m"
    using session_step.step [of 0 0 NewSessionManager "OpCreate ''developer'' ''c'' 30"]
    by (auto simp: session_reachable_def NewSessionManager_def)
  from session_manager_refines [OF this, of 5 _ _ _ 1001]
  have "lease_abs (snd (Heartbeat 1001 5 ?m)) = spec_touch 1001 (\<lambda>_. True) 5 (lease_abs ?m)"
    by simp
  then show ?thesis
    by (simp add: spec_touch_def lease_abs_def Create_def NewSessionManager_def Let_def)
qed

end
