(* ===== verification/Observers.thy ===== *)
theory Observers
  imports Journal Sessions "HOL-Library.Multiset"
begin

text \<open>
  The counters the server keeps about itself: \<^verbatim>\<open>lock_observer.go\<close>, \<^verbatim>\<open>control_observer.go\<close>,
  \<^verbatim>\<open>fault_log_observer.go\<close> and \<^verbatim>\<open>runtime_snapshot.go\<close>. Durations are nanoseconds; the counters are
  64-bit words that wrap. The maximum is kept by a compare-and-swap loop, which is also modelled as
  a transition system of threads.
\<close>

section \<open>Lock waits and durations\<close>

record lockWaitCounters =
  lw_acquires :: u64
  lw_waitOver50us :: u64
  lw_waitOver1ms :: u64
  lw_totalWaitNS :: u64
  lw_maxWaitNS :: u64

record LockWaitSnapshot =
  LockWaitSnapshot_Acquires :: u64
  LockWaitSnapshot_WaitOver50us :: u64
  LockWaitSnapshot_WaitOver1ms :: u64
  LockWaitSnapshot_TotalWait :: duration
  LockWaitSnapshot_MaxWait :: duration

text \<open>The compare-and-swap loop, when no other thread interferes.\<close>

definition cas_max :: "u64 \<Rightarrow> u64 \<Rightarrow> u64" where
  "cas_max ns old = (if ns \<le> old then old else ns)"

definition lockWaitCounters_observe :: "duration \<Rightarrow> lockWaitCounters \<Rightarrow> lockWaitCounters" where
  "lockWaitCounters_observe wait c =
     (let wait = (if wait < 0 then 0 else wait);
          c = c\<lparr>lw_acquires := lw_acquires c + 1\<rparr>;
          ns = word_of_int wait;
          c = c\<lparr>lw_totalWaitNS := lw_totalWaitNS c + ns\<rparr>;
          c = (if 50000 \<le> wait then c\<lparr>lw_waitOver50us := lw_waitOver50us c + 1\<rparr> else c);
          c = (if 1000000 \<le> wait then c\<lparr>lw_waitOver1ms := lw_waitOver1ms c + 1\<rparr> else c)
      in c\<lparr>lw_maxWaitNS := cas_max ns (lw_maxWaitNS c)\<rparr>)"

definition lockWaitCounters_snapshot :: "lockWaitCounters \<Rightarrow> LockWaitSnapshot" where
  "lockWaitCounters_snapshot c =
     \<lparr>LockWaitSnapshot_Acquires = lw_acquires c, LockWaitSnapshot_WaitOver50us = lw_waitOver50us c,
      LockWaitSnapshot_WaitOver1ms = lw_waitOver1ms c,
      LockWaitSnapshot_TotalWait = sint (lw_totalWaitNS c),
      LockWaitSnapshot_MaxWait = sint (lw_maxWaitNS c)\<rparr>"

record durationCounters =
  dur_count :: u64
  dur_over50us :: u64
  dur_over1ms :: u64
  dur_over10ms :: u64
  dur_totalNS :: u64
  dur_maxNS :: u64

record DurationSnapshot =
  DurationSnapshot_Count :: u64
  DurationSnapshot_Over50us :: u64
  DurationSnapshot_Over1ms :: u64
  DurationSnapshot_Over10ms :: u64
  DurationSnapshot_Total :: duration
  DurationSnapshot_Max :: duration

definition durationCounters_observe :: "duration \<Rightarrow> durationCounters \<Rightarrow> durationCounters" where
  "durationCounters_observe d c =
     (let d = (if d < 0 then 0 else d);
          c = c\<lparr>dur_count := dur_count c + 1\<rparr>;
          ns = word_of_int d;
          c = c\<lparr>dur_totalNS := dur_totalNS c + ns\<rparr>;
          c = (if 50000 \<le> d then c\<lparr>dur_over50us := dur_over50us c + 1\<rparr> else c);
          c = (if 1000000 \<le> d then c\<lparr>dur_over1ms := dur_over1ms c + 1\<rparr> else c);
          c = (if 10000000 \<le> d then c\<lparr>dur_over10ms := dur_over10ms c + 1\<rparr> else c)
      in c\<lparr>dur_maxNS := cas_max ns (dur_maxNS c)\<rparr>)"

definition durationCounters_snapshot :: "durationCounters \<Rightarrow> DurationSnapshot" where
  "durationCounters_snapshot c =
     \<lparr>DurationSnapshot_Count = dur_count c, DurationSnapshot_Over50us = dur_over50us c,
      DurationSnapshot_Over1ms = dur_over1ms c, DurationSnapshot_Over10ms = dur_over10ms c,
      DurationSnapshot_Total = sint (dur_totalNS c), DurationSnapshot_Max = sint (dur_maxNS c)\<rparr>"

record RWLockWaitSnapshot =
  RWLockWaitSnapshot_Read :: LockWaitSnapshot
  RWLockWaitSnapshot_Write :: LockWaitSnapshot
  RWLockWaitSnapshot_WriteHold :: DurationSnapshot

text \<open>
  The counters of an observed mutex. Waiting is the runtime's business: each operation is given the
  instants at which it was called and at which it returned.
\<close>

record observedRWMutex =
  mx_read :: lockWaitCounters
  mx_write :: lockWaitCounters
  mx_writeHold :: durationCounters
  mx_writeHeldAt :: int

definition observedRWMutex_Lock :: "instant \<Rightarrow> instant \<Rightarrow> observedRWMutex \<Rightarrow> observedRWMutex" where
  "observedRWMutex_Lock start now m =
     m\<lparr>mx_write := lockWaitCounters_observe (now - start) (mx_write m), mx_writeHeldAt := now\<rparr>"

definition observedRWMutex_Unlock :: "instant \<Rightarrow> observedRWMutex \<Rightarrow> observedRWMutex" where
  "observedRWMutex_Unlock now m =
     (let heldAt = mx_writeHeldAt m; m = m\<lparr>mx_writeHeldAt := 0\<rparr> in
      if 0 < heldAt
      then m\<lparr>mx_writeHold := durationCounters_observe (now - heldAt) (mx_writeHold m)\<rparr>
      else m)"

definition observedRWMutex_RLock :: "instant \<Rightarrow> instant \<Rightarrow> observedRWMutex \<Rightarrow> observedRWMutex" where
  "observedRWMutex_RLock start now m =
     m\<lparr>mx_read := lockWaitCounters_observe (now - start) (mx_read m)\<rparr>"

definition observedRWMutex_Snapshot :: "observedRWMutex \<Rightarrow> RWLockWaitSnapshot" where
  "observedRWMutex_Snapshot m =
     \<lparr>RWLockWaitSnapshot_Read = lockWaitCounters_snapshot (mx_read m),
      RWLockWaitSnapshot_Write = lockWaitCounters_snapshot (mx_write m),
      RWLockWaitSnapshot_WriteHold = durationCounters_snapshot (mx_writeHold m)\<rparr>"

section \<open>Control operations\<close>

record opLatencyCounters =
  ol_count :: u64
  ol_errors :: u64
  ol_totalWaitNS :: u64
  ol_maxWaitNS :: u64

record ControlOpLatencySnapshot =
  ControlOpLatencySnapshot_Count :: u64
  ControlOpLatencySnapshot_Errors :: u64
  ControlOpLatencySnapshot_TotalWait :: duration
  ControlOpLatencySnapshot_MaxWait :: duration

definition opLatencyCounters_observe :: "duration \<Rightarrow> bool \<Rightarrow> opLatencyCounters \<Rightarrow> opLatencyCounters" where
  "opLatencyCounters_observe wait failed c =
     (let wait = (if wait < 0 then 0 else wait);
          c = c\<lparr>ol_count := ol_count c + 1\<rparr>;
          c = (if failed then c\<lparr>ol_errors := ol_errors c + 1\<rparr> else c);
          ns = word_of_int wait;
          c = c\<lparr>ol_totalWaitNS := ol_totalWaitNS c + ns\<rparr>
      in c\<lparr>ol_maxWaitNS := cas_max ns (ol_maxWaitNS c)\<rparr>)"

definition opLatencyCounters_snapshot :: "opLatencyCounters \<Rightarrow> ControlOpLatencySnapshot" where
  "opLatencyCounters_snapshot c =
     \<lparr>ControlOpLatencySnapshot_Count = ol_count c, ControlOpLatencySnapshot_Errors = ol_errors c,
      ControlOpLatencySnapshot_TotalWait = sint (ol_totalWaitNS c),
      ControlOpLatencySnapshot_MaxWait = sint (ol_maxWaitNS c)\<rparr>"

record controlObserver =
  co_hello :: opLatencyCounters
  co_auth :: opLatencyCounters
  co_createSession :: opLatencyCounters
  co_resumeSession :: opLatencyCounters
  co_heartbeat :: opLatencyCounters

record ControlRuntimeSnapshot =
  ControlRuntimeSnapshot_Hello :: ControlOpLatencySnapshot
  ControlRuntimeSnapshot_Auth :: ControlOpLatencySnapshot
  ControlRuntimeSnapshot_CreateSession :: ControlOpLatencySnapshot
  ControlRuntimeSnapshot_ResumeSession :: ControlOpLatencySnapshot
  ControlRuntimeSnapshot_Heartbeat :: ControlOpLatencySnapshot

definition controlObserver_observe :: "string \<Rightarrow> duration \<Rightarrow> bool \<Rightarrow> controlObserver \<Rightarrow> controlObserver" where
  "controlObserver_observe oper wait failed c =
     (let f = opLatencyCounters_observe wait failed in
      if oper = ''hello'' then c\<lparr>co_hello := f (co_hello c)\<rparr>
      else if oper = ''auth'' then c\<lparr>co_auth := f (co_auth c)\<rparr>
      else if oper = ''create_session'' then c\<lparr>co_createSession := f (co_createSession c)\<rparr>
      else if oper = ''resume_session'' then c\<lparr>co_resumeSession := f (co_resumeSession c)\<rparr>
      else if oper = ''heartbeat'' then c\<lparr>co_heartbeat := f (co_heartbeat c)\<rparr>
      else c)"

definition controlObserver_Snapshot :: "controlObserver \<Rightarrow> ControlRuntimeSnapshot" where
  "controlObserver_Snapshot c =
     \<lparr>ControlRuntimeSnapshot_Hello = opLatencyCounters_snapshot (co_hello c),
      ControlRuntimeSnapshot_Auth = opLatencyCounters_snapshot (co_auth c),
      ControlRuntimeSnapshot_CreateSession = opLatencyCounters_snapshot (co_createSession c),
      ControlRuntimeSnapshot_ResumeSession = opLatencyCounters_snapshot (co_resumeSession c),
      ControlRuntimeSnapshot_Heartbeat = opLatencyCounters_snapshot (co_heartbeat c)\<rparr>"

definition zero_ops :: opLatencyCounters where
  "zero_ops = \<lparr>ol_count = 0, ol_errors = 0, ol_totalWaitNS = 0, ol_maxWaitNS = 0\<rparr>"

definition zero_control :: controlObserver where
  "zero_control =
     \<lparr>co_hello = zero_ops, co_auth = zero_ops, co_createSession = zero_ops,
      co_resumeSession = zero_ops, co_heartbeat = zero_ops\<rparr>"

section \<open>Connection faults\<close>

text \<open>Errors of a connection: the three sentinels, or any other error with its text.\<close>

datatype conn_error = ErrClosed | EOF | ErrUnexpectedEOF | OtherError string

fun conn_error_text :: "conn_error \<Rightarrow> string" where
  "conn_error_text ErrClosed = ''use of closed network connection''"
| "conn_error_text EOF = ''EOF''"
| "conn_error_text ErrUnexpectedEOF = ''unexpected EOF''"
| "conn_error_text (OtherError t) = t"

record faultLogObserver =
  fl_suppressedNetClosed :: u64
  fl_suppressedEOF :: u64
  fl_suppressedUnexpectedEOF :: u64
  fl_suppressedBrokenPipe :: u64
  fl_suppressedConnReset :: u64
  fl_logged :: u64

definition observeSuppressed :: "conn_error \<Rightarrow> faultLogObserver \<Rightarrow> bool \<times> faultLogObserver" where
  "observeSuppressed err c =
     (case err of
        ErrClosed \<Rightarrow> (True, c\<lparr>fl_suppressedNetClosed := fl_suppressedNetClosed c + 1\<rparr>)
      | EOF \<Rightarrow> (True, c\<lparr>fl_suppressedEOF := fl_suppressedEOF c + 1\<rparr>)
      | ErrUnexpectedEOF \<Rightarrow> (True, c\<lparr>fl_suppressedUnexpectedEOF := fl_suppressedUnexpectedEOF c + 1\<rparr>)
      | OtherError _ \<Rightarrow>
          let lower = ToLower (conn_error_text err) in
          if Contains lower ''broken pipe''
            then (True, c\<lparr>fl_suppressedBrokenPipe := fl_suppressedBrokenPipe c + 1\<rparr>)
          else if Contains lower ''connection reset by peer'' \<or>
                  Contains lower ''forcibly closed by the remote host''
            then (True, c\<lparr>fl_suppressedConnReset := fl_suppressedConnReset c + 1\<rparr>)
          else (False, c))"

definition observeLogged :: "faultLogObserver \<Rightarrow> faultLogObserver" where
  "observeLogged c = c\<lparr>fl_logged := fl_logged c + 1\<rparr>"

text \<open>\<^verbatim>\<open>logConnectionError\<close>; the result says whether a line was logged.\<close>

definition logConnectionError :: "conn_error option \<Rightarrow> faultLogObserver \<Rightarrow> bool \<times> faultLogObserver" where
  "logConnectionError err c =
     (case err of
        None \<Rightarrow> (False, c)
      | Some e \<Rightarrow> (case observeSuppressed e c of
          (True, c) \<Rightarrow> (False, c) | (False, c) \<Rightarrow> (True, observeLogged c)))"

definition isExpectedConnectionError :: "conn_error option \<Rightarrow> bool" where
  "isExpectedConnectionError err =
     (case err of
        None \<Rightarrow> False
      | Some e \<Rightarrow>
          if e = ErrClosed \<or> e = EOF \<or> e = ErrUnexpectedEOF then True
          else
            let lower = ToLower (conn_error_text e) in
            Contains lower ''broken pipe'' \<or> Contains lower ''connection reset by peer'' \<or>
            Contains lower ''forcibly closed by the remote host'' \<or>
            Contains lower ''software in your host machine'')"

section \<open>Runtime snapshots\<close>

record MetadataRuntimeSnapshot =
  mrs_Nodes :: nat
  mrs_NodePaths :: nat
  mrs_DirCursors :: nat
  mrs_Handles :: nat
  mrs_AttrCache :: nat
  mrs_NegativeCache :: nat
  mrs_DirSnapshots :: nat
  mrs_SmallFileCache :: nat
  mrs_Locks :: RWLockWaitSnapshot

definition backend_RuntimeSnapshot ::
  "RWLockWaitSnapshot \<Rightarrow> metadataBackend \<Rightarrow> MetadataRuntimeSnapshot \<times> metadataBackend" where
  "backend_RuntimeSnapshot locks b =
     (let b = pruneExpiredCachesLocked (b_now b) b
      in (\<lparr>mrs_Nodes = map_len (b_nodesByID b), mrs_NodePaths = map_len (b_nodesByPath b),
           mrs_DirCursors = map_len (b_cursors b), mrs_Handles = map_len (b_handles b),
           mrs_AttrCache = map_len (b_attrCache b), mrs_NegativeCache = map_len (b_negativeCache b),
           mrs_DirSnapshots = map_len (b_dirSnapshots b),
           mrs_SmallFileCache = map_len (b_smallFileCache b), mrs_Locks = locks\<rparr>, b))"

record SessionRuntimeSnapshot =
  srs_Total :: nat
  srs_Active :: nat
  srs_Expired :: nat
  srs_Locks :: RWLockWaitSnapshot

definition session_live :: "instant \<Rightarrow> Session \<Rightarrow> bool" where
  "session_live now s \<longleftrightarrow> Session_State s = ''active'' \<and> \<not> Session_ExpiresAt s < now"

definition sessions_RuntimeSnapshot ::
  "RWLockWaitSnapshot \<Rightarrow> instant \<Rightarrow> SessionManager \<Rightarrow> SessionRuntimeSnapshot" where
  "sessions_RuntimeSnapshot locks now m =
     (let live = {i. \<exists>s. sm_sessions m i = Some s \<and> session_live now s} in
      \<lparr>srs_Total = map_len (sm_sessions m), srs_Active = card live,
       srs_Expired = card (dom (sm_sessions m) - live), srs_Locks = locks\<rparr>)"

record JournalRuntimeSnapshot =
  jrs_Events :: nat
  jrs_Watches :: nat
  jrs_LatestSeq :: u64
  jrs_OldestSeq :: u64
  jrs_MaxWatchBacklog :: nat
  jrs_TotalBacklog :: nat
  jrs_Locks :: RWLockWaitSnapshot

definition watch_backlog :: "WatchEvent list \<Rightarrow> watchSubscription \<Rightarrow> nat" where
  "watch_backlog es watch =
     length (filter (\<lambda>evt. \<not> we_EventSeq evt \<le> ws_AckedSeq watch \<and> watchMatches watch evt) es)"

definition journal_RuntimeSnapshot :: "RWLockWaitSnapshot \<Rightarrow> journalBroker \<Rightarrow> JournalRuntimeSnapshot" where
  "journal_RuntimeSnapshot locks j =
     (let backlog = (\<lambda>i. watch_backlog (j_events j) (the (j_watches j i))); ws = dom (j_watches j) in
      \<lparr>jrs_Events = length (j_events j), jrs_Watches = map_len (j_watches j),
       jrs_LatestSeq = latestSeqFromSlice (j_events j),
       jrs_OldestSeq = (if j_events j = [] then 0 else we_EventSeq (hd (j_events j))),
       jrs_MaxWatchBacklog = (if ws = {} then 0 else Max (backlog ` ws)),
       jrs_TotalBacklog = sum backlog ws, jrs_Locks = locks\<rparr>)"

text \<open>Every session is counted as live or as expired.\<close>

lemma session_snapshot_partition:
  assumes "finite (dom (sm_sessions m))"
  shows "srs_Active (sessions_RuntimeSnapshot l now m) + srs_Expired (sessions_RuntimeSnapshot l now m)
    = srs_Total (sessions_RuntimeSnapshot l now m)"
proof -
  let ?live = "{i. \<exists>s. sm_sessions m i = Some s \<and> session_live now s}"
  have sub: "?live \<subseteq> dom (sm_sessions m)" by auto
  then have "card (dom (sm_sessions m) - ?live) = card (dom (sm_sessions m)) - card ?live"
    using assms finite_subset by (intro card_Diff_subset) auto
  moreover have "card ?live \<le> card (dom (sm_sessions m))" using sub assms by (intro card_mono)
  ultimately show ?thesis by (simp add: sessions_RuntimeSnapshot_def map_len_def Let_def)
qed

text \<open>The backlog of a watch is what polling from its acknowledged number would return in all.\<close>

lemma backlog_is_poll:
  assumes "recorded j H" and "j_watches j i = Some w" and "ws_AckedSeq w \<noteq> - 1"
    and "length H < 2 ^ 32" and "\<not> unat (ws_AckedSeq w) < length H - j_retention j"
  shows "watch_backlog (j_events j) w =
    length (filter (\<lambda>e. ws_AckedSeq w < we_EventSeq e \<and> watchMatches w e) H)"
proof -
  have "filter (\<lambda>e. ws_AckedSeq w < we_EventSeq e \<and> watchMatches w e)
      (drop (length H - j_retention j) H) =
    filter (\<lambda>e. ws_AckedSeq w < we_EventSeq e \<and> watchMatches w e) H"
    using assms by (intro filter_after_drop) (auto simp: recorded_def word_less_nat_alt)
  then show ?thesis using assms(1) by (simp add: watch_backlog_def recorded_def not_le)
qed

section \<open>What the counters count\<close>

definition zero_durations :: durationCounters where
  "zero_durations =
     \<lparr>dur_count = 0, dur_over50us = 0, dur_over1ms = 0, dur_over10ms = 0, dur_totalNS = 0, dur_maxNS = 0\<rparr>"

text \<open>A duration is an \<^verbatim>\<open>int64\<close>.\<close>

definition is_duration :: "duration \<Rightarrow> bool" where
  "is_duration d \<longleftrightarrow> - (2 ^ 63) \<le> d \<and> d < 2 ^ 63"

lemma uint_word_of_duration: "is_duration d \<Longrightarrow> 0 \<le> d \<Longrightarrow> uint (word_of_int d :: u64) = d"
  by (simp add: is_duration_def take_bit_int_eq_self unsigned_of_int)

definition clamp :: "duration \<Rightarrow> duration" where
  "clamp d = (if d < 0 then 0 else d)"

definition max_of :: "duration list \<Rightarrow> duration" where
  "max_of ds = fold max (map clamp ds) 0"

lemma max_of_nonneg: "0 \<le> max_of ds"
proof -
  have "a \<le> fold max xs (a :: int)" for a xs
    by (induction xs arbitrary: a) (auto, meson max.cobounded1 order_trans max.cobounded2)
  then show ?thesis by (simp add: max_of_def)
qed

lemma max_of_snoc: "max_of (ds @ [d]) = max (clamp d) (max_of ds)"
  by (simp add: max_of_def)

lemma max_of_bound: "(\<forall>d \<in> set ds. is_duration d) \<Longrightarrow> is_duration (max_of ds)"
  by (induction ds rule: rev_induct) (auto simp: max_of_snoc is_duration_def clamp_def max_def max_of_def)

lemma durationCounters_observe_eq:
  "durationCounters_observe d c =
    \<lparr>dur_count = dur_count c + 1,
     dur_over50us = dur_over50us c + (if 50000 \<le> d then 1 else 0),
     dur_over1ms = dur_over1ms c + (if 1000000 \<le> d then 1 else 0),
     dur_over10ms = dur_over10ms c + (if 10000000 \<le> d then 1 else 0),
     dur_totalNS = dur_totalNS c + word_of_int (clamp d),
     dur_maxNS = cas_max (word_of_int (clamp d)) (dur_maxNS c)\<rparr>"
  by (cases c) (simp add: durationCounters_observe_def Let_def clamp_def)

lemma durations_counted_aux:
  assumes "\<forall>d \<in> set ds. is_duration d"
  shows "fold durationCounters_observe ds zero_durations =
    \<lparr>dur_count = of_nat (length ds),
     dur_over50us = of_nat (length (filter (\<lambda>d. 50000 \<le> d) ds)),
     dur_over1ms = of_nat (length (filter (\<lambda>d. 1000000 \<le> d) ds)),
     dur_over10ms = of_nat (length (filter (\<lambda>d. 10000000 \<le> d) ds)),
     dur_totalNS = word_of_int (sum_list (map clamp ds)),
     dur_maxNS = word_of_int (max_of ds)\<rparr>"
  using assms
proof (induction ds rule: rev_induct)
  case Nil
  then show ?case by (simp add: zero_durations_def max_of_def)
next
  case (snoc d ds)
  have u: "uint (word_of_int (clamp d) :: u64) = clamp d" "uint (word_of_int (max_of ds) :: u64) = max_of ds"
    using snoc.prems max_of_bound [of ds] max_of_nonneg [of ds]
    by (auto intro!: uint_word_of_duration simp: clamp_def is_duration_def)
  have "cas_max (word_of_int (clamp d)) (word_of_int (max_of ds)) = word_of_int (max_of (ds @ [d]))"
    using u by (auto simp: cas_max_def word_le_def max_of_snoc max_def)
  then show ?case
    using snoc by (simp add: durationCounters_observe_eq add.commute)
qed

text \<open>
  After any sequence of observed durations the counters are the statistics of that sequence: the
  number of durations, the numbers of those of at least 50 microseconds, 1 and 10 milliseconds,
  the total (negative durations count as zero, everything modulo 2 ^ 64) and the maximum.
\<close>

theorem durations_counted:
  assumes "\<forall>d \<in> set ds. is_duration d"
  shows "fold durationCounters_observe ds zero_durations =
    \<lparr>dur_count = of_nat (length ds),
     dur_over50us = of_nat (length (filter (\<lambda>d. 50000 \<le> d) ds)),
     dur_over1ms = of_nat (length (filter (\<lambda>d. 1000000 \<le> d) ds)),
     dur_over10ms = of_nat (length (filter (\<lambda>d. 10000000 \<le> d) ds)),
     dur_totalNS = word_of_int (sum_list (map clamp ds)),
     dur_maxNS = word_of_int (max_of ds)\<rparr>"
  using assms by (rule durations_counted_aux)

theorem durations_counted_witness:
  "fold durationCounters_observe [60000, - 5, 20000000] zero_durations =
    \<lparr>dur_count = 3, dur_over50us = 2, dur_over1ms = 1, dur_over10ms = 1,
     dur_totalNS = 20060000, dur_maxNS = 20000000\<rparr>"
  using durations_counted [of "[60000, - 5, 20000000]"]
  by (simp add: is_duration_def clamp_def max_of_def)

section \<open>The maximum under contention\<close>

text \<open>
  Threads observe at the same time. Each runs the loop
  \<^verbatim>\<open>for { old := max.Load(); if ns <= old || max.CompareAndSwap(old, ns) { break } }\<close> on the shared
  maximum; loads and compare-and-swaps of different threads interleave freely. A thread is before
  its load, between load and compare-and-swap with the value it loaded, or done.
\<close>

datatype cas_thread = Loading u64 | Swapping u64 u64 | Done u64

fun thread_ns :: "cas_thread \<Rightarrow> u64" where
  "thread_ns (Loading ns) = ns"
| "thread_ns (Swapping ns old) = ns"
| "thread_ns (Done ns) = ns"

inductive cas_step :: "u64 \<times> cas_thread list \<Rightarrow> u64 \<times> cas_thread list \<Rightarrow> bool" where
  cas_load: "i < length ts \<Longrightarrow> ts ! i = Loading ns \<Longrightarrow> cas_step (m, ts) (m, ts[i := Swapping ns m])"
| cas_skip: "i < length ts \<Longrightarrow> ts ! i = Swapping ns old \<Longrightarrow> ns \<le> old \<Longrightarrow>
    cas_step (m, ts) (m, ts[i := Done ns])"
| cas_swap: "i < length ts \<Longrightarrow> ts ! i = Swapping ns old \<Longrightarrow> \<not> ns \<le> old \<Longrightarrow> m = old \<Longrightarrow>
    cas_step (m, ts) (ns, ts[i := Done ns])"
| cas_retry: "i < length ts \<Longrightarrow> ts ! i = Swapping ns old \<Longrightarrow> \<not> ns \<le> old \<Longrightarrow> m \<noteq> old \<Longrightarrow>
    cas_step (m, ts) (m, ts[i := Loading ns])"

definition cas_inv :: "u64 \<Rightarrow> u64 list \<Rightarrow> u64 \<times> cas_thread list \<Rightarrow> bool" where
  "cas_inv m0 nss = (\<lambda>(m, ts).
     map thread_ns ts = nss \<and> m0 \<le> m \<and> m \<in> insert m0 (set nss) \<and>
     (\<forall>t \<in> set ts. (\<forall>ns old. t = Swapping ns old \<longrightarrow> old \<le> m) \<and> (\<forall>ns. t = Done ns \<longrightarrow> ns \<le> m)))"

lemma map_update_same: "i < length ts \<Longrightarrow> f x = f (ts ! i) \<Longrightarrow> map f (ts[i := x]) = map f ts"
  by (metis list_update_id map_update)

lemma cas_inv_step: "cas_step s s' \<Longrightarrow> cas_inv m0 nss s \<Longrightarrow> cas_inv m0 nss s'"
proof (induction rule: cas_step.induct)
  case (cas_swap i ts ns old m)
  have lt: "old < ns" using cas_swap.hyps(3) by simp
  have nss: "map thread_ns ts = nss" and le: "m0 \<le> old"
    and old: "\<And>t n k. t \<in> set ts \<Longrightarrow> t = Swapping n k \<Longrightarrow> k \<le> old" "\<And>n. Done n \<in> set ts \<Longrightarrow> n \<le> old"
    using cas_swap.prems cas_swap.hyps(4) by (auto simp: cas_inv_def)
  have "thread_ns (ts ! i) \<in> set (map thread_ns ts)" using cas_swap.hyps(1) by simp
  then have ns: "ns \<in> set nss" by (simp only: nss cas_swap.hyps(2) thread_ns.simps)
  have "t = Done ns \<or> t \<in> set ts" if "t \<in> set (ts[i := Done ns])" for t
    using that set_update_subset_insert [of ts i "Done ns"] by auto
  then have "\<forall>t \<in> set (ts[i := Done ns]).
      (\<forall>n k. t = Swapping n k \<longrightarrow> k \<le> ns) \<and> (\<forall>n. t = Done n \<longrightarrow> n \<le> ns)"
    using old lt by (metis cas_thread.distinct(5) cas_thread.inject(3) less_imp_le order_refl order_trans)
  moreover have "map thread_ns (ts[i := Done ns]) = nss"
    using nss map_update_same [OF cas_swap.hyps(1), of thread_ns "Done ns"] cas_swap.hyps(2) by simp
  ultimately show ?case
    using ns le lt by (simp add: cas_inv_def)
next
  case (cas_skip i ts ns old m)
  have "old \<le> m" using cas_skip.prems nth_mem [OF cas_skip.hyps(1)] cas_skip.hyps(2)
    by (auto simp: cas_inv_def)
  then have "ns \<le> m" using cas_skip.hyps(3) by simp
  then show ?case
    using cas_skip by (auto simp: cas_inv_def map_update_same dest!: set_update_subset_insert [THEN subsetD])
qed (auto simp: cas_inv_def map_update_same dest!: set_update_subset_insert [THEN subsetD])

lemma cas_inv_steps: "cas_step\<^sup>*\<^sup>* s s' \<Longrightarrow> cas_inv m0 nss s \<Longrightarrow> cas_inv m0 nss s'"
  by (induction rule: rtranclp_induct) (auto intro: cas_inv_step)

lemma contended_max_aux:
  assumes "cas_step\<^sup>*\<^sup>* (m0, map Loading nss) (m, ts)" and "\<forall>t \<in> set ts. \<exists>ns. t = Done ns"
  shows "m = Max (insert m0 (set nss))"
proof -
  have "cas_inv m0 nss (m0, map Loading nss)"
    by (auto simp: cas_inv_def comp_def)
  with assms(1) have inv: "cas_inv m0 nss (m, ts)" by (rule cas_inv_steps)
  have "ns \<le> m" if "ns \<in> set nss" for ns
  proof -
    have "ns \<in> thread_ns ` set ts" using that inv by (auto simp: cas_inv_def)
    then obtain t where "t \<in> set ts" "thread_ns t = ns" by blast
    then show ?thesis using inv assms(2) by (fastforce simp: cas_inv_def)
  qed
  then show ?thesis
    using inv by (intro Max_eqI [symmetric]) (auto simp: cas_inv_def)
qed

text \<open>
  The lock-free maximum is right under contention: whatever way the loads and compare-and-swaps of
  any number of observing threads interleave, once all of them are done the counter is the largest
  of its old value and all observed values.
\<close>

theorem contended_max:
  assumes "cas_step\<^sup>*\<^sup>* (m0, map Loading nss) (m, ts)" and "\<forall>t \<in> set ts. \<exists>ns. t = Done ns"
  shows "m = Max (insert m0 (set nss))"
  using assms by (rule contended_max_aux)

theorem contended_max_witness:
  "(9 :: u64) = Max (insert 4 (set [7, 9]))"
proof (rule contended_max)
  let ?s = "\<lambda>m ts. (m :: u64, ts :: cas_thread list)"
  have "cas_step (?s 4 [Loading 7, Loading 9]) (?s 4 [Swapping 7 4, Loading 9])"
    using cas_load [of 0 "[Loading 7, Loading 9]" 7 4] by simp
  moreover have "cas_step (?s 4 [Swapping 7 4, Loading 9]) (?s 4 [Swapping 7 4, Swapping 9 4])"
    using cas_load [of 1 "[Swapping 7 4, Loading 9]" 9 4] by simp
  moreover have "cas_step (?s 4 [Swapping 7 4, Swapping 9 4]) (?s 9 [Swapping 7 4, Done 9])"
    using cas_swap [of 1 "[Swapping 7 4, Swapping 9 4]" 9 4 4] by simp
  moreover have "cas_step (?s 9 [Swapping 7 4, Done 9]) (?s 9 [Loading 7, Done 9])"
    using cas_retry [of 0 "[Swapping 7 4, Done 9]" 7 4 9] by simp
  moreover have "cas_step (?s 9 [Loading 7, Done 9]) (?s 9 [Swapping 7 9, Done 9])"
    using cas_load [of 0 "[Loading 7, Done 9]" 7 9] by simp
  moreover have "cas_step (?s 9 [Swapping 7 9, Done 9]) (?s 9 [Done 7, Done 9])"
    using cas_skip [of 0 "[Swapping 7 9, Done 9]" 7 9 9] by simp
  ultimately show "cas_step\<^sup>*\<^sup>* (4, map Loading [7, 9]) (9, [Done 7, Done 9])"
    by (auto intro: converse_rtranclp_into_rtranclp)
qed simp

end
