(* ===== verification/Server.thy ===== *)
theory Server
  imports Codec Observers
begin

text \<open>
  The request dispatcher of \<^verbatim>\<open>internal/server/server.go\<close>. A request is a decoded frame; its answer is
  the header and the body of the one frame the handler writes back. The JSON decoder is a
  parameter, one function per request type, and so is the JSON encoder of the replies. The server
  clock is read once per request (\<open>now\<close>); the time a control request takes is \<open>elapsed\<close>.
\<close>

section \<open>Requests and replies\<close>

record decoders =
  dec_HelloReq :: "bytes \<Rightarrow> HelloReq option"
  dec_AuthReq :: "bytes \<Rightarrow> AuthReq option"
  dec_CreateSessionReq :: "bytes \<Rightarrow> CreateSessionReq option"
  dec_ResumeSessionReq :: "bytes \<Rightarrow> ResumeSessionReq option"
  dec_HeartbeatReq :: "bytes \<Rightarrow> HeartbeatReq option"
  dec_LookupReq :: "bytes \<Rightarrow> LookupReq option"
  dec_GetAttrReq :: "bytes \<Rightarrow> GetAttrReq option"
  dec_OpenDirReq :: "bytes \<Rightarrow> OpenDirReq option"
  dec_ReadDirReq :: "bytes \<Rightarrow> ReadDirReq option"
  dec_CloseDirReq :: "bytes \<Rightarrow> CloseDirReq option"
  dec_RenameReq :: "bytes \<Rightarrow> RenameReq option"
  dec_OpenReq :: "bytes \<Rightarrow> OpenReq option"
  dec_CreateReq :: "bytes \<Rightarrow> CreateReq option"
  dec_ReadReq :: "bytes \<Rightarrow> ReadReq option"
  dec_WriteReq :: "bytes \<Rightarrow> WriteReq option"
  dec_FlushReq :: "bytes \<Rightarrow> FlushReq option"
  dec_TruncateReq :: "bytes \<Rightarrow> TruncateReq option"
  dec_SetDeleteOnCloseReq :: "bytes \<Rightarrow> SetDeleteOnCloseReq option"
  dec_CloseReq :: "bytes \<Rightarrow> CloseReq option"
  dec_SubscribeReq :: "bytes \<Rightarrow> SubscribeReq option"
  dec_PollEventsReq :: "bytes \<Rightarrow> PollEventsReq option"
  dec_AckEventsReq :: "bytes \<Rightarrow> AckEventsReq option"
  dec_ResyncReq :: "bytes \<Rightarrow> ResyncReq option"
  dec_RecoverHandlesReq :: "bytes \<Rightarrow> RecoverHandlesReq option"
  dec_RevalidateReq :: "bytes \<Rightarrow> RevalidateReq option"
  dec_ResubscribeReq :: "bytes \<Rightarrow> ResubscribeReq option"

datatype Response =
    ReplyHelloResp HelloResp
  | ReplyAuthResp AuthResp
  | ReplyCreateSessionResp CreateSessionResp
  | ReplyResumeSessionResp ResumeSessionResp
  | ReplyHeartbeatResp HeartbeatResp
  | ReplyLookupResp LookupResp
  | ReplyGetAttrResp GetAttrResp
  | ReplyOpenDirResp OpenDirResp
  | ReplyReadDirResp ReadDirResp
  | ReplyCloseDirResp CloseDirResp
  | ReplyRenameResp RenameResp
  | ReplyOpenResp OpenResp
  | ReplyCreateResp CreateResp
  | ReplyReadResp ReadResp
  | ReplyWriteResp WriteResp
  | ReplyFlushResp FlushResp
  | ReplyTruncateResp TruncateResp
  | ReplySetDeleteOnCloseResp SetDeleteOnCloseResp
  | ReplyCloseResp CloseResp
  | ReplySubscribeResp SubscribeResp
  | ReplyPollEventsResp PollEventsResp
  | ReplyAckEventsResp AckEventsResp
  | ReplyResyncResp ResyncResp
  | ReplyRecoverHandlesResp RecoverHandlesResp
  | ReplyRevalidateResp RevalidateResp
  | ReplyResubscribeResp ResubscribeResp
  | ReplyErrorResp ErrorResp

type_synonym reply = "Header \<times> Response"

definition reply_header :: "Header \<Rightarrow> Opcode \<Rightarrow> u32 \<Rightarrow> u64 \<Rightarrow> Header" where
  "reply_header reqHeader opcode flags sessionID =
     \<lparr>h_Magic = replicate 4 0, h_Version = 0, h_HeaderLength = 0, h_Channel = h_Channel reqHeader,
      h_Opcode = opcode, h_Flags = flags, h_RequestID = h_RequestID reqHeader,
      h_SessionID = sessionID, h_PayloadLength = 0\<rparr>"

text \<open>
  The first half of \<^verbatim>\<open>writeResponse\<close> and \<^verbatim>\<open>writeError\<close>: the header and the body of the reply. Every path of
  every handler ends in one of the two; encoding and writing the frame, with the ways both can fail,
  follow in the connection loop.
\<close>

definition writeResponse :: "Header \<Rightarrow> Opcode \<Rightarrow> u64 \<Rightarrow> Response \<Rightarrow> reply" where
  "writeResponse reqHeader opcode sessionID payload =
     (reply_header reqHeader opcode FlagResponse sessionID, payload)"

definition writeError :: "Header \<Rightarrow> ErrorCode \<Rightarrow> string \<Rightarrow> bool \<Rightarrow> (string \<times> string) list \<Rightarrow> reply" where
  "writeError reqHeader code message retryable details =
     (reply_header reqHeader OpcodeErrorResp (FlagResponse OR FlagError) (h_SessionID reqHeader),
      ReplyErrorResp \<lparr>ErrorResp_Code = code, ErrorResp_Message = message,
        ErrorResp_Retryable = retryable, ErrorResp_Details = details\<rparr>)"

definition writeBackendError :: "Header \<Rightarrow> go_error \<Rightarrow> reply" where
  "writeBackendError reqHeader err =
     (if IsNotExist err then writeError reqHeader ErrNotFound ''not found'' False []
      else if err = errAlreadyExists \<or> IsExist err
        then writeError reqHeader ErrAlreadyExists ''already exists'' False []
      else if err = errInvalidHandle then writeError reqHeader ErrInvalidHandle ''invalid handle'' False []
      else if err = errAccessDenied then writeError reqHeader ErrAccessDenied ''access denied'' False []
      else if isNotDir (Some err) then writeError reqHeader ErrNotDir ''not a directory'' False []
      else if isDir (Some err) then writeError reqHeader ErrIsDir ''is a directory'' False []
      else writeError reqHeader ErrInternal (error_text err) False [])"

definition writeWatchError :: "Header \<Rightarrow> go_error \<Rightarrow> reply" where
  "writeWatchError reqHeader err =
     (if error_text err = ''watch not found''
      then writeError reqHeader ErrWatchNotFound ''watch not found'' False []
      else writeBackendError reqHeader err)"

definition stringsJoin :: "string \<Rightarrow> string \<Rightarrow> string" where
  "stringsJoin parentRel name = (if parentRel = [] then name else path_Join parentRel name)"

section \<open>State\<close>

record AuditRecord =
  AuditRecord_Timestamp :: string
  AuditRecord_Category :: string
  AuditRecord_Action :: string
  AuditRecord_Outcome :: string
  AuditRecord_RequestID :: u64
  AuditRecord_SessionID :: u64
  AuditRecord_NodeID :: u64
  AuditRecord_Path :: string
  AuditRecord_Details :: "(string \<times> string) list"

text \<open>The audit log: the records written so far; \<open>None\<close> is the nil logger.\<close>

record Server =
  srv_Addr :: string
  srv_RootPath :: string
  srv_AuthToken :: string
  srv_SessionManager :: SessionManager
  srv_Backend :: metadataBackend
  srv_Journal :: journalBroker
  srv_JournalRetention :: int
  srv_StartedAt :: instant
  srv_Audit :: "AuditRecord list option"
  srv_Control :: controlObserver
  srv_Faults :: faultLogObserver

record connectionState =
  cs_helloDone :: bool
  cs_authenticated :: bool
  cs_principalID :: string
  cs_serverVersion :: string
  cs_serverName :: string

definition new_connection :: connectionState where
  "new_connection =
     \<lparr>cs_helloDone = False, cs_authenticated = False, cs_principalID = [],
      cs_serverVersion = ''0.5.0'', cs_serverName = ''devmount-server''\<rparr>"

section \<open>Control channel\<close>

text \<open>Each control handler returns whether it failed, its answer, and the state it changed.\<close>

definition control_error :: "Header \<Rightarrow> ErrorCode \<Rightarrow> string \<Rightarrow> (string \<times> string) list \<Rightarrow> bool \<times> reply" where
  "control_error header code message details = (True, writeError header code message False details)"

definition handle_hello ::
  "decoders \<Rightarrow> instant \<Rightarrow> Header \<Rightarrow> bytes \<Rightarrow> connectionState \<Rightarrow> (bool \<times> reply) \<times> connectionState" where
  "handle_hello dec now header payload state =
     (case DecodePayload (dec_HelloReq dec) payload of
        None \<Rightarrow> (control_error header ErrInvalidRequest ''invalid hello payload'' [], state)
      | Some req \<Rightarrow>
          let selected = (if Version \<in> set (HelloReq_SupportedProtocolVersions req) then Version else 0) in
          if selected = 0
          then (control_error header ErrUnsupportedVersion ''no compatible protocol version'' [], state)
          else
            let state = state\<lparr>cs_helloDone := True\<rparr>;
                resp = \<lparr>HelloResp_ServerName = cs_serverName state,
                        HelloResp_ServerVersion = cs_serverVersion state,
                        HelloResp_SelectedProtocolVersion = selected,
                        HelloResp_ServerTime = NowRFC3339 now,
                        HelloResp_Capabilities = DefaultCapabilities\<rparr>
            in ((False, writeResponse header OpcodeHelloResp 0 (ReplyHelloResp resp)), state))"

definition handle_auth ::
  "decoders \<Rightarrow> string \<Rightarrow> Header \<Rightarrow> bytes \<Rightarrow> connectionState \<Rightarrow> (bool \<times> reply) \<times> connectionState" where
  "handle_auth dec token header payload state =
     (if \<not> cs_helloDone state
      then (control_error header ErrInvalidRequest ''hello required before auth'' [], state)
      else (case DecodePayload (dec_AuthReq dec) payload of
         None \<Rightarrow> (control_error header ErrInvalidRequest ''invalid auth payload'' [], state)
       | Some req \<Rightarrow>
           if AuthReq_Scheme req \<noteq> ''dev-token'' \<or> AuthReq_Token req \<noteq> token
           then (control_error header ErrAuthRequired ''authentication required''
                   [(''operation'', ''Auth'')], state)
           else
             let state = state\<lparr>cs_authenticated := True, cs_principalID := ''developer''\<rparr>;
                 resp = \<lparr>AuthResp_Authenticated = True, AuthResp_PrincipalID = cs_principalID state,
                         AuthResp_DisplayName = ''Developer'',
                         AuthResp_GrantedFeature = CapabilitySet_Features DefaultCapabilities\<rparr>
             in ((False, writeResponse header OpcodeAuthResp 0 (ReplyAuthResp resp)), state)))"

definition clamp_lease :: "u32 \<Rightarrow> u32" where
  "clamp_lease lease =
     (let lease = (if lease = 0 then 30 else lease) in if 300 < lease then 300 else lease)"

definition handle_create_session ::
  "decoders \<Rightarrow> instant \<Rightarrow> Header \<Rightarrow> bytes \<Rightarrow> connectionState \<Rightarrow> SessionManager \<Rightarrow>
    (bool \<times> reply) \<times> SessionManager" where
  "handle_create_session dec now header payload state sm =
     (if \<not> cs_authenticated state
      then (control_error header ErrAuthRequired ''authentication required''
              [(''operation'', ''CreateSession'')], sm)
      else (case DecodePayload (dec_CreateSessionReq dec) payload of
         None \<Rightarrow> (control_error header ErrInvalidRequest ''invalid create-session payload'' [], sm)
       | Some req \<Rightarrow>
           let lease = clamp_lease (CreateSessionReq_RequestedLeaseSeconds req);
               (session, sm) = Create (cs_principalID state) (CreateSessionReq_ClientInstanceID req) lease now sm;
               resp = \<lparr>CreateSessionResp_SessionID = Session_ID session,
                       CreateSessionResp_LeaseSeconds = Session_LeaseSeconds session,
                       CreateSessionResp_ExpiresAt = NowRFC3339 (Session_ExpiresAt session),
                       CreateSessionResp_State = Session_State session\<rparr>
           in ((False, writeResponse header OpcodeCreateSessionResp (Session_ID session)
                         (ReplyCreateSessionResp resp)), sm)))"

definition handle_resume_session ::
  "decoders \<Rightarrow> instant \<Rightarrow> Header \<Rightarrow> bytes \<Rightarrow> connectionState \<Rightarrow> SessionManager \<Rightarrow>
    (bool \<times> reply) \<times> connectionState \<times> SessionManager" where
  "handle_resume_session dec now header payload state sm =
     (case DecodePayload (dec_ResumeSessionReq dec) payload of
        None \<Rightarrow> (control_error header ErrInvalidRequest ''invalid resume-session payload'' [], state, sm)
      | Some req \<Rightarrow>
          (case Resume (ResumeSessionReq_SessionID req) (ResumeSessionReq_ClientInstanceID req) now sm of
             ((session, found, active, matched), sm) \<Rightarrow>
               if \<not> found
                 then (control_error header ErrSessionNotFound ''session not found'' [], state, sm)
               else if \<not> matched
                 then (control_error header ErrAccessDenied ''client instance mismatch''
                         [(''operation'', ''ResumeSession'')], state, sm)
               else if \<not> active
                 then (control_error header ErrSessionExpired ''session expired'' [], state, sm)
               else
                 let state = state\<lparr>cs_authenticated := True,
                                   cs_principalID := Session_PrincipalID session\<rparr>;
                     resp = \<lparr>ResumeSessionResp_SessionID = Session_ID session,
                             ResumeSessionResp_LeaseSeconds = Session_LeaseSeconds session,
                             ResumeSessionResp_ExpiresAt = NowRFC3339 (Session_ExpiresAt session),
                             ResumeSessionResp_State = Session_State session\<rparr>
                 in ((False, writeResponse header OpcodeResumeSessionResp (Session_ID session)
                               (ReplyResumeSessionResp resp)), state, sm)))"

definition handle_heartbeat ::
  "decoders \<Rightarrow> instant \<Rightarrow> Header \<Rightarrow> bytes \<Rightarrow> SessionManager \<Rightarrow> (bool \<times> reply) \<times> SessionManager" where
  "handle_heartbeat dec now header payload sm =
     (case DecodePayload (dec_HeartbeatReq dec) payload of
        None \<Rightarrow> (control_error header ErrInvalidRequest ''invalid heartbeat payload'' [], sm)
      | Some req \<Rightarrow>
          (case Heartbeat (HeartbeatReq_SessionID req) now sm of
             ((session, found, active), sm) \<Rightarrow>
               if \<not> found
                 then (control_error header ErrSessionNotFound ''session not found'' [], sm)
               else if \<not> active
                 then (control_error header ErrSessionExpired ''session expired'' [], sm)
               else
                 let resp = \<lparr>HeartbeatResp_SessionID = Session_ID session,
                             HeartbeatResp_ServerTime = NowRFC3339 now,
                             HeartbeatResp_ExpiresAt = NowRFC3339 (Session_ExpiresAt session),
                             HeartbeatResp_State = Session_State session\<rparr>
                 in ((False, writeResponse header OpcodeHeartbeatResp (Session_ID session)
                               (ReplyHeartbeatResp resp)), sm)))"

definition unsupported :: "string \<Rightarrow> Header \<Rightarrow> reply" where
  "unsupported channel header =
     writeError header ErrUnsupportedOp
       (''unsupported '' @ channel @ '' opcode '' @ decimal (unat (h_Opcode header))) False []"

text \<open>The deferred observation: which operation it was, and whether it failed.\<close>

definition observed :: "string \<Rightarrow> duration \<Rightarrow> bool \<times> reply \<Rightarrow> Server \<Rightarrow> reply \<times> Server" where
  "observed oper elapsed r s =
     (snd r, s\<lparr>srv_Control := controlObserver_observe oper elapsed (fst r) (srv_Control s)\<rparr>)"

definition dispatchControl ::
  "decoders \<Rightarrow> instant \<Rightarrow> duration \<Rightarrow> Header \<Rightarrow> bytes \<Rightarrow> connectionState \<Rightarrow> Server \<Rightarrow>
    reply \<times> connectionState \<times> Server" where
  "dispatchControl dec now elapsed header payload state s =
     (let opc = h_Opcode header in
      if opc = OpcodeHelloReq then
        (let (r, state) = handle_hello dec now header payload state;
             (r, s) = observed ''hello'' elapsed r s in (r, state, s))
      else if opc = OpcodeAuthReq then
        (let (r, state) = handle_auth dec (srv_AuthToken s) header payload state;
             (r, s) = observed ''auth'' elapsed r s in (r, state, s))
      else if opc = OpcodeCreateSessionReq then
        (let (r, sm) = handle_create_session dec now header payload state (srv_SessionManager s);
             (r, s) = observed ''create_session'' elapsed r (s\<lparr>srv_SessionManager := sm\<rparr>) in (r, state, s))
      else if opc = OpcodeResumeSessionReq then
        (let (r, state, sm) = handle_resume_session dec now header payload state (srv_SessionManager s);
             (r, s) = observed ''resume_session'' elapsed r (s\<lparr>srv_SessionManager := sm\<rparr>) in (r, state, s))
      else if opc = OpcodeHeartbeatReq then
        (let (r, sm) = handle_heartbeat dec now header payload (srv_SessionManager s);
             (r, s) = observed ''heartbeat'' elapsed r (s\<lparr>srv_SessionManager := sm\<rparr>) in (r, state, s))
      else (unsupported ''control'' header, state, s))"

section \<open>The other channels\<close>

text \<open>
  The shape all handlers share: decode the payload or answer that it is invalid; answer a backend
  error with its code; answer a result with the response that carries it.
\<close>

definition with_payload ::
  "Header \<Rightarrow> string \<Rightarrow> 'r option \<Rightarrow> ('r \<Rightarrow> Server \<Rightarrow> reply \<times> Server) \<Rightarrow> Server \<Rightarrow> reply \<times> Server" where
  "with_payload header what req k s =
     (case req of
        None \<Rightarrow> (writeError header ErrInvalidRequest (''invalid '' @ what @ '' payload'') False [], s)
      | Some r \<Rightarrow> k r s)"

definition respond :: "Header \<Rightarrow> Opcode \<Rightarrow> Response \<Rightarrow> Server \<Rightarrow> reply \<times> Server" where
  "respond header opcode payload s = (writeResponse header opcode (h_SessionID header) payload, s)"

definition on_backend ::
  "Header \<Rightarrow> (metadataBackend \<Rightarrow> 'a outcome) \<Rightarrow> ('a \<Rightarrow> Server \<Rightarrow> reply \<times> Server) \<Rightarrow> Server \<Rightarrow> reply \<times> Server" where
  "on_backend header oper k s =
     (case oper (srv_Backend s) of
        (Inl err, b) \<Rightarrow> (writeBackendError header err, s\<lparr>srv_Backend := b\<rparr>)
      | (Inr x, b) \<Rightarrow> k x (s\<lparr>srv_Backend := b\<rparr>))"

text \<open>An operation of the backend that only reads it.\<close>

definition reading :: "(metadataBackend \<Rightarrow> go_error + 'a) \<Rightarrow> metadataBackend \<Rightarrow> 'a outcome" where
  "reading oper b = (oper b, b)"

definition journal_append :: "instant \<Rightarrow> WatchEvent \<Rightarrow> Server \<Rightarrow> Server" where
  "journal_append now evt s = s\<lparr>srv_Journal := Append now evt (srv_Journal s)\<rparr>"

definition zero_event :: WatchEvent where
  "zero_event =
     \<lparr>we_EventSeq = 0, we_EventTime = [], we_WatchID = 0, we_EventType = [], we_NodeID = 0,
      we_ParentNodeID = 0, we_OldParentNodeID = 0, we_Name = [], we_OldName = [], we_Path = [],
      we_OldPath = []\<rparr>"

definition handle_rename :: "instant \<Rightarrow> Header \<Rightarrow> RenameReq \<Rightarrow> Server \<Rightarrow> reply \<times> Server" where
  "handle_rename now header req =
     on_backend header (reading (nodeByID (RenameReq_SrcParentNodeID req))) (\<lambda>srcParentRec.
     on_backend header (reading (nodeByID (RenameReq_DstParentNodeID req))) (\<lambda>dstParentRec.
       let srcRel = stringsJoin (nr_relPath srcParentRec) (RenameReq_SrcName req);
           dstRel = stringsJoin (nr_relPath dstParentRec) (RenameReq_DstName req) in
       on_backend header
         (RenamePath (RenameReq_SrcParentNodeID req) (RenameReq_SrcName req)
            (RenameReq_DstParentNodeID req) (RenameReq_DstName req) (RenameReq_ReplaceExisting req))
         (\<lambda>entry s.
            let s = journal_append now (zero_event\<lparr>we_EventType := EventRenameFrom,
                  we_NodeID := ni_NodeID entry, we_ParentNodeID := RenameReq_SrcParentNodeID req,
                  we_OldParentNodeID := RenameReq_SrcParentNodeID req, we_Name := RenameReq_SrcName req,
                  we_OldName := RenameReq_SrcName req, we_Path := srcRel, we_OldPath := srcRel\<rparr>) s;
                s = journal_append now (zero_event\<lparr>we_EventType := EventRenameTo,
                  we_NodeID := ni_NodeID entry, we_ParentNodeID := RenameReq_DstParentNodeID req,
                  we_OldParentNodeID := RenameReq_SrcParentNodeID req, we_Name := RenameReq_DstName req,
                  we_OldName := RenameReq_SrcName req, we_Path := dstRel, we_OldPath := srcRel\<rparr>) s
            in respond header OpcodeRenameResp (ReplyRenameResp \<lparr>RenameResp_Entry = entry\<rparr>) s)))"

definition dispatchMetadata ::
  "decoders \<Rightarrow> instant \<Rightarrow> Header \<Rightarrow> bytes \<Rightarrow> Server \<Rightarrow> reply \<times> Server" where
  "dispatchMetadata dec now header payload =
     (let opc = h_Opcode header in
      if opc = OpcodeLookupReq then
        with_payload header ''lookup'' (DecodePayload (dec_LookupReq dec) payload) (\<lambda>req.
          on_backend header (Lookup (LookupReq_ParentNodeID req) (LookupReq_Name req)) (\<lambda>entry.
            respond header OpcodeLookupResp (ReplyLookupResp \<lparr>LookupResp_Entry = entry\<rparr>)))
      else if opc = OpcodeGetAttrReq then
        with_payload header ''getattr'' (DecodePayload (dec_GetAttrReq dec) payload) (\<lambda>req.
          on_backend header (GetAttr (GetAttrReq_NodeID req)) (\<lambda>entry.
            respond header OpcodeGetAttrResp (ReplyGetAttrResp \<lparr>GetAttrResp_Entry = entry\<rparr>)))
      else if opc = OpcodeOpenDirReq then
        with_payload header ''opendir'' (DecodePayload (dec_OpenDirReq dec) payload) (\<lambda>req.
          on_backend header (OpenDir (OpenDirReq_NodeID req)) (\<lambda>cursorID.
            respond header OpcodeOpenDirResp (ReplyOpenDirResp \<lparr>OpenDirResp_DirCursorID = cursorID\<rparr>)))
      else if opc = OpcodeReadDirReq then
        with_payload header ''readdir'' (DecodePayload (dec_ReadDirReq dec) payload) (\<lambda>req.
          on_backend header (reading (ReadDir (ReadDirReq_DirCursorID req) (ReadDirReq_Cookie req)
                                        (ReadDirReq_MaxEntries req))) (\<lambda>resp.
            respond header OpcodeReadDirResp (ReplyReadDirResp resp)))
      else if opc = OpcodeCloseDirReq then
        with_payload header ''closedir'' (DecodePayload (dec_CloseDirReq dec) payload) (\<lambda>req.
          on_backend header (CloseDir (CloseDirReq_DirCursorID req)) (\<lambda>_.
            respond header OpcodeCloseDirResp (ReplyCloseDirResp \<lparr>CloseDirResp_Closed = True\<rparr>)))
      else if opc = OpcodeRenameReq then
        with_payload header ''rename'' (DecodePayload (dec_RenameReq dec) payload)
          (handle_rename now header)
      else (\<lambda>s. (unsupported ''metadata'' header, s)))"

text \<open>An event on the file behind a handle, from the handle's snapshot.\<close>

definition handle_event :: "EventType \<Rightarrow> HandleSnapshot \<Rightarrow> WatchEvent" where
  "handle_event ty snapshot =
     zero_event\<lparr>we_EventType := ty, we_NodeID := hs_NodeID snapshot,
       we_ParentNodeID := hs_ParentNodeID snapshot, we_Name := hs_Name snapshot,
       we_Path := hs_RelPath snapshot\<rparr>"

definition handle_create :: "instant \<Rightarrow> Header \<Rightarrow> CreateReq \<Rightarrow> Server \<Rightarrow> reply \<times> Server" where
  "handle_create now header req =
     on_backend header
       (CreateFile (CreateReq_ParentNodeID req) (CreateReq_Name req) (CreateReq_Overwrite req))
       (\<lambda>(entry, handleID) s.
          let relPath = (case RelPathByNodeID (ni_NodeID entry) (srv_Backend s) of
                           Inr p \<Rightarrow> p | Inl _ \<Rightarrow> []);
              s = journal_append now (zero_event\<lparr>we_EventType := EventCreate,
                    we_NodeID := ni_NodeID entry, we_ParentNodeID := ni_ParentNodeID entry,
                    we_Name := ni_Name entry, we_Path := relPath\<rparr>) s
          in respond header OpcodeCreateResp
               (ReplyCreateResp \<lparr>CreateResp_Entry = entry, CreateResp_HandleID = handleID\<rparr>) s)"

definition handle_close :: "instant \<Rightarrow> Header \<Rightarrow> CloseReq \<Rightarrow> Server \<Rightarrow> reply \<times> Server" where
  "handle_close now header req s =
     (let snapshot = handle_snapshot (CloseReq_HandleID req) (srv_Backend s) in
      on_backend header (CloseHandle (CloseReq_HandleID req)) (\<lambda>_ s.
        let s = (case snapshot of
             Inr sn \<Rightarrow> if hs_DeleteOnClose sn then journal_append now (handle_event EventDelete sn) s else s
           | Inl _ \<Rightarrow> s)
        in respond header OpcodeCloseResp (ReplyCloseResp \<lparr>CloseResp_Closed = True\<rparr>) s) s)"

definition dispatchData ::
  "decoders \<Rightarrow> instant \<Rightarrow> Header \<Rightarrow> bytes \<Rightarrow> Server \<Rightarrow> reply \<times> Server" where
  "dispatchData dec now header payload =
     (let opc = h_Opcode header in
      if opc = OpcodeOpenReq then
        with_payload header ''open'' (DecodePayload (dec_OpenReq dec) payload) (\<lambda>req.
          on_backend header (OpenFile (OpenReq_NodeID req) (OpenReq_Writable req) (OpenReq_Truncate req))
            (\<lambda>(handleID, sz). respond header OpcodeOpenResp
               (ReplyOpenResp \<lparr>OpenResp_HandleID = handleID, OpenResp_Size = sz\<rparr>)))
      else if opc = OpcodeCreateReq then
        with_payload header ''create'' (DecodePayload (dec_CreateReq dec) payload)
          (handle_create now header)
      else if opc = OpcodeReadReq then
        with_payload header ''read'' (DecodePayload (dec_ReadReq dec) payload) (\<lambda>req.
          on_backend header (ReadFile (ReadReq_HandleID req) (ReadReq_Offset req) (ReadReq_Length req))
            (\<lambda>(data, at_end). respond header OpcodeReadResp
               (ReplyReadResp \<lparr>ReadResp_Data = data, ReadResp_EOF = at_end,
                  ReadResp_Offset = ReadReq_Offset req\<rparr>)))
      else if opc = OpcodeWriteReq then
        with_payload header ''write'' (DecodePayload (dec_WriteReq dec) payload) (\<lambda>req.
          on_backend header (WriteFile (WriteReq_HandleID req) (WriteReq_Offset req) (WriteReq_Data req))
            (\<lambda>(written, newSize). respond header OpcodeWriteResp
               (ReplyWriteResp \<lparr>WriteResp_BytesWritten = int written, WriteResp_NewSize = newSize\<rparr>)))
      else if opc = OpcodeFlushReq then
        with_payload header ''flush'' (DecodePayload (dec_FlushReq dec) payload) (\<lambda>req.
          on_backend header (reading (handle_snapshot (FlushReq_HandleID req))) (\<lambda>snapshot.
          on_backend header (FlushHandle (FlushReq_HandleID req)) (\<lambda>_ s.
            respond header OpcodeFlushResp (ReplyFlushResp \<lparr>FlushResp_Flushed = True\<rparr>)
              (journal_append now (handle_event EventContentChanged snapshot) s))))
      else if opc = OpcodeTruncateReq then
        with_payload header ''truncate'' (DecodePayload (dec_TruncateReq dec) payload) (\<lambda>req.
          on_backend header (reading (handle_snapshot (TruncateReq_HandleID req))) (\<lambda>snapshot.
          on_backend header (TruncateHandle (TruncateReq_HandleID req) (TruncateReq_Size req)) (\<lambda>sz s.
            respond header OpcodeTruncateResp (ReplyTruncateResp \<lparr>TruncateResp_Size = sz\<rparr>)
              (journal_append now (handle_event EventContentChanged snapshot) s))))
      else if opc = OpcodeSetDeleteOnCloseReq then
        with_payload header ''delete-on-close'' (DecodePayload (dec_SetDeleteOnCloseReq dec) payload)
          (\<lambda>req. on_backend header
             (SetDeleteOnClose (SetDeleteOnCloseReq_HandleID req) (SetDeleteOnCloseReq_DeleteOnClose req))
             (\<lambda>_. respond header OpcodeSetDeleteOnCloseResp
                (ReplySetDeleteOnCloseResp
                  \<lparr>SetDeleteOnCloseResp_DeleteOnClose = SetDeleteOnCloseReq_DeleteOnClose req\<rparr>)))
      else if opc = OpcodeCloseReq then
        with_payload header ''close'' (DecodePayload (dec_CloseReq dec) payload)
          (handle_close now header)
      else (\<lambda>s. (unsupported ''data'' header, s)))"

definition handle_resync :: "Header \<Rightarrow> ResyncReq \<Rightarrow> Server \<Rightarrow> reply \<times> Server" where
  "handle_resync header req s =
     (case Resync (ResyncReq_WatchID req) (srv_Journal s) (srv_Backend s) of
        None \<Rightarrow> (writeError header ErrInternal ''walk out of fuel'' False [], s)
      | Some (Inl err, b) \<Rightarrow> (writeWatchError header err, s\<lparr>srv_Backend := b\<rparr>)
      | Some (Inr resp, b) \<Rightarrow> respond header OpcodeResyncResp (ReplyResyncResp resp) (s\<lparr>srv_Backend := b\<rparr>))"

definition dispatchEvents :: "decoders \<Rightarrow> Header \<Rightarrow> bytes \<Rightarrow> Server \<Rightarrow> reply \<times> Server" where
  "dispatchEvents dec header payload =
     (let opc = h_Opcode header in
      if opc = OpcodeSubscribeReq then
        with_payload header ''subscribe'' (DecodePayload (dec_SubscribeReq dec) payload) (\<lambda>req s.
          case Subscribe (srv_Backend s) (SubscribeReq_NodeID req) (SubscribeReq_Recursive req) (srv_Journal s) of
            (Inl err, j) \<Rightarrow> (writeBackendError header err, s\<lparr>srv_Journal := j\<rparr>)
          | (Inr (watchID, startSeq), j) \<Rightarrow>
              respond header OpcodeSubscribeResp (ReplySubscribeResp
                \<lparr>SubscribeResp_WatchID = watchID, SubscribeResp_StartSeq = startSeq\<rparr>) (s\<lparr>srv_Journal := j\<rparr>))
      else if opc = OpcodePollEventsReq then
        with_payload header ''poll events'' (DecodePayload (dec_PollEventsReq dec) payload) (\<lambda>req s.
          case Poll (PollEventsReq_WatchID req) (PollEventsReq_AfterSeq req) (PollEventsReq_MaxEvents req)
                 (srv_Journal s) of
            Inl err \<Rightarrow> (writeWatchError header err, s)
          | Inr resp \<Rightarrow>
              respond header OpcodePollEventsResp (ReplyPollEventsResp
                (resp\<lparr>PollEventsResp_Events :=
                   map (\<lambda>e. e\<lparr>we_WatchID := PollEventsReq_WatchID req\<rparr>) (PollEventsResp_Events resp)\<rparr>)) s)
      else if opc = OpcodeAckEventsReq then
        with_payload header ''ack events'' (DecodePayload (dec_AckEventsReq dec) payload) (\<lambda>req s.
          case Ack (AckEventsReq_WatchID req) (AckEventsReq_EventSeq req) (srv_Journal s) of
            (Inl err, j) \<Rightarrow> (writeWatchError header err, s\<lparr>srv_Journal := j\<rparr>)
          | (Inr acked, j) \<Rightarrow>
              respond header OpcodeAckEventsResp (ReplyAckEventsResp
                \<lparr>AckEventsResp_WatchID = AckEventsReq_WatchID req, AckEventsResp_AckedSeq = acked\<rparr>)
                (s\<lparr>srv_Journal := j\<rparr>))
      else if opc = OpcodeResyncReq then
        with_payload header ''resync'' (DecodePayload (dec_ResyncReq dec) payload) (handle_resync header)
      else (\<lambda>s. (unsupported ''events'' header, s)))"

fun recover_handles ::
  "RecoverHandleSpec list \<Rightarrow> metadataBackend \<Rightarrow> RecoverHandleResult list \<times> metadataBackend" where
  "recover_handles [] b = ([], b)"
| "recover_handles (spec # specs) b =
     (let (r, b) = RecoverFileHandle (RecoverHandleSpec_NodeID spec) (RecoverHandleSpec_Writable spec)
                     (RecoverHandleSpec_DeleteOnClose spec) b;
          (handleID, sz, err) = (case r of Inl e \<Rightarrow> (0, 0, error_text e) | Inr (i, sz) \<Rightarrow> (i, sz, []));
          result = \<lparr>RecoverHandleResult_PreviousHandleID = RecoverHandleSpec_PreviousHandleID spec,
                    RecoverHandleResult_HandleID = handleID,
                    RecoverHandleResult_NodeID = RecoverHandleSpec_NodeID spec,
                    RecoverHandleResult_Size = sz,
                    RecoverHandleResult_DeleteOnClose = RecoverHandleSpec_DeleteOnClose spec,
                    RecoverHandleResult_Error = err\<rparr>;
          (rs, b) = recover_handles specs b
      in (result # rs, b))"

fun revalidate_nodes :: "u64 list \<Rightarrow> metadataBackend \<Rightarrow> RevalidateEntry list \<times> metadataBackend" where
  "revalidate_nodes [] b = ([], b)"
| "revalidate_nodes (nodeID # ids) b =
     (let (r, b) = RevalidateNode nodeID b;
          entry = (case r of
             Inl e \<Rightarrow> \<lparr>RevalidateEntry_NodeID = nodeID, RevalidateEntry_Exists = False,
                       RevalidateEntry_Entry = zero_NodeInfo, RevalidateEntry_Error = error_text e\<rparr>
           | Inr entry \<Rightarrow> entry);
          (es, b) = revalidate_nodes ids b
      in (entry # es, b))"

definition dispatchRecovery :: "decoders \<Rightarrow> Header \<Rightarrow> bytes \<Rightarrow> Server \<Rightarrow> reply \<times> Server" where
  "dispatchRecovery dec header payload =
     (let opc = h_Opcode header in
      if opc = OpcodeRecoverHandlesReq then
        with_payload header ''recover handles'' (DecodePayload (dec_RecoverHandlesReq dec) payload) (\<lambda>req s.
          let (results, b) = recover_handles (RecoverHandlesReq_Handles req) (srv_Backend s)
          in respond header OpcodeRecoverHandlesResp
               (ReplyRecoverHandlesResp \<lparr>RecoverHandlesResp_Handles = results\<rparr>) (s\<lparr>srv_Backend := b\<rparr>))
      else if opc = OpcodeRevalidateReq then
        with_payload header ''revalidate'' (DecodePayload (dec_RevalidateReq dec) payload) (\<lambda>req s.
          let (es, b) = revalidate_nodes (RevalidateReq_NodeIDs req) (srv_Backend s)
          in respond header OpcodeRevalidateResp
               (ReplyRevalidateResp \<lparr>RevalidateResp_Entries = es\<rparr>) (s\<lparr>srv_Backend := b\<rparr>))
      else if opc = OpcodeResubscribeReq then
        with_payload header ''resubscribe'' (DecodePayload (dec_ResubscribeReq dec) payload) (\<lambda>req s.
          let (results, j) = Resubscribe (srv_Backend s) (ResubscribeReq_Watches req) (srv_Journal s)
          in respond header OpcodeResubscribeResp
               (ReplyResubscribeResp \<lparr>ResubscribeResp_Watches = results\<rparr>) (s\<lparr>srv_Journal := j\<rparr>))
      else (\<lambda>s. (unsupported ''recovery'' header, s)))"

section \<open>Dispatch\<close>

text \<open>\<^verbatim>\<open>requireActiveSession\<close>: the error to answer with, if any.\<close>

definition requireActiveSession :: "instant \<Rightarrow> Header \<Rightarrow> Server \<Rightarrow> reply option" where
  "requireActiveSession now header s =
     (case ValidateActive (h_SessionID header) now (srv_SessionManager s) of
        (_, found, active) \<Rightarrow>
          if \<not> found then Some (writeError header ErrSessionNotFound ''session not found'' False [])
          else if \<not> active then Some (writeError header ErrSessionExpired ''session expired'' False [])
          else None)"

definition in_session ::
  "instant \<Rightarrow> Header \<Rightarrow> (Server \<Rightarrow> reply \<times> Server) \<Rightarrow> Server \<Rightarrow> reply \<times> Server" where
  "in_session now header k s =
     (case requireActiveSession now header s of Some err \<Rightarrow> (err, s) | None \<Rightarrow> k s)"

definition dispatch ::
  "decoders \<Rightarrow> instant \<Rightarrow> duration \<Rightarrow> Header \<Rightarrow> bytes \<Rightarrow> connectionState \<Rightarrow> Server \<Rightarrow>
    reply \<times> connectionState \<times> Server" where
  "dispatch dec now elapsed header payload state s =
     (let ch = h_Channel header in
      if ch = ChannelControl then dispatchControl dec now elapsed header payload state s
      else
        let (r, s) =
          (if ch = ChannelMetadata then in_session now header (dispatchMetadata dec now header payload) s
           else if ch = ChannelData then in_session now header (dispatchData dec now header payload) s
           else if ch = ChannelEvents then in_session now header (dispatchEvents dec header payload) s
           else if ch = ChannelRecovery then in_session now header (dispatchRecovery dec header payload) s
           else (writeError header ErrUnsupportedOp ''channel not implemented'' False [], s))
        in (r, state, s))"

end
