(* ===== verification/ServerRun.thy ===== *)
theory ServerRun
  imports Server
begin

text \<open>
  Whole connections: starting the server, the loop of \<^verbatim>\<open>handleConn\<close> over the bytes a client sends,
  and the properties that span the dispatcher, the session manager, the backend and the journal.
\<close>

section \<open>Starting and serving\<close>

definition zero_faults :: faultLogObserver where
  "zero_faults =
     \<lparr>fl_suppressedNetClosed = 0, fl_suppressedEOF = 0, fl_suppressedUnexpectedEOF = 0,
      fl_suppressedBrokenPipe = 0, fl_suppressedConnReset = 0, fl_logged = 0\<rparr>"

text \<open>The settings of a server before it serves; the backend and the journal are still missing.\<close>

record ServerSettings =
  ss_Addr :: string
  ss_RootPath :: string
  ss_AuthToken :: string
  ss_JournalRetention :: int
  ss_Audit :: "AuditRecord list option"

definition New :: "string \<Rightarrow> ServerSettings" where
  "New addr =
     \<lparr>ss_Addr = addr, ss_RootPath = ''.'', ss_AuthToken = ''devmount-dev-token'',
      ss_JournalRetention = 256, ss_Audit = None\<rparr>"

record ServerConfig =
  ServerConfig_Addr :: string
  ServerConfig_RootPath :: string
  ServerConfig_AuthToken :: string
  ServerConfig_JournalRetention :: int
  ServerConfig_StatusAddr :: string
  ServerConfig_AuditLogPath :: string

text \<open>Empty settings of the configuration file keep the defaults; opening the audit log may fail.\<close>

definition ApplyToServer ::
  "(string \<Rightarrow> go_error + AuditRecord list) \<Rightarrow> ServerConfig \<Rightarrow> ServerSettings \<Rightarrow>
    go_error option \<times> ServerSettings" where
  "ApplyToServer open_audit c s =
     (let s = (if ServerConfig_Addr c \<noteq> [] then s\<lparr>ss_Addr := ServerConfig_Addr c\<rparr> else s);
          s = (if ServerConfig_RootPath c \<noteq> [] then s\<lparr>ss_RootPath := ServerConfig_RootPath c\<rparr> else s);
          s = (if ServerConfig_AuthToken c \<noteq> [] then s\<lparr>ss_AuthToken := ServerConfig_AuthToken c\<rparr> else s);
          s = (if 0 < ServerConfig_JournalRetention c
               then s\<lparr>ss_JournalRetention := ServerConfig_JournalRetention c\<rparr> else s)
      in if ServerConfig_AuditLogPath c \<noteq> [] then
           (case open_audit (ServerConfig_AuditLogPath c) of
              Inl err \<Rightarrow> (Some err, s)
            | Inr log \<Rightarrow> (None, s\<lparr>ss_Audit := Some log\<rparr>))
         else (None, s))"

definition AuditLogger_Log ::
  "instant \<Rightarrow> AuditRecord \<Rightarrow> AuditRecord list option \<Rightarrow> AuditRecord list option" where
  "AuditLogger_Log now rec a =
     (case a of
        None \<Rightarrow> None
      | Some log \<Rightarrow>
          let rec = (if AuditRecord_Timestamp rec = []
                     then rec\<lparr>AuditRecord_Timestamp := NowRFC3339 now\<rparr> else rec)
          in Some (log @ [rec]))"

definition audit ::
  "instant \<Rightarrow> string \<Rightarrow> string \<Rightarrow> string \<Rightarrow> u64 \<Rightarrow> u64 \<Rightarrow> string \<Rightarrow> (string \<times> string) list \<Rightarrow>
    AuditRecord list option \<Rightarrow> AuditRecord list option" where
  "audit now category action result requestID sessionID path details a =
     AuditLogger_Log now
       \<lparr>AuditRecord_Timestamp = [], AuditRecord_Category = category, AuditRecord_Action = action,
        AuditRecord_Outcome = result, AuditRecord_RequestID = requestID,
        AuditRecord_SessionID = sessionID, AuditRecord_NodeID = 0, AuditRecord_Path = path,
        AuditRecord_Details = details\<rparr> a"

text \<open>\<^verbatim>\<open>Serve\<close> up to its accept loop; \<open>ln_addr\<close> is the address the listener is bound to.\<close>

definition Serve ::
  "string option \<Rightarrow> instant \<Rightarrow> instant \<Rightarrow> string \<Rightarrow> fs \<Rightarrow> ServerSettings \<Rightarrow> go_error + Server" where
  "Serve cwd startedAt now ln_addr f ss =
     (case newMetadataBackend cwd now f (ss_RootPath ss) of
        Inl err \<Rightarrow> Inl err
      | Inr b \<Rightarrow>
          Inr \<lparr>srv_Addr = ss_Addr ss, srv_RootPath = ss_RootPath ss, srv_AuthToken = ss_AuthToken ss,
               srv_SessionManager = NewSessionManager, srv_Backend = b,
               srv_Journal = newJournalBroker (ss_JournalRetention ss),
               srv_JournalRetention = ss_JournalRetention ss, srv_StartedAt = startedAt,
               srv_Audit = audit now ''server'' ''listen'' ''success'' 0 0 []
                 [(''addr'', ln_addr), (''root'', b_rootPath b)] (ss_Audit ss),
               srv_Control = zero_control, srv_Faults = zero_faults\<rparr>)"

section \<open>Status\<close>

record ServerStatus =
  ServerStatus_Name :: string
  ServerStatus_Version :: string
  ServerStatus_Addr :: string
  ServerStatus_RootPath :: string
  ServerStatus_JournalRetention :: int
  ServerStatus_StartedAt :: string
  ServerStatus_UptimeSeconds :: int
  ServerStatus_Capabilities :: "string list"

definition DefaultStatusCapabilities :: "string list" where
  "DefaultStatusCapabilities =
     [''control'', ''metadata'', ''data'', ''events'', ''recovery'', ''workspace-profile'',
      ''small-file-cache'', ''journal-polling'', ''runtime-snapshot'', ''lock-wait-observer'',
      ''control-op-latency'', ''fault-log-observer'']"

text \<open>
  The uptime: seconds since the start, cut off towards zero. (The code goes through a floating
  point number, which is exact for the whole seconds of any real uptime.)
\<close>

definition SnapshotStatus :: "instant \<Rightarrow> Server \<Rightarrow> ServerStatus" where
  "SnapshotStatus now s =
     (let root = (if b_rootPath (srv_Backend s) \<noteq> [] then b_rootPath (srv_Backend s) else srv_RootPath s);
          up = now - srv_StartedAt s
      in \<lparr>ServerStatus_Name = ''devmount-server'', ServerStatus_Version = ''0.8.0'',
          ServerStatus_Addr = srv_Addr s, ServerStatus_RootPath = root,
          ServerStatus_JournalRetention = srv_JournalRetention s,
          ServerStatus_StartedAt = FormatRFC3339 (srv_StartedAt s),
          ServerStatus_UptimeSeconds = (if up < 0 then - ((- up) div second_ns) else up div second_ns),
          ServerStatus_Capabilities = DefaultStatusCapabilities\<rparr>)"

section \<open>The connection loop\<close>

definition frame_conn_error :: "frame_error \<Rightarrow> conn_error" where
  "frame_conn_error e =
     (case e of
        frame_error.EOF \<Rightarrow> conn_error.EOF
      | UnexpectedEOF \<Rightarrow> ErrUnexpectedEOF
      | InvalidFrameLength n \<Rightarrow> OtherError (''invalid frame length '' @ decimal (unat n))
      | InvalidMagic m \<Rightarrow> OtherError (''invalid magic '' @ Quote (map (\<lambda>b. char_of (unat b)) m))
      | UnsupportedVersion v \<Rightarrow> OtherError (''unsupported protocol version '' @ decimal (unat v))
      | InvalidHeaderLength n \<Rightarrow> OtherError (''invalid header length '' @ decimal (unat n))
      | PayloadLengthMismatch n k \<Rightarrow>
          OtherError (''payload length mismatch header='' @ decimal (unat n) @ '' actual='' @ decimal k))"

lemma ReadFull_rest: "ReadFull n r = Inr (x, r') \<Longrightarrow> r' = drop n r"
  by (simp add: ReadFull_def split: if_splits)

lemma DecodeFrame_shorter:
  assumes "DecodeFrame r = Inr (m, rest)"
  shows "length rest < length r"
proof -
  obtain lenBuf r1 where 1: "ReadFull 4 r = Inr (lenBuf, r1)" and le: "4 \<le> length r"
    using assms by (auto simp: DecodeFrame_def ReadFull_def split: sum.splits if_splits)
  have "length rest \<le> length r1"
    using assms 1 by (auto simp: DecodeFrame_def Let_def dest!: ReadFull_rest split: sum.splits if_splits)
  then show ?thesis using ReadFull_rest [OF 1] le by simp
qed

definition set_clock :: "instant \<Rightarrow> Server \<Rightarrow> Server" where
  "set_clock t s = s\<lparr>srv_Backend := (srv_Backend s)\<lparr>b_now := t\<rparr>\<rparr>"

text \<open>
  The second half of \<^verbatim>\<open>writeResponse\<close> and \<^verbatim>\<open>writeError\<close>: the header and the body are encoded into a
  frame and the frame is written to the connection. A body that cannot be encoded is only logged, and
  nothing is written. \<open>fault\<close> is the outcome of \<^verbatim>\<open>conn.Write\<close>: \<open>None\<close> when it takes the whole frame,
  \<open>Some (k, err)\<close> when it stops after \<open>k\<close> bytes with an error, which the fault observer sees. The result
  is what has been written.
\<close>

definition sendReply ::
  "(Response \<Rightarrow> bytes option) \<Rightarrow> (nat \<times> conn_error) option \<Rightarrow> reply \<Rightarrow> Server \<Rightarrow> bytes \<times> Server" where
  "sendReply marshal fault r s =
     (case EncodeFrame marshal (fst r) (snd r) of
        None \<Rightarrow> ([], s)
      | Some frame \<Rightarrow>
          (case fault of
             None \<Rightarrow> (frame, s)
           | Some (k, err) \<Rightarrow>
               (take k frame, s\<lparr>srv_Faults := snd (logConnectionError (Some err) (srv_Faults s))\<rparr>)))"

text \<open>
  The loop reads frame after frame from the bytes the client sends until the first error. The \<open>n\<close>-th
  request is handled at \<open>clock n\<close>, takes \<open>latency n\<close>, and \<open>faults n\<close> is the outcome of writing its
  reply; a reply that is not written does not end the loop. The result is the stream of bytes written.
\<close>

function handleConn ::
  "decoders \<Rightarrow> (Response \<Rightarrow> bytes option) \<Rightarrow> (nat \<Rightarrow> (nat \<times> conn_error) option) \<Rightarrow>
    (nat \<Rightarrow> instant) \<Rightarrow> (nat \<Rightarrow> duration) \<Rightarrow> nat \<Rightarrow> bytes \<Rightarrow> connectionState \<Rightarrow> Server \<Rightarrow>
    bytes \<times> Server" where
  "handleConn dec marshal faults clock latency n input state s =
     (case DecodeFrame input of
        Inl err \<Rightarrow>
          ([], s\<lparr>srv_Faults := snd (logConnectionError (Some (frame_conn_error err)) (srv_Faults s))\<rparr>)
      | Inr ((header, payload), rest) \<Rightarrow>
          let (r, state, s) = dispatch dec (clock n) (latency n) header payload state (set_clock (clock n) s);
              (written, s) = sendReply marshal (faults n) r s;
              (more, s) = handleConn dec marshal faults clock latency (Suc n) rest state s
          in (written @ more, s))"
  by pat_completeness auto

termination
  by (relation "measure (\<lambda>(_, _, _, _, _, _, input, _, _). length input)") (auto dest: DecodeFrame_shorter)

declare handleConn.simps [simp del]

text \<open>The frames of an input, up to the first error.\<close>

function frames_of :: "bytes \<Rightarrow> (Header \<times> bytes) list" where
  "frames_of input =
     (case DecodeFrame input of Inl _ \<Rightarrow> [] | Inr (m, rest) \<Rightarrow> m # frames_of rest)"
  by pat_completeness auto

termination
  by (relation "measure length") (auto dest: DecodeFrame_shorter)

declare frames_of.simps [simp del]

lemma sendReply_state:
  "snd (sendReply marshal fault r s) = s \<or>
   (\<exists>f. snd (sendReply marshal fault r s) = s\<lparr>srv_Faults := f\<rparr>)"
  by (auto simp: sendReply_def split: option.split)

lemma handleConn_induct [case_names stop more]:
  assumes "\<And>n input state s err. DecodeFrame input = Inl err \<Longrightarrow> P n input state s"
    and "\<And>n input state s header payload rest r state' s' written s''.
      DecodeFrame input = Inr ((header, payload), rest) \<Longrightarrow>
      dispatch dec (clock n) (latency n) header payload state (set_clock (clock n) s) = (r, state', s') \<Longrightarrow>
      sendReply marshal (faults n) r s' = (written, s'') \<Longrightarrow>
      P (Suc n) rest state' s'' \<Longrightarrow> P n input state s"
  shows "P n input state s"
proof (induction "length input" arbitrary: n input state s rule: less_induct)
  case (less input n state s)
  show ?case
  proof (cases "DecodeFrame input")
    case (Inr x)
    obtain header payload rest where x: "x = ((header, payload), rest)" by (cases x) auto
    obtain r state' s' where d:
      "dispatch dec (clock n) (latency n) header payload state (set_clock (clock n) s) = (r, state', s')"
      using prod_cases3 by blast
    obtain written s'' where "sendReply marshal (faults n) r s' = (written, s'')" by fastforce
    then show ?thesis
      using assms(2) Inr x d less DecodeFrame_shorter [of input] by blast
  qed (use assms(1) in blast)
qed

lemma handleConn_stop:
  "DecodeFrame input = Inl err \<Longrightarrow> handleConn dec marshal faults clock latency n input state s =
    ([], s\<lparr>srv_Faults := snd (logConnectionError (Some (frame_conn_error err)) (srv_Faults s))\<rparr>)"
  by (simp add: handleConn.simps)

lemma handleConn_more:
  "DecodeFrame input = Inr ((header, payload), rest) \<Longrightarrow>
   dispatch dec (clock n) (latency n) header payload state (set_clock (clock n) s) = (r, state', s') \<Longrightarrow>
   sendReply marshal (faults n) r s' = (written, s'') \<Longrightarrow>
   handleConn dec marshal faults clock latency n input state s =
     (written @ fst (handleConn dec marshal faults clock latency (Suc n) rest state' s''),
      snd (handleConn dec marshal faults clock latency (Suc n) rest state' s''))"
  by (subst handleConn.simps) (simp add: case_prod_unfold Let_def)

section \<open>One answer per request\<close>

definition answers :: "Header \<Rightarrow> reply \<Rightarrow> bool" where
  "answers header r \<longleftrightarrow>
     h_Channel (fst r) = h_Channel header \<and> h_RequestID (fst r) = h_RequestID header \<and>
     (h_Flags (fst r) = (if h_Opcode (fst r) = OpcodeErrorResp then FlagResponse OR FlagError else FlagResponse)) \<and>
     (h_Opcode (fst r) = OpcodeErrorResp \<longleftrightarrow> (\<exists>e. snd r = ReplyErrorResp e))"

lemma answers_writeError [simp]: "answers h (writeError h c m rt d)"
  by (simp add: answers_def writeError_def reply_header_def)

lemma answers_writeBackendError [simp]: "answers h (writeBackendError h err)"
  by (simp add: writeBackendError_def)

lemma answers_writeWatchError [simp]: "answers h (writeWatchError h err)"
  by (simp add: writeWatchError_def)

lemma answers_writeResponse:
  "opc \<noteq> OpcodeErrorResp \<Longrightarrow> (\<forall>e. p \<noteq> ReplyErrorResp e) \<Longrightarrow> answers h (writeResponse h opc sid p)"
  by (simp add: answers_def writeResponse_def reply_header_def)

text \<open>A handler all of whose answers belong to the request.\<close>

definition answering :: "Header \<Rightarrow> (Server \<Rightarrow> reply \<times> Server) \<Rightarrow> bool" where
  "answering h f \<longleftrightarrow> (\<forall>s. answers h (fst (f s)))"

named_theorems answer_rules \<open>handlers answer their request\<close>

lemma answering_with_payload [answer_rules]:
  "(\<And>r. answering h (k r)) \<Longrightarrow> answering h (with_payload h what req k)"
  by (simp add: answering_def with_payload_def split: option.split)

lemma answering_on_backend [answer_rules]:
  "(\<And>x. answering h (k x)) \<Longrightarrow> answering h (on_backend h oper k)"
  by (simp add: answering_def on_backend_def split: prod.split sum.split)

lemma answering_respond [answer_rules]:
  "opc \<noteq> OpcodeErrorResp \<Longrightarrow> (\<forall>e. p \<noteq> ReplyErrorResp e) \<Longrightarrow> answering h (respond h opc p)"
  by (simp add: answering_def respond_def answers_writeResponse)

lemma answering_after [answer_rules]: "answering h f \<Longrightarrow> answering h (\<lambda>s. f (g s))"
  by (simp add: answering_def)

lemma answering_unsupported: "answering h (\<lambda>s. (unsupported ch h, s))"
  by (simp add: answering_def unsupported_def)

lemma answering_if: "answering h f \<Longrightarrow> answering h g \<Longrightarrow> answering h (if c then f else g)"
  by simp

lemma answering_handlers:
  "answering h (handle_rename now h rq)" "answering h (handle_create now h cq)"
  "answering h (handle_close now h xq)" "answering h (handle_resync h yq)"
  by (auto simp: answering_def handle_rename_def handle_create_def handle_close_def handle_resync_def
      on_backend_def respond_def Let_def answers_writeResponse split: prod.split sum.split option.split)

lemma answering_dispatchMetadata: "answering h (dispatchMetadata dec now h p)"
  unfolding dispatchMetadata_def Let_def
  by (intro answering_if answering_unsupported answering_handlers answering_with_payload
      answering_on_backend answering_respond) simp_all

lemma answering_split: "(\<And>a b. answering h (f a b)) \<Longrightarrow> answering h (case x of (a, b) \<Rightarrow> f a b)"
  by (simp split: prod.split)

lemma answering_dispatchData: "answering h (dispatchData dec now h p)"
  unfolding dispatchData_def Let_def
  by (intro answering_if answering_unsupported answering_handlers answering_with_payload
      answering_on_backend answering_respond answering_split answering_after) simp_all

lemma answering_dispatchEvents: "answering h (dispatchEvents dec h p)"
  unfolding dispatchEvents_def Let_def
  by (intro answering_if answering_unsupported answering_handlers answering_with_payload)
     (auto simp: answering_def respond_def answers_writeResponse split: prod.split sum.split)

lemma answering_dispatchRecovery: "answering h (dispatchRecovery dec h p)"
  unfolding dispatchRecovery_def Let_def
  by (intro answering_if answering_unsupported answering_with_payload)
     (auto simp: answering_def respond_def answers_writeResponse split: prod.split)

lemma requireActiveSession_error: "requireActiveSession now h s = Some err \<Longrightarrow> answers h err"
  by (auto simp: requireActiveSession_def split: prod.splits if_splits)

lemma answering_in_session: "answering h f \<Longrightarrow> answering h (in_session now h f)"
  by (simp add: answering_def in_session_def requireActiveSession_error split: option.split)

lemma answers_control_error [simp]: "answers h (snd (control_error h c m d))"
  by (simp add: control_error_def)

lemma answers_control:
  "answers h (snd (fst (handle_hello dec now h p st)))"
  "answers h (snd (fst (handle_auth dec tok h p st)))"
  "answers h (snd (fst (handle_create_session dec now h p st sm)))"
  "answers h (snd (fst (handle_resume_session dec now h p st sm)))"
  "answers h (snd (fst (handle_heartbeat dec now h p sm)))"
  by (simp_all add: handle_hello_def handle_auth_def handle_create_session_def
      handle_resume_session_def handle_heartbeat_def answers_writeResponse case_prod_unfold Let_def
      split: option.split)

lemma answers_dispatchControl: "answers h (fst (dispatchControl dec now el h p st s))"
  by (simp add: dispatchControl_def Let_def observed_def case_prod_unfold answers_control
      unsupported_def)

lemma answers_dispatch: "answers h (fst (dispatch dec now el h p st s))"
proof -
  have "answers h (fst (in_session now h f s))" if "answering h f" for f
    using answering_in_session [OF that] by (simp add: answering_def)
  then show ?thesis
    by (simp add: dispatch_def Let_def case_prod_unfold answers_dispatchControl
        answering_dispatchMetadata answering_dispatchData answering_dispatchEvents
        answering_dispatchRecovery)
qed

lemma frames_of_stop: "DecodeFrame input = Inl err \<Longrightarrow> frames_of input = []"
  by (simp add: frames_of.simps)

lemma frames_of_more: "DecodeFrame input = Inr (m, rest) \<Longrightarrow> frames_of input = m # frames_of rest"
  by (subst frames_of.simps) simp

text \<open>
  While no write fails and every body can be encoded in a frame, the bytes written decode again into
  one reply per decodable request, in the order of the requests, each with its request's channel and
  identifier.
\<close>

theorem replies_in_order:
  assumes "\<And>body. \<exists>b. marshal body = Some b \<and> HeaderLength + length b < 2 ^ 32"
    and "\<And>k. faults k = None"
  shows "list_all2 (\<lambda>(header, _) (rh, _). h_Channel rh = h_Channel header \<and>
       h_RequestID rh = h_RequestID header) (frames_of input)
     (frames_of (fst (handleConn dec marshal faults clock latency n input state s)))"
proof (induction n input state s rule: handleConn_induct
    [where dec = dec and marshal = marshal and faults = faults and clock = clock and latency = latency])
  case (stop n input state s err)
  have "DecodeFrame [] = Inl frame_error.EOF" by (simp add: DecodeFrame_def ReadFull_def)
  then show ?case using stop by (simp add: handleConn_stop frames_of_stop)
next
  case (more n input state s header payload rest r state' s' written s'')
  let ?out = "fst (handleConn dec marshal faults clock latency (Suc n) rest state' s'')"
  obtain pb where pb: "marshal (snd r) = Some pb" "HeaderLength + length pb < 2 ^ 32" using assms(1) by blast
  obtain frame where fr: "EncodeFrame marshal (fst r) (snd r) = Some frame"
    "DecodeFrame (frame @ ?out) = Inr ((seal_header (fst r) (length pb), pb), ?out)"
    using decode_sealed [where marshal = marshal, OF pb] by blast
  have w: "written = frame" using more.hyps(3) fr(1) assms(2) by (simp add: sendReply_def)
  have "answers header r"
    using answers_dispatch [of header dec "clock n" "latency n" payload state "set_clock (clock n) s"]
      more.hyps(2) by simp
  then have "h_Channel (seal_header (fst r) (length pb)) = h_Channel header \<and>
      h_RequestID (seal_header (fst r) (length pb)) = h_RequestID header"
    by (simp add: answers_def seal_header_def)
  then show ?case
    using more.IH handleConn_more [where faults = faults and clock = clock and latency = latency and n = n,
        OF more.hyps] w frames_of_more [OF more.hyps(1)] frames_of_more [OF fr(2)] by simp
qed

section \<open>The session gate\<close>

text \<open>
  C13: Without an active session nothing but the control channel works: a request on any other channel
  whose session is unknown or no longer active is answered with an error and leaves the whole
  server, its files included, and the connection as they were.
\<close>

theorem no_session_no_effect:
  assumes "h_Channel header \<noteq> ChannelControl"
    and "ValidateActive (h_SessionID header) now (srv_SessionManager s) = (session, found, active)"
    and "\<not> (found \<and> active)"
  shows "\<exists>e. dispatch dec now elapsed header payload state s =
     ((reply_header header OpcodeErrorResp (FlagResponse OR FlagError) (h_SessionID header),
       ReplyErrorResp e), state, s) \<and>
     ErrorResp_Code e =
       (if h_Channel header \<in> {ChannelMetadata, ChannelData, ChannelEvents, ChannelRecovery}
        then if found then ErrSessionExpired else ErrSessionNotFound else ErrUnsupportedOp)"
  using assms
  by (auto simp: dispatch_def in_session_def requireActiveSession_def writeError_def Let_def)

text \<open>A server and a decoder that rejects everything, for concrete instances.\<close>

definition no_decoders :: decoders where
  "no_decoders =
     \<lparr>dec_HelloReq = (\<lambda>_. None), dec_AuthReq = (\<lambda>_. None), dec_CreateSessionReq = (\<lambda>_. None),
      dec_ResumeSessionReq = (\<lambda>_. None), dec_HeartbeatReq = (\<lambda>_. None), dec_LookupReq = (\<lambda>_. None),
      dec_GetAttrReq = (\<lambda>_. None), dec_OpenDirReq = (\<lambda>_. None), dec_ReadDirReq = (\<lambda>_. None),
      dec_CloseDirReq = (\<lambda>_. None), dec_RenameReq = (\<lambda>_. None), dec_OpenReq = (\<lambda>_. None),
      dec_CreateReq = (\<lambda>_. None), dec_ReadReq = (\<lambda>_. None), dec_WriteReq = (\<lambda>_. None),
      dec_FlushReq = (\<lambda>_. None), dec_TruncateReq = (\<lambda>_. None), dec_SetDeleteOnCloseReq = (\<lambda>_. None),
      dec_CloseReq = (\<lambda>_. None), dec_SubscribeReq = (\<lambda>_. None), dec_PollEventsReq = (\<lambda>_. None),
      dec_AckEventsReq = (\<lambda>_. None), dec_ResyncReq = (\<lambda>_. None), dec_RecoverHandlesReq = (\<lambda>_. None),
      dec_RevalidateReq = (\<lambda>_. None), dec_ResubscribeReq = (\<lambda>_. None)\<rparr>"

definition sample_server :: Server where
  "sample_server =
     \<lparr>srv_Addr = '':7000'', srv_RootPath = ''/w'', srv_AuthToken = ''secret'',
      srv_SessionManager = NewSessionManager, srv_Backend = sample_backend,
      srv_Journal = newJournalBroker 4, srv_JournalRetention = 4, srv_StartedAt = 0,
      srv_Audit = None, srv_Control = zero_control, srv_Faults = zero_faults\<rparr>"

definition sample_header :: "Channel \<Rightarrow> Opcode \<Rightarrow> u64 \<Rightarrow> Header" where
  "sample_header ch opc sid =
     \<lparr>h_Magic = Magic, h_Version = Version, h_HeaderLength = of_nat HeaderLength, h_Channel = ch,
      h_Opcode = opc, h_Flags = FlagRequest, h_RequestID = 9, h_SessionID = sid, h_PayloadLength = 0\<rparr>"

theorem no_session_no_effect_witness:
  "\<exists>e. dispatch no_decoders 0 0 (sample_header ChannelData OpcodeWriteReq 7) [] new_connection sample_server =
     ((reply_header (sample_header ChannelData OpcodeWriteReq 7) OpcodeErrorResp (FlagResponse OR FlagError) 7,
       ReplyErrorResp e), new_connection, sample_server) \<and>
     ErrorResp_Code e = ErrSessionNotFound"
  using no_session_no_effect [of "sample_header ChannelData OpcodeWriteReq 7" 0 sample_server zero_Session
      False False no_decoders 0 "[]" new_connection]
  by (auto simp: sample_header_def sample_server_def ValidateActive_def NewSessionManager_def)

section \<open>The invariant of the whole server\<close>

definition leases_ok :: "SessionManager \<Rightarrow> bool" where
  "leases_ok sm \<longleftrightarrow>
     (\<forall>i se. sm_sessions sm i = Some se \<longrightarrow> 1 \<le> Session_LeaseSeconds se \<and> Session_LeaseSeconds se \<le> 300)"

definition journal_bounded :: "journalBroker \<Rightarrow> bool" where
  "journal_bounded j \<longleftrightarrow> 0 < j_retention j \<and> length (j_events j) \<le> j_retention j"

definition server_inv :: "Server \<Rightarrow> bool" where
  "server_inv s \<longleftrightarrow>
     backend_inv (srv_Backend s) \<and> leases_ok (srv_SessionManager s) \<and> journal_bounded (srv_Journal s)"

lemma clamp_lease_range: "1 \<le> clamp_lease l \<and> clamp_lease l \<le> 300"
proof (cases "l = 0")
  case False
  then have "1 \<le> l" by (simp add: word_le_nat_alt unat_gt_0 Suc_leI)
  then show ?thesis by (auto simp: clamp_lease_def Let_def)
qed (simp add: clamp_lease_def)

lemma leases_Create: "leases_ok sm \<Longrightarrow> 1 \<le> l \<Longrightarrow> l \<le> 300 \<Longrightarrow> leases_ok (snd (Create p c l now sm))"
  by (auto simp: leases_ok_def Create_def Let_def)

lemma leases_Heartbeat: "leases_ok sm \<Longrightarrow> leases_ok (snd (Heartbeat i now sm))"
  by (auto simp: leases_ok_def Heartbeat_def Let_def split: option.splits)

lemma leases_Resume: "leases_ok sm \<Longrightarrow> leases_ok (snd (Resume i c now sm))"
  by (auto simp: leases_ok_def Resume_def Let_def split: option.splits)

lemma bounded_Append: "journal_bounded j \<Longrightarrow> journal_bounded (Append now e j)"
  by (auto simp: journal_bounded_def Append_def append_prepare_def append_locked_def Let_def)

lemma bounded_same: "same_events j j' \<Longrightarrow> journal_bounded j \<Longrightarrow> journal_bounded j'"
  by (simp add: same_events_def journal_bounded_def)

section \<open>What a request can do\<close>

text \<open>
  On the channels that need a session a request changes the server only by operations of the backend
  and of the journal. A relation between servers that is reflexive and transitive and allows those
  steps therefore relates the server before to the server after every such request.
\<close>

inductive journal_change :: "journalBroker \<Rightarrow> journalBroker \<Rightarrow> bool" where
  jc_Append: "journal_change j (Append now e j)"
| jc_Subscribe: "journal_change j (snd (Subscribe b i rc j))"
| jc_Ack: "journal_change j (snd (Ack w sq j))"
| jc_Resubscribe: "journal_change j (snd (Resubscribe b specs j))"

locale handler_steps =
  fixes R :: "Server \<Rightarrow> Server \<Rightarrow> bool"
  assumes refl: "R s s"
    and trans: "R s s' \<Longrightarrow> R s' s'' \<Longrightarrow> R s s''"
    and backend: "backend_step (srv_Backend s) b \<Longrightarrow> R s (s\<lparr>srv_Backend := b\<rparr>)"
    and journal: "journal_change (srv_Journal s) j \<Longrightarrow> R s (s\<lparr>srv_Journal := j\<rparr>)"
begin

definition stepping :: "(Server \<Rightarrow> reply \<times> Server) \<Rightarrow> bool" where
  "stepping f \<longleftrightarrow> (\<forall>s. R s (snd (f s)))"

lemma steppingD: "stepping f \<Longrightarrow> R s (snd (f s))"
  by (simp add: stepping_def)

lemma stepping_with_payload: "(\<And>r. stepping (k r)) \<Longrightarrow> stepping (with_payload h what req k)"
  by (simp add: stepping_def with_payload_def refl split: option.split)

lemma stepping_on_backend:
  assumes "\<And>b. backend_step b (snd (oper b))" and "\<And>x. stepping (k x)"
  shows "stepping (on_backend h oper k)"
  unfolding stepping_def
proof
  fix s :: Server
  obtain r b where r: "oper (srv_Backend s) = (r, b)" by fastforce
  then have step: "R s (s\<lparr>srv_Backend := b\<rparr>)" using assms(1) [of "srv_Backend s"] backend by simp
  show "R s (snd (on_backend h oper k s))"
    using r step trans [OF step steppingD [OF assms(2)]] by (simp add: on_backend_def split: sum.split)
qed

lemma stepping_reading:
  "(\<And>x. stepping (k x)) \<Longrightarrow> stepping (on_backend h (reading oper) k)"
  by (simp add: stepping_def on_backend_def reading_def refl split: sum.split)

lemma stepping_respond: "stepping (respond h opc p)"
  by (simp add: stepping_def respond_def refl)

lemma stepping_if: "stepping f \<Longrightarrow> stepping g \<Longrightarrow> stepping (if c then f else g)"
  by simp

lemma stepping_split: "(\<And>a b. stepping (f a b)) \<Longrightarrow> stepping (case x of (a, b) \<Rightarrow> f a b)"
  by (simp split: prod.split)

lemma stepping_unsupported: "stepping (\<lambda>s. (unsupported ch h, s))"
  by (simp add: stepping_def refl)

lemma append_step: "R s (journal_append now e s)"
  unfolding journal_append_def by (rule journal) (rule jc_Append)

lemma stepping_append: "stepping f \<Longrightarrow> stepping (\<lambda>s. f (journal_append now e s))"
  unfolding stepping_def using trans [OF append_step] by blast

lemmas stepping_rules = stepping_if stepping_split stepping_unsupported stepping_with_payload
  stepping_reading stepping_on_backend backend_step.intros stepping_append stepping_respond

lemma stepping_handle_rename: "stepping (handle_rename now h req)"
  unfolding handle_rename_def Let_def by (intro stepping_rules)

lemma stepping_handle_create: "stepping (handle_create now h req)"
  unfolding handle_create_def Let_def
  by (intro stepping_on_backend step_CreateFile)
     (simp add: stepping_def respond_def append_step split: prod.split)

lemma stepping_handle_close: "stepping (handle_close now h req)"
proof -
  have "stepping (on_backend h (CloseHandle i) (\<lambda>_ s. respond h opc p (g s)))"
    if "\<And>s. R s (g s)" for i opc p g
    using that by (intro stepping_on_backend step_CloseHandle) (simp add: stepping_def respond_def)
  note close = this [THEN steppingD]
  show ?thesis
    unfolding stepping_def handle_close_def Let_def
    by (intro allI close) (auto simp: append_step refl split: sum.split)
qed

lemma stepping_dispatchMetadata: "stepping (dispatchMetadata dec now h p)"
  unfolding dispatchMetadata_def Let_def by (intro stepping_rules stepping_handle_rename)

lemma stepping_dispatchData: "stepping (dispatchData dec now h p)"
  unfolding dispatchData_def Let_def
  by (intro stepping_rules stepping_handle_create stepping_handle_close)

lemma Resync_step:
  "Resync w j b = Some (r, b') \<Longrightarrow> b' = b \<or> backend_step b b'"
  by (auto simp: Resync_def split: sum.splits option.splits prod.splits intro: step_SnapshotSubtree)

lemma backend_or_same: "b = srv_Backend s \<or> backend_step (srv_Backend s) b \<Longrightarrow> R s (s\<lparr>srv_Backend := b\<rparr>)"
  using backend refl by fastforce

lemma stepping_handle_resync: "stepping (handle_resync h req)"
  unfolding stepping_def handle_resync_def
  by (auto simp: respond_def refl split: option.split sum.split intro!: backend_or_same dest: Resync_step)

lemma journal_op: "f (srv_Journal s) = (r, j) \<Longrightarrow> (\<And>j. journal_change j (snd (f j))) \<Longrightarrow> R s (s\<lparr>srv_Journal := j\<rparr>)"
  using journal by (metis snd_conv)

lemma stepping_dispatchEvents: "stepping (dispatchEvents dec h p)"
  unfolding dispatchEvents_def Let_def
  by (intro stepping_if stepping_unsupported stepping_with_payload stepping_handle_resync)
     (auto simp: stepping_def respond_def refl split: prod.split sum.split
       intro: journal_op jc_Subscribe jc_Ack)

lemma recover_handles_steps: "backend_step\<^sup>*\<^sup>* b (snd (recover_handles specs b))"
proof (induction specs arbitrary: b)
  case (Cons spec specs)
  show ?case
    using converse_rtranclp_into_rtranclp [OF step_RecoverFileHandle Cons.IH]
    by (simp add: case_prod_unfold Let_def)
qed simp

lemma revalidate_nodes_steps: "backend_step\<^sup>*\<^sup>* b (snd (revalidate_nodes ids b))"
proof (induction ids arbitrary: b)
  case (Cons i ids)
  show ?case
    using converse_rtranclp_into_rtranclp [OF step_RevalidateNode Cons.IH]
    by (simp add: case_prod_unfold Let_def)
qed simp

lemma backend_steps: "backend_step\<^sup>*\<^sup>* (srv_Backend s) b \<Longrightarrow> R s (s\<lparr>srv_Backend := b\<rparr>)"
proof (induction rule: rtranclp_induct)
  case base
  then show ?case by (simp add: refl)
next
  case (step b b')
  then show ?case
    using trans [OF step.IH, of "s\<lparr>srv_Backend := b'\<rparr>"] backend [of "s\<lparr>srv_Backend := b\<rparr>" b'] by simp
qed

lemma backend_op: "f (srv_Backend s) = (r, b) \<Longrightarrow> (\<And>b. backend_step\<^sup>*\<^sup>* b (snd (f b))) \<Longrightarrow> R s (s\<lparr>srv_Backend := b\<rparr>)"
  using backend_steps by (metis snd_conv)

lemma stepping_dispatchRecovery: "stepping (dispatchRecovery dec h p)"
  unfolding dispatchRecovery_def Let_def
  by (intro stepping_if stepping_unsupported stepping_with_payload)
     (auto simp: stepping_def respond_def refl split: prod.split
       intro: journal_op jc_Resubscribe backend_op recover_handles_steps revalidate_nodes_steps)

lemma stepping_in_session: "stepping f \<Longrightarrow> stepping (in_session now h f)"
  by (simp add: stepping_def in_session_def refl split: option.split)

lemma dispatch_step:
  assumes "h_Channel h \<noteq> ChannelControl" and "dispatch dec now el h p st s = (r, st', s')"
  shows "R s s' \<and> st' = st"
proof -
  note step = stepping_in_session [THEN steppingD]
  show ?thesis
    using assms(2) step [OF stepping_dispatchMetadata] step [OF stepping_dispatchData]
      step [OF stepping_dispatchEvents] step [OF stepping_dispatchRecovery] refl [of s]
    by (auto simp: dispatch_def Let_def assms(1) case_prod_unfold split: if_splits)
qed

end

lemma bounded_journal_change: "journal_change j j' \<Longrightarrow> journal_bounded j \<Longrightarrow> journal_bounded j'"
  by (induction rule: journal_change.induct)
     (auto intro: bounded_Append bounded_same same_events_Subscribe same_events_Ack same_events_Resubscribe)

interpretation inv_steps: handler_steps "\<lambda>s s'. server_inv s \<longrightarrow> server_inv s'"
  by unfold_locales (auto simp: server_inv_def intro: inv_backend_step bounded_journal_change)

interpretation session_steps: handler_steps
  "\<lambda>s s'. srv_SessionManager s' = srv_SessionManager s \<and> srv_AuthToken s' = srv_AuthToken s"
  by unfold_locales auto

interpretation backend_runs: handler_steps "\<lambda>s s'. backend_step\<^sup>*\<^sup>* (srv_Backend s) (srv_Backend s')"
  by unfold_locales auto

section \<open>The control channel\<close>

lemma leases_control:
  "leases_ok sm \<Longrightarrow> leases_ok (snd (handle_create_session dec now h p st sm))"
  "leases_ok sm \<Longrightarrow> leases_ok (snd (snd (handle_resume_session dec now h p st sm)))"
  "leases_ok sm \<Longrightarrow> leases_ok (snd (handle_heartbeat dec now h p sm))"
  using leases_Create leases_Resume leases_Heartbeat clamp_lease_range
  by (auto simp: handle_create_session_def handle_resume_session_def handle_heartbeat_def
      case_prod_unfold Let_def split: option.split)

lemma keeps_dispatchControl:
  "server_inv s \<Longrightarrow> server_inv (snd (snd (dispatchControl dec now el h p st s)))"
  by (simp add: dispatchControl_def Let_def observed_def case_prod_unfold server_inv_def leases_control)

lemma keeps_dispatch:
  assumes "server_inv s"
  shows "server_inv (snd (snd (dispatch dec now el h p st s)))"
proof (cases "h_Channel h = ChannelControl")
  case True
  then show ?thesis using keeps_dispatchControl [OF assms] by (simp add: dispatch_def)
next
  case False
  then show ?thesis using inv_steps.dispatch_step [OF False] assms by (metis prod.collapse)
qed

lemma keeps_sendReply: "server_inv s \<Longrightarrow> server_inv (snd (sendReply marshal fault r s))"
  using sendReply_state [of marshal fault r s] by (auto simp: server_inv_def)

lemma keeps_handleConn:
  "server_inv s \<Longrightarrow> server_inv (snd (handleConn dec marshal faults clock latency n input state s))"
proof (induction n input state s rule: handleConn_induct
    [where dec = dec and marshal = marshal and faults = faults and clock = clock and latency = latency])
  case (stop n input state s err)
  then show ?case by (simp add: handleConn_stop server_inv_def)
next
  case (more n input state s header payload rest r state' s' written s'')
  have "server_inv (set_clock (clock n) s)" using more.prems by (simp add: set_clock_def server_inv_def)
  from keeps_dispatch [OF this, of dec "clock n" "latency n" header payload state]
  have "server_inv s'" using more.hyps(2) by simp
  then have "server_inv s''" using keeps_sendReply [of s' marshal "faults n" r] more.hyps(3) by simp
  then show ?case
    using more.IH handleConn_more [where faults = faults and clock = clock and latency = latency and n = n,
        OF more.hyps] by simp
qed

text \<open>
  C14: No client can break the server's invariant. Whatever bytes arrive on a connection, however
  the JSON decoder reads them, and whichever replies cannot be encoded or written, afterwards every path the backend uses is still inside the exported
  directory, its node table is consistent, every session's lease is between 1 and 300 seconds, and
  the journal holds no more events than its retention.
\<close>

theorem connection_keeps_server_safe:
  assumes "Serve cwd startedAt now ln_addr f ss = Inr s0" and "fs_wf f"
    and "\<And>wd. cwd = Some wd \<Longrightarrow> abs_clean wd"
    and "s = snd (handleConn dec marshal faults clock latency n input state s0)"
  shows "backend_inv (srv_Backend s) \<and>
    (\<forall>i rec. b_nodesByID (srv_Backend s) i = Some rec \<longrightarrow>
       inside (b_rootPath (srv_Backend s)) (absPath (srv_Backend s) (nr_relPath rec))) \<and>
    (\<forall>i se. sm_sessions (srv_SessionManager s) i = Some se \<longrightarrow>
       1 \<le> Session_LeaseSeconds se \<and> Session_LeaseSeconds se \<le> 300) \<and>
    length (j_events (srv_Journal s)) \<le> j_retention (srv_Journal s)"
proof -
  obtain b where b: "newMetadataBackend cwd now f (ss_RootPath ss) = Inr b"
    and s0: "srv_Backend s0 = b" "srv_SessionManager s0 = NewSessionManager"
      "srv_Journal s0 = newJournalBroker (ss_JournalRetention ss)"
    using assms(1) by (auto simp: Serve_def split: sum.splits)
  have "server_inv s0"
    using inv_newMetadataBackend [OF b assms(2,3)] s0
    by (simp add: server_inv_def leases_ok_def journal_bounded_def NewSessionManager_def newJournalBroker_def)
  then have "server_inv s" using assms(4) keeps_handleConn by simp
  then show ?thesis
    using backend_confined_aux by (auto simp: server_inv_def leases_ok_def journal_bounded_def)
qed

definition sample_settings :: ServerSettings where
  "sample_settings = (New '':7000'')\<lparr>ss_RootPath := ''/w''\<rparr>"

text \<open>
  A connection that sends a metadata request without a session and then garbage, and whose only reply
  breaks off after four bytes.
\<close>

definition sample_input :: bytes where
  "sample_input = the (EncodeFrame Some
     \<lparr>h_Magic = [], h_Version = 0, h_HeaderLength = 0, h_Channel = ChannelMetadata, h_Opcode = OpcodeLookupReq,
      h_Flags = 0, h_RequestID = 7, h_SessionID = 0, h_PayloadLength = 0\<rparr> [123, 125]) @ [0, 0, 0, 1, 7]"

theorem connection_keeps_server_safe_witness:
  "(let s = snd (handleConn no_decoders (\<lambda>_. Some [123, 125]) (\<lambda>_. Some (4, OtherError ''broken pipe''))
        (\<lambda>_. 100) (\<lambda>_. 0) 0 sample_input new_connection
        (projr (Serve None 0 100 [] sample_fs sample_settings)))
    in backend_inv (srv_Backend s) \<and> length (j_events (srv_Journal s)) \<le> j_retention (srv_Journal s))"
proof -
  have "\<exists>s0. Serve None 0 100 [] sample_fs sample_settings = Inr s0"
    using sample_start_ok by (simp add: Serve_def sample_settings_def New_def)
  then have "Serve None 0 100 [] sample_fs sample_settings = Inr (projr (Serve None 0 100 [] sample_fs sample_settings))"
    by auto
  from connection_keeps_server_safe [OF this fs_wf_sample _ refl] show ?thesis by (simp add: Let_def)
qed

end
