(* ===== verification/ServerProps.thy ===== *)
theory ServerProps
  imports ServerRun FileIO
begin

text \<open>
  Properties of the server with any number of connections. Requests of different connections
  interleave in any order; each is handled as one step, as \<^verbatim>\<open>dispatch\<close> handles it.
\<close>

section \<open>The server and its connections\<close>

datatype wire_event =
    Accepted nat
  | Answered nat Header bytes reply
  | Dropped nat

record serving =
  sv_server :: Server
  sv_conns :: "nat \<rightharpoonup> connectionState"

inductive served :: "decoders \<Rightarrow> Server \<Rightarrow> wire_event list \<Rightarrow> serving \<Rightarrow> bool" for dec s0 where
  served_start: "served dec s0 [] \<lparr>sv_server = s0, sv_conns = Map.empty\<rparr>"
| served_accept: "served dec s0 tr sv \<Longrightarrow> sv_conns sv c = None \<Longrightarrow>
    served dec s0 (tr @ [Accepted c]) (sv\<lparr>sv_conns := (sv_conns sv)(c \<mapsto> new_connection)\<rparr>)"
| served_request: "served dec s0 tr sv \<Longrightarrow> sv_conns sv c = Some st \<Longrightarrow>
    dispatch dec now elapsed header payload st (set_clock now (sv_server sv)) = (r, st', s') \<Longrightarrow>
    served dec s0 (tr @ [Answered c header payload r])
      (sv\<lparr>sv_server := s', sv_conns := (sv_conns sv)(c \<mapsto> st')\<rparr>)"
| served_drop: "served dec s0 tr sv \<Longrightarrow> sv_conns sv c = Some st \<Longrightarrow>
    served dec s0 (tr @ [Dropped c])
      (sv\<lparr>sv_server := (sv_server sv)\<lparr>srv_Faults :=
            snd (logConnectionError (Some err) (srv_Faults (sv_server sv)))\<rparr>,
          sv_conns := (sv_conns sv)(c := None)\<rparr>)"

lemma server_inv_set_clock: "server_inv (set_clock t s) = server_inv s"
  by (simp add: server_inv_def set_clock_def)

lemma served_inv: "served dec s0 tr sv \<Longrightarrow> server_inv s0 \<Longrightarrow> server_inv (sv_server sv)"
proof (induction rule: served.induct)
  case (served_request tr sv c st now elapsed header payload r st' s')
  then show ?case
    using keeps_dispatch [of "set_clock now (sv_server sv)" dec now elapsed header payload st]
    by (simp add: server_inv_set_clock)
next
  case (served_drop tr sv c st err)
  then show ?case by (simp add: server_inv_def)
qed simp_all

section \<open>Authentication\<close>

definition presents_token :: "decoders \<Rightarrow> string \<Rightarrow> Header \<Rightarrow> bytes \<Rightarrow> bool" where
  "presents_token dec token header payload \<longleftrightarrow>
     h_Channel header = ChannelControl \<and> h_Opcode header = OpcodeAuthReq \<and>
     (case DecodePayload (dec_AuthReq dec) payload of
        None \<Rightarrow> False
      | Some req \<Rightarrow> AuthReq_Scheme req = ''dev-token'' \<and> AuthReq_Token req = token)"

definition never_presents :: "decoders \<Rightarrow> string \<Rightarrow> wire_event list \<Rightarrow> bool" where
  "never_presents dec token tr =
     list_all (\<lambda>e. case e of Answered c h p r \<Rightarrow> \<not> presents_token dec token h p | _ \<Rightarrow> True) tr"

text \<open>A server nobody has a session on, and connections none of which is authenticated.\<close>

definition locked_out :: "SessionManager \<Rightarrow> connectionState \<Rightarrow> bool" where
  "locked_out sm st \<longleftrightarrow> sm_sessions sm = Map.empty \<and> \<not> cs_authenticated st"

lemma locked_out_dispatchControl:
  assumes "locked_out (srv_SessionManager s) st" and "\<not> presents_token dec (srv_AuthToken s) h p"
    and "h_Channel h = ChannelControl" and "dispatchControl dec now el h p st s = (r, st', s')"
  shows "locked_out (srv_SessionManager s') st' \<and> srv_SessionManager s' = srv_SessionManager s \<and>
    srv_Backend s' = srv_Backend s \<and> srv_Journal s' = srv_Journal s \<and> srv_AuthToken s' = srv_AuthToken s"
  using assms
  by (auto simp: dispatchControl_def observed_def locked_out_def presents_token_def Let_def
      handle_hello_def handle_auth_def handle_create_session_def handle_resume_session_def
      handle_heartbeat_def Resume_def Heartbeat_def control_error_def
      split: if_splits option.splits)

lemma locked_out_dispatch:
  assumes "locked_out (srv_SessionManager s) st" and "\<not> presents_token dec (srv_AuthToken s) h p"
    and "dispatch dec now el h p st s = (r, st', s')"
  shows "locked_out (srv_SessionManager s') st' \<and> srv_SessionManager s' = srv_SessionManager s \<and>
    srv_Backend s' = srv_Backend s \<and> srv_Journal s' = srv_Journal s \<and> srv_AuthToken s' = srv_AuthToken s"
proof (cases "h_Channel h = ChannelControl")
  case True
  then have "dispatchControl dec now el h p st s = (r, st', s')" using assms(3) by (simp add: dispatch_def)
  then show ?thesis by (rule locked_out_dispatchControl [OF assms(1,2) True])
next
  case False
  have "ValidateActive (h_SessionID h) now (srv_SessionManager s) = (zero_Session, False, False)"
    using assms(1) by (simp add: ValidateActive_def locked_out_def)
  then have "s' = s \<and> st' = st"
    using assms(3) False
    by (auto simp: dispatch_def in_session_def requireActiveSession_def Let_def split: if_splits)
  then show ?thesis using assms(1) by simp
qed

lemma served_locked_out:
  assumes "served dec s0 tr sv" and "sm_sessions (srv_SessionManager s0) = Map.empty"
    and "never_presents dec (srv_AuthToken s0) tr"
  shows "srv_SessionManager (sv_server sv) = srv_SessionManager s0 \<and>
    (srv_Backend (sv_server sv))\<lparr>b_now := 0\<rparr> = (srv_Backend s0)\<lparr>b_now := 0\<rparr> \<and>
    srv_Journal (sv_server sv) = srv_Journal s0 \<and> srv_AuthToken (sv_server sv) = srv_AuthToken s0 \<and>
    (\<forall>c st. sv_conns sv c = Some st \<longrightarrow> \<not> cs_authenticated st)"
  using assms
proof (induction rule: served.induct)
  case (served_request tr sv c st now elapsed header payload r st' s')
  have tr: "never_presents dec (srv_AuthToken s0) tr"
    and h: "\<not> presents_token dec (srv_AuthToken s0) header payload"
    using served_request.prems(2) by (simp_all add: never_presents_def)
  note IH = served_request.IH [OF served_request.prems(1) tr]
  have "locked_out (srv_SessionManager (set_clock now (sv_server sv))) st"
    using IH served_request.hyps(2) served_request.prems(1) by (auto simp: locked_out_def set_clock_def)
  moreover have "\<not> presents_token dec (srv_AuthToken (set_clock now (sv_server sv))) header payload"
    using h IH by (simp add: set_clock_def)
  ultimately have "locked_out (srv_SessionManager s') st' \<and>
      srv_SessionManager s' = srv_SessionManager (sv_server sv) \<and>
      srv_Backend s' = (srv_Backend (sv_server sv))\<lparr>b_now := now\<rparr> \<and>
      srv_Journal s' = srv_Journal (sv_server sv) \<and> srv_AuthToken s' = srv_AuthToken (sv_server sv)"
    using locked_out_dispatch [OF _ _ served_request.hyps(3)] by (auto simp: set_clock_def)
  then show ?case using IH by (auto simp: locked_out_def)
qed (auto simp: new_connection_def never_presents_def split: if_splits)

text \<open>
  C15: Nothing without the token: on a server that starts without sessions, whatever any number of
  connections send in whatever order, as long as no request carries the server's token no session
  ever exists, no connection counts as authenticated, and the files, the node and handle tables
  and the journal stay as they were; only the backend's clock moves on.
\<close>

theorem nothing_without_token:
  assumes "served dec s0 tr sv" and "sm_sessions (srv_SessionManager s0) = Map.empty"
    and "never_presents dec (srv_AuthToken s0) tr"
  shows "srv_SessionManager (sv_server sv) = srv_SessionManager s0 \<and>
    (srv_Backend (sv_server sv))\<lparr>b_now := 0\<rparr> = (srv_Backend s0)\<lparr>b_now := 0\<rparr> \<and>
    srv_Journal (sv_server sv) = srv_Journal s0 \<and>
    (\<forall>c st. sv_conns sv c = Some st \<longrightarrow> \<not> cs_authenticated st)"
  using served_locked_out [OF assms] by blast

definition sample_intruder :: serving where
  "sample_intruder =
     (let (r, st, s) = dispatch no_decoders 5 0 (sample_header ChannelData OpcodeWriteReq 1) [7]
            new_connection (set_clock 5 sample_server)
      in \<lparr>sv_server = s, sv_conns = [0 \<mapsto> st]\<rparr>)"

lemma served_intruder:
  "\<exists>tr. served no_decoders sample_server tr sample_intruder \<and> never_presents no_decoders ''secret'' tr"
proof -
  let ?h = "sample_header ChannelData OpcodeWriteReq 1"
  obtain r st s where d: "dispatch no_decoders 5 0 ?h [7] new_connection (set_clock 5 sample_server) = (r, st, s)"
    using prod_cases3 by blast
  have "served no_decoders sample_server [Accepted 0] \<lparr>sv_server = sample_server, sv_conns = [0 \<mapsto> new_connection]\<rparr>"
    using served_accept [OF served_start [of no_decoders sample_server], of 0] by simp
  from served_request [OF this, of 0 new_connection 5 0 ?h "[7]"] d
  have "served no_decoders sample_server [Accepted 0, Answered 0 ?h [7] r] sample_intruder"
    by (simp add: sample_intruder_def)
  then show ?thesis by (auto simp: never_presents_def presents_token_def sample_header_def)
qed

theorem nothing_without_token_witness:
  "srv_SessionManager (sv_server sample_intruder) = NewSessionManager"
proof -
  obtain tr where "served no_decoders sample_server tr sample_intruder"
    and "never_presents no_decoders ''secret'' tr"
    using served_intruder by blast
  then show ?thesis
    using nothing_without_token [of no_decoders sample_server tr sample_intruder]
    by (simp add: sample_server_def NewSessionManager_def)
qed

text \<open>
  A session is a bearer right: on the channels that need a session the connection a request comes
  in on plays no part. It is answered and it acts as it would on any other connection, even one
  that neither said hello nor authenticated.
\<close>

theorem session_channels_ignore_connection:
  assumes "h_Channel header \<noteq> ChannelControl"
    and "dispatch dec now elapsed header payload st s = (r, st', s')"
  shows "dispatch dec now elapsed header payload new_connection s = (r, new_connection, s')"
  using assms by (auto simp: dispatch_def Let_def split: prod.splits)

theorem session_channels_ignore_connection_witness:
  "\<exists>r s'. dispatch no_decoders 0 0 (sample_header ChannelData OpcodeWriteReq 7) [] new_connection sample_server =
     (r, new_connection, s')"
proof -
  obtain r st' s' where
    "dispatch no_decoders 0 0 (sample_header ChannelData OpcodeWriteReq 7) []
       (new_connection\<lparr>cs_helloDone := True, cs_authenticated := True\<rparr>) sample_server = (r, st', s')"
    using prod_cases3 by blast
  from session_channels_ignore_connection [OF _ this] show ?thesis
    by (auto simp: sample_header_def)
qed

section \<open>A busy server\<close>

lemma fs_paths_upd_inode [simp]: "fs_paths (upd_inode i g f) = fs_paths f"
  by (simp add: upd_inode_def)

lemma opcode_writeError [simp]: "h_Opcode (fst (writeError h c m rt d)) = OpcodeErrorResp"
  by (simp add: writeError_def reply_header_def)

lemma opcode_writeBackendError [simp]: "h_Opcode (fst (writeBackendError h err)) = OpcodeErrorResp"
  by (simp add: writeBackendError_def)

lemma opcode_writeWatchError [simp]: "h_Opcode (fst (writeWatchError h err)) = OpcodeErrorResp"
  by (simp add: writeWatchError_def)

lemma opcode_respond [simp]: "h_Opcode (fst (fst (respond h opc p s))) = opc" "snd (respond h opc p s) = s"
  by (simp_all add: respond_def writeResponse_def reply_header_def)

lemma same_events_refl [simp]: "same_events j j"
  by (simp add: same_events_def)

lemma requireActiveSession_opcode:
  "requireActiveSession now h s = Some err \<Longrightarrow> h_Opcode (fst err) = OpcodeErrorResp"
  by (auto simp: requireActiveSession_def case_prod_unfold split: if_splits)

lemma control_error_opcode [simp]: "h_Opcode (fst (snd (control_error h c m d))) = OpcodeErrorResp"
  by (simp add: control_error_def)

lemma writeResponse_opcode [simp]: "h_Opcode (fst (writeResponse h opc i p)) = opc"
  by (simp add: writeResponse_def reply_header_def)

text \<open>A server with one session.\<close>

definition sample_busy :: Server where
  "sample_busy = sample_server\<lparr>
     srv_SessionManager := snd (Create ''developer'' ''c'' 30 0 NewSessionManager),
     srv_Backend := (empty_backend ''/w'' 100 sample_fs)\<lparr>b_profile := defaultWorkspaceProfile\<rparr>\<rparr>"

lemma server_inv_busy: "server_inv sample_busy"
proof -
  have "backend_inv (empty_backend ''/w'' 100 sample_fs)"
    by (rule inv_empty_backend [OF fs_wf_sample]) (simp add: abs_clean_def clean_rel_def valid_name_def)
  moreover have "leases_ok (snd (Create ''developer'' ''c'' 30 0 NewSessionManager))"
    by (rule leases_Create) (simp_all add: leases_ok_def NewSessionManager_def)
  ultimately show ?thesis
    by (simp add: server_inv_def sample_busy_def sample_server_def backend_inv_def journal_bounded_def
        newJournalBroker_def)
qed

section \<open>Error codes\<close>

text \<open>The code of a backend error, by the kind of the error.\<close>

fun errno_code :: "errno \<Rightarrow> ErrorCode" where
  "errno_code ENOENT = ErrNotFound"
| "errno_code EEXIST = ErrAlreadyExists"
| "errno_code ENOTEMPTY = ErrAlreadyExists"
| "errno_code ENOTDIR = ErrNotDir"
| "errno_code EISDIR = ErrIsDir"
| "errno_code _ = ErrInternal"

fun error_code :: "go_error \<Rightarrow> ErrorCode" where
  "error_code ErrNotExist = ErrNotFound"
| "error_code (PathError _ _ e) = errno_code e"
| "error_code (LinkError _ _ _ e) = errno_code e"
| "error_code errInvalidHandle = ErrInvalidHandle"
| "error_code errAlreadyExists = ErrAlreadyExists"
| "error_code errNotDir = ErrNotDir"
| "error_code errIsDir = ErrIsDir"
| "error_code errAccessDenied = ErrAccessDenied"
| "error_code (Errorf _) = ErrInternal"

text \<open>The part of the text of an error that comes from outside the program: its paths.\<close>

fun error_subject :: "go_error \<Rightarrow> string" where
  "error_subject (PathError oper path e) = oper @ '' '' @ path"
| "error_subject (LinkError oper old new e) = oper @ '' '' @ old @ '' '' @ new"
| "error_subject (Errorf msg) = msg"
| "error_subject _ = []"

definition mentions_kind :: "string \<Rightarrow> bool" where
  "mentions_kind msg \<longleftrightarrow>
     Contains (ToLower msg) ''not a directory'' \<or> Contains (ToLower msg) ''is a directory''"

lemma HasPrefix_sep:
  assumes "c \<notin> set sub"
  shows "HasPrefix (xs @ c # ys) sub = HasPrefix xs sub"
proof (cases "length sub \<le> length xs")
  case False
  then have "c \<in> set (take (length sub) (xs @ c # ys))" by (cases "length sub - length xs") auto
  moreover have "length (take (length sub) xs) < length sub" using False by simp
  ultimately have "take (length sub) (xs @ c # ys) \<noteq> sub" "take (length sub) xs \<noteq> sub"
    using assms by (metis, metis less_irrefl)
  then show ?thesis by (simp add: HasPrefix_def)
qed (simp add: HasPrefix_def)

lemma Contains_sep:
  assumes "c \<notin> set sub" and "sub \<noteq> []"
  shows "Contains (xs @ c # ys) sub \<longleftrightarrow> Contains xs sub \<or> Contains ys sub"
proof (induction xs)
  case Nil
  show ?case using assms HasPrefix_sep [OF assms(1), of "[]"] by (simp add: HasPrefix_def)
next
  case (Cons x xs)
  then show ?case using HasPrefix_sep [OF assms(1), of "x # xs" ys] by simp
qed

lemma Contains_colon:
  assumes "CHR '':'' \<notin> set sub" and "sub \<noteq> []"
  shows "Contains (ToLower (xs @ '': '' @ ys)) sub \<longleftrightarrow> Contains (ToLower xs) sub \<or> Contains (CHR '' '' # ToLower ys) sub"
  using Contains_sep [OF assms, of "ToLower xs" "CHR '' '' # ToLower ys"]
  by (simp add: ToLower_def lower_char_def)

lemma errno_kind:
  "Contains (CHR '' '' # ToLower (errno_text e)) ''not a directory'' \<longleftrightarrow> e = ENOTDIR"
  "Contains (CHR '' '' # ToLower (errno_text e)) ''is a directory'' \<longleftrightarrow> e = EISDIR"
  by (induction e; code_simp)+

lemma path_error_kind:
  assumes "\<not> mentions_kind msg"
  shows "Contains (ToLower (msg @ '': '' @ errno_text e)) ''not a directory'' \<longleftrightarrow> e = ENOTDIR"
    and "Contains (ToLower (msg @ '': '' @ errno_text e)) ''is a directory'' \<longleftrightarrow> e = EISDIR"
  using assms Contains_colon [of "''not a directory''" msg "errno_text e"]
    Contains_colon [of "''is a directory''" msg "errno_text e"]
  by (simp_all add: errno_kind mentions_kind_def del: Contains.simps(2))

lemma sentinel_kind:
  "\<not> Contains (ToLower ''is a directory'') ''not a directory''"
  "\<not> Contains (ToLower ''not a directory'') ''is a directory''"
  by code_simp+

lemma backend_error_code_aux:
  assumes "\<not> mentions_kind (error_subject err)"
  shows "\<exists>e. writeBackendError header err =
      (reply_header header OpcodeErrorResp (FlagResponse OR FlagError) (h_SessionID header), ReplyErrorResp e) \<and>
    ErrorResp_Code e = error_code err \<and> \<not> ErrorResp_Retryable e"
proof (cases err)
  case (PathError oper path e)
  then show ?thesis
    using path_error_kind [of "oper @ '' '' @ path" e] assms
    by (cases e) (simp_all add: writeBackendError_def writeError_def isNotDir_def isDir_def IsNotExist_def IsExist_def)
next
  case (LinkError oper old new e)
  then show ?thesis
    using path_error_kind [of "oper @ '' '' @ old @ '' '' @ new" e] assms
    by (cases e) (simp_all add: writeBackendError_def writeError_def isNotDir_def isDir_def IsNotExist_def IsExist_def)
qed (use assms in \<open>simp_all add: mentions_kind_def writeBackendError_def writeError_def isNotDir_def
      isDir_def IsNotExist_def IsExist_def sentinel_kind\<close>)

text \<open>
  C18: Backend errors reach the client under the code of their kind: a missing file is
  \<open>ErrNotFound\<close>, an existing one or a directory that is not empty \<open>ErrAlreadyExists\<close>, and so on,
  everything unforeseen (an I/O error, a permission error on looking a file up) is \<open>ErrInternal\<close>. The
  code tells directories and files apart by the text of the error, so this needs the paths in
  the error not to contain the phrases ``not a directory'' or ``is a directory''.
\<close>

theorem backend_error_code:
  assumes "\<not> mentions_kind (error_subject err)"
  shows "\<exists>e. writeBackendError header err =
      (reply_header header OpcodeErrorResp (FlagResponse OR FlagError) (h_SessionID header), ReplyErrorResp e) \<and>
    ErrorResp_Code e = error_code err \<and> \<not> ErrorResp_Retryable e"
  using assms by (rule backend_error_code_aux)

theorem backend_error_code_witness:
  "\<exists>e. snd (writeBackendError (sample_header ChannelData OpcodeOpenReq 7) (PathError ''open'' ''/w/a'' EISDIR)) =
     ReplyErrorResp e \<and> ErrorResp_Code e = ErrIsDir"
proof -
  have "\<not> mentions_kind (error_subject (PathError ''open'' ''/w/a'' EISDIR))" by code_simp
  from backend_error_code [OF this, of "sample_header ChannelData OpcodeOpenReq 7"] show ?thesis by auto
qed

text \<open>
  The classification by text goes wrong for some paths: an input/output error on a file whose
  name contains ``is a directory'' is reported as if the file were a directory.
\<close>

theorem error_text_misleads:
  "\<exists>e. snd (writeBackendError header (PathError ''read'' ''/w/is a directory.txt'' EIO)) = ReplyErrorResp e \<and>
     ErrorResp_Code e = ErrIsDir \<and> error_code (PathError ''read'' ''/w/is a directory.txt'' EIO) = ErrInternal"
proof -
  have "Contains (ToLower (error_text (PathError ''read'' ''/w/is a directory.txt'' EIO))) ''is a directory''"
    "\<not> Contains (ToLower (error_text (PathError ''read'' ''/w/is a directory.txt'' EIO))) ''not a directory''"
    by code_simp+
  then show ?thesis
    by (simp add: writeBackendError_def writeError_def isNotDir_def isDir_def IsNotExist_def IsExist_def)
qed

section \<open>Bounds on replies\<close>

lemma slice_cached_bound:
  assumes "slice_cached data offset n = (d, e)" and "n \<noteq> 0" and "\<not> offset < 0"
  shows "length d \<le> unat n"
proof (cases "int (length data) < offset")
  case False
  define stop where "stop = (if int (length data) < offset + uint n then int (length data) else offset + uint n)"
  have "d = take (nat (stop - offset)) (drop (nat offset) data)"
    using assms(1,2) False by (simp add: slice_cached_def Let_def stop_def split: if_splits)
  then have "length d \<le> nat (stop - offset)" by simp
  also have "\<dots> \<le> nat (uint n)" by (rule nat_mono) (simp add: stop_def)
  finally show ?thesis by (simp only: unat_eq_nat_uint)
qed (use assms in \<open>simp add: slice_cached_def\<close>)

lemma gap_bound: "int l < k + uint n \<Longrightarrow> \<not> k < 0 \<Longrightarrow> l - nat k \<le> unat (n :: u32)"
proof -
  assume a: "int l < k + uint n" "\<not> k < 0"
  then have "l - nat k \<le> nat (uint n)" by linarith
  then show ?thesis by (simp only: unat_eq_nat_uint)
qed

lemma read_open_file_bound:
  "read_open_file h offset n b = Inr (d, e) \<Longrightarrow> length d \<le> (if n = 0 then 4096 else unat n)"
  by (auto simp: read_open_file_def file_ReadAt_def Let_def split: sum.splits option.splits if_splits)

text \<open>
  C19: Replies are bounded by their requests: a successful read returns at most as many bytes as asked
  for (4096 where a writable handle is read without a length) and has a non-negative offset, and a
  page of a directory has at most as many entries as asked for (128 where no number is given).
\<close>

theorem replies_bounded:
  assumes "ReadFile handleID offset len b = (Inr (data, at_end), b')"
    and "ReadDir cursorID cookie maxEntries c = Inr page"
  shows "0 \<le> offset \<and> (len \<noteq> 0 \<longrightarrow> length data \<le> unat len) \<and>
    (len = 0 \<and> (\<exists>h. b_handles b handleID = Some h \<and> fh_writable h) \<longrightarrow> length data \<le> 4096) \<and>
    length (ReadDirResp_Entries page) \<le> (if maxEntries = 0 then 128 else unat maxEntries)"
proof -
  obtain h where h: "b_handles b handleID = Some h" and off: "0 \<le> offset"
    using assms(1) by (auto simp: ReadFile_def handleByID_def split: option.splits if_splits)
  have "length data \<le> unat len" if "len \<noteq> 0"
    using assms(1) that
    by (auto simp: ReadFile_def split: sum.splits option.splits if_splits prod.splits bool.splits
        dest: slice_cached_bound read_open_file_bound)
  moreover have "length data \<le> 4096" if "len = 0" "fh_writable h"
    using assms(1) that h off by (auto simp: ReadFile_def handleByID_def dest: read_open_file_bound)
  moreover have "length (ReadDirResp_Entries page) \<le> (if maxEntries = 0 then 128 else unat maxEntries)"
    using assms(2) by (auto simp: ReadDir_def Let_def gap_bound split: option.splits if_splits)
  ultimately show ?thesis using h off by auto
qed

theorem replies_bounded_witness:
  "length (fst (projr (fst (ReadFile 2001 0 1 sample_open)))) \<le> 1"
proof -
  let ?c = "sample_backend\<lparr>b_cursors := [1001 \<mapsto> \<lparr>dc_id = 1001, dc_nodeID = 1, dc_entries = [sample_entry ''a'' 1]\<rparr>]\<rparr>"
  have r: "ReadFile 2001 0 1 sample_open = (Inr ([104], False), sample_open)"
    by (simp add: ReadFile_def handleByID_def sample_open_def sample_handle_def read_open_file_def
        file_ReadAt_def tree_node_def)
  obtain page where "ReadDir 1001 0 5 ?c = Inr page" by (simp add: ReadDir_def Let_def)
  from replies_bounded [OF r this] show ?thesis by (simp add: r)
qed

end
