(* ===== verification/ReplyTypes.thy ===== *)
theory ReplyTypes
  imports ServerProps
begin

text \<open>
  The wire protocol as a type system: the opcode in the header of a reply tells the receiver how to decode
  the payload. Every reply the dispatcher produces is well typed.
\<close>

text \<open>The opcode a body travels under.\<close>

fun response_opcode :: "Response \<Rightarrow> Opcode" where
  "response_opcode (ReplyHelloResp _) = OpcodeHelloResp"
| "response_opcode (ReplyAuthResp _) = OpcodeAuthResp"
| "response_opcode (ReplyCreateSessionResp _) = OpcodeCreateSessionResp"
| "response_opcode (ReplyResumeSessionResp _) = OpcodeResumeSessionResp"
| "response_opcode (ReplyHeartbeatResp _) = OpcodeHeartbeatResp"
| "response_opcode (ReplyLookupResp _) = OpcodeLookupResp"
| "response_opcode (ReplyGetAttrResp _) = OpcodeGetAttrResp"
| "response_opcode (ReplyOpenDirResp _) = OpcodeOpenDirResp"
| "response_opcode (ReplyReadDirResp _) = OpcodeReadDirResp"
| "response_opcode (ReplyCloseDirResp _) = OpcodeCloseDirResp"
| "response_opcode (ReplyRenameResp _) = OpcodeRenameResp"
| "response_opcode (ReplyOpenResp _) = OpcodeOpenResp"
| "response_opcode (ReplyCreateResp _) = OpcodeCreateResp"
| "response_opcode (ReplyReadResp _) = OpcodeReadResp"
| "response_opcode (ReplyWriteResp _) = OpcodeWriteResp"
| "response_opcode (ReplyFlushResp _) = OpcodeFlushResp"
| "response_opcode (ReplyTruncateResp _) = OpcodeTruncateResp"
| "response_opcode (ReplySetDeleteOnCloseResp _) = OpcodeSetDeleteOnCloseResp"
| "response_opcode (ReplyCloseResp _) = OpcodeCloseResp"
| "response_opcode (ReplySubscribeResp _) = OpcodeSubscribeResp"
| "response_opcode (ReplyPollEventsResp _) = OpcodePollEventsResp"
| "response_opcode (ReplyAckEventsResp _) = OpcodeAckEventsResp"
| "response_opcode (ReplyResyncResp _) = OpcodeResyncResp"
| "response_opcode (ReplyRecoverHandlesResp _) = OpcodeRecoverHandlesResp"
| "response_opcode (ReplyRevalidateResp _) = OpcodeRevalidateResp"
| "response_opcode (ReplyResubscribeResp _) = OpcodeResubscribeResp"
| "response_opcode (ReplyErrorResp _) = OpcodeErrorResp"

text \<open>
  A reply is well typed if its body is of the type its opcode stands for, and the opcode is the one after
  the opcode of the request, or that of an error.
\<close>

definition well_typed :: "Header \<Rightarrow> reply \<Rightarrow> bool" where
  "well_typed header r \<longleftrightarrow>
     h_Opcode (fst r) = response_opcode (snd r) \<and>
     (h_Opcode (fst r) = OpcodeErrorResp \<or> h_Opcode (fst r) = h_Opcode header + 1)"

definition typed :: "Header \<Rightarrow> (Server \<Rightarrow> reply \<times> Server) \<Rightarrow> bool" where
  "typed header f \<longleftrightarrow> (\<forall>s. well_typed header (fst (f s)))"

lemma typed_writeError [simp]: "well_typed h (writeError h c m rt d)"
  by (simp add: well_typed_def writeError_def reply_header_def)

lemma typed_errors [simp]:
  "well_typed h (writeBackendError h err)" "well_typed h (writeWatchError h err)" "well_typed h (unsupported ch h)"
  by (simp_all add: writeBackendError_def writeWatchError_def unsupported_def)

lemma typed_writeResponse:
  "opc = response_opcode p \<Longrightarrow> opc = h_Opcode h + 1 \<Longrightarrow> well_typed h (writeResponse h opc i p)"
  by (simp add: well_typed_def writeResponse_def reply_header_def)

lemma typed_respond:
  "opc = response_opcode p \<Longrightarrow> opc = h_Opcode h + 1 \<Longrightarrow> typed h (respond h opc p)"
  by (simp add: typed_def respond_def typed_writeResponse)

lemma typed_with_payload: "(\<And>r. typed h (k r)) \<Longrightarrow> typed h (with_payload h what req k)"
  by (simp add: typed_def with_payload_def split: option.split)

lemma typed_on_backend: "(\<And>x. typed h (k x)) \<Longrightarrow> typed h (on_backend h oper k)"
  by (simp add: typed_def on_backend_def split: prod.split sum.split)

lemma typed_case_prod: "(\<And>a b. typed h (k a b)) \<Longrightarrow> typed h (case x of (a, b) \<Rightarrow> k a b)"
  by (cases x) simp

lemma typed_if: "(c \<Longrightarrow> typed h f) \<Longrightarrow> (\<not> c \<Longrightarrow> typed h g) \<Longrightarrow> typed h (if c then f else g)"
  by simp

lemma typed_refuse: "typed h (\<lambda>s. (unsupported ch h, s))"
  by (simp add: typed_def)

lemma typed_respond_to:
  "opc = h_Opcode h + 1 \<Longrightarrow> (\<And>s. opc = response_opcode (p s)) \<Longrightarrow> typed h (\<lambda>s. respond h opc (p s) (g s))"
  by (simp add: typed_def respond_def typed_writeResponse)

lemmas typed_intros =
  typed_if typed_with_payload typed_on_backend typed_case_prod typed_respond typed_respond_to typed_refuse

lemma typed_handle_rename: "h_Opcode h = OpcodeRenameReq \<Longrightarrow> typed h (handle_rename now h req)"
  unfolding handle_rename_def Let_def by (intro typed_intros) simp_all

lemma typed_handle_create: "h_Opcode h = OpcodeCreateReq \<Longrightarrow> typed h (handle_create now h req)"
  unfolding handle_create_def Let_def by (intro typed_intros) simp_all

lemma typed_handle_close: "h_Opcode h = OpcodeCloseReq \<Longrightarrow> typed h (handle_close now h req)"
  by (simp add: typed_def handle_close_def on_backend_def respond_def Let_def typed_writeResponse
      split: prod.split sum.split)

lemma typed_dispatchMetadata: "typed h (dispatchMetadata dec now h p)"
  unfolding dispatchMetadata_def Let_def by (intro typed_intros) (simp_all add: typed_handle_rename)

lemma typed_dispatchData: "typed h (dispatchData dec now h p)"
  unfolding dispatchData_def Let_def
  by (intro typed_intros) (simp_all add: typed_handle_create typed_handle_close)

lemma typed_dispatchEvents: "typed h (dispatchEvents dec h p)"
  unfolding dispatchEvents_def Let_def
  by (intro typed_if typed_with_payload typed_refuse)
    (simp_all add: typed_def respond_def typed_writeResponse handle_resync_def
      split: prod.split sum.split option.split)

lemma typed_dispatchRecovery: "typed h (dispatchRecovery dec h p)"
  unfolding dispatchRecovery_def Let_def
  by (intro typed_if typed_with_payload typed_refuse)
    (simp_all add: typed_def respond_def typed_writeResponse split: prod.split)

lemma typed_observed [simp]: "fst (observed what elapsed r s) = snd r"
  by (simp add: observed_def split: prod.split)

lemma typed_handle_hello:
  "h_Opcode h = OpcodeHelloReq \<Longrightarrow> well_typed h (snd (fst (handle_hello dec now h p st)))"
  by (simp add: handle_hello_def control_error_def typed_writeResponse Let_def split: option.split)

lemma typed_handle_auth:
  "h_Opcode h = OpcodeAuthReq \<Longrightarrow> well_typed h (snd (fst (handle_auth dec tok h p st)))"
  by (simp add: handle_auth_def control_error_def typed_writeResponse Let_def split: option.split)

lemma typed_handle_create_session:
  "h_Opcode h = OpcodeCreateSessionReq \<Longrightarrow> well_typed h (snd (fst (handle_create_session dec now h p st sm)))"
  by (simp add: handle_create_session_def control_error_def typed_writeResponse Let_def split: option.split prod.split)

lemma typed_handle_resume_session:
  "h_Opcode h = OpcodeResumeSessionReq \<Longrightarrow> well_typed h (snd (fst (handle_resume_session dec now h p st sm)))"
  by (simp add: handle_resume_session_def control_error_def typed_writeResponse Let_def split: option.split prod.split)

lemma typed_handle_heartbeat:
  "h_Opcode h = OpcodeHeartbeatReq \<Longrightarrow> well_typed h (snd (fst (handle_heartbeat dec now h p sm)))"
  by (simp add: handle_heartbeat_def control_error_def typed_writeResponse Let_def split: option.split prod.split)

lemma typed_dispatchControl: "well_typed h (fst (dispatchControl dec now el h p st s))"
  by (simp add: dispatchControl_def Let_def case_prod_unfold typed_handle_hello typed_handle_auth
      typed_handle_create_session typed_handle_resume_session typed_handle_heartbeat)

lemma typed_requireActiveSession: "pred_option (well_typed h) (requireActiveSession now h s)"
  by (simp add: requireActiveSession_def split: prod.split)

lemma typed_in_session:
  assumes "typed h k"
  shows "typed h (in_session now h k)"
  unfolding typed_def
proof
  fix s
  show "well_typed h (fst (in_session now h k s))"
    using assms typed_requireActiveSession [of h now s]
    by (cases "requireActiveSession now h s") (simp_all add: in_session_def typed_def)
qed

lemma typed_dispatch: "well_typed h (fst (dispatch dec now el h p st s))"
proof -
  note typed_channels = typed_in_session [OF typed_dispatchMetadata] typed_in_session [OF typed_dispatchData]
    typed_in_session [OF typed_dispatchEvents] typed_in_session [OF typed_dispatchRecovery]
  show ?thesis
    using typed_channels [unfolded typed_def] typed_dispatchControl
    by (simp add: dispatch_def Let_def case_prod_unfold)
qed

text \<open>
  C16: Replies are well typed: whatever the request, the body of the reply is of the type that the opcode of the
  reply stands for, and that opcode is the one after the opcode of the request, or the error opcode. So a
  client that decodes by the opcode of its own request never decodes a body of another type.
\<close>

theorem replies_well_typed:
  "\<exists>rh body. fst (dispatch dec now elapsed header payload state s) = (rh, body) \<and>
     h_Opcode rh = response_opcode body \<and>
     (h_Opcode rh = OpcodeErrorResp \<or> h_Opcode rh = h_Opcode header + 1)"
  using typed_dispatch by (metis well_typed_def prod.collapse)

end
