(* ===== verification/JournalEvents.thy ===== *)
theory JournalEvents
  imports ServerProps
begin

text \<open>
  What the journal tells. The events a request adds are computed from the request, the state before
  it and the reply; replaying them on the set of existing paths gives the set of paths after it.
\<close>

section \<open>The events of a request\<close>

text \<open>The path of a name below the node of a directory.\<close>

definition path_below :: "metadataBackend \<Rightarrow> u64 \<Rightarrow> string \<Rightarrow> string" where
  "path_below b parent name =
     (case b_nodesByID b parent of None \<Rightarrow> [] | Some rec \<Rightarrow> child_rel (nr_relPath rec) name)"

text \<open>The event of type \<open>ty\<close> on the file a handle was opened on.\<close>

definition on_handle :: "EventType \<Rightarrow> metadataBackend \<Rightarrow> u64 \<Rightarrow> WatchEvent list" where
  "on_handle ty b handleID =
     (case b_handles b handleID of
        None \<Rightarrow> []
      | Some h \<Rightarrow> [zero_event\<lparr>we_EventType := ty, we_NodeID := fh_nodeID h, we_ParentNodeID := fh_parentID h,
          we_Name := Base (fh_relPath h), we_Path := fh_relPath h\<rparr>])"

text \<open>
  The events that belong to a reply to the request \<open>payload\<close> in state \<open>b\<close>. A creation and a rename
  carry the node of the reply's entry; the rest of an event comes from the request and the tables.
\<close>

fun expected_events :: "decoders \<Rightarrow> bytes \<Rightarrow> metadataBackend \<Rightarrow> Response \<Rightarrow> WatchEvent list" where
  "expected_events dec payload b (ReplyCreateResp resp) =
     (case DecodePayload (dec_CreateReq dec) payload of None \<Rightarrow> [] | Some req \<Rightarrow>
        [zero_event\<lparr>we_EventType := EventCreate, we_NodeID := ni_NodeID (CreateResp_Entry resp),
           we_ParentNodeID := CreateReq_ParentNodeID req, we_Name := CreateReq_Name req,
           we_Path := path_below b (CreateReq_ParentNodeID req) (CreateReq_Name req)\<rparr>])"
| "expected_events dec payload b (ReplyRenameResp resp) =
     (case DecodePayload (dec_RenameReq dec) payload of None \<Rightarrow> [] | Some req \<Rightarrow>
        let old = path_below b (RenameReq_SrcParentNodeID req) (RenameReq_SrcName req);
            new = path_below b (RenameReq_DstParentNodeID req) (RenameReq_DstName req);
            e = zero_event\<lparr>we_NodeID := ni_NodeID (RenameResp_Entry resp),
                  we_OldParentNodeID := RenameReq_SrcParentNodeID req,
                  we_OldName := RenameReq_SrcName req, we_OldPath := old\<rparr>
        in [e\<lparr>we_EventType := EventRenameFrom, we_ParentNodeID := RenameReq_SrcParentNodeID req,
              we_Name := RenameReq_SrcName req, we_Path := old\<rparr>,
            e\<lparr>we_EventType := EventRenameTo, we_ParentNodeID := RenameReq_DstParentNodeID req,
              we_Name := RenameReq_DstName req, we_Path := new\<rparr>])"
| "expected_events dec payload b (ReplyFlushResp resp) =
     (case DecodePayload (dec_FlushReq dec) payload of None \<Rightarrow> [] | Some req \<Rightarrow>
        on_handle EventContentChanged b (FlushReq_HandleID req))"
| "expected_events dec payload b (ReplyTruncateResp resp) =
     (case DecodePayload (dec_TruncateReq dec) payload of None \<Rightarrow> [] | Some req \<Rightarrow>
        on_handle EventContentChanged b (TruncateReq_HandleID req))"
| "expected_events dec payload b (ReplyCloseResp resp) =
     (case DecodePayload (dec_CloseReq dec) payload of None \<Rightarrow> [] | Some req \<Rightarrow>
        (case b_handles b (CloseReq_HandleID req) of
           None \<Rightarrow> []
         | Some h \<Rightarrow> if fh_deleteOnClose h then on_handle EventDelete b (CloseReq_HandleID req) else []))"
| "expected_events dec payload b _ = []"

section \<open>Replaying events\<close>

text \<open>The paths that exist, and what a follower of the journal makes of them event by event.\<close>

definition existing :: "metadataBackend \<Rightarrow> string set" where
  "existing b = fst ` set (fs_paths (b_fs b))"

definition moved :: "string \<Rightarrow> string \<Rightarrow> string set \<Rightarrow> string set" where
  "moved a c ps = (if a = c then ps else move_path a c ` {q \<in> ps. q \<noteq> c \<and> \<not> HasPrefix q (c @ ''/'')})"

definition replay :: "metadataBackend \<Rightarrow> WatchEvent \<Rightarrow> string set \<Rightarrow> string set" where
  "replay b e ps =
     (if we_EventType e = EventCreate then insert (absPath b (we_Path e)) ps
      else if we_EventType e = EventRenameTo then moved (absPath b (we_OldPath e)) (absPath b (we_Path e)) ps
      else if we_EventType e = EventDelete then ps - {absPath b (we_Path e)}
      else ps)"

text \<open>The events that name a file that is there afterwards name it by its node.\<close>

definition named_by_node :: "metadataBackend \<Rightarrow> WatchEvent list \<Rightarrow> bool" where
  "named_by_node b evs \<longleftrightarrow> list_all (\<lambda>e. we_EventType e \<in> {EventCreate, EventRenameTo} \<longrightarrow>
     b_nodesByPath b (we_Path e) = Some (we_NodeID e)) evs"

text \<open>A file system in which no path that exists is reported missing, nor the directory it is in.\<close>

definition no_dangling :: "fs \<Rightarrow> bool" where
  "no_dangling f \<longleftrightarrow>
     list_all (\<lambda>(p, _). resolve f p \<noteq> Inl ENOENT \<and> resolve f (Dir p) \<noteq> Inl ENOENT) (fs_paths f)"

lemma fs_paths_touch_path [simp]: "fs_paths (touch_path p f) = fs_paths f"
  by (simp add: touch_path_def split: option.split)

lemma resolve_exists: "resolve f p = Inr (i, n) \<Longrightarrow> p \<in> fst ` set (fs_paths f)"
  by (auto simp: resolve_def inode_at_def split: option.splits dest!: map_of_SomeD intro: rev_image_eqI)

lemma fst_other_paths: "fst ` set (filter (\<lambda>(q, _). q \<noteq> p) xs) = fst ` set xs - {p}"
  by force

lemma existing_create:
  assumes "os_OpenFile wr True ex tr p f = (Inr file, f')"
  shows "fst ` set (fs_paths f') = insert p (fst ` set (fs_paths f))"
proof (cases "resolve f p")
  case (Inl e)
  then have "fs_paths f' = (p, fs_next f) # filter (\<lambda>(q, _). q \<noteq> p) (fs_paths f)"
    using assms by (auto simp: os_OpenFile_def Let_def split: sum.splits if_splits)
  then show ?thesis using fst_other_paths [of p "fs_paths f"] by simp
next
  case (Inr x)
  then have "fs_paths f' = fs_paths f"
    using assms by (auto simp: os_OpenFile_def Let_def split: sum.splits if_splits prod.splits)
  then show ?thesis using resolve_exists [of f p] Inr by (cases x) (auto simp: insert_absorb)
qed

lemma existing_rename:
  assumes "os_Rename a c f = (None, f')"
  shows "fst ` set (fs_paths f') = moved a c (fst ` set (fs_paths f))"
proof (cases "a = c")
  case True
  then show ?thesis using assms by (auto simp: os_Rename_def moved_def Let_def split: sum.splits if_splits)
next
  case False
  then have "fs_paths f' = map (\<lambda>(q, k). (move_path a c q, k))
      (filter (\<lambda>(q, _). q \<noteq> c \<and> \<not> HasPrefix q (c @ ''/'')) (fs_paths f))"
    using assms by (auto simp: os_Rename_def Let_def split: sum.splits if_splits)
  then show ?thesis using False by (force simp: moved_def image_iff)
qed

lemma existing_remove:
  assumes "os_Remove p f = (err, f')" and "err = None \<or> IsNotExist (the err)" and "no_dangling f"
  shows "fst ` set (fs_paths f') = fst ` set (fs_paths f) - {p}"
proof (cases err)
  case None
  then have "fs_paths f' = filter (\<lambda>(q, _). q \<noteq> p) (fs_paths f)"
    using assms(1) by (auto simp: os_Remove_def split: sum.splits if_splits)
  then show ?thesis using fst_other_paths [of p "fs_paths f"] by simp
next
  case (Some e)
  then have "f' = f" "resolve f p = Inl ENOENT \<or> resolve f (Dir p) = Inl ENOENT"
    using assms(1,2) by (auto simp: os_Remove_def IsNotExist_def split: sum.splits if_splits)
  then show ?thesis using assms(3) by (auto simp: no_dangling_def list_all_iff)
qed

section \<open>What the operations do to the paths\<close>

definition paths_of :: "metadataBackend \<Rightarrow> (string \<times> nat) list" where
  "paths_of b = fs_paths (b_fs b)"

lemma existing_paths: "existing b = fst ` set (paths_of b)"
  by (simp add: existing_def paths_of_def)

text \<open>Operations of the backend that leave all paths as they are.\<close>

lemma paths_env: "same_env b b' \<Longrightarrow> paths_of b' = paths_of b"
  by (simp add: same_env_def paths_of_def)

lemma paths_open: "os_OpenFile wr False ex tr p f = (r, f') \<Longrightarrow> fs_paths f' = fs_paths f"
  by (auto simp: os_OpenFile_def split: sum.splits if_splits)

lemma paths_write: "file_WriteAt file d k f = (r, f') \<Longrightarrow> fs_paths f' = fs_paths f"
  by (auto simp: file_WriteAt_def split: option.splits if_splits)

lemma paths_truncate: "file_Truncate file d f = (r, f') \<Longrightarrow> fs_paths f' = fs_paths f"
  by (auto simp: file_Truncate_def split: option.splits if_splits)

lemma paths_fs_update [simp]: "paths_of (b\<lparr>b_fs := f\<rparr>) = fs_paths f"
  by (simp add: paths_of_def)

lemma paths_tables [simp]:
  "paths_of (upd_handle i h b) = paths_of b" "paths_of (b\<lparr>b_handles := hs\<rparr>) = paths_of b"
  "paths_of (b\<lparr>b_cursors := cs\<rparr>) = paths_of b" "paths_of (snd (add_handle mk b)) = paths_of b"
  "paths_of (snd (add_cursor x b)) = paths_of b"
  by (simp_all add: paths_of_def upd_handle_def add_handle_def add_cursor_def case_prod_unfold Let_def)

lemma paths_caches [simp]:
  "paths_of (invalidateEntry p b) = paths_of b" "paths_of (invalidateDirSnapshot i b) = paths_of b"
  "paths_of (refreshNodeInfoAndPatchParent p i b) = paths_of b"
  "paths_of (upsertCachedDirSnapshot i e b) = paths_of b"
  "paths_of (b_stats_update g b) = paths_of b"
  by (rule paths_env, simp add: env_refreshNodeInfoAndPatchParent)+

lemmas pathsD = env_storeNodeInfoD [THEN paths_env, OF _ same_env_refl]
  env_loadSmallFileCacheD [THEN paths_env, OF _ same_env_refl]
  env_snapshotDirD [THEN paths_env, OF _ same_env_refl]
  env_LookupD [THEN paths_env, OF _ same_env_refl]
  env_GetAttrD [THEN paths_env, OF _ same_env_refl]
  env_RevalidateNodeD [THEN paths_env, OF _ same_env_refl]
  paths_open paths_write paths_truncate

lemma paths_add_handleD: "add_handle mk b = (i, b') \<Longrightarrow> paths_of b' = paths_of b"
  using paths_tables(4) [of mk b] by simp

lemma paths_add_cursorD: "add_cursor x b = (i, b') \<Longrightarrow> paths_of b' = paths_of b"
  using paths_tables(5) [of x b] by simp

lemma paths_Lookup [simp]: "paths_of (snd (Lookup i n b)) = paths_of b"
  by (metis prod.collapse pathsD(4))

lemma paths_GetAttr [simp]: "paths_of (snd (GetAttr i b)) = paths_of b"
  by (metis prod.collapse pathsD(5))

lemma paths_RevalidateNode [simp]: "paths_of (snd (RevalidateNode i b)) = paths_of b"
  by (metis prod.collapse pathsD(6))

lemma paths_OpenDir [simp]: "paths_of (snd (OpenDir i b)) = paths_of b"
  by (auto simp: OpenDir_def Let_def split: prod.split sum.split dest!: pathsD(3) paths_add_cursorD)

lemma paths_CloseDir [simp]: "paths_of (snd (CloseDir i b)) = paths_of b"
  by (simp add: CloseDir_def split: option.split)

lemma paths_OpenFile [simp]: "paths_of (snd (OpenFile i w t b)) = paths_of b"
  by (auto simp: OpenFile_def Let_def paths_of_def [of b] split: sum.split prod.split
      dest!: paths_open paths_add_handleD)

lemma paths_ReadFile [simp]: "paths_of (snd (ReadFile i k n b)) = paths_of b"
  by (auto simp: ReadFile_def split: sum.split prod.split option.split bool.split dest!: pathsD(2))

lemma paths_WriteFile [simp]: "paths_of (snd (WriteFile i k d b)) = paths_of b"
  by (auto simp: WriteFile_def Let_def paths_of_def [of b] split: sum.split prod.split option.split
      dest!: paths_write)

lemma paths_FlushHandle [simp]: "paths_of (snd (FlushHandle i b)) = paths_of b"
  by (auto simp: FlushHandle_def Let_def split: sum.split prod.split option.split dest!: pathsD(1))

lemma paths_TruncateHandle [simp]: "paths_of (snd (TruncateHandle i k b)) = paths_of b"
  by (auto simp: TruncateHandle_def Let_def paths_of_def [of b] split: sum.split prod.split option.split
      dest!: paths_truncate)

lemma paths_SetDeleteOnClose [simp]: "paths_of (snd (SetDeleteOnClose i e b)) = paths_of b"
  by (simp add: SetDeleteOnClose_def split: sum.split)

lemma paths_CloseHandle_kept:
  "(\<And>h. b_handles b i = Some h \<Longrightarrow> \<not> fh_deleteOnClose h) \<Longrightarrow> paths_of (snd (CloseHandle i b)) = paths_of b"
  by (auto simp: CloseHandle_def Let_def split: option.split)

lemma handles_patches [simp]:
  "b_handles (invalidateEntry p b) = b_handles b"
  "b_handles (refreshNodeInfoAndPatchParent p i b) = b_handles b"
  using env_refreshNodeInfoAndPatchParent [of b b p i] same_env_caches(6) [of b]
  by (simp_all add: same_env_def invalidateEntry_def Let_def)

lemma OpenFile_handle: "OpenFile i w t b = (Inr (hi, sz), b') \<Longrightarrow> b_handles b' hi \<noteq> None"
  by (auto simp: OpenFile_def add_handle_def Let_def split: sum.splits prod.splits if_splits)

lemma paths_RecoverFileHandle [simp]: "paths_of (snd (RecoverFileHandle i w d b)) = paths_of b"
proof (cases "OpenFile i w False b")
  case (Pair r b')
  have b': "paths_of b' = paths_of b" using paths_OpenFile [of i w False b] Pair by simp
  show ?thesis
  proof (cases r)
    case (Inr x)
    obtain hi sz where x: "x = (hi, sz)" by fastforce
    then obtain h where h: "b_handles b' hi = Some h" using OpenFile_handle Pair Inr by blast
    then have "SetDeleteOnClose hi True b' = (Inr (), upd_handle hi (h\<lparr>fh_deleteOnClose := True\<rparr>) b')"
      by (simp add: SetDeleteOnClose_def handleByID_def)
    then show ?thesis using Pair Inr x b' by (simp add: RecoverFileHandle_def)
  qed (simp add: RecoverFileHandle_def Pair b')
qed

lemma paths_recover_handles [simp]: "paths_of (snd (recover_handles specs b)) = paths_of b"
  by (induction specs arbitrary: b) (simp_all add: Let_def case_prod_unfold)

lemma paths_revalidate_nodes [simp]: "paths_of (snd (revalidate_nodes ids b)) = paths_of b"
  by (induction ids arbitrary: b) (simp_all add: Let_def case_prod_unfold)


text \<open>Caches, handles and snapshots leave the path table alone.\<close>

lemma byPath_caches [simp]:
  "b_nodesByPath (invalidateEntry p b) = b_nodesByPath b"
  "b_nodesByPath (upsertCachedDirSnapshot i e b) = b_nodesByPath b"
  "b_nodesByPath (snd (add_handle mk b)) = b_nodesByPath b"
  "b_nodesByPath (snd (storeNodeInfo p i j info b)) = b_nodesByPath b"
  by (simp_all add: invalidateEntry_def upsertCachedDirSnapshot_def add_handle_def storeNodeInfo_def put_attr_def
      clearNegative_def put_snapshot_def Let_def split: option.split)

lemma insert_node_path: "b_nodesByPath (snd (insert_node p hint b)) p = Some (fst (insert_node p hint b))"
  by (simp add: insert_node_def Let_def split: option.split)

lemma ensureNode_path:
  "clean_rel p \<Longrightarrow> p \<noteq> [] \<Longrightarrow> b_nodesByPath (snd (ensureNode p hint b)) p = Some (fst (ensureNode p hint b))"
  by (simp add: ensureNode_def Let_def insert_node_path case_prod_unfold split: option.split)

lemma existing_env: "same_env b b' \<Longrightarrow> existing b' = existing b"
  by (simp add: existing_def same_env_def)

lemma absPath_env: "same_env b b' \<Longrightarrow> absPath b' p = absPath b p"
  by (simp add: absPath_def same_env_def)

lemma CreateFile_effect:
  assumes "CreateFile parent name ow b = (Inr (entry, hid), b')" and "backend_inv b"
  shows "valid_name name \<and> ni_ParentNodeID entry = parent \<and> ni_Name entry = name \<and>
    b_nodesByPath b' (path_below b parent name) = Some (ni_NodeID entry) \<and>
    existing b' = insert (absPath b (path_below b parent name)) (existing b)"
proof -
  obtain rec info b1 where n: "valid_name name" "b_nodesByID b parent = Some rec"
    and i: "nodeInfoForPath (nr_relPath rec) (nr_parentID rec) b = (Inr info, b1)"
    using assms(1)
    by (auto simp: CreateFile_def nodeByID_def Let_def split: if_splits option.splits sum.splits prod.splits)
  let ?rel = "child_rel (nr_relPath rec) name"
  have rel: "clean_rel ?rel" "?rel \<noteq> []" "Base ?rel = name" "path_below b parent name = ?rel"
    using n assms(2) by (auto simp: backend_inv_def node_paths_ok_def path_below_def)
  have env: "same_env b b1" using env_nodeInfoForPathD [OF i] by simp
  obtain fh f where o: "os_OpenFile True True (\<not> ow) ow (absPath b1 ?rel) (b_fs b1) = (Inr fh, f)"
    using assms(1) n i
    by (auto simp: CreateFile_def nodeByID_def Let_def split: if_splits sum.splits prod.splits)
  obtain k b2 where e: "ensureNode ?rel parent (b1\<lparr>b_fs := f\<rparr>) = (k, b2)" by fastforce
  have b2: "b_nodesByPath b2 ?rel = Some k" "same_env (b1\<lparr>b_fs := f\<rparr>) b2"
    using ensureNode_path [OF rel(1,2), of parent "b1\<lparr>b_fs := f\<rparr>"] env_ensureNode [of "b1\<lparr>b_fs := f\<rparr>" ?rel parent] e
    by simp_all
  obtain st b3 where b3: "entry = nodeInfoFromOSInfo ?rel parent k st"
    "b' = upsertCachedDirSnapshot parent entry (snd (storeNodeInfo ?rel parent k st (invalidateEntry ?rel b3)))"
    "b_nodesByPath b3 = b_nodesByPath b2" "paths_of b3 = paths_of b2"
    using assms(1) n i o e paths_add_handleD [of _ b2]
    by (auto simp: CreateFile_def nodeByID_def add_handle_def storeNodeInfo_def paths_of_def Let_def
        split: if_splits sum.splits prod.splits)
  have "paths_of b' = fs_paths f"
    using b3 paths_env [OF b2(2)] by (metis pathsD(1) paths_caches(1,4) paths_fs_update prod.collapse)
  then have "existing b' = insert (absPath b ?rel) (existing b)"
    using existing_create [OF o] absPath_env [OF env] existing_env [OF env]
    by (simp add: existing_paths paths_of_def existing_def)
  then show ?thesis using n(1) rel b2(1) b3(1-3) by (simp add: nodeInfoFromOSInfo_def)
qed

lemma RenamePath_effect:
  assumes "RenamePath sp sn dp dn rep b = (Inr entry, b')" and "backend_inv b"
  shows "valid_name sn \<and> valid_name dn \<and>
    b_nodesByPath b' (path_below b dp dn) = Some (ni_NodeID entry) \<and>
    existing b' = moved (absPath b (path_below b sp sn)) (absPath b (path_below b dp dn)) (existing b)"
proof -
  obtain sr dr where n: "valid_name sn" "valid_name dn" "b_nodesByID b sp = Some sr" "b_nodesByID b dp = Some dr"
    using assms(1) by (auto simp: RenamePath_def nodeByID_def split: if_splits option.splits sum.splits)
  let ?src = "child_rel (nr_relPath sr) sn" and ?dst = "child_rel (nr_relPath dr) dn"
  have rel: "clean_rel ?dst" "?dst \<noteq> []" "path_below b sp sn = ?src" "path_below b dp dn = ?dst"
    using n assms(2) by (auto simp: backend_inv_def node_paths_ok_def path_below_def)
  obtain f where o: "os_Rename (absPath b ?src) (absPath b ?dst) (b_fs b) = (None, f)"
    using assms(1) n
    by (auto simp: RenamePath_def nodeByID_def Let_def split: if_splits sum.splits prod.splits option.splits)
  let ?b1 = "removeCachedDirSnapshotEntry sp sn (invalidateEntry ?dst (invalidateEntry ?src
    (movePathMapping ?src ?dst dp (b\<lparr>b_fs := f\<rparr>))))"
  obtain k b2 where e: "ensureNode ?dst dp ?b1 = (k, b2)" by fastforce
  have b2: "b_nodesByPath b2 ?dst = Some k" "same_env ?b1 b2"
    using ensureNode_path [OF rel(1,2), of dp ?b1] env_ensureNode [of ?b1 ?dst dp] e by simp_all
  obtain st where b3: "entry = nodeInfoFromOSInfo ?dst dp k st"
    "b' = upsertCachedDirSnapshot dp entry (snd (storeNodeInfo ?dst dp k st b2))"
    using assms(1) n o e
    by (auto simp: RenamePath_def nodeByID_def storeNodeInfo_def Let_def
        split: if_splits sum.splits prod.splits option.splits)
  have "same_env (b\<lparr>b_fs := f\<rparr>) ?b1" by simp
  then have "same_env (b\<lparr>b_fs := f\<rparr>) b2" using b2(2) same_env_trans by blast
  then have "paths_of b' = fs_paths f"
    using b3 paths_env by (metis pathsD(1) paths_caches(4) paths_fs_update prod.collapse)
  then have "existing b' = moved (absPath b ?src) (absPath b ?dst) (existing b)"
    using existing_rename [OF o] by (simp add: existing_paths paths_of_def existing_def)
  then show ?thesis using n rel b2(1) b3 by (simp add: nodeInfoFromOSInfo_def)
qed

lemma paths_removals [simp]:
  "paths_of (removePathMapping p b) = paths_of b" "paths_of (recordNegative p b) = paths_of b"
  "paths_of (removeCachedDirSnapshotEntry i n b) = paths_of b"
  by (rule paths_env, simp)+

lemma CloseHandle_effect:
  assumes "CloseHandle i b = (Inr u, b')" and "no_dangling (b_fs b)"
  shows "\<exists>h. b_handles b i = Some h \<and>
    existing b' = (if fh_deleteOnClose h then existing b - {absPath b (fh_relPath h)} else existing b)"
proof -
  obtain h where h: "b_handles b i = Some h" using assms(1) by (auto simp: CloseHandle_def split: option.splits)
  show ?thesis
  proof (cases "fh_deleteOnClose h")
    case True
    let ?p = "absPath b (fh_relPath h)"
    obtain err f where r: "os_Remove ?p (b_fs b) = (err, f)" by fastforce
    have "absPath (b\<lparr>b_handles := m\<rparr>) q = absPath b q" for m q by (simp add: absPath_def)
    then have "paths_of b' = fs_paths f" "err = None \<or> IsNotExist (the err)"
      using assms(1) h True r by (auto simp: CloseHandle_def Let_def split: option.splits if_splits)
    then show ?thesis
      using existing_remove [OF r _ assms(2)] h True by (simp add: existing_paths paths_of_def)
  next
    case False
    then have "paths_of b' = paths_of b" using paths_CloseHandle_kept [of b i] h assms(1) by simp
    then show ?thesis using h False by (simp add: existing_paths)
  qed
qed

section \<open>Requests that tell nothing\<close>

definition silent :: "Response \<Rightarrow> bool" where
  "silent body \<longleftrightarrow> (\<forall>dec payload b. expected_events dec payload b body = [])"

definition silent_step :: "Server \<Rightarrow> reply \<Rightarrow> Server \<Rightarrow> bool" where
  "silent_step s r s' \<longleftrightarrow>
     same_events (srv_Journal s) (srv_Journal s') \<and> silent (snd r) \<and>
     ((\<exists>e. snd r = ReplyErrorResp e) \<or> existing (srv_Backend s') = existing (srv_Backend s))"

definition silent_handler :: "(Server \<Rightarrow> reply \<times> Server) \<Rightarrow> bool" where
  "silent_handler f \<longleftrightarrow> (\<forall>s. silent_step s (fst (f s)) (snd (f s)))"

lemma silent_error [simp]: "silent (ReplyErrorResp e)"
  by (simp add: silent_def)

lemma body_errors [simp]:
  "\<exists>e. snd (writeError h c m rt d) = ReplyErrorResp e"
  "\<exists>e. snd (writeBackendError h err) = ReplyErrorResp e"
  "\<exists>e. snd (writeWatchError h werr) = ReplyErrorResp e"
  by (simp_all add: writeError_def writeBackendError_def writeWatchError_def)

lemma silent_writes [simp]:
  "silent (snd (writeError h c m rt d))" "silent (snd (writeBackendError h err))"
  "silent (snd (writeWatchError h werr))"
  by (metis body_errors silent_error)+

lemma silent_bodies [simp]:
  "silent (ReplySubscribeResp a)" "silent (ReplyPollEventsResp c)" "silent (ReplyAckEventsResp d)"
  "silent (ReplyResyncResp e)"
  by (simp_all add: silent_def)

lemma silent_step_error:
  "same_events (srv_Journal s) (srv_Journal s') \<Longrightarrow> \<exists>e. snd r = ReplyErrorResp e \<Longrightarrow> silent_step s r s'"
  by (auto simp: silent_step_def)

lemma body_respond [simp]: "snd (fst (respond h opc p s)) = p" "snd (respond h opc p s) = s"
  by (simp_all add: respond_def writeResponse_def)

lemma silent_respond: "silent p \<Longrightarrow> silent_handler (respond h opc p)"
  by (simp add: silent_handler_def silent_step_def)

lemma silent_unsupported: "silent_handler (\<lambda>s. (unsupported ch h, s))"
  by (simp add: silent_handler_def silent_step_error unsupported_def)

lemma silent_if: "(c \<Longrightarrow> silent_handler f) \<Longrightarrow> (\<not> c \<Longrightarrow> silent_handler g) \<Longrightarrow> silent_handler (if c then f else g)"
  by simp

lemma silent_split: "(\<And>a b. silent_handler (f a b)) \<Longrightarrow> silent_handler (case x of (a, b) \<Rightarrow> f a b)"
  by (simp split: prod.split)

lemma silent_with_payload: "(\<And>r. silent_handler (k r)) \<Longrightarrow> silent_handler (with_payload h what req k)"
  by (simp add: silent_handler_def with_payload_def silent_step_error split: option.split)

lemma silent_on_backend:
  assumes "\<And>b. paths_of (snd (oper b)) = paths_of b" and "\<And>x. silent_handler (k x)"
  shows "silent_handler (on_backend h oper k)"
  unfolding silent_handler_def
proof
  fix s :: Server
  obtain r b where r: "oper (srv_Backend s) = (r, b)" by fastforce
  have b: "existing b = existing (srv_Backend s)" using assms(1) [of "srv_Backend s"] r by (simp add: existing_paths)
  show "silent_step s (fst (on_backend h oper k s)) (snd (on_backend h oper k s))"
  proof (cases r)
    case (Inr x)
    have "silent_step (s\<lparr>srv_Backend := b\<rparr>) (fst (k x (s\<lparr>srv_Backend := b\<rparr>))) (snd (k x (s\<lparr>srv_Backend := b\<rparr>)))"
      using assms(2) by (simp add: silent_handler_def)
    then show ?thesis using Inr r b by (simp add: on_backend_def silent_step_def)
  qed (simp add: on_backend_def r silent_step_error)
qed

lemma silent_reading: "(\<And>x. silent_handler (k x)) \<Longrightarrow> silent_handler (on_backend h (reading oper) k)"
  by (rule silent_on_backend) (simp_all add: reading_def)

lemmas silent_rules = silent_if silent_split silent_unsupported silent_with_payload silent_reading
  silent_respond silent_on_backend

lemma silent_dispatchMetadata:
  "h_Opcode h \<noteq> OpcodeRenameReq \<Longrightarrow> silent_handler (dispatchMetadata dec now h p)"
  unfolding dispatchMetadata_def Let_def by (intro silent_rules) (simp_all add: silent_def)

lemma silent_dispatchData:
  "h_Opcode h \<notin> {OpcodeCreateReq, OpcodeFlushReq, OpcodeTruncateReq, OpcodeCloseReq} \<Longrightarrow>
    silent_handler (dispatchData dec now h p)"
  unfolding dispatchData_def Let_def by (intro silent_rules) (simp_all add: silent_def)

lemma silent_dispatchRecovery: "silent_handler (dispatchRecovery dec h p)"
  unfolding dispatchRecovery_def Let_def
  by (intro silent_rules)
     (auto simp: silent_handler_def silent_step_def silent_def case_prod_unfold existing_paths
       intro!: same_events_Resubscribe)

lemma existing_Resync:
  assumes "Resync w j b = Some (r, b')" and "backend_inv b"
  shows "existing b' = existing b"
proof -
  have "same_env b b''" if "SnapshotSubtree i rc b = Some (q, b'')" for i rc q b''
    using SnapshotSubtree_ends [OF assms(2), of i rc] that by (simp add: walk_ends_def)
  then have "same_env b b'"
    using assms(1) by (auto simp: Resync_def split: sum.splits option.splits prod.splits)
  then show ?thesis by (rule existing_env)
qed

lemma silent_dispatchEvents:
  assumes "backend_inv (srv_Backend s)"
  shows "silent_step s (fst (dispatchEvents dec h p s)) (snd (dispatchEvents dec h p s))"
proof -
  have sub: "same_events j j'" if "Subscribe b i rc j = (r, j')" for b i rc j r j'
    using same_events_Subscribe [of j b i rc] that by simp
  have ack: "same_events j j'" if "Ack w q j = (r, j')" for w q j r j'
    using same_events_Ack [of j w q] that by simp
  have "silent_step s (fst (handle_resync h req s)) (snd (handle_resync h req s))" for req
    using assms
    by (auto simp: handle_resync_def silent_step_def dest: existing_Resync split: option.split sum.split)
  then show ?thesis
    by (auto simp: dispatchEvents_def with_payload_def Let_def unsupported_def silent_step_def
        dest: sub ack split: option.split sum.split prod.split)
qed

section \<open>Requests that tell something\<close>

definition told :: "decoders \<Rightarrow> bytes \<Rightarrow> instant \<Rightarrow> Server \<Rightarrow> reply \<Rightarrow> Server \<Rightarrow> bool" where
  "told dec payload now s r s' \<longleftrightarrow>
     (let evs = expected_events dec payload (srv_Backend s) (snd r) in
      same_events (fold (Append now) evs (srv_Journal s)) (srv_Journal s') \<and>
      ((\<exists>e. snd r = ReplyErrorResp e) \<or>
       existing (srv_Backend s') = fold (replay (srv_Backend s)) evs (existing (srv_Backend s)) \<and>
       named_by_node (srv_Backend s') evs))"

lemma told_silent: "silent_step s r s' \<Longrightarrow> told dec payload now s r s'"
  by (simp add: told_def silent_step_def silent_def named_by_node_def)

lemma told_silent_handler: "silent_handler f \<Longrightarrow> f s = (r, s') \<Longrightarrow> told dec payload now s r s'"
  unfolding silent_handler_def by (metis fst_conv snd_conv told_silent)

lemma told_error:
  "same_events (srv_Journal s) (srv_Journal s') \<Longrightarrow> \<exists>e. snd r = ReplyErrorResp e \<Longrightarrow> told dec payload now s r s'"
  by (rule told_silent) (rule silent_step_error)

lemma stringsJoin_child: "clean_rel p \<Longrightarrow> valid_name n \<Longrightarrow> stringsJoin p n = child_rel p n"
  using path_Join_clean [of p n] by (simp add: stringsJoin_def child_rel_eq)

lemma told_create:
  assumes "DecodePayload (dec_CreateReq dec) payload = Some req" and "handle_create now h req s = (r, s')"
    and "backend_inv (srv_Backend s)" "b_nextNodeID (srv_Backend s') < 2 ^ 64"
  shows "told dec payload now s r s'"
proof (cases "CreateFile (CreateReq_ParentNodeID req) (CreateReq_Name req) (CreateReq_Overwrite req) (srv_Backend s)")
  case (Pair res b')
  show ?thesis
  proof (cases res)
    case (Inl err)
    then show ?thesis
      using Pair assms(2) by (auto simp: handle_create_def on_backend_def intro: told_error)
  next
    case (Inr x)
    obtain entry hid where x: "x = (entry, hid)" by fastforce
    note eff = CreateFile_effect [OF Pair [unfolded Inr x] assms(3)]
    have b': "srv_Backend s' = b'"
      using Pair Inr x assms(2) by (auto simp: handle_create_def on_backend_def journal_append_def Let_def respond_def)
    have "backend_inv b'"
      using inv_CreateFile [OF Pair assms(3)] by simp
    then have "node_maps_ok (b_nextNodeID b') (b_nodesByID b') (b_nodesByPath b')"
      using assms(4) b' by (simp add: backend_inv_def)
    then obtain rec where "b_nodesByID b' (ni_NodeID entry) = Some rec"
      "nr_relPath rec = path_below (srv_Backend s) (CreateReq_ParentNodeID req) (CreateReq_Name req)"
      using eff unfolding node_maps_ok_def by blast
    then have "RelPathByNodeID (ni_NodeID entry) b' =
        Inr (path_below (srv_Backend s) (CreateReq_ParentNodeID req) (CreateReq_Name req))"
      by (simp add: RelPathByNodeID_def nodeByID_def)
    then show ?thesis
      using Pair Inr x assms(1,2) eff
      by (auto simp: told_def handle_create_def on_backend_def journal_append_def Let_def respond_def
          writeResponse_def replay_def named_by_node_def)
  qed
qed

lemma told_rename:
  assumes "DecodePayload (dec_RenameReq dec) payload = Some req" and "handle_rename now h req s = (r, s')"
    and "backend_inv (srv_Backend s)"
  shows "told dec payload now s r s'"
proof -
  let ?b = "srv_Backend s"
  let ?sp = "RenameReq_SrcParentNodeID req" and ?dp = "RenameReq_DstParentNodeID req"
  let ?sn = "RenameReq_SrcName req" and ?dn = "RenameReq_DstName req"
  consider (err) "\<exists>e. snd r = ReplyErrorResp e" "same_events (srv_Journal s) (srv_Journal s')"
    | (ok) sr dr entry b' where "b_nodesByID ?b ?sp = Some sr" "b_nodesByID ?b ?dp = Some dr"
        "RenamePath ?sp ?sn ?dp ?dn (RenameReq_ReplaceExisting req) ?b = (Inr entry, b')"
    using assms(2)
    by (auto simp: handle_rename_def on_backend_def reading_def nodeByID_def Let_def
        split: option.splits sum.splits prod.splits)
  then show ?thesis
  proof cases
    case ok
    note eff = RenamePath_effect [OF ok(3) assms(3)]
    have "clean_rel (nr_relPath sr)" "clean_rel (nr_relPath dr)"
      using ok(1,2) assms(3) by (auto simp: backend_inv_def node_paths_ok_def)
    then have "stringsJoin (nr_relPath sr) ?sn = path_below ?b ?sp ?sn"
      "stringsJoin (nr_relPath dr) ?dn = path_below ?b ?dp ?dn"
      using ok(1,2) eff by (simp_all add: stringsJoin_child path_below_def)
    then show ?thesis
      using ok assms(1,2) eff
      by (auto simp: told_def handle_rename_def on_backend_def reading_def nodeByID_def journal_append_def Let_def
          respond_def writeResponse_def replay_def named_by_node_def zero_event_def)
  qed (rule told_error)
qed

lemma told_close:
  assumes "DecodePayload (dec_CloseReq dec) payload = Some req" and "handle_close now h req s = (r, s')"
    and "no_dangling (b_fs (srv_Backend s))"
  shows "told dec payload now s r s'"
proof (cases "CloseHandle (CloseReq_HandleID req) (srv_Backend s)")
  case (Pair res b')
  show ?thesis
  proof (cases res)
    case (Inl err)
    then show ?thesis
      using Pair assms(2) by (auto simp: handle_close_def on_backend_def Let_def intro: told_error)
  next
    case (Inr x)
    obtain fh where fh: "b_handles (srv_Backend s) (CloseReq_HandleID req) = Some fh"
      "existing b' = (if fh_deleteOnClose fh then existing (srv_Backend s) - {absPath (srv_Backend s) (fh_relPath fh)}
         else existing (srv_Backend s))"
      using CloseHandle_effect [OF Pair [unfolded Inr] assms(3)] by blast
    then show ?thesis
      using Pair Inr assms(1,2)
      by (auto simp: told_def handle_close_def on_backend_def handle_snapshot_def handleByID_def handle_event_def
          on_handle_def journal_append_def Let_def respond_def writeResponse_def replay_def named_by_node_def)
  qed
qed

text \<open>A flush or a truncation, which tells of changed contents.\<close>

lemma told_changed:
  assumes "on_backend h (reading (handle_snapshot i)) (\<lambda>snapshot. on_backend h oper (\<lambda>x s.
      respond h opc (p x) (journal_append now (handle_event EventContentChanged snapshot) s))) s = (r, s')"
    and "\<And>x. expected_events dec payload (srv_Backend s) (p x) = on_handle EventContentChanged (srv_Backend s) i"
    and "\<And>b. paths_of (snd (oper b)) = paths_of b"
  shows "told dec payload now s r s'"
proof (cases "b_handles (srv_Backend s) i")
  case None
  then show ?thesis
    using assms(1) by (auto simp: on_backend_def reading_def handle_snapshot_def handleByID_def intro: told_error)
next
  case (Some fh)
  obtain res b' where o: "oper (srv_Backend s) = (res, b')" by fastforce
  have "existing b' = existing (srv_Backend s)" using assms(3) [of "srv_Backend s"] o by (simp add: existing_paths)
  then show ?thesis
  proof (cases res)
    case (Inl err)
    then show ?thesis
      using assms(1) Some o
      by (auto simp: on_backend_def reading_def handle_snapshot_def handleByID_def intro: told_error)
  next
    case (Inr x)
    then show ?thesis
      using assms(1,2) Some o \<open>existing b' = existing (srv_Backend s)\<close>
      by (auto simp: told_def on_backend_def reading_def handle_snapshot_def handleByID_def handle_event_def
          on_handle_def journal_append_def respond_def writeResponse_def replay_def named_by_node_def)
  qed
qed

section \<open>Every request\<close>

lemma told_dispatchMetadata:
  assumes "dispatchMetadata dec now h p s = (r, s')" and "backend_inv (srv_Backend s)"
  shows "told dec p now s r s'"
proof (cases "h_Opcode h = OpcodeRenameReq")
  case True
  show ?thesis
  proof (cases "DecodePayload (dec_RenameReq dec) p")
    case None
    then show ?thesis
      using assms(1) True by (auto simp: dispatchMetadata_def with_payload_def intro: told_error)
  next
    case (Some req)
    then show ?thesis
      using assms True told_rename [OF Some] by (simp add: dispatchMetadata_def with_payload_def)
  qed
qed (use told_silent_handler [OF silent_dispatchMetadata assms(1)] in blast)

lemma told_payload:
  assumes "with_payload h what req k s = (r, s')" and "\<And>q. req = Some q \<Longrightarrow> k q s = (r, s') \<Longrightarrow> told dec p now s r s'"
  shows "told dec p now s r s'"
  using assms by (cases req) (auto simp: with_payload_def intro: told_error)

lemma told_dispatchData:
  assumes d: "dispatchData dec now h p s = (r, s')" and "backend_inv (srv_Backend s)"
    and "no_dangling (b_fs (srv_Backend s))" "b_nextNodeID (srv_Backend s') < 2 ^ 64"
  shows "told dec p now s r s'"
proof -
  consider "h_Opcode h = OpcodeCreateReq" | "h_Opcode h = OpcodeFlushReq" | "h_Opcode h = OpcodeTruncateReq"
    | "h_Opcode h = OpcodeCloseReq"
    | "h_Opcode h \<notin> {OpcodeCreateReq, OpcodeFlushReq, OpcodeTruncateReq, OpcodeCloseReq}"
    by blast
  then show ?thesis
  proof cases
    case 1
    then have "with_payload h ''create'' (DecodePayload (dec_CreateReq dec) p) (handle_create now h) s = (r, s')"
      using d by (simp add: dispatchData_def)
    then show ?thesis by (rule told_payload) (rule told_create [OF _ _ assms(2,4)])
  next
    case 2
    then have "with_payload h ''flush'' (DecodePayload (dec_FlushReq dec) p) (\<lambda>req.
        on_backend h (reading (handle_snapshot (FlushReq_HandleID req))) (\<lambda>snapshot.
        on_backend h (FlushHandle (FlushReq_HandleID req)) (\<lambda>_ s.
          respond h OpcodeFlushResp (ReplyFlushResp \<lparr>FlushResp_Flushed = True\<rparr>)
            (journal_append now (handle_event EventContentChanged snapshot) s)))) s = (r, s')"
      using d by (simp add: dispatchData_def)
    then show ?thesis by (rule told_payload) (erule told_changed, simp_all)
  next
    case 3
    then have "with_payload h ''truncate'' (DecodePayload (dec_TruncateReq dec) p) (\<lambda>req.
        on_backend h (reading (handle_snapshot (TruncateReq_HandleID req))) (\<lambda>snapshot.
        on_backend h (TruncateHandle (TruncateReq_HandleID req) (TruncateReq_Size req)) (\<lambda>sz s.
          respond h OpcodeTruncateResp (ReplyTruncateResp \<lparr>TruncateResp_Size = sz\<rparr>)
            (journal_append now (handle_event EventContentChanged snapshot) s)))) s = (r, s')"
      using d by (simp add: dispatchData_def)
    then show ?thesis by (rule told_payload) (erule told_changed, simp_all)
  next
    case 4
    then have "with_payload h ''close'' (DecodePayload (dec_CloseReq dec) p) (handle_close now h) s = (r, s')"
      using d by (simp add: dispatchData_def)
    then show ?thesis by (rule told_payload) (rule told_close [OF _ _ assms(3)])
  next
    case 5
    then show ?thesis by (rule told_silent_handler [OF silent_dispatchData d])
  qed
qed

lemma told_in_session:
  assumes "in_session now h f s = (r, s')" and "f s = (r, s') \<Longrightarrow> told dec p now s r s'"
  shows "told dec p now s r s'"
proof (cases "requireActiveSession now h s")
  case None
  then show ?thesis using assms by (simp add: in_session_def)
next
  case (Some err)
  then have "r = err" "s' = s" using assms(1) by (simp_all add: in_session_def)
  moreover have "\<exists>e. snd err = ReplyErrorResp e"
    using Some by (auto simp: requireActiveSession_def case_prod_unfold split: if_splits)
  ultimately show ?thesis by (simp add: told_error)
qed

lemma control_bodies:
  "silent (snd (snd (fst (handle_hello dec now h p st))))"
  "silent (snd (snd (fst (handle_auth dec tok h p st))))"
  "silent (snd (snd (fst (handle_create_session dec now h p st sm))))"
  "silent (snd (snd (fst (handle_resume_session dec now h p st sm))))"
  "silent (snd (snd (fst (handle_heartbeat dec now h p sm))))"
  by (simp_all add: handle_hello_def handle_auth_def handle_create_session_def control_error_def writeResponse_def
      handle_resume_session_def handle_heartbeat_def case_prod_unfold Let_def silent_def [of "ReplyHelloResp _"]
      silent_def [of "ReplyAuthResp _"] silent_def [of "ReplyCreateSessionResp _"]
      silent_def [of "ReplyResumeSessionResp _"] silent_def [of "ReplyHeartbeatResp _"] split: option.split)

lemma silent_control:
  "silent_step s (fst (dispatchControl dec now el h p st s)) (snd (snd (dispatchControl dec now el h p st s)))"
  by (simp add: silent_step_def dispatchControl_def observed_def Let_def case_prod_unfold control_bodies
      unsupported_def)

lemma told_dispatch:
  assumes d: "dispatch dec now elapsed h p st s = (r, st', s')" and "backend_inv (srv_Backend s)"
    and "no_dangling (b_fs (srv_Backend s))" "b_nextNodeID (srv_Backend s') < 2 ^ 64"
  shows "told dec p now s r s'"
proof (cases "h_Channel h = ChannelControl")
  case True
  then have "dispatchControl dec now elapsed h p st s = (r, st', s')" using d by (simp add: dispatch_def)
  then show ?thesis using told_silent [OF silent_control [of s dec now elapsed h p st]] by simp
next
  case False
  consider "in_session now h (dispatchMetadata dec now h p) s = (r, s')"
    | "in_session now h (dispatchData dec now h p) s = (r, s')"
    | "in_session now h (dispatchEvents dec h p) s = (r, s')"
    | "in_session now h (dispatchRecovery dec h p) s = (r, s')"
    | "s' = s" "\<exists>e. snd r = ReplyErrorResp e"
    using d False by (auto simp: dispatch_def Let_def case_prod_unfold split: if_splits)
  then show ?thesis
  proof cases
    case 1
    then show ?thesis by (rule told_in_session) (rule told_dispatchMetadata [OF _ assms(2)])
  next
    case 2
    then show ?thesis by (rule told_in_session) (rule told_dispatchData [OF _ assms(2-4)])
  next
    case 3
    then show ?thesis
      by (rule told_in_session) (metis fst_conv snd_conv told_silent silent_dispatchEvents [OF assms(2)])
  next
    case 4
    then show ?thesis by (rule told_in_session) (rule told_silent_handler [OF silent_dispatchRecovery])
  qed (simp add: told_error)
qed

text \<open>
  C17: The journal tells what happened to the files. The events a request adds to the journal are exactly
  those that belong to its reply (\<open>expected_events\<close>): one creation, the two halves of a rename with
  the old and the new path, a change of contents for a flush or a truncation, a deletion for a close
  exactly when the handle was marked for deletion, and none otherwise, errors included. They carry the
  node of the reply or of the handle and the paths the request names. If the reply is not an error,
  replaying them on the set of existing paths gives exactly the paths that exist afterwards, so no
  path appears, vanishes or moves unannounced, and a created or renamed file is known under the node
  its event names. Paths that change behind an error reply are not covered.
\<close>

theorem changes_are_journalled:
  assumes "server_inv s" and "no_dangling (b_fs (srv_Backend s))"
    and "dispatch dec now elapsed header payload st s = (r, st', s')"
    and "b_nextNodeID (srv_Backend s') < 2 ^ 64"
    and "evs = expected_events dec payload (srv_Backend s) (snd r)"
  shows "same_events (fold (Append now) evs (srv_Journal s)) (srv_Journal s') \<and>
    ((\<exists>e. snd r = ReplyErrorResp e) \<or>
     existing (srv_Backend s') = fold (replay (srv_Backend s)) evs (existing (srv_Backend s)) \<and>
     named_by_node (srv_Backend s') evs)"
  using told_dispatch [OF assms(3) _ assms(2,4)] assms(1,5) by (simp add: told_def server_inv_def Let_def)

text \<open>A server asked to create a file.\<close>

definition creating_decoders :: decoders where
  "creating_decoders = no_decoders\<lparr>dec_CreateReq :=
     (\<lambda>_. Some \<lparr>CreateReq_ParentNodeID = 1, CreateReq_Name = ''n'', CreateReq_Overwrite = False\<rparr>)\<rparr>"

definition sample_created :: "reply \<times> connectionState \<times> Server" where
  "sample_created = dispatch creating_decoders 100 0 (sample_header ChannelData OpcodeCreateReq 1001) []
     new_connection sample_busy"

lemma sample_created_reply:
  "(case snd (fst sample_created) of ReplyCreateResp resp \<Rightarrow> ni_NodeID (CreateResp_Entry resp) = 2 | _ \<Rightarrow> False)"
  by code_simp

lemma sample_created_counter: "b_nextNodeID (srv_Backend (snd (snd sample_created))) = 2"
  by code_simp

lemma sample_busy_paths:
  "no_dangling (b_fs (srv_Backend sample_busy))" "path_below (srv_Backend sample_busy) 1 ''n'' = ''n''"
  "absPath (srv_Backend sample_busy) ''n'' = ''/w/n''" "existing (srv_Backend sample_busy) = {''/'', ''/w''}"
  by code_simp+

theorem changes_are_journalled_witness:
  "existing (srv_Backend (snd (snd sample_created))) = {''/'', ''/w'', ''/w/n''} \<and>
   same_events (Append 100 (zero_event\<lparr>we_EventType := EventCreate, we_NodeID := 2, we_ParentNodeID := 1,
       we_Name := ''n'', we_Path := ''n''\<rparr>) (srv_Journal sample_busy)) (srv_Journal (snd (snd sample_created)))"
proof -
  have d: "dispatch creating_decoders 100 0 (sample_header ChannelData OpcodeCreateReq 1001) [] new_connection
      sample_busy = (fst sample_created, fst (snd sample_created), snd (snd sample_created))"
    by (simp add: sample_created_def)
  obtain resp where r: "snd (fst sample_created) = ReplyCreateResp resp" "ni_NodeID (CreateResp_Entry resp) = 2"
    using sample_created_reply by (auto split: Response.splits)
  have e: "expected_events creating_decoders [] (srv_Backend sample_busy) (snd (fst sample_created)) =
      [zero_event\<lparr>we_EventType := EventCreate, we_NodeID := 2, we_ParentNodeID := 1, we_Name := ''n'', we_Path := ''n''\<rparr>]"
    by (simp add: r creating_decoders_def DecodePayload_def sample_busy_paths(2))
  show ?thesis
    using changes_are_journalled [OF server_inv_busy sample_busy_paths(1) d _ e [symmetric]]
      sample_created_counter sample_busy_paths(3,4) r(1)
    by (auto simp: replay_def)
qed

end
