(* ===== verification/Client.thy ===== *)
theory Client
  imports Codec "HOL-Library.AList"
begin

text \<open>
  The protocol client of \<^verbatim>\<open>internal/clientcore\<close>: its runtime state with the tables of tracked
  handles, cursors, watches and nodes, the request/response exchange, and one operation per remote
  call. The far end of the connection is a parameter: what it does with a frame written to it and
  the bytes it sends back. The JSON encoder and the decoders of the response types are parameters
  too. A Go map that is iterated is an association list, whose order stands for the unspecified
  iteration order.
\<close>

section \<open>State\<close>

record TrackedHandle =
  th_HandleID :: u64
  th_NodeID :: u64
  th_Writable :: bool
  th_DeleteOnClose :: bool
  th_LastKnownSize :: int
  th_LastWriteAt :: "instant option"
  th_LastFlushAt :: "instant option"
  th_LastTruncateAt :: "instant option"

record TrackedDirCursor =
  tc_DirCursorID :: u64
  tc_NodeID :: u64

record TrackedWatch =
  tw_WatchID :: u64
  tw_NodeID :: u64
  tw_Recursive :: bool
  tw_LastAckedSeq :: u64
  tw_LastSeenSeq :: u64

record RecoverySnapshot =
  RecoverySnapshot_SessionID :: u64
  RecoverySnapshot_ClientInstanceID :: string
  RecoverySnapshot_Handles :: "RecoverHandleSpec list"
  RecoverySnapshot_NodeIDs :: "u64 list"
  RecoverySnapshot_Watches :: "ResubscribeSpec list"

type_synonym 'v table = "(u64 \<times> 'v) list"

text \<open>A \<^verbatim>\<open>time.Time\<close> that is still the zero time is \<open>None\<close>.\<close>

record RuntimeState =
  rs_ClientName :: string
  rs_ClientVersion :: string
  rs_ClientInstanceID :: string
  rs_MountName :: string
  rs_LeaseSeconds :: u32
  rs_SessionExpiresAt :: string
  rs_SessionState :: string
  rs_PrincipalID :: string
  rs_DisplayName :: string
  rs_GrantedFeatures :: "string list"
  rs_ServerName :: string
  rs_ServerVersion :: string
  rs_SelectedProtocolVersion :: u8
  rs_ServerCapabilities :: "string list"
  rs_TrackedHandles :: "TrackedHandle table"
  rs_TrackedDirCursors :: "TrackedDirCursor table"
  rs_TrackedWatches :: "TrackedWatch table"
  rs_TrackedNodes :: "u64 list"
  rs_LastHeartbeatAt :: "instant option"
  rs_LastHeartbeatError :: string

text \<open>\<open>cl_Conn\<close> is \<open>None\<close> for the nil connection, else the bytes received and not yet read.\<close>

record Client =
  cl_Addr :: string
  cl_Conn :: "bytes option"
  cl_SessionID :: u64
  cl_RootNodeID :: u64
  cl_nextReqID :: u64
  cl_state :: RuntimeState

definition New_client :: "string \<Rightarrow> Client" where
  "New_client addr =
     \<lparr>cl_Addr = addr, cl_Conn = None, cl_SessionID = 0, cl_RootNodeID = 1, cl_nextReqID = 1,
      cl_state =
        \<lparr>rs_ClientName = ''devmount-client'', rs_ClientVersion = ''0.6.0'', rs_ClientInstanceID = [],
         rs_MountName = ''workspace-dev'', rs_LeaseSeconds = 0, rs_SessionExpiresAt = [],
         rs_SessionState = [], rs_PrincipalID = [], rs_DisplayName = [], rs_GrantedFeatures = [],
         rs_ServerName = [], rs_ServerVersion = [], rs_SelectedProtocolVersion = 0,
         rs_ServerCapabilities = [], rs_TrackedHandles = [], rs_TrackedDirCursors = [],
         rs_TrackedWatches = [], rs_TrackedNodes = [1], rs_LastHeartbeatAt = None,
         rs_LastHeartbeatError = []\<rparr>\<rparr>"

definition Connect :: "(string \<Rightarrow> bool) \<Rightarrow> Client \<Rightarrow> bool \<times> Client" where
  "Connect dial c = (if dial (cl_Addr c) then (True, c\<lparr>cl_Conn := Some []\<rparr>) else (False, c))"

section \<open>Requests and errors\<close>

datatype Request =
    ReqHello HelloReq
  | ReqAuth AuthReq
  | ReqCreateSession CreateSessionReq
  | ReqResumeSession ResumeSessionReq
  | ReqHeartbeat HeartbeatReq
  | ReqLookup LookupReq
  | ReqGetAttr GetAttrReq
  | ReqOpenDir OpenDirReq
  | ReqReadDir ReadDirReq
  | ReqCloseDir CloseDirReq
  | ReqRename RenameReq
  | ReqOpen OpenReq
  | ReqCreate CreateReq
  | ReqRead ReadReq
  | ReqWrite WriteReq
  | ReqFlush FlushReq
  | ReqTruncate TruncateReq
  | ReqSetDeleteOnClose SetDeleteOnCloseReq
  | ReqClose CloseReq
  | ReqSubscribe SubscribeReq
  | ReqPollEvents PollEventsReq
  | ReqAckEvents AckEventsReq
  | ReqResync ResyncReq
  | ReqRecoverHandles RecoverHandlesReq
  | ReqRevalidate RevalidateReq
  | ReqResubscribe ResubscribeReq

record resp_decoders =
  dec_HelloResp :: "bytes \<Rightarrow> HelloResp option"
  dec_AuthResp :: "bytes \<Rightarrow> AuthResp option"
  dec_CreateSessionResp :: "bytes \<Rightarrow> CreateSessionResp option"
  dec_ResumeSessionResp :: "bytes \<Rightarrow> ResumeSessionResp option"
  dec_HeartbeatResp :: "bytes \<Rightarrow> HeartbeatResp option"
  dec_LookupResp :: "bytes \<Rightarrow> LookupResp option"
  dec_GetAttrResp :: "bytes \<Rightarrow> GetAttrResp option"
  dec_OpenDirResp :: "bytes \<Rightarrow> OpenDirResp option"
  dec_ReadDirResp :: "bytes \<Rightarrow> ReadDirResp option"
  dec_CloseDirResp :: "bytes \<Rightarrow> CloseDirResp option"
  dec_RenameResp :: "bytes \<Rightarrow> RenameResp option"
  dec_OpenResp :: "bytes \<Rightarrow> OpenResp option"
  dec_CreateResp :: "bytes \<Rightarrow> CreateResp option"
  dec_ReadResp :: "bytes \<Rightarrow> ReadResp option"
  dec_WriteResp :: "bytes \<Rightarrow> WriteResp option"
  dec_FlushResp :: "bytes \<Rightarrow> FlushResp option"
  dec_TruncateResp :: "bytes \<Rightarrow> TruncateResp option"
  dec_SetDeleteOnCloseResp :: "bytes \<Rightarrow> SetDeleteOnCloseResp option"
  dec_CloseResp :: "bytes \<Rightarrow> CloseResp option"
  dec_SubscribeResp :: "bytes \<Rightarrow> SubscribeResp option"
  dec_PollEventsResp :: "bytes \<Rightarrow> PollEventsResp option"
  dec_AckEventsResp :: "bytes \<Rightarrow> AckEventsResp option"
  dec_ResyncResp :: "bytes \<Rightarrow> ResyncResp option"
  dec_RecoverHandlesResp :: "bytes \<Rightarrow> RecoverHandlesResp option"
  dec_RevalidateResp :: "bytes \<Rightarrow> RevalidateResp option"
  dec_ResubscribeResp :: "bytes \<Rightarrow> ResubscribeResp option"
  dec_ErrorResp :: "bytes \<Rightarrow> ErrorResp option"

datatype client_error =
    NotConnected
  | MarshalError
  | WriteError
  | ReadError frame_error
  | RequestIDMismatch u64 u64
  | DecodeErrorPayload
  | ServerError ErrorCode string
  | DecodeError

text \<open>
  What a client runs in: the far end (\<open>None\<close> when the write fails, else the bytes it sends in answer
  to a frame), the JSON encoder and decoders, the time, and what the errors of the libraries say.
\<close>

record 'w client_env =
  ce_peer :: "bytes \<Rightarrow> 'w \<Rightarrow> bytes option \<times> 'w"
  ce_marshal :: "Request \<Rightarrow> bytes option"
  ce_dec :: resp_decoders
  ce_now :: instant
  ce_libtext :: "client_error \<Rightarrow> string"

type_synonym ('w, 'r) call = "Client \<times> 'w \<Rightarrow> (client_error + 'r) \<times> Client \<times> 'w"

section \<open>The exchange\<close>

text \<open>What \<^verbatim>\<open>DecodeFrame\<close> leaves unread, also when it fails.\<close>

definition frame_rest :: "bytes \<Rightarrow> bytes" where
  "frame_rest r =
     (if length r < 4 then []
      else
        let n = Uint32 (take 4 r) in
        if n < of_nat HeaderLength then drop 4 r else drop (4 + unat n) r)"

definition DecodeInto :: "(bytes \<Rightarrow> 'r option) \<Rightarrow> bytes \<Rightarrow> client_error + 'r" where
  "DecodeInto unmarshal payload =
     (case DecodePayload unmarshal payload of None \<Rightarrow> Inl DecodeError | Some resp \<Rightarrow> Inr resp)"

definition request_header :: "Channel \<Rightarrow> Opcode \<Rightarrow> u64 \<Rightarrow> u64 \<Rightarrow> Header" where
  "request_header channel opcode requestID sessionID =
     \<lparr>h_Magic = replicate 4 0, h_Version = 0, h_HeaderLength = 0, h_Channel = channel,
      h_Opcode = opcode, h_Flags = FlagRequest, h_RequestID = requestID, h_SessionID = sessionID,
      h_PayloadLength = 0\<rparr>"

definition check_reply ::
  "resp_decoders \<Rightarrow> (bytes \<Rightarrow> 'r option) \<Rightarrow> u64 \<Rightarrow> Header \<Rightarrow> bytes \<Rightarrow> client_error + 'r" where
  "check_reply dec unmarshal requestID respHeader payload =
     (if h_RequestID respHeader \<noteq> requestID
        then Inl (RequestIDMismatch requestID (h_RequestID respHeader))
      else if h_Flags respHeader AND FlagError \<noteq> 0 then
        (case DecodePayload (dec_ErrorResp dec) payload of
           None \<Rightarrow> Inl DecodeErrorPayload
         | Some e \<Rightarrow> Inl (ServerError (ErrorResp_Code e) (ErrorResp_Message e)))
      else DecodeInto unmarshal payload)"

definition request ::
  "'w client_env \<Rightarrow> (bytes \<Rightarrow> 'r option) \<Rightarrow> Channel \<Rightarrow> Opcode \<Rightarrow> Request \<Rightarrow> ('w, 'r) call" where
  "request env unmarshal channel opcode reqPayload = (\<lambda>(c, w).
     case cl_Conn c of
       None \<Rightarrow> (Inl NotConnected, c, w)
     | Some input \<Rightarrow>
         let requestID = cl_nextReqID c + 1;
             c = c\<lparr>cl_nextReqID := requestID\<rparr>;
             header = request_header channel opcode requestID (cl_SessionID c) in
         (case EncodeFrame (ce_marshal env) header reqPayload of
            None \<Rightarrow> (Inl MarshalError, c, w)
          | Some frame \<Rightarrow>
              (case ce_peer env frame w of
                 (None, w) \<Rightarrow> (Inl WriteError, c, w)
               | (Some received, w) \<Rightarrow>
                   let input = input @ received;
                       c = c\<lparr>cl_Conn := Some (frame_rest input)\<rparr> in
                   (case DecodeFrame input of
                      Inl err \<Rightarrow> (Inl (ReadError err), c, w)
                    | Inr ((respHeader, payload), _) \<Rightarrow>
                        (check_reply (ce_dec env) unmarshal requestID respHeader payload, c, w)))))"

text \<open>A call that updates the state of the client when it succeeds.\<close>

definition requestDecode ::
  "'w client_env \<Rightarrow> (resp_decoders \<Rightarrow> bytes \<Rightarrow> 'r option) \<Rightarrow> Channel \<Rightarrow> Opcode \<Rightarrow> Request \<Rightarrow>
    ('r \<Rightarrow> Client \<Rightarrow> Client) \<Rightarrow> ('w, 'r) call" where
  "requestDecode env unmarshal channel opcode reqPayload k cw =
     (case request env (unmarshal (ce_dec env)) channel opcode reqPayload cw of
        (Inl err, cw) \<Rightarrow> (Inl err, cw)
      | (Inr resp, c, w) \<Rightarrow> (Inr resp, k resp c, w))"

section \<open>Tracking\<close>

definition on_state :: "(RuntimeState \<Rightarrow> RuntimeState) \<Rightarrow> Client \<Rightarrow> Client" where
  "on_state f c = c\<lparr>cl_state := f (cl_state c)\<rparr>"

definition add_node :: "u64 \<Rightarrow> RuntimeState \<Rightarrow> RuntimeState" where
  "add_node nodeID s =
     (if nodeID = 0 then s else s\<lparr>rs_TrackedNodes := List.insert nodeID (rs_TrackedNodes s)\<rparr>)"

definition trackNodeIDs :: "u64 list \<Rightarrow> Client \<Rightarrow> Client" where
  "trackNodeIDs nodeIDs = on_state (fold add_node nodeIDs)"

definition put_handle :: "u64 \<Rightarrow> TrackedHandle \<Rightarrow> RuntimeState \<Rightarrow> RuntimeState" where
  "put_handle handleID h s = s\<lparr>rs_TrackedHandles := AList.update handleID h (rs_TrackedHandles s)\<rparr>"

definition updateHandle :: "TrackedHandle \<Rightarrow> Client \<Rightarrow> Client" where
  "updateHandle h = on_state (\<lambda>s. add_node (th_NodeID h) (put_handle (th_HandleID h) h s))"

definition change_handle :: "u64 \<Rightarrow> (TrackedHandle \<Rightarrow> TrackedHandle) \<Rightarrow> Client \<Rightarrow> Client" where
  "change_handle handleID f = on_state (\<lambda>s.
     case map_of (rs_TrackedHandles s) handleID of
       None \<Rightarrow> s
     | Some h \<Rightarrow> put_handle handleID (f h) s)"

definition setHandleDeleteOnClose :: "u64 \<Rightarrow> bool \<Rightarrow> Client \<Rightarrow> Client" where
  "setHandleDeleteOnClose handleID enabled = change_handle handleID (\<lambda>h. h\<lparr>th_DeleteOnClose := enabled\<rparr>)"

definition markHandleWrite :: "instant \<Rightarrow> u64 \<Rightarrow> int \<Rightarrow> Client \<Rightarrow> Client" where
  "markHandleWrite now handleID sz =
     change_handle handleID (\<lambda>h. h\<lparr>th_LastKnownSize := sz, th_LastWriteAt := Some now\<rparr>)"

definition markHandleFlush :: "instant \<Rightarrow> u64 \<Rightarrow> Client \<Rightarrow> Client" where
  "markHandleFlush now handleID = change_handle handleID (\<lambda>h. h\<lparr>th_LastFlushAt := Some now\<rparr>)"

definition markHandleTruncate :: "instant \<Rightarrow> u64 \<Rightarrow> int \<Rightarrow> Client \<Rightarrow> Client" where
  "markHandleTruncate now handleID sz =
     change_handle handleID (\<lambda>h. h\<lparr>th_LastKnownSize := sz, th_LastTruncateAt := Some now\<rparr>)"

definition removeHandle :: "u64 \<Rightarrow> Client \<Rightarrow> Client" where
  "removeHandle handleID =
     on_state (\<lambda>s. s\<lparr>rs_TrackedHandles := AList.delete handleID (rs_TrackedHandles s)\<rparr>)"

definition updateDirCursor :: "TrackedDirCursor \<Rightarrow> Client \<Rightarrow> Client" where
  "updateDirCursor cursor = on_state (\<lambda>s.
     add_node (tc_NodeID cursor)
       (s\<lparr>rs_TrackedDirCursors := AList.update (tc_DirCursorID cursor) cursor (rs_TrackedDirCursors s)\<rparr>))"

definition removeDirCursor :: "u64 \<Rightarrow> Client \<Rightarrow> Client" where
  "removeDirCursor dirCursorID =
     on_state (\<lambda>s. s\<lparr>rs_TrackedDirCursors := AList.delete dirCursorID (rs_TrackedDirCursors s)\<rparr>)"

definition put_watch :: "u64 \<Rightarrow> TrackedWatch \<Rightarrow> RuntimeState \<Rightarrow> RuntimeState" where
  "put_watch watchID w s = s\<lparr>rs_TrackedWatches := AList.update watchID w (rs_TrackedWatches s)\<rparr>"

definition updateWatch :: "TrackedWatch \<Rightarrow> Client \<Rightarrow> Client" where
  "updateWatch watch = on_state (\<lambda>s. add_node (tw_NodeID watch) (put_watch (tw_WatchID watch) watch s))"

definition change_watch :: "u64 \<Rightarrow> (TrackedWatch \<Rightarrow> TrackedWatch) \<Rightarrow> Client \<Rightarrow> Client" where
  "change_watch watchID f = on_state (\<lambda>s.
     case map_of (rs_TrackedWatches s) watchID of
       None \<Rightarrow> s
     | Some watch \<Rightarrow> put_watch watchID (f watch) s)"

definition markWatchSeen :: "u64 \<Rightarrow> u64 \<Rightarrow> Client \<Rightarrow> Client" where
  "markWatchSeen watchID latest =
     change_watch watchID (\<lambda>w. w\<lparr>tw_LastSeenSeq := max (tw_LastSeenSeq w) latest\<rparr>)"

definition markWatchAcked :: "u64 \<Rightarrow> u64 \<Rightarrow> Client \<Rightarrow> Client" where
  "markWatchAcked watchID ackedSeq =
     change_watch watchID (\<lambda>w. w\<lparr>tw_LastAckedSeq := max (tw_LastAckedSeq w) ackedSeq,
                                 tw_LastSeenSeq := max (tw_LastSeenSeq w) ackedSeq\<rparr>)"

section \<open>Recovery\<close>

definition handle_spec :: "TrackedHandle \<Rightarrow> RecoverHandleSpec" where
  "handle_spec h =
     \<lparr>RecoverHandleSpec_PreviousHandleID = th_HandleID h, RecoverHandleSpec_NodeID = th_NodeID h,
      RecoverHandleSpec_Writable = th_Writable h, RecoverHandleSpec_DeleteOnClose = th_DeleteOnClose h\<rparr>"

definition watch_spec :: "TrackedWatch \<Rightarrow> ResubscribeSpec" where
  "watch_spec w =
     \<lparr>ResubscribeSpec_PreviousWatchID = tw_WatchID w, ResubscribeSpec_NodeID = tw_NodeID w,
      ResubscribeSpec_Recursive = tw_Recursive w,
      ResubscribeSpec_AfterSeq = max (tw_LastAckedSeq w) (tw_LastSeenSeq w)\<rparr>"

text \<open>The entries of a table by increasing key.\<close>

definition in_key_order :: "'v table \<Rightarrow> 'v list" where
  "in_key_order t = map (\<lambda>k. the (map_of t k)) (sort (map fst t))"

definition recoverySnapshot :: "u64 \<Rightarrow> RuntimeState \<Rightarrow> RecoverySnapshot" where
  "recoverySnapshot sessionID s =
     \<lparr>RecoverySnapshot_SessionID = sessionID,
      RecoverySnapshot_ClientInstanceID = rs_ClientInstanceID s,
      RecoverySnapshot_Handles = map handle_spec (in_key_order (rs_TrackedHandles s)),
      RecoverySnapshot_NodeIDs = sort (rs_TrackedNodes s),
      RecoverySnapshot_Watches = map watch_spec (in_key_order (rs_TrackedWatches s))\<rparr>"

definition SnapshotRecoveryState :: "Client \<Rightarrow> RecoverySnapshot" where
  "SnapshotRecoveryState c = recoverySnapshot (cl_SessionID c) (cl_state c)"

definition lookupRecoveredWritable :: "u64 \<Rightarrow> TrackedHandle table \<Rightarrow> bool" where
  "lookupRecoveredWritable nodeID handles =
     (case find (\<lambda>h. th_NodeID h = nodeID) (map snd handles) of None \<Rightarrow> False | Some h \<Rightarrow> th_Writable h)"

definition apply_recovered_handle :: "RecoverHandleResult \<Rightarrow> RuntimeState \<Rightarrow> RuntimeState" where
  "apply_recovered_handle result s =
     (let prevID = RecoverHandleResult_PreviousHandleID result;
          previous = map_of (rs_TrackedHandles s) prevID;
          s = (if prevID \<noteq> 0
               then s\<lparr>rs_TrackedHandles := AList.delete prevID (rs_TrackedHandles s)\<rparr> else s)
      in if RecoverHandleResult_Error result \<noteq> [] \<or> RecoverHandleResult_HandleID result = 0 then s
         else
           let writable = (case previous of
                 None \<Rightarrow> lookupRecoveredWritable (RecoverHandleResult_NodeID result) (rs_TrackedHandles s)
               | Some p \<Rightarrow> th_Writable p);
               hid = RecoverHandleResult_HandleID result
           in add_node (RecoverHandleResult_NodeID result)
                (put_handle hid
                  \<lparr>th_HandleID = hid, th_NodeID = RecoverHandleResult_NodeID result,
                   th_Writable = writable,
                   th_DeleteOnClose = (RecoverHandleResult_DeleteOnClose result \<or>
                     (case previous of None \<Rightarrow> False | Some p \<Rightarrow> th_DeleteOnClose p)),
                   th_LastKnownSize = RecoverHandleResult_Size result,
                   th_LastWriteAt = None, th_LastFlushAt = None, th_LastTruncateAt = None\<rparr> s))"

definition applyRecoveredHandles :: "RecoverHandleResult list \<Rightarrow> Client \<Rightarrow> Client" where
  "applyRecoveredHandles results = on_state (fold apply_recovered_handle results)"

definition zero_watch :: TrackedWatch where
  "zero_watch = \<lparr>tw_WatchID = 0, tw_NodeID = 0, tw_Recursive = False, tw_LastAckedSeq = 0, tw_LastSeenSeq = 0\<rparr>"

definition apply_resubscribed_watch :: "ResubscribeResult \<Rightarrow> RuntimeState \<Rightarrow> RuntimeState" where
  "apply_resubscribed_watch result s =
     (let prevID = ResubscribeResult_PreviousWatchID result;
          previous = (case map_of (rs_TrackedWatches s) prevID of None \<Rightarrow> zero_watch | Some p \<Rightarrow> p);
          s = s\<lparr>rs_TrackedWatches := AList.delete prevID (rs_TrackedWatches s)\<rparr>
      in if ResubscribeResult_Error result \<noteq> [] \<or> ResubscribeResult_WatchID result = 0 then s
         else
           add_node (tw_NodeID previous)
             (put_watch (ResubscribeResult_WatchID result)
               \<lparr>tw_WatchID = ResubscribeResult_WatchID result, tw_NodeID = tw_NodeID previous,
                tw_Recursive = tw_Recursive previous,
                tw_LastAckedSeq = max (tw_LastAckedSeq previous) (ResubscribeResult_AckedSeq result),
                tw_LastSeenSeq = max (tw_LastSeenSeq previous) (ResubscribeResult_StartSeq result)\<rparr> s))"

definition applyResubscribedWatches :: "ResubscribeResult list \<Rightarrow> Client \<Rightarrow> Client" where
  "applyResubscribedWatches results = on_state (fold apply_resubscribed_watch results)"

section \<open>Session calls\<close>

definition SnapshotState :: "Client \<Rightarrow> RuntimeState" where
  "SnapshotState c = cl_state c"

definition Client_Hello :: "'w client_env \<Rightarrow> ('w, HelloResp) call" where
  "Client_Hello env = (\<lambda>(c, w).
     let state = SnapshotState c in
     requestDecode env dec_HelloResp ChannelControl OpcodeHelloReq
       (ReqHello \<lparr>HelloReq_ClientName = rs_ClientName state, HelloReq_ClientVersion = rs_ClientVersion state,
          HelloReq_SupportedProtocolVersions = [Version], HelloReq_Capabilities = DefaultCapabilities\<rparr>)
       (\<lambda>resp. on_state (\<lambda>s. s\<lparr>rs_ServerName := HelloResp_ServerName resp,
          rs_ServerVersion := HelloResp_ServerVersion resp,
          rs_SelectedProtocolVersion := HelloResp_SelectedProtocolVersion resp,
          rs_ServerCapabilities := CapabilitySet_Features (HelloResp_Capabilities resp)\<rparr>))
       (c, w))"

definition Client_Auth :: "'w client_env \<Rightarrow> string \<Rightarrow> ('w, AuthResp) call" where
  "Client_Auth env token =
     requestDecode env dec_AuthResp ChannelControl OpcodeAuthReq
       (ReqAuth \<lparr>AuthReq_Scheme = ''dev-token'', AuthReq_Token = token\<rparr>)
       (\<lambda>resp. on_state (\<lambda>s. s\<lparr>rs_PrincipalID := AuthResp_PrincipalID resp,
          rs_DisplayName := AuthResp_DisplayName resp, rs_GrantedFeatures := AuthResp_GrantedFeature resp\<rparr>))"

definition Client_CreateSession :: "'w client_env \<Rightarrow> string \<Rightarrow> u32 \<Rightarrow> ('w, CreateSessionResp) call" where
  "Client_CreateSession env clientInstanceID leaseSeconds = (\<lambda>(c, w).
     requestDecode env dec_CreateSessionResp ChannelControl OpcodeCreateSessionReq
       (ReqCreateSession \<lparr>CreateSessionReq_ClientInstanceID = clientInstanceID,
          CreateSessionReq_RequestedLeaseSeconds = leaseSeconds,
          CreateSessionReq_MountName = rs_MountName (SnapshotState c)\<rparr>)
       (\<lambda>resp c. on_state (\<lambda>s. s\<lparr>rs_ClientInstanceID := clientInstanceID,
          rs_LeaseSeconds := CreateSessionResp_LeaseSeconds resp,
          rs_SessionExpiresAt := CreateSessionResp_ExpiresAt resp,
          rs_SessionState := CreateSessionResp_State resp\<rparr>)
          (c\<lparr>cl_SessionID := CreateSessionResp_SessionID resp\<rparr>))
       (c, w))"

definition resumed :: "string \<Rightarrow> ResumeSessionResp \<Rightarrow> Client \<Rightarrow> Client" where
  "resumed clientInstanceID resp c =
     on_state (\<lambda>s. s\<lparr>rs_ClientInstanceID := clientInstanceID,
       rs_LeaseSeconds := ResumeSessionResp_LeaseSeconds resp,
       rs_SessionExpiresAt := ResumeSessionResp_ExpiresAt resp,
       rs_SessionState := ResumeSessionResp_State resp\<rparr>)
       (c\<lparr>cl_SessionID := ResumeSessionResp_SessionID resp\<rparr>)"

text \<open>The session is switched before the request and switched back when it fails.\<close>

definition Client_ResumeSession :: "'w client_env \<Rightarrow> u64 \<Rightarrow> string \<Rightarrow> ('w, ResumeSessionResp) call" where
  "Client_ResumeSession env sessionID clientInstanceID = (\<lambda>(c, w).
     case requestDecode env dec_ResumeSessionResp ChannelControl OpcodeResumeSessionReq
       (ReqResumeSession \<lparr>ResumeSessionReq_SessionID = sessionID,
          ResumeSessionReq_ClientInstanceID = clientInstanceID,
          ResumeSessionReq_LastKnownServerTime = NowRFC3339 (ce_now env)\<rparr>)
       (resumed clientInstanceID)
       (c\<lparr>cl_SessionID := sessionID\<rparr>, w) of
       (Inl err, c', w) \<Rightarrow> (Inl err, c'\<lparr>cl_SessionID := cl_SessionID c\<rparr>, w)
     | r \<Rightarrow> r)"

text \<open>
  The text of an error, as \<^verbatim>\<open>Error()\<close> gives it. What the JSON encoder and the socket say is the
  parameter \<open>libtext\<close>.
\<close>

fun frame_error_text :: "frame_error \<Rightarrow> string" where
  "frame_error_text EOF = ''EOF''"
| "frame_error_text UnexpectedEOF = ''unexpected EOF''"
| "frame_error_text (InvalidFrameLength n) = ''invalid frame length '' @ decimal (unat n)"
| "frame_error_text (InvalidMagic m) = ''invalid magic '' @ Quote (map (\<lambda>b. char_of (unat b)) m)"
| "frame_error_text (UnsupportedVersion v) = ''unsupported protocol version '' @ decimal (unat v)"
| "frame_error_text (InvalidHeaderLength n) = ''invalid header length '' @ decimal (unat n)"
| "frame_error_text (PayloadLengthMismatch n k) =
     ''payload length mismatch header='' @ decimal (unat n) @ '' actual='' @ decimal k"

fun client_error_text :: "(client_error \<Rightarrow> string) \<Rightarrow> client_error \<Rightarrow> string" where
  "client_error_text libtext NotConnected = ''client is not connected''"
| "client_error_text libtext MarshalError = ''marshal payload: '' @ libtext MarshalError"
| "client_error_text libtext WriteError = libtext WriteError"
| "client_error_text libtext (ReadError e) = frame_error_text e"
| "client_error_text libtext (RequestIDMismatch a b) =
     ''request id mismatch: want='' @ format_u64 a @ '' got='' @ format_u64 b"
| "client_error_text libtext DecodeErrorPayload = ''decode error payload: '' @ libtext DecodeErrorPayload"
| "client_error_text libtext (ServerError code message) = code @ '': '' @ message"
| "client_error_text libtext DecodeError = libtext DecodeError"

definition setHeartbeatResult :: "(client_error \<Rightarrow> string) \<Rightarrow> instant \<Rightarrow> client_error option \<Rightarrow> Client \<Rightarrow> Client" where
  "setHeartbeatResult libtext now err = on_state (\<lambda>s. s\<lparr>rs_LastHeartbeatAt := Some now,
     rs_LastHeartbeatError := (case err of None \<Rightarrow> [] | Some e \<Rightarrow> client_error_text libtext e)\<rparr>)"

definition Client_Heartbeat :: "'w client_env \<Rightarrow> ('w, HeartbeatResp) call" where
  "Client_Heartbeat env = (\<lambda>(c, w).
     case request env (dec_HeartbeatResp (ce_dec env)) ChannelControl OpcodeHeartbeatReq
       (ReqHeartbeat \<lparr>HeartbeatReq_SessionID = cl_SessionID c,
          HeartbeatReq_ClientTime = NowRFC3339 (ce_now env)\<rparr>) (c, w) of
       (Inl err, c, w) \<Rightarrow> (Inl err, setHeartbeatResult (ce_libtext env) (ce_now env) (Some err) c, w)
     | (Inr resp, c, w) \<Rightarrow>
         (Inr resp, on_state (\<lambda>s. s\<lparr>rs_SessionExpiresAt := HeartbeatResp_ExpiresAt resp,
            rs_SessionState := HeartbeatResp_State resp\<rparr>)
            (setHeartbeatResult (ce_libtext env) (ce_now env) None c), w))"

section \<open>Metadata calls\<close>

definition Client_Lookup :: "'w client_env \<Rightarrow> u64 \<Rightarrow> string \<Rightarrow> ('w, LookupResp) call" where
  "Client_Lookup env parentNodeID name =
     requestDecode env dec_LookupResp ChannelMetadata OpcodeLookupReq
       (ReqLookup \<lparr>LookupReq_ParentNodeID = parentNodeID, LookupReq_Name = name\<rparr>)
       (\<lambda>resp. trackNodeIDs [parentNodeID, ni_NodeID (LookupResp_Entry resp)])"

definition Client_GetAttr :: "'w client_env \<Rightarrow> u64 \<Rightarrow> ('w, GetAttrResp) call" where
  "Client_GetAttr env nodeID =
     requestDecode env dec_GetAttrResp ChannelMetadata OpcodeGetAttrReq
       (ReqGetAttr \<lparr>GetAttrReq_NodeID = nodeID\<rparr>)
       (\<lambda>resp. trackNodeIDs [nodeID, ni_ParentNodeID (GetAttrResp_Entry resp)])"

definition Client_OpenDir :: "'w client_env \<Rightarrow> u64 \<Rightarrow> ('w, OpenDirResp) call" where
  "Client_OpenDir env nodeID =
     requestDecode env dec_OpenDirResp ChannelMetadata OpcodeOpenDirReq
       (ReqOpenDir \<lparr>OpenDirReq_NodeID = nodeID\<rparr>)
       (\<lambda>resp. updateDirCursor \<lparr>tc_DirCursorID = OpenDirResp_DirCursorID resp, tc_NodeID = nodeID\<rparr>)"

definition Client_ReadDir :: "'w client_env \<Rightarrow> u64 \<Rightarrow> u64 \<Rightarrow> u32 \<Rightarrow> ('w, ReadDirResp) call" where
  "Client_ReadDir env dirCursorID cookie maxEntries =
     requestDecode env dec_ReadDirResp ChannelMetadata OpcodeReadDirReq
       (ReqReadDir \<lparr>ReadDirReq_DirCursorID = dirCursorID, ReadDirReq_Cookie = cookie,
          ReadDirReq_MaxEntries = maxEntries\<rparr>)
       (\<lambda>resp. trackNodeIDs (map de_NodeID (ReadDirResp_Entries resp)))"

definition Client_CloseDir :: "'w client_env \<Rightarrow> u64 \<Rightarrow> ('w, CloseDirResp) call" where
  "Client_CloseDir env dirCursorID =
     requestDecode env dec_CloseDirResp ChannelMetadata OpcodeCloseDirReq
       (ReqCloseDir \<lparr>CloseDirReq_DirCursorID = dirCursorID\<rparr>) (\<lambda>_. removeDirCursor dirCursorID)"

definition Client_Rename ::
  "'w client_env \<Rightarrow> u64 \<Rightarrow> string \<Rightarrow> u64 \<Rightarrow> string \<Rightarrow> bool \<Rightarrow> ('w, RenameResp) call" where
  "Client_Rename env srcParentNodeID srcName dstParentNodeID dstName replace =
     requestDecode env dec_RenameResp ChannelMetadata OpcodeRenameReq
       (ReqRename \<lparr>RenameReq_SrcParentNodeID = srcParentNodeID, RenameReq_SrcName = srcName,
          RenameReq_DstParentNodeID = dstParentNodeID, RenameReq_DstName = dstName,
          RenameReq_ReplaceExisting = replace\<rparr>)
       (\<lambda>resp. trackNodeIDs [srcParentNodeID, dstParentNodeID, ni_NodeID (RenameResp_Entry resp)])"

section \<open>Data calls\<close>

definition tracked :: "u64 \<Rightarrow> u64 \<Rightarrow> bool \<Rightarrow> int \<Rightarrow> TrackedHandle" where
  "tracked handleID nodeID writable sz =
     \<lparr>th_HandleID = handleID, th_NodeID = nodeID, th_Writable = writable, th_DeleteOnClose = False,
      th_LastKnownSize = sz, th_LastWriteAt = None, th_LastFlushAt = None, th_LastTruncateAt = None\<rparr>"

definition client_open :: "'w client_env \<Rightarrow> u64 \<Rightarrow> bool \<Rightarrow> bool \<Rightarrow> ('w, OpenResp) call" where
  "client_open env nodeID writable trunc =
     requestDecode env dec_OpenResp ChannelData OpcodeOpenReq
       (ReqOpen \<lparr>OpenReq_NodeID = nodeID, OpenReq_Writable = writable, OpenReq_Truncate = trunc\<rparr>)
       (\<lambda>resp. updateHandle (tracked (OpenResp_HandleID resp) nodeID writable (OpenResp_Size resp)))"

definition Client_OpenRead :: "'w client_env \<Rightarrow> u64 \<Rightarrow> ('w, OpenResp) call" where
  "Client_OpenRead env nodeID = client_open env nodeID False False"

definition Client_OpenWrite :: "'w client_env \<Rightarrow> u64 \<Rightarrow> bool \<Rightarrow> ('w, OpenResp) call" where
  "Client_OpenWrite env nodeID trunc = client_open env nodeID True trunc"

definition Client_Create :: "'w client_env \<Rightarrow> u64 \<Rightarrow> string \<Rightarrow> bool \<Rightarrow> ('w, CreateResp) call" where
  "Client_Create env parentNodeID name overwrite =
     requestDecode env dec_CreateResp ChannelData OpcodeCreateReq
       (ReqCreate \<lparr>CreateReq_ParentNodeID = parentNodeID, CreateReq_Name = name,
          CreateReq_Overwrite = overwrite\<rparr>)
       (\<lambda>resp c. updateHandle (tracked (CreateResp_HandleID resp) (ni_NodeID (CreateResp_Entry resp)) True
            (ni_Size (CreateResp_Entry resp)))
          (trackNodeIDs [parentNodeID, ni_NodeID (CreateResp_Entry resp)] c))"

definition Client_Read :: "'w client_env \<Rightarrow> u64 \<Rightarrow> int \<Rightarrow> u32 \<Rightarrow> ('w, ReadResp) call" where
  "Client_Read env handleID offset len =
     requestDecode env dec_ReadResp ChannelData OpcodeReadReq
       (ReqRead \<lparr>ReadReq_HandleID = handleID, ReadReq_Offset = offset, ReadReq_Length = len\<rparr>) (\<lambda>_ c. c)"

definition Client_Write :: "'w client_env \<Rightarrow> u64 \<Rightarrow> int \<Rightarrow> bytes \<Rightarrow> ('w, WriteResp) call" where
  "Client_Write env handleID offset data =
     requestDecode env dec_WriteResp ChannelData OpcodeWriteReq
       (ReqWrite \<lparr>WriteReq_HandleID = handleID, WriteReq_Offset = offset, WriteReq_Data = data\<rparr>)
       (\<lambda>resp. markHandleWrite (ce_now env) handleID (WriteResp_NewSize resp))"

definition Client_Flush :: "'w client_env \<Rightarrow> u64 \<Rightarrow> ('w, FlushResp) call" where
  "Client_Flush env handleID =
     requestDecode env dec_FlushResp ChannelData OpcodeFlushReq
       (ReqFlush \<lparr>FlushReq_HandleID = handleID\<rparr>) (\<lambda>_. markHandleFlush (ce_now env) handleID)"

definition Client_Truncate :: "'w client_env \<Rightarrow> u64 \<Rightarrow> int \<Rightarrow> ('w, TruncateResp) call" where
  "Client_Truncate env handleID sz =
     requestDecode env dec_TruncateResp ChannelData OpcodeTruncateReq
       (ReqTruncate \<lparr>TruncateReq_HandleID = handleID, TruncateReq_Size = sz\<rparr>)
       (\<lambda>resp. markHandleTruncate (ce_now env) handleID (TruncateResp_Size resp))"

definition Client_SetDeleteOnClose :: "'w client_env \<Rightarrow> u64 \<Rightarrow> bool \<Rightarrow> ('w, SetDeleteOnCloseResp) call" where
  "Client_SetDeleteOnClose env handleID enabled =
     requestDecode env dec_SetDeleteOnCloseResp ChannelData OpcodeSetDeleteOnCloseReq
       (ReqSetDeleteOnClose \<lparr>SetDeleteOnCloseReq_HandleID = handleID,
          SetDeleteOnCloseReq_DeleteOnClose = enabled\<rparr>)
       (\<lambda>_. setHandleDeleteOnClose handleID enabled)"

definition Client_CloseHandle :: "'w client_env \<Rightarrow> u64 \<Rightarrow> ('w, CloseResp) call" where
  "Client_CloseHandle env handleID =
     requestDecode env dec_CloseResp ChannelData OpcodeCloseReq
       (ReqClose \<lparr>CloseReq_HandleID = handleID\<rparr>) (\<lambda>_. removeHandle handleID)"

section \<open>Event and recovery calls\<close>

definition Client_Subscribe :: "'w client_env \<Rightarrow> u64 \<Rightarrow> bool \<Rightarrow> ('w, SubscribeResp) call" where
  "Client_Subscribe env nodeID recursive =
     requestDecode env dec_SubscribeResp ChannelEvents OpcodeSubscribeReq
       (ReqSubscribe \<lparr>SubscribeReq_NodeID = nodeID, SubscribeReq_Recursive = recursive,
          SubscribeReq_BufferHint = 0\<rparr>)
       (\<lambda>resp. updateWatch \<lparr>tw_WatchID = SubscribeResp_WatchID resp, tw_NodeID = nodeID,
          tw_Recursive = recursive, tw_LastAckedSeq = SubscribeResp_StartSeq resp,
          tw_LastSeenSeq = SubscribeResp_StartSeq resp\<rparr>)"

definition Client_PollEvents :: "'w client_env \<Rightarrow> u64 \<Rightarrow> u64 \<Rightarrow> u32 \<Rightarrow> ('w, PollEventsResp) call" where
  "Client_PollEvents env watchID afterSeq maxEvents =
     requestDecode env dec_PollEventsResp ChannelEvents OpcodePollEventsReq
       (ReqPollEvents \<lparr>PollEventsReq_WatchID = watchID, PollEventsReq_AfterSeq = afterSeq,
          PollEventsReq_MaxEvents = maxEvents\<rparr>)
       (\<lambda>resp c. trackNodeIDs
          (concat (map (\<lambda>e. [we_NodeID e, we_ParentNodeID e, we_OldParentNodeID e]) (PollEventsResp_Events resp)))
          (markWatchSeen watchID (PollEventsResp_LatestSeq resp) c))"

definition Client_AckEvents :: "'w client_env \<Rightarrow> u64 \<Rightarrow> u64 \<Rightarrow> ('w, AckEventsResp) call" where
  "Client_AckEvents env watchID eventSeq =
     requestDecode env dec_AckEventsResp ChannelEvents OpcodeAckEventsReq
       (ReqAckEvents \<lparr>AckEventsReq_WatchID = watchID, AckEventsReq_EventSeq = eventSeq\<rparr>)
       (\<lambda>resp. markWatchAcked watchID (AckEventsResp_AckedSeq resp))"

definition Client_Resync :: "'w client_env \<Rightarrow> u64 \<Rightarrow> ('w, ResyncResp) call" where
  "Client_Resync env watchID =
     requestDecode env dec_ResyncResp ChannelEvents OpcodeResyncReq
       (ReqResync \<lparr>ResyncReq_WatchID = watchID\<rparr>)
       (\<lambda>resp c. markWatchSeen watchID (ResyncResp_SnapshotSeq resp)
          (trackNodeIDs
            (concat (map (\<lambda>e. [ni_NodeID (SnapshotEntry_Entry e), ni_ParentNodeID (SnapshotEntry_Entry e)])
              (ResyncResp_Entries resp))) c))"

definition Client_RecoverHandles :: "'w client_env \<Rightarrow> RecoverHandleSpec list \<Rightarrow> ('w, RecoverHandlesResp) call" where
  "Client_RecoverHandles env handles =
     requestDecode env dec_RecoverHandlesResp ChannelRecovery OpcodeRecoverHandlesReq
       (ReqRecoverHandles \<lparr>RecoverHandlesReq_Handles = handles\<rparr>)
       (\<lambda>resp. applyRecoveredHandles (RecoverHandlesResp_Handles resp))"

definition Client_RevalidateNodes :: "'w client_env \<Rightarrow> u64 list \<Rightarrow> ('w, RevalidateResp) call" where
  "Client_RevalidateNodes env nodeIDs =
     requestDecode env dec_RevalidateResp ChannelRecovery OpcodeRevalidateReq
       (ReqRevalidate \<lparr>RevalidateReq_NodeIDs = nodeIDs\<rparr>)
       (\<lambda>resp. trackNodeIDs
          (concat (map (\<lambda>e. if RevalidateEntry_Exists e
             then [RevalidateEntry_NodeID e, ni_ParentNodeID (RevalidateEntry_Entry e)] else [])
             (RevalidateResp_Entries resp))))"

definition Client_ResubscribeWatches :: "'w client_env \<Rightarrow> ResubscribeSpec list \<Rightarrow> ('w, ResubscribeResp) call" where
  "Client_ResubscribeWatches env watches =
     requestDecode env dec_ResubscribeResp ChannelRecovery OpcodeResubscribeReq
       (ReqResubscribe \<lparr>ResubscribeReq_Watches = watches\<rparr>)
       (\<lambda>resp. applyResubscribedWatches (ResubscribeResp_Watches resp))"

section \<open>Heartbeats\<close>

definition heartbeatInterval :: "u32 \<Rightarrow> duration" where
  "heartbeatInterval leaseSeconds =
     (let leaseSeconds = (if leaseSeconds = 0 then 30 else leaseSeconds);
          interval = uint leaseSeconds * second_ns div 3
      in if interval < 5 * second_ns then 5 * second_ns else interval)"

text \<open>
  The loop of \<^verbatim>\<open>RunHeartbeatLoop\<close> over what its \<^verbatim>\<open>select\<close> finds ready, one element per round:
  \<open>None\<close> when the context is done, the environment of the moment when the timer fires. The result
  \<open>None\<close> is still waiting.
\<close>

datatype loop_error = Canceled | HeartbeatFailed client_error

fun RunHeartbeatLoop ::
  "'w client_env option list \<Rightarrow> Client \<times> 'w \<Rightarrow> loop_error option \<times> Client \<times> 'w" where
  "RunHeartbeatLoop [] cw = (None, cw)"
| "RunHeartbeatLoop (None # later) cw = (Some Canceled, cw)"
| "RunHeartbeatLoop (Some env # later) cw =
     (case Client_Heartbeat env cw of
        (Inl err, cw) \<Rightarrow> (Some (HeartbeatFailed err), cw)
      | (Inr _, cw) \<Rightarrow> RunHeartbeatLoop later cw)"

text \<open>
  The joining loop of \<^verbatim>\<open>RunWithHeartbeat\<close>: it receives the result of the run and the result of the
  heartbeat loop in some order and cancels the other side.
\<close>

datatype joined = RunDone "loop_error option" | BeatDone "loop_error option"

record join_state =
  jn_runErr :: "loop_error option option"
  jn_hbErr :: "loop_error option option"
  jn_cancelled :: bool

fun join_step :: "joined \<Rightarrow> join_state \<Rightarrow> join_state" where
  "join_step (RunDone err) s = s\<lparr>jn_runErr := Some err, jn_cancelled := True\<rparr>"
| "join_step (BeatDone err) s =
     s\<lparr>jn_hbErr := Some err, jn_cancelled := (jn_cancelled s \<or> (err \<noteq> None \<and> err \<noteq> Some Canceled))\<rparr>"

text \<open>
  What \<^verbatim>\<open>RunWithHeartbeat\<close> returns: the error of the run as it is, or the error of the heartbeat loop
  wrapped in the text \<^verbatim>\<open>session heartbeat failed\<close>.
\<close>

datatype with_heartbeat_error = RunFailed loop_error | SessionHeartbeatFailed loop_error

definition join_result :: "join_state \<Rightarrow> with_heartbeat_error option option" where
  "join_result s =
     (case (jn_runErr s, jn_hbErr s) of
        (Some runErr, Some hbErr) \<Rightarrow>
          Some (case (runErr, hbErr) of
             (Some (HeartbeatFailed err), _) \<Rightarrow> Some (RunFailed (HeartbeatFailed err))
           | (_, Some (HeartbeatFailed err)) \<Rightarrow> Some (SessionHeartbeatFailed (HeartbeatFailed err))
           | _ \<Rightarrow> None)
      | _ \<Rightarrow> None)"

end
