(* ===== verification/ClientProps.thy ===== *)
theory ClientProps
  imports Client
begin

text \<open>
  Properties of the protocol client: its tracking tables stay consistent whatever the far end sends,
  a reply is only taken for the request it answers, and handles and watches keep their
  attributes through recovery.
\<close>

section \<open>Tables\<close>

lemma map_of_update [simp]: "map_of (AList.update k v t) = (map_of t)(k \<mapsto> v)"
  by (rule update_conv')

lemma map_of_delete [simp]: "map_of (AList.delete k t) = (map_of t)(k := None)"
  by (rule delete_conv')

lemma distinct_keys_delete: "distinct (map fst t) \<Longrightarrow> distinct (map fst (AList.delete k t))"
  by (rule distinct_delete)

section \<open>The tracking invariant\<close>

text \<open>
  A table entry carries the identifier it is stored under, each identifier occurs once, and the
  node of every tracked handle, cursor and watch is itself tracked, unless it is the zero node.
\<close>

definition keyed :: "('v \<Rightarrow> u64) \<Rightarrow> ('v \<Rightarrow> u64) \<Rightarrow> u64 list \<Rightarrow> 'v table \<Rightarrow> bool" where
  "keyed key node nodes t \<longleftrightarrow>
     distinct (map fst t) \<and>
     (\<forall>k v. map_of t k = Some v \<longrightarrow> key v = k \<and> (node v = 0 \<or> node v \<in> set nodes))"

definition tracking_inv :: "RuntimeState \<Rightarrow> bool" where
  "tracking_inv s \<longleftrightarrow>
     keyed th_HandleID th_NodeID (rs_TrackedNodes s) (rs_TrackedHandles s) \<and>
     keyed tc_DirCursorID tc_NodeID (rs_TrackedNodes s) (rs_TrackedDirCursors s) \<and>
     keyed tw_WatchID tw_NodeID (rs_TrackedNodes s) (rs_TrackedWatches s) \<and>
     distinct (rs_TrackedNodes s) \<and> 0 \<notin> set (rs_TrackedNodes s)"

lemma keyed_mono: "keyed key node ns t \<Longrightarrow> set ns \<subseteq> set ns' \<Longrightarrow> keyed key node ns' t"
  unfolding keyed_def by blast

lemma keyed_update:
  "keyed key node ns t \<Longrightarrow> key v = k \<Longrightarrow> node v = 0 \<or> node v \<in> set ns \<Longrightarrow>
    keyed key node ns (AList.update k v t)"
  by (auto simp: keyed_def distinct_update)

lemma keyed_delete: "keyed key node ns t \<Longrightarrow> keyed key node ns (AList.delete k t)"
  by (auto simp: keyed_def distinct_delete)

lemma keyedD: "keyed key node ns t \<Longrightarrow> map_of t k = Some v \<Longrightarrow> key v = k \<and> (node v = 0 \<or> node v \<in> set ns)"
  by (simp add: keyed_def)

lemma set_insert_node: "set (rs_TrackedNodes (add_node n s)) = (if n = 0 then set (rs_TrackedNodes s)
    else insert n (set (rs_TrackedNodes s)))"
  by (simp add: add_node_def)

lemma add_node_tables [simp]:
  "rs_TrackedHandles (add_node n s) = rs_TrackedHandles s"
  "rs_TrackedDirCursors (add_node n s) = rs_TrackedDirCursors s"
  "rs_TrackedWatches (add_node n s) = rs_TrackedWatches s"
  by (simp_all add: add_node_def)

lemma inv_add_node [inv_intros]: "tracking_inv s \<Longrightarrow> tracking_inv (add_node n s)"
  by (auto simp: tracking_inv_def add_node_def intro: keyed_mono)

lemma inv_fold_nodes [inv_intros]: "tracking_inv s \<Longrightarrow> tracking_inv (fold add_node ns s)"
  by (induction ns arbitrary: s) (auto intro: inv_add_node)

text \<open>Entering an entry whose node is tracked along with it.\<close>

lemma inv_add_entry:
  assumes "tracking_inv s"
  shows "th_HandleID h = k \<Longrightarrow> tracking_inv (add_node (th_NodeID h) (put_handle k h s))"
    and "tc_DirCursorID c = k \<Longrightarrow> tracking_inv (add_node (tc_NodeID c)
      (s\<lparr>rs_TrackedDirCursors := AList.update k c (rs_TrackedDirCursors s)\<rparr>))"
    and "tw_WatchID w = k \<Longrightarrow> tracking_inv (add_node (tw_NodeID w) (put_watch k w s))"
  using assms
  by (auto simp: tracking_inv_def add_node_def put_handle_def put_watch_def intro: keyed_mono intro!: keyed_update)

lemma inv_remove_entry:
  assumes "tracking_inv s"
  shows "tracking_inv (s\<lparr>rs_TrackedHandles := AList.delete k (rs_TrackedHandles s)\<rparr>)"
    and "tracking_inv (s\<lparr>rs_TrackedDirCursors := AList.delete k (rs_TrackedDirCursors s)\<rparr>)"
    and "tracking_inv (s\<lparr>rs_TrackedWatches := AList.delete k (rs_TrackedWatches s)\<rparr>)"
  using assms by (auto simp: tracking_inv_def intro: keyed_delete)

text \<open>Changing an entry in place.\<close>

lemma inv_change_handle:
  assumes "tracking_inv s" and "map_of (rs_TrackedHandles s) k = Some h"
    and "th_HandleID h' = th_HandleID h" and "th_NodeID h' = th_NodeID h"
  shows "tracking_inv (put_handle k h' s)"
  using assms keyedD [of th_HandleID th_NodeID "rs_TrackedNodes s" "rs_TrackedHandles s" k h]
  by (auto simp: tracking_inv_def put_handle_def intro!: keyed_update)

lemma inv_change_watch:
  assumes "tracking_inv s" and "map_of (rs_TrackedWatches s) k = Some w"
    and "tw_WatchID w' = tw_WatchID w" and "tw_NodeID w' = tw_NodeID w"
  shows "tracking_inv (put_watch k w' s)"
  using assms keyedD [of tw_WatchID tw_NodeID "rs_TrackedNodes s" "rs_TrackedWatches s" k w]
  by (auto simp: tracking_inv_def put_watch_def intro!: keyed_update)

lemma inv_apply_recovered_handle [inv_intros]: "tracking_inv s \<Longrightarrow> tracking_inv (apply_recovered_handle r s)"
  unfolding apply_recovered_handle_def Let_def
  using inv_remove_entry(1) inv_add_entry(1) [of _ "\<lparr>th_HandleID = _, th_NodeID = _, th_Writable = _,
     th_DeleteOnClose = _, th_LastKnownSize = _, th_LastWriteAt = _, th_LastFlushAt = _, th_LastTruncateAt = _\<rparr>"]
  by (simp split: if_split)

lemma inv_apply_resubscribed_watch [inv_intros]:
  "tracking_inv s \<Longrightarrow> tracking_inv (apply_resubscribed_watch r s)"
  unfolding apply_resubscribed_watch_def Let_def
  using inv_remove_entry(3) inv_add_entry(3) [of _ "\<lparr>tw_WatchID = _, tw_NodeID = _, tw_Recursive = _,
     tw_LastAckedSeq = _, tw_LastSeenSeq = _\<rparr>"]
  by (simp split: if_split)

lemma inv_fold: "(\<And>x s. tracking_inv s \<Longrightarrow> tracking_inv (f x s)) \<Longrightarrow> tracking_inv s \<Longrightarrow> tracking_inv (fold f xs s)"
  by (induction xs arbitrary: s) auto

section \<open>Calls\<close>

text \<open>One call of the client, in any environment: any far end, any decoder, any time.\<close>

inductive client_step :: "Client \<times> 'w \<Rightarrow> Client \<times> 'w \<Rightarrow> bool" where
  cs_Hello: "client_step cw (snd (Client_Hello env cw))"
| cs_Auth: "client_step cw (snd (Client_Auth env tok cw))"
| cs_CreateSession: "client_step cw (snd (Client_CreateSession env ci ls cw))"
| cs_ResumeSession: "client_step cw (snd (Client_ResumeSession env sid ci cw))"
| cs_Heartbeat: "client_step cw (snd (Client_Heartbeat env cw))"
| cs_Lookup: "client_step cw (snd (Client_Lookup env p n cw))"
| cs_GetAttr: "client_step cw (snd (Client_GetAttr env n cw))"
| cs_OpenDir: "client_step cw (snd (Client_OpenDir env n cw))"
| cs_ReadDir: "client_step cw (snd (Client_ReadDir env d k m cw))"
| cs_CloseDir: "client_step cw (snd (Client_CloseDir env d cw))"
| cs_Rename: "client_step cw (snd (Client_Rename env a b c d e cw))"
| cs_OpenRead: "client_step cw (snd (Client_OpenRead env n cw))"
| cs_OpenWrite: "client_step cw (snd (Client_OpenWrite env n t cw))"
| cs_Create: "client_step cw (snd (Client_Create env p n v cw))"
| cs_Read: "client_step cw (snd (Client_Read env h k m cw))"
| cs_Write: "client_step cw (snd (Client_Write env h k d cw))"
| cs_Flush: "client_step cw (snd (Client_Flush env h cw))"
| cs_Truncate: "client_step cw (snd (Client_Truncate env h k cw))"
| cs_SetDeleteOnClose: "client_step cw (snd (Client_SetDeleteOnClose env h e cw))"
| cs_CloseHandle: "client_step cw (snd (Client_CloseHandle env h cw))"
| cs_Subscribe: "client_step cw (snd (Client_Subscribe env n rc cw))"
| cs_PollEvents: "client_step cw (snd (Client_PollEvents env i q m cw))"
| cs_AckEvents: "client_step cw (snd (Client_AckEvents env i q cw))"
| cs_Resync: "client_step cw (snd (Client_Resync env i cw))"
| cs_RecoverHandles: "client_step cw (snd (Client_RecoverHandles env hs cw))"
| cs_RevalidateNodes: "client_step cw (snd (Client_RevalidateNodes env ns cw))"
| cs_ResubscribeWatches: "client_step cw (snd (Client_ResubscribeWatches env ws cw))"

definition keeps_tracking :: "(Client \<Rightarrow> Client) \<Rightarrow> bool" where
  "keeps_tracking f \<longleftrightarrow> (\<forall>c. tracking_inv (cl_state c) \<longrightarrow> tracking_inv (cl_state (f c)))"

lemma keeps_trackingD: "keeps_tracking f \<Longrightarrow> tracking_inv (cl_state c) \<Longrightarrow> tracking_inv (cl_state (f c))"
  by (simp add: keeps_tracking_def)

lemma keeps_on_state: "(\<And>s. tracking_inv s \<Longrightarrow> tracking_inv (f s)) \<Longrightarrow> keeps_tracking (on_state f)"
  by (simp add: keeps_tracking_def on_state_def)

lemma keeps_comp: "keeps_tracking f \<Longrightarrow> keeps_tracking g \<Longrightarrow> keeps_tracking (\<lambda>c. f (g c))"
  by (simp add: keeps_tracking_def)

lemma keeps_id: "keeps_tracking (\<lambda>c. c)"
  by (simp add: keeps_tracking_def)

lemma keeps_session: "keeps_tracking f \<Longrightarrow> keeps_tracking (\<lambda>c. f (c\<lparr>cl_SessionID := i\<rparr>))"
  by (simp add: keeps_tracking_def)

text \<open>Fields outside the tables.\<close>

lemma inv_labels [simp]:
  "tracking_inv (rs_ClientInstanceID_update f0 s) = tracking_inv s"
  "tracking_inv (rs_LeaseSeconds_update f1 s) = tracking_inv s"
  "tracking_inv (rs_SessionExpiresAt_update f2 s) = tracking_inv s"
  "tracking_inv (rs_SessionState_update f3 s) = tracking_inv s"
  "tracking_inv (rs_PrincipalID_update f4 s) = tracking_inv s"
  "tracking_inv (rs_DisplayName_update f5 s) = tracking_inv s"
  "tracking_inv (rs_GrantedFeatures_update f6 s) = tracking_inv s"
  "tracking_inv (rs_ServerName_update f7 s) = tracking_inv s"
  "tracking_inv (rs_ServerVersion_update f8 s) = tracking_inv s"
  "tracking_inv (rs_SelectedProtocolVersion_update f9 s) = tracking_inv s"
  "tracking_inv (rs_ServerCapabilities_update f10 s) = tracking_inv s"
  "tracking_inv (rs_LastHeartbeatAt_update f11 s) = tracking_inv s"
  "tracking_inv (rs_LastHeartbeatError_update f12 s) = tracking_inv s"
  by (simp_all add: tracking_inv_def)

lemma keeps_tables:
  "keeps_tracking (trackNodeIDs ns)" "keeps_tracking (updateHandle h)" "keeps_tracking (removeHandle i)"
  "keeps_tracking (updateDirCursor cu)" "keeps_tracking (removeDirCursor i)" "keeps_tracking (updateWatch w)"
  "keeps_tracking (applyRecoveredHandles rs)" "keeps_tracking (applyResubscribedWatches us)"
  unfolding trackNodeIDs_def updateHandle_def removeHandle_def updateDirCursor_def removeDirCursor_def
    updateWatch_def applyRecoveredHandles_def applyResubscribedWatches_def
  by (rule keeps_on_state, auto intro: inv_intros inv_add_entry inv_remove_entry inv_fold)+

lemma keeps_change_handle:
  "(\<And>h. th_HandleID (f h) = th_HandleID h \<and> th_NodeID (f h) = th_NodeID h) \<Longrightarrow> keeps_tracking (change_handle i f)"
  unfolding change_handle_def by (rule keeps_on_state) (auto intro: inv_change_handle split: option.split)

lemma keeps_change_watch:
  "(\<And>w. tw_WatchID (f w) = tw_WatchID w \<and> tw_NodeID (f w) = tw_NodeID w) \<Longrightarrow> keeps_tracking (change_watch i f)"
  unfolding change_watch_def by (rule keeps_on_state) (auto intro: inv_change_watch split: option.split)

lemma keeps_marks:
  "keeps_tracking (setHandleDeleteOnClose i e)" "keeps_tracking (markHandleWrite t i k)"
  "keeps_tracking (markHandleFlush t i)" "keeps_tracking (markHandleTruncate t i k)"
  "keeps_tracking (markWatchSeen i q)" "keeps_tracking (markWatchAcked i q)"
  unfolding setHandleDeleteOnClose_def markHandleWrite_def markHandleFlush_def markHandleTruncate_def
    markWatchSeen_def markWatchAcked_def
  by (rule keeps_change_handle keeps_change_watch, simp)+

lemma keeps_setHeartbeatResult: "keeps_tracking (setHeartbeatResult lt t e)"
  unfolding setHeartbeatResult_def by (rule keeps_on_state) simp

lemmas keeps_pairs = keeps_comp [OF keeps_tables(2) keeps_tables(1)]
  keeps_comp [OF keeps_tables(1) keeps_marks(5)] keeps_comp [OF keeps_marks(5) keeps_tables(1)]

lemmas keeps_rules = keeps_pairs keeps_tables keeps_marks keeps_id

text \<open>The exchange itself touches no table.\<close>

lemma request_state: "request env un ch opc q (c, w) = (r, c', w') \<Longrightarrow> cl_state c' = cl_state c"
  by (auto simp: request_def Let_def split: option.splits prod.splits sum.splits)

lemma requestDecode_keeps:
  assumes "\<And>x. keeps_tracking (k x)" and "tracking_inv (cl_state (fst cw))"
  shows "tracking_inv (cl_state (fst (snd (requestDecode env un ch opc q k cw))))"
  using assms request_state [of env "un (ce_dec env)" ch opc q "fst cw" "snd cw"]
  by (auto simp: requestDecode_def keeps_tracking_def split: prod.splits sum.splits)


lemma requestDecode_keepsD:
  "requestDecode env un ch opc q k (c, w) = (r, c', w') \<Longrightarrow> (\<And>x. keeps_tracking (k x)) \<Longrightarrow>
    tracking_inv (cl_state c) \<Longrightarrow> tracking_inv (cl_state c')"
  using requestDecode_keeps [of k "(c, w)" env un ch opc q] by simp

lemma tracking_resume:
  assumes "tracking_inv (cl_state c)"
  shows "tracking_inv (cl_state (fst (snd (Client_ResumeSession env sid ci (c, w)))))"
proof -
  let ?q = "ReqResumeSession \<lparr>ResumeSessionReq_SessionID = sid, ResumeSessionReq_ClientInstanceID = ci,
      ResumeSessionReq_LastKnownServerTime = NowRFC3339 (ce_now env)\<rparr>"
  obtain r c' w' where r: "requestDecode env dec_ResumeSessionResp ChannelControl OpcodeResumeSessionReq ?q
      (resumed ci) (c\<lparr>cl_SessionID := sid\<rparr>, w) = (r, c', w')"
    using prod_cases3 by blast
  have "keeps_tracking (resumed ci x)" for x
    unfolding resumed_def by (intro keeps_session keeps_on_state) simp
  then have "tracking_inv (cl_state c')" using requestDecode_keepsD [OF r] assms by simp
  then show ?thesis by (cases r) (simp_all add: Client_ResumeSession_def r)
qed

lemma tracking_client_step:
  assumes "client_step cw cw'" and "tracking_inv (cl_state (fst cw))"
  shows "tracking_inv (cl_state (fst cw'))"
  using assms
proof (induction rule: client_step.induct)
  case (cs_ResumeSession cw env sid ci)
  then show ?case by (cases cw) (simp add: tracking_resume)
next
  case (cs_Heartbeat cw env)
  then show ?case
    using request_state [of env "dec_HeartbeatResp (ce_dec env)"] keeps_setHeartbeatResult
    by (auto simp: Client_Heartbeat_def keeps_tracking_def on_state_def split: prod.splits sum.splits) 
qed (auto simp: Client_Hello_def Client_Auth_def Client_CreateSession_def Client_Lookup_def
    Client_GetAttr_def Client_OpenDir_def Client_ReadDir_def Client_CloseDir_def Client_Rename_def
    Client_OpenRead_def Client_OpenWrite_def client_open_def Client_Create_def Client_Read_def
    Client_Write_def Client_Flush_def Client_Truncate_def Client_SetDeleteOnClose_def
    Client_CloseHandle_def Client_Subscribe_def Client_PollEvents_def Client_AckEvents_def
    Client_Resync_def Client_RecoverHandles_def Client_RevalidateNodes_def
    Client_ResubscribeWatches_def Let_def split: prod.split
    intro!: requestDecode_keeps keeps_rules keeps_on_state keeps_session)


lemma tracking_client_steps:
  "client_step\<^sup>*\<^sup>* cw cw' \<Longrightarrow> tracking_inv (cl_state (fst cw)) \<Longrightarrow> tracking_inv (cl_state (fst cw'))"
  by (induction rule: rtranclp_induct) (auto intro: tracking_client_step)

lemma tracking_New: "tracking_inv (cl_state (New_client addr))"
  by (simp add: tracking_inv_def keyed_def New_client_def)

text \<open>
  C22: The client's tables survive any server: starting from a new client, after any sequence of calls,
  whatever the far end answers (garbage, wrong identifiers, errors) and however it is decoded, every
  tracked handle, cursor and watch is stored once and under its own identifier, and its node is
  among the tracked nodes, which are distinct and not zero.
\<close>

theorem client_tables_consistent:
  assumes "client_step\<^sup>*\<^sup>* ((New_client addr)\<lparr>cl_Conn := conn\<rparr>, w) (c, w')"
  shows "tracking_inv (cl_state c)"
  using tracking_client_steps [OF assms] tracking_New [of addr] by simp

text \<open>A far end that answers every frame with the same bytes, and decoders that accept one response.\<close>

definition fixed_env :: "bytes \<Rightarrow> resp_decoders \<Rightarrow> unit client_env" where
  "fixed_env answer dec =
     \<lparr>ce_peer = (\<lambda>_ w. (Some answer, w)), ce_marshal = (\<lambda>_. Some []), ce_dec = dec, ce_now = 0, ce_libtext = (\<lambda>_. [])\<rparr>"

definition deaf_decoders :: resp_decoders where
  "deaf_decoders =
     \<lparr>dec_HelloResp = (\<lambda>_. None), dec_AuthResp = (\<lambda>_. None), dec_CreateSessionResp = (\<lambda>_. None),
      dec_ResumeSessionResp = (\<lambda>_. None), dec_HeartbeatResp = (\<lambda>_. None), dec_LookupResp = (\<lambda>_. None),
      dec_GetAttrResp = (\<lambda>_. None), dec_OpenDirResp = (\<lambda>_. None), dec_ReadDirResp = (\<lambda>_. None),
      dec_CloseDirResp = (\<lambda>_. None), dec_RenameResp = (\<lambda>_. None), dec_OpenResp = (\<lambda>_. None),
      dec_CreateResp = (\<lambda>_. None), dec_ReadResp = (\<lambda>_. None), dec_WriteResp = (\<lambda>_. None),
      dec_FlushResp = (\<lambda>_. None), dec_TruncateResp = (\<lambda>_. None), dec_SetDeleteOnCloseResp = (\<lambda>_. None),
      dec_CloseResp = (\<lambda>_. None), dec_SubscribeResp = (\<lambda>_. None), dec_PollEventsResp = (\<lambda>_. None),
      dec_AckEventsResp = (\<lambda>_. None), dec_ResyncResp = (\<lambda>_. None), dec_RecoverHandlesResp = (\<lambda>_. None),
      dec_RevalidateResp = (\<lambda>_. None), dec_ResubscribeResp = (\<lambda>_. None), dec_ErrorResp = (\<lambda>_. None)\<rparr>"

theorem client_tables_consistent_witness:
  "tracking_inv (cl_state (fst (snd (Client_OpenRead (fixed_env [1, 2, 3] deaf_decoders) 5
     ((New_client ''s'')\<lparr>cl_Conn := Some []\<rparr>, ())))))"
proof -
  let ?cw = "((New_client ''s'')\<lparr>cl_Conn := Some []\<rparr>, ())"
  have "client_step ?cw (snd (Client_OpenRead (fixed_env [1, 2, 3] deaf_decoders) 5 ?cw))"
    by (rule cs_OpenRead)
  then show ?thesis
    using client_tables_consistent [where addr = "''s''" and conn = "Some []"] by (metis prod.collapse r_into_rtranclp)
qed

section \<open>Replies and requests\<close>

lemma frame_rest_decode: "DecodeFrame r = Inr (m, rest) \<Longrightarrow> frame_rest r = rest"
  by (auto simp: DecodeFrame_def frame_rest_def ReadFull_def Let_def add.commute split: if_splits)

text \<open>
  C23: A reply is taken only for the request it answers: when a call returns a result, the client had a
  connection, the first complete frame among the bytes received carries the identifier this very
  request was sent with and no error flag, and its payload decodes to the result. The frame is
  consumed, the bytes after it stay for the next call.
\<close>

theorem accepted_reply_answers_request:
  assumes "request env unmarshal channel opcode q (c, w) = (Inr resp, c', w')"
  shows "\<exists>input frame received header payload rest.
    cl_Conn c = Some input \<and>
    EncodeFrame (ce_marshal env) (request_header channel opcode (cl_nextReqID c + 1) (cl_SessionID c)) q = Some frame \<and>
    ce_peer env frame w = (Some received, w') \<and>
    DecodeFrame (input @ received) = Inr ((header, payload), rest) \<and>
    h_RequestID header = cl_nextReqID c + 1 \<and> h_Flags header AND FlagError = 0 \<and>
    unmarshal payload = Some resp \<and> cl_Conn c' = Some rest \<and> cl_nextReqID c' = cl_nextReqID c + 1"
  using assms frame_rest_decode
  by (auto simp: request_def check_reply_def DecodeInto_def DecodePayload_def Let_def
      split: option.splits prod.splits sum.splits if_splits)

text \<open>The bytes of one reply frame with an empty payload.\<close>

definition sample_reply :: "u64 \<Rightarrow> bytes" where
  "sample_reply requestID =
     PutUint32 32 @ writeHeader \<lparr>h_Magic = Magic, h_Version = Version, h_HeaderLength = of_nat HeaderLength,
       h_Channel = ChannelData, h_Opcode = OpcodeCloseResp, h_Flags = FlagResponse, h_RequestID = requestID,
       h_SessionID = 0, h_PayloadLength = 0\<rparr>"

theorem accepted_reply_answers_request_witness:
  "\<exists>header payload rest. DecodeFrame (sample_reply 2) = Inr ((header, payload), rest) \<and> h_RequestID header = 2"
proof -
  let ?dec = "deaf_decoders\<lparr>dec_CloseResp := (\<lambda>_. Some \<lparr>CloseResp_Closed = True\<rparr>)\<rparr>"
  let ?env = "fixed_env (sample_reply 2) ?dec"
  let ?c = "(New_client ''s'')\<lparr>cl_Conn := Some []\<rparr>"
  have "fst (request ?env (dec_CloseResp ?dec) ChannelData OpcodeCloseReq
      (ReqClose \<lparr>CloseReq_HandleID = 9\<rparr>) (?c, ())) = Inr \<lparr>CloseResp_Closed = True\<rparr>"
    by code_simp
  then obtain c' w' where "request ?env (dec_CloseResp ?dec) ChannelData OpcodeCloseReq
      (ReqClose \<lparr>CloseReq_HandleID = 9\<rparr>) (?c, ()) = (Inr \<lparr>CloseResp_Closed = True\<rparr>, c', w')"
    by (metis prod.collapse)
  from accepted_reply_answers_request [OF this] show ?thesis
    by (auto simp: fixed_env_def New_client_def)
qed

section \<open>Recovery snapshots\<close>

lemma in_key_order_map:
  assumes "keyed key node ns t"
  shows "map key (in_key_order t) = sort (map fst t)"
proof -
  have "key (the (map_of t k)) = k" if k: "k \<in> fst ` set t" for k
  proof -
    obtain v where "map_of t k = Some v" using k by (metis map_of_eq_None_iff not_None_eq)
    then show ?thesis using keyedD [OF assms] by simp
  qed
  then have "map (\<lambda>k. key (the (map_of t k))) (sort (map fst t)) = sort (map fst t)"
    by (intro map_idI) simp
  then show ?thesis by (simp add: in_key_order_def comp_def)
qed

lemma set_in_key_order:
  assumes "distinct (map fst t)"
  shows "set (in_key_order t) = snd ` set t"
proof -
  have "the (map_of t (fst x)) = snd x" if "x \<in> set t" for x
    using map_of_is_SomeI [OF assms, of "fst x" "snd x"] that by simp
  then show ?thesis by (auto simp: in_key_order_def image_image)
qed

text \<open>
  The recovery snapshot loses nothing: for a client with consistent tables it lists, by strictly
  increasing identifier, exactly one recovery request per tracked handle with the handle's node and
  rights, every tracked node, and one resubscription per watch that starts after everything the
  client has seen or acknowledged.
\<close>

theorem recovery_snapshot_exact:
  assumes "tracking_inv (cl_state c)" and "snap = SnapshotRecoveryState c"
  shows "sorted_wrt (<) (map RecoverHandleSpec_PreviousHandleID (RecoverySnapshot_Handles snap)) \<and>
    set (RecoverySnapshot_Handles snap) = handle_spec ` snd ` set (rs_TrackedHandles (cl_state c)) \<and>
    set (RecoverySnapshot_NodeIDs snap) = set (rs_TrackedNodes (cl_state c)) \<and>
    sorted_wrt (<) (map ResubscribeSpec_PreviousWatchID (RecoverySnapshot_Watches snap)) \<and>
    set (RecoverySnapshot_Watches snap) = watch_spec ` snd ` set (rs_TrackedWatches (cl_state c)) \<and>
    (\<forall>w \<in> snd ` set (rs_TrackedWatches (cl_state c)).
       tw_LastSeenSeq w \<le> ResubscribeSpec_AfterSeq (watch_spec w) \<and>
       tw_LastAckedSeq w \<le> ResubscribeSpec_AfterSeq (watch_spec w))"
proof -
  let ?s = "cl_state c"
  have h: "keyed th_HandleID th_NodeID (rs_TrackedNodes ?s) (rs_TrackedHandles ?s)"
    and w: "keyed tw_WatchID tw_NodeID (rs_TrackedNodes ?s) (rs_TrackedWatches ?s)"
    using assms(1) by (simp_all add: tracking_inv_def)
  have "sorted_wrt (<) (sort (map fst (rs_TrackedHandles ?s)))" "sorted_wrt (<) (sort (map fst (rs_TrackedWatches ?s)))"
    using h w by (simp_all add: keyed_def strict_sorted_iff)
  then show ?thesis
    using assms(2) h w in_key_order_map [OF h] in_key_order_map [OF w]
    by (simp add: SnapshotRecoveryState_def recoverySnapshot_def comp_def handle_spec_def watch_spec_def
        set_in_key_order keyed_def image_image)
qed

theorem recovery_snapshot_exact_witness:
  "RecoverySnapshot_NodeIDs (SnapshotRecoveryState (New_client ''s'')) = [1]"
proof -
  have "set (RecoverySnapshot_NodeIDs (SnapshotRecoveryState (New_client ''s''))) = {1}"
    using recovery_snapshot_exact [of "New_client ''s''", OF tracking_New refl] by (simp add: New_client_def)
  moreover have "length (RecoverySnapshot_NodeIDs (SnapshotRecoveryState (New_client ''s''))) = 1"
    by (simp add: SnapshotRecoveryState_def recoverySnapshot_def New_client_def)
  ultimately show ?thesis by (auto simp: length_Suc_conv)
qed

section \<open>Taking over recovered entries\<close>

text \<open>
  After a recovery the client replaces entries stored under their old identifiers by entries under
  new ones, one result after the other. The contract of one replacement, and what follows for a
  whole list of results when no new identifier is already in use.
\<close>

locale rekeying =
  fixes replace_one :: "'r \<Rightarrow> 's \<Rightarrow> 's"
    and entries :: "'s \<Rightarrow> u64 \<rightharpoonup> 'v"
    and old_id :: "'r \<Rightarrow> u64"
    and new_id :: "'r \<Rightarrow> u64"
    and restored :: "'r \<Rightarrow> 'v \<Rightarrow> 'v"
    and succeeded :: "'r \<Rightarrow> bool"
  assumes replace_one: "succeeded r \<Longrightarrow> entries s (old_id r) = Some v \<Longrightarrow>
    entries (replace_one r s) = (entries s)(old_id r := None, new_id r \<mapsto> restored r v)"
begin

definition replaced :: "'r list \<Rightarrow> (u64 \<rightharpoonup> 'v) \<Rightarrow> u64 \<rightharpoonup> 'v" where
  "replaced rs t k =
     (case find (\<lambda>r. new_id r = k) rs of
        Some r \<Rightarrow> Some (restored r (the (t (old_id r))))
      | None \<Rightarrow> if k \<in> old_id ` set rs then None else t k)"

lemma replace_all:
  assumes "list_all (\<lambda>r. succeeded r \<and> entries s (old_id r) \<noteq> None \<and> entries s (new_id r) = None) rs"
    and "distinct (map old_id rs)" and "distinct (map new_id rs)"
  shows "entries (fold replace_one rs s) = replaced rs (entries s)"
  using assms
proof (induction rs arbitrary: s)
  case (Cons r rs)
  obtain v where v: "entries s (old_id r) = Some v" using Cons.prems(1) by auto
  have one: "entries (replace_one r s) = (entries s)(old_id r := None, new_id r \<mapsto> restored r v)"
    using replace_one v Cons.prems(1) by simp
  have ne: "old_id q \<noteq> old_id r \<and> new_id q \<noteq> new_id r \<and> old_id q \<noteq> new_id r \<and> new_id q \<noteq> old_id r"
    if "q \<in> set rs" for q
  proof -
    have "old_id q \<in> old_id ` set rs" "new_id q \<in> new_id ` set rs" using that by simp_all
    then have "old_id q \<noteq> old_id r" "new_id q \<noteq> new_id r" using Cons.prems(2,3) by force+
    then show ?thesis using that Cons.prems(1) v by (auto simp: list_all_iff)
  qed
  have "list_all (\<lambda>q. succeeded q \<and> entries (replace_one r s) (old_id q) \<noteq> None \<and>
      entries (replace_one r s) (new_id q) = None) rs"
    using Cons.prems(1) ne by (auto simp: one list_all_iff)
  then have IH: "entries (fold replace_one rs (replace_one r s)) = replaced rs (entries (replace_one r s))"
    using Cons.IH Cons.prems(2,3) by simp
  have f: "find (\<lambda>q. new_id q = new_id r) rs = None" using ne by (auto simp: find_None_iff)
  have rest: "the (entries (replace_one r s) (old_id q)) = the (entries s (old_id q))"
    if "find (\<lambda>q. new_id q = k) rs = Some q" for q k
    using ne [of q] that by (auto simp: one find_Some_iff)
  show ?case
  proof
    fix k
    have "replaced rs (entries (replace_one r s)) k = replaced (r # rs) (entries s) k"
    proof (cases "k = new_id r")
      case True
      have "new_id r \<notin> old_id ` set rs" using ne by force
      then show ?thesis using True f v by (simp add: replaced_def one)
    next
      case False
      show ?thesis
      proof (cases "find (\<lambda>q. new_id q = k) rs")
        case None
        then show ?thesis using False by (simp add: replaced_def one)
      qed (use False rest in \<open>simp add: replaced_def\<close>)
    qed
    then show "entries (fold replace_one (r # rs) s) k = replaced (r # rs) (entries s) k" using IH by simp
  qed
qed (simp add: replaced_def fun_eq_iff)

end

definition restored_handle :: "RecoverHandleResult \<Rightarrow> TrackedHandle \<Rightarrow> TrackedHandle" where
  "restored_handle r p =
     \<lparr>th_HandleID = RecoverHandleResult_HandleID r, th_NodeID = RecoverHandleResult_NodeID r,
      th_Writable = th_Writable p,
      th_DeleteOnClose = (RecoverHandleResult_DeleteOnClose r \<or> th_DeleteOnClose p),
      th_LastKnownSize = RecoverHandleResult_Size r, th_LastWriteAt = None, th_LastFlushAt = None,
      th_LastTruncateAt = None\<rparr>"

definition restored_watch :: "ResubscribeResult \<Rightarrow> TrackedWatch \<Rightarrow> TrackedWatch" where
  "restored_watch r p =
     \<lparr>tw_WatchID = ResubscribeResult_WatchID r, tw_NodeID = tw_NodeID p, tw_Recursive = tw_Recursive p,
      tw_LastAckedSeq = max (tw_LastAckedSeq p) (ResubscribeResult_AckedSeq r),
      tw_LastSeenSeq = max (tw_LastSeenSeq p) (ResubscribeResult_StartSeq r)\<rparr>"

interpretation handles_rekeyed: rekeying apply_recovered_handle "\<lambda>s. map_of (rs_TrackedHandles s)"
    RecoverHandleResult_PreviousHandleID RecoverHandleResult_HandleID restored_handle
    "\<lambda>r. RecoverHandleResult_Error r = [] \<and> RecoverHandleResult_HandleID r \<noteq> 0 \<and>
       RecoverHandleResult_PreviousHandleID r \<noteq> 0"
  by unfold_locales (auto simp: apply_recovered_handle_def put_handle_def restored_handle_def Let_def)

interpretation watches_rekeyed: rekeying apply_resubscribed_watch "\<lambda>s. map_of (rs_TrackedWatches s)"
    ResubscribeResult_PreviousWatchID ResubscribeResult_WatchID restored_watch
    "\<lambda>r. ResubscribeResult_Error r = [] \<and> ResubscribeResult_WatchID r \<noteq> 0"
  by unfold_locales (auto simp: apply_resubscribed_watch_def put_watch_def restored_watch_def Let_def)

text \<open>
  Recovery keeps rights: when every handle was recovered and no new identifier is one the client
  already tracks, the client afterwards tracks each handle under its new identifier with the
  writability it had and a delete-on-close mark no weaker than before, forgets the old
  identifiers, and leaves all other handles as they were.
\<close>

theorem recovered_handles_keep_rights:
  assumes "t = map_of (rs_TrackedHandles (cl_state c))"
    and "list_all (\<lambda>r. (RecoverHandleResult_Error r = [] \<and> RecoverHandleResult_HandleID r \<noteq> 0 \<and>
        RecoverHandleResult_PreviousHandleID r \<noteq> 0) \<and> t (RecoverHandleResult_PreviousHandleID r) \<noteq> None \<and>
        t (RecoverHandleResult_HandleID r) = None) rs"
    and "distinct (map RecoverHandleResult_PreviousHandleID rs)"
    and "distinct (map RecoverHandleResult_HandleID rs)"
  shows "map_of (rs_TrackedHandles (cl_state (applyRecoveredHandles rs c))) = (\<lambda>k.
    case find (\<lambda>r. RecoverHandleResult_HandleID r = k) rs of
      Some r \<Rightarrow> Some (restored_handle r (the (t (RecoverHandleResult_PreviousHandleID r))))
    | None \<Rightarrow> if k \<in> RecoverHandleResult_PreviousHandleID ` set rs then None else t k)"
proof -
  have "map_of (rs_TrackedHandles (cl_state (applyRecoveredHandles rs c))) = handles_rekeyed.replaced rs t"
    using handles_rekeyed.replace_all [of "cl_state c" rs] assms
    by (simp add: applyRecoveredHandles_def on_state_def)
  then show ?thesis by (simp add: handles_rekeyed.replaced_def fun_eq_iff)
qed

definition recovering_client :: Client where
  "recovering_client = updateHandle (tracked 2001 4 True 10) (New_client ''s'')"

definition moved_handle :: "u64 \<Rightarrow> u64 \<Rightarrow> RecoverHandleResult" where
  "moved_handle a b = \<lparr>RecoverHandleResult_PreviousHandleID = a, RecoverHandleResult_HandleID = b,
     RecoverHandleResult_NodeID = 4, RecoverHandleResult_Size = 10, RecoverHandleResult_DeleteOnClose = False,
     RecoverHandleResult_Error = []\<rparr>"

theorem recovered_handles_keep_rights_witness:
  "map_option th_Writable
     (map_of (rs_TrackedHandles (cl_state (applyRecoveredHandles [moved_handle 2001 2009] recovering_client))) 2009)
   = Some True"
proof -
  let ?t = "map_of (rs_TrackedHandles (cl_state recovering_client))"
  have t: "?t = [2001 \<mapsto> tracked 2001 4 True 10]"
    by (simp add: recovering_client_def updateHandle_def on_state_def put_handle_def New_client_def tracked_def)
  show ?thesis
    using recovered_handles_keep_rights [OF refl, of recovering_client "[moved_handle 2001 2009]"]
    by (simp add: t moved_handle_def restored_handle_def tracked_def)
qed

definition colliding_client :: Client where
  "colliding_client = on_state (\<lambda>s. s\<lparr>rs_TrackedWatches :=
     [(5001, \<lparr>tw_WatchID = 5001, tw_NodeID = 7, tw_Recursive = False, tw_LastAckedSeq = 0, tw_LastSeenSeq = 0\<rparr>),
      (5002, \<lparr>tw_WatchID = 5002, tw_NodeID = 8, tw_Recursive = True, tw_LastAckedSeq = 0, tw_LastSeenSeq = 0\<rparr>)]\<rparr>)
     (New_client ''s'')"

definition moved_watch :: "u64 \<Rightarrow> u64 \<Rightarrow> ResubscribeResult" where
  "moved_watch a b = \<lparr>ResubscribeResult_PreviousWatchID = a, ResubscribeResult_WatchID = b,
     ResubscribeResult_StartSeq = 0, ResubscribeResult_AckedSeq = 0, ResubscribeResult_Error = []\<rparr>"

text \<open>
  Without that condition recovery can mix watches up: a client tracks watch 5001 on node 7 and the
  recursive watch 5002 on node 8, and a restarted server, on which another client already took the
  identifier 5001, numbers them 5002 and 5003. Afterwards the client tracks one watch only, under
  5003, and takes it for a watch on node 7 that is not recursive.
\<close>

theorem resubscription_can_mix_watches:
  "rs_TrackedWatches (cl_state (applyResubscribedWatches [moved_watch 5001 5002, moved_watch 5002 5003]
     colliding_client)) =
   [(5003, \<lparr>tw_WatchID = 5003, tw_NodeID = 7, tw_Recursive = False, tw_LastAckedSeq = 0, tw_LastSeenSeq = 0\<rparr>)]"
  by code_simp

end
