(* ===== verification/ClientServer.thy ===== *)
theory ClientServer
  imports ClientProps ServerProps
begin

text \<open>
  The client and the server together: the far end of the client's connection is the server's
  connection loop, one round per request. JSON stays a parameter on both sides; the theorems
  assume of it only that the messages they are about survive encoding and decoding.
\<close>

section \<open>The server as the far end\<close>

text \<open>
  One round of \<^verbatim>\<open>handleConn\<close>: decode the frame, dispatch it, encode the reply and send it, the write
  taking the whole frame. A frame that cannot be decoded ends the connection, a reply that cannot be
  encoded is only logged.
\<close>

definition server_peer ::
  "decoders \<Rightarrow> (Response \<Rightarrow> bytes option) \<Rightarrow> instant \<Rightarrow> duration \<Rightarrow> bytes \<Rightarrow>
    connectionState \<times> Server \<Rightarrow> bytes option \<times> connectionState \<times> Server" where
  "server_peer dec marshal now elapsed frame = (\<lambda>(st, s).
     case DecodeFrame frame of
       Inl err \<Rightarrow>
         (Some [], st, s\<lparr>srv_Faults := snd (logConnectionError (Some (frame_conn_error err)) (srv_Faults s))\<rparr>)
     | Inr ((header, payload), _) \<Rightarrow>
         let (r, st, s) = dispatch dec now elapsed header payload st (set_clock now s)
         in (case sendReply marshal None r s of (written, s) \<Rightarrow> (Some written, st, s)))"

definition linked ::
  "decoders \<Rightarrow> (Response \<Rightarrow> bytes option) \<Rightarrow> resp_decoders \<Rightarrow> (Request \<Rightarrow> bytes option) \<Rightarrow> (client_error \<Rightarrow> string) \<Rightarrow>
    instant \<Rightarrow> duration \<Rightarrow> (connectionState \<times> Server) client_env" where
  "linked dec marshal rdec rmarshal libtext now elapsed =
     \<lparr>ce_peer = server_peer dec marshal now elapsed, ce_marshal = rmarshal, ce_dec = rdec, ce_now = now, ce_libtext = libtext\<rparr>"

text \<open>The header a request of client \<open>c\<close> arrives with, its payload being \<open>n\<close> bytes long.\<close>

definition arriving :: "Channel \<Rightarrow> Opcode \<Rightarrow> Client \<Rightarrow> nat \<Rightarrow> Header" where
  "arriving channel opcode c n =
     seal_header (request_header channel opcode (cl_nextReqID c + 1) (cl_SessionID c)) n"

section \<open>Remote calls\<close>

lemma check_reply_own:
  assumes "answers h (rh, body)" and "h_RequestID h = i" and "m = seal_header rh n"
  shows "check_reply dec un i m pb =
    (if h_Opcode rh = OpcodeErrorResp
     then (case dec_ErrorResp dec pb of None \<Rightarrow> Inl DecodeErrorPayload
           | Some e \<Rightarrow> Inl (ServerError (ErrorResp_Code e) (ErrorResp_Message e)))
     else (case un pb of None \<Rightarrow> Inl DecodeError | Some x \<Rightarrow> Inr x))"
  using assms
  by (auto simp: check_reply_def answers_def seal_header_def DecodePayload_def DecodeInto_def split: option.split)

lemma remote_call_aux:
  assumes env: "env = linked dec marshal rdec rmarshal libtext now elapsed"
    and conn: "cl_Conn c = Some []"
    and q: "rmarshal q = Some pb" "HeaderLength + length pb < 2 ^ 32"
    and d: "dispatch dec now elapsed (arriving ch opc c (length pb)) pb st (set_clock now s) = ((rh, body), st', s')"
    and r: "marshal body = Some rb" "HeaderLength + length rb < 2 ^ 32"
  shows "request env un ch opc q (c, st, s) =
    (if h_Opcode rh = OpcodeErrorResp
     then (case dec_ErrorResp rdec rb of None \<Rightarrow> Inl DecodeErrorPayload
           | Some e \<Rightarrow> Inl (ServerError (ErrorResp_Code e) (ErrorResp_Message e)))
     else (case un rb of None \<Rightarrow> Inl DecodeError | Some x \<Rightarrow> Inr x),
     c\<lparr>cl_nextReqID := cl_nextReqID c + 1, cl_Conn := Some []\<rparr>, st', s')"
proof -
  let ?h = "request_header ch opc (cl_nextReqID c + 1) (cl_SessionID c)"
  obtain frame where f: "EncodeFrame rmarshal ?h q = Some frame"
    "DecodeFrame (frame @ []) = Inr ((seal_header ?h (length pb), pb), [])"
    using decode_sealed [of rmarshal q pb ?h "[]"] q by blast
  obtain rframe where g: "EncodeFrame marshal rh body = Some rframe"
    "DecodeFrame (rframe @ []) = Inr ((seal_header rh (length rb), rb), [])"
    using decode_sealed [of marshal body rb rh "[]"] r by blast
  have p: "server_peer dec marshal now elapsed frame (st, s) = (Some rframe, st', s')"
    using f(2) d g(1) by (simp add: server_peer_def arriving_def sendReply_def)
  have ans: "answers (arriving ch opc c (length pb)) (rh, body)"
    using answers_dispatch [of "arriving ch opc c (length pb)" dec now elapsed pb st "set_clock now s"] d by simp
  have rid: "h_RequestID (arriving ch opc c (length pb)) = cl_nextReqID c + 1"
    by (simp add: arriving_def seal_header_def request_header_def)
  note reply = check_reply_own [OF ans rid refl, of rdec un "length rb" rb]
  show ?thesis
    using f(1) g(2) p conn frame_rest_decode [OF g(2)] by (simp add: request_def env linked_def reply)
qed

text \<open>
  C20: A remote call is a local call: on a connection with nothing unread, a request whose payload fits
  a frame is dispatched by the server exactly as sent, once, and the client's result is the body the
  server answered with, decoded, or the server's error with its code and message. Afterwards the
  connection is again in step, and the server is in the state the dispatcher left it in.
\<close>

theorem remote_call:
  assumes "env = linked dec marshal rdec rmarshal libtext now elapsed"
    and "cl_Conn c = Some []"
    and "rmarshal q = Some pb" and "HeaderLength + length pb < 2 ^ 32"
    and "dispatch dec now elapsed (arriving ch opc c (length pb)) pb st (set_clock now s) = ((rh, body), st', s')"
    and "marshal body = Some rb" and "HeaderLength + length rb < 2 ^ 32"
  shows "request env un ch opc q (c, st, s) =
    (if h_Opcode rh = OpcodeErrorResp
     then (case dec_ErrorResp rdec rb of None \<Rightarrow> Inl DecodeErrorPayload
           | Some e \<Rightarrow> Inl (ServerError (ErrorResp_Code e) (ErrorResp_Message e)))
     else (case un rb of None \<Rightarrow> Inl DecodeError | Some x \<Rightarrow> Inr x),
     c\<lparr>cl_nextReqID := cl_nextReqID c + 1, cl_Conn := Some []\<rparr>, st', s')"
  using assms by (rule remote_call_aux)

definition refusing_client :: resp_decoders where
  "refusing_client = deaf_decoders\<lparr>dec_ErrorResp := (\<lambda>_. Some \<lparr>ErrorResp_Code = ErrSessionNotFound,
     ErrorResp_Message = ''session not found'', ErrorResp_Retryable = False, ErrorResp_Details = []\<rparr>)\<rparr>"

theorem remote_call_witness:
  "fst (request (linked no_decoders (\<lambda>_. Some [1]) refusing_client (\<lambda>_. Some [2]) (\<lambda>_. []) 5 0)
     (dec_WriteResp refusing_client) ChannelData OpcodeWriteReq
     (ReqWrite \<lparr>WriteReq_HandleID = 1, WriteReq_Offset = 0, WriteReq_Data = [7]\<rparr>)
     ((New_client ''s'')\<lparr>cl_Conn := Some []\<rparr>, new_connection, sample_server)) =
   Inl (ServerError ErrSessionNotFound ''session not found'')"
proof -
  let ?c = "(New_client ''s'')\<lparr>cl_Conn := Some []\<rparr>"
  let ?h = "arriving ChannelData OpcodeWriteReq ?c (length [2 :: u8])"
  obtain rh body st' s' where
    d: "dispatch no_decoders 5 0 ?h [2] new_connection (set_clock 5 sample_server) = ((rh, body), st', s')"
    by (metis prod.collapse)
  have e: "h_Opcode rh = OpcodeErrorResp"
    using d by (auto simp: dispatch_def in_session_def requireActiveSession_def ValidateActive_def Let_def
        sample_server_def set_clock_def NewSessionManager_def writeError_def reply_header_def
        arriving_def seal_header_def request_header_def)
  show ?thesis
    using remote_call [where un = "dec_WriteResp refusing_client" and rdec = refusing_client and
        marshal = "\<lambda>_. Some [1]" and rb = "[1]" and rmarshal = "\<lambda>_. Some [2]" and
        q = "ReqWrite \<lparr>WriteReq_HandleID = 1, WriteReq_Offset = 0, WriteReq_Data = [7]\<rparr>", OF refl _ _ _ d] e
    by (simp add: refusing_client_def)
qed

section \<open>Writing and reading across the connection\<close>

text \<open>A message that survives its encoding and fits a frame.\<close>

definition carried :: "(bytes \<Rightarrow> 'm option) \<Rightarrow> bytes option \<Rightarrow> 'm \<Rightarrow> bool" where
  "carried unmarshal encoded m \<longleftrightarrow>
     (\<exists>b. encoded = Some b \<and> HeaderLength + length b < 2 ^ 32 \<and> unmarshal b = Some m)"

lemma dispatch_in_session:
  assumes "ValidateActive (h_SessionID h) now (srv_SessionManager s) = (se, True, True)"
  shows "h_Channel h = ChannelData \<Longrightarrow> dispatch dec now el h p st s =
      (case dispatchData dec now h p s of (r, s') \<Rightarrow> (r, st, s'))"
    and "h_Channel h = ChannelMetadata \<Longrightarrow> dispatch dec now el h p st s =
      (case dispatchMetadata dec now h p s of (r, s') \<Rightarrow> (r, st, s'))"
  using assms by (simp_all add: dispatch_def in_session_def requireActiveSession_def)

lemma arriving_fields [simp]:
  "h_Channel (arriving ch opc c n) = ch" "h_Opcode (arriving ch opc c n) = opc"
  "h_SessionID (arriving ch opc c n) = cl_SessionID c"
  by (simp_all add: arriving_def seal_header_def request_header_def)

lemma set_clock_sessions [simp]: "srv_SessionManager (set_clock t s) = srv_SessionManager s"
  by (simp add: set_clock_def)

lemma set_clock_twice [simp]: "set_clock t (s\<lparr>srv_Backend := b\<rparr>) = s\<lparr>srv_Backend := b\<lparr>b_now := t\<rparr>\<rparr>"
  by (simp add: set_clock_def)

text \<open>A data request whose backend operation succeeds and that journals nothing.\<close>

lemma remote_data:
  assumes env: "env = linked dec marshal rdec rmarshal libtext now elapsed"
    and conn: "cl_Conn c = Some []"
    and live: "ValidateActive (cl_SessionID c) now (srv_SessionManager s) = (se, True, True)"
    and q: "carried un (rmarshal q) m"
    and d: "\<And>h pb. h_Opcode h = opc \<Longrightarrow> un pb = Some m \<Longrightarrow>
      dispatchData dec now h pb (set_clock now s) = (writeResponse h ropc (h_SessionID h) body, s')"
    and ropc: "ropc \<noteq> OpcodeErrorResp"
    and r: "carried (run rdec) (marshal body) resp"
  shows "requestDecode env run ChannelData opc q k (c, st, s) =
    (Inr resp, k resp (c\<lparr>cl_nextReqID := cl_nextReqID c + 1, cl_Conn := Some []\<rparr>), st, s')"
proof -
  obtain pb where pb: "rmarshal q = Some pb" "HeaderLength + length pb < 2 ^ 32" "un pb = Some m"
    using q by (auto simp: carried_def)
  obtain rb where rb: "marshal body = Some rb" "HeaderLength + length rb < 2 ^ 32" "run rdec rb = Some resp"
    using r by (auto simp: carried_def)
  let ?h = "arriving ChannelData opc c (length pb)"
  have "dispatch dec now elapsed ?h pb st (set_clock now s) =
      ((reply_header ?h ropc FlagResponse (h_SessionID ?h), body), st, s')"
    using d [of ?h pb] pb(3) live by (subst dispatch_in_session(1)) (simp_all add: writeResponse_def)
  from remote_call_aux [OF env conn pb(1,2) this rb(1,2), of "run rdec"]
  show ?thesis using ropc rb(3) by (simp add: requestDecode_def env linked_def reply_header_def)
qed

lemma dispatch_write:
  assumes "h_Opcode h = OpcodeWriteReq" and "dec_WriteReq dec pb = Some q"
    and "WriteFile (WriteReq_HandleID q) (WriteReq_Offset q) (WriteReq_Data q) (srv_Backend s) = (Inr (n, sz), b)"
  shows "dispatchData dec now h pb s =
    (writeResponse h OpcodeWriteResp (h_SessionID h)
       (ReplyWriteResp \<lparr>WriteResp_BytesWritten = int n, WriteResp_NewSize = sz\<rparr>), s\<lparr>srv_Backend := b\<rparr>)"
  using assms by (simp add: dispatchData_def with_payload_def on_backend_def respond_def DecodePayload_def)

lemma dispatch_read:
  assumes "h_Opcode h = OpcodeReadReq" and "dec_ReadReq dec pb = Some q"
    and "ReadFile (ReadReq_HandleID q) (ReadReq_Offset q) (ReadReq_Length q) (srv_Backend s) = (Inr (d, e), b)"
  shows "dispatchData dec now h pb s =
    (writeResponse h OpcodeReadResp (h_SessionID h)
       (ReplyReadResp \<lparr>ReadResp_Data = d, ReadResp_EOF = e, ReadResp_Offset = ReadReq_Offset q\<rparr>),
     s\<lparr>srv_Backend := b\<rparr>)"
  using assms by (simp add: dispatchData_def with_payload_def on_backend_def respond_def DecodePayload_def)


lemma WriteFile_now: "WriteFile i off d b = (Inr r, b') \<Longrightarrow> b_now b' = b_now b"
  by (auto simp: WriteFile_def invalidateEntry_def upd_handle_def Let_def
      split: sum.splits if_splits prod.splits option.splits)

lemma markHandleWrite_conn [simp]:
  "cl_Conn (markHandleWrite t i n c) = cl_Conn c" "cl_SessionID (markHandleWrite t i n c) = cl_SessionID c"
  by (simp_all add: markHandleWrite_def change_handle_def on_state_def)

text \<open>
  C21: What a client writes it reads back. On an open connection with an active session and a writable
  handle on a file the host reads and writes without errors, a remote write of some bytes succeeds
  in full and a remote read of the same range then returns exactly these bytes, provided the four
  messages survive their JSON encoding.
\<close>

theorem remote_write_then_read:
  assumes "env = linked dec marshal rdec rmarshal libtext now elapsed" and "cl_Conn c = Some []"
    and "ValidateActive (cl_SessionID c) now (srv_SessionManager s) = (se, True, True)"
    and "b_handles (srv_Backend s) i = Some h" and "fh_writable h"
    and "fs_inodes (b_fs (srv_Backend s)) (of_inode (fh_file h)) = Some nd" and "i_faults nd = []"
    and "0 \<le> off" and "off + int (length d) < 2 ^ 63" and "d \<noteq> []" and "length d < 2 ^ 32"
    and "wq = \<lparr>WriteReq_HandleID = i, WriteReq_Offset = off, WriteReq_Data = d\<rparr>"
    and "wr = \<lparr>WriteResp_BytesWritten = int (length d), WriteResp_NewSize = max (fh_size h) (off + int (length d))\<rparr>"
    and "rq = \<lparr>ReadReq_HandleID = i, ReadReq_Offset = off, ReadReq_Length = of_nat (length d)\<rparr>"
    and "rr = \<lparr>ReadResp_Data = d, ReadResp_EOF = (fh_size h \<le> off + int (length d)), ReadResp_Offset = off\<rparr>"
    and "carried (dec_WriteReq dec) (rmarshal (ReqWrite wq)) wq"
    and "carried (dec_ReadReq dec) (rmarshal (ReqRead rq)) rq"
    and "carried (dec_WriteResp rdec) (marshal (ReplyWriteResp wr)) wr"
    and "carried (dec_ReadResp rdec) (marshal (ReplyReadResp rr)) rr"
  shows "\<exists>cw. Client_Write env i off d (c, st, s) = (Inr wr, cw) \<and>
    (\<exists>cw'. Client_Read env i off (of_nat (length d)) cw = (Inr rr, cw'))"
proof -
  let ?b = "(srv_Backend s)\<lparr>b_now := now\<rparr>"
  obtain b' where w: "WriteFile i off d ?b = (Inr (length d, max (fh_size h) (off + int (length d))), b')"
    and r: "ReadFile i off (of_nat (length d)) b' = (Inr (d, fh_size h \<le> off + int (length d)), b')"
    using write_then_read_aux [of ?b i h nd off d] assms by auto
  have "b_now b' = b_now ?b" using w by (rule WriteFile_now)
  then have now: "b'\<lparr>b_now := now\<rparr> = b'" by simp
  let ?s = "(set_clock now s)\<lparr>srv_Backend := b'\<rparr>"
  let ?c = "markHandleWrite now i (WriteResp_NewSize wr) (c\<lparr>cl_nextReqID := cl_nextReqID c + 1, cl_Conn := Some []\<rparr>)"
  have "Client_Write env i off d (c, st, s) = (Inr wr, ?c, st, ?s)"
    using remote_data [where run = dec_WriteResp and un = "dec_WriteReq dec" and q = "ReqWrite wq" and
        body = "ReplyWriteResp wr" and opc = OpcodeWriteReq and ropc = OpcodeWriteResp and
        rmarshal = rmarshal and s' = ?s, OF assms(1,2,3,16) _ _ assms(18)]
      dispatch_write [of _ dec _ wq "set_clock now s"] w assms(12,13)
    by (simp add: Client_Write_def set_clock_def assms(1) linked_def)
  moreover have "\<exists>cw'. Client_Read env i off (of_nat (length d)) (?c, st, ?s) = (Inr rr, cw')"
    using remote_data [where run = dec_ReadResp and un = "dec_ReadReq dec" and q = "ReqRead rq" and
        body = "ReplyReadResp rr" and opc = OpcodeReadReq and ropc = OpcodeReadResp and c = ?c and s = ?s and
        rmarshal = rmarshal and s' = ?s, OF assms(1) _ _ assms(17) _ _ assms(19)]
      dispatch_read [of _ dec _ rq ?s] r now assms(3,14,15)
    by (simp add: Client_Read_def)
  ultimately show ?thesis by blast
qed

definition sample_write :: WriteReq where
  "sample_write = \<lparr>WriteReq_HandleID = 2001, WriteReq_Offset = 4, WriteReq_Data = [1, 2, 3]\<rparr>"

definition sample_written :: WriteResp where
  "sample_written = \<lparr>WriteResp_BytesWritten = 3, WriteResp_NewSize = 7\<rparr>"

definition sample_read :: ReadReq where
  "sample_read = \<lparr>ReadReq_HandleID = 2001, ReadReq_Offset = 4, ReadReq_Length = 3\<rparr>"

definition sample_data :: ReadResp where
  "sample_data = \<lparr>ReadResp_Data = [1, 2, 3], ReadResp_EOF = True, ReadResp_Offset = 4\<rparr>"

definition sample_link :: "(connectionState \<times> Server) client_env" where
  "sample_link = linked
     (no_decoders\<lparr>dec_WriteReq := (\<lambda>_. Some sample_write), dec_ReadReq := (\<lambda>_. Some sample_read)\<rparr>) (\<lambda>_. Some [1])
     (deaf_decoders\<lparr>dec_WriteResp := (\<lambda>_. Some sample_written), dec_ReadResp := (\<lambda>_. Some sample_data)\<rparr>) (\<lambda>_. Some [2])
     (\<lambda>_. []) 100 0"

theorem remote_write_then_read_witness:
  "\<exists>cw. Client_Write sample_link 2001 4 [1, 2, 3] ((New_client ''s'')\<lparr>cl_Conn := Some [], cl_SessionID := 1001\<rparr>,
       new_connection, sample_busy\<lparr>srv_Backend := sample_open\<rparr>) = (Inr sample_written, cw) \<and>
     (\<exists>cw'. Client_Read sample_link 2001 4 3 cw = (Inr sample_data, cw'))"
proof -
  let ?s = "sample_busy\<lparr>srv_Backend := sample_open\<rparr>"
  let ?c = "(New_client ''s'')\<lparr>cl_Conn := Some [], cl_SessionID := 1001\<rparr>"
  have v: "ValidateActive (cl_SessionID ?c) 100 (srv_SessionManager ?s) =
      (fst (Create ''developer'' ''c'' 30 0 NewSessionManager), True, True)"
    by (simp add: ValidateActive_def sample_busy_def Create_def NewSessionManager_def Let_def)
  have h: "b_handles (srv_Backend ?s) 2001 = Some sample_handle"
    "fs_inodes (b_fs (srv_Backend ?s)) (of_inode (fh_file sample_handle)) = Some (tree_node False [104, 105])"
    by (simp_all add: sample_open_def sample_handle_def)
  show ?thesis
    using remote_write_then_read [OF sample_link_def _ v h(1) _ h(2), of 4 "[1, 2, 3]"
        sample_write sample_written sample_read sample_data new_connection]
    by (simp add: sample_handle_def tree_node_def sample_write_def sample_written_def sample_read_def
        sample_data_def carried_def)
qed

section \<open>Heartbeats\<close>

text \<open>Instants of which each comes at most \<open>gap\<close> after the one before.\<close>

fun spaced :: "duration \<Rightarrow> instant \<Rightarrow> instant list \<Rightarrow> bool" where
  "spaced gap t0 [] = True"
| "spaced gap t0 (t # ts) = (t \<le> t0 + gap \<and> spaced gap t ts)"

lemma spaced_in_time: "spaced gap t0 ts \<Longrightarrow> gap \<le> lease \<Longrightarrow> in_time (t0 + lease) lease ts"
  by (induction ts arbitrary: t0) auto

lemma heartbeatInterval_bound:
  assumes "6 \<le> lease"
  shows "heartbeatInterval lease + second_ns \<le> lease_ns lease"
proof -
  have "6 \<le> uint lease" using assms by (simp add: word_le_def)
  moreover have "lease \<noteq> 0" using assms by auto
  ultimately show ?thesis by (simp add: heartbeatInterval_def Let_def) linarith
qed

text \<open>
  C24: The client's heartbeat keeps its session alive: for every lease of at least six seconds, as long
  as each heartbeat reaches the server within one second of the interval the client computes from
  the lease, the session is active all the time from its creation until one interval and one
  second after the last heartbeat.
\<close>

theorem heartbeats_keep_session:
  assumes "6 \<le> lease" and "Create p ci lease t0 m = (session, m')"
    and "spaced (heartbeatInterval lease + second_ns) t0 ts"
    and "t \<le> last (t0 # ts) + heartbeatInterval lease + second_ns"
  shows "session_active (Session_ID session) t (beats (Session_ID session) ts m')"
proof (rule beats_in_time)
  show "sm_sessions m' (Session_ID session) = Some session" "Session_State session = ''active''"
    using assms(2) by (auto simp: Create_def Let_def)
  have l: "Session_LeaseSeconds session = lease" "Session_ExpiresAt session = t0 + lease_ns lease"
    using assms(2) by (auto simp: Create_def Let_def)
  show "in_time (Session_ExpiresAt session) (lease_ns (Session_LeaseSeconds session)) ts"
    using spaced_in_time [OF assms(3) heartbeatInterval_bound [OF assms(1)]] l by simp
  show "t \<le> (if ts = [] then Session_ExpiresAt session
      else last ts + lease_ns (Session_LeaseSeconds session))"
    using assms(4) heartbeatInterval_bound [OF assms(1)] l by (auto split: if_splits)
qed

theorem heartbeats_keep_session_witness:
  "session_active 1001 25000000000
     (beats 1001 [10000000000, 20500000000] (snd (Create ''developer'' ''c'' 30 0 NewSessionManager)))"
  using heartbeats_keep_session [of 30 "''developer''" "''c''" 0 NewSessionManager
      "fst (Create ''developer'' ''c'' 30 0 NewSessionManager)"
      "snd (Create ''developer'' ''c'' 30 0 NewSessionManager)" "[10000000000, 20500000000]" 25000000000]
  by (simp add: Create_def NewSessionManager_def Let_def heartbeatInterval_def)

text \<open>
  Shorter leases die: the server grants leases of one to four seconds, but the client never beats
  more often than every five seconds, so such a session is expired when the first heartbeat comes.
\<close>

theorem short_leases_expire:
  assumes "1 \<le> lease" and "lease \<le> 4" and "Create p ci lease t0 m = (session, m')"
  shows "clamp_lease lease = lease \<and>
    \<not> session_active (Session_ID session) (t0 + heartbeatInterval lease) m' \<and>
    fst (Heartbeat (Session_ID session) (t0 + heartbeatInterval lease) m') =
      (session\<lparr>Session_State := ''expired''\<rparr>, True, False)"
proof -
  have l: "uint lease \<le> 4" "lease \<noteq> 0" using assms(1,2) by (auto simp: word_le_def)
  then have "heartbeatInterval lease = 5 * second_ns" by (simp add: heartbeatInterval_def Let_def)
  moreover have "\<not> 300 < lease" using assms(2) by (simp add: not_less word_le_def word_less_def)
  ultimately show ?thesis
    using assms(3) l
    by (auto simp: Create_def clamp_lease_def Heartbeat_def session_active_iff Let_def)
qed

theorem short_leases_expire_witness:
  "\<not> session_active 1001 5000000000 (snd (Create ''developer'' ''c'' 2 0 NewSessionManager))"
  using short_leases_expire [of 2 "''developer''" "''c''" 0 NewSessionManager
      "fst (Create ''developer'' ''c'' 2 0 NewSessionManager)" "snd (Create ''developer'' ''c'' 2 0 NewSessionManager)"]
  by (simp add: Create_def NewSessionManager_def Let_def heartbeatInterval_def)

end
