(* ===== verification/Mount.thy ===== *)
theory Mount
  imports ClientServer
begin

text \<open>
  The mounted tree: Windows paths (\<^verbatim>\<open>internal/platform/windows/path.go\<close>) and the mount of
  \<^verbatim>\<open>internal/mountcore/mount.go\<close>, which resolves paths through a cache, hands out local handles
  and calls the server through the \<^verbatim>\<open>ProtocolClient\<close> interface. The interface is a record of
  functions over the state of whatever implements it.
\<close>

section \<open>Paths\<close>

definition backslash :: char where
  "backslash = CHR 0x5C"

text \<open>The loop over the parts: \<open>None\<close> when it meets the parent directory.\<close>

fun clean_parts :: "string list \<Rightarrow> string list option" where
  "clean_parts [] = Some []"
| "clean_parts (part # parts) =
     (if part = [] \<or> part = ''.'' then clean_parts parts
      else if part = ''..'' then None
      else map_option (Cons part) (clean_parts parts))"

definition NormalizeMountPath :: "string \<Rightarrow> string option" where
  "NormalizeMountPath input =
     (let replaced = ReplaceAll (TrimSpace input) backslash slash in
      if replaced = [] \<or> replaced = ''.'' then Some ''/''
      else
        let parts = Split (TrimPrefix replaced ''/'') slash in
        (case clean_parts parts of
           None \<Rightarrow> None
         | Some cleanParts \<Rightarrow>
             if cleanParts = [] then Some ''/''
             else Some (''/'' @ Clean (Join cleanParts ''/''))))"

definition SplitMountPath :: "string \<Rightarrow> string list option" where
  "SplitMountPath input =
     (case NormalizeMountPath input of
        None \<Rightarrow> None
      | Some normalized \<Rightarrow>
          if normalized = ''/'' then Some []
          else Some (Split (TrimPrefix normalized ''/'') slash))"

definition JoinMountPath :: "string \<Rightarrow> string \<Rightarrow> string" where
  "JoinMountPath parent name =
     (let normalizedParent = (case NormalizeMountPath parent of None \<Rightarrow> ''/'' | Some p \<Rightarrow> p);
          child = Trim (ReplaceAll (TrimSpace name) backslash slash) slash;
          joined = (if child = [] then normalizedParent
                    else if normalizedParent = ''/'' then ''/'' @ child
                    else normalizedParent @ ''/'' @ child)
      in case NormalizeMountPath joined of None \<Rightarrow> joined | Some p \<Rightarrow> p)"

definition IsRootPath :: "string \<Rightarrow> bool" where
  "IsRootPath input = (NormalizeMountPath input = Some ''/'')"

section \<open>The client interface\<close>

type_synonym ('c, 'r) rpc = "'c \<Rightarrow> (client_error + 'r) \<times> 'c"

record 'c ProtocolClient =
  pc_Lookup :: "u64 \<Rightarrow> string \<Rightarrow> ('c, LookupResp) rpc"
  pc_GetAttr :: "u64 \<Rightarrow> ('c, GetAttrResp) rpc"
  pc_OpenDir :: "u64 \<Rightarrow> ('c, OpenDirResp) rpc"
  pc_ReadDir :: "u64 \<Rightarrow> u64 \<Rightarrow> u32 \<Rightarrow> ('c, ReadDirResp) rpc"
  pc_CloseDir :: "u64 \<Rightarrow> ('c, CloseDirResp) rpc"
  pc_OpenRead :: "u64 \<Rightarrow> ('c, OpenResp) rpc"
  pc_Read :: "u64 \<Rightarrow> int \<Rightarrow> u32 \<Rightarrow> ('c, ReadResp) rpc"
  pc_CloseHandle :: "u64 \<Rightarrow> ('c, CloseResp) rpc"

text \<open>The client of \<^verbatim>\<open>internal/clientcore\<close> implements it.\<close>

definition client_as_ProtocolClient :: "'w client_env \<Rightarrow> (Client \<times> 'w) ProtocolClient" where
  "client_as_ProtocolClient env =
     \<lparr>pc_Lookup = Client_Lookup env, pc_GetAttr = Client_GetAttr env, pc_OpenDir = Client_OpenDir env,
      pc_ReadDir = Client_ReadDir env, pc_CloseDir = Client_CloseDir env,
      pc_OpenRead = Client_OpenRead env, pc_Read = Client_Read env,
      pc_CloseHandle = Client_CloseHandle env\<rparr>"

section \<open>State\<close>

record Options =
  op_RootNodeID :: u64
  op_VolumeName :: string
  op_ReadOnly :: bool
  op_CaseSensitive :: bool
  op_ReadDirBatchSize :: u32

record VolumeInfo =
  vi_Name :: string
  vi_ReadOnly :: bool
  vi_CaseSensitive :: bool
  vi_MaxComponentLength :: u32

record MountFileInfo =
  mi_Path :: string
  mi_NodeID :: u64
  mi_ParentNodeID :: u64
  mi_Name :: string
  mi_IsDirectory :: bool
  mi_Size :: int
  mi_Mode :: u32
  mi_ModTime :: string

record FileHandle =
  mf_HandleID :: u64
  mf_RemoteHandleID :: u64
  mf_Path :: string
  mf_Info :: MountFileInfo

record DirectoryHandle =
  md_HandleID :: u64
  md_RemoteCursorID :: u64
  md_Path :: string
  md_Info :: MountFileInfo

record DirectoryPage =
  dp_Entries :: "MountFileInfo list"
  dp_NextCookie :: u64
  dp_EOF :: bool

record ReadResult =
  rr_Data :: bytes
  rr_Offset :: int
  rr_EOF :: bool

record 'c Mount =
  m_client :: 'c
  m_opts :: Options
  m_pathCache :: "string \<rightharpoonup> NodeInfo"
  m_fileHandles :: "u64 \<rightharpoonup> FileHandle"
  m_directoryHandles :: "u64 \<rightharpoonup> DirectoryHandle"
  m_nextLocalHandle :: u64

datatype mount_error =
    MountErrInvalidHandle
  | MountErrIsDirectory
  | MountErrNotDirectory
  | InvalidPath string
  | LookupFailed string client_error
  | ClientFailed client_error

type_synonym ('c, 'r) mount_op = "'c Mount \<Rightarrow> (mount_error + 'r) \<times> 'c Mount"

definition root_node :: "u64 \<Rightarrow> NodeInfo" where
  "root_node i =
     \<lparr>ni_NodeID = i, ni_ParentNodeID = i, ni_Name = [], ni_FileType = FileTypeDirectory, ni_Size = 0,
      ni_Mode = 0, ni_ModTime = []\<rparr>"

definition New_mount :: "'c \<Rightarrow> Options \<Rightarrow> 'c Mount" where
  "New_mount client opts =
     (let opts = (if op_RootNodeID opts = 0 then opts\<lparr>op_RootNodeID := 1\<rparr> else opts);
          opts = (if op_VolumeName opts = [] then opts\<lparr>op_VolumeName := ''devmount''\<rparr> else opts);
          opts = (if op_ReadDirBatchSize opts = 0 then opts\<lparr>op_ReadDirBatchSize := 128\<rparr> else opts)
      in \<lparr>m_client = client, m_opts = opts, m_pathCache = [''/'' \<mapsto> root_node (op_RootNodeID opts)],
          m_fileHandles = Map.empty, m_directoryHandles = Map.empty, m_nextLocalHandle = 1\<rparr>)"

definition mount_VolumeInfo :: "'c Mount \<Rightarrow> VolumeInfo" where
  "mount_VolumeInfo m =
     \<lparr>vi_Name = op_VolumeName (m_opts m), vi_ReadOnly = op_ReadOnly (m_opts m),
      vi_CaseSensitive = op_CaseSensitive (m_opts m), vi_MaxComponentLength = 255\<rparr>"

section \<open>Resolving paths\<close>

definition cachePath :: "string \<Rightarrow> NodeInfo \<Rightarrow> 'c Mount \<Rightarrow> 'c Mount" where
  "cachePath path entry m = m\<lparr>m_pathCache := (m_pathCache m)(path \<mapsto> entry)\<rparr>"

definition fileInfoFromNode :: "string \<Rightarrow> NodeInfo \<Rightarrow> MountFileInfo" where
  "fileInfoFromNode path node =
     (let name = (if ni_Name node = [] \<and> path \<noteq> ''/''
                  then last (Split (TrimPrefix path ''/'') slash) else ni_Name node)
      in \<lparr>mi_Path = path, mi_NodeID = ni_NodeID node, mi_ParentNodeID = ni_ParentNodeID node,
          mi_Name = name, mi_IsDirectory = (ni_FileType node = FileTypeDirectory), mi_Size = ni_Size node,
          mi_Mode = ni_Mode node, mi_ModTime = ni_ModTime node\<rparr>)"

text \<open>A call to the client from inside the mount.\<close>

definition calling :: "('c, 'r) rpc \<Rightarrow> 'c Mount \<Rightarrow> (client_error + 'r) \<times> 'c Mount" where
  "calling f m = (case f (m_client m) of (r, c) \<Rightarrow> (r, m\<lparr>m_client := c\<rparr>))"

fun resolve_parts ::
  "'c ProtocolClient \<Rightarrow> string list \<Rightarrow> string \<Rightarrow> NodeInfo \<Rightarrow> ('c, NodeInfo) mount_op" where
  "resolve_parts pc [] currentPath current m = (Inr current, m)"
| "resolve_parts pc (part # parts) currentPath current m =
     (let nextPath = JoinMountPath currentPath part in
      case m_pathCache m nextPath of
        Some cached \<Rightarrow> resolve_parts pc parts nextPath cached m
      | None \<Rightarrow>
          (case calling (pc_Lookup pc (ni_NodeID current) part) m of
             (Inl err, m) \<Rightarrow> (Inl (LookupFailed nextPath err), m)
           | (Inr resp, m) \<Rightarrow>
               resolve_parts pc parts nextPath (LookupResp_Entry resp)
                 (cachePath nextPath (LookupResp_Entry resp) m)))"

definition resolvePath :: "'c ProtocolClient \<Rightarrow> string \<Rightarrow> ('c, string \<times> NodeInfo) mount_op" where
  "resolvePath pc input m =
     (case NormalizeMountPath input of
        None \<Rightarrow> (Inl (InvalidPath input), m)
      | Some normalized \<Rightarrow>
          (case m_pathCache m normalized of
             Some entry \<Rightarrow> (Inr (normalized, entry), m)
           | None \<Rightarrow>
               (case SplitMountPath normalized of
                  None \<Rightarrow> (Inl (InvalidPath normalized), m)
                | Some parts \<Rightarrow>
                    (case resolve_parts pc parts ''/'' (root_node (op_RootNodeID (m_opts m))) m of
                       (Inl err, m) \<Rightarrow> (Inl err, m)
                     | (Inr current, m) \<Rightarrow> (Inr (normalized, current), m)))))"

section \<open>Operations\<close>

definition mount_Lookup :: "'c ProtocolClient \<Rightarrow> string \<Rightarrow> ('c, MountFileInfo) mount_op" where
  "mount_Lookup pc path m =
     (case resolvePath pc path m of
        (Inl err, m) \<Rightarrow> (Inl err, m)
      | (Inr (normalized, entry), m) \<Rightarrow> (Inr (fileInfoFromNode normalized entry), m))"

definition mount_GetAttr :: "'c ProtocolClient \<Rightarrow> string \<Rightarrow> ('c, MountFileInfo) mount_op" where
  "mount_GetAttr pc path m =
     (case resolvePath pc path m of
        (Inl err, m) \<Rightarrow> (Inl err, m)
      | (Inr (normalized, entry), m) \<Rightarrow>
          (case calling (pc_GetAttr pc (ni_NodeID entry)) m of
             (Inl err, m) \<Rightarrow> (Inl (ClientFailed err), m)
           | (Inr resp, m) \<Rightarrow>
               (Inr (fileInfoFromNode normalized (GetAttrResp_Entry resp)),
                cachePath normalized (GetAttrResp_Entry resp) m)))"

definition allocLocalHandle :: "'c Mount \<Rightarrow> u64 \<times> 'c Mount" where
  "allocLocalHandle m = (m_nextLocalHandle m, m\<lparr>m_nextLocalHandle := m_nextLocalHandle m + 1\<rparr>)"

definition mount_Open :: "'c ProtocolClient \<Rightarrow> string \<Rightarrow> ('c, FileHandle) mount_op" where
  "mount_Open pc path m =
     (case mount_GetAttr pc path m of
        (Inl err, m) \<Rightarrow> (Inl err, m)
      | (Inr info, m) \<Rightarrow>
          if mi_IsDirectory info then (Inl MountErrIsDirectory, m)
          else
            (case calling (pc_OpenRead pc (mi_NodeID info)) m of
               (Inl err, m) \<Rightarrow> (Inl (ClientFailed err), m)
             | (Inr resp, m) \<Rightarrow>
                 let (i, m) = allocLocalHandle m;
                     h = \<lparr>mf_HandleID = i, mf_RemoteHandleID = OpenResp_HandleID resp,
                          mf_Path = mi_Path info, mf_Info = info\<rparr>
                 in (Inr h, m\<lparr>m_fileHandles := (m_fileHandles m)(i \<mapsto> h)\<rparr>)))"

definition mount_OpenDirectory :: "'c ProtocolClient \<Rightarrow> string \<Rightarrow> ('c, DirectoryHandle) mount_op" where
  "mount_OpenDirectory pc path m =
     (case mount_GetAttr pc path m of
        (Inl err, m) \<Rightarrow> (Inl err, m)
      | (Inr info, m) \<Rightarrow>
          if \<not> mi_IsDirectory info then (Inl MountErrNotDirectory, m)
          else
            (case calling (pc_OpenDir pc (mi_NodeID info)) m of
               (Inl err, m) \<Rightarrow> (Inl (ClientFailed err), m)
             | (Inr resp, m) \<Rightarrow>
                 let (i, m) = allocLocalHandle m;
                     h = \<lparr>md_HandleID = i, md_RemoteCursorID = OpenDirResp_DirCursorID resp,
                          md_Path = mi_Path info, md_Info = info\<rparr>
                 in (Inr h, m\<lparr>m_directoryHandles := (m_directoryHandles m)(i \<mapsto> h)\<rparr>)))"

text \<open>The loop over one page: every entry is cached under its path and converted.\<close>

fun take_entries :: "DirectoryHandle \<Rightarrow> DirEntry list \<Rightarrow> 'c Mount \<Rightarrow> MountFileInfo list \<times> 'c Mount" where
  "take_entries h [] m = ([], m)"
| "take_entries h (entry # es) m =
     (let childPath = JoinMountPath (md_Path h) (de_Name entry);
          node = \<lparr>ni_NodeID = de_NodeID entry, ni_ParentNodeID = mi_NodeID (md_Info h),
                  ni_Name = de_Name entry, ni_FileType = de_FileType entry, ni_Size = de_Size entry,
                  ni_Mode = de_Mode entry, ni_ModTime = de_ModTime entry\<rparr>;
          (infos, m) = take_entries h es (cachePath childPath node m)
      in (fileInfoFromNode childPath node # infos, m))"

definition mount_ReadDirectory ::
  "'c ProtocolClient \<Rightarrow> u64 \<Rightarrow> u64 \<Rightarrow> u32 \<Rightarrow> ('c, DirectoryPage) mount_op" where
  "mount_ReadDirectory pc handleID cookie maxEntries m =
     (case m_directoryHandles m handleID of
        None \<Rightarrow> (Inl MountErrInvalidHandle, m)
      | Some h \<Rightarrow>
          let maxEntries = (if maxEntries = 0 then op_ReadDirBatchSize (m_opts m) else maxEntries) in
          (case calling (pc_ReadDir pc (md_RemoteCursorID h) cookie maxEntries) m of
             (Inl err, m) \<Rightarrow> (Inl (ClientFailed err), m)
           | (Inr resp, m) \<Rightarrow>
               let (infos, m) = take_entries h (ReadDirResp_Entries resp) m
               in (Inr \<lparr>dp_Entries = infos, dp_NextCookie = ReadDirResp_NextCookie resp,
                        dp_EOF = ReadDirResp_EOF resp\<rparr>, m)))"

definition mount_Read :: "'c ProtocolClient \<Rightarrow> u64 \<Rightarrow> int \<Rightarrow> u32 \<Rightarrow> ('c, ReadResult) mount_op" where
  "mount_Read pc handleID offset len m =
     (case m_fileHandles m handleID of
        None \<Rightarrow> (Inl MountErrInvalidHandle, m)
      | Some h \<Rightarrow>
          (case calling (pc_Read pc (mf_RemoteHandleID h) offset len) m of
             (Inl err, m) \<Rightarrow> (Inl (ClientFailed err), m)
           | (Inr resp, m) \<Rightarrow>
               (Inr \<lparr>rr_Data = ReadResp_Data resp, rr_Offset = ReadResp_Offset resp,
                     rr_EOF = ReadResp_EOF resp\<rparr>, m)))"

definition client_result :: "client_error + 'r \<Rightarrow> mount_error + unit" where
  "client_result r = (case r of Inl err \<Rightarrow> Inl (ClientFailed err) | Inr _ \<Rightarrow> Inr ())"

definition mount_Close :: "'c ProtocolClient \<Rightarrow> u64 \<Rightarrow> ('c, unit) mount_op" where
  "mount_Close pc handleID m =
     (case m_fileHandles m handleID of
        Some h \<Rightarrow>
          (case calling (pc_CloseHandle pc (mf_RemoteHandleID h))
                  (m\<lparr>m_fileHandles := (m_fileHandles m)(handleID := None)\<rparr>) of
             (r, m) \<Rightarrow> (client_result r, m))
      | None \<Rightarrow>
          (case m_directoryHandles m handleID of
             Some h \<Rightarrow>
               (case calling (pc_CloseDir pc (md_RemoteCursorID h))
                       (m\<lparr>m_directoryHandles := (m_directoryHandles m)(handleID := None)\<rparr>) of
                  (r, m) \<Rightarrow> (client_result r, m))
           | None \<Rightarrow> (Inl MountErrInvalidHandle, m)))"

section \<open>Snapshots\<close>

text \<open>The handles are listed in the order of a Go map, which is not specified; here they are sets.\<close>

record MountSnapshot =
  sn_CachedPaths :: "string list"
  sn_OpenFileHandles :: "FileHandle set"
  sn_OpenDirHandles :: "DirectoryHandle set"
  sn_RootNodeID :: u64
  sn_ReadDirBatchSize :: u32
  sn_VolumeName :: string

definition mount_Snapshot :: "'c Mount \<Rightarrow> MountSnapshot" where
  "mount_Snapshot m =
     \<lparr>sn_CachedPaths = sorted_list_of_set (dom (m_pathCache m)),
      sn_OpenFileHandles = ran (m_fileHandles m), sn_OpenDirHandles = ran (m_directoryHandles m),
      sn_RootNodeID = op_RootNodeID (m_opts m), sn_ReadDirBatchSize = op_ReadDirBatchSize (m_opts m),
      sn_VolumeName = op_VolumeName (m_opts m)\<rparr>"

end
