(* ===== verification/MountProps.thy ===== *)
theory MountProps
  imports Mount
begin

text \<open>
  Properties of the mounted tree: normalized paths are canonical and never leave the mount, the path
  cache gives the answers the server would give, and local handles are never reused.
\<close>

section \<open>Normalized paths\<close>

lemma clean_parts_valid:
  "clean_parts ps = Some cs \<Longrightarrow> \<forall>p \<in> set ps. slash \<notin> set p \<Longrightarrow> list_all valid_name cs \<and> set cs \<subseteq> set ps"
  by (induction ps arbitrary: cs) (auto simp: valid_name_def split: if_splits)

lemma clean_parts_id: "list_all valid_name cs \<Longrightarrow> clean_parts cs = Some cs"
  by (induction cs) (auto simp: valid_name_def)

definition mount_path :: "string list \<Rightarrow> string" where
  "mount_path cs = ''/'' @ Join cs ''/''"

lemma mount_path_Nil [simp]: "mount_path [] = ''/''"
  by (simp add: mount_path_def)

lemma mount_path_root [simp]: "list_all valid_name cs \<Longrightarrow> mount_path cs = ''/'' \<longleftrightarrow> cs = []"
  using Join_valid_nonempty [of cs "''/''"] by (cases "cs = []") (auto simp: mount_path_def)

lemma ReplaceAll_gone: "new \<noteq> old \<Longrightarrow> old \<notin> set (ReplaceAll s old new)"
  by (auto simp: ReplaceAll_def)

lemma ReplaceAll_id: "old \<notin> set s \<Longrightarrow> ReplaceAll s old new = s"
  by (auto simp: ReplaceAll_def intro: map_idI)

lemma set_Split_sub: "p \<in> set (Split s sep) \<Longrightarrow> set p \<subseteq> set s"
  by (induction s sep arbitrary: p rule: Split.induct) (fastforce simp: Let_def split: if_splits list.splits)+

lemma set_Join_sub: "set (Join cs sep) \<subseteq> (\<Union>c \<in> set cs. set c) \<union> set sep"
  by (induction cs sep rule: Join.induct) auto

lemma normalize_form:
  assumes "NormalizeMountPath input = Some p"
  shows "\<exists>cs. list_all valid_name cs \<and> p = mount_path cs \<and> backslash \<notin> set p"
proof -
  let ?r = "ReplaceAll (TrimSpace input) backslash slash"
  let ?parts = "Split (TrimPrefix ?r ''/'') slash"
  have no: "backslash \<notin> set ?r" by (rule ReplaceAll_gone) (simp add: backslash_def)
  then have no': "backslash \<notin> set (TrimPrefix ?r ''/'')"
    by (auto simp: TrimPrefix_def dest: in_set_dropD)
  show ?thesis
  proof (cases "?r = [] \<or> ?r = ''.''")
    case True
    then have "p = mount_path []" using assms by (simp add: NormalizeMountPath_def Let_def)
    then show ?thesis by (intro exI [of _ "[]"]) (simp add: backslash_def)
  next
    case False
    then obtain cs where cs: "clean_parts ?parts = Some cs"
      and p: "p = (if cs = [] then ''/'' else ''/'' @ Clean (Join cs ''/''))"
      using assms by (auto simp: NormalizeMountPath_def Let_def split: option.splits if_splits)
    have valid: "list_all valid_name cs" and sub: "set cs \<subseteq> set ?parts"
      using clean_parts_valid [OF cs] Split_parts_free by blast+
    have "backslash \<notin> (\<Union>c \<in> set cs. set c)"
      using sub no' set_Split_sub by blast
    then have "backslash \<notin> set (mount_path cs)"
      using set_Join_sub [of cs "''/''"] by (auto simp: mount_path_def backslash_def)
    moreover have "p = mount_path cs"
      using p valid by (cases "cs = []") (auto simp: Clean_Join mount_path_def)
    ultimately show ?thesis using valid by blast
  qed
qed

lemma dropWhile_keep: "s \<noteq> [] \<Longrightarrow> \<not> P (hd s) \<Longrightarrow> dropWhile P s = s"
  by (cases s) auto

lemma TrimSpace_id: "s \<noteq> [] \<Longrightarrow> \<not> is_space (hd s) \<Longrightarrow> \<not> is_space (last s) \<Longrightarrow> TrimSpace s = s"
  by (simp add: TrimSpace_def trim_by_def dropWhile_keep hd_rev)

lemma normalize_again:
  assumes "list_all valid_name cs" and "backslash \<notin> set (mount_path cs)" and "\<not> is_space (last (mount_path cs))"
  shows "NormalizeMountPath (mount_path cs) = Some (mount_path cs)"
proof -
  have t: "TrimSpace (mount_path cs) = mount_path cs"
    using assms(3) by (intro TrimSpace_id) (simp_all add: mount_path_def is_space_def)
  have "TrimPrefix (mount_path cs) ''/'' = Join cs ''/''" by (simp add: TrimPrefix_def HasPrefix_def mount_path_def)
  moreover have "clean_parts (Split (Join cs ''/'') slash) = Some cs"
    using assms(1) clean_parts_id
    by (cases "cs = []") (auto simp: Split_Join list_all_iff valid_name_def)
  ultimately show ?thesis
    using assms(1) t ReplaceAll_id [OF assms(2)]
    by (cases "cs = []") (auto simp: NormalizeMountPath_def Clean_Join Let_def mount_path_def)
qed

lemma split_again:
  assumes "list_all valid_name cs" and "NormalizeMountPath (mount_path cs) = Some (mount_path cs)"
  shows "SplitMountPath (mount_path cs) = Some cs"
proof (cases "cs = []")
  case False
  then have "Split (Join cs ''/'') slash = cs"
    using assms(1) by (intro Split_Join) (auto simp: list_all_iff valid_name_def)
  moreover have "TrimPrefix (mount_path cs) ''/'' = Join cs ''/''"
    by (simp add: TrimPrefix_def HasPrefix_def mount_path_def)
  ultimately show ?thesis using assms False by (simp add: SplitMountPath_def)
qed (use assms(2) in \<open>simp add: SplitMountPath_def\<close>)

text \<open>
  C25: Normalized paths are canonical: whatever Windows path comes in, if it is accepted its normal form
  is the root or valid names joined by single slashes, without dots, parent directories or
  backslashes, so it cannot leave the mount. Unless its last character is a space, normalizing it
  again changes nothing and splitting it gives back exactly its names.
\<close>

theorem normalized_paths_canonical:
  assumes "NormalizeMountPath input = Some p"
  shows "\<exists>cs. list_all valid_name cs \<and> p = ''/'' @ Join cs ''/'' \<and> backslash \<notin> set p \<and>
    (\<not> is_space (last p) \<longrightarrow> NormalizeMountPath p = Some p \<and> SplitMountPath p = Some cs)"
proof -
  obtain cs where cs: "list_all valid_name cs" "p = mount_path cs" "backslash \<notin> set p"
    using normalize_form [OF assms] by blast
  have "NormalizeMountPath p = Some p \<and> SplitMountPath p = Some cs" if "\<not> is_space (last p)"
    using normalize_again [OF cs(1)] split_again [OF cs(1)] cs(2,3) that by simp
  then show ?thesis using cs unfolding mount_path_def by blast
qed

theorem normalized_paths_canonical_witness:
  "\<exists>cs. SplitMountPath ''/a/b'' = Some cs \<and> ''/a/b'' = ''/'' @ Join cs ''/''"
proof -
  have n: "NormalizeMountPath (''a'' @ [backslash] @ ''./b'') = Some ''/a/b''" by code_simp
  have "\<not> is_space (last ''/a/b'')" by code_simp
  then show ?thesis using normalized_paths_canonical [OF n] by blast
qed

section \<open>The path cache\<close>

text \<open>Names that joining takes as they are: no backslash, and no space at either end.\<close>

definition plain_name :: "string \<Rightarrow> bool" where
  "plain_name n \<longleftrightarrow> valid_name n \<and> backslash \<notin> set n \<and> \<not> is_space (hd n) \<and> \<not> is_space (last n)"

lemma plain_valid: "list_all plain_name cs \<Longrightarrow> list_all valid_name cs"
  by (auto simp: list_all_iff plain_name_def)

lemma plain_backslash: "list_all plain_name cs \<Longrightarrow> backslash \<notin> set (mount_path cs)"
  using set_Join_sub [of cs "''/''"] by (auto simp: list_all_iff plain_name_def mount_path_def backslash_def)

lemma mount_path_snoc: "mount_path (cs @ [n]) = (if cs = [] then ''/'' @ n else mount_path cs @ ''/'' @ n)"
  by (simp add: mount_path_def Join_snoc)

lemma plain_last: "list_all plain_name cs \<Longrightarrow> \<not> is_space (last (mount_path cs))"
proof (cases cs rule: rev_cases)
  case (snoc xs n)
  assume "list_all plain_name cs"
  then have "n \<noteq> []" "\<not> is_space (last n)" using snoc by (auto simp: plain_name_def valid_name_def)
  then show ?thesis using snoc by (simp add: mount_path_snoc)
qed (simp add: is_space_def)

lemma plain_normal: "list_all plain_name cs \<Longrightarrow> NormalizeMountPath (mount_path cs) = Some (mount_path cs)"
  by (intro normalize_again plain_valid plain_backslash plain_last)

lemma plain_child:
  assumes "plain_name n"
  shows "Trim (ReplaceAll (TrimSpace n) backslash slash) slash = n"
proof -
  have n: "n \<noteq> []" "slash \<notin> set n" "hd n \<noteq> slash" "last n \<noteq> slash"
    using assms by (auto simp: plain_name_def valid_name_def) (metis list.set_sel(1), metis last_in_set)
  then have "dropWhile (\<lambda>x. x = slash) n = n" "dropWhile (\<lambda>x. x = slash) (rev n) = rev n"
    by (auto intro!: dropWhile_keep simp: hd_rev)
  then show ?thesis
    using assms n(1) by (simp add: plain_name_def TrimSpace_id ReplaceAll_id Trim_def trim_by_def)
qed

lemma JoinMountPath_plain:
  assumes "list_all plain_name cs" and "plain_name n"
  shows "JoinMountPath (mount_path cs) n = mount_path (cs @ [n])"
proof -
  have "n \<noteq> []" using assms(2) by (auto simp: plain_name_def valid_name_def)
  moreover have "mount_path cs = ''/'' \<longleftrightarrow> cs = []" using plain_valid [OF assms(1)] by simp
  moreover have "NormalizeMountPath (mount_path (cs @ [n])) = Some (mount_path (cs @ [n]))"
    by (rule plain_normal) (use assms in simp)
  ultimately show ?thesis
    using plain_normal [OF assms(1)] plain_child [OF assms(2)]
    by (auto simp: JoinMountPath_def Let_def mount_path_snoc)
qed

text \<open>
  A tree of nodes that does not change, and the walk down that tree: what resolving a path means
  without any cache.
\<close>

fun walk_tree :: "(u64 \<Rightarrow> string \<Rightarrow> u64 option) \<Rightarrow> u64 \<Rightarrow> string list \<Rightarrow> u64 option" where
  "walk_tree tree i [] = Some i"
| "walk_tree tree i (n # ns) = (case tree i n of None \<Rightarrow> None | Some j \<Rightarrow> walk_tree tree j ns)"

text \<open>
  A server with that tree, as the mount sees it: \<open>dir c k\<close> is the directory cursor \<open>k\<close> was opened on.
  A lookup finds exactly the nodes of the tree; attributes are those of the node asked for; a page of
  a cursor lists nodes of its directory; and a cursor's identifier is never given to another
  directory. Everything but a lookup may fail at any time, and sizes, times and modes may change.
\<close>

definition still :: "('c \<Rightarrow> bool) \<Rightarrow> ('c \<Rightarrow> u64 \<Rightarrow> u64 option) \<Rightarrow> 'c \<Rightarrow> (client_error + 'r) \<times> 'c \<Rightarrow> bool" where
  "still alive dir c x \<longleftrightarrow> alive (snd x) \<and> (\<forall>k i. dir c k = Some i \<longrightarrow> dir (snd x) k = Some i)"

definition serves_tree ::
  "'c ProtocolClient \<Rightarrow> ('c \<Rightarrow> bool) \<Rightarrow> ('c \<Rightarrow> u64 \<Rightarrow> u64 option) \<Rightarrow> (u64 \<Rightarrow> string \<Rightarrow> u64 option) \<Rightarrow> bool" where
  "serves_tree pc alive dir tree \<longleftrightarrow>
     (\<forall>i n j. tree i n = Some j \<longrightarrow> plain_name n) \<and>
     (\<forall>c. alive c \<longrightarrow>
       (\<forall>i n. still alive dir c (pc_Lookup pc i n c) \<and>
          (case tree i n of
             Some j \<Rightarrow> \<exists>resp. fst (pc_Lookup pc i n c) = Inr resp \<and> ni_NodeID (LookupResp_Entry resp) = j
           | None \<Rightarrow> isl (fst (pc_Lookup pc i n c)))) \<and>
       (\<forall>i. still alive dir c (pc_GetAttr pc i c) \<and>
          (\<forall>resp. fst (pc_GetAttr pc i c) = Inr resp \<longrightarrow> ni_NodeID (GetAttrResp_Entry resp) = i)) \<and>
       (\<forall>i. still alive dir c (pc_OpenDir pc i c) \<and>
          (\<forall>resp. fst (pc_OpenDir pc i c) = Inr resp \<longrightarrow>
             dir (snd (pc_OpenDir pc i c)) (OpenDirResp_DirCursorID resp) = Some i)) \<and>
       (\<forall>k cookie n. still alive dir c (pc_ReadDir pc k cookie n c) \<and>
          (\<forall>resp i. fst (pc_ReadDir pc k cookie n c) = Inr resp \<longrightarrow> dir c k = Some i \<longrightarrow>
             list_all (\<lambda>e. tree i (de_Name e) = Some (de_NodeID e)) (ReadDirResp_Entries resp))) \<and>
       (\<forall>k. still alive dir c (pc_CloseDir pc k c)) \<and> (\<forall>i. still alive dir c (pc_OpenRead pc i c)) \<and>
       (\<forall>k off len. still alive dir c (pc_Read pc k off len c)) \<and>
       (\<forall>k. still alive dir c (pc_CloseHandle pc k c)))"

text \<open>
  A mount in step with the tree: a cached entry is of the node its path leads to, and a directory
  handle's cursor was opened on the directory its path leads to.
\<close>

definition cache_ok :: "(u64 \<Rightarrow> string \<Rightarrow> u64 option) \<Rightarrow> 'c Mount \<Rightarrow> bool" where
  "cache_ok tree m \<longleftrightarrow>
     (\<forall>cs e. list_all plain_name cs \<longrightarrow> m_pathCache m (mount_path cs) = Some e \<longrightarrow>
        walk_tree tree (op_RootNodeID (m_opts m)) cs = Some (ni_NodeID e))"

definition in_step ::
  "('c \<Rightarrow> bool) \<Rightarrow> ('c \<Rightarrow> u64 \<Rightarrow> u64 option) \<Rightarrow> (u64 \<Rightarrow> string \<Rightarrow> u64 option) \<Rightarrow> 'c Mount \<Rightarrow> bool" where
  "in_step alive dir tree m \<longleftrightarrow> alive (m_client m) \<and> cache_ok tree m \<and>
     (\<forall>k h. m_directoryHandles m k = Some h \<longrightarrow>
        (\<exists>cs i. list_all plain_name cs \<and> md_Path h = mount_path cs \<and>
           walk_tree tree (op_RootNodeID (m_opts m)) cs = Some i \<and> dir (m_client m) (md_RemoteCursorID h) = Some i))"

lemma walk_tree_append:
  "walk_tree tree i (xs @ ys) = (case walk_tree tree i xs of None \<Rightarrow> None | Some j \<Rightarrow> walk_tree tree j ys)"
  by (induction tree i xs rule: walk_tree.induct) (auto split: option.split)

lemma mount_path_inj:
  assumes "list_all valid_name cs" and "list_all valid_name ds" and "mount_path cs = mount_path ds"
  shows "cs = ds"
proof -
  have split: "Split (Join xs ''/'') slash = xs" if "list_all valid_name xs" "xs \<noteq> []" for xs
    using that by (intro Split_Join) (simp_all add: list_all_iff valid_name_def)
  show ?thesis
  proof (cases "cs = [] \<or> ds = []")
    case True
    then show ?thesis using assms(3) mount_path_root [OF assms(1)] mount_path_root [OF assms(2)] by (elim disjE) simp_all
  next
    case False
    have "Join cs ''/'' = Join ds ''/''" using assms(3) unfolding mount_path_def by (simp only: append_same_eq same_append_eq list.inject simp_thms append_Cons append_Nil)
    then have "Split (Join cs ''/'') slash = Split (Join ds ''/'') slash" by (rule arg_cong)
    then show ?thesis using split [OF assms(1)] split [OF assms(2)] False by (simp only: simp_thms de_Morgan_disj)
  qed
qed

lemma cache_ok_cachePath:
  assumes "cache_ok tree m" and "list_all plain_name cs"
    and "walk_tree tree (op_RootNodeID (m_opts m)) cs = Some (ni_NodeID e)"
  shows "cache_ok tree (cachePath (mount_path cs) e m)"
  using assms mount_path_inj [OF _ plain_valid [OF assms(2)]] plain_valid
  by (auto simp: cache_ok_def cachePath_def split: if_splits)

lemma cachePath_fields [simp]:
  "m_client (cachePath p e m) = m_client m" "m_opts (cachePath p e m) = m_opts m"
  "m_directoryHandles (cachePath p e m) = m_directoryHandles m"
  by (simp_all add: cachePath_def)

lemma in_step_cachePath:
  "in_step alive dir tree m \<Longrightarrow> list_all plain_name cs \<Longrightarrow>
   walk_tree tree (op_RootNodeID (m_opts m)) cs = Some (ni_NodeID e) \<Longrightarrow>
   in_step alive dir tree (cachePath (mount_path cs) e m)"
  by (simp add: in_step_def cache_ok_cachePath)

text \<open>A call to the client keeps the mount in step.\<close>

lemma in_step_calling:
  assumes "in_step alive dir tree m" and "still alive dir (m_client m) (f (m_client m))"
    and "calling f m = (r, m')"
  shows "in_step alive dir tree m'" "m_opts m' = m_opts m" "m_directoryHandles m' = m_directoryHandles m"
    "r = fst (f (m_client m))" "m_client m' = snd (f (m_client m))"
proof -
  have m': "m' = m\<lparr>m_client := snd (f (m_client m))\<rparr>" and r: "r = fst (f (m_client m))"
    using assms(3) by (simp_all add: calling_def case_prod_unfold)
  then show "m_opts m' = m_opts m" "m_directoryHandles m' = m_directoryHandles m"
    "r = fst (f (m_client m))" "m_client m' = snd (f (m_client m))" by simp_all
  show "in_step alive dir tree m'"
    using assms(1,2) unfolding in_step_def still_def cache_ok_def m' by simp blast
qed

lemma in_step_client: "in_step alive dir tree m \<Longrightarrow> alive (m_client m)"
  by (simp add: in_step_def)

lemma serves_still:
  assumes "serves_tree pc alive dir tree" and "alive c"
  shows "still alive dir c (pc_Lookup pc i n c)" "still alive dir c (pc_GetAttr pc i c)"
    "still alive dir c (pc_OpenDir pc i c)" "still alive dir c (pc_ReadDir pc k q len c)"
    "still alive dir c (pc_CloseDir pc k c)" "still alive dir c (pc_OpenRead pc i c)"
    "still alive dir c (pc_Read pc k off len c)" "still alive dir c (pc_CloseHandle pc k c)"
  using assms by (simp_all add: serves_tree_def)

lemma serves_lookup:
  assumes "serves_tree pc alive dir tree" and "alive c"
  shows "case tree i n of
      Some j \<Rightarrow> \<exists>resp. fst (pc_Lookup pc i n c) = Inr resp \<and> ni_NodeID (LookupResp_Entry resp) = j
    | None \<Rightarrow> isl (fst (pc_Lookup pc i n c))"
  using assms by (simp add: serves_tree_def)

lemma serves_OpenDir:
  assumes "serves_tree pc alive dir tree" and "alive c" and "fst (pc_OpenDir pc i c) = Inr resp"
  shows "dir (snd (pc_OpenDir pc i c)) (OpenDirResp_DirCursorID resp) = Some i"
  using assms by (simp add: serves_tree_def)

lemma serves_ReadDir:
  assumes "serves_tree pc alive dir tree" and "alive c" and "fst (pc_ReadDir pc k cookie n c) = Inr resp"
    and "dir c k = Some i"
  shows "list_all (\<lambda>e. plain_name (de_Name e) \<and> tree i (de_Name e) = Some (de_NodeID e)) (ReadDirResp_Entries resp)"
proof -
  have "list_all (\<lambda>e. tree i (de_Name e) = Some (de_NodeID e)) (ReadDirResp_Entries resp)"
    using assms by (simp add: serves_tree_def)
  moreover have "plain_name n" if "tree i n = Some j" for i n j
    using assms(1) that unfolding serves_tree_def by blast
  ultimately show ?thesis unfolding list_all_iff by blast
qed

lemma resolve_parts_walk:
  assumes "serves_tree pc alive dir tree"
  shows "list_all plain_name (pre @ parts) \<Longrightarrow> in_step alive dir tree m \<Longrightarrow>
    walk_tree tree (op_RootNodeID (m_opts m)) pre = Some (ni_NodeID current) \<Longrightarrow>
    \<exists>r m'. resolve_parts pc parts (mount_path pre) current m = (r, m') \<and> in_step alive dir tree m' \<and>
      m_opts m' = m_opts m \<and> m_directoryHandles m' = m_directoryHandles m \<and>
      (case walk_tree tree (ni_NodeID current) parts of Some i \<Rightarrow> \<exists>e. r = Inr e \<and> ni_NodeID e = i | None \<Rightarrow> isl r)"
proof (induction parts arbitrary: pre current m)
  case (Cons n parts)
  have pre: "list_all plain_name pre" "plain_name n" "list_all plain_name (pre @ [n])" using Cons.prems(1) by auto
  have join: "JoinMountPath (mount_path pre) n = mount_path (pre @ [n])" using JoinMountPath_plain pre by simp
  have walk: "walk_tree tree (op_RootNodeID (m_opts m)) (pre @ [n]) = tree (ni_NodeID current) n"
    using Cons.prems(3) by (simp add: walk_tree_append split: option.split)
  show ?case
  proof (cases "m_pathCache m (mount_path (pre @ [n]))")
    case (Some cached)
    then have "tree (ni_NodeID current) n = Some (ni_NodeID cached)"
      using Cons.prems(2) pre(3) walk by (simp add: in_step_def cache_ok_def)
    then show ?thesis
      using Cons.IH [of "pre @ [n]" m cached] Cons.prems walk Some join by simp
  next
    case None
    note alive = in_step_client [OF Cons.prems(2)]
    obtain r m1 where c: "calling (pc_Lookup pc (ni_NodeID current) n) m = (r, m1)" by fastforce
    note m1 = in_step_calling [OF Cons.prems(2) serves_still(1) [OF assms alive] c]
    have l: "case tree (ni_NodeID current) n of
        Some j \<Rightarrow> \<exists>resp. r = Inr resp \<and> ni_NodeID (LookupResp_Entry resp) = j | None \<Rightarrow> isl r"
      using serves_lookup [OF assms alive, of "ni_NodeID current" n] unfolding m1(4) .
    show ?thesis
    proof (cases "tree (ni_NodeID current) n")
      case t: None
      then obtain err where "r = Inl err" using l by (cases r) auto
      then show ?thesis using None t c join m1 by simp
    next
      case t: (Some j)
      then obtain resp where resp: "r = Inr resp" "ni_NodeID (LookupResp_Entry resp) = j" using l by auto
      let ?m = "cachePath (mount_path (pre @ [n])) (LookupResp_Entry resp) m1"
      have "in_step alive dir tree ?m"
        using in_step_cachePath [OF m1(1) pre(3)] walk t resp(2) m1(2) by simp
      from Cons.IH [OF _ this, of "pre @ [n]" "LookupResp_Entry resp"] show ?thesis
        using None t c join resp Cons.prems(1) walk m1(2,3) by (simp add: Let_def)
    qed
  qed
qed simp

lemma resolvePath_walk:
  assumes "serves_tree pc alive dir tree" and "in_step alive dir tree m"
    and "NormalizeMountPath input = Some (mount_path cs)" and "list_all plain_name cs"
  shows "\<exists>r m'. resolvePath pc input m = (r, m') \<and> in_step alive dir tree m' \<and> m_opts m' = m_opts m \<and>
    m_directoryHandles m' = m_directoryHandles m \<and>
    (case walk_tree tree (op_RootNodeID (m_opts m)) cs of
       Some i \<Rightarrow> \<exists>e. r = Inr (mount_path cs, e) \<and> ni_NodeID e = i | None \<Rightarrow> isl r)"
proof (cases "m_pathCache m (mount_path cs)")
  case (Some e)
  then show ?thesis using assms by (simp add: resolvePath_def in_step_def cache_ok_def)
next
  case None
  have "SplitMountPath (mount_path cs) = Some cs"
    using split_again [OF plain_valid plain_normal] assms(4) by blast
  moreover obtain r m' where "resolve_parts pc cs ''/'' (root_node (op_RootNodeID (m_opts m))) m = (r, m')"
    "in_step alive dir tree m'" "m_opts m' = m_opts m" "m_directoryHandles m' = m_directoryHandles m"
    "case walk_tree tree (op_RootNodeID (m_opts m)) cs of Some i \<Rightarrow> \<exists>e. r = Inr e \<and> ni_NodeID e = i | None \<Rightarrow> isl r"
    using resolve_parts_walk [OF assms(1), of "[]" cs m "root_node (op_RootNodeID (m_opts m))"] assms(2,4)
    by (auto simp: root_node_def)
  ultimately show ?thesis
    using None assms(3) by (auto simp: resolvePath_def split: option.splits sum.split)
qed

section \<open>Runs of the mount\<close>

datatype mount_call =
    CallLookup string
  | CallGetAttr string
  | CallOpen string
  | CallOpenDirectory string
  | CallReadDirectory u64 u64 u32
  | CallRead u64 int u32
  | CallClose u64

fun run_call :: "'c ProtocolClient \<Rightarrow> mount_call \<Rightarrow> 'c Mount \<Rightarrow> 'c Mount" where
  "run_call pc (CallLookup path) m = snd (mount_Lookup pc path m)"
| "run_call pc (CallGetAttr path) m = snd (mount_GetAttr pc path m)"
| "run_call pc (CallOpen path) m = snd (mount_Open pc path m)"
| "run_call pc (CallOpenDirectory path) m = snd (mount_OpenDirectory pc path m)"
| "run_call pc (CallReadDirectory k cookie n) m = snd (mount_ReadDirectory pc k cookie n m)"
| "run_call pc (CallRead k off len) m = snd (mount_Read pc k off len m)"
| "run_call pc (CallClose k) m = snd (mount_Close pc k m)"

text \<open>A path that is refused or whose names have no space at their ends.\<close>

definition plain_input :: "string \<Rightarrow> bool" where
  "plain_input path \<longleftrightarrow>
     (case NormalizeMountPath path of
        None \<Rightarrow> True
      | Some p \<Rightarrow> (case SplitMountPath p of None \<Rightarrow> False | Some cs \<Rightarrow> p = mount_path cs \<and> list_all plain_name cs))"

fun plain_call :: "mount_call \<Rightarrow> bool" where
  "plain_call (CallLookup path) = plain_input path"
| "plain_call (CallGetAttr path) = plain_input path"
| "plain_call (CallOpen path) = plain_input path"
| "plain_call (CallOpenDirectory path) = plain_input path"
| "plain_call _ = True"

lemma plain_inputE:
  assumes "plain_input path"
  obtains "NormalizeMountPath path = None"
  | cs where "NormalizeMountPath path = Some (mount_path cs)" "list_all plain_name cs"
  using assms by (auto simp: plain_input_def split: option.splits)

lemma resolvePath_in_step:
  assumes "serves_tree pc alive dir tree" and "in_step alive dir tree m" and "plain_input path"
    and "resolvePath pc path m = (r, m')"
  shows "in_step alive dir tree m' \<and> m_opts m' = m_opts m \<and> m_directoryHandles m' = m_directoryHandles m \<and>
    (\<forall>p e. r = Inr (p, e) \<longrightarrow> (\<exists>cs. list_all plain_name cs \<and> p = mount_path cs \<and>
       walk_tree tree (op_RootNodeID (m_opts m)) cs = Some (ni_NodeID e)))"
  using assms(3)
proof (cases rule: plain_inputE)
  case 1
  then show ?thesis using assms(2,4) by (auto simp: resolvePath_def)
next
  case (2 cs)
  from resolvePath_walk [OF assms(1,2) 2] obtain r' m'' where r: "resolvePath pc path m = (r', m'')"
    "in_step alive dir tree m''" "m_opts m'' = m_opts m" "m_directoryHandles m'' = m_directoryHandles m"
    "case walk_tree tree (op_RootNodeID (m_opts m)) cs of
       Some i \<Rightarrow> \<exists>e. r' = Inr (mount_path cs, e) \<and> ni_NodeID e = i | None \<Rightarrow> isl r'"
    by blast
  then show ?thesis using assms(4) 2(2) by (auto split: option.splits)
qed

lemma GetAttr_in_step:
  assumes "serves_tree pc alive dir tree" and "in_step alive dir tree m" and "plain_input path"
    and "mount_GetAttr pc path m = (r, m')"
  shows "in_step alive dir tree m' \<and> m_opts m' = m_opts m \<and> m_directoryHandles m' = m_directoryHandles m \<and>
    (\<forall>info. r = Inr info \<longrightarrow> (\<exists>cs. list_all plain_name cs \<and> mi_Path info = mount_path cs \<and>
       walk_tree tree (op_RootNodeID (m_opts m)) cs = Some (mi_NodeID info)))"
proof (cases "resolvePath pc path m")
  case (Pair r1 m1)
  note res = resolvePath_in_step [OF assms(1-3) Pair]
  show ?thesis
  proof (cases r1)
    case (Inl err)
    then show ?thesis using Pair res assms(4) by (auto simp: mount_GetAttr_def)
  next
    case (Inr x)
    obtain p e where x: "x = (p, e)" by fastforce
    then obtain cs where cs: "list_all plain_name cs" "p = mount_path cs"
      "walk_tree tree (op_RootNodeID (m_opts m)) cs = Some (ni_NodeID e)" using res Inr by blast
    obtain r2 m2 where c: "calling (pc_GetAttr pc (ni_NodeID e)) m1 = (r2, m2)" by fastforce
    have m1: "in_step alive dir tree m1" "m_opts m1 = m_opts m" "m_directoryHandles m1 = m_directoryHandles m"
      using res by simp_all
    note m2 = in_step_calling [OF m1(1) serves_still(2) [OF assms(1) in_step_client [OF m1(1)]] c]
    show ?thesis
    proof (cases r2)
      case err: (Inl err)
      then show ?thesis using Pair Inr x c m1 m2 assms(4) by (auto simp: mount_GetAttr_def)
    next
      case resp: (Inr resp)
      have same: "ni_NodeID (GetAttrResp_Entry resp) = ni_NodeID e"
        using assms(1) in_step_client [OF m1(1)] m2(4) resp by (simp add: serves_tree_def)
      have "in_step alive dir tree (cachePath p (GetAttrResp_Entry resp) m2)"
        unfolding cs(2) by (rule in_step_cachePath [OF m2(1) cs(1)]) (simp add: m1 m2(2) cs(3) same)
      moreover have "m' = cachePath p (GetAttrResp_Entry resp) m2" "r = Inr (fileInfoFromNode p (GetAttrResp_Entry resp))"
        using Pair Inr x c resp assms(4) by (simp_all add: mount_GetAttr_def)
      ultimately show ?thesis
        using cs m1 m2(2,3) same by (auto simp: fileInfoFromNode_def Let_def)
    qed
  qed
qed

lemma take_entries_in_step:
  "in_step alive dir tree m \<Longrightarrow> list_all plain_name cs \<Longrightarrow> md_Path h = mount_path cs \<Longrightarrow>
   walk_tree tree (op_RootNodeID (m_opts m)) cs = Some i \<Longrightarrow>
   list_all (\<lambda>e. plain_name (de_Name e) \<and> tree i (de_Name e) = Some (de_NodeID e)) es \<Longrightarrow>
   in_step alive dir tree (snd (take_entries h es m))"
proof (induction es arbitrary: m)
  case (Cons e es)
  let ?node = "\<lparr>ni_NodeID = de_NodeID e, ni_ParentNodeID = mi_NodeID (md_Info h), ni_Name = de_Name e,
    ni_FileType = de_FileType e, ni_Size = de_Size e, ni_Mode = de_Mode e, ni_ModTime = de_ModTime e\<rparr>"
  have j: "JoinMountPath (md_Path h) (de_Name e) = mount_path (cs @ [de_Name e])"
    using JoinMountPath_plain [OF Cons.prems(2)] Cons.prems(3,5) by simp
  have "in_step alive dir tree (cachePath (mount_path (cs @ [de_Name e])) ?node m)"
    by (rule in_step_cachePath) (use Cons.prems in \<open>simp_all add: walk_tree_append\<close>)
  from Cons.IH [OF this] show ?case using Cons.prems j by (simp add: Let_def case_prod_unfold)
qed simp

lemma in_step_tables [simp]:
  "in_step alive dir tree (m\<lparr>m_fileHandles := fs\<rparr>) = in_step alive dir tree m"
  "in_step alive dir tree (m\<lparr>m_nextLocalHandle := k\<rparr>) = in_step alive dir tree m"
  by (simp_all add: in_step_def cache_ok_def)

lemma in_step_forget:
  "in_step alive dir tree m \<Longrightarrow> in_step alive dir tree (m\<lparr>m_directoryHandles := (m_directoryHandles m)(k := None)\<rparr>)"
  by (auto simp: in_step_def cache_ok_def)

lemma in_step_remember:
  assumes "in_step alive dir tree m" and "list_all plain_name cs" and "md_Path h = mount_path cs"
    and "walk_tree tree (op_RootNodeID (m_opts m)) cs = Some i" and "dir (m_client m) (md_RemoteCursorID h) = Some i"
  shows "in_step alive dir tree (m\<lparr>m_directoryHandles := (m_directoryHandles m)(k \<mapsto> h)\<rparr>)"
  using assms unfolding in_step_def cache_ok_def by auto

lemma in_step_Lookup:
  assumes "serves_tree pc alive dir tree" and "in_step alive dir tree m" and "plain_input path"
  shows "in_step alive dir tree (snd (mount_Lookup pc path m))"
proof (cases "resolvePath pc path m")
  case (Pair r m1)
  then have "in_step alive dir tree m1" using resolvePath_in_step [OF assms] by blast
  then show ?thesis using Pair by (simp add: mount_Lookup_def case_prod_unfold split: sum.split)
qed

lemma in_step_Open:
  assumes "serves_tree pc alive dir tree" and "in_step alive dir tree m" and "plain_input path"
  shows "in_step alive dir tree (snd (mount_Open pc path m))"
proof (cases "mount_GetAttr pc path m")
  case (Pair r m1)
  then have m1: "in_step alive dir tree m1" using GetAttr_in_step [OF assms] by blast
  have "in_step alive dir tree m2" if "calling (pc_OpenRead pc i) m1 = (r2, m2)" for i r2 m2
    using in_step_calling(1) [OF m1 serves_still(6) [OF assms(1) in_step_client [OF m1]] that] .
  then have "in_step alive dir tree (snd (calling (pc_OpenRead pc i) m1))" for i by (metis prod.collapse)
  then show ?thesis
    using Pair m1
    by (simp add: mount_Open_def allocLocalHandle_def Let_def case_prod_unfold split: sum.split)
qed

lemma in_step_OpenDirectory:
  assumes "serves_tree pc alive dir tree" and "in_step alive dir tree m" and "plain_input path"
  shows "in_step alive dir tree (snd (mount_OpenDirectory pc path m))"
proof (cases "mount_GetAttr pc path m")
  case (Pair r m1)
  note g = GetAttr_in_step [OF assms Pair]
  then have m1: "in_step alive dir tree m1" "m_opts m1 = m_opts m" by simp_all
  show ?thesis
  proof (cases "\<exists>info resp. r = Inr info \<and> mi_IsDirectory info \<and> fst (calling (pc_OpenDir pc (mi_NodeID info)) m1) = Inr resp")
    case True
    then obtain info resp m2 where i: "r = Inr info" "mi_IsDirectory info"
      and c: "calling (pc_OpenDir pc (mi_NodeID info)) m1 = (Inr resp, m2)" by (metis prod.collapse)
    note m2 = in_step_calling [OF m1(1) serves_still(3) [OF assms(1) in_step_client [OF m1(1)]] c]
    obtain cs where cs: "list_all plain_name cs" "mi_Path info = mount_path cs"
      "walk_tree tree (op_RootNodeID (m_opts m)) cs = Some (mi_NodeID info)" using g i(1) by blast
    have "fst (pc_OpenDir pc (mi_NodeID info) (m_client m1)) = Inr resp" using m2(4) by simp
    then have "dir (m_client m2) (OpenDirResp_DirCursorID resp) = Some (mi_NodeID info)"
      using serves_OpenDir [OF assms(1) in_step_client [OF m1(1)]] m2(5) by simp
    then have "in_step alive dir tree (let m3 = m2\<lparr>m_nextLocalHandle := m_nextLocalHandle m2 + 1\<rparr> in
        m3\<lparr>m_directoryHandles := (m_directoryHandles m3)(m_nextLocalHandle m2 \<mapsto>
          \<lparr>md_HandleID = m_nextLocalHandle m2, md_RemoteCursorID = OpenDirResp_DirCursorID resp,
           md_Path = mi_Path info, md_Info = info\<rparr>)\<rparr>)"
      unfolding Let_def using m2(1,2) m1(2) cs by (intro in_step_remember) simp_all
    then show ?thesis
      using Pair i c by (simp add: mount_OpenDirectory_def allocLocalHandle_def Let_def)
  next
    case False
    have "in_step alive dir tree m2" if "calling (pc_OpenDir pc i) m1 = (r2, m2)" for i r2 m2
      using in_step_calling(1) [OF m1(1) serves_still(3) [OF assms(1) in_step_client [OF m1(1)]] that] .
    then have "in_step alive dir tree (snd (calling (pc_OpenDir pc i) m1))" for i by (metis prod.collapse)
    then show ?thesis
      using Pair m1 False
      by (cases r) (auto simp: mount_OpenDirectory_def case_prod_unfold split: sum.split)
  qed
qed

lemma in_step_ReadDirectory:
  assumes "serves_tree pc alive dir tree" and "in_step alive dir tree m"
  shows "in_step alive dir tree (snd (mount_ReadDirectory pc k cookie n m))"
proof (cases "m_directoryHandles m k")
  case (Some h)
  let ?n = "if n = 0 then op_ReadDirBatchSize (m_opts m) else n"
  obtain cs i where cs: "list_all plain_name cs" "md_Path h = mount_path cs"
    "walk_tree tree (op_RootNodeID (m_opts m)) cs = Some i" "dir (m_client m) (md_RemoteCursorID h) = Some i"
    using assms(2) Some unfolding in_step_def by blast
  obtain r m1 where c: "calling (pc_ReadDir pc (md_RemoteCursorID h) cookie ?n) m = (r, m1)" by fastforce
  note m1 = in_step_calling [OF assms(2) serves_still(4) [OF assms(1) in_step_client [OF assms(2)]] c]
  show ?thesis
  proof (cases r)
    case (Inr resp)
    then have "fst (pc_ReadDir pc (md_RemoteCursorID h) cookie ?n (m_client m)) = Inr resp" using m1(4) by simp
    note page = serves_ReadDir [OF assms(1) in_step_client [OF assms(2)] this cs(4)]
    from take_entries_in_step [OF m1(1) cs(1,2) _ page] show ?thesis
      using Some c Inr cs(3) m1(2) by (simp add: mount_ReadDirectory_def Let_def case_prod_unfold)
  qed (use Some c m1(1) in \<open>simp add: mount_ReadDirectory_def Let_def\<close>)
qed (use assms(2) in \<open>simp add: mount_ReadDirectory_def\<close>)

lemma in_step_Read:
  assumes "serves_tree pc alive dir tree" and "in_step alive dir tree m"
  shows "in_step alive dir tree (snd (mount_Read pc k off len m))"
proof -
  have "in_step alive dir tree m2" if "calling (pc_Read pc i off len) m = (r2, m2)" for i r2 m2
    using in_step_calling(1) [OF assms(2) serves_still(7) [OF assms(1) in_step_client [OF assms(2)]] that] .
  then have "in_step alive dir tree (snd (calling (pc_Read pc i off len) m))" for i by (metis prod.collapse)
  then show ?thesis
    using assms(2) by (simp add: mount_Read_def case_prod_unfold split: option.split sum.split)
qed

lemma in_step_Close:
  assumes "serves_tree pc alive dir tree" and "in_step alive dir tree m"
  shows "in_step alive dir tree (snd (mount_Close pc k m))"
proof -
  have f: "in_step alive dir tree m2"
    if "calling (pc_CloseHandle pc i) m0 = (r2, m2)" "in_step alive dir tree m0" for i r2 m2 m0
    using in_step_calling(1) [OF that(2) serves_still(8) [OF assms(1) in_step_client [OF that(2)]] that(1)] .
  have d: "in_step alive dir tree m2"
    if "calling (pc_CloseDir pc i) m0 = (r2, m2)" "in_step alive dir tree m0" for i r2 m2 m0
    using in_step_calling(1) [OF that(2) serves_still(5) [OF assms(1) in_step_client [OF that(2)]] that(1)] .
  show ?thesis
    using assms(2) in_step_forget [OF assms(2), of k]
    by (auto simp: mount_Close_def split: option.split prod.split intro: f d)
qed

lemma in_step_run:
  assumes "serves_tree pc alive dir tree"
  shows "in_step alive dir tree m \<Longrightarrow> list_all plain_call calls \<Longrightarrow>
    in_step alive dir tree (fold (run_call pc) calls m)"
proof (induction calls arbitrary: m)
  case (Cons x calls)
  have "in_step alive dir tree (run_call pc x m)"
    using Cons.prems in_step_Lookup [OF assms] GetAttr_in_step [OF assms] in_step_Open [OF assms]
      in_step_OpenDirectory [OF assms] in_step_ReadDirectory [OF assms] in_step_Read [OF assms]
      in_step_Close [OF assms]
    by (cases x) (simp_all, metis prod.collapse)
  then show ?case using Cons by simp
qed simp

lemma in_step_New:
  assumes "alive c"
  shows "in_step alive dir tree (New_mount c opts)"
proof -
  have "cs = []" if "list_all plain_name cs" "mount_path cs = ''/''" for cs
    using that plain_valid [of cs] by simp
  then show ?thesis
    using assms by (auto simp: in_step_def cache_ok_def New_mount_def Let_def root_node_def split: if_splits) force+
qed

text \<open>
  C26: The path cache is transparent. On a server whose tree does not change, after any run of calls on a
  fresh mount (looking up, getting attributes, opening, reading and closing files and directories,
  each of which fills the cache its own way), resolving a path gives the node that walking the tree
  from the root gives, and an error when there is none. All names are plain: no space at either end
  and no backslash.
\<close>

theorem resolve_is_walk:
  assumes "serves_tree pc alive dir tree" and "alive c" and "list_all plain_call calls"
    and "m = fold (run_call pc) calls (New_mount c opts)"
    and "NormalizeMountPath input = Some (mount_path cs)" and "list_all plain_name cs"
  shows "case walk_tree tree (op_RootNodeID (m_opts m)) cs of
       Some i \<Rightarrow> \<exists>e. fst (resolvePath pc input m) = Inr (mount_path cs, e) \<and> ni_NodeID e = i
     | None \<Rightarrow> isl (fst (resolvePath pc input m))"
proof -
  have "in_step alive dir tree m"
    using in_step_run [OF assms(1) in_step_New [where alive = alive, OF assms(2)] assms(3)] assms(4) by simp
  from resolvePath_walk [OF assms(1) this assms(5,6)] show ?thesis
    by (auto split: option.splits)
qed

text \<open>A client over a tree with the single file \<^verbatim>\<open>/a\<close>.\<close>

definition one_file :: "u64 \<Rightarrow> string \<Rightarrow> NodeInfo option" where
  "one_file i n = (if i = 1 \<and> n = ''a'' then Some ((root_node 2)\<lparr>ni_Name := ''a'', ni_FileType := FileTypeFile\<rparr>) else None)"

definition one_file_client :: "unit ProtocolClient" where
  "one_file_client =
     \<lparr>pc_Lookup = (\<lambda>i n c. (case one_file i n of
          Some e \<Rightarrow> Inr \<lparr>LookupResp_Entry = e\<rparr> | None \<Rightarrow> Inl (ServerError ErrNotFound ''not found''), c)),
      pc_GetAttr = (\<lambda>i c. (if i = 2 then Inr \<lparr>GetAttrResp_Entry = the (one_file 1 ''a'')\<rparr> else Inr \<lparr>GetAttrResp_Entry = root_node 1\<rparr>, c)),
      pc_OpenDir = (\<lambda>i c. (Inr \<lparr>OpenDirResp_DirCursorID = 1001\<rparr>, c)),
      pc_ReadDir = (\<lambda>i k n c. (Inl (ServerError ErrNotFound ''not found''), c)),
      pc_CloseDir = (\<lambda>i c. (Inr \<lparr>CloseDirResp_Closed = True\<rparr>, c)),
      pc_OpenRead = (\<lambda>i c. (Inr \<lparr>OpenResp_HandleID = 2001, OpenResp_Size = 0\<rparr>, c)),
      pc_Read = (\<lambda>i k n c. (Inl (ServerError ErrInvalidHandle ''invalid handle''), c)),
      pc_CloseHandle = (\<lambda>i c. (Inl (ServerError ErrInvalidHandle ''invalid handle''), c))\<rparr>"

definition sample_options :: Options where
  "sample_options = \<lparr>op_RootNodeID = 1, op_VolumeName = [], op_ReadOnly = True, op_CaseSensitive = True, op_ReadDirBatchSize = 0\<rparr>"

text \<open>The same file on a server that also lists its directory.\<close>

definition listing_client :: "unit ProtocolClient" where
  "listing_client = one_file_client
     \<lparr>pc_GetAttr := (\<lambda>i c. (Inr \<lparr>GetAttrResp_Entry = if i = 2 then the (one_file 1 ''a'') else root_node i\<rparr>, c)),
      pc_OpenDir := (\<lambda>i c. (Inr \<lparr>OpenDirResp_DirCursorID = i\<rparr>, c)),
      pc_ReadDir := (\<lambda>k cookie n c. (Inr \<lparr>ReadDirResp_Entries = (if k = 1 then
          [\<lparr>de_NodeID = 2, de_Name = ''a'', de_FileType = FileTypeFile, de_Size = 0, de_Mode = 0, de_ModTime = []\<rparr>]
          else []), ReadDirResp_NextCookie = 1, ReadDirResp_EOF = True\<rparr>, c))\<rparr>"

definition sample_calls :: "mount_call list" where
  "sample_calls = [CallGetAttr ''/'', CallOpenDirectory [], CallReadDirectory 1 0 0, CallOpen ''a'',
     CallLookup ''/b'', CallClose 1]"

lemma listing_client_serves:
  "serves_tree listing_client (\<lambda>_. True) (\<lambda>_. Some) (\<lambda>i n. map_option ni_NodeID (one_file i n))"
proof -
  have "plain_name ''a''" by code_simp
  then show ?thesis
    by (auto simp: serves_tree_def still_def listing_client_def one_file_client_def one_file_def root_node_def
        split: option.split)
qed

theorem resolve_is_walk_witness:
  "\<exists>e. fst (resolvePath listing_client ''a''
      (fold (run_call listing_client) sample_calls (New_mount () sample_options))) = Inr (''/a'', e) \<and> ni_NodeID e = 2"
proof -
  have n: "NormalizeMountPath ''a'' = Some (mount_path [''a''])" and p: "list_all plain_name [''a'']"
    and c: "list_all plain_call sample_calls" and q: "mount_path [''a''] = ''/a''" by code_simp+
  have r: "op_RootNodeID (m_opts (fold (run_call listing_client) sample_calls (New_mount () sample_options))) = 1"
    by code_simp
  show ?thesis
    using resolve_is_walk [OF listing_client_serves _ c refl n p, of "()" sample_options]
    unfolding r q by (simp add: one_file_def root_node_def)
qed

end
