(* ===== verification/Winfsp.thy ===== *)
theory Winfsp
  imports MountProps "HOL-Library.Monad_Syntax"
begin

text \<open>
  The Windows side of the mount (\<^verbatim>\<open>internal/winfsp\<close>): status codes and the mapping of errors to
  them (\<^verbatim>\<open>status.go\<close>), security descriptors (\<^verbatim>\<open>security_descriptor.go\<close>), the callbacks with
  their table of handles (\<^verbatim>\<open>callbacks.go\<close>, over \<^verbatim>\<open>adapter/adapter.go\<close>). The layers that count and
  trace the calls are in the theory \<open>Dispatcher\<close>. Traces of failures go to the native log
  only on Windows and have no effect on the state; they are left out.
\<close>

section \<open>Status codes\<close>

type_synonym NTStatus = u32

abbreviation (input) StatusSuccess :: NTStatus where "StatusSuccess \<equiv> 0x00000000"
abbreviation (input) StatusObjectNameNotFound :: NTStatus where "StatusObjectNameNotFound \<equiv> 0xC0000034"
abbreviation (input) StatusObjectPathNotFound :: NTStatus where "StatusObjectPathNotFound \<equiv> 0xC000003A"
abbreviation (input) StatusAccessDenied :: NTStatus where "StatusAccessDenied \<equiv> 0xC0000022"
abbreviation (input) StatusInvalidHandle :: NTStatus where "StatusInvalidHandle \<equiv> 0xC0000008"
abbreviation (input) StatusFileIsADirectory :: NTStatus where "StatusFileIsADirectory \<equiv> 0xC00000BA"
abbreviation (input) StatusNotADirectory :: NTStatus where "StatusNotADirectory \<equiv> 0xC0000103"
abbreviation (input) StatusInternalError :: NTStatus where "StatusInternalError \<equiv> 0xC00000E5"

text \<open>
  The text of an error of the mount; what the errors of the client say is a parameter.
\<close>

definition mount_error_text :: "(client_error \<Rightarrow> string) \<Rightarrow> mount_error \<Rightarrow> string" where
  "mount_error_text errtext e =
     (case e of
        MountErrInvalidHandle \<Rightarrow> ''mountcore: invalid handle''
      | MountErrIsDirectory \<Rightarrow> ''mountcore: path is a directory''
      | MountErrNotDirectory \<Rightarrow> ''mountcore: path is not a directory''
      | InvalidPath p \<Rightarrow> ''invalid path '' @ Quote p @ '': parent traversal is not allowed''
      | LookupFailed p err \<Rightarrow> ''lookup '' @ p @ '': '' @ errtext err
      | ClientFailed err \<Rightarrow> errtext err)"

text \<open>\<^verbatim>\<open>mapError\<close> of an error: the sentinel errors by identity, everything else by its text.\<close>

definition status_of_text :: "string \<Rightarrow> NTStatus" where
  "status_of_text msg =
     (if Contains msg ''ERR_NOT_FOUND'' \<or> Contains msg ''not found'' then StatusObjectNameNotFound
      else if Contains msg ''ERR_NOT_DIR'' then StatusNotADirectory
      else if Contains msg ''ERR_IS_DIR'' then StatusFileIsADirectory
      else if Contains msg ''ERR_INVALID_HANDLE'' \<or> Contains msg ''invalid handle'' then StatusInvalidHandle
      else if Contains msg ''ERR_ACCESS_DENIED'' then StatusAccessDenied
      else if Contains msg ''invalid path'' then StatusObjectPathNotFound
      else StatusInternalError)"

definition mapError :: "(client_error \<Rightarrow> string) \<Rightarrow> mount_error option \<Rightarrow> NTStatus" where
  "mapError errtext err =
     (case err of
        None \<Rightarrow> StatusSuccess
      | Some MountErrInvalidHandle \<Rightarrow> StatusInvalidHandle
      | Some MountErrIsDirectory \<Rightarrow> StatusFileIsADirectory
      | Some MountErrNotDirectory \<Rightarrow> StatusNotADirectory
      | Some e \<Rightarrow> status_of_text (mount_error_text errtext e))"

definition StatusName :: "NTStatus \<Rightarrow> string" where
  "StatusName status =
     (if status = StatusSuccess then ''STATUS_SUCCESS''
      else if status = StatusObjectNameNotFound then ''STATUS_OBJECT_NAME_NOT_FOUND''
      else if status = StatusObjectPathNotFound then ''STATUS_OBJECT_PATH_NOT_FOUND''
      else if status = StatusAccessDenied then ''STATUS_ACCESS_DENIED''
      else if status = StatusInvalidHandle then ''STATUS_INVALID_HANDLE''
      else if status = StatusFileIsADirectory then ''STATUS_FILE_IS_A_DIRECTORY''
      else if status = StatusNotADirectory then ''STATUS_NOT_A_DIRECTORY''
      else if status = StatusInternalError then ''STATUS_INTERNAL_ERROR''
      else ''NTSTATUS_0x'' @ ToUpper (format_hex status))"

definition StatusCode :: "NTStatus \<Rightarrow> string" where
  "StatusCode status =
     (if status = StatusSuccess then ''winfsp.ok''
      else if status = StatusObjectNameNotFound then ''winfsp.object_name_not_found''
      else if status = StatusObjectPathNotFound then ''winfsp.object_path_not_found''
      else if status = StatusAccessDenied then ''winfsp.access_denied''
      else if status = StatusInvalidHandle then ''winfsp.invalid_handle''
      else if status = StatusFileIsADirectory then ''winfsp.file_is_directory''
      else if status = StatusNotADirectory then ''winfsp.not_directory''
      else ''winfsp.internal_error'')"

definition StatusError :: "NTStatus \<Rightarrow> string option \<Rightarrow> string option" where
  "StatusError status err =
     (case err of
        None \<Rightarrow> None
      | Some e \<Rightarrow> Some (''code='' @ StatusCode status @ '' ntstatus='' @ StatusName status @ ''(0x'' @
                     format_hex status @ ''): '' @ e))"

section \<open>Security descriptors\<close>

abbreviation (input) SecuritySourceByName :: string where "SecuritySourceByName \<equiv> ''by-name''"
abbreviation (input) SecuritySourceByHandle :: string where "SecuritySourceByHandle \<equiv> ''by-handle''"

record NativeSecurityDescriptor =
  sd_Path :: string
  sd_SDDL :: string
  sd_Owner :: string
  sd_Group :: string
  sd_Access :: "string list"
  sd_ReadOnly :: bool
  sd_Directory :: bool
  sd_HandleBound :: bool
  sd_DeleteOnClose :: bool
  sd_CleanupState :: string
  sd_FlushState :: string
  sd_Source :: string

definition NativeSecurityDescriptor_Summary :: "NativeSecurityDescriptor \<Rightarrow> string" where
  "NativeSecurityDescriptor_Summary d =
     Join ([sd_Owner d @ ''/'' @ sd_Group d] @
           (if sd_ReadOnly d then [''readonly''] else []) @
           (if sd_Directory d then [''directory''] else [''file'']) @
           (if sd_HandleBound d then [''handle''] else []) @
           (if sd_DeleteOnClose d then [''delete-on-close''] else []) @
           (if sd_CleanupState d \<noteq> [] then [sd_CleanupState d] else []) @
           (if sd_FlushState d \<noteq> [] then [sd_FlushState d] else [])) '',''"

record SecurityDescriptorOptions =
  so_HandleBound :: bool
  so_DeleteOnClose :: bool
  so_Cleaned :: bool
  so_Flushed :: bool
  so_Source :: string

definition DefaultNativeSecurityDescriptor ::
  "MountFileInfo \<Rightarrow> SecurityDescriptorOptions \<Rightarrow> NativeSecurityDescriptor" where
  "DefaultNativeSecurityDescriptor info opts =
     \<lparr>sd_Path = mi_Path info,
      sd_SDDL = (if mi_IsDirectory info
                 then ''O:BAG:BAD:PAI(A;OICI;FA;;;SY)(A;OICI;FA;;;BA)(A;OICI;FR;;;WD)''
                 else ''O:BAG:BAD:PAI(A;;FA;;;SY)(A;;FA;;;BA)(A;;FR;;;WD)''),
      sd_Owner = ''BA'', sd_Group = ''BA'',
      sd_Access = (if mi_IsDirectory info
                   then [''system:full(inherit)'', ''administrators:full(inherit)'', ''world:read(inherit)'']
                   else [''system:full'', ''administrators:full'', ''world:read'']),
      sd_ReadOnly = True, sd_Directory = mi_IsDirectory info, sd_HandleBound = so_HandleBound opts,
      sd_DeleteOnClose = so_DeleteOnClose opts,
      sd_CleanupState = (if so_Cleaned opts
                         then (if so_DeleteOnClose opts then ''delete-on-close-denied'' else ''cleanup-complete'')
                         else ''active''),
      sd_FlushState = (if so_Flushed opts then ''flushed'' else ''not-flushed''),
      sd_Source = (if so_Source opts = []
                   then (if so_HandleBound opts then SecuritySourceByHandle else SecuritySourceByName)
                   else so_Source opts)\<rparr>"

record SecurityInfo =
  si_Path :: string
  si_Descriptor :: string
  si_Owner :: string
  si_Group :: string
  si_Access :: "string list"
  si_ReadOnly :: bool
  si_HandleBound :: bool
  si_Directory :: bool
  si_DeleteOnClose :: bool
  si_CleanupState :: string
  si_FlushState :: string
  si_Source :: string
  si_Summary :: string

definition zero_SecurityInfo :: SecurityInfo where
  "zero_SecurityInfo =
     \<lparr>si_Path = [], si_Descriptor = [], si_Owner = [], si_Group = [], si_Access = [], si_ReadOnly = False,
      si_HandleBound = False, si_Directory = False, si_DeleteOnClose = False, si_CleanupState = [],
      si_FlushState = [], si_Source = [], si_Summary = []\<rparr>"

definition securityInfoFromDescriptor :: "NativeSecurityDescriptor \<Rightarrow> SecurityInfo" where
  "securityInfoFromDescriptor d =
     \<lparr>si_Path = sd_Path d, si_Descriptor = sd_SDDL d, si_Owner = sd_Owner d, si_Group = sd_Group d,
      si_Access = sd_Access d, si_ReadOnly = sd_ReadOnly d, si_HandleBound = sd_HandleBound d,
      si_Directory = sd_Directory d, si_DeleteOnClose = sd_DeleteOnClose d,
      si_CleanupState = sd_CleanupState d, si_FlushState = sd_FlushState d, si_Source = sd_Source d,
      si_Summary = NativeSecurityDescriptor_Summary d\<rparr>"

section \<open>The adapter\<close>

text \<open>The adapter only holds the mount; its operations are those of the mount.\<close>

type_synonym 'c Adapter = "'c Mount"

record OpenResult =
  or_HandleID :: u64
  or_Info :: MountFileInfo

definition Adapter_Open :: "'c ProtocolClient \<Rightarrow> string \<Rightarrow> ('c, OpenResult) mount_op" where
  "Adapter_Open pc path a =
     (case mount_Open pc path a of
        (Inl err, a) \<Rightarrow> (Inl err, a)
      | (Inr h, a) \<Rightarrow> (Inr \<lparr>or_HandleID = mf_HandleID h, or_Info = mf_Info h\<rparr>, a))"

definition Adapter_OpenDirectory :: "'c ProtocolClient \<Rightarrow> string \<Rightarrow> ('c, OpenResult) mount_op" where
  "Adapter_OpenDirectory pc path a =
     (case mount_OpenDirectory pc path a of
        (Inl err, a) \<Rightarrow> (Inl err, a)
      | (Inr h, a) \<Rightarrow> (Inr \<lparr>or_HandleID = md_HandleID h, or_Info = md_Info h\<rparr>, a))"

section \<open>The callbacks\<close>

record handleState =
  hst_Info :: MountFileInfo
  hst_DeleteOnClose :: bool
  hst_Cleaned :: bool
  hst_Flushed :: bool

record 'c Callbacks =
  cb_adapter :: "'c Adapter"
  cb_handles :: "u64 \<rightharpoonup> handleState"

definition NewCallbacks :: "'c Adapter \<Rightarrow> 'c Callbacks" where
  "NewCallbacks a = \<lparr>cb_adapter = a, cb_handles = Map.empty\<rparr>"

text \<open>What the callbacks run on: the client the mount calls, and what its errors say.\<close>

record 'c native_env =
  ne_client :: "'c ProtocolClient"
  ne_errtext :: "client_error \<Rightarrow> string"

type_synonym ('c, 'r) callback = "'c Callbacks \<Rightarrow> ('r \<times> NTStatus) \<times> 'c Callbacks"

definition zero_MountFileInfo :: MountFileInfo where
  "zero_MountFileInfo =
     \<lparr>mi_Path = [], mi_NodeID = 0, mi_ParentNodeID = 0, mi_Name = [], mi_IsDirectory = False,
      mi_Size = 0, mi_Mode = 0, mi_ModTime = []\<rparr>"

definition zero_OpenResult :: OpenResult where
  "zero_OpenResult = \<lparr>or_HandleID = 0, or_Info = zero_MountFileInfo\<rparr>"

definition zero_DirectoryPage :: DirectoryPage where
  "zero_DirectoryPage = \<lparr>dp_Entries = [], dp_NextCookie = 0, dp_EOF = False\<rparr>"

definition cb_trackHandle :: "u64 \<Rightarrow> MountFileInfo \<Rightarrow> 'c Callbacks \<Rightarrow> 'c Callbacks" where
  "cb_trackHandle i info c =
     c\<lparr>cb_handles := (cb_handles c)(i \<mapsto> \<lparr>hst_Info = info, hst_DeleteOnClose = False,
                                         hst_Cleaned = False, hst_Flushed = False\<rparr>)\<rparr>"

definition cb_lookupHandle :: "u64 \<Rightarrow> 'c Callbacks \<Rightarrow> handleState option" where
  "cb_lookupHandle i c = cb_handles c i"

definition cb_updateHandle :: "u64 \<Rightarrow> handleState \<Rightarrow> 'c Callbacks \<Rightarrow> 'c Callbacks" where
  "cb_updateHandle i st c = c\<lparr>cb_handles := (cb_handles c)(i \<mapsto> st)\<rparr>"

definition cb_untrackHandle :: "u64 \<Rightarrow> 'c Callbacks \<Rightarrow> 'c Callbacks" where
  "cb_untrackHandle i c = c\<lparr>cb_handles := (cb_handles c)(i := None)\<rparr>"

text \<open>A call to the adapter: an error becomes its status and the zero result.\<close>

definition on_adapter ::
  "'c native_env \<Rightarrow> ('c, 'r) mount_op \<Rightarrow> 'r \<Rightarrow> ('r \<Rightarrow> 'c Callbacks \<Rightarrow> 'c Callbacks) \<Rightarrow> ('c, 'r) callback" where
  "on_adapter env f zero_result k c =
     (case f (cb_adapter c) of
        (Inl err, a) \<Rightarrow> ((zero_result, mapError (ne_errtext env) (Some err)), c\<lparr>cb_adapter := a\<rparr>)
      | (Inr r, a) \<Rightarrow> ((r, StatusSuccess), k r (c\<lparr>cb_adapter := a\<rparr>)))"

text \<open>A call that is refused, but differently on a handle nobody holds.\<close>

definition refuse_on :: "u64 \<Rightarrow> NTStatus \<Rightarrow> 'r \<Rightarrow> ('c, 'r) callback" where
  "refuse_on i status r c =
     (case cb_lookupHandle i c of
        None \<Rightarrow> ((r, StatusInvalidHandle), c)
      | Some _ \<Rightarrow> ((r, status), c))"

definition cb_GetVolumeInfo :: "('c, VolumeInfo) callback" where
  "cb_GetVolumeInfo c = ((mount_VolumeInfo (cb_adapter c), StatusSuccess), c)"

definition cb_GetFileInfo :: "'c native_env \<Rightarrow> string \<Rightarrow> ('c, MountFileInfo) callback" where
  "cb_GetFileInfo env path =
     on_adapter env (mount_GetAttr (ne_client env) path) zero_MountFileInfo (\<lambda>_ c. c)"

definition cb_Create :: "string \<Rightarrow> bool \<Rightarrow> ('c, unit) callback" where
  "cb_Create path isDirectory c =
     (((), if path = [] then StatusObjectPathNotFound else StatusAccessDenied), c)"

definition cb_Open :: "'c native_env \<Rightarrow> string \<Rightarrow> ('c, OpenResult) callback" where
  "cb_Open env path =
     on_adapter env (Adapter_Open (ne_client env) path) zero_OpenResult
       (\<lambda>r. cb_trackHandle (or_HandleID r) (or_Info r))"

definition cb_OpenDirectory :: "'c native_env \<Rightarrow> string \<Rightarrow> ('c, OpenResult) callback" where
  "cb_OpenDirectory env path =
     on_adapter env (Adapter_OpenDirectory (ne_client env) path) zero_OpenResult
       (\<lambda>r. cb_trackHandle (or_HandleID r) (or_Info r))"

definition cb_Overwrite :: "u64 \<Rightarrow> u64 \<Rightarrow> u32 \<Rightarrow> bool \<Rightarrow> ('c, unit) callback" where
  "cb_Overwrite i allocationSize fileAttributes replaceFileAttributes = refuse_on i StatusAccessDenied ()"

definition cb_ReadDirectory :: "'c native_env \<Rightarrow> u64 \<Rightarrow> u64 \<Rightarrow> u32 \<Rightarrow> ('c, DirectoryPage) callback" where
  "cb_ReadDirectory env i cookie maxEntries =
     on_adapter env (mount_ReadDirectory (ne_client env) i cookie maxEntries) zero_DirectoryPage (\<lambda>_ c. c)"

definition cb_Read :: "'c native_env \<Rightarrow> u64 \<Rightarrow> int \<Rightarrow> u32 \<Rightarrow> ('c, bytes \<times> bool) callback" where
  "cb_Read env i offset len c =
     (case mount_Read (ne_client env) i offset len (cb_adapter c) of
        (Inl err, a) \<Rightarrow> ((([], False), mapError (ne_errtext env) (Some err)), c\<lparr>cb_adapter := a\<rparr>)
      | (Inr r, a) \<Rightarrow> (((rr_Data r, rr_EOF r), StatusSuccess), c\<lparr>cb_adapter := a\<rparr>))"

definition cb_Write :: "u64 \<Rightarrow> int \<Rightarrow> bytes \<Rightarrow> bool \<Rightarrow> ('c, u32) callback" where
  "cb_Write i offset data constrainedIo = refuse_on i StatusAccessDenied 0"

definition cb_Cleanup :: "u64 \<Rightarrow> ('c, unit) callback" where
  "cb_Cleanup i c =
     (case cb_lookupHandle i c of
        None \<Rightarrow> (((), StatusInvalidHandle), c)
      | Some st \<Rightarrow> (((), StatusSuccess), cb_updateHandle i (st\<lparr>hst_Cleaned := True\<rparr>) c))"

definition cb_Flush :: "u64 \<Rightarrow> ('c, unit) callback" where
  "cb_Flush i c =
     (case cb_lookupHandle i c of
        None \<Rightarrow> (((), StatusInvalidHandle), c)
      | Some st \<Rightarrow> (((), StatusSuccess), cb_updateHandle i (st\<lparr>hst_Flushed := True\<rparr>) c))"

definition cb_GetFileInfoByHandle :: "u64 \<Rightarrow> ('c, MountFileInfo) callback" where
  "cb_GetFileInfoByHandle i c =
     (case cb_lookupHandle i c of
        None \<Rightarrow> ((zero_MountFileInfo, StatusInvalidHandle), c)
      | Some st \<Rightarrow> ((hst_Info st, StatusSuccess), c))"

definition cb_SetBasicInfo :: "u64 \<Rightarrow> u32 \<Rightarrow> ('c, unit) callback" where
  "cb_SetBasicInfo i fileAttributes = refuse_on i StatusAccessDenied ()"

definition cb_SetFileSize :: "u64 \<Rightarrow> int \<Rightarrow> bool \<Rightarrow> ('c, unit) callback" where
  "cb_SetFileSize i newSize setAllocationSize = refuse_on i StatusAccessDenied ()"

definition cb_CanDelete :: "'c native_env \<Rightarrow> string \<Rightarrow> ('c, unit) callback" where
  "cb_CanDelete env path c =
     (case cb_GetFileInfo env path c of
        ((_, status), c) \<Rightarrow> (((), if status \<noteq> StatusSuccess then status else StatusAccessDenied), c))"

definition cb_Rename :: "u64 \<Rightarrow> string \<Rightarrow> bool \<Rightarrow> ('c, unit) callback" where
  "cb_Rename i newPath replaceIfExists =
     refuse_on i (if newPath = [] then StatusObjectPathNotFound else StatusAccessDenied) ()"

definition cb_GetSecurityByName :: "'c native_env \<Rightarrow> string \<Rightarrow> ('c, SecurityInfo) callback" where
  "cb_GetSecurityByName env path c =
     (case cb_GetFileInfo env path c of
        ((info, status), c) \<Rightarrow>
          if status \<noteq> StatusSuccess then ((zero_SecurityInfo, status), c)
          else ((securityInfoFromDescriptor (DefaultNativeSecurityDescriptor info
                   \<lparr>so_HandleBound = False, so_DeleteOnClose = False, so_Cleaned = False, so_Flushed = False,
                    so_Source = SecuritySourceByName\<rparr>), StatusSuccess), c))"

definition cb_GetSecurity :: "u64 \<Rightarrow> ('c, SecurityInfo) callback" where
  "cb_GetSecurity i c =
     (case cb_lookupHandle i c of
        None \<Rightarrow> ((zero_SecurityInfo, StatusInvalidHandle), c)
      | Some st \<Rightarrow>
          ((securityInfoFromDescriptor (DefaultNativeSecurityDescriptor (hst_Info st)
              \<lparr>so_HandleBound = True, so_DeleteOnClose = hst_DeleteOnClose st, so_Cleaned = hst_Cleaned st,
               so_Flushed = hst_Flushed st, so_Source = SecuritySourceByHandle\<rparr>), StatusSuccess), c))"

definition cb_SetSecurity :: "u64 \<Rightarrow> string \<Rightarrow> ('c, unit) callback" where
  "cb_SetSecurity i securityDescriptor = refuse_on i StatusAccessDenied ()"

definition cb_SetDeleteOnClose :: "u64 \<Rightarrow> bool \<Rightarrow> ('c, unit) callback" where
  "cb_SetDeleteOnClose i enabled c =
     (case cb_lookupHandle i c of
        None \<Rightarrow> (((), StatusInvalidHandle), c)
      | Some st \<Rightarrow>
          (((), if enabled then StatusAccessDenied else StatusSuccess),
           cb_updateHandle i (st\<lparr>hst_DeleteOnClose := enabled\<rparr>) c))"

definition cb_Close :: "'c native_env \<Rightarrow> u64 \<Rightarrow> ('c, unit) callback" where
  "cb_Close env i = on_adapter env (mount_Close (ne_client env) i) () (\<lambda>_. cb_untrackHandle i)"

end
