(* ===== verification/Dispatcher.thy ===== *)
theory Dispatcher
  imports Winfsp
begin

text \<open>
  The layers between the native dispatcher and the callbacks (\<^verbatim>\<open>internal/winfsp\<close>): the bridge, which
  counts calls and keeps the last status (\<^verbatim>\<open>dispatcher_bridge.go\<close>), the ABI, which counts requests and
  open handles (\<^verbatim>\<open>dispatcher_abi.go\<close>), the service with its warm-up (\<^verbatim>\<open>dispatcher_service.go\<close>), the
  table of native callbacks (\<^verbatim>\<open>native_callback_table.go\<close>), the binding and the host (\<^verbatim>\<open>backend.go\<close>,
  \<^verbatim>\<open>binding.go\<close>, \<^verbatim>\<open>host.go\<close>). The layers hold pointers to one another; here each layer contains the
  one below it. A nil pointer is \<open>None\<close>, and a call through it, which panics, has no result.
\<close>

section \<open>The bridge\<close>

definition defaultDispatcherValue :: "string \<Rightarrow> string \<Rightarrow> string" where
  "defaultDispatcherValue v fallback = (if v = [] then fallback else v)"

record DispatcherBridgeState =
  bs_Initialized :: bool
  bs_RootPath :: string
  bs_VolumeName :: string
  bs_LastNTStatus :: NTStatus
  bs_LastError :: string
  bs_CallCount :: "string \<rightharpoonup> u64"

definition DispatcherBridgeState_Summary :: "DispatcherBridgeState \<Rightarrow> string" where
  "DispatcherBridgeState_Summary s =
     ''initialized='' @ format_bool (bs_Initialized s) @ '' root='' @ defaultDispatcherValue (bs_RootPath s) ''-'' @
     '' volume='' @ defaultDispatcherValue (bs_VolumeName s) ''-'' @
     (if bs_LastError s \<noteq> [] then '' last_error='' @ bs_LastError s else []) @
     (if bs_LastNTStatus s \<noteq> 0 then '' ntstatus=0x'' @ format_hex (bs_LastNTStatus s) else [])"

record 'c DispatcherBridge =
  br_callbacks :: "'c Callbacks"
  br_state :: DispatcherBridgeState

type_synonym ('c, 'r) bridge_op = "'c DispatcherBridge \<Rightarrow> ('r \<times> NTStatus) \<times> 'c DispatcherBridge"

definition NewDispatcherBridge :: "'c Callbacks \<Rightarrow> 'c DispatcherBridge" where
  "NewDispatcherBridge callbacks =
     \<lparr>br_callbacks = callbacks,
      br_state = \<lparr>bs_Initialized = False, bs_RootPath = [], bs_VolumeName = [], bs_LastNTStatus = 0,
                  bs_LastError = [], bs_CallCount = Map.empty\<rparr>\<rparr>"

definition bridge_Snapshot :: "'c DispatcherBridge \<Rightarrow> DispatcherBridgeState" where
  "bridge_Snapshot b = br_state b"

text \<open>The text both layers record for a failed call.\<close>

definition failure_text :: "string \<Rightarrow> string \<Rightarrow> NTStatus \<Rightarrow> string" where
  "failure_text oper detail status =
     (if status = StatusSuccess then []
      else (if detail = [] then oper else detail) @ '' failed with ntstatus=0x'' @ format_hex status)"

definition bridge_record :: "string \<Rightarrow> NTStatus \<Rightarrow> string \<Rightarrow> 'c DispatcherBridge \<Rightarrow> 'c DispatcherBridge" where
  "bridge_record oper status detail b =
     (let st = br_state b;
          calls = (case bs_CallCount st oper of None \<Rightarrow> 0 | Some n \<Rightarrow> n)
      in b\<lparr>br_state := st\<lparr>bs_CallCount := (bs_CallCount st)(oper \<mapsto> calls + 1), bs_LastNTStatus := status,
                          bs_LastError := failure_text oper detail status\<rparr>\<rparr>)"

text \<open>Every operation of the bridge: the callback, then the record of it.\<close>

definition bridged :: "string \<Rightarrow> ('r \<Rightarrow> string) \<Rightarrow> ('c, 'r) callback \<Rightarrow> ('c, 'r) bridge_op" where
  "bridged oper detail f b =
     (case f (br_callbacks b) of
        ((r, status), c) \<Rightarrow> ((r, status), bridge_record oper status (detail r) (b\<lparr>br_callbacks := c\<rparr>)))"

definition handle_detail :: "u64 \<Rightarrow> string" where
  "handle_detail i = ''handle='' @ format_u64 i"

definition bridge_GetVolumeInfo :: "('c, VolumeInfo) bridge_op" where
  "bridge_GetVolumeInfo =
     bridged ''GetVolumeInfo'' (\<lambda>_. [])
       (cb_GetVolumeInfo)"

definition bridge_GetFileInfo :: "'c native_env \<Rightarrow> string \<Rightarrow> ('c, MountFileInfo) bridge_op" where
  "bridge_GetFileInfo env path =
     bridged ''GetFileInfo'' (\<lambda>_. path)
       (cb_GetFileInfo env path)"

definition bridge_Create :: "string \<Rightarrow> bool \<Rightarrow> ('c, unit) bridge_op" where
  "bridge_Create path isDirectory =
     bridged ''Create'' (\<lambda>_. path @ '' dir='' @ format_bool isDirectory)
       (cb_Create path isDirectory)"

definition bridge_Open :: "'c native_env \<Rightarrow> string \<Rightarrow> ('c, OpenResult) bridge_op" where
  "bridge_Open env path =
     bridged ''Open'' (\<lambda>_. path)
       (cb_Open env path)"

definition bridge_OpenDirectory :: "'c native_env \<Rightarrow> string \<Rightarrow> ('c, OpenResult) bridge_op" where
  "bridge_OpenDirectory env path =
     bridged ''OpenDirectory'' (\<lambda>_. path)
       (cb_OpenDirectory env path)"

definition bridge_ReadDirectory :: "'c native_env \<Rightarrow> u64 \<Rightarrow> u64 \<Rightarrow> u32 \<Rightarrow> ('c, DirectoryPage) bridge_op" where
  "bridge_ReadDirectory env i cookie maxEntries =
     bridged ''ReadDirectory'' (\<lambda>_. handle_detail i @ '' cookie='' @ format_u64 cookie @ '' max='' @ format_u32 maxEntries)
       (cb_ReadDirectory env i cookie maxEntries)"

definition bridge_Overwrite :: "u64 \<Rightarrow> u64 \<Rightarrow> u32 \<Rightarrow> bool \<Rightarrow> ('c, unit) bridge_op" where
  "bridge_Overwrite i allocationSize fileAttributes replaceFileAttributes =
     bridged ''Overwrite'' (\<lambda>_. handle_detail i @ '' allocation='' @ format_u64 allocationSize @ '' attrs='' @
       format_u32 fileAttributes @ '' replace='' @ format_bool replaceFileAttributes)
       (cb_Overwrite i allocationSize fileAttributes replaceFileAttributes)"

definition bridge_Read :: "'c native_env \<Rightarrow> u64 \<Rightarrow> int \<Rightarrow> u32 \<Rightarrow> ('c, bytes \<times> bool) bridge_op" where
  "bridge_Read env i offset len =
     bridged ''Read'' (\<lambda>(_, at_end). handle_detail i @ '' offset='' @ format_int offset @ '' length='' @ format_u32 len @
       '' eof='' @ format_bool at_end)
       (cb_Read env i offset len)"

definition bridge_Write :: "u64 \<Rightarrow> int \<Rightarrow> bytes \<Rightarrow> bool \<Rightarrow> ('c, u32) bridge_op" where
  "bridge_Write i offset data constrainedIo =
     bridged ''Write'' (\<lambda>_. handle_detail i @ '' offset='' @ format_int offset @ '' bytes='' @ decimal (length data) @
       '' constrained='' @ format_bool constrainedIo)
       (cb_Write i offset data constrainedIo)"

definition bridge_Cleanup :: "u64 \<Rightarrow> ('c, unit) bridge_op" where
  "bridge_Cleanup i =
     bridged ''Cleanup'' (\<lambda>_. handle_detail i)
       (cb_Cleanup i)"

definition bridge_Flush :: "u64 \<Rightarrow> ('c, unit) bridge_op" where
  "bridge_Flush i =
     bridged ''Flush'' (\<lambda>_. handle_detail i)
       (cb_Flush i)"

definition bridge_GetFileInfoByHandle :: "u64 \<Rightarrow> ('c, MountFileInfo) bridge_op" where
  "bridge_GetFileInfoByHandle i =
     bridged ''GetFileInfoByHandle'' (\<lambda>_. handle_detail i)
       (cb_GetFileInfoByHandle i)"

definition bridge_SetBasicInfo :: "u64 \<Rightarrow> u32 \<Rightarrow> ('c, unit) bridge_op" where
  "bridge_SetBasicInfo i fileAttributes =
     bridged ''SetBasicInfo'' (\<lambda>_. handle_detail i @ '' attrs='' @ format_u32 fileAttributes)
       (cb_SetBasicInfo i fileAttributes)"

definition bridge_SetFileSize :: "u64 \<Rightarrow> int \<Rightarrow> bool \<Rightarrow> ('c, unit) bridge_op" where
  "bridge_SetFileSize i newSize setAllocationSize =
     bridged ''SetFileSize'' (\<lambda>_. handle_detail i @ '' size='' @ format_int newSize @ '' alloc='' @ format_bool setAllocationSize)
       (cb_SetFileSize i newSize setAllocationSize)"

definition bridge_GetSecurityByName :: "'c native_env \<Rightarrow> string \<Rightarrow> ('c, SecurityInfo) bridge_op" where
  "bridge_GetSecurityByName env path =
     bridged ''GetSecurityByName'' (\<lambda>_. path)
       (cb_GetSecurityByName env path)"

definition bridge_GetSecurity :: "u64 \<Rightarrow> ('c, SecurityInfo) bridge_op" where
  "bridge_GetSecurity i =
     bridged ''GetSecurity'' (\<lambda>_. handle_detail i)
       (cb_GetSecurity i)"

definition bridge_CanDelete :: "'c native_env \<Rightarrow> string \<Rightarrow> ('c, unit) bridge_op" where
  "bridge_CanDelete env path =
     bridged ''CanDelete'' (\<lambda>_. path)
       (cb_CanDelete env path)"

definition bridge_SetSecurity :: "u64 \<Rightarrow> string \<Rightarrow> ('c, unit) bridge_op" where
  "bridge_SetSecurity i securityDescriptor =
     bridged ''SetSecurity'' (\<lambda>_. handle_detail i @ '' descriptor='' @ decimal (length securityDescriptor))
       (cb_SetSecurity i securityDescriptor)"

definition bridge_SetDeleteOnClose :: "u64 \<Rightarrow> bool \<Rightarrow> ('c, unit) bridge_op" where
  "bridge_SetDeleteOnClose i enabled =
     bridged ''SetDeleteOnClose'' (\<lambda>_. handle_detail i @ '' enabled='' @ format_bool enabled)
       (cb_SetDeleteOnClose i enabled)"

definition bridge_Rename :: "u64 \<Rightarrow> string \<Rightarrow> bool \<Rightarrow> ('c, unit) bridge_op" where
  "bridge_Rename i newPath replaceIfExists =
     bridged ''Rename'' (\<lambda>_. handle_detail i @ '' path='' @ newPath @ '' replace='' @ format_bool replaceIfExists)
       (cb_Rename i newPath replaceIfExists)"

definition bridge_Close :: "'c native_env \<Rightarrow> u64 \<Rightarrow> ('c, unit) bridge_op" where
  "bridge_Close env i =
     bridged ''Close'' (\<lambda>_. handle_detail i)
       (cb_Close env i)"

text \<open>\<^verbatim>\<open>Initialize\<close>: the error, if any.\<close>

definition bridge_Initialize ::
  "'c native_env \<Rightarrow> string \<Rightarrow> 'c DispatcherBridge \<Rightarrow> string option \<times> 'c DispatcherBridge" where
  "bridge_Initialize env rootPath b =
     (let rootPath = (if rootPath = [] then ''/'' else rootPath) in
      case bridge_GetVolumeInfo b of
        ((info, status), b) \<Rightarrow>
          if status \<noteq> StatusSuccess
          then (StatusError status (Some ''GetVolumeInfo failed during dispatcher bridge initialization''), b)
          else (case bridge_GetFileInfo env rootPath b of
            ((_, status), b) \<Rightarrow>
              if status \<noteq> StatusSuccess
              then (StatusError status (Some (''GetFileInfo('' @ rootPath @
                      '') failed during dispatcher bridge initialization'')), b)
              else (case bridge_GetSecurityByName env rootPath b of
                ((_, status), b) \<Rightarrow>
                  if status \<noteq> StatusSuccess
                  then (StatusError status (Some (''GetSecurityByName('' @ rootPath @
                          '') failed during dispatcher bridge initialization'')), b)
                  else (None, b\<lparr>br_state := (br_state b)\<lparr>bs_Initialized := True, bs_RootPath := rootPath,
                                                            bs_VolumeName := vi_Name info\<rparr>\<rparr>))))"

section \<open>The ABI\<close>

record ABIVolumeInfo =
  av_Name :: string
  av_ReadOnly :: bool
  av_CaseSensitive :: bool
  av_MaxComponentLength :: u32

record ABIFileInfo =
  af_Path :: string
  af_NodeID :: u64
  af_Size :: int
  af_Mode :: u32
  af_IsDirectory :: bool

record ABIDirectoryEntry =
  ade_Path :: string
  ade_NodeID :: u64
  ade_Size :: int
  ade_IsDirectory :: bool

record ABISecurityInfo =
  as_Path :: string
  as_Descriptor :: string
  as_Owner :: string
  as_Group :: string
  as_ReadOnly :: bool
  as_Directory :: bool
  as_HandleBound :: bool
  as_DeleteOnClose :: bool
  as_CleanupState :: string
  as_FlushState :: string
  as_Source :: string

definition abi_volume_info :: "VolumeInfo \<Rightarrow> ABIVolumeInfo" where
  "abi_volume_info v =
     \<lparr>av_Name = vi_Name v, av_ReadOnly = vi_ReadOnly v, av_CaseSensitive = vi_CaseSensitive v,
      av_MaxComponentLength = vi_MaxComponentLength v\<rparr>"

definition abi_file_info :: "MountFileInfo \<Rightarrow> ABIFileInfo" where
  "abi_file_info v =
     \<lparr>af_Path = mi_Path v, af_NodeID = mi_NodeID v, af_Size = mi_Size v, af_Mode = mi_Mode v,
      af_IsDirectory = mi_IsDirectory v\<rparr>"

definition abi_directory_entry :: "MountFileInfo \<Rightarrow> ABIDirectoryEntry" where
  "abi_directory_entry v =
     \<lparr>ade_Path = mi_Path v, ade_NodeID = mi_NodeID v, ade_Size = mi_Size v, ade_IsDirectory = mi_IsDirectory v\<rparr>"

definition abi_security_info :: "SecurityInfo \<Rightarrow> ABISecurityInfo" where
  "abi_security_info v =
     \<lparr>as_Path = si_Path v, as_Descriptor = si_Descriptor v, as_Owner = si_Owner v, as_Group = si_Group v,
      as_ReadOnly = si_ReadOnly v, as_Directory = si_Directory v, as_HandleBound = si_HandleBound v,
      as_DeleteOnClose = si_DeleteOnClose v, as_CleanupState = si_CleanupState v,
      as_FlushState = si_FlushState v, as_Source = si_Source v\<rparr>"

record DispatcherABIState =
  abs_BridgeReady :: bool
  abs_RootPath :: string
  abs_Requests :: u64
  abs_ActiveHandles :: u64
  abs_LastOperation :: string
  abs_LastNTStatus :: NTStatus
  abs_LastError :: string

definition DispatcherABIState_Summary :: "DispatcherABIState \<Rightarrow> string" where
  "DispatcherABIState_Summary s =
     ''bridge_ready='' @ format_bool (abs_BridgeReady s) @ '' root='' @
     defaultDispatcherValue (abs_RootPath s) ''-'' @ '' requests='' @ format_u64 (abs_Requests s) @
     '' active_handles='' @ format_u64 (abs_ActiveHandles s) @
     (if abs_LastOperation s \<noteq> [] then '' last_op='' @ abs_LastOperation s else []) @
     (if abs_LastError s \<noteq> [] then '' last_error='' @ abs_LastError s else []) @
     (if abs_LastNTStatus s \<noteq> 0 then '' ntstatus=0x'' @ format_hex (abs_LastNTStatus s) else [])"

record 'c DispatcherABI =
  abi_bridge :: "'c DispatcherBridge option"
  abi_state :: DispatcherABIState

type_synonym ('c, 'r) abi_op = "'c DispatcherABI \<Rightarrow> (('r \<times> NTStatus) \<times> 'c DispatcherABI) option"

definition NewDispatcherABI :: "'c DispatcherBridge option \<Rightarrow> 'c DispatcherABI" where
  "NewDispatcherABI bridge =
     \<lparr>abi_bridge = bridge,
      abi_state = \<lparr>abs_BridgeReady = False, abs_RootPath = [], abs_Requests = 0, abs_ActiveHandles = 0,
                   abs_LastOperation = [], abs_LastNTStatus = 0, abs_LastError = []\<rparr>\<rparr>"

definition abi_Snapshot :: "'c DispatcherABI \<Rightarrow> DispatcherABIState" where
  "abi_Snapshot a = abi_state a"

definition recordWithHandle ::
  "string \<Rightarrow> NTStatus \<Rightarrow> string \<Rightarrow> bool \<Rightarrow> bool \<Rightarrow> 'c DispatcherABI \<Rightarrow> 'c DispatcherABI" where
  "recordWithHandle oper status detail openHandle closeHandle a =
     (let st = abi_state a;
          active = abs_ActiveHandles st;
          active = (if openHandle \<and> status = StatusSuccess then active + 1 else active);
          active = (if closeHandle \<and> status = StatusSuccess \<and> 0 < active then active - 1 else active)
      in a\<lparr>abi_state := st\<lparr>abs_Requests := abs_Requests st + 1, abs_LastOperation := oper,
                           abs_LastNTStatus := status, abs_ActiveHandles := active,
                           abs_LastError := failure_text oper detail status\<rparr>\<rparr>)"

definition abi_record :: "string \<Rightarrow> NTStatus \<Rightarrow> string \<Rightarrow> 'c DispatcherABI \<Rightarrow> 'c DispatcherABI" where
  "abi_record oper status detail = recordWithHandle oper status detail False False"

text \<open>Every operation of the ABI: the bridge, then the record, then the conversion of the result.\<close>

definition abi_call ::
  "string \<Rightarrow> ('r \<Rightarrow> string) \<Rightarrow> bool \<Rightarrow> bool \<Rightarrow> ('c, 'r) bridge_op \<Rightarrow> ('r \<Rightarrow> 's) \<Rightarrow> ('c, 's) abi_op" where
  "abi_call oper detail opens closes f convert a =
     (case abi_bridge a of
        None \<Rightarrow> None
      | Some b \<Rightarrow>
          (case f b of
             ((r, status), b) \<Rightarrow>
               Some ((convert r, status),
                     recordWithHandle oper status (detail r) (opens \<and> status = StatusSuccess)
                       (closes \<and> status = StatusSuccess) (a\<lparr>abi_bridge := Some b\<rparr>))))"

definition abi_Initialize ::
  "'c native_env \<Rightarrow> string \<Rightarrow> 'c DispatcherABI \<Rightarrow> string option \<times> 'c DispatcherABI" where
  "abi_Initialize env rootPath a =
     (case abi_bridge a of
        None \<Rightarrow> (Some ''dispatcher ABI bridge is not initialized'', a)
      | Some b \<Rightarrow>
          (case bridge_Initialize env rootPath b of
             (Some err, b) \<Rightarrow>
               (Some err, abi_record ''Initialize'' StatusInternalError err (a\<lparr>abi_bridge := Some b\<rparr>))
           | (None, b) \<Rightarrow>
               (None, a\<lparr>abi_bridge := Some b,
                        abi_state := (abi_state a)\<lparr>abs_BridgeReady := True, abs_RootPath := rootPath,
                          abs_LastOperation := ''Initialize'', abs_LastNTStatus := StatusSuccess,
                          abs_LastError := []\<rparr>\<rparr>)))"

definition abi_GetVolumeInfo :: "('c, ABIVolumeInfo) abi_op" where
  "abi_GetVolumeInfo =
     abi_call ''GetVolumeInfo'' (\<lambda>_. []) False False
       (bridge_GetVolumeInfo) abi_volume_info"

definition abi_GetFileInfo :: "'c native_env \<Rightarrow> string \<Rightarrow> ('c, ABIFileInfo) abi_op" where
  "abi_GetFileInfo env path =
     abi_call ''GetFileInfo'' (\<lambda>_. path) False False
       (bridge_GetFileInfo env path) abi_file_info"

definition abi_Create :: "string \<Rightarrow> bool \<Rightarrow> ('c, unit) abi_op" where
  "abi_Create path isDirectory =
     abi_call ''Create'' (\<lambda>_. path) False False
       (bridge_Create path isDirectory) (\<lambda>_. ())"

definition abi_Open :: "'c native_env \<Rightarrow> string \<Rightarrow> ('c, u64 \<times> ABIFileInfo) abi_op" where
  "abi_Open env path =
     abi_call ''Open'' (\<lambda>_. path) True False
       (bridge_Open env path) (\<lambda>r. (or_HandleID r, abi_file_info (or_Info r)))"

definition abi_OpenDirectory :: "'c native_env \<Rightarrow> string \<Rightarrow> ('c, u64 \<times> ABIFileInfo) abi_op" where
  "abi_OpenDirectory env path =
     abi_call ''OpenDirectory'' (\<lambda>_. path) True False
       (bridge_OpenDirectory env path) (\<lambda>r. (or_HandleID r, abi_file_info (or_Info r)))"

definition abi_ReadDirectory :: "'c native_env \<Rightarrow> u64 \<Rightarrow> u64 \<Rightarrow> u32 \<Rightarrow> ('c, ABIDirectoryEntry list \<times> u64 \<times> bool) abi_op" where
  "abi_ReadDirectory env i cookie maxEntries =
     abi_call ''ReadDirectory'' (\<lambda>_. handle_detail i) False False
       (bridge_ReadDirectory env i cookie maxEntries) (\<lambda>page. (map abi_directory_entry (dp_Entries page), dp_NextCookie page, dp_EOF page))"

definition abi_Overwrite :: "u64 \<Rightarrow> u64 \<Rightarrow> u32 \<Rightarrow> bool \<Rightarrow> ('c, unit) abi_op" where
  "abi_Overwrite i allocationSize fileAttributes replaceFileAttributes =
     abi_call ''Overwrite'' (\<lambda>_. handle_detail i) False False
       (bridge_Overwrite i allocationSize fileAttributes replaceFileAttributes) (\<lambda>_. ())"

definition abi_Read :: "'c native_env \<Rightarrow> u64 \<Rightarrow> int \<Rightarrow> u32 \<Rightarrow> ('c, bytes \<times> bool) abi_op" where
  "abi_Read env i offset len =
     abi_call ''Read'' (\<lambda>(_, at_end). handle_detail i @ '' offset='' @ format_int offset @ '' length='' @ format_u32 len @
       '' eof='' @ format_bool at_end) False False
       (bridge_Read env i offset len) (\<lambda>r. r)"

definition abi_Write :: "u64 \<Rightarrow> int \<Rightarrow> bytes \<Rightarrow> bool \<Rightarrow> ('c, u32) abi_op" where
  "abi_Write i offset data constrainedIo =
     abi_call ''Write'' (\<lambda>_. handle_detail i @ '' offset='' @ format_int offset @ '' bytes='' @ decimal (length data)) False False
       (bridge_Write i offset data constrainedIo) (\<lambda>n. n)"

definition abi_Cleanup :: "u64 \<Rightarrow> ('c, unit) abi_op" where
  "abi_Cleanup i =
     abi_call ''Cleanup'' (\<lambda>_. handle_detail i) False False
       (bridge_Cleanup i) (\<lambda>_. ())"

definition abi_Flush :: "u64 \<Rightarrow> ('c, unit) abi_op" where
  "abi_Flush i =
     abi_call ''Flush'' (\<lambda>_. handle_detail i) False False
       (bridge_Flush i) (\<lambda>_. ())"

definition abi_GetFileInfoByHandle :: "u64 \<Rightarrow> ('c, ABIFileInfo) abi_op" where
  "abi_GetFileInfoByHandle i =
     abi_call ''GetFileInfoByHandle'' (\<lambda>_. handle_detail i) False False
       (bridge_GetFileInfoByHandle i) abi_file_info"

definition abi_SetBasicInfo :: "u64 \<Rightarrow> u32 \<Rightarrow> ('c, unit) abi_op" where
  "abi_SetBasicInfo i fileAttributes =
     abi_call ''SetBasicInfo'' (\<lambda>_. handle_detail i @ '' attrs='' @ format_u32 fileAttributes) False False
       (bridge_SetBasicInfo i fileAttributes) (\<lambda>_. ())"

definition abi_SetFileSize :: "u64 \<Rightarrow> int \<Rightarrow> bool \<Rightarrow> ('c, unit) abi_op" where
  "abi_SetFileSize i newSize setAllocationSize =
     abi_call ''SetFileSize'' (\<lambda>_. handle_detail i @ '' size='' @ format_int newSize @ '' alloc='' @ format_bool setAllocationSize) False False
       (bridge_SetFileSize i newSize setAllocationSize) (\<lambda>_. ())"

definition abi_GetSecurityByName :: "'c native_env \<Rightarrow> string \<Rightarrow> ('c, ABISecurityInfo) abi_op" where
  "abi_GetSecurityByName env path =
     abi_call ''GetSecurityByName'' (\<lambda>_. path) False False
       (bridge_GetSecurityByName env path) abi_security_info"

definition abi_GetSecurity :: "u64 \<Rightarrow> ('c, ABISecurityInfo) abi_op" where
  "abi_GetSecurity i =
     abi_call ''GetSecurity'' (\<lambda>_. handle_detail i) False False
       (bridge_GetSecurity i) abi_security_info"

definition abi_CanDelete :: "'c native_env \<Rightarrow> string \<Rightarrow> ('c, unit) abi_op" where
  "abi_CanDelete env path =
     abi_call ''CanDelete'' (\<lambda>_. path) False False
       (bridge_CanDelete env path) (\<lambda>_. ())"

definition abi_SetSecurity :: "u64 \<Rightarrow> string \<Rightarrow> ('c, unit) abi_op" where
  "abi_SetSecurity i securityDescriptor =
     abi_call ''SetSecurity'' (\<lambda>_. handle_detail i @ '' descriptor='' @ decimal (length securityDescriptor)) False False
       (bridge_SetSecurity i securityDescriptor) (\<lambda>_. ())"

definition abi_SetDeleteOnClose :: "u64 \<Rightarrow> bool \<Rightarrow> ('c, unit) abi_op" where
  "abi_SetDeleteOnClose i enabled =
     abi_call ''SetDeleteOnClose'' (\<lambda>_. handle_detail i @ '' enabled='' @ format_bool enabled) False False
       (bridge_SetDeleteOnClose i enabled) (\<lambda>_. ())"

definition abi_Rename :: "u64 \<Rightarrow> string \<Rightarrow> bool \<Rightarrow> ('c, unit) abi_op" where
  "abi_Rename i newPath replaceIfExists =
     abi_call ''Rename'' (\<lambda>_. handle_detail i @ '' path='' @ newPath @ '' replace='' @ format_bool replaceIfExists) False False
       (bridge_Rename i newPath replaceIfExists) (\<lambda>_. ())"

definition abi_Close :: "'c native_env \<Rightarrow> u64 \<Rightarrow> ('c, unit) abi_op" where
  "abi_Close env i =
     abi_call ''Close'' (\<lambda>_. handle_detail i) False True
       (bridge_Close env i) (\<lambda>_. ())"

section \<open>The service\<close>

record DispatcherServiceState =
  dss_Created :: bool
  dss_Running :: bool
  dss_MountPoint :: string
  dss_StartCount :: u64
  dss_StopCount :: u64
  dss_LastOperation :: string
  dss_LastNTStatus :: NTStatus
  dss_LastError :: string
  dss_CallbackBridge :: string

definition DispatcherServiceState_Summary :: "DispatcherServiceState \<Rightarrow> string" where
  "DispatcherServiceState_Summary s =
     ''created='' @ format_bool (dss_Created s) @ '' running='' @ format_bool (dss_Running s) @ '' mount='' @
     defaultDispatcherValue (dss_MountPoint s) ''-'' @ '' starts='' @ format_u64 (dss_StartCount s) @
     '' stops='' @ format_u64 (dss_StopCount s) @
     (if dss_CallbackBridge s \<noteq> [] then '' callback='' @ dss_CallbackBridge s else []) @
     (if dss_LastOperation s \<noteq> [] then '' last_op='' @ dss_LastOperation s else []) @
     (if dss_LastError s \<noteq> [] then '' last_error='' @ dss_LastError s else []) @
     (if dss_LastNTStatus s \<noteq> 0 then '' ntstatus=0x'' @ format_hex (dss_LastNTStatus s) else [])"

text \<open>The native bindings a service is made with are only stored; they are left out.\<close>

record 'c DispatcherService =
  ds_mountPoint :: string
  ds_abi :: "'c DispatcherABI option"
  ds_state :: DispatcherServiceState

definition NewDispatcherService :: "string \<Rightarrow> 'c DispatcherABI option \<Rightarrow> 'c DispatcherService" where
  "NewDispatcherService mountPoint abi =
     \<lparr>ds_mountPoint = mountPoint, ds_abi = abi,
      ds_state = \<lparr>dss_Created = False, dss_Running = False, dss_MountPoint = mountPoint, dss_StartCount = 0,
                  dss_StopCount = 0, dss_LastOperation = [], dss_LastNTStatus = 0, dss_LastError = [],
                  dss_CallbackBridge = []\<rparr>\<rparr>"

definition service_Snapshot :: "'c DispatcherService \<Rightarrow> DispatcherServiceState" where
  "service_Snapshot s = ds_state s"

definition service_record :: "string \<Rightarrow> NTStatus \<Rightarrow> string \<Rightarrow> 'c DispatcherService \<Rightarrow> 'c DispatcherService" where
  "service_record oper status detail s =
     (let st = (ds_state s)\<lparr>dss_LastOperation := oper, dss_LastNTStatus := status, dss_LastError := detail\<rparr>
      in s\<lparr>ds_state := (case ds_abi s of
             None \<Rightarrow> st
           | Some a \<Rightarrow> st\<lparr>dss_CallbackBridge := DispatcherABIState_Summary (abi_Snapshot a)\<rparr>)\<rparr>)"

text \<open>
  The checks of \<^verbatim>\<open>Start\<close>: on failure the operation, the status and the error that are recorded.
\<close>

definition start_checks ::
  "'c native_env \<Rightarrow> string \<Rightarrow> 'c DispatcherABI \<Rightarrow> ((string \<times> NTStatus \<times> string) option \<times> 'c DispatcherABI) option" where
  "start_checks env rootPath a = do {
     (err, a) \<leftarrow> Some (abi_Initialize env rootPath a);
     (case err of
        Some err \<Rightarrow> Some (Some (''start'', StatusInternalError, err), a)
      | None \<Rightarrow> do {
          ((_, status), a) \<leftarrow> abi_GetVolumeInfo a;
          if status \<noteq> StatusSuccess
          then Some (Some (''warmup-volume'', status,
                 the (StatusError status (Some ''dispatcher service volume warmup failed''))), a)
          else do {
            ((_, status), a) \<leftarrow> abi_GetFileInfo env rootPath a;
            if status \<noteq> StatusSuccess
            then Some (Some (''warmup-root'', status,
                   the (StatusError status (Some ''dispatcher service root getattr warmup failed''))), a)
            else do {
              ((_, status), a) \<leftarrow> abi_GetSecurityByName env rootPath a;
              if status \<noteq> StatusSuccess
              then Some (Some (''warmup-security'', status,
                     the (StatusError status (Some ''dispatcher service root security warmup failed''))), a)
              else Some (None, a)
            }
          }
        })
   }"

text \<open>The probes of \<^verbatim>\<open>Start\<close>, whose results are ignored.\<close>

type_synonym ('c, 'r) probe = "'c DispatcherABI \<Rightarrow> ('r \<times> 'c DispatcherABI) option"

definition probe_directory :: "'c native_env \<Rightarrow> string \<Rightarrow> ('c, unit) probe" where
  "probe_directory env rootPath a = do {
     (((i, _), status), a) \<leftarrow> abi_OpenDirectory env rootPath a;
     if status = StatusSuccess
     then do {
       (_, a) \<leftarrow> abi_ReadDirectory env i 0 32 a;
       (_, a) \<leftarrow> abi_Flush i a;
       (_, a) \<leftarrow> abi_Cleanup i a;
       (_, a) \<leftarrow> abi_Close env i a;
       Some ((), a)
     }
     else Some ((), a)
   }"

definition probe_file :: "'c native_env \<Rightarrow> ('c, unit) probe" where
  "probe_file env a = do {
     (((i, _), status), a) \<leftarrow> abi_Open env ''/README.md'' a;
     if status = StatusSuccess
     then do {
       (_, a) \<leftarrow> abi_Write i 0 [120] False a;
       (_, a) \<leftarrow> abi_SetBasicInfo i 0 a;
       (_, a) \<leftarrow> abi_SetFileSize i 0 False a;
       (_, a) \<leftarrow> abi_SetSecurity i ''O:BAG:BAD:(A;;GR;;;WD)'' a;
       (_, a) \<leftarrow> abi_Rename i ''/README-renamed.md'' False a;
       (_, a) \<leftarrow> abi_Overwrite i 0 0 False a;
       (_, a) \<leftarrow> abi_SetDeleteOnClose i True a;
       (_, a) \<leftarrow> abi_Cleanup i a;
       (_, a) \<leftarrow> abi_Close env i a;
       Some ((), a)
     }
     else Some ((), a)
   }"

definition service_Start ::
  "'c native_env \<Rightarrow> string \<Rightarrow> 'c DispatcherService \<Rightarrow> (string option \<times> 'c DispatcherService) option" where
  "service_Start env rootPath s =
     (case ds_abi s of
        None \<Rightarrow> Some (Some ''dispatcher service ABI bridge is not initialized'', s)
      | Some a \<Rightarrow> do {
          (failed, a) \<leftarrow> start_checks env rootPath a;
          (case failed of
             Some (oper, status, err) \<Rightarrow>
               Some (Some err, service_record oper status err (s\<lparr>ds_abi := Some a\<rparr>))
           | None \<Rightarrow> do {
               (_, a) \<leftarrow> probe_directory env rootPath a;
               (_, a) \<leftarrow> abi_CanDelete env rootPath a;
               (_, a) \<leftarrow> probe_file env a;
               (_, a) \<leftarrow> abi_Create ''/blocked-create.txt'' False a;
               Some (None, s\<lparr>ds_abi := Some a,
                 ds_state := (ds_state s)\<lparr>dss_Created := True, dss_Running := True,
                   dss_StartCount := dss_StartCount (ds_state s) + 1, dss_LastOperation := ''start'',
                   dss_LastNTStatus := StatusSuccess, dss_LastError := [],
                   dss_CallbackBridge := DispatcherABIState_Summary (abi_Snapshot a)\<rparr>\<rparr>)
             })
        })"

definition service_Stop :: "'c DispatcherService \<Rightarrow> 'c DispatcherService option" where
  "service_Stop s =
     (case ds_abi s of
        None \<Rightarrow> None
      | Some a \<Rightarrow> Some (s\<lparr>ds_state := (ds_state s)\<lparr>dss_Running := False,
                   dss_StopCount := dss_StopCount (ds_state s) + 1, dss_LastOperation := ''stop'',
                   dss_LastNTStatus := StatusSuccess,
                   dss_CallbackBridge := DispatcherABIState_Summary (abi_Snapshot a)\<rparr>\<rparr>))"

section \<open>The table of native callbacks\<close>

abbreviation (input) CallbackStateReady :: string where "CallbackStateReady \<equiv> ''ready''"
abbreviation (input) CallbackStateGap :: string where "CallbackStateGap \<equiv> ''gap''"
abbreviation (input) CallbackStateReadOnly :: string where "CallbackStateReadOnly \<equiv> ''read-only''"
abbreviation (input) CallbackStatePreflight :: string where "CallbackStatePreflight \<equiv> ''preflight-only''"

record NativeCallback =
  nc_Name :: string
  nc_State :: string
  nc_ExplorerHot :: bool
  nc_Detail :: string
  nc_Remediation :: string
  nc_RequiredFor :: "string list"

record NativeCallbackTable =
  nt_Backend :: string
  nt_Active :: bool
  nt_Finalized :: bool
  nt_Ready :: nat
  nt_Gaps :: nat
  nt_ReadOnly :: nat
  nt_Preflight :: nat
  nt_Callbacks :: "NativeCallback list"
  nt_ClosureDetail :: string

record BindingInfo =
  bi_RequestedBackend :: string
  bi_Backend :: string
  bi_EffectiveBackend :: string
  bi_Available :: bool
  bi_DLLPath :: string
  bi_LauncherPath :: string
  bi_MountPoint :: string
  bi_PreflightOK :: bool
  bi_PreflightError :: string
  bi_DispatcherReady :: bool
  bi_DispatcherStatus :: string
  bi_CallbackBridgeReady :: bool
  bi_CallbackBridgeStatus :: string
  bi_ServiceLoopReady :: bool
  bi_ServiceLoopStatus :: string
  bi_NativeCallbackSummary :: string
  bi_ExplorerRequestMatrix :: string
  bi_Note :: string

definition native_callback :: "string \<Rightarrow> string \<Rightarrow> bool \<Rightarrow> string \<Rightarrow> string list \<Rightarrow> NativeCallback" where
  "native_callback name st hot detail requiredFor =
     \<lparr>nc_Name = name, nc_State = st, nc_ExplorerHot = hot, nc_Detail = detail, nc_Remediation = [],
      nc_RequiredFor = requiredFor\<rparr>"

definition native_callbacks :: "string \<Rightarrow> NativeCallback list" where
  "native_callbacks readyState =
     [native_callback ''GetVolumeInfo'' readyState True
        ''Volume label and capability metadata are wired through mountcore.''
        [''explorer-mount-visible'', ''explorer-root-browse''],
      native_callback ''GetFileInfo'' readyState True
        ''Path metadata lookup is bridged through adapter -> mountcore.''
        [''explorer-root-browse'', ''explorer-file-preview'', ''explorer-properties''],
      native_callback ''Create'' CallbackStateReadOnly True
        ''Create is explicitly denied in read-only mode so Explorer receives a clean create denial instead of a gap.''
        [''explorer-create-denied''],
      native_callback ''Open'' readyState True
        ''File open is mapped to read-only handles.''
        [''explorer-file-preview'', ''explorer-readonly-copy'', ''explorer-delete-denied'', ''explorer-write-denied'', ''explorer-rename-denied''],
      native_callback ''OpenDirectory'' readyState True
        ''Directory open is bridged through mountcore.''
        [''explorer-root-browse''],
      native_callback ''ReadDirectory'' readyState True
        ''Directory enumeration is available for Explorer browse and refresh.''
        [''explorer-root-browse''],
      native_callback ''Read'' readyState True
        ''Read requests support preview/copy for small and medium files.''
        [''explorer-file-preview'', ''explorer-readonly-copy''],
      native_callback ''Write'' CallbackStateReadOnly True
        ''Write is explicitly denied on open handles in read-only mode.''
        [''explorer-write-denied''],
      native_callback ''Overwrite'' CallbackStateReadOnly False
        ''Overwrite/supersede is explicitly denied in read-only mode.''
        [''explorer-write-denied''],
      native_callback ''Cleanup'' readyState True
        ''Cleanup tracks handle-finalization state and preserves delete-on-close denial semantics until close.''
        [''explorer-unmount-cleanup'', ''explorer-file-preview'', ''explorer-delete-denied''],
      native_callback ''Close'' readyState True
        ''Handle close is propagated back to mountcore.''
        [''explorer-file-preview'', ''explorer-unmount-cleanup'', ''explorer-delete-denied''],
      native_callback ''Flush'' readyState False
        ''Flush is bridged as a read-only success path for Explorer/editor compatibility.''
        [''explorer-readonly-copy'', ''explorer-write-denied''],
      native_callback ''GetSecurityByName'' readyState True
        ''Security descriptor probing returns a stable read-only descriptor with owner/group/access details.''
        [''explorer-properties'', ''explorer-security-query''],
      native_callback ''GetSecurity'' readyState True
        ''Per-handle security query includes cleanup/flush state and delete-on-close intent.''
        [''explorer-properties'', ''explorer-security-query'', ''explorer-delete-denied''],
      native_callback ''SetSecurity'' CallbackStateReadOnly False
        ''Write-side security mutation is explicitly denied for the read-only client.''
        [''explorer-write-denied''],
      native_callback ''SetBasicInfo'' CallbackStateReadOnly False
        ''Timestamp/attribute mutation is explicitly denied for read-only mode.''
        [''explorer-write-denied''],
      native_callback ''SetFileSize'' CallbackStateReadOnly False
        ''Resize is explicitly denied for read-only mode.''
        [''explorer-write-denied''],
      native_callback ''CanDelete'' CallbackStateReadOnly True
        ''Delete checks are explicitly denied in read-only mode, which lets Explorer surface a clean no-delete result.''
        [''explorer-delete-denied''],
      native_callback ''SetDeleteOnClose'' CallbackStateReadOnly True
        ''Delete-on-close is tracked for diagnostics but denied for the read-only client.''
        [''explorer-delete-denied''],
      native_callback ''Rename'' CallbackStateReadOnly True
        ''Rename is explicitly denied in read-only mode.''
        [''explorer-rename-denied'']]"

definition DefaultNativeCallbackTable :: "BindingInfo \<Rightarrow> NativeCallbackTable" where
  "DefaultNativeCallbackTable binding =
     (let backend = (if TrimSpace (bi_EffectiveBackend binding) = [] then bi_Backend binding
                     else bi_EffectiveBackend binding);
          dispatcher = Contains (ToLower backend) ''dispatcher'';
          active = (dispatcher \<and> bi_DispatcherReady binding \<and> bi_CallbackBridgeReady binding \<and>
                    bi_ServiceLoopReady binding);
          callbacks = native_callbacks (if active then CallbackStateReady else CallbackStatePreflight);
          number = (\<lambda>st. length (filter (\<lambda>c. nc_State c = st) callbacks));
          finalized = (number CallbackStateGap = 0)
      in \<lparr>nt_Backend = backend, nt_Active = active, nt_Finalized = finalized,
          nt_Ready = number CallbackStateReady, nt_Gaps = number CallbackStateGap,
          nt_ReadOnly = number CallbackStateReadOnly, nt_Preflight = number CallbackStatePreflight,
          nt_Callbacks = callbacks,
          nt_ClosureDetail = (if finalized
            then ''all native callbacks in the current matrix are either dispatcher-ready or explicitly denied in read-only mode''
            else ''callback matrix still contains implementation gaps'')\<rparr>)"

definition NativeCallbackTable_Summary :: "NativeCallbackTable \<Rightarrow> string" where
  "NativeCallbackTable_Summary t =
     ''backend='' @ defaultDispatcherValue (nt_Backend t) ''-'' @ '' active='' @ format_bool (nt_Active t) @
     '' finalized='' @ format_bool (nt_Finalized t) @ '' ready='' @ decimal (nt_Ready t) @ '' gaps='' @
     decimal (nt_Gaps t) @ '' read_only='' @ decimal (nt_ReadOnly t) @ '' preflight_only='' @
     decimal (nt_Preflight t)"

definition MissingHotPathCount :: "NativeCallbackTable \<Rightarrow> nat" where
  "MissingHotPathCount t =
     length (filter (\<lambda>cb. nc_ExplorerHot cb \<and>
       (nc_State cb = CallbackStateGap \<or> nc_State cb = CallbackStatePreflight)) (nt_Callbacks t))"

section \<open>The host\<close>

definition normalizeRequestedBackend :: "string \<Rightarrow> string" where
  "normalizeRequestedBackend v =
     (let v = TrimSpace (ToLower v) in
      if v = [] \<or> v = ''auto'' then ''auto''
      else if v = ''preflight'' then ''preflight''
      else if v = ''dispatcher-v1'' then ''dispatcher-v1''
      else v)"

definition BindingInfo_Summary :: "BindingInfo \<Rightarrow> string" where
  "BindingInfo_Summary b =
     (let status = (if bi_Available b then ''available'' else ''unavailable'');
          status = (if bi_PreflightOK b then ''ready'' else status);
          status = (if bi_PreflightError b \<noteq> [] then ''error: '' @ bi_PreflightError b else status);
          backend = (if bi_EffectiveBackend b = [] then bi_Backend b else bi_EffectiveBackend b)
      in if backend = [] then status
         else backend @ '' ('' @
           Join ([status] @
             (if bi_DispatcherStatus b \<noteq> [] then [bi_DispatcherStatus b] else []) @
             (if bi_CallbackBridgeStatus b \<noteq> [] then [bi_CallbackBridgeStatus b] else []) @
             (if bi_ServiceLoopStatus b \<noteq> [] then [bi_ServiceLoopStatus b] else [])) ''; '' @ '')'')"

definition MountRuntimeSupportError :: "BindingInfo \<Rightarrow> string option" where
  "MountRuntimeSupportError b =
     (if bi_EffectiveBackend b = ''winfsp-native-preflight''
      then Some (''backend '' @ bi_EffectiveBackend b @
        '' validates WinFsp availability only and does not create an Explorer-visible mount point yet'')
      else None)"

record HostConfig =
  hc_MountPoint :: string
  hc_VolumePrefix :: string
  hc_Backend :: string
  hc_DebugLog :: bool

text \<open>
  A host has the callbacks, and for some backends also the bridge, the ABI and the service, one on
  top of the other.
\<close>

datatype 'c host_stack = BareCallbacks "'c Callbacks" | FullStack "'c DispatcherService"

record 'c Host =
  ho_config :: HostConfig
  ho_stack :: "'c host_stack"
  ho_binding :: BindingInfo

definition zero_BindingInfo :: BindingInfo where
  "zero_BindingInfo =
     \<lparr>bi_RequestedBackend = [], bi_Backend = [], bi_EffectiveBackend = [], bi_Available = False,
      bi_DLLPath = [], bi_LauncherPath = [], bi_MountPoint = [], bi_PreflightOK = False,
      bi_PreflightError = [], bi_DispatcherReady = False, bi_DispatcherStatus = [],
      bi_CallbackBridgeReady = False, bi_CallbackBridgeStatus = [], bi_ServiceLoopReady = False,
      bi_ServiceLoopStatus = [], bi_NativeCallbackSummary = [], bi_ExplorerRequestMatrix = [], bi_Note = []\<rparr>"

definition NewHost :: "HostConfig \<Rightarrow> 'c Adapter \<Rightarrow> 'c Host" where
  "NewHost config adapter =
     (let callbacks = NewCallbacks adapter;
          backend = normalizeRequestedBackend (hc_Backend config)
      in \<lparr>ho_config = config,
          ho_stack = (if backend = ''dispatcher-v1'' \<or> backend = ''auto''
                      then FullStack (NewDispatcherService (hc_MountPoint config)
                             (Some (NewDispatcherABI (Some (NewDispatcherBridge callbacks)))))
                      else BareCallbacks callbacks),
          ho_binding = zero_BindingInfo\<rparr>)"

definition Host_service :: "'c Host \<Rightarrow> 'c DispatcherService option" where
  "Host_service h = (case ho_stack h of BareCallbacks _ \<Rightarrow> None | FullStack s \<Rightarrow> Some s)"

definition Host_abi :: "'c Host \<Rightarrow> 'c DispatcherABI option" where
  "Host_abi h = Option.bind (Host_service h) ds_abi"

definition Host_dispatcher :: "'c Host \<Rightarrow> 'c DispatcherBridge option" where
  "Host_dispatcher h = Option.bind (Host_abi h) abi_bridge"

definition populateBindingDerived ::
  "BindingInfo \<Rightarrow> 'c DispatcherBridge option \<Rightarrow> 'c DispatcherABI option \<Rightarrow> 'c DispatcherService option \<Rightarrow>
    BindingInfo" where
  "populateBindingDerived binding dispatcher abi service =
     (let binding =
        (case dispatcher of
           Some d \<Rightarrow>
             if bi_EffectiveBackend binding = ''winfsp-dispatcher-v1''
             then
               let binding = (if bi_DispatcherStatus binding = []
                     then binding\<lparr>bi_DispatcherStatus := DispatcherBridgeState_Summary (bridge_Snapshot d)\<rparr>
                     else binding);
                   binding = (case abi of
                     Some a \<Rightarrow> if bi_CallbackBridgeStatus binding = []
                       then binding\<lparr>bi_CallbackBridgeStatus := DispatcherABIState_Summary (abi_Snapshot a)\<rparr>
                       else binding
                   | None \<Rightarrow> binding)
               in (case service of
                     Some s \<Rightarrow> if bi_ServiceLoopStatus binding = []
                       then binding\<lparr>bi_ServiceLoopStatus := DispatcherServiceState_Summary (service_Snapshot s)\<rparr>
                       else binding
                   | None \<Rightarrow> binding)
             else binding
         | None \<Rightarrow> binding)
      in binding\<lparr>bi_NativeCallbackSummary :=
           NativeCallbackTable_Summary (DefaultNativeCallbackTable binding)\<rparr>)"

definition Host_Binding :: "'c Host \<Rightarrow> BindingInfo" where
  "Host_Binding h = populateBindingDerived (ho_binding h) (Host_dispatcher h) (Host_abi h) (Host_service h)"

definition SetBinding :: "BindingInfo \<Rightarrow> 'c Host \<Rightarrow> 'c Host" where
  "SetBinding binding h =
     h\<lparr>ho_binding := populateBindingDerived binding (Host_dispatcher h) (Host_abi h) (Host_service h)\<rparr>"

text \<open>The binding on every system but Windows (\<^verbatim>\<open>binding_other.go\<close>, \<^verbatim>\<open>host_other.go\<close>).\<close>

definition probeBinding :: "HostConfig \<Rightarrow> BindingInfo" where
  "probeBinding config =
     populateBindingDerived
       (zero_BindingInfo\<lparr>bi_RequestedBackend := normalizeRequestedBackend (hc_Backend config),
          bi_Backend := ''winfsp-unavailable'', bi_EffectiveBackend := ''winfsp-unavailable'',
          bi_Available := False, bi_MountPoint := hc_MountPoint config, bi_PreflightOK := False,
          bi_PreflightError := ''WinFsp binding is available on Windows only'',
          bi_DispatcherStatus := ''dispatcher API is available on Windows only'',
          bi_Note := ''Build and run on Windows with WinFsp installed to exercise the real host binding.''\<rparr>)
       (None :: unit DispatcherBridge option) None None"

definition runHost :: "'c Host \<Rightarrow> string \<times> 'c Host" where
  "runHost h =
     (''winfsp host is only supported on Windows'',
      h\<lparr>ho_binding := populateBindingDerived (probeBinding (ho_config h)) (Host_dispatcher h) (Host_abi h)
                        (Host_service h)\<rparr>)"

end
