(* ===== verification/NativeRequests.thy ===== *)
theory NativeRequests
  imports Dispatcher
begin

text \<open>
  The requests of the native dispatcher as data, and the stack of layers that serves them: ABI, bridge,
  callbacks. The bridge and the ABI only forward and count, which reduces every statement about the
  stack to one about the callbacks.
\<close>

section \<open>Requests\<close>

datatype native_request =
    NativeGetVolumeInfo
  | NativeGetFileInfo string
  | NativeCreate string bool
  | NativeOpen string
  | NativeOpenDirectory string
  | NativeReadDirectory u64 u64 u32
  | NativeOverwrite u64 u64 u32 bool
  | NativeRead u64 int u32
  | NativeWrite u64 int bytes bool
  | NativeCleanup u64
  | NativeFlush u64
  | NativeGetFileInfoByHandle u64
  | NativeSetBasicInfo u64 u32
  | NativeSetFileSize u64 int bool
  | NativeGetSecurityByName string
  | NativeGetSecurity u64
  | NativeCanDelete string
  | NativeSetSecurity u64 string
  | NativeSetDeleteOnClose u64 bool
  | NativeRename u64 string bool
  | NativeClose u64

text \<open>The status of an operation, without its result.\<close>

definition status_only :: "('r \<times> NTStatus) \<times> 's \<Rightarrow> NTStatus \<times> 's" where
  "status_only x = (snd (fst x), snd x)"

fun callback_request :: "'c native_env \<Rightarrow> native_request \<Rightarrow> 'c Callbacks \<Rightarrow> NTStatus \<times> 'c Callbacks" where
  "callback_request env NativeGetVolumeInfo c = status_only (cb_GetVolumeInfo c)"
| "callback_request env (NativeGetFileInfo path) c = status_only (cb_GetFileInfo env path c)"
| "callback_request env (NativeCreate path isDirectory) c = status_only (cb_Create path isDirectory c)"
| "callback_request env (NativeOpen path) c = status_only (cb_Open env path c)"
| "callback_request env (NativeOpenDirectory path) c = status_only (cb_OpenDirectory env path c)"
| "callback_request env (NativeReadDirectory i cookie maxEntries) c = status_only (cb_ReadDirectory env i cookie maxEntries c)"
| "callback_request env (NativeOverwrite i allocationSize fileAttributes replaceFileAttributes) c = status_only (cb_Overwrite i allocationSize fileAttributes replaceFileAttributes c)"
| "callback_request env (NativeRead i offset len) c = status_only (cb_Read env i offset len c)"
| "callback_request env (NativeWrite i offset data constrainedIo) c = status_only (cb_Write i offset data constrainedIo c)"
| "callback_request env (NativeCleanup i) c = status_only (cb_Cleanup i c)"
| "callback_request env (NativeFlush i) c = status_only (cb_Flush i c)"
| "callback_request env (NativeGetFileInfoByHandle i) c = status_only (cb_GetFileInfoByHandle i c)"
| "callback_request env (NativeSetBasicInfo i fileAttributes) c = status_only (cb_SetBasicInfo i fileAttributes c)"
| "callback_request env (NativeSetFileSize i newSize setAllocationSize) c = status_only (cb_SetFileSize i newSize setAllocationSize c)"
| "callback_request env (NativeGetSecurityByName path) c = status_only (cb_GetSecurityByName env path c)"
| "callback_request env (NativeGetSecurity i) c = status_only (cb_GetSecurity i c)"
| "callback_request env (NativeCanDelete path) c = status_only (cb_CanDelete env path c)"
| "callback_request env (NativeSetSecurity i securityDescriptor) c = status_only (cb_SetSecurity i securityDescriptor c)"
| "callback_request env (NativeSetDeleteOnClose i enabled) c = status_only (cb_SetDeleteOnClose i enabled c)"
| "callback_request env (NativeRename i newPath replaceIfExists) c = status_only (cb_Rename i newPath replaceIfExists c)"
| "callback_request env (NativeClose i) c = status_only (cb_Close env i c)"

fun abi_request :: "'c native_env \<Rightarrow> native_request \<Rightarrow> 'c DispatcherABI \<Rightarrow> (NTStatus \<times> 'c DispatcherABI) option" where
  "abi_request env NativeGetVolumeInfo a = map_option status_only (abi_GetVolumeInfo a)"
| "abi_request env (NativeGetFileInfo path) a = map_option status_only (abi_GetFileInfo env path a)"
| "abi_request env (NativeCreate path isDirectory) a = map_option status_only (abi_Create path isDirectory a)"
| "abi_request env (NativeOpen path) a = map_option status_only (abi_Open env path a)"
| "abi_request env (NativeOpenDirectory path) a = map_option status_only (abi_OpenDirectory env path a)"
| "abi_request env (NativeReadDirectory i cookie maxEntries) a = map_option status_only (abi_ReadDirectory env i cookie maxEntries a)"
| "abi_request env (NativeOverwrite i allocationSize fileAttributes replaceFileAttributes) a = map_option status_only (abi_Overwrite i allocationSize fileAttributes replaceFileAttributes a)"
| "abi_request env (NativeRead i offset len) a = map_option status_only (abi_Read env i offset len a)"
| "abi_request env (NativeWrite i offset data constrainedIo) a = map_option status_only (abi_Write i offset data constrainedIo a)"
| "abi_request env (NativeCleanup i) a = map_option status_only (abi_Cleanup i a)"
| "abi_request env (NativeFlush i) a = map_option status_only (abi_Flush i a)"
| "abi_request env (NativeGetFileInfoByHandle i) a = map_option status_only (abi_GetFileInfoByHandle i a)"
| "abi_request env (NativeSetBasicInfo i fileAttributes) a = map_option status_only (abi_SetBasicInfo i fileAttributes a)"
| "abi_request env (NativeSetFileSize i newSize setAllocationSize) a = map_option status_only (abi_SetFileSize i newSize setAllocationSize a)"
| "abi_request env (NativeGetSecurityByName path) a = map_option status_only (abi_GetSecurityByName env path a)"
| "abi_request env (NativeGetSecurity i) a = map_option status_only (abi_GetSecurity i a)"
| "abi_request env (NativeCanDelete path) a = map_option status_only (abi_CanDelete env path a)"
| "abi_request env (NativeSetSecurity i securityDescriptor) a = map_option status_only (abi_SetSecurity i securityDescriptor a)"
| "abi_request env (NativeSetDeleteOnClose i enabled) a = map_option status_only (abi_SetDeleteOnClose i enabled a)"
| "abi_request env (NativeRename i newPath replaceIfExists) a = map_option status_only (abi_Rename i newPath replaceIfExists a)"
| "abi_request env (NativeClose i) a = map_option status_only (abi_Close env i a)"

fun request_name :: "native_request \<Rightarrow> string" where
  "request_name NativeGetVolumeInfo = ''GetVolumeInfo''"
| "request_name (NativeGetFileInfo _) = ''GetFileInfo''"
| "request_name (NativeCreate _ _) = ''Create''"
| "request_name (NativeOpen _) = ''Open''"
| "request_name (NativeOpenDirectory _) = ''OpenDirectory''"
| "request_name (NativeReadDirectory _ _ _) = ''ReadDirectory''"
| "request_name (NativeOverwrite _ _ _ _) = ''Overwrite''"
| "request_name (NativeRead _ _ _) = ''Read''"
| "request_name (NativeWrite _ _ _ _) = ''Write''"
| "request_name (NativeCleanup _) = ''Cleanup''"
| "request_name (NativeFlush _) = ''Flush''"
| "request_name (NativeGetFileInfoByHandle _) = ''GetFileInfoByHandle''"
| "request_name (NativeSetBasicInfo _ _) = ''SetBasicInfo''"
| "request_name (NativeSetFileSize _ _ _) = ''SetFileSize''"
| "request_name (NativeGetSecurityByName _) = ''GetSecurityByName''"
| "request_name (NativeGetSecurity _) = ''GetSecurity''"
| "request_name (NativeCanDelete _) = ''CanDelete''"
| "request_name (NativeSetSecurity _ _) = ''SetSecurity''"
| "request_name (NativeSetDeleteOnClose _ _) = ''SetDeleteOnClose''"
| "request_name (NativeRename _ _ _) = ''Rename''"
| "request_name (NativeClose _) = ''Close''"


definition opens_handle :: "native_request \<Rightarrow> bool" where
  "opens_handle rq = (case rq of NativeOpen _ \<Rightarrow> True | NativeOpenDirectory _ \<Rightarrow> True | _ \<Rightarrow> False)"

definition closes_handle :: "native_request \<Rightarrow> bool" where
  "closes_handle rq = (case rq of NativeClose _ \<Rightarrow> True | _ \<Rightarrow> False)"

text \<open>Sequences of requests, each with the environment it runs in.\<close>

fun callback_run ::
  "('c native_env \<times> native_request) list \<Rightarrow> 'c Callbacks \<Rightarrow> NTStatus list \<times> 'c Callbacks" where
  "callback_run [] c = ([], c)"
| "callback_run ((env, rq) # rqs) c =
     (let (status, c) = callback_request env rq c; (sts, c) = callback_run rqs c in (status # sts, c))"

fun abi_run ::
  "('c native_env \<times> native_request) list \<Rightarrow> 'c DispatcherABI \<Rightarrow> (NTStatus list \<times> 'c DispatcherABI) option" where
  "abi_run [] a = Some ([], a)"
| "abi_run ((env, rq) # rqs) a = do {
     (status, a) \<leftarrow> abi_request env rq a;
     (sts, a) \<leftarrow> abi_run rqs a;
     Some (status # sts, a)
   }"

section \<open>Forwarding\<close>

definition calls :: "'c DispatcherBridge \<Rightarrow> string \<Rightarrow> u64" where
  "calls b n = (case bs_CallCount (br_state b) n of None \<Rightarrow> 0 | Some k \<Rightarrow> k)"

definition next_active :: "native_request \<Rightarrow> NTStatus \<Rightarrow> u64 \<Rightarrow> u64" where
  "next_active rq status n =
     (if status \<noteq> StatusSuccess then n
      else if opens_handle rq then n + 1
      else if closes_handle rq \<and> 0 < n then n - 1
      else n)"

text \<open>What one request does to the two layers above the callbacks.\<close>

definition forwarded :: "native_request \<Rightarrow> 'c DispatcherABI \<Rightarrow> NTStatus \<Rightarrow> 'c Callbacks \<Rightarrow> 'c DispatcherABI \<Rightarrow> bool" where
  "forwarded rq a status c a' \<longleftrightarrow>
     (\<exists>b b'. abi_bridge a = Some b \<and> abi_bridge a' = Some b' \<and> br_callbacks b' = c \<and>
        (\<forall>n. calls b' n = calls b n + (if n = request_name rq then 1 else 0)) \<and>
        bs_LastNTStatus (br_state b') = status \<and> abs_LastNTStatus (abi_state a') = status \<and>
        abs_Requests (abi_state a') = abs_Requests (abi_state a) + 1 \<and>
        abs_ActiveHandles (abi_state a') = next_active rq status (abs_ActiveHandles (abi_state a)))"

lemma abi_call_forwards:
  assumes "abi_bridge a = Some b" and "status_only (g (br_callbacks b)) = (status, c)"
    and "name = request_name rq" and "opens = opens_handle rq" and "closes = closes_handle rq"
  shows "\<exists>a'. map_option status_only (abi_call oper det' opens closes (bridged name det g) conv a) = Some (status, a') \<and>
    forwarded rq a status c a'"
proof -
  obtain r where g: "g (br_callbacks b) = ((r, status), c)"
    using assms(2) by (cases "g (br_callbacks b)") (auto simp: status_only_def)
  have "\<not> (opens_handle rq \<and> closes_handle rq)"
    by (cases rq) (simp_all add: opens_handle_def closes_handle_def)
  then show ?thesis
    using assms(1,3,4,5) g
    by (auto simp: abi_call_def bridged_def status_only_def forwarded_def calls_def bridge_record_def
        recordWithHandle_def next_active_def Let_def split: option.split)
qed

lemmas abi_defs =
  abi_GetVolumeInfo_def abi_GetFileInfo_def abi_Create_def abi_Open_def abi_OpenDirectory_def
  abi_ReadDirectory_def abi_Overwrite_def abi_Read_def abi_Write_def abi_Cleanup_def abi_Flush_def
  abi_GetFileInfoByHandle_def abi_SetBasicInfo_def abi_SetFileSize_def abi_GetSecurityByName_def
  abi_GetSecurity_def abi_CanDelete_def abi_SetSecurity_def abi_SetDeleteOnClose_def
  abi_Rename_def abi_Close_def

lemmas bridge_defs =
  bridge_GetVolumeInfo_def bridge_GetFileInfo_def bridge_Create_def bridge_Open_def
  bridge_OpenDirectory_def bridge_ReadDirectory_def bridge_Overwrite_def bridge_Read_def
  bridge_Write_def bridge_Cleanup_def bridge_Flush_def bridge_GetFileInfoByHandle_def
  bridge_SetBasicInfo_def bridge_SetFileSize_def bridge_GetSecurityByName_def
  bridge_GetSecurity_def bridge_CanDelete_def bridge_SetSecurity_def bridge_SetDeleteOnClose_def
  bridge_Rename_def bridge_Close_def

lemmas cb_defs =
  cb_GetVolumeInfo_def cb_GetFileInfo_def cb_Create_def cb_Open_def cb_OpenDirectory_def
  cb_ReadDirectory_def cb_Overwrite_def cb_Read_def cb_Write_def cb_Cleanup_def cb_Flush_def
  cb_GetFileInfoByHandle_def cb_SetBasicInfo_def cb_SetFileSize_def cb_GetSecurityByName_def
  cb_GetSecurity_def cb_CanDelete_def cb_SetSecurity_def cb_SetDeleteOnClose_def cb_Rename_def
  cb_Close_def

lemma abi_request_forwards:
  assumes "abi_bridge a = Some b" and "callback_request env rq (br_callbacks b) = (status, c)"
  shows "\<exists>a'. abi_request env rq a = Some (status, a') \<and> forwarded rq a status c a'"
  using assms(2)
  by (cases rq; simp only: abi_request.simps callback_request.simps abi_defs bridge_defs)
    (rule abi_call_forwards [OF assms(1)]; (assumption | simp add: opens_handle_def closes_handle_def))+

text \<open>Which requests of a sequence bear a name.\<close>

definition named :: "string \<Rightarrow> ('e \<times> native_request) list \<Rightarrow> nat" where
  "named n rqs = length (filter (\<lambda>(_, rq). request_name rq = n) rqs)"

lemma abi_run_forwards:
  "abi_bridge a = Some b \<Longrightarrow> callback_run rqs (br_callbacks b) = (sts, c) \<Longrightarrow>
   \<exists>a' b'. abi_run rqs a = Some (sts, a') \<and> abi_bridge a' = Some b' \<and> br_callbacks b' = c \<and>
     (\<forall>n. calls b' n = calls b n + of_nat (named n rqs)) \<and>
     abs_Requests (abi_state a') = abs_Requests (abi_state a) + of_nat (length rqs)"
proof (induction rqs arbitrary: a b sts)
  case (Cons p rqs)
  obtain env rq where p: "p = (env, rq)" by (cases p)
  obtain status c1 where c1: "callback_request env rq (br_callbacks b) = (status, c1)" by fastforce
  obtain a1 where a1: "abi_request env rq a = Some (status, a1)" and f: "forwarded rq a status c1 a1"
    using abi_request_forwards [OF Cons.prems(1) c1] by blast
  obtain b1 where b1: "abi_bridge a1 = Some b1" "br_callbacks b1 = c1"
    "\<forall>n. calls b1 n = calls b n + (if n = request_name rq then 1 else 0)"
    "abs_Requests (abi_state a1) = abs_Requests (abi_state a) + 1"
    using f Cons.prems(1) by (auto simp: forwarded_def)
  obtain sts1 where sts: "sts = status # sts1" "callback_run rqs c1 = (sts1, c)"
    using Cons.prems(2) c1 p by (auto split: prod.splits)
  from Cons.IH [OF b1(1), of sts1] sts(2) b1(2) obtain a' b' where
    a': "abi_run rqs a1 = Some (sts1, a')" "abi_bridge a' = Some b'" "br_callbacks b' = c"
    "\<forall>n. calls b' n = calls b1 n + of_nat (named n rqs)"
    "abs_Requests (abi_state a') = abs_Requests (abi_state a1) + of_nat (length rqs)"
    by auto
  then show ?case using p a1 sts(1) b1(3,4) by (auto simp: named_def)
qed (auto simp: named_def)

text \<open>
  C27: The dispatcher stack refines the callbacks: a sequence of native requests served by the ABI gives
  exactly the statuses, and leaves exactly the mount and the handles, that calling the callbacks one
  after the other gives; the bridge and the ABI never panic on the way and only count, each request
  once and under its own name.
\<close>

theorem abi_refines_callbacks:
  assumes "abi_bridge a = Some b" and "callback_run rqs (br_callbacks b) = (sts, c)"
  shows "\<exists>a' b'. abi_run rqs a = Some (sts, a') \<and> abi_bridge a' = Some b' \<and> br_callbacks b' = c \<and>
     (\<forall>n. calls b' n = calls b n + of_nat (named n rqs)) \<and>
     abs_Requests (abi_state a') = abs_Requests (abi_state a) + of_nat (length rqs)"
  using assms by (rule abi_run_forwards)

definition one_file_env :: "unit native_env" where
  "one_file_env = \<lparr>ne_client = one_file_client, ne_errtext = client_error_text (\<lambda>_. [])\<rparr>"

definition one_file_abi :: "unit DispatcherABI" where
  "one_file_abi = NewDispatcherABI (Some (NewDispatcherBridge (NewCallbacks (New_mount () sample_options))))"

theorem abi_refines_callbacks_witness:
  "\<exists>a'. abi_run [(one_file_env, NativeOpen ''a''), (one_file_env, NativeWrite 1 0 [7] False),
         (one_file_env, NativeClose 9)] one_file_abi =
     Some ([StatusSuccess, StatusAccessDenied, StatusInvalidHandle], a')"
proof -
  let ?rqs = "[(one_file_env, NativeOpen ''a''), (one_file_env, NativeWrite 1 0 [7] False),
         (one_file_env, NativeClose 9)]"
  let ?b = "NewDispatcherBridge (NewCallbacks (New_mount () sample_options))"
  have "fst (callback_run ?rqs (br_callbacks ?b)) = [StatusSuccess, StatusAccessDenied, StatusInvalidHandle]"
    by code_simp
  then obtain c where "callback_run ?rqs (br_callbacks ?b) =
      ([StatusSuccess, StatusAccessDenied, StatusInvalidHandle], c)"
    by (metis prod.collapse)
  from abi_refines_callbacks [of one_file_abi ?b, OF _ this] show ?thesis
    by (auto simp: one_file_abi_def NewDispatcherABI_def)
qed

end
