(* ===== verification/NativeHandles.thy ===== *)
theory NativeHandles
  imports NativeRequests
begin

text \<open>
  The handles Windows holds: the mount's tables, the table of the callbacks and the counter of the
  ABI stay in step, whatever the server answers; and what a failed close leaves behind.
\<close>

section \<open>What the mount does to its handle tables\<close>

definition same_handles :: "'c Mount \<Rightarrow> 'c Mount \<Rightarrow> bool" where
  "same_handles m m' \<longleftrightarrow> m_fileHandles m' = m_fileHandles m \<and> m_directoryHandles m' = m_directoryHandles m \<and>
     m_nextLocalHandle m' = m_nextLocalHandle m"

lemma same_handles_refl [simp]: "same_handles m m"
  by (simp add: same_handles_def)

lemma same_handles_trans: "same_handles m m1 \<Longrightarrow> same_handles m1 m2 \<Longrightarrow> same_handles m m2"
  by (simp add: same_handles_def)

lemma same_handles_simps [simp]:
  "same_handles m (cachePath p e m') = same_handles m m'"
  "same_handles m (m'\<lparr>m_client := c\<rparr>) = same_handles m m'"
  by (simp_all add: same_handles_def cachePath_def)

lemma calling_handles: "calling f m = (r, m') \<Longrightarrow> same_handles m0 m' = same_handles m0 m"
  by (auto simp: calling_def split: prod.splits)

lemma resolve_parts_handles: "resolve_parts pc parts p e m = (r, m') \<Longrightarrow> same_handles m m'"
proof (induction pc parts p e m arbitrary: r m' rule: resolve_parts.induct)
  case (2 pc part parts p e m)
  show ?case
  proof (cases "m_pathCache m (JoinMountPath p part)")
    case (Some cached)
    then show ?thesis using 2 by (simp add: Let_def)
  next
    case None
    obtain x m1 where c: "calling (pc_Lookup pc (ni_NodeID e) part) m = (x, m1)" by fastforce
    then have s: "same_handles m m1" using calling_handles [OF c, of m] by simp
    show ?thesis
    proof (cases x)
      case (Inr resp)
      then have "same_handles (cachePath (JoinMountPath p part) (LookupResp_Entry resp) m1) m'"
        using 2(1) [OF refl None c [symmetric] Inr] c 2(3) None Inr by (simp add: Let_def)
      then show ?thesis using s by (auto simp: same_handles_def cachePath_def)
    qed (use 2(3) None c s in \<open>simp add: Let_def\<close>)
  qed
qed simp

lemma resolvePath_handles: "resolvePath pc p m = (r, m') \<Longrightarrow> same_handles m m'"
  by (auto simp: resolvePath_def split: option.splits prod.splits sum.splits dest: resolve_parts_handles)

lemma mount_GetAttr_handles: "mount_GetAttr pc p m = (r, m') \<Longrightarrow> same_handles m m'"
  by (auto simp: mount_GetAttr_def calling_handles split: prod.splits sum.splits dest!: resolvePath_handles)

lemma take_entries_handles: "take_entries h es m = (is, m') \<Longrightarrow> same_handles m m'"
proof (induction h es m arbitrary: "is" m' rule: take_entries.induct)
  case (2 h e es m)
  then show ?case by (auto simp: Let_def same_handles_def cachePath_def split: prod.splits)
qed simp

lemma mount_ReadDirectory_handles: "mount_ReadDirectory pc i k n m = (r, m') \<Longrightarrow> same_handles m m'"
  by (auto simp: mount_ReadDirectory_def Let_def calling_def same_handles_def
      split: option.splits prod.splits sum.splits dest!: take_entries_handles)

lemma mount_Read_handles: "mount_Read pc i k n m = (r, m') \<Longrightarrow> same_handles m m'"
  by (auto simp: mount_Read_def calling_handles split: option.splits prod.splits sum.splits)

text \<open>An open that succeeds enters its handle under the next identifier.\<close>

definition entered :: "u64 \<Rightarrow> 'c Mount \<Rightarrow> 'c Mount \<Rightarrow> bool" where
  "entered i m m' \<longleftrightarrow> i = m_nextLocalHandle m \<and> m_nextLocalHandle m' = m_nextLocalHandle m + 1 \<and>
     (dom (m_fileHandles m') = insert i (dom (m_fileHandles m)) \<and> m_directoryHandles m' = m_directoryHandles m \<or>
      dom (m_directoryHandles m') = insert i (dom (m_directoryHandles m)) \<and> m_fileHandles m' = m_fileHandles m)"

lemma Adapter_Open_handles:
  "Adapter_Open pc p m = (x, m') \<Longrightarrow>
    (case x of Inl _ \<Rightarrow> same_handles m m' | Inr r \<Rightarrow> entered (or_HandleID r) m m')"
  by (auto simp: Adapter_Open_def mount_Open_def calling_def allocLocalHandle_def same_handles_def entered_def Let_def
      split: prod.splits sum.splits if_splits dest!: mount_GetAttr_handles)

lemma Adapter_OpenDirectory_handles:
  "Adapter_OpenDirectory pc p m = (x, m') \<Longrightarrow>
    (case x of Inl _ \<Rightarrow> same_handles m m' | Inr r \<Rightarrow> entered (or_HandleID r) m m')"
  by (auto simp: Adapter_OpenDirectory_def mount_OpenDirectory_def calling_def allocLocalHandle_def same_handles_def
      entered_def Let_def split: prod.splits sum.splits if_splits dest!: mount_GetAttr_handles)

text \<open>A close of a handle that is in one of the tables removes it, also when the server reports an error.\<close>

definition removed :: "u64 \<Rightarrow> 'c Mount \<Rightarrow> 'c Mount \<Rightarrow> bool" where
  "removed i m m' \<longleftrightarrow> m_nextLocalHandle m' = m_nextLocalHandle m \<and>
     i \<in> dom (m_fileHandles m) \<union> dom (m_directoryHandles m) \<and>
     dom (m_fileHandles m') = dom (m_fileHandles m) - {i} \<and>
     dom (m_directoryHandles m') = dom (m_directoryHandles m) - {i}"

lemma mount_Close_handles:
  assumes "mount_Close pc i m = (x, m')" and "dom (m_fileHandles m) \<inter> dom (m_directoryHandles m) = {}"
  shows "if i \<in> dom (m_fileHandles m) \<union> dom (m_directoryHandles m) then removed i m m' else isl x \<and> same_handles m m'"
proof -
  have gone: "dom (g(i := None)) = dom g - {i}" for g :: "u64 \<rightharpoonup> 'z" by auto
  show ?thesis
  proof (cases "m_fileHandles m i")
    case (Some h)
    then have "i \<notin> dom (m_directoryHandles m)" using assms(2) by auto
    then show ?thesis
      using assms(1) Some gone [of "m_fileHandles m"]
      by (auto simp: mount_Close_def calling_def removed_def split: prod.splits if_splits)
  next
    case None
    then have "i \<notin> dom (m_fileHandles m)" by auto
    then show ?thesis
      using assms(1) None gone [of "m_directoryHandles m"]
      by (auto simp: mount_Close_def calling_def removed_def split: option.splits prod.splits if_splits)
  qed
qed

section \<open>The tables stay in step\<close>

definition mount_handles :: "'c Callbacks \<Rightarrow> u64 set" where
  "mount_handles c = dom (m_fileHandles (cb_adapter c)) \<union> dom (m_directoryHandles (cb_adapter c))"

definition in_step :: "'c Callbacks \<Rightarrow> u64 \<Rightarrow> bool" where
  "in_step c active \<longleftrightarrow>
     dom (m_fileHandles (cb_adapter c)) \<inter> dom (m_directoryHandles (cb_adapter c)) = {} \<and>
     mount_handles c \<subseteq> dom (cb_handles c) \<and> 0 < m_nextLocalHandle (cb_adapter c) \<and>
     dom (cb_handles c) \<subseteq> {1..<m_nextLocalHandle (cb_adapter c)} \<and> unat active = card (dom (cb_handles c))"

lemma in_step_finite: "in_step c n \<Longrightarrow> finite (dom (cb_handles c))"
  by (rule finite_subset [of _ UNIV]) simp_all

lemma in_step_same:
  "in_step c n \<Longrightarrow> same_handles (cb_adapter c) (cb_adapter c') \<Longrightarrow> dom (cb_handles c') = dom (cb_handles c) \<Longrightarrow> in_step c' n"
  by (simp add: in_step_def mount_handles_def same_handles_def)

lemma in_step_adapter: "in_step c n \<Longrightarrow> same_handles (cb_adapter c) a \<Longrightarrow> in_step (c\<lparr>cb_adapter := a\<rparr>) n"
  by (rule in_step_same) simp_all

lemma in_step_update: "in_step c n \<Longrightarrow> cb_handles c i = Some st \<Longrightarrow> in_step (cb_updateHandle i st' c) n"
  by (rule in_step_same) (auto simp: cb_updateHandle_def)

lemma in_step_card:
  assumes "in_step c n"
  shows "card (dom (cb_handles c)) < unat (m_nextLocalHandle (cb_adapter c))"
proof -
  let ?next = "m_nextLocalHandle (cb_adapter c)"
  have "unat ` dom (cb_handles c) \<subseteq> {1..<unat ?next}"
    using assms by (force simp: in_step_def word_less_nat_alt word_le_nat_alt)
  then have "card (unat ` dom (cb_handles c)) \<le> unat ?next - 1"
    by (metis card_atLeastLessThan card_mono finite_atLeastLessThan)
  moreover have "card (unat ` dom (cb_handles c)) = card (dom (cb_handles c))"
    by (rule card_image) (simp add: inj_on_def word_unat_eq_iff)
  moreover have "0 < unat ?next" using assms by (simp add: in_step_def word_less_nat_alt)
  ultimately show ?thesis by simp
qed

lemma in_step_track:
  assumes "in_step c n" and "entered i (cb_adapter c) a" and "m_nextLocalHandle (cb_adapter c) \<noteq> - 1"
  shows "in_step (cb_trackHandle i info (c\<lparr>cb_adapter := a\<rparr>)) (n + 1)"
proof -
  let ?next = "m_nextLocalHandle (cb_adapter c)"
  have i: "i = ?next" and next': "m_nextLocalHandle a = ?next + 1" using assms(2) by (simp_all add: entered_def)
  have fresh: "?next \<notin> dom (cb_handles c)" using assms(1) by (auto simp: in_step_def)
  have more: "?next < ?next + 1" using assms(3) by (rule word_less_inc)
  have "unat n < unat ?next" using in_step_card [OF assms(1)] assms(1) by (simp add: in_step_def)
  then have "n \<noteq> - 1" by (metis not_less word_le_nat_alt word_n1_ge)
  then have size: "unat (n + 1) = card (insert ?next (dom (cb_handles c)))"
    using assms(1) unat_inc [of n] fresh in_step_finite [OF assms(1)] by (simp add: in_step_def)
  have "1 \<le> ?next" using assms(1) by (simp add: in_step_def word_less_nat_alt word_le_nat_alt)
  then have range: "insert ?next (dom (cb_handles c)) \<subseteq> {1..<?next + 1}"
    using assms(1) more by (auto simp: in_step_def) (meson atLeastLessThan_iff in_mono domI order.strict_trans)+
  have "?next \<notin> mount_handles c" using fresh assms(1) by (auto simp: in_step_def)
  then have tables: "dom (m_fileHandles a) \<inter> dom (m_directoryHandles a) = {}"
    "dom (m_fileHandles a) \<union> dom (m_directoryHandles a) \<subseteq> insert ?next (dom (cb_handles c))"
    using assms(1,2) unfolding in_step_def entered_def mount_handles_def by (auto iff del: domIff)
  have "0 < ?next + 1" using more by (metis word_gt_0 word_not_simps(1))
  then show ?thesis
    using size range tables next' i by (simp add: in_step_def mount_handles_def cb_trackHandle_def)
qed

lemma in_step_untrack:
  assumes "in_step c n" and "removed i (cb_adapter c) a"
  shows "in_step (cb_untrackHandle i (c\<lparr>cb_adapter := a\<rparr>)) (n - 1) \<and> 0 < n"
proof -
  have i: "i \<in> dom (cb_handles c)" using assms(1,2) by (auto simp: in_step_def removed_def mount_handles_def)
  then have c: "0 < card (dom (cb_handles c))" using in_step_finite [OF assms(1)] by (auto simp: card_gt_0_iff)
  then have pos: "0 < n" using assms(1) by (simp add: in_step_def word_less_nat_alt)
  then have "unat (n - 1) = unat n - 1" by (simp add: unat_sub_if_size word_less_nat_alt)
  then have "unat (n - 1) = card (dom (cb_handles c) - {i})"
    using assms(1) i in_step_finite [OF assms(1)] by (simp add: in_step_def)
  moreover have gone: "dom ((cb_handles c)(i := None)) = dom (cb_handles c) - {i}" by auto
  moreover have "dom (m_fileHandles a) \<inter> dom (m_directoryHandles a) = {}"
    "dom (m_fileHandles a) \<union> dom (m_directoryHandles a) \<subseteq> dom (cb_handles c) - {i}"
    "m_nextLocalHandle a = m_nextLocalHandle (cb_adapter c)"
    using assms unfolding in_step_def removed_def mount_handles_def by (auto iff del: domIff)
  moreover have "dom (cb_handles c) - {i} \<subseteq> {1..<m_nextLocalHandle (cb_adapter c)}"
    "0 < m_nextLocalHandle (cb_adapter c)"
    using assms(1) unfolding in_step_def by (auto iff del: domIff)
  ultimately show ?thesis
    using pos by (simp add: in_step_def mount_handles_def cb_untrackHandle_def gone del: dom_fun_upd)
qed

section \<open>Every request keeps them in step\<close>

lemma status_of_text_fails: "status_of_text msg \<noteq> StatusSuccess"
  by (simp add: status_of_text_def)

lemma mapError_fails: "mapError errtext (Some err) \<noteq> StatusSuccess"
  using status_of_text_fails by (simp add: mapError_def split: mount_error.split)

definition next_handle :: "'c Callbacks \<Rightarrow> u64" where
  "next_handle c = m_nextLocalHandle (cb_adapter c)"

text \<open>One request: the tables stay in step, and the next identifier grows by at most one.\<close>

definition steps :: "native_request \<Rightarrow> 'c Callbacks \<Rightarrow> u64 \<Rightarrow> NTStatus \<times> 'c Callbacks \<Rightarrow> bool" where
  "steps rq c n = (\<lambda>(status, c').
     in_step c' (next_active rq status n) \<and> (next_handle c' = next_handle c \<or> next_handle c' = next_handle c + 1))"

lemma steps_quiet:
  assumes "in_step c n" and "\<not> opens_handle rq" and "\<not> closes_handle rq"
    and "same_handles (cb_adapter c) (cb_adapter c')" and "dom (cb_handles c') = dom (cb_handles c)"
  shows "steps rq c n (status, c')"
  using assms in_step_same [OF assms(1,4,5)]
  by (simp add: steps_def next_active_def next_handle_def same_handles_def)

lemma steps_on_adapter:
  assumes "in_step c n" and "\<not> opens_handle rq" and "\<not> closes_handle rq"
    and "\<And>x m'. f (cb_adapter c) = (x, m') \<Longrightarrow> same_handles (cb_adapter c) m'"
  shows "steps rq c n (status_only (on_adapter env f z (\<lambda>_ c. c) c))"
  using assms
  by (auto simp: on_adapter_def status_only_def split: prod.split sum.split intro!: steps_quiet)

lemma steps_opening:
  assumes "in_step c n" and "opens_handle rq" and "next_handle c \<noteq> - 1"
    and "\<And>x m'. f (cb_adapter c) = (x, m') \<Longrightarrow>
      (case x of Inl _ \<Rightarrow> same_handles (cb_adapter c) m' | Inr r \<Rightarrow> entered (or_HandleID r) (cb_adapter c) m')"
  shows "steps rq c n (status_only (on_adapter env f z (\<lambda>r. cb_trackHandle (or_HandleID r) (or_Info r)) c))"
proof (cases "f (cb_adapter c)")
  case (Pair x m')
  show ?thesis
  proof (cases x)
    case (Inl err)
    then have "same_handles (cb_adapter c) m'" using assms(4) Pair by fastforce
    then show ?thesis
      using Inl Pair mapError_fails [of "ne_errtext env" err] in_step_adapter [OF assms(1)]
      by (simp add: steps_def on_adapter_def status_only_def next_active_def next_handle_def same_handles_def)
  next
    case (Inr r)
    then have e: "entered (or_HandleID r) (cb_adapter c) m'" using assms(4) Pair by fastforce
    then show ?thesis
      using Inr Pair in_step_track [OF assms(1) e, of "or_Info r"] assms(2,3)
      by (simp add: steps_def on_adapter_def status_only_def next_active_def next_handle_def entered_def cb_trackHandle_def)
  qed
qed

lemma steps_closing:
  assumes "in_step c n"
  shows "steps (NativeClose i) c n (status_only (cb_Close env i c))"
proof (cases "mount_Close (ne_client env) i (cb_adapter c)")
  case (Pair x m')
  have h: "removed i (cb_adapter c) m' \<or> isl x \<and> same_handles (cb_adapter c) m'"
    using mount_Close_handles [OF Pair] assms by (auto simp: in_step_def split: if_splits)
  show ?thesis
  proof (cases x)
    case (Inl err)
    have "in_step (c\<lparr>cb_adapter := m'\<rparr>) n"
    proof (cases "same_handles (cb_adapter c) m'")
      case False
      then have "removed i (cb_adapter c) m'" using h by blast
      then show ?thesis using assms by (auto simp: in_step_def removed_def mount_handles_def iff del: domIff)
    qed (use in_step_adapter [OF assms] in blast)
    moreover have "m_nextLocalHandle m' = next_handle c"
      using h by (auto simp: removed_def same_handles_def next_handle_def)
    ultimately show ?thesis
      using Inl Pair mapError_fails [of "ne_errtext env" err]
      by (simp add: steps_def cb_Close_def on_adapter_def status_only_def next_active_def next_handle_def)
  next
    case (Inr r)
    then have r: "removed i (cb_adapter c) m'" using h by simp
    then show ?thesis
      using Inr Pair in_step_untrack [OF assms r]
      by (simp add: steps_def cb_Close_def on_adapter_def status_only_def next_active_def next_handle_def removed_def
          opens_handle_def closes_handle_def cb_untrackHandle_def)
  qed
qed

lemma on_adapter_same:
  assumes "\<And>x m'. f (cb_adapter c) = (x, m') \<Longrightarrow> same_handles (cb_adapter c) m'"
  shows "same_handles (cb_adapter c) (cb_adapter (snd (on_adapter env f z (\<lambda>_ c. c) c)))"
    and "cb_handles (snd (on_adapter env f z (\<lambda>_ c. c) c)) = cb_handles c"
  using assms by (auto simp: on_adapter_def split: prod.split sum.split)

lemma GetFileInfo_same:
  "same_handles (cb_adapter c) (cb_adapter (snd (cb_GetFileInfo env p c)))"
  "cb_handles (snd (cb_GetFileInfo env p c)) = cb_handles c"
  unfolding cb_GetFileInfo_def by (rule on_adapter_same, erule mount_GetAttr_handles)+

lemma ReadDirectory_same:
  "same_handles (cb_adapter c) (cb_adapter (snd (cb_ReadDirectory env i k n c)))"
  "cb_handles (snd (cb_ReadDirectory env i k n c)) = cb_handles c"
  unfolding cb_ReadDirectory_def by (rule on_adapter_same, erule mount_ReadDirectory_handles)+

lemma Read_same:
  "same_handles (cb_adapter c) (cb_adapter (snd (cb_Read env i k n c)))"
  "cb_handles (snd (cb_Read env i k n c)) = cb_handles c"
  by (auto simp: cb_Read_def split: prod.split sum.split dest: mount_Read_handles)

lemma refuse_on_same: "snd (refuse_on i st r c) = c"
  by (simp add: refuse_on_def split: option.split)

lemma update_dom: "cb_handles c i = Some st \<Longrightarrow> dom (cb_handles (cb_updateHandle i st' c)) = dom (cb_handles c)"
  "cb_adapter (cb_updateHandle i st' c) = cb_adapter c"
  by (auto simp: cb_updateHandle_def)

lemma callback_request_same:
  assumes "\<not> opens_handle rq" and "\<not> closes_handle rq"
  shows "same_handles (cb_adapter c) (cb_adapter (snd (callback_request env rq c))) \<and>
    dom (cb_handles (snd (callback_request env rq c))) = dom (cb_handles c)"
  using assms
  by (cases rq)
    (simp_all add: opens_handle_def closes_handle_def status_only_def GetFileInfo_same ReadDirectory_same Read_same
      cb_GetVolumeInfo_def cb_Create_def cb_Overwrite_def cb_Write_def cb_Cleanup_def cb_Flush_def
      cb_GetFileInfoByHandle_def cb_SetBasicInfo_def cb_SetFileSize_def cb_GetSecurityByName_def cb_GetSecurity_def
      cb_CanDelete_def cb_SetSecurity_def cb_SetDeleteOnClose_def cb_Rename_def cb_lookupHandle_def refuse_on_same
      case_prod_unfold update_dom split: option.split)

lemma callback_request_steps:
  assumes "in_step c n" and "next_handle c \<noteq> - 1"
  shows "steps rq c n (callback_request env rq c)"
proof (cases "opens_handle rq \<or> closes_handle rq")
  case True
  then consider p where "rq = NativeOpen p" | p where "rq = NativeOpenDirectory p" | i where "rq = NativeClose i"
    by (cases rq) (simp_all add: opens_handle_def closes_handle_def)
  then show ?thesis
  proof cases
    case 1
    then show ?thesis
      using steps_opening [OF assms(1) _ assms(2) Adapter_Open_handles] by (simp add: cb_Open_def opens_handle_def)
  next
    case 2
    then show ?thesis
      using steps_opening [OF assms(1) _ assms(2) Adapter_OpenDirectory_handles]
      by (simp add: cb_OpenDirectory_def opens_handle_def)
  next
    case 3
    then show ?thesis using steps_closing [OF assms(1)] by simp
  qed
next
  case False
  then show ?thesis
    using steps_quiet [OF assms(1), of rq "snd (callback_request env rq c)" "fst (callback_request env rq c)"]
      callback_request_same [of rq c env] by simp
qed

lemma abi_run_in_step:
  "abi_run rqs a = Some (sts, a') \<Longrightarrow> abi_bridge a = Some b \<Longrightarrow>
   in_step (br_callbacks b) (abs_ActiveHandles (abi_state a)) \<Longrightarrow>
   unat (next_handle (br_callbacks b)) + length rqs < 2 ^ 64 \<Longrightarrow>
   \<exists>b'. abi_bridge a' = Some b' \<and> in_step (br_callbacks b') (abs_ActiveHandles (abi_state a'))"
proof (induction rqs arbitrary: a b sts)
  case (Cons p rqs)
  obtain env rq where p: "p = (env, rq)" by (cases p)
  obtain status c1 where c1: "callback_request env rq (br_callbacks b) = (status, c1)" by fastforce
  obtain a1 where a1: "abi_request env rq a = Some (status, a1)" and f: "forwarded rq a status c1 a1"
    using abi_request_forwards [OF Cons.prems(2) c1] by blast
  obtain b1 where b1: "abi_bridge a1 = Some b1" "br_callbacks b1 = c1"
    "abs_ActiveHandles (abi_state a1) = next_active rq status (abs_ActiveHandles (abi_state a))"
    using f by (auto simp: forwarded_def)
  have small: "next_handle (br_callbacks b) \<noteq> - 1"
    using Cons.prems(4) by (auto simp: unsigned_minus_1_eq_mask mask_eq_exp_minus_1)
  have st: "steps rq (br_callbacks b) (abs_ActiveHandles (abi_state a)) (status, c1)"
    using callback_request_steps [OF Cons.prems(3) small, of rq env] c1 by simp
  then have "unat (next_handle c1) \<le> Suc (unat (next_handle (br_callbacks b)))"
    using unat_inc [OF small] by (auto simp: steps_def)
  then have "unat (next_handle (br_callbacks b1)) + length rqs < 2 ^ 64" using Cons.prems(4) b1(2) by simp
  moreover have "in_step (br_callbacks b1) (abs_ActiveHandles (abi_state a1))" using st b1(2,3) by (simp add: steps_def)
  moreover obtain sts1 where "abi_run rqs a1 = Some (sts1, a')"
    using Cons.prems(1) p a1 by (auto split: bind_splits)
  ultimately show ?case using Cons.IH b1(1) by blast
qed auto

text \<open>
  C28: The counter of open handles is exact: on a fresh mount, after any sequence of native requests (fewer
  than 2 to the 64 less one) and whatever the server answered, the counter the ABI reports is the number of
  handles the callbacks track, all of them different, and every handle that is open in the mount is among
  them. In particular a closed identifier is never handed out again.
\<close>

theorem active_handles_exact:
  assumes "abi_run rqs (NewDispatcherABI (Some (NewDispatcherBridge (NewCallbacks (New_mount c opts))))) = Some (sts, a)"
    and "Suc (length rqs) < 2 ^ 64"
  shows "\<exists>b. abi_bridge a = Some b \<and>
    unat (abs_ActiveHandles (abi_state a)) = card (dom (cb_handles (br_callbacks b))) \<and>
    mount_handles (br_callbacks b) \<subseteq> dom (cb_handles (br_callbacks b)) \<and>
    dom (cb_handles (br_callbacks b)) \<subseteq> {1..<next_handle (br_callbacks b)}"
proof -
  let ?b = "NewDispatcherBridge (NewCallbacks (New_mount c opts))"
  have "in_step (br_callbacks ?b) (abs_ActiveHandles (abi_state (NewDispatcherABI (Some ?b))))"
    and "next_handle (br_callbacks ?b) = 1"
    by (simp_all add: in_step_def mount_handles_def NewDispatcherABI_def NewDispatcherBridge_def NewCallbacks_def
        New_mount_def Let_def next_handle_def)
  from abi_run_in_step [OF assms(1) _ this(1)] this(2) assms(2)
  show ?thesis by (auto simp: NewDispatcherABI_def in_step_def next_handle_def)
qed

theorem active_handles_exact_witness:
  "\<exists>sts a b. abi_run [(one_file_env, NativeOpen ''a''), (one_file_env, NativeOpen ''a''), (one_file_env, NativeClose 1)]
       one_file_abi = Some (sts, a) \<and> abi_bridge a = Some b \<and>
     unat (abs_ActiveHandles (abi_state a)) = card (dom (cb_handles (br_callbacks b)))"
proof -
  let ?rqs = "[(one_file_env, NativeOpen ''a''), (one_file_env, NativeOpen ''a''), (one_file_env, NativeClose 1)]"
  obtain sts a where run: "abi_run ?rqs one_file_abi = Some (sts, a)"
    using abi_run_forwards [of one_file_abi "NewDispatcherBridge (NewCallbacks (New_mount () sample_options))"]
    by (metis one_file_abi_def NewDispatcherABI_def DispatcherABI.select_convs(1) prod.collapse)
  from active_handles_exact [OF this [unfolded one_file_abi_def]] show ?thesis
    using run by auto
qed

section \<open>A close the server refuses\<close>

text \<open>
  When the server answers a close with an error, the mount has dropped the handle but the callbacks go on
  tracking it, and no later close can remove it: it is refused as invalid, and the counter stays too high.
\<close>

theorem failed_close_leaks:
  assumes "in_step c n" and "i \<in> mount_handles c"
    and "callback_request env (NativeClose i) c = (status, c')" and "status \<noteq> StatusSuccess"
  shows "i \<in> dom (cb_handles c') \<and> i \<notin> mount_handles c' \<and>
    callback_request env' (NativeClose i) c' = (StatusInvalidHandle, c')"
proof (cases "mount_Close (ne_client env) i (cb_adapter c)")
  case (Pair x m')
  then obtain err where x: "x = Inl err"
    using assms(3,4) by (cases x) (auto simp: cb_Close_def on_adapter_def status_only_def)
  have c': "c' = c\<lparr>cb_adapter := m'\<rparr>"
    using assms(3) Pair x by (simp add: cb_Close_def on_adapter_def status_only_def)
  have h: "removed i (cb_adapter c) m'"
    using mount_Close_handles [OF Pair] assms(1,2) by (auto simp: in_step_def mount_handles_def)
  then have gone: "m_fileHandles m' i = None" "m_directoryHandles m' i = None"
    by (auto simp: removed_def domIff [symmetric] simp del: domIff)
  moreover have "i \<in> dom (cb_handles c)" using assms(1,2) by (auto simp: in_step_def)
  ultimately show ?thesis
    using c' by (auto simp: mount_handles_def cb_Close_def on_adapter_def status_only_def mount_Close_def mapError_def)
qed

end
