(* ===== verification/ReadOnly.thy ===== *)
theory ReadOnly
  imports NativeHandles
begin

text \<open>
  What Windows can do to the server's files through the mount: nothing. The eight calls a mount makes
  leave the file system of the host as it is, through the client, the connection, the dispatcher and
  the backend; the callbacks, the bridge, the ABI and the service make no other calls.
\<close>

section \<open>Requests the server answers without touching a file\<close>

text \<open>The files are \<open>f\<close>, and no open handle is marked to delete its file when it is closed.\<close>

definition quiet :: "fs \<Rightarrow> metadataBackend \<Rightarrow> bool" where
  "quiet f b \<longleftrightarrow> b_fs b = f \<and> (\<forall>i h. b_handles b i = Some h \<longrightarrow> \<not> fh_deleteOnClose h)"

lemma quiet_env: "same_env b b' \<Longrightarrow> quiet f b' = quiet f b"
  by (simp add: quiet_def same_env_def)

lemma quiet_envD:
  "Lookup i n b = (x, b') \<Longrightarrow> quiet f b' = quiet f b"
  "GetAttr i b = (y, b') \<Longrightarrow> quiet f b' = quiet f b"
  "snapshotDir i b = (z, b') \<Longrightarrow> quiet f b' = quiet f b"
  "loadSmallFileCache p b = (u, b') \<Longrightarrow> quiet f b' = quiet f b"
  by (rule quiet_env, erule env_LookupD env_GetAttrD env_snapshotDirD env_loadSmallFileCacheD, simp)+

lemma quiet_simps [simp]:
  "quiet f (b\<lparr>b_cursors := cs\<rparr>) = quiet f b" "quiet f (b_stats_update g b) = quiet f b"
  "quiet f (b\<lparr>b_now := t\<rparr>) = quiet f b" "quiet f (snd (add_cursor c b)) = quiet f b"
  by (simp_all add: quiet_def add_cursor_def Let_def case_prod_unfold)

lemma quiet_drop_handle: "quiet f b \<Longrightarrow> quiet f (b\<lparr>b_handles := (b_handles b)(i := None)\<rparr>)"
  by (simp add: quiet_def)

lemma quiet_Lookup: "quiet f b \<Longrightarrow> quiet f (snd (Lookup i n b))"
  by (metis prod.collapse quiet_envD(1))

lemma quiet_GetAttr: "quiet f b \<Longrightarrow> quiet f (snd (GetAttr i b))"
  by (metis prod.collapse quiet_envD(2))

lemma quiet_add_cursorD: "add_cursor c b = (i, b') \<Longrightarrow> quiet f b' = quiet f b"
  using quiet_simps(4) [of f c b] by simp

lemma quiet_OpenDir: "quiet f b \<Longrightarrow> quiet f (snd (OpenDir i b))"
  by (auto simp: OpenDir_def Let_def split: prod.split sum.split dest!: quiet_envD(3) [of _ _ _ _ f] quiet_add_cursorD [of _ _ _ _ f])

lemma quiet_CloseDir: "quiet f b \<Longrightarrow> quiet f (snd (CloseDir i b))"
  by (simp add: CloseDir_def split: option.split)

lemma open_for_reading: "os_OpenFile False False False False p g = (r, g') \<Longrightarrow> g' = g"
  by (auto simp: os_OpenFile_def split: sum.splits if_splits prod.splits)

lemma quiet_OpenFile:
  assumes "quiet f b"
  shows "quiet f (snd (OpenFile i False False b))"
  using assms
  by (auto simp: OpenFile_def add_handle_def quiet_def Let_def split: sum.split prod.split dest!: open_for_reading)

lemma quiet_ReadFile: "quiet f b \<Longrightarrow> quiet f (snd (ReadFile i off n b))"
  by (auto simp: ReadFile_def split: sum.split prod.split option.split bool.split dest!: quiet_envD(4) [of _ _ _ _ f])

lemma quiet_CloseHandle: "quiet f b \<Longrightarrow> quiet f (snd (CloseHandle i b))"
proof (cases "b_handles b i")
  case (Some h)
  assume q: "quiet f b"
  let ?b = "b\<lparr>b_handles := (b_handles b)(i := None)\<rparr>"
  have "quiet f ?b" using q by (rule quiet_drop_handle)
  moreover have "same_env ?b (refreshNodeInfoAndPatchParent (fh_relPath h) (fh_parentID h) (invalidateEntry (fh_relPath h) ?b))"
    by (simp add: env_refreshNodeInfoAndPatchParent)
  moreover have "\<not> fh_deleteOnClose h" using q Some by (simp add: quiet_def)
  ultimately show ?thesis using Some quiet_env by (auto simp: CloseHandle_def Let_def split: option.split)
qed (simp add: CloseHandle_def)

lemmas quiet_operations = quiet_Lookup quiet_GetAttr quiet_OpenDir quiet_CloseDir quiet_OpenFile
  quiet_ReadFile quiet_CloseHandle

text \<open>The handlers around these operations.\<close>

definition quietly :: "fs \<Rightarrow> (Server \<Rightarrow> reply \<times> Server) \<Rightarrow> bool" where
  "quietly f k \<longleftrightarrow> (\<forall>s. quiet f (srv_Backend s) \<longrightarrow> quiet f (srv_Backend (snd (k s))))"

lemma quietly_on_backend:
  assumes "\<And>b. quiet f b \<Longrightarrow> quiet f (snd (oper b))" and "\<And>x. quietly f (k x)"
  shows "quietly f (on_backend h oper k)"
  unfolding quietly_def
proof (intro allI impI)
  fix s :: Server assume q: "quiet f (srv_Backend s)"
  obtain r b where r: "oper (srv_Backend s) = (r, b)" by fastforce
  then have "quiet f b" using assms(1) [OF q] by simp
  then show "quiet f (srv_Backend (snd (on_backend h oper k s)))"
    using r assms(2) by (cases r) (auto simp: on_backend_def quietly_def)
qed

lemma quietly_reading: "(\<And>x. quietly f (k x)) \<Longrightarrow> quietly f (on_backend h (reading oper) k)"
  by (rule quietly_on_backend) (simp_all add: reading_def)

lemma quietly_with_payload: "(\<And>r. req = Some r \<Longrightarrow> quietly f (k r)) \<Longrightarrow> quietly f (with_payload h what req k)"
  by (auto simp: with_payload_def quietly_def split: option.split)

lemma quietly_respond: "quietly f (respond h opc p)"
  by (simp add: quietly_def respond_def)

lemma quietly_case_prod: "(\<And>a b. quietly f (k a b)) \<Longrightarrow> quietly f (case x of (a, b) \<Rightarrow> k a b)"
  by (cases x) simp

lemma quietly_handle_close: "quietly f (handle_close now h req)"
  unfolding quietly_def handle_close_def Let_def
proof (intro allI impI)
  fix s :: Server assume q: "quiet f (srv_Backend s)"
  let ?k = "\<lambda>_ t. respond h OpcodeCloseResp (ReplyCloseResp \<lparr>CloseResp_Closed = True\<rparr>)
    (case handle_snapshot (CloseReq_HandleID req) (srv_Backend s) of
       Inl xa \<Rightarrow> t | Inr sn \<Rightarrow> if hs_DeleteOnClose sn then journal_append now (handle_event EventDelete sn) t else t)"
  have "quietly f (on_backend h (CloseHandle (CloseReq_HandleID req)) ?k)"
    by (intro quietly_on_backend quiet_CloseHandle)
      (auto simp: quietly_def respond_def journal_append_def split: sum.split)
  then show "quiet f (srv_Backend (snd (on_backend h (CloseHandle (CloseReq_HandleID req)) ?k s)))"
    using q by (simp add: quietly_def)
qed

lemmas quietly_intros = quietly_with_payload quietly_on_backend quietly_reading quietly_respond
  quietly_case_prod quietly_handle_close quiet_operations

definition mount_opcodes :: "(Channel \<times> Opcode) set" where
  "mount_opcodes =
     {(ChannelMetadata, OpcodeLookupReq), (ChannelMetadata, OpcodeGetAttrReq),
      (ChannelMetadata, OpcodeOpenDirReq), (ChannelMetadata, OpcodeReadDirReq),
      (ChannelMetadata, OpcodeCloseDirReq), (ChannelData, OpcodeOpenReq), (ChannelData, OpcodeReadReq),
      (ChannelData, OpcodeCloseReq)}"

definition read_only_open :: "decoders \<Rightarrow> Header \<Rightarrow> bytes \<Rightarrow> bool" where
  "read_only_open dec h p \<longleftrightarrow>
     (h_Opcode h = OpcodeOpenReq \<longrightarrow>
       (\<forall>q. dec_OpenReq dec p = Some q \<longrightarrow> \<not> OpenReq_Writable q \<and> \<not> OpenReq_Truncate q))"

lemma quietly_dispatchMetadata:
  "(ChannelMetadata, h_Opcode h) \<in> mount_opcodes \<Longrightarrow> quietly f (dispatchMetadata dec now h p)"
  unfolding dispatchMetadata_def Let_def
  by (auto simp: mount_opcodes_def intro!: quietly_with_payload quietly_reading quietly_respond
      intro!: quietly_on_backend quiet_operations)


lemma quietly_dispatchData:
  assumes "(ChannelData, h_Opcode h) \<in> mount_opcodes" and "read_only_open dec h p"
  shows "quietly f (dispatchData dec now h p)"
proof (cases "h_Opcode h = OpcodeOpenReq")
  case True
  have "quietly f (with_payload h what (DecodePayload (dec_OpenReq dec) p) (\<lambda>req.
      on_backend h (OpenFile (OpenReq_NodeID req) (OpenReq_Writable req) (OpenReq_Truncate req)) (\<lambda>(i, sz).
        respond h OpcodeOpenResp (ReplyOpenResp \<lparr>OpenResp_HandleID = i, OpenResp_Size = sz\<rparr>))))" for what
  proof (rule quietly_with_payload)
    fix req assume "DecodePayload (dec_OpenReq dec) p = Some req"
    then have "\<not> OpenReq_Writable req" "\<not> OpenReq_Truncate req"
      using assms(2) True by (auto simp: read_only_open_def DecodePayload_def)
    then show "quietly f (on_backend h (OpenFile (OpenReq_NodeID req) (OpenReq_Writable req) (OpenReq_Truncate req))
        (\<lambda>(i, sz). respond h OpcodeOpenResp (ReplyOpenResp \<lparr>OpenResp_HandleID = i, OpenResp_Size = sz\<rparr>)))"
      by (intro quietly_on_backend) (auto intro: quiet_OpenFile quietly_respond)
  qed
  then show ?thesis using True by (simp add: dispatchData_def)
next
  case False
  then show ?thesis
    using assms(1) unfolding dispatchData_def Let_def
    by (auto simp: mount_opcodes_def intro!: quietly_with_payload quietly_respond quietly_handle_close
        intro!: quietly_on_backend quiet_ReadFile)
qed

lemma quiet_dispatch:
  assumes "(h_Channel h, h_Opcode h) \<in> mount_opcodes" and "read_only_open dec h p"
    and "quiet f (srv_Backend s)" and "dispatch dec now el h p st s = (r, st', s')"
  shows "quiet f (srv_Backend s')"
proof -
  have in_sess: "quietly f k \<Longrightarrow> quietly f (in_session now h k)" for k
    by (auto simp: quietly_def in_session_def split: option.split)
  show ?thesis
  proof (cases "h_Channel h = ChannelMetadata")
    case True
    then have "quietly f (in_session now h (dispatchMetadata dec now h p))"
      using assms(1) by (intro in_sess quietly_dispatchMetadata) simp
    then show ?thesis using assms(3,4) True by (auto simp: dispatch_def quietly_def split: prod.splits)
  next
    case False
    then have d: "h_Channel h = ChannelData" using assms(1) by (auto simp: mount_opcodes_def)
    then have "quietly f (in_session now h (dispatchData dec now h p))"
      using assms(1,2) by (intro in_sess quietly_dispatchData) simp_all
    then show ?thesis using assms(3,4) d by (auto simp: dispatch_def quietly_def split: prod.splits)
  qed
qed

section \<open>The calls of the mount over the connection\<close>

text \<open>What the server decodes of a frame the client encoded: the header as sent, and a part of the payload.\<close>

lemma decode_own_frame:
  assumes "EncodeFrame marshal h q = Some frame" and "DecodeFrame frame = Inr ((h', p), rest)"
  shows "\<exists>pb n. marshal q = Some pb \<and> h' = seal_header h n \<and> p @ rest = pb"
proof -
  obtain pb where pb: "marshal q = Some pb"
    and fr: "frame = PutUint32 (of_nat (HeaderLength + length pb)) @ writeHeader (seal_header h (length pb)) @ pb"
    using assms(1) by (auto simp: EncodeFrame_def Let_def split: option.splits)
  let ?hb = "writeHeader (seal_header h (length pb))"
  have len: "length ?hb = HeaderLength" by (simp add: length_writeHeader seal_header_def)
  have four: "ReadFull 4 frame = Inr (PutUint32 (of_nat (HeaderLength + length pb)), ?hb @ pb)"
    by (simp add: ReadFull_def fr)
  obtain body where body: "ReadFull (unat (of_nat (HeaderLength + length pb) :: u32)) (?hb @ pb) = Inr (body, rest)"
    and big: "\<not> of_nat (HeaderLength + length pb) < (of_nat HeaderLength :: u32)"
    and hp: "h' = readHeader (take HeaderLength body)" "p = drop HeaderLength body"
    using assms(2) unfolding DecodeFrame_def four
    by (auto simp: Let_def split: if_splits sum.splits)
  have "HeaderLength \<le> unat (of_nat (HeaderLength + length pb) :: u32)"
    using big by (simp add: word_less_nat_alt)
  then have "body = ?hb @ take (unat (of_nat (HeaderLength + length pb) :: u32) - HeaderLength) pb"
    and "rest = drop (unat (of_nat (HeaderLength + length pb) :: u32) - HeaderLength) pb"
    using body len by (auto simp: ReadFull_def split: if_splits)
  then have "h' = readHeader ?hb" "p @ rest = pb" using hp len by simp_all
  moreover have "readHeader ?hb = seal_header h (length pb)"
    by (rule readHeader_writeHeader) (simp add: seal_header_def)
  ultimately show ?thesis using pb by blast
qed

text \<open>A message that opens for reading only and survives its encoding.\<close>

definition opens_for_reading :: "decoders \<Rightarrow> (Request \<Rightarrow> bytes option) \<Rightarrow> Request \<Rightarrow> bool" where
  "opens_for_reading dec rmarshal q \<longleftrightarrow>
     (\<exists>m. carried (dec_OpenReq dec) (rmarshal q) m \<and> \<not> OpenReq_Writable m \<and> \<not> OpenReq_Truncate m)"

lemma quiet_server_peer:
  assumes "(ch, opc) \<in> mount_opcodes" and "opc = OpcodeOpenReq \<Longrightarrow> opens_for_reading dec rmarshal q"
    and "EncodeFrame rmarshal (request_header ch opc i si) q = Some frame"
    and "quiet f (srv_Backend s)" and "server_peer dec marshal now el frame (st, s) = (out, st', s')"
  shows "quiet f (srv_Backend s')"
proof (cases "DecodeFrame frame")
  case (Inl err)
  then show ?thesis using assms(4,5) by (auto simp: server_peer_def)
next
  case (Inr x)
  obtain h p rest where x: "x = ((h, p), rest)" by (cases x) auto
  obtain pb n where own: "rmarshal q = Some pb" "h = seal_header (request_header ch opc i si) n" "p @ rest = pb"
    using decode_own_frame [OF assms(3)] Inr x by blast
  have h: "h_Channel h = ch" "h_Opcode h = opc" using own(2) by (simp_all add: seal_header_def request_header_def)
  have "read_only_open dec h p"
  proof (cases "opc = OpcodeOpenReq")
    case True
    then obtain m where m: "dec_OpenReq dec pb = Some m" "HeaderLength + length pb < 2 ^ 32"
      "\<not> OpenReq_Writable m" "\<not> OpenReq_Truncate m"
      using assms(2) own(1) by (auto simp: opens_for_reading_def carried_def)
    have "\<exists>fr. EncodeFrame rmarshal (request_header ch opc i si) q = Some fr \<and>
        DecodeFrame (fr @ []) = Inr ((seal_header (request_header ch opc i si) (length pb), pb), [])"
      using decode_sealed [of rmarshal q pb "request_header ch opc i si" "[]"] own(1) m(2) by blast
    then have "p = pb" using assms(3) Inr x by simp
    then show ?thesis using m by (simp add: read_only_open_def)
  qed (simp add: read_only_open_def h)
  moreover obtain r where d: "dispatch dec now el h p st (set_clock now s) = (r, st', s')"
    using assms(5) Inr x by (auto simp: server_peer_def Let_def sendReply_def split: prod.splits option.splits)
  moreover have "quiet f (srv_Backend (set_clock now s))" using assms(4) by (simp add: set_clock_def)
  ultimately show ?thesis using quiet_dispatch [of h dec p f] assms(1) h by simp
qed

text \<open>The files of the server at the far end of a client.\<close>

definition serves :: "fs \<Rightarrow> Client \<times> connectionState \<times> Server \<Rightarrow> bool" where
  "serves f = (\<lambda>(c, st, s). quiet f (srv_Backend s))"

lemma serves_request:
  assumes "env = linked dec marshal rdec rmarshal libtext now el"
    and "(ch, opc) \<in> mount_opcodes" and "opc = OpcodeOpenReq \<Longrightarrow> opens_for_reading dec rmarshal q"
    and "serves f w"
  shows "serves f (snd (request env un ch opc q w))"
proof -
  obtain c st s where w: "w = (c, st, s)" by (cases w) auto
  have peer: "quiet f (srv_Backend s')"
    if "EncodeFrame rmarshal (request_header ch opc (cl_nextReqID c + 1) (cl_SessionID c)) q = Some frame"
      "server_peer dec marshal now el frame (st, s) = (out, st', s')" for frame out st' s'
    using quiet_server_peer [OF assms(2,3) that(1) _ that(2)] assms(4) w by (simp add: serves_def)
  show ?thesis
    using peer assms(1,4) w
    by (auto simp: serves_def request_def linked_def Let_def split: option.split prod.split sum.split)
qed

lemma serves_requestDecode:
  assumes "env = linked dec marshal rdec rmarshal libtext now el"
    and "(ch, opc) \<in> mount_opcodes" and "opc = OpcodeOpenReq \<Longrightarrow> opens_for_reading dec rmarshal q"
    and "serves f w"
  shows "serves f (snd (requestDecode env un ch opc q k w))"
  using serves_request [OF assms(1-3,4), of "un (ce_dec env)"]
  by (auto simp: requestDecode_def serves_def split: prod.split sum.split)

text \<open>What every call of the mount's client keeps.\<close>

definition client_keeps :: "'c ProtocolClient \<Rightarrow> ('c \<Rightarrow> bool) \<Rightarrow> bool" where
  "client_keeps pc I \<longleftrightarrow>
     (\<forall>c i n. I c \<longrightarrow> I (snd (pc_Lookup pc i n c))) \<and> (\<forall>c i. I c \<longrightarrow> I (snd (pc_GetAttr pc i c))) \<and>
     (\<forall>c i. I c \<longrightarrow> I (snd (pc_OpenDir pc i c))) \<and> (\<forall>c i k n. I c \<longrightarrow> I (snd (pc_ReadDir pc i k n c))) \<and>
     (\<forall>c i. I c \<longrightarrow> I (snd (pc_CloseDir pc i c))) \<and> (\<forall>c i. I c \<longrightarrow> I (snd (pc_OpenRead pc i c))) \<and>
     (\<forall>c i k n. I c \<longrightarrow> I (snd (pc_Read pc i k n c))) \<and> (\<forall>c i. I c \<longrightarrow> I (snd (pc_CloseHandle pc i c)))"

definition reading_requests_carried :: "decoders \<Rightarrow> (Request \<Rightarrow> bytes option) \<Rightarrow> bool" where
  "reading_requests_carried dec rmarshal \<longleftrightarrow>
     (\<forall>i. let m = \<lparr>OpenReq_NodeID = i, OpenReq_Writable = False, OpenReq_Truncate = False\<rparr>
          in carried (dec_OpenReq dec) (rmarshal (ReqOpen m)) m)"

lemma linked_client_keeps:
  assumes "reading_requests_carried dec rmarshal"
  shows "client_keeps (client_as_ProtocolClient (linked dec marshal rdec rmarshal libtext now el)) (serves f)"
proof -
  have "opens_for_reading dec rmarshal
      (ReqOpen \<lparr>OpenReq_NodeID = i, OpenReq_Writable = False, OpenReq_Truncate = False\<rparr>)" for i
    using assms by (auto simp: reading_requests_carried_def opens_for_reading_def Let_def)
  then show ?thesis
    unfolding client_keeps_def client_as_ProtocolClient_def
    by (auto simp: Client_Lookup_def Client_GetAttr_def Client_OpenDir_def Client_ReadDir_def Client_CloseDir_def
        Client_OpenRead_def client_open_def Client_Read_def Client_CloseHandle_def mount_opcodes_def
        intro!: serves_requestDecode [OF refl])
qed

section \<open>The mount and the callbacks make no other calls\<close>

lemma keeps_calling:
  assumes "\<And>c. I c \<Longrightarrow> I (snd (f c))" and "calling f m = (r, m')" and "I (m_client m)"
  shows "I (m_client m')"
  using assms(1) [OF assms(3)] assms(2) by (auto simp: calling_def split: prod.splits)

lemma client_keepsD:
  assumes "client_keeps pc I" and "I c"
  shows "I (snd (pc_Lookup pc i s c))" "I (snd (pc_GetAttr pc i c))" "I (snd (pc_OpenDir pc i c))"
    "I (snd (pc_ReadDir pc i k n c))" "I (snd (pc_CloseDir pc i c))" "I (snd (pc_OpenRead pc i c))"
    "I (snd (pc_Read pc i off n c))" "I (snd (pc_CloseHandle pc i c))"
  using assms by (simp_all add: client_keeps_def)

lemma keeps_calls:
  assumes "client_keeps pc I" and "I (m_client m)"
  shows "calling (pc_Lookup pc i s) m = (x1, m') \<Longrightarrow> I (m_client m')"
    "calling (pc_GetAttr pc i) m = (x2, m') \<Longrightarrow> I (m_client m')"
    "calling (pc_OpenDir pc i) m = (x3, m') \<Longrightarrow> I (m_client m')"
    "calling (pc_ReadDir pc i k n) m = (x4, m') \<Longrightarrow> I (m_client m')"
    "calling (pc_CloseDir pc i) m = (x5, m') \<Longrightarrow> I (m_client m')"
    "calling (pc_OpenRead pc i) m = (x6, m') \<Longrightarrow> I (m_client m')"
    "calling (pc_Read pc i off n) m = (x7, m') \<Longrightarrow> I (m_client m')"
    "calling (pc_CloseHandle pc i) m = (x8, m') \<Longrightarrow> I (m_client m')"
  by (erule keeps_calling [where I = I, rotated], rule assms(2), erule client_keepsD [OF assms(1)])+

lemma keeps_resolve_parts:
  assumes "client_keeps pc I"
  shows "resolve_parts pc parts p e m = (r, m') \<Longrightarrow> I (m_client m) \<Longrightarrow> I (m_client m')"
proof (induction parts arbitrary: p e m)
  case (Cons part parts)
  show ?case
  proof (cases "m_pathCache m (JoinMountPath p part)")
    case None
    obtain x m1 where c: "calling (pc_Lookup pc (ni_NodeID e) part) m = (x, m1)" by fastforce
    have "I (m_client m1)" by (rule keeps_calls(1) [OF assms Cons.prems(2) c])
    then have "I (m_client (cachePath q en m1))" for q en by (simp add: cachePath_def)
    then show ?thesis
      using Cons.IH Cons.prems(1) None c \<open>I (m_client m1)\<close> by (cases x) (auto simp: Let_def)
  qed (use Cons in \<open>simp add: Let_def\<close>)
qed simp

lemma keeps_GetAttr:
  assumes "client_keeps pc I" and "mount_GetAttr pc p m = (r, m')" and "I (m_client m)"
  shows "I (m_client m')"
proof -
  obtain x m1 where x: "resolvePath pc p m = (x, m1)" by fastforce
  have i1: "I (m_client m1)"
    using x assms(3)
    by (auto simp: resolvePath_def split: option.splits prod.splits sum.splits dest: keeps_resolve_parts [OF assms(1)])
  show ?thesis
    using assms(2) x i1 keeps_calls(2) [OF assms(1) i1]
    by (fastforce simp: mount_GetAttr_def cachePath_def split: sum.splits prod.splits)
qed

lemma keeps_take_entries: "take_entries h es m = (is, m') \<Longrightarrow> m_client m' = m_client m"
  by (induction h es m arbitrary: "is" m' rule: take_entries.induct)
    (auto simp: Let_def cachePath_def split: prod.splits)

lemma keeps_mount_ops:
  assumes "client_keeps pc I" and "I (m_client m)"
  shows "Adapter_Open pc p m = (x1, m') \<Longrightarrow> I (m_client m')"
    "Adapter_OpenDirectory pc p m = (x2, m') \<Longrightarrow> I (m_client m')"
    "mount_ReadDirectory pc i k n m = (x3, m') \<Longrightarrow> I (m_client m')"
    "mount_Read pc i off n m = (x4, m') \<Longrightarrow> I (m_client m')"
    "mount_Close pc i m = (x5, m') \<Longrightarrow> I (m_client m')"
proof -
  note attr = keeps_GetAttr [OF assms(1) _ assms(2)]
  show "I (m_client m')" if "Adapter_Open pc p m = (x1, m')"
  proof -
    obtain x m1 where x: "mount_GetAttr pc p m = (x, m1)" by fastforce
    have i1: "I (m_client m1)" using attr [OF x] .
    show ?thesis
      using that x i1 keeps_calls(6) [OF assms(1) i1]
      by (fastforce simp: Adapter_Open_def mount_Open_def allocLocalHandle_def Let_def split: sum.splits prod.splits if_splits)
  qed
  show "I (m_client m')" if "Adapter_OpenDirectory pc p m = (x2, m')"
  proof -
    obtain x m1 where x: "mount_GetAttr pc p m = (x, m1)" by fastforce
    have i1: "I (m_client m1)" using attr [OF x] .
    show ?thesis
      using that x i1 keeps_calls(3) [OF assms(1) i1]
      by (fastforce simp: Adapter_OpenDirectory_def mount_OpenDirectory_def allocLocalHandle_def Let_def
          split: sum.splits prod.splits if_splits)
  qed
  show "I (m_client m')" if "mount_ReadDirectory pc i k n m = (x3, m')"
    using that keeps_calls(4) [OF assms] assms(2)
    by (fastforce simp: mount_ReadDirectory_def Let_def split: option.splits sum.splits prod.splits dest: keeps_take_entries)
  show "I (m_client m')" if "mount_Read pc i off n m = (x4, m')"
    using that keeps_calls(7) [OF assms] assms(2)
    by (fastforce simp: mount_Read_def split: option.splits sum.splits prod.splits)
  show "I (m_client m')" if "mount_Close pc i m = (x5, m')"
    using that client_keepsD(5,8) [OF assms] assms(2)
    by (auto simp: mount_Close_def calling_def split: option.splits prod.splits) (metis snd_conv)+
qed

definition cb_client :: "'c Callbacks \<Rightarrow> 'c" where
  "cb_client c = m_client (cb_adapter c)"

lemma cb_client_simps [simp]:
  "cb_client (cb_trackHandle i info c) = cb_client c" "cb_client (cb_updateHandle i st c) = cb_client c"
  "cb_client (cb_untrackHandle i c) = cb_client c" "cb_client (c\<lparr>cb_adapter := a\<rparr>) = m_client a"
  by (simp_all add: cb_client_def cb_trackHandle_def cb_updateHandle_def cb_untrackHandle_def)

lemma keeps_on_adapter:
  assumes "\<And>x m'. f (cb_adapter c) = (x, m') \<Longrightarrow> I (m_client m')" and "\<And>r c. cb_client (k r c) = cb_client c"
  shows "I (cb_client (snd (on_adapter env f z k c)))"
  using assms by (auto simp: on_adapter_def split: prod.split sum.split)

lemma keeps_GetFileInfo:
  assumes "client_keeps (ne_client env) I" and "I (cb_client c)"
  shows "I (cb_client (snd (cb_GetFileInfo env p c)))"
  unfolding cb_GetFileInfo_def
  by (rule keeps_on_adapter) (use keeps_GetAttr [OF assms(1)] assms(2) in \<open>auto simp: cb_client_def\<close>)

lemma keeps_callback_request:
  assumes "client_keeps (ne_client env) I" and "I (cb_client c)"
  shows "I (cb_client (snd (callback_request env rq c)))"
proof -
  note ops = keeps_mount_ops [OF assms(1) assms(2) [unfolded cb_client_def]]
  note info = keeps_GetFileInfo [OF assms]
  have "I (cb_client (snd (cb_Read env i off n c)))" for i off n
    using ops(4) by (auto simp: cb_Read_def split: prod.split sum.split)
  moreover have "I (cb_client (snd (cb_Open env p c)))" "I (cb_client (snd (cb_OpenDirectory env p c)))"
    "I (cb_client (snd (cb_ReadDirectory env i k n c)))" "I (cb_client (snd (cb_Close env i c)))" for p i k n
    unfolding cb_Open_def cb_OpenDirectory_def cb_ReadDirectory_def cb_Close_def
    by (rule keeps_on_adapter, erule ops, simp)+
  moreover have "I (cb_client (snd (cb_GetSecurityByName env p c)))" "I (cb_client (snd (cb_CanDelete env p c)))" for p
    using info by (simp_all add: cb_GetSecurityByName_def cb_CanDelete_def case_prod_unfold)
  ultimately show ?thesis
    using info assms(2)
    by (cases rq)
      (simp_all add: status_only_def cb_GetVolumeInfo_def cb_Create_def cb_Overwrite_def cb_Write_def cb_Cleanup_def
        cb_Flush_def cb_GetFileInfoByHandle_def cb_SetBasicInfo_def cb_SetFileSize_def cb_GetSecurity_def
        cb_SetSecurity_def cb_SetDeleteOnClose_def cb_Rename_def cb_lookupHandle_def refuse_on_same split: option.split)
qed

lemma keeps_callback_run:
  assumes "\<forall>(env, rq) \<in> set rqs. client_keeps (ne_client env) I" and "I (cb_client c)"
  shows "I (cb_client (snd (callback_run rqs c)))"
  using assms
proof (induction rqs arbitrary: c)
  case (Cons p rqs)
  obtain env rq where p: "p = (env, rq)" by (cases p)
  have "I (cb_client (snd (callback_request env rq c)))"
    by (rule keeps_callback_request) (use Cons.prems p in auto)
  then show ?case using Cons.IH Cons.prems(1) p by (auto simp: case_prod_unfold Let_def)
qed simp

section \<open>The mount is read-only\<close>

text \<open>The environment of the callbacks of a mount on the server, at some time.\<close>

definition mounted :: "decoders \<Rightarrow> (Response \<Rightarrow> bytes option) \<Rightarrow> resp_decoders \<Rightarrow> (Request \<Rightarrow> bytes option) \<Rightarrow>
    (client_error \<Rightarrow> string) \<Rightarrow> instant \<Rightarrow> duration \<Rightarrow> (Client \<times> connectionState \<times> Server) native_env" where
  "mounted dec marshal rdec rmarshal libtext now el =
     \<lparr>ne_client = client_as_ProtocolClient (linked dec marshal rdec rmarshal libtext now el),
      ne_errtext = client_error_text libtext\<rparr>"

text \<open>
  C29: Nothing Windows asks of the mount changes a file on the server. Take any dispatcher stack over a mount
  whose client is connected to the server, on which no open handle is marked for deletion; let it serve any
  sequence of native requests at any times, writes, renames and deletions included. Then the requests are
  all answered and the server's file system is afterwards exactly what it was before. Of JSON it is
  assumed that a request to open for reading arrives as such.
\<close>

theorem mount_is_read_only:
  assumes "abi_bridge a = Some b" and "serves f (cb_client (br_callbacks b))"
    and "reading_requests_carried dec rmarshal"
  shows "\<exists>sts a' b'. abi_run (map (\<lambda>(now, el, rq). (mounted dec marshal rdec rmarshal libtext now el, rq)) rqs) a =
      Some (sts, a') \<and> length sts = length rqs \<and> abi_bridge a' = Some b' \<and> serves f (cb_client (br_callbacks b'))"
proof -
  let ?rqs = "map (\<lambda>(now, el, rq). (mounted dec marshal rdec rmarshal libtext now el, rq)) rqs"
  obtain sts c where c: "callback_run ?rqs (br_callbacks b) = (sts, c)" by fastforce
  have len: "length (fst (callback_run qs d)) = length qs" for qs :: "('z native_env \<times> native_request) list" and d
    by (induction qs arbitrary: d) (auto simp: case_prod_unfold Let_def)
  have "serves f (cb_client (snd (callback_run ?rqs (br_callbacks b))))"
  proof (rule keeps_callback_run [where I = "serves f"])
    show "\<forall>(env, rq) \<in> set ?rqs. client_keeps (ne_client env) (serves f)"
      using linked_client_keeps [OF assms(3)] by (auto simp: mounted_def)
  qed (rule assms(2))
  then have "serves f (cb_client c)" "length sts = length rqs" using c len [of ?rqs "br_callbacks b"] by simp_all
  then show ?thesis using abi_run_forwards [OF assms(1) c] by blast
qed

definition reading_decoders :: decoders where
  "reading_decoders = no_decoders\<lparr>dec_OpenReq := (\<lambda>p. Some \<lparr>OpenReq_NodeID = Uint64 p, OpenReq_Writable = False,
     OpenReq_Truncate = False\<rparr>)\<rparr>"

definition reading_marshal :: "Request \<Rightarrow> bytes option" where
  "reading_marshal q = (case q of ReqOpen r \<Rightarrow> Some (PutUint64 (OpenReq_NodeID r)) | _ \<Rightarrow> Some [])"

definition sample_stack :: "(Client \<times> connectionState \<times> Server) DispatcherABI" where
  "sample_stack = NewDispatcherABI (Some (NewDispatcherBridge (NewCallbacks
     (New_mount ((New_client ''s'')\<lparr>cl_Conn := Some [], cl_SessionID := 1001\<rparr>, new_connection, sample_busy) sample_options))))"

theorem mount_is_read_only_witness:
  "\<exists>sts a' b'. abi_run (map (\<lambda>(now, el, rq).
        (mounted reading_decoders (\<lambda>_. Some []) deaf_decoders reading_marshal (\<lambda>_. []) now el, rq))
        [(5, 0, NativeOpen ''a''), (6, 0, NativeWrite 1 0 [7] False), (7, 0, NativeRename 1 ''b'' True)]) sample_stack =
      Some (sts, a') \<and> length sts = length [(5 :: instant, 0 :: duration, NativeOpen ''a''),
        (6, 0, NativeWrite 1 0 [7] False), (7, 0, NativeRename 1 ''b'' True)] \<and> abi_bridge a' = Some b' \<and>
      serves sample_fs (cb_client (br_callbacks b'))"
proof (rule mount_is_read_only)
  show "abi_bridge sample_stack = Some (NewDispatcherBridge (NewCallbacks
      (New_mount ((New_client ''s'')\<lparr>cl_Conn := Some [], cl_SessionID := 1001\<rparr>, new_connection, sample_busy) sample_options)))"
    by (simp add: sample_stack_def NewDispatcherABI_def)
  show "serves sample_fs (cb_client (br_callbacks (NewDispatcherBridge (NewCallbacks
      (New_mount ((New_client ''s'')\<lparr>cl_Conn := Some [], cl_SessionID := 1001\<rparr>, new_connection, sample_busy) sample_options)))))"
    by (simp add: serves_def quiet_def cb_client_def NewDispatcherBridge_def NewCallbacks_def New_mount_def Let_def
        sample_busy_def empty_backend_def)
  show "reading_requests_carried reading_decoders reading_marshal"
    by (simp add: reading_requests_carried_def reading_decoders_def reading_marshal_def carried_def)
qed

end
