(* ===== verification/NativeStatus.thy ===== *)
theory NativeStatus
  imports ReadOnly
begin

text \<open>
  What Windows is told: the status of an error that comes from the server's backend, the callbacks
  that refuse, and the start of the service.
\<close>

section \<open>Errors of the backend\<close>

text \<open>The status that belongs to a code of the protocol.\<close>

definition status_of_code :: "ErrorCode \<Rightarrow> NTStatus" where
  "status_of_code code =
     (if code = ErrNotFound then StatusObjectNameNotFound
      else if code = ErrNotDir then StatusNotADirectory
      else if code = ErrIsDir then StatusFileIsADirectory
      else if code = ErrInvalidHandle then StatusInvalidHandle
      else if code = ErrAccessDenied then StatusAccessDenied
      else StatusInternalError)"

lemma status_of_server_texts:
  "status_of_text ''ERR_NOT_FOUND: not found'' = StatusObjectNameNotFound"
  "status_of_text ''ERR_ALREADY_EXISTS: already exists'' = StatusInternalError"
  "status_of_text ''ERR_INVALID_HANDLE: invalid handle'' = StatusInvalidHandle"
  "status_of_text ''ERR_ACCESS_DENIED: access denied'' = StatusAccessDenied"
  "status_of_text ''ERR_NOT_DIR: not a directory'' = StatusNotADirectory"
  "status_of_text ''ERR_IS_DIR: is a directory'' = StatusFileIsADirectory"
  by code_simp+

text \<open>A session the server no longer knows looks like a missing file.\<close>

lemma status_of_session_texts:
  "status_of_text ''ERR_SESSION_NOT_FOUND: session not found'' = StatusObjectNameNotFound"
  "status_of_text ''ERR_SESSION_EXPIRED: session expired'' = StatusInternalError"
  by code_simp+

lemma backend_status_aux:
  assumes "snd (writeBackendError header err) = ReplyErrorResp e" and "ErrorResp_Code e \<noteq> ErrInternal"
  shows "mapError (client_error_text libtext) (Some (ClientFailed (ServerError (ErrorResp_Code e) (ErrorResp_Message e)))) =
    status_of_code (ErrorResp_Code e)"
  using assms status_of_server_texts
  by (auto simp: writeBackendError_def writeError_def mapError_def mount_error_text_def status_of_code_def split: if_splits)

text \<open>
  A failed lookup carries the path it failed at in its text. Paths that contain a phrase the status is
  chosen by get in the way; all others leave the status as it is.
\<close>

definition names_status :: "string \<Rightarrow> bool" where
  "names_status p \<longleftrightarrow> list_ex (Contains p)
     [''ERR_NOT_FOUND'', ''not found'', ''ERR_NOT_DIR'', ''ERR_IS_DIR'', ''ERR_INVALID_HANDLE'',
      ''invalid handle'', ''ERR_ACCESS_DENIED'', ''invalid path'']"

lemma Contains_lookup:
  "Contains (''lookup '' @ p @ '': '' @ t) sub \<longleftrightarrow> Contains p sub \<or> Contains t sub"
  if "sub \<in> {''ERR_NOT_FOUND'', ''not found'', ''ERR_NOT_DIR'', ''ERR_IS_DIR'', ''ERR_INVALID_HANDLE'',
    ''invalid handle'', ''ERR_ACCESS_DENIED'', ''invalid path''}"
proof -
  have "Contains ((''lookup '' @ p) @ CHR '':'' # CHR '' '' # t) sub \<longleftrightarrow>
      Contains (''lookup '' @ p) sub \<or> Contains (CHR '' '' # t) sub"
    using that by (intro Contains_sep) auto
  moreover have "Contains (CHR '' '' # t) sub \<longleftrightarrow> Contains t sub"
    using that by (auto simp: HasPrefix_def)
  moreover have "Contains (''lookup '' @ p) sub \<longleftrightarrow> Contains p sub"
    using that by (auto simp: HasPrefix_def)
  ultimately show ?thesis by (simp del: Contains.simps)
qed

lemma status_of_lookup:
  "\<not> names_status p \<Longrightarrow> status_of_text (''lookup '' @ p @ '': '' @ t) = status_of_text t"
  by (simp add: status_of_text_def names_status_def Contains_lookup del: append_Cons append_assoc)

lemma lookup_status:
  "\<not> names_status p \<Longrightarrow> mapError errtext (Some (LookupFailed p err)) = mapError errtext (Some (ClientFailed err))"
  using status_of_lookup [of p "errtext err"] by (simp add: mapError_def mount_error_text_def)

text \<open>
  C30: An error of the server's backend reaches Windows as the status of its kind: a missing file as
  \<^verbatim>\<open>STATUS_OBJECT_NAME_NOT_FOUND\<close>, a file that should be a directory as \<^verbatim>\<open>STATUS_NOT_A_DIRECTORY\<close>, and so on,
  through the server's error reply, the client's error and its text, both when a call of the client
  fails and when resolving a path fails in a lookup, whose error carries the path. This needs that
  the server's paths in the error do not contain the phrases the server classifies by, that the
  mount's path does not contain those Windows' status is chosen by, and that the error is of a known
  kind.
\<close>

theorem backend_error_reaches_windows:
  assumes "\<not> mentions_kind (error_subject err)" and "error_code err \<noteq> ErrInternal"
    and "snd (writeBackendError header err) = ReplyErrorResp e"
    and "se = ServerError (ErrorResp_Code e) (ErrorResp_Message e)"
    and "me = ClientFailed se \<or> (\<exists>p. me = LookupFailed p se \<and> \<not> names_status p)"
  shows "mapError (client_error_text libtext) (Some me) = status_of_code (error_code err)"
proof -
  have "ErrorResp_Code e = error_code err" using backend_error_code_aux [OF assms(1), of header] assms(3) by auto
  then have "mapError (client_error_text libtext) (Some (ClientFailed se)) = status_of_code (error_code err)"
    using backend_status_aux [OF assms(3)] assms(2,4) by simp
  then show ?thesis using assms(5) lookup_status by metis
qed

theorem backend_error_reaches_windows_witness:
  "\<exists>e. snd (writeBackendError (sample_header ChannelMetadata OpcodeLookupReq 7) (PathError ''stat'' ''/w/a'' ENOENT)) = ReplyErrorResp e \<and>
     mapError (client_error_text (\<lambda>_. [])) (Some (LookupFailed ''/a'' (ServerError (ErrorResp_Code e) (ErrorResp_Message e)))) =
       StatusObjectNameNotFound"
proof -
  let ?err = "PathError ''stat'' ''/w/a'' ENOENT"
  let ?h = "sample_header ChannelMetadata OpcodeLookupReq 7"
  have k: "\<not> mentions_kind (error_subject ?err)" "error_code ?err = ErrNotFound" "\<not> names_status ''/a''" by code_simp+
  obtain e where e: "snd (writeBackendError ?h ?err) = ReplyErrorResp e"
    using backend_error_code_aux [OF k(1), of ?h] by auto
  show ?thesis
    using backend_error_reaches_windows [OF k(1) _ e refl, of "LookupFailed ''/a'' (ServerError (ErrorResp_Code e) (ErrorResp_Message e))" "\<lambda>_. []"]
      e k(2,3) by (auto simp: status_of_code_def)
qed

section \<open>Callbacks that refuse\<close>

text \<open>
  The table of native callbacks tells the truth: a request whose callback the table lists as read-only
  never succeeds, except that a mark for deletion may be taken back, and it neither opens, closes nor
  changes anything in the mount; only the check before a deletion looks the path up.
\<close>

theorem read_only_callbacks_refuse:
  assumes "cb \<in> set (native_callbacks CallbackStateReady)" and "nc_Name cb = request_name rq"
    and "nc_State cb = CallbackStateReadOnly" and "callback_request env rq c = (status, c')"
  shows "(status = StatusSuccess \<longrightarrow> (\<exists>i. rq = NativeSetDeleteOnClose i False)) \<and>
    mount_handles c' = mount_handles c \<and> ((\<forall>p. rq \<noteq> NativeCanDelete p) \<longrightarrow> cb_adapter c' = cb_adapter c)"
proof -
  have denied: "request_name rq \<in> set [''Create'', ''Write'', ''Overwrite'', ''SetSecurity'', ''SetBasicInfo'',
      ''SetFileSize'', ''CanDelete'', ''SetDeleteOnClose'', ''Rename'']"
    using assms(1-3) by (auto simp: native_callbacks_def native_callback_def)
  then have "\<not> opens_handle rq" "\<not> closes_handle rq"
    by (cases rq; simp add: opens_handle_def closes_handle_def)+
  then have "mount_handles c' = mount_handles c"
    using callback_request_same [of rq c env] assms(4) by (simp add: mount_handles_def same_handles_def)
  moreover have "status = StatusSuccess \<longrightarrow> (\<exists>i. rq = NativeSetDeleteOnClose i False)"
    and "(\<forall>p. rq \<noteq> NativeCanDelete p) \<longrightarrow> cb_adapter c' = cb_adapter c"
    using denied assms(4)
    by (cases rq; auto simp: status_only_def cb_Create_def cb_Write_def cb_Overwrite_def cb_SetSecurity_def
        cb_SetBasicInfo_def cb_SetFileSize_def cb_CanDelete_def cb_SetDeleteOnClose_def cb_Rename_def refuse_on_def
        cb_lookupHandle_def cb_updateHandle_def split: option.splits if_splits prod.splits)+
  ultimately show ?thesis by blast
qed

theorem read_only_callbacks_refuse_witness:
  "\<exists>status c'. callback_request one_file_env (NativeWrite 1 0 [7] False) (NewCallbacks (New_mount () sample_options)) =
     (status, c') \<and> status \<noteq> StatusSuccess"
proof -
  let ?c = "NewCallbacks (New_mount () sample_options)"
  let ?cb = "native_callbacks CallbackStateReady ! 7"
  obtain status c' where r: "callback_request one_file_env (NativeWrite 1 0 [7] False) ?c = (status, c')" by fastforce
  have "?cb \<in> set (native_callbacks CallbackStateReady)"
    by (rule nth_mem) (simp add: native_callbacks_def)
  moreover have "nc_Name ?cb = request_name (NativeWrite 1 0 [7] False)" "nc_State ?cb = CallbackStateReadOnly"
    by (simp_all add: native_callbacks_def native_callback_def)
  ultimately have "status \<noteq> StatusSuccess" using read_only_callbacks_refuse [OF _ _ _ r, of ?cb] by blast
  then show ?thesis using r by blast
qed

section \<open>Starting the service\<close>

text \<open>A step of the stack that never panics and keeps a property of the client below it.\<close>

definition safe :: "('c \<Rightarrow> bool) \<Rightarrow> ('c, 'r) probe \<Rightarrow> bool" where
  "safe I f \<longleftrightarrow>
     (\<forall>a b. abi_bridge a = Some b \<longrightarrow> I (cb_client (br_callbacks b)) \<longrightarrow>
        (\<exists>x a' b'. f a = Some (x, a') \<and> abi_bridge a' = Some b' \<and> I (cb_client (br_callbacks b'))))"

lemma safe_return: "safe I (\<lambda>a. Some (x, a))"
  by (simp add: safe_def)

lemma safe_bind: "safe I f \<Longrightarrow> (\<And>x. safe I (g x)) \<Longrightarrow> safe I (\<lambda>a. f a \<bind> case_prod g)"
  unfolding safe_def by fastforce

lemma safe_if: "(P \<Longrightarrow> safe I f) \<Longrightarrow> (\<not> P \<Longrightarrow> safe I g) \<Longrightarrow> safe I (\<lambda>a. if P then f a else g a)"
  by (cases P) simp_all

lemma safe_case_prod: "(\<And>u v. safe I (k u v)) \<Longrightarrow> safe I (case x of (u, v) \<Rightarrow> k u v)"
  by (cases x) simp

lemma safe_request:
  fixes env :: "'a native_env"
  assumes "client_keeps (ne_client env) I" and "\<And>a. map_option status_only (f a) = abi_request env rq a"
  shows "safe I f"
  unfolding safe_def
proof (intro allI impI)
  fix a :: "'a DispatcherABI" and b assume b: "abi_bridge a = Some b" and i: "I (cb_client (br_callbacks b))"
  obtain status c where c: "callback_request env rq (br_callbacks b) = (status, c)" by fastforce
  obtain a' where a': "abi_request env rq a = Some (status, a')" and f: "forwarded rq a status c a'"
    using abi_request_forwards [OF b c] by blast
  obtain x where "f a = Some (x, a')" using a' assms(2) [of a] by (auto simp: status_only_def)
  moreover have "I (cb_client c)" using keeps_callback_request [OF assms(1) i, of rq] c by simp
  ultimately show "\<exists>x a' b'. f a = Some (x, a') \<and> abi_bridge a' = Some b' \<and> I (cb_client (br_callbacks b'))"
    using f by (auto simp: forwarded_def)
qed

lemma safe_ops:
  assumes "client_keeps (ne_client env) I"
  shows "safe I abi_GetVolumeInfo" "safe I (abi_GetFileInfo env p)" "safe I (abi_GetSecurityByName env p)"
    "safe I (abi_OpenDirectory env p)" "safe I (abi_ReadDirectory env i k n)" "safe I (abi_Flush i)"
    "safe I (abi_Cleanup i)" "safe I (abi_Close env i)" "safe I (abi_CanDelete env p)" "safe I (abi_Open env p)"
    "safe I (abi_Write i off d w)" "safe I (abi_SetBasicInfo i at)" "safe I (abi_SetFileSize i sz w)"
    "safe I (abi_SetSecurity i p)" "safe I (abi_Rename i p w)" "safe I (abi_Overwrite i k at w)"
    "safe I (abi_SetDeleteOnClose i w)" "safe I (abi_Create p w)"
  by (rule safe_request [OF assms], rule abi_request.simps [symmetric])+

lemma safe_Initialize:
  assumes "client_keeps (ne_client env) I"
  shows "safe I (\<lambda>a. Some (abi_Initialize env root a))"
proof -
  note info = keeps_GetFileInfo [OF assms]
  have sec: "I (cb_client (snd (cb_GetSecurityByName env p c)))" if "I (cb_client c)" for p c
    using info [OF that] by (simp add: cb_GetSecurityByName_def case_prod_unfold)
  have "I (cb_client (br_callbacks (snd (bridge_Initialize env root b))))" if "I (cb_client (br_callbacks b))" for b
    using that info sec
    by (simp add: bridge_Initialize_def bridge_GetVolumeInfo_def bridge_GetFileInfo_def bridge_GetSecurityByName_def
        bridged_def bridge_record_def cb_GetVolumeInfo_def Let_def case_prod_unfold)
  then show ?thesis
    by (fastforce simp: safe_def abi_Initialize_def abi_record_def recordWithHandle_def Let_def
        split: prod.splits option.splits)
qed

lemma safe_case_prod_applied:
  "(\<And>u v. safe I (k u v y)) \<Longrightarrow> safe I ((case x of (u, v) \<Rightarrow> k u v) y)"
  by (cases x) simp

lemma safe_case_option:
  "safe I f \<Longrightarrow> (\<And>u. safe I (g u)) \<Longrightarrow> safe I (\<lambda>a. case x of None \<Rightarrow> f a | Some u \<Rightarrow> g u a)"
  by (cases x) simp_all

lemmas safe_intros = safe_bind safe_if safe_case_prod safe_case_prod_applied safe_case_option safe_return

lemma safe_start:
  assumes "client_keeps (ne_client env) I"
  shows "safe I (start_checks env root)" "safe I (probe_directory env root)" "safe I (probe_file env)"
  unfolding start_checks_def probe_directory_def probe_file_def
  by (intro safe_intros safe_Initialize [OF assms] safe_ops [OF assms])+

text \<open>What is below a service.\<close>

definition service_client :: "'c DispatcherService \<Rightarrow> 'c option" where
  "service_client s = do { a \<leftarrow> ds_abi s; b \<leftarrow> abi_bridge a; Some (cb_client (br_callbacks b)) }"

lemma safe_service_Start:
  assumes "client_keeps (ne_client env) I" and "service_client s = Some w" and "I w"
  shows "\<exists>err s' w'. service_Start env root s = Some (err, s') \<and> service_client s' = Some w' \<and> I w' \<and>
    dss_Running (ds_state s') = (err = None \<or> dss_Running (ds_state s))"
proof -
  obtain a b where a: "ds_abi s = Some a" "abi_bridge a = Some b" "I (cb_client (br_callbacks b))"
    using assms(2,3) by (auto simp: service_client_def split: bind_splits)
  have checks: "\<exists>x a' b'. start_checks env root a = Some (x, a') \<and> abi_bridge a' = Some b' \<and> I (cb_client (br_callbacks b'))"
    using safe_start(1) [OF assms(1)] a(2,3) by (auto simp: safe_def)
  then obtain failed a1 b1 where c: "start_checks env root a = Some (failed, a1)" "abi_bridge a1 = Some b1"
    "I (cb_client (br_callbacks b1))" by blast
  have "safe I (\<lambda>a. probe_directory env root a \<bind> (\<lambda>(_, a). abi_CanDelete env root a \<bind> (\<lambda>(_, a).
      probe_file env a \<bind> (\<lambda>(_, a). abi_Create ''/blocked-create.txt'' False a))))"
    by (intro safe_intros safe_ops [OF assms(1)] safe_start [OF assms(1)])
  then obtain x a2 b2 where p: "(probe_directory env root a1 \<bind> (\<lambda>(_, a). abi_CanDelete env root a \<bind> (\<lambda>(_, a).
      probe_file env a \<bind> (\<lambda>(_, a). abi_Create ''/blocked-create.txt'' False a)))) = Some (x, a2)"
    "abi_bridge a2 = Some b2" "I (cb_client (br_callbacks b2))"
    using c(2,3) unfolding safe_def by blast
  show ?thesis
  proof (cases failed)
    case None
    then show ?thesis
      using a(1) c(1) p by (auto simp: service_Start_def service_client_def split: bind_splits)
  next
    case (Some f)
    then show ?thesis
      using a(1) c by (cases f) (auto simp: service_Start_def service_client_def service_record_def Let_def)
  qed
qed

text \<open>
  C31: Starting the service is safe: on a full stack over a mount of the server, \<^verbatim>\<open>Start\<close> returns and never
  panics, whatever the server answers; the service runs afterwards exactly if no error is returned or it
  ran before; and although the warm-up tries to write, resize, rename and delete \<^verbatim>\<open>/README.md\<close> and to create a
  file, the file system of the server is unchanged.
\<close>

theorem start_is_safe:
  assumes "service_client s = Some w" and "serves f w" and "reading_requests_carried dec rmarshal"
  shows "\<exists>err s' w'. service_Start (mounted dec marshal rdec rmarshal libtext now el) root s = Some (err, s') \<and>
    service_client s' = Some w' \<and> serves f w' \<and>
    dss_Running (ds_state s') = (err = None \<or> dss_Running (ds_state s))"
  using safe_service_Start [of "mounted dec marshal rdec rmarshal libtext now el" "serves f", OF _ assms(1,2)]
    linked_client_keeps [OF assms(3)] by (simp add: mounted_def)

theorem start_is_safe_witness:
  "\<exists>err s' w'. service_Start (mounted reading_decoders (\<lambda>_. Some []) deaf_decoders reading_marshal (\<lambda>_. []) 5 0) ''/''
      (NewDispatcherService ''X:'' (Some sample_stack)) = Some (err, s') \<and>
    service_client s' = Some w' \<and> serves sample_fs w' \<and>
    dss_Running (ds_state s') = (err = None \<or> dss_Running (ds_state (NewDispatcherService ''X:'' (Some sample_stack))))"
proof (rule start_is_safe)
  let ?w = "((New_client ''s'')\<lparr>cl_Conn := Some [], cl_SessionID := 1001\<rparr>, new_connection, sample_busy)"
  show "service_client (NewDispatcherService ''X:'' (Some sample_stack)) = Some ?w"
    by (simp add: service_client_def NewDispatcherService_def sample_stack_def NewDispatcherABI_def cb_client_def
        NewDispatcherBridge_def NewCallbacks_def New_mount_def Let_def)
  show "serves sample_fs ?w" by (simp add: serves_def quiet_def sample_busy_def empty_backend_def)
  show "reading_requests_carried reading_decoders reading_marshal"
    by (simp add: reading_requests_carried_def reading_decoders_def reading_marshal_def carried_def)
qed

end
