(* ===== verification/WinConfig.thy ===== *)
theory WinConfig
  imports MountProps
begin

text \<open>
  The configuration of the Windows client (\<^verbatim>\<open>internal/winclient/config.go\<close>): defaults,
  normalization, validation, the choice of a mount point and the preview of the command line.
\<close>

section \<open>Data\<close>

type_synonym Operation = string

abbreviation (input) OperationMount :: Operation where "OperationMount \<equiv> ''mount''"
abbreviation (input) OperationVolume :: Operation where "OperationVolume \<equiv> ''volume''"
abbreviation (input) OperationGetAttr :: Operation where "OperationGetAttr \<equiv> ''getattr''"
abbreviation (input) OperationReadDir :: Operation where "OperationReadDir \<equiv> ''readdir''"
abbreviation (input) OperationRead :: Operation where "OperationRead \<equiv> ''read''"
abbreviation (input) OperationMaterialize :: Operation where "OperationMaterialize \<equiv> ''materialize''"

abbreviation (input) HostBackendAuto :: string where "HostBackendAuto \<equiv> ''auto''"
abbreviation (input) HostBackendPreflight :: string where "HostBackendPreflight \<equiv> ''preflight''"
abbreviation (input) HostBackendDispatcherV1 :: string where "HostBackendDispatcherV1 \<equiv> ''dispatcher-v1''"

record Config =
  cfg_Addr :: string
  cfg_Token :: string
  cfg_ClientInstanceID :: string
  cfg_LeaseSeconds :: u32
  cfg_MountPoint :: string
  cfg_VolumePrefix :: string
  cfg_Path :: string
  cfg_LocalPath :: string
  cfg_HostBackend :: string
  cfg_Offset :: int
  cfg_Length :: u32
  cfg_MaxEntries :: u32

text \<open>
  What the functions ask of the system: whether it is Windows, and \<^verbatim>\<open>os.Stat\<close>, which tells of a
  path that exists whether it is a directory.
\<close>

record platform =
  pf_windows :: bool
  pf_Stat :: "string \<Rightarrow> go_error + bool"

section \<open>Mount points\<close>

definition isAlpha :: "char \<Rightarrow> bool" where
  "isAlpha b \<longleftrightarrow> (let n = (of_char b :: nat) in 97 \<le> n \<and> n \<le> 122 \<or> 65 \<le> n \<and> n \<le> 90)"

definition isPathSeparator :: "char \<Rightarrow> bool" where
  "isPathSeparator b \<longleftrightarrow> b = backslash \<or> b = slash"

definition NormalizeMountPoint :: "string \<Rightarrow> string" where
  "NormalizeMountPoint v =
     (let v = TrimSpace v in
      if 2 \<le> length v \<and> isAlpha (v ! 0) \<and> v ! 1 = CHR '':'' then
        if list_all isPathSeparator (drop 2 v) then ToUpper (take 1 v) @ '':'' else v
      else v)"

definition isLocalAbsoluteMountDir :: "string \<Rightarrow> bool" where
  "isLocalAbsoluteMountDir v \<longleftrightarrow>
     3 \<le> length v \<and> isAlpha (v ! 0) \<and> v ! 1 = CHR '':'' \<and> isPathSeparator (v ! 2)"

definition isLikelyAbsoluteMountDir :: "string \<Rightarrow> bool" where
  "isLikelyAbsoluteMountDir v \<longleftrightarrow>
     3 \<le> length v \<and> isAlpha (v ! 0) \<and> v ! 1 = CHR '':'' \<and> isPathSeparator (v ! 2) \<or>
     HasPrefix v [backslash, backslash] \<or> HasPrefix v ''/''"

definition isDriveLetterMountPoint :: "string \<Rightarrow> bool" where
  "isDriveLetterMountPoint v \<longleftrightarrow> length v = 2 \<and> isAlpha (v ! 0) \<and> v ! 1 = CHR '':''"

text \<open>An error is its text; \<open>None\<close> is the nil error.\<close>

definition ValidateMountPoint :: "string \<Rightarrow> string option" where
  "ValidateMountPoint v =
     (let v = NormalizeMountPoint v in
      if v = [] then Some ''mount point is required''
      else if length v = 2 \<and> isAlpha (v ! 0) \<and> v ! 1 = CHR '':'' then None
      else if isLikelyAbsoluteMountDir v then None
      else Some (''mount point '' @ Quote v @
        '' is invalid; expected a drive letter like X: or an absolute directory path''))"

definition pathExists :: "platform \<Rightarrow> string \<Rightarrow> bool" where
  "pathExists pf p \<longleftrightarrow> (case pf_Stat pf p of Inl _ \<Rightarrow> False | Inr _ \<Rightarrow> True)"

definition driveRootExists :: "platform \<Rightarrow> string \<Rightarrow> bool" where
  "driveRootExists pf root \<longleftrightarrow> (case pf_Stat pf root of Inl _ \<Rightarrow> False | Inr _ \<Rightarrow> True)"

definition candidateDriveLetters :: "char list" where
  "candidateDriveLetters = ''ZYXWVUTSRQPONMLKJIHGFED''"

definition drive_root :: "char \<Rightarrow> string" where
  "drive_root letter = [letter, CHR '':'', backslash]"

definition defaultMountPoint :: "platform \<Rightarrow> string" where
  "defaultMountPoint pf =
     (if \<not> pf_windows pf then ''M:''
      else (case find (\<lambda>letter. \<not> driveRootExists pf (drive_root letter)) candidateDriveLetters of
              Some letter \<Rightarrow> [letter, CHR '':'']
            | None \<Rightarrow> ''M:''))"

definition EqualFold :: "string \<Rightarrow> string \<Rightarrow> bool" where
  "EqualFold a b \<longleftrightarrow> ToLower a = ToLower b"

definition nextAvailableDriveLetter :: "platform \<Rightarrow> string \<Rightarrow> string" where
  "nextAvailableDriveLetter pf current =
     (let current = NormalizeMountPoint current;
          letters = candidateDriveLetters in
      case find (\<lambda>i. EqualFold [letters ! i, CHR '':''] current) [0..<length letters] of
        None \<Rightarrow> defaultMountPoint pf
      | Some start \<Rightarrow>
          (case find (\<lambda>offset. \<not> driveRootExists pf (drive_root (letters ! ((start + offset) mod length letters))))
                  [1..<length letters] of
             Some offset \<Rightarrow> [letters ! ((start + offset) mod length letters), CHR '':'']
           | None \<Rightarrow> []))"

definition ResolveMountPointForStart :: "platform \<Rightarrow> string \<Rightarrow> string \<times> bool" where
  "ResolveMountPointForStart pf v =
     (let v = NormalizeMountPoint v in
      if \<not> isDriveLetterMountPoint v then (v, False)
      else if \<not> driveRootExists pf (v @ [backslash]) then (v, False)
      else
        let nxt = nextAvailableDriveLetter pf v in
        if nxt \<noteq> [] \<and> nxt \<noteq> v then (nxt, True) else (v, False))"

section \<open>Directory mount points\<close>

text \<open>
  Package \<^verbatim>\<open>path/filepath\<close> on Windows, for the paths these functions give it: a drive letter, a colon
  and a rooted path with either separator.
\<close>

definition win_Clean :: "string \<Rightarrow> string" where
  "win_Clean p = take 2 p @ ReplaceAll (Clean (ReplaceAll (drop 2 p) backslash slash)) slash backslash"

definition win_Join :: "string \<Rightarrow> string \<Rightarrow> string" where
  "win_Join p c = win_Clean (p @ [backslash] @ c)"

definition win_Dir :: "string \<Rightarrow> string" where
  "win_Dir p = take 2 p @ ReplaceAll (Dir (ReplaceAll (drop 2 p) backslash slash)) slash backslash"

text \<open>The loop over the characters: the text built so far and whether a dash was written last.\<close>

definition leaf_step :: "char \<Rightarrow> string \<times> bool \<Rightarrow> string \<times> bool" where
  "leaf_step r = (\<lambda>(b, lastDash).
     let n = (of_char r :: nat) in
     if 97 \<le> n \<and> n \<le> 122 \<or> 48 \<le> n \<and> n \<le> 57 then (b @ [r], False)
     else if \<not> lastDash \<and> 0 < length b then (b @ ''-'', True)
     else (b, lastDash))"

definition directoryMountLeafHint :: "string \<Rightarrow> string" where
  "directoryMountLeafHint v =
     (let v = TrimSpace (ToLower v) in
      if v = [] then ''devmount''
      else
        let leaf = Trim (fst (fold leaf_step v ([], False))) (CHR ''-'') in
        if leaf = [] then ''devmount'' else leaf)"

partial_function (option) next_child :: "platform \<Rightarrow> string \<Rightarrow> string \<Rightarrow> nat \<Rightarrow> string option" where
  "next_child pf parent leaf i =
     (let candidate = win_Join parent (leaf @ ''-'' @ decimal i) in
      if \<not> pathExists pf candidate then Some candidate else next_child pf parent leaf (i + 1))"

declare next_child.simps [code]

definition nextAvailableDirectoryMountChild :: "platform \<Rightarrow> string \<Rightarrow> string \<Rightarrow> string option" where
  "nextAvailableDirectoryMountChild pf parent leaf =
     (let candidate = win_Join parent leaf in
      if \<not> pathExists pf candidate then Some candidate else next_child pf parent leaf 2)"

definition SuggestDirectoryMountPoint :: "platform \<Rightarrow> string \<Rightarrow> string \<Rightarrow> string option" where
  "SuggestDirectoryMountPoint pf v leafHint =
     (let v = NormalizeMountPoint v in
      if \<not> isLocalAbsoluteMountDir v then Some v
      else
        let v = win_Clean v in
        if pf_Stat pf v = Inr True
        then nextAvailableDirectoryMountChild pf v (directoryMountLeafHint leafHint)
        else Some v)"

text \<open>
  The mount point, whether its parent was created, and the error. \<open>mkdir_all\<close> is
  \<^verbatim>\<open>os.MkdirAll\<close>, which changes the system \<open>w\<close>; \<open>None\<close> when the search for a free child never ends.
\<close>

definition PrepareDirectoryMountPoint ::
  "platform \<Rightarrow> (string \<Rightarrow> 'w \<Rightarrow> go_error option \<times> 'w) \<Rightarrow> string \<Rightarrow> string \<Rightarrow> 'w \<Rightarrow>
    ((string \<times> bool \<times> string option) \<times> 'w) option" where
  "PrepareDirectoryMountPoint pf mkdir_all v leafHint w =
     (let v = NormalizeMountPoint v in
      if \<not> isLocalAbsoluteMountDir v then Some ((v, False, None), w)
      else
        let v = win_Clean v in
        case pf_Stat pf v of
          Inr False \<Rightarrow>
            Some ((v, False, Some (''mount point '' @ Quote v @ '' exists but is not a directory'')), w)
        | Inr True \<Rightarrow>
            map_option (\<lambda>suggestion. ((v, False, Some (''directory mount point '' @ Quote v @
              '' already exists; WinFsp expects a new mount leaf, try a child path such as '' @
              Quote suggestion)), w))
              (SuggestDirectoryMountPoint pf v leafHint)
        | Inl err \<Rightarrow>
            if \<not> IsNotExist err
            then Some ((v, False, Some (''stat mount point '' @ Quote v @ '': '' @ error_text err)), w)
            else
              let parent = win_Dir v in
              (case pf_Stat pf parent of
                 Inr False \<Rightarrow> Some ((v, False, Some (''mount point parent '' @ Quote parent @
                   '' exists but is not a directory'')), w)
               | Inr True \<Rightarrow> Some ((v, False, None), w)
               | Inl err \<Rightarrow>
                   if \<not> IsNotExist err
                   then Some ((v, False, Some (''stat mount point parent '' @ Quote parent @ '': '' @
                          error_text err)), w)
                   else (case mkdir_all parent w of
                           (Some err, w) \<Rightarrow> Some ((v, False, Some (''create mount point parent '' @
                             Quote parent @ '': '' @ error_text err)), w)
                         | (None, w) \<Rightarrow> Some ((v, True, None), w))))"

section \<open>The configuration\<close>

definition DefaultConfig :: "platform \<Rightarrow> Config" where
  "DefaultConfig pf =
     \<lparr>cfg_Addr = ''127.0.0.1:17890'', cfg_Token = ''devmount-dev-token'',
      cfg_ClientInstanceID = ''win32-test-ui'', cfg_LeaseSeconds = 30,
      cfg_MountPoint = defaultMountPoint pf, cfg_VolumePrefix = ''devmount'', cfg_Path = ''/'',
      cfg_LocalPath = ''devmount-local'', cfg_HostBackend = HostBackendAuto, cfg_Offset = 0,
      cfg_Length = 64, cfg_MaxEntries = 32\<rparr>"

definition Operations :: "Operation list" where
  "Operations = [OperationVolume, OperationGetAttr, OperationReadDir, OperationRead, OperationMaterialize]"

definition HostBackendOptions :: "string list" where
  "HostBackendOptions = [HostBackendAuto, HostBackendPreflight, HostBackendDispatcherV1]"

definition NormalizeHostBackend :: "string \<Rightarrow> string" where
  "NormalizeHostBackend v =
     (let v = TrimSpace (ToLower v) in
      if v = [] \<or> v = HostBackendAuto then HostBackendAuto
      else if v = HostBackendPreflight then HostBackendPreflight
      else if v = HostBackendDispatcherV1 then HostBackendDispatcherV1
      else v)"

definition or_default :: "string \<Rightarrow> string \<Rightarrow> string" where
  "or_default v fallback = (if TrimSpace v = [] then fallback else v)"

definition Normalized :: "platform \<Rightarrow> Config \<Rightarrow> Config" where
  "Normalized pf c =
     (let defaults = DefaultConfig pf;
          c = c\<lparr>cfg_Addr := or_default (cfg_Addr c) (cfg_Addr defaults)\<rparr>;
          c = c\<lparr>cfg_Token := or_default (cfg_Token c) (cfg_Token defaults)\<rparr>;
          c = c\<lparr>cfg_ClientInstanceID := or_default (cfg_ClientInstanceID c) (cfg_ClientInstanceID defaults)\<rparr>;
          c = (if cfg_LeaseSeconds c = 0 then c\<lparr>cfg_LeaseSeconds := cfg_LeaseSeconds defaults\<rparr> else c);
          c = c\<lparr>cfg_MountPoint := or_default (cfg_MountPoint c) (cfg_MountPoint defaults)\<rparr>;
          c = c\<lparr>cfg_MountPoint := NormalizeMountPoint (cfg_MountPoint c)\<rparr>;
          c = c\<lparr>cfg_VolumePrefix := or_default (cfg_VolumePrefix c) (cfg_VolumePrefix defaults)\<rparr>;
          c = c\<lparr>cfg_Path := or_default (cfg_Path c) (cfg_Path defaults)\<rparr>;
          c = (if HasPrefix (cfg_Path c) ''/'' then c else c\<lparr>cfg_Path := ''/'' @ cfg_Path c\<rparr>);
          c = c\<lparr>cfg_LocalPath := or_default (cfg_LocalPath c) (cfg_LocalPath defaults)\<rparr>;
          c = c\<lparr>cfg_HostBackend := NormalizeHostBackend (cfg_HostBackend c)\<rparr>;
          c = (if cfg_Length c = 0 then c\<lparr>cfg_Length := cfg_Length defaults\<rparr> else c);
          c = (if cfg_MaxEntries c = 0 then c\<lparr>cfg_MaxEntries := cfg_MaxEntries defaults\<rparr> else c)
      in c)"

definition Config_Validate :: "platform \<Rightarrow> Operation \<Rightarrow> Config \<Rightarrow> string option" where
  "Config_Validate pf oper c =
     (let c = Normalized pf c in
      if TrimSpace (cfg_Addr c) = [] then Some ''server address is required''
      else if TrimSpace (cfg_Token c) = [] then Some ''token is required''
      else if TrimSpace (cfg_ClientInstanceID c) = [] then Some ''client instance id is required''
      else if cfg_LeaseSeconds c = 0 then Some ''lease seconds must be greater than 0''
      else case ValidateMountPoint (cfg_MountPoint c) of
        Some err \<Rightarrow> Some err
      | None \<Rightarrow>
          if TrimSpace (cfg_VolumePrefix c) = [] then Some ''volume prefix is required''
          else if TrimSpace (cfg_Path c) = [] then Some ''path is required''
          else if \<not> HasPrefix (cfg_Path c) ''/'' then Some (''path must start with '' @ [CHR 0x27, slash, CHR 0x27])
          else if cfg_HostBackend c \<noteq> HostBackendAuto \<and> cfg_HostBackend c \<noteq> HostBackendPreflight \<and>
                  cfg_HostBackend c \<noteq> HostBackendDispatcherV1
            then Some (''unsupported host backend '' @ Quote (cfg_HostBackend c))
          else if oper = OperationMaterialize \<and> TrimSpace (cfg_LocalPath c) = []
            then Some ''local path is required for materialize''
          else if oper \<in> {OperationMount, OperationVolume, OperationGetAttr, OperationReadDir, OperationRead,
                          OperationMaterialize}
            then None
          else Some (''unsupported operation '' @ Quote oper))"

definition quoteIfNeeded :: "string \<Rightarrow> string" where
  "quoteIfNeeded s =
     (if s = [] then [CHR 0x22, CHR 0x22]
      else if \<not> list_ex (\<lambda>r. r = CHR '' '' \<or> r = CHR 0x09 \<or> r = CHR 0x22) s then s
      else [CHR 0x22] @ concat (map (\<lambda>r. if r = CHR 0x22 then [backslash, backslash, CHR 0x22] else [r]) s) @
           [CHR 0x22])"

definition BuildCLIPreview :: "platform \<Rightarrow> Config \<Rightarrow> Operation \<Rightarrow> string" where
  "BuildCLIPreview pf config oper =
     (let config = Normalized pf config;
          args = [''devmount-winfsp.exe'', ''-addr'', quoteIfNeeded (cfg_Addr config),
            ''-token'', quoteIfNeeded (cfg_Token config),
            ''-client-instance'', quoteIfNeeded (cfg_ClientInstanceID config), ''-op'', oper,
            ''-path'', quoteIfNeeded (cfg_Path config),
            ''-mount-point'', quoteIfNeeded (cfg_MountPoint config),
            ''-volume-prefix'', quoteIfNeeded (cfg_VolumePrefix config),
            ''-host-backend'', quoteIfNeeded (cfg_HostBackend config)];
          args = (if oper = OperationRead
                    then args @ [''-offset'', format_int (cfg_Offset config),
                                 ''-length'', format_u32 (cfg_Length config)]
                  else if oper = OperationReadDir
                    then args @ [''-max-entries'', format_u32 (cfg_MaxEntries config)]
                  else if oper = OperationMaterialize
                    then args @ [''-local-path'', quoteIfNeeded (cfg_LocalPath config),
                                 ''-length'', format_u32 (cfg_Length config),
                                 ''-max-entries'', format_u32 (cfg_MaxEntries config)]
                  else args)
      in Join args '' '')"

section \<open>Normalization\<close>

lemma trim_by_ends:
  assumes "trim_by P s \<noteq> []"
  shows "\<not> P (hd (trim_by P s))" and "\<not> P (last (trim_by P s))"
proof -
  let ?d = "dropWhile P s"
  have t: "trim_by P s = rev (dropWhile P (rev ?d))" by (simp add: trim_by_def)
  then have ne: "dropWhile P (rev ?d) \<noteq> []" using assms by simp
  then show "\<not> P (last (trim_by P s))"
    by (simp add: t last_rev hd_dropWhile)
  have "?d = trim_by P s @ rev (takeWhile P (rev ?d))"
    by (metis t rev_append rev_rev_ident takeWhile_dropWhile_id)
  then have "hd (trim_by P s) = hd ?d" by (metis assms hd_append2)
  moreover have "?d \<noteq> []" using ne by (metis dropWhile.simps(1) rev.simps(1))
  ultimately show "\<not> P (hd (trim_by P s))" by (simp add: hd_dropWhile)
qed

lemma TrimSpace_idem [simp]: "TrimSpace (TrimSpace s) = TrimSpace s"
proof (cases "TrimSpace s = []")
  case False
  then show ?thesis
    using trim_by_ends [of is_space s] by (intro TrimSpace_id) (simp_all add: TrimSpace_def)
qed (metis TrimSpace_def dropWhile.simps(1) rev.simps(1) trim_by_def)

lemma lower_char_lower [simp]: "lower_char (lower_char c) = lower_char c"
  by (simp add: lower_char_def Let_def)

lemma is_space_lower [simp]: "is_space (lower_char c) = is_space c"
  by (auto simp: lower_char_def is_space_def Let_def)

lemma trim_by_map: "(\<And>c. P (f c) = P c) \<Longrightarrow> trim_by P (map f s) = map f (trim_by P s)"
  by (simp add: trim_by_def dropWhile_map rev_map comp_def)

lemma TrimSpace_ToLower: "TrimSpace (ToLower s) = ToLower (TrimSpace s)"
  by (simp add: TrimSpace_def ToLower_def trim_by_map)

lemma ToLower_idem [simp]: "ToLower (ToLower s) = ToLower s"
  by (simp add: ToLower_def)

lemma NormalizeHostBackend_eq:
  "NormalizeHostBackend v = (if TrimSpace v = [] then HostBackendAuto else ToLower (TrimSpace v))"
  by (simp add: NormalizeHostBackend_def Let_def TrimSpace_ToLower) (simp add: ToLower_def)

lemma TrimSpace_auto [simp]: "TrimSpace ''auto'' = ''auto''" and ToLower_auto [simp]: "ToLower ''auto'' = ''auto''"
  by (simp_all add: TrimSpace_def trim_by_def is_space_def ToLower_def lower_char_def)

lemma NormalizeHostBackend_idem [simp]:
  "NormalizeHostBackend (NormalizeHostBackend v) = NormalizeHostBackend v"
proof (cases "TrimSpace v = []")
  case False
  then have "ToLower (TrimSpace v) \<noteq> []" by (simp add: ToLower_def)
  then show ?thesis by (simp add: NormalizeHostBackend_eq False TrimSpace_ToLower)
qed (simp add: NormalizeHostBackend_eq)

text \<open>A normal mount point is trimmed and not empty, and a drive letter is a capital.\<close>

lemma TrimSpace_drive [simp]: "\<not> is_space c \<Longrightarrow> TrimSpace [c, CHR '':''] = [c, CHR '':'']"
  by (intro TrimSpace_id) (simp_all add: is_space_def)

lemma isAlpha_not_space: "isAlpha c \<Longrightarrow> \<not> is_space c"
  by (auto simp: isAlpha_def is_space_def Let_def)

lemma upper_char_upper [simp]: "upper_char (upper_char c) = upper_char c"
  by (auto simp: upper_char_def Let_def)

lemma isAlpha_upper: "isAlpha c \<Longrightarrow> isAlpha (upper_char c)"
  by (auto simp: isAlpha_def upper_char_def Let_def)

lemma NormalizeMountPoint_drive:
  "isAlpha c \<Longrightarrow> NormalizeMountPoint [c, CHR '':''] = [upper_char c, CHR '':'']"
  by (simp add: NormalizeMountPoint_def Let_def isAlpha_not_space ToUpper_def)

lemma NormalizeMountPoint_cases:
  obtains (drive) c where "isAlpha c" "upper_char c = c" "NormalizeMountPoint v = [c, CHR '':'']"
  | (other) "NormalizeMountPoint v = TrimSpace v" "\<not> isDriveLetterMountPoint (TrimSpace v)"
proof (cases "2 \<le> length (TrimSpace v) \<and> isAlpha (TrimSpace v ! 0) \<and> TrimSpace v ! 1 = CHR '':'' \<and>
    list_all isPathSeparator (drop 2 (TrimSpace v))")
  case True
  then obtain c t where v: "TrimSpace v = c # CHR '':'' # t" "isAlpha c"
    by (cases "TrimSpace v"; cases "tl (TrimSpace v)") auto
  show thesis
    using True v isAlpha_upper by (intro drive [of "upper_char c"]) (auto simp: NormalizeMountPoint_def ToUpper_def)
next
  case False
  then show thesis
    by (intro other) (auto simp: NormalizeMountPoint_def Let_def isDriveLetterMountPoint_def)
qed

lemma NormalizeMountPoint_idem [simp]: "NormalizeMountPoint (NormalizeMountPoint v) = NormalizeMountPoint v"
  by (cases v rule: NormalizeMountPoint_cases)
    (simp_all add: NormalizeMountPoint_drive, simp add: NormalizeMountPoint_def)

lemma NormalizeMountPoint_blank [simp]: "TrimSpace (NormalizeMountPoint v) = [] \<longleftrightarrow> TrimSpace v = []"
proof (cases v rule: NormalizeMountPoint_cases)
  case (drive c)
  then have "TrimSpace v \<noteq> []" by (auto simp: NormalizeMountPoint_def Let_def)
  then show ?thesis using drive by (simp add: isAlpha_not_space)
qed simp

lemma or_default_idem [simp]: "or_default (or_default v d) d = or_default v d"
  by (simp add: or_default_def)

lemma or_default_blank [simp]: "TrimSpace d \<noteq> [] \<Longrightarrow> TrimSpace (or_default v d) \<noteq> []"
  by (simp add: or_default_def)

lemma or_default_keeps: "TrimSpace v \<noteq> [] \<Longrightarrow> or_default v d = v"
  by (simp add: or_default_def)

lemma find_in: "List.find P xs = Some x \<Longrightarrow> x \<in> set xs \<and> P x"
  by (auto simp: find_Some_iff)

lemma candidate_capital: "c \<in> set candidateDriveLetters \<Longrightarrow> isAlpha c \<and> upper_char c = c"
  unfolding candidateDriveLetters_def
  by (simp add: isAlpha_def upper_char_def) (elim disjE; simp)

lemma upper_lower_char: "isAlpha c \<Longrightarrow> upper_char c = c \<Longrightarrow> upper_char (lower_char c) = c"
  by (auto simp: isAlpha_def upper_char_def lower_char_def Let_def split: if_splits)

lemma defaultMountPoint_letter: "\<exists>c \<in> set candidateDriveLetters. defaultMountPoint pf = [c, CHR '':'']"
proof -
  have M: "CHR ''M'' \<in> set candidateDriveLetters" by (simp add: candidateDriveLetters_def)
  show ?thesis
    using M by (auto simp: defaultMountPoint_def dest: find_in split: option.split)
qed

lemma defaultMountPoint_blank [simp]: "TrimSpace (defaultMountPoint pf) \<noteq> []"
  using defaultMountPoint_letter [of pf] candidate_capital isAlpha_not_space by fastforce

lemma DefaultConfig_blank [simp]:
  "TrimSpace (cfg_Addr (DefaultConfig pf)) \<noteq> []" "TrimSpace (cfg_Token (DefaultConfig pf)) \<noteq> []"
  "TrimSpace (cfg_ClientInstanceID (DefaultConfig pf)) \<noteq> []" "TrimSpace (cfg_MountPoint (DefaultConfig pf)) \<noteq> []"
  "TrimSpace (cfg_VolumePrefix (DefaultConfig pf)) \<noteq> []" "TrimSpace (cfg_Path (DefaultConfig pf)) \<noteq> []"
  "TrimSpace (cfg_LocalPath (DefaultConfig pf)) \<noteq> []"
  by (simp_all add: DefaultConfig_def) (simp_all add: TrimSpace_def trim_by_def is_space_def)

lemma TrimSpace_blank_iff: "TrimSpace s = [] \<longleftrightarrow> list_all is_space s"
proof -
  have "dropWhile is_space (rev (dropWhile is_space s)) = [] \<longleftrightarrow> (\<forall>c \<in> set s. is_space c)"
  proof (cases "dropWhile is_space s = []")
    case True
    then show ?thesis by (metis dropWhile.simps(1) dropWhile_eq_Nil_conv rev.simps(1))
  next
    case False
    then have "hd (dropWhile is_space s) \<in> set (dropWhile is_space s)"
      and "\<not> is_space (hd (dropWhile is_space s))"
      by (simp_all add: hd_dropWhile del: dropWhile_eq_Nil_conv)
    then show ?thesis using False by (metis dropWhile_eq_Nil_conv set_rev)
  qed
  then show ?thesis by (simp add: TrimSpace_def trim_by_def list_all_iff)
qed

lemma rooted_not_blank: "HasPrefix p ''/'' \<Longrightarrow> TrimSpace p \<noteq> []"
  by (auto simp: HasPrefix_iff TrimSpace_blank_iff is_space_def)

text \<open>Each field of a normalized configuration.\<close>

definition rooted_path :: "string \<Rightarrow> string" where
  "rooted_path p = (if HasPrefix p ''/'' then p else ''/'' @ p)"

lemma Normalized_fields:
  "cfg_Addr (Normalized pf c) = or_default (cfg_Addr c) (cfg_Addr (DefaultConfig pf))"
  "cfg_Token (Normalized pf c) = or_default (cfg_Token c) (cfg_Token (DefaultConfig pf))"
  "cfg_ClientInstanceID (Normalized pf c) =
     or_default (cfg_ClientInstanceID c) (cfg_ClientInstanceID (DefaultConfig pf))"
  "cfg_LeaseSeconds (Normalized pf c) =
     (if cfg_LeaseSeconds c = 0 then cfg_LeaseSeconds (DefaultConfig pf) else cfg_LeaseSeconds c)"
  "cfg_MountPoint (Normalized pf c) =
     NormalizeMountPoint (or_default (cfg_MountPoint c) (cfg_MountPoint (DefaultConfig pf)))"
  "cfg_VolumePrefix (Normalized pf c) = or_default (cfg_VolumePrefix c) (cfg_VolumePrefix (DefaultConfig pf))"
  "cfg_Path (Normalized pf c) = rooted_path (or_default (cfg_Path c) (cfg_Path (DefaultConfig pf)))"
  "cfg_LocalPath (Normalized pf c) = or_default (cfg_LocalPath c) (cfg_LocalPath (DefaultConfig pf))"
  "cfg_HostBackend (Normalized pf c) = NormalizeHostBackend (cfg_HostBackend c)"
  "cfg_Offset (Normalized pf c) = cfg_Offset c"
  "cfg_Length (Normalized pf c) = (if cfg_Length c = 0 then cfg_Length (DefaultConfig pf) else cfg_Length c)"
  "cfg_MaxEntries (Normalized pf c) =
     (if cfg_MaxEntries c = 0 then cfg_MaxEntries (DefaultConfig pf) else cfg_MaxEntries c)"
  by (simp_all add: Normalized_def Let_def rooted_path_def)

lemma HasPrefix_rooted [simp]: "HasPrefix (rooted_path p) ''/''"
  by (simp add: rooted_path_def HasPrefix_def)

lemma rooted_path_idem [simp]: "rooted_path (rooted_path p) = rooted_path p"
  by (simp add: rooted_path_def [of "rooted_path p"])

lemma normal_config:
  "TrimSpace (cfg_Addr (Normalized pf c)) \<noteq> []" "TrimSpace (cfg_Token (Normalized pf c)) \<noteq> []"
  "TrimSpace (cfg_ClientInstanceID (Normalized pf c)) \<noteq> []" "cfg_LeaseSeconds (Normalized pf c) \<noteq> 0"
  "TrimSpace (cfg_MountPoint (Normalized pf c)) \<noteq> []" "TrimSpace (cfg_VolumePrefix (Normalized pf c)) \<noteq> []"
  "TrimSpace (cfg_Path (Normalized pf c)) \<noteq> []" "HasPrefix (cfg_Path (Normalized pf c)) ''/''"
  "TrimSpace (cfg_LocalPath (Normalized pf c)) \<noteq> []" "cfg_Length (Normalized pf c) \<noteq> 0"
  "cfg_MaxEntries (Normalized pf c) \<noteq> 0"
  by (simp_all add: Normalized_fields rooted_not_blank) (simp_all add: DefaultConfig_def)

lemma Normalized_idem [simp]: "Normalized pf (Normalized pf c) = Normalized pf c"
proof -
  have "Normalized pf d = d" if "d = Normalized pf c" for d
  proof (rule Config.equality)
    show "cfg_MountPoint (Normalized pf d) = cfg_MountPoint d"
      by (simp add: Normalized_fields that or_default_keeps)
    show "cfg_Path (Normalized pf d) = cfg_Path d"
      by (simp add: Normalized_fields that or_default_keeps rooted_not_blank)
    show "cfg_HostBackend (Normalized pf d) = cfg_HostBackend d"
      by (simp add: Normalized_fields that)
  qed (auto simp: that Normalized_fields)
  then show ?thesis by simp
qed

section \<open>Validation\<close>

text \<open>
  C40: Validation is exact: a configuration is refused for its mount point, if the normalized one is neither a
  drive letter nor an absolute directory, else for a backend that is not one of the options, else for an
  operation that is neither a mount nor one the client offers, and for nothing else; the other complaints,
  about a missing address, token, path or lease, are never made, because normalization replaces what is
  missing. A normalized configuration is unchanged by another normalization.
\<close>

theorem Validate_exact:
  "Config_Validate pf oper c =
     (let n = Normalized pf c; m = cfg_MountPoint n in
      if \<not> isDriveLetterMountPoint m \<and> \<not> isLikelyAbsoluteMountDir m
        then Some (''mount point '' @ Quote m @
          '' is invalid; expected a drive letter like X: or an absolute directory path'')
      else if cfg_HostBackend n \<notin> set HostBackendOptions
        then Some (''unsupported host backend '' @ Quote (cfg_HostBackend n))
      else if oper \<noteq> OperationMount \<and> oper \<notin> set Operations
        then Some (''unsupported operation '' @ Quote oper)
      else None) \<and>
   Normalized pf (Normalized pf c) = Normalized pf c"
proof -
  let ?m = "cfg_MountPoint (Normalized pf c)"
  have m: "NormalizeMountPoint ?m = ?m" by (simp add: Normalized_fields)
  have "?m \<noteq> []" using normal_config(5) [of pf c] by (auto simp: TrimSpace_def trim_by_def)
  then have "ValidateMountPoint ?m =
      (if \<not> isDriveLetterMountPoint ?m \<and> \<not> isLikelyAbsoluteMountDir ?m
       then Some (''mount point '' @ Quote ?m @
          '' is invalid; expected a drive letter like X: or an absolute directory path'') else None)"
    by (simp add: ValidateMountPoint_def m isDriveLetterMountPoint_def Let_def)
  then show ?thesis
    by (simp add: Config_Validate_def Let_def normal_config HostBackendOptions_def Operations_def)
qed

section \<open>Choosing a drive letter\<close>

definition drive_free :: "platform \<Rightarrow> string \<Rightarrow> bool" where
  "drive_free pf v \<longleftrightarrow> (\<exists>c \<in> set candidateDriveLetters. v = [c, CHR '':''] \<and> \<not> driveRootExists pf (drive_root c))"

definition no_drive_free :: "platform \<Rightarrow> bool" where
  "no_drive_free pf \<longleftrightarrow> (\<forall>c \<in> set candidateDriveLetters. driveRootExists pf (drive_root c))"

lemma defaultMountPoint_free: "pf_windows pf \<Longrightarrow> \<not> no_drive_free pf \<Longrightarrow> drive_free pf (defaultMountPoint pf)"
  by (auto simp: defaultMountPoint_def drive_free_def no_drive_free_def find_None_iff dest: find_in split: option.split)

lemma nextAvailableDriveLetter_free:
  assumes "v = [c, CHR '':'']" and "upper_char c = c" and "isAlpha c" and "c \<in> set candidateDriveLetters"
  shows "nextAvailableDriveLetter pf v = [] \<or> drive_free pf (nextAvailableDriveLetter pf v)"
proof -
  have "NormalizeMountPoint v = v" using assms by (simp add: NormalizeMountPoint_drive)
  moreover obtain i where "i < length candidateDriveLetters" "candidateDriveLetters ! i = c"
    using assms(4) by (metis in_set_conv_nth)
  ultimately have "List.find (\<lambda>i. EqualFold [candidateDriveLetters ! i, CHR '':''] (NormalizeMountPoint v))
      [0..<length candidateDriveLetters] \<noteq> None"
    using assms(1) unfolding find_None_iff by (auto simp: EqualFold_def)
  then obtain start where "List.find (\<lambda>i. EqualFold [candidateDriveLetters ! i, CHR '':''] (NormalizeMountPoint v))
      [0..<length candidateDriveLetters] = Some start"
    by blast
  moreover have "candidateDriveLetters ! (k mod length candidateDriveLetters) \<in> set candidateDriveLetters" for k
    by (intro nth_mem mod_less_divisor) (simp add: candidateDriveLetters_def)
  ultimately show ?thesis
    by (auto simp: nextAvailableDriveLetter_def drive_free_def Let_def dest!: find_in split: option.splits)
qed

text \<open>
  A mount never starts on a drive that is taken if another is known to be free: the mount point is changed
  only if it is a drive letter whose root exists, and then to a different drive whose root does not
  exist. The exceptions are the letters A to C, which are not candidates: there the default is taken, and
  the default is M without a look at it when the system is not Windows or no candidate is free.
\<close>

theorem resolved_drive_free:
  assumes "ResolveMountPointForStart pf v = (r, changed)"
  shows "(if changed then isDriveLetterMountPoint (NormalizeMountPoint v) \<and>
            driveRootExists pf (NormalizeMountPoint v @ [backslash]) \<and> r \<noteq> NormalizeMountPoint v \<and>
            (drive_free pf r \<or> r = ''M:'' \<and> hd (NormalizeMountPoint v) \<notin> set candidateDriveLetters \<and>
               (\<not> pf_windows pf \<or> no_drive_free pf))
          else r = NormalizeMountPoint v)"
proof -
  let ?v = "NormalizeMountPoint v" and ?n = "nextAvailableDriveLetter pf (NormalizeMountPoint v)"
  have free: "drive_free pf ?n \<or> ?n = ''M:'' \<and> hd ?v \<notin> set candidateDriveLetters \<and> (\<not> pf_windows pf \<or> no_drive_free pf)"
    if "isDriveLetterMountPoint ?v" "?n \<noteq> []"
  proof (cases v rule: NormalizeMountPoint_cases)
    case (drive c)
    show ?thesis
    proof (cases "c \<in> set candidateDriveLetters")
      case True
      then show ?thesis using nextAvailableDriveLetter_free [of ?v c pf] drive that by auto
    next
      case False
      have "\<not> EqualFold [d, CHR '':''] ?v" if "d \<in> set candidateDriveLetters" for d
        using that False drive candidate_capital [OF that] upper_lower_char [of c] upper_lower_char [of d]
        by (auto simp: EqualFold_def ToLower_def)
      then have "?n = defaultMountPoint pf"
        by (auto simp: nextAvailableDriveLetter_def Let_def dest!: find_in split: option.split)
      then show ?thesis
        using False drive defaultMountPoint_free [of pf]
        by (auto simp: defaultMountPoint_def no_drive_free_def dest: find_in split: option.splits)
    qed
  qed (use that in simp)
  show ?thesis
    using assms free by (auto simp: ResolveMountPointForStart_def Let_def split: if_splits)
qed

theorem resolved_drive_free_witness:
  "ResolveMountPointForStart
      \<lparr>pf_windows = True, pf_Stat = (\<lambda>p. if hd p \<in> {CHR ''C'', CHR ''X''} then Inr True else Inl ErrNotExist)\<rparr>
      '' x: '' = (''W:'', True) \<and>
   drive_free \<lparr>pf_windows = True, pf_Stat = (\<lambda>p. if hd p \<in> {CHR ''C'', CHR ''X''} then Inr True else Inl ErrNotExist)\<rparr>
      ''W:''"
proof
  let ?pf = "\<lparr>pf_windows = True, pf_Stat = (\<lambda>p. if hd p \<in> {CHR ''C'', CHR ''X''} then Inr True else Inl ErrNotExist)\<rparr>"
  show r: "ResolveMountPointForStart ?pf '' x: '' = (''W:'', True)" by code_simp
  have "\<not> no_drive_free ?pf" by code_simp
  then show "drive_free ?pf ''W:''" using resolved_drive_free [OF r] by simp
qed

section \<open>Directory mount points are new\<close>

text \<open>The search for a child ends if some numbered child is free, and then at the first that is.\<close>

lemma next_child_finds:
  "\<not> pathExists pf (win_Join parent (leaf @ ''-'' @ decimal (i + k))) \<Longrightarrow>
    \<exists>j \<le> k. next_child pf parent leaf i = Some (win_Join parent (leaf @ ''-'' @ decimal (i + j))) \<and>
      \<not> pathExists pf (win_Join parent (leaf @ ''-'' @ decimal (i + j)))"
proof (induction k arbitrary: i)
  case 0
  then show ?case by (subst next_child.simps) simp
next
  case (Suc k)
  show ?case
  proof (cases "pathExists pf (win_Join parent (leaf @ ''-'' @ decimal i))")
    case True
    have "\<not> pathExists pf (win_Join parent (leaf @ ''-'' @ decimal (i + 1 + k)))" using Suc.prems by simp
    from Suc.IH [OF this] obtain j where "j \<le> k"
      and "next_child pf parent leaf (i + 1) = Some (win_Join parent (leaf @ ''-'' @ decimal (i + 1 + j)))"
      and "\<not> pathExists pf (win_Join parent (leaf @ ''-'' @ decimal (i + 1 + j)))" by blast
    then show ?thesis
      using True by (subst next_child.simps) (auto intro!: exI [of _ "Suc j"])
  next
    case False
    then show ?thesis by (subst next_child.simps) (auto intro!: exI [of _ 0])
  qed
qed

lemma next_child_new: "next_child pf parent leaf i = Some r \<Longrightarrow> \<not> pathExists pf r"
  by (erule next_child.raw_induct [of "\<lambda>pf _ _ _ r. \<not> pathExists pf r", rotated])
    (auto simp: Let_def split: if_splits)

theorem suggested_mount_point_new:
  "SuggestDirectoryMountPoint pf v hint = Some r \<Longrightarrow> isLocalAbsoluteMountDir (NormalizeMountPoint v) \<Longrightarrow>
    pf_Stat pf r \<noteq> Inr True"
  using next_child_new
  by (fastforce simp: SuggestDirectoryMountPoint_def nextAvailableDirectoryMountChild_def Let_def pathExists_def
      split: if_splits sum.splits)

theorem prepared_mount_point_new:
  assumes "PrepareDirectoryMountPoint pf mkdir_all v hint w = Some ((r, created, None), w')"
    and "isLocalAbsoluteMountDir (NormalizeMountPoint v)"
  shows "\<not> pathExists pf r \<and> r = win_Clean (NormalizeMountPoint v) \<and>
    (if created then mkdir_all (win_Dir r) w = (None, w') else pf_Stat pf (win_Dir r) = Inr True \<and> w' = w)"
  using assms
  by (auto simp: PrepareDirectoryMountPoint_def pathExists_def Let_def
      split: sum.splits bool.splits if_splits option.splits prod.splits)

text \<open>The leaf made from a hint is one lower-case path component.\<close>

definition leaf_char :: "char \<Rightarrow> bool" where
  "leaf_char c \<longleftrightarrow> (let n = (of_char c :: nat) in 97 \<le> n \<and> n \<le> 122 \<or> 48 \<le> n \<and> n \<le> 57 \<or> n = 45)"

lemma leaf_steps: "list_all leaf_char b \<Longrightarrow> list_all leaf_char (fst (fold leaf_step v (b, d)))"
proof (induction v arbitrary: b d)
  case (Cons r v)
  then show ?case
    by (cases "leaf_step r (b, d)") (auto simp: leaf_step_def leaf_char_def Let_def split: if_splits)
qed simp

lemma set_trim_by: "set (trim_by P s) \<subseteq> set s"
  by (auto simp: trim_by_def dest!: set_dropWhileD)

theorem leaf_is_component:
  "directoryMountLeafHint v \<noteq> [] \<and> list_all leaf_char (directoryMountLeafHint v)"
proof -
  have "list_all leaf_char (Trim (fst (fold leaf_step w ([], False))) c)" for w c
    using leaf_steps [of "[]" w False] set_trim_by by (fastforce simp: Trim_def list_all_iff)
  then show ?thesis
    by (simp add: directoryMountLeafHint_def Let_def) (simp add: leaf_char_def)
qed

end
