(* ===== verification/LocalFiles.thy ===== *)
theory LocalFiles
  imports Paths
begin

text \<open>
  Local files of the client programs: the calls of package \<^verbatim>\<open>os\<close> that create directories and write whole
  files, on the file system model of \<^verbatim>\<open>Filesystem\<close>, and the way the stores of the Windows client
  replace a file: write a temporary file beside it, then rename it.
\<close>

section \<open>Directories and whole files\<close>

definition os_Mkdir :: "string \<Rightarrow> fs \<Rightarrow> go_error option \<times> fs" where
  "os_Mkdir p f =
     (case resolve f p of
        Inr _ \<Rightarrow> (Some (PathError ''mkdir'' p EEXIST), f)
      | Inl e \<Rightarrow>
          if e \<noteq> ENOENT then (Some (PathError ''mkdir'' p e), f)
          else
            (case resolve f (Dir p) of
               Inl e' \<Rightarrow> (Some (PathError ''mkdir'' p e'), f)
             | Inr (d, dn) \<Rightarrow>
                 if \<not> i_isdir dn then (Some (PathError ''mkdir'' p ENOTDIR), f)
                 else if \<not> i_writable dn then (Some (PathError ''mkdir'' p EACCES), f)
                 else
                   let i = fs_next f;
                       n = \<lparr>i_isdir = True, i_data = [], i_mode = 2147484141, i_mtime = fs_clock f,
                            i_readable = True, i_writable = True, i_faults = []\<rparr>
                   in (None,
                       touch_path (Dir p)
                         (f\<lparr>fs_paths := (p, i) # filter (\<lambda>(q, _). q \<noteq> p) (fs_paths f),
                            fs_inodes := (fs_inodes f)(i \<mapsto> n), fs_next := Suc i\<rparr>))))"

text \<open>
  \<^verbatim>\<open>os.MkdirAll\<close>: the recursion over the parents, written from the top down. (Go looks once more whether
  the directory exists when \<^verbatim>\<open>Mkdir\<close> fails, for the sake of concurrent creations.)
\<close>

fun make_dirs :: "string list \<Rightarrow> fs \<Rightarrow> go_error option \<times> fs" where
  "make_dirs [] f = (None, f)"
| "make_dirs (a # as) f =
     (case os_Stat f a of
        Inr info \<Rightarrow>
          if fi_IsDir info then make_dirs as f else (Some (PathError ''mkdir'' a ENOTDIR), f)
      | Inl _ \<Rightarrow>
          (case os_Mkdir a f of
             (Some err, f) \<Rightarrow> (Some err, f)
           | (None, f) \<Rightarrow> make_dirs as f))"

definition os_MkdirAll :: "string \<Rightarrow> fs \<Rightarrow> go_error option \<times> fs" where
  "os_MkdirAll p f =
     (case os_Stat f p of
        Inr info \<Rightarrow> if fi_IsDir info then (None, f) else (Some (PathError ''mkdir'' p ENOTDIR), f)
      | Inl _ \<Rightarrow> make_dirs (ancestors p @ [p]) f)"

definition os_Create :: "string \<Rightarrow> fs \<Rightarrow> (go_error + OsFile) \<times> fs" where
  "os_Create p f = os_OpenFile True True False True p f"

definition os_WriteFile :: "string \<Rightarrow> bytes \<Rightarrow> fs \<Rightarrow> go_error option \<times> fs" where
  "os_WriteFile p data f =
     (case os_OpenFile True True False True p f of
        (Inl err, f) \<Rightarrow> (Some err, f)
      | (Inr file, f) \<Rightarrow>
          (case file_WriteAt file data 0 f of
             ((_, werr), f) \<Rightarrow>
               (case werr of Some err \<Rightarrow> (Some err, f) | None \<Rightarrow> (file_Close f file, f))))"

section \<open>Replacing a file\<close>

text \<open>
  How the system behaves during one replacement: a write that stops after some bytes, a close and a
  rename that fail, and whether a rename is atomic. Package \<^verbatim>\<open>os\<close> promises that only on Unix; elsewhere
  there may be a moment in which the old file is gone and the new one not there yet, and a rename
  that fails there (\<open>io_torn\<close>) leaves it that way.
\<close>

record replace_io =
  io_write :: "(nat \<times> go_error) option"
  io_close :: "go_error option"
  io_rename :: "go_error option"
  io_atomic :: bool
  io_torn :: bool

text \<open>\<^verbatim>\<open>os.WriteFile\<close> with the file systems it passes through: after opening, and after every byte written.\<close>

definition write_moments :: "replace_io \<Rightarrow> string \<Rightarrow> bytes \<Rightarrow> fs \<Rightarrow> go_error option \<times> fs list" where
  "write_moments io p data f =
     (case os_OpenFile True True False True p f of
        (Inl err, f) \<Rightarrow> (Some err, [f])
      | (Inr file, f) \<Rightarrow>
          let written = (\<lambda>k. snd (file_WriteAt file (take k data) 0 f)) in
          (case io_write io of
             Some (k, err) \<Rightarrow> (Some err, f # map written [0..<Suc k])
           | None \<Rightarrow>
               (case file_WriteAt file data 0 f of
                  ((_, Some err), f') \<Rightarrow> (Some err, [f, f'])
                | ((_, None), f') \<Rightarrow>
                    (if io_close io \<noteq> None then io_close io else file_Close f' file,
                     f # map written [0..<Suc (length data)] @ [f']))))"

text \<open>\<^verbatim>\<open>os.Rename\<close> onto an existing file, with the file systems it passes through.\<close>

definition without_path :: "string \<Rightarrow> fs \<Rightarrow> fs" where
  "without_path p f = f\<lparr>fs_paths := filter (\<lambda>(q, _). q \<noteq> p) (fs_paths f)\<rparr>"

definition rename_moments :: "replace_io \<Rightarrow> string \<Rightarrow> string \<Rightarrow> fs \<Rightarrow> go_error option \<times> fs list" where
  "rename_moments io a b f =
     (case os_Rename a b f of
        (Some err, f') \<Rightarrow> (Some err, [f'])
      | (None, f') \<Rightarrow>
          (case io_rename io of
             Some err \<Rightarrow> (Some err, if io_atomic io \<or> \<not> io_torn io then [f] else [without_path b f])
           | None \<Rightarrow> (None, (if io_atomic io then [] else [without_path b f]) @ [f'])))"

text \<open>
  The steps, each with the text its error is reported with. The payload is \<open>None\<close> if it could not be
  encoded; it is encoded after the directory was made. The result has the file systems at all
  moments, the last of which is the final one.
\<close>

record replace_texts =
  rx_dir :: string
  rx_encode :: string
  rx_write :: string
  rx_rename :: string

definition replace_moments ::
  "replace_io \<Rightarrow> replace_texts \<Rightarrow> string \<Rightarrow> bytes option \<Rightarrow> fs \<Rightarrow> string option \<times> fs list" where
  "replace_moments io texts path encoded f =
     (case os_MkdirAll (Dir path) f of
        (Some err, f1) \<Rightarrow> (Some (rx_dir texts @ '': '' @ error_text err), [f, f1])
      | (None, f1) \<Rightarrow>
          (case encoded of
             None \<Rightarrow> (Some (rx_encode texts), [f, f1])
           | Some payload \<Rightarrow>
               let payload = payload @ [10]; tmp = path @ ''.tmp'' in
               (case write_moments io tmp payload f1 of
                  (Some err, ws) \<Rightarrow> (Some (rx_write texts @ '': '' @ error_text err), f # f1 # ws)
                | (None, ws) \<Rightarrow>
                    (case rename_moments io tmp path (last ws) of
                       (Some err, rs) \<Rightarrow> (Some (rx_rename texts @ '': '' @ error_text err), f # f1 # ws @ rs)
                     | (None, rs) \<Rightarrow> (None, f # f1 # ws @ rs)))))"

definition replace_file ::
  "replace_io \<Rightarrow> replace_texts \<Rightarrow> string \<Rightarrow> bytes option \<Rightarrow> fs \<Rightarrow> string option \<times> fs" where
  "replace_file io texts path encoded f =
     (case replace_moments io texts path encoded f of (err, moments) \<Rightarrow> (err, last moments))"

lemma write_moments_done:
  "write_moments io p data f = (None, ws) \<Longrightarrow> os_WriteFile p data f = (None, last ws)"
  by (auto simp: write_moments_def os_WriteFile_def Let_def split: prod.splits sum.splits option.splits if_splits)

lemma rename_moments_done:
  "rename_moments io a b f = (None, rs) \<Longrightarrow> rs \<noteq> [] \<and> os_Rename a b f = (None, last rs)"
  by (auto simp: rename_moments_def split: prod.splits option.splits if_splits)

text \<open>A replacement that succeeds has made the directory, written the temporary file and renamed it.\<close>

lemma replace_file_done:
  assumes "replace_file io texts path encoded f = (None, f')"
  obtains payload f1 f2 where "encoded = Some payload" "os_MkdirAll (Dir path) f = (None, f1)"
    "os_WriteFile (path @ ''.tmp'') (payload @ [10]) f1 = (None, f2)" "os_Rename (path @ ''.tmp'') path f2 = (None, f')"
  using assms
  by (auto simp: replace_file_def replace_moments_def Let_def split: prod.splits option.splits
      dest!: write_moments_done rename_moments_done)

section \<open>What a path holds\<close>

text \<open>The bytes that \<^verbatim>\<open>os.ReadFile\<close> finds at a path.\<close>

definition stored :: "fs \<Rightarrow> string \<Rightarrow> bytes option" where
  "stored f p = (case os_ReadFile f p of Inl _ \<Rightarrow> None | Inr d \<Rightarrow> Some d)"

lemma ancestors_siblings:
  "slash \<notin> set n \<Longrightarrow> slash \<notin> set n' \<Longrightarrow> ancestors (d @ slash # n) = ancestors (d @ slash # n')"
  by (auto simp: ancestors_def Let_def Split_append_sep Split_free)

lemma Join_take_drop:
  "0 < k \<Longrightarrow> k < length cs \<Longrightarrow> Join cs sep = Join (take k cs) sep @ sep @ Join (drop k cs) sep"
proof (induction cs arbitrary: k)
  case (Cons c cs)
  show ?case
  proof (cases "k = 1")
    case True
    then show ?thesis using Cons.prems by (simp add: Join_Cons)
  next
    case False
    then obtain j where k: "k = Suc j" "0 < j" "j < length cs" using Cons.prems by (cases k) auto
    then have "take j cs \<noteq> []" "cs \<noteq> []" by auto
    then show ?thesis using Cons.IH [OF k(2,3)] k(1) by (simp add: Join_Cons)
  qed
qed simp

lemma ancestor_above:
  assumes "a \<in> set (ancestors p)"
  obtains t where "p = a @ slash # t"
proof -
  obtain k where k: "2 \<le> k" "k < length (Split p slash)" "a = Join (take k (Split p slash)) ''/''"
    using assms by (auto simp: ancestors_def Let_def)
  then have "Join (Split p slash) ''/'' = a @ ''/'' @ Join (drop k (Split p slash)) ''/''"
    using Join_take_drop [of k "Split p slash" "''/''"] by simp
  then show thesis using that by (simp add: Join_Split)
qed

text \<open>All that reading depends on: what a path names, apart from the time of its last change.\<close>

definition view :: "fs \<Rightarrow> string \<Rightarrow> (nat \<times> inode) option" where
  "view f p = map_option (\<lambda>(i, n). (i, n\<lparr>i_mtime := 0\<rparr>)) (inode_at f p)"

definition is_dir_at :: "fs \<Rightarrow> string \<Rightarrow> bool" where
  "is_dir_at f p \<longleftrightarrow> (case view f p of None \<Rightarrow> False | Some (i, n) \<Rightarrow> i_isdir n \<and> i_readable n)"

definition content_at :: "fs \<Rightarrow> string \<Rightarrow> bytes option" where
  "content_at f p =
     (case view f p of
        None \<Rightarrow> None
      | Some (i, n) \<Rightarrow> if \<not> i_isdir n \<and> i_readable n \<and> FRead \<notin> set (i_faults n) then Some (i_data n) else None)"

lemma check_dirs_None: "check_dirs f as = None \<longleftrightarrow> (\<forall>a \<in> set as. is_dir_at f a)"
  by (induction as) (auto simp: is_dir_at_def view_def split: option.split)

lemma stored_eq: "stored f p = (if \<forall>a \<in> set (ancestors p). is_dir_at f a then content_at f p else None)"
  unfolding check_dirs_None [symmetric]
  by (simp add: stored_def os_ReadFile_def resolve_def content_at_def view_def split: option.split)

lemma stored_cong:
  "(\<And>a. a \<in> set (ancestors p) \<Longrightarrow> view f' a = view f a) \<Longrightarrow> view f' p = view f p \<Longrightarrow> stored f' p = stored f p"
  by (simp add: stored_eq is_dir_at_def content_at_def)

lemma view_touch [simp]: "view (touch_path q f) p = view f p"
  by (auto simp: view_def touch_path_def upd_inode_def inode_at_def split: option.split)

lemma stored_touch [simp]: "stored (touch_path q f) p = stored f p"
  by (rule stored_cong) simp_all

lemma inode_at_upd:
  "inode_at (upd_inode i g f) p = map_option (\<lambda>(j, n). (j, if j = i then g n else n)) (inode_at f p)"
  by (auto simp: inode_at_def upd_inode_def option.map_comp comp_def split: option.split)

text \<open>A clean path below the root is a directory and a name in it.\<close>

lemma abs_clean_split:
  assumes "abs_clean p" and "p \<noteq> ''/''"
  obtains d n where "p = d @ slash # n" "valid_name n" "Dir p = (if d = [] then ''/'' else d)"
    "ancestors p = (if d = [] then [] else ancestors d @ [d])"
proof -
  obtain t where t: "p = slash # t" "clean_rel t" "t \<noteq> []" using assms by (auto simp: abs_clean_def)
  from t(2) show thesis
  proof (cases rule: clean_rel_cases)
    case root
    then show thesis using t(3) by simp
  next
    case name
    then have "slash \<notin> set t" by (simp add: valid_name_def)
    then have "Dir p = ''/''"
      using dropWhile_not_slash [of t "[]"] by (simp add: Dir_def t(1) Clean_def clean_step_def)
    moreover have "ancestors p = []" using \<open>slash \<notin> set t\<close> by (simp add: ancestors_def t(1) Split_free)
    ultimately show thesis using name t(1) that [of "[]" t] by simp
  next
    case (below u n)
    then have n: "slash \<notin> set n" by (simp add: valid_name_def)
    have "Dir p = Clean (slash # u @ ''/'')"
      using dropWhile_not_slash [OF n, of "rev u @ [slash]"] by (simp add: Dir_def t(1) below)
    also have "\<dots> = slash # u"
      using below(2,3) by (auto simp: Clean_def Let_def Split_append_sep clean_rel_def fold_clean_step Join_Split
          clean_step_def)
    finally have "Dir p = slash # u" .
    moreover have "[2..<Suc (length (Split (slash # u) slash))] =
        [2..<length (Split (slash # u) slash)] @ [length (Split (slash # u) slash)]"
      by (cases "Split u slash") (simp_all add: upt_Suc_append)
    then have "ancestors p = ancestors (slash # u) @ [slash # u]"
      using Join_Split [of "slash # u" slash]
      by (auto simp: ancestors_def Let_def t(1) below Split_append_sep Split_free n take_Cons' simp del: upt_Suc)
    ultimately show thesis using t(1) below that [of "slash # u" n] by simp
  qed
qed

lemma check_dirs_append:
  "check_dirs f (as @ bs) = (case check_dirs f as of None \<Rightarrow> check_dirs f bs | Some e \<Rightarrow> Some e)"
  by (induction as) (auto split: option.split)

section \<open>Writing\<close>

definition no_faults :: "fs \<Rightarrow> bool" where
  "no_faults f \<longleftrightarrow> (\<forall>i n. fs_inodes f i = Some n \<longrightarrow> i_faults n = [])"

definition fresh_inode :: "fs \<Rightarrow> bool" where
  "fresh_inode f \<longleftrightarrow> (\<forall>(q, i) \<in> set (fs_paths f). i < fs_next f)"

lemma view_set_data [simp]:
  "view (upd_inode i (set_data d t) f) p =
     map_option (\<lambda>(j, n). (j, if j = i then n\<lparr>i_data := d\<rparr> else n)) (view f p)"
  by (cases "inode_at f p") (auto simp: view_def inode_at_upd set_data_def)

lemma view_add:
  assumes "fresh_inode f"
  shows "view (f\<lparr>fs_paths := (p, fs_next f) # filter (\<lambda>(q, _). q \<noteq> p) (fs_paths f),
      fs_inodes := (fs_inodes f)(fs_next f \<mapsto> n), fs_next := k\<rparr>) q =
    (if q = p then Some (fs_next f, n\<lparr>i_mtime := 0\<rparr>) else view f q)"
proof -
  have "map_of (filter (\<lambda>(q, _). q \<noteq> p) xs) q = map_of xs q" if "q \<noteq> p" for xs :: "(string \<times> nat) list"
    using that by (induction xs) auto
  moreover have "map_of (fs_paths f) q = Some i \<Longrightarrow> i < fs_next f" for i
    using assms by (auto simp: fresh_inode_def dest!: map_of_SomeD)
  ultimately show ?thesis by (auto simp: view_def inode_at_def split: option.split)
qed

lemma is_dir_at_set_data [simp]: "is_dir_at (upd_inode i (set_data d t) f) a = is_dir_at f a"
  by (auto simp: is_dir_at_def split: option.split)

lemma is_dir_at_touch [simp]: "is_dir_at (touch_path q f) a = is_dir_at f a"
  by (simp add: is_dir_at_def)

lemma fresh_inode_touch [simp]: "fresh_inode (touch_path q f) = fresh_inode f"
  by (simp add: fresh_inode_def touch_path_def upd_inode_def split: option.split)

text \<open>Opening a file for writing over it.\<close>

lemma open_truncated:
  assumes "os_OpenFile True True False True p f = (Inr file, f')"
    and "abs_clean p" and "p \<noteq> ''/''" and "fresh_inode f" and "no_faults f"
  shows "\<exists>n. view f' p = Some (of_inode file, n) \<and> \<not> i_isdir n \<and> i_readable n \<and> i_data n = [] \<and> i_faults n = []"
    and "\<forall>a \<in> set (ancestors p). is_dir_at f' a"
proof -
  obtain d nm where p: "p = d @ slash # nm" "valid_name nm" "Dir p = (if d = [] then ''/'' else d)"
    "ancestors p = (if d = [] then [] else ancestors d @ [d])"
    by (rule abs_clean_split [OF assms(2,3)])
  have "(\<exists>n. view f' p = Some (of_inode file, n) \<and> \<not> i_isdir n \<and> i_readable n \<and> i_data n = [] \<and> i_faults n = []) \<and>
    (\<forall>a \<in> set (ancestors p). is_dir_at f' a)"
  proof (cases "resolve f p")
    case (Inr r)
    obtain i n where r: "r = (i, n)" by (cases r)
    have "check_dirs f (ancestors p) = None" "inode_at f p = Some (i, n)"
      using Inr r by (auto simp: resolve_def split: option.splits)
    moreover have "i_faults n = []"
      using assms(5) \<open>inode_at f p = Some (i, n)\<close> by (auto simp: inode_at_def no_faults_def split: option.splits)
    ultimately show ?thesis
      using assms(1) Inr r
      by (auto simp: os_OpenFile_def check_dirs_None view_def [of f p] split: if_splits)
  next
    case (Inl e)
    then have e: "e = ENOENT" and "\<exists>x. resolve f (Dir p) = Inr x"
      using assms(1) by (auto simp: os_OpenFile_def split: if_splits sum.splits)
    then obtain j dn where dir: "resolve f (Dir p) = Inr (j, dn)" by auto
    have isdir: "i_isdir dn"
      using assms(1) Inl e dir by (auto simp: os_OpenFile_def split: if_splits)
    have "check_dirs f (ancestors p) = None"
    proof (cases "d = []")
      case False
      then have "check_dirs f (ancestors d) = None" "inode_at f d = Some (j, dn)"
        using dir p(3) by (auto simp: resolve_def split: option.splits)
      then show ?thesis
        using Inl e isdir p(4) False by (auto simp: resolve_def check_dirs_append split: if_splits option.splits)
    qed (use p(4) in simp)
    then have dirs: "\<forall>a \<in> set (ancestors p). is_dir_at f a" by (simp add: check_dirs_None)
    have not_self: "p \<notin> set (ancestors p)" by (auto elim: ancestor_above)
    show ?thesis
      using assms(1) Inl e dir isdir dirs not_self
      by (auto simp: os_OpenFile_def Let_def is_dir_at_def view_add [OF assms(4)] split: if_splits)
  qed
  then show "\<exists>n. view f' p = Some (of_inode file, n) \<and> \<not> i_isdir n \<and> i_readable n \<and> i_data n = [] \<and> i_faults n = []"
    and "\<forall>a \<in> set (ancestors p). is_dir_at f' a" by blast+
qed

lemma view_inode:
  "view f p = Some (i, n) \<Longrightarrow> \<exists>m. fs_inodes f i = Some m \<and> n = m\<lparr>i_mtime := 0\<rparr>"
  by (auto simp: view_def inode_at_def split: option.splits)

lemma WriteFile_stored:
  assumes "os_WriteFile p data f = (None, f')" and "abs_clean p" and "p \<noteq> ''/''"
    and "fresh_inode f" and "no_faults f"
  shows "stored f' p = Some data"
proof -
  obtain fl f1 where opened: "os_OpenFile True True False True p f = (Inr fl, f1)"
    using assms(1) by (auto simp: os_WriteFile_def split: prod.splits sum.splits)
  from open_truncated [OF this assms(2-5)] obtain n
    where n: "view f1 p = Some (of_inode fl, n)" "\<not> i_isdir n" "i_readable n" "i_data n = []" "i_faults n = []"
      and dirs: "\<forall>a \<in> set (ancestors p). is_dir_at f1 a" by blast
  obtain m where m: "fs_inodes f1 (of_inode fl) = Some m" "n = m\<lparr>i_mtime := 0\<rparr>"
    using view_inode [OF n(1)] by blast
  have "f' = upd_inode (of_inode fl) (set_data data (fs_clock f1)) f1"
  proof -
    have "upd_inode (of_inode fl) (\<lambda>n. set_data (overlay (i_data n) 0 data) (fs_clock f1) n) f1 =
        upd_inode (of_inode fl) (set_data data (fs_clock f1)) f1"
      using m n(4) by (simp add: upd_inode_def overlay_def)
    then show ?thesis
      using assms(1) opened m by (auto simp: os_WriteFile_def file_WriteAt_def split: if_splits)
  qed
  then show ?thesis using n dirs by (simp add: stored_eq content_at_def)
qed

section \<open>Renaming\<close>

lemma map_of_move:
  assumes "distinct (map fst xs)" and "inj_on g (fst ` set xs)" and "q \<in> fst ` set xs"
  shows "map_of (map (\<lambda>(q, k). (g q, k)) xs) (g q) = map_of xs q"
  using assms
proof (induction xs)
  case (Cons x xs)
  obtain q' k where x: "x = (q', k)" by (cases x)
  show ?case
  proof (cases "q = q'")
    case False
    then have "q \<in> fst ` set xs" using Cons.prems(3) x by auto
    moreover have "g q \<noteq> g q'" using inj_onD [OF Cons.prems(2), of q q'] Cons.prems(3) x False by auto
    ultimately show ?thesis using Cons x False by (simp add: inj_on_def)
  qed (simp add: x)
qed simp

lemma map_of_filter_key: "P q \<Longrightarrow> map_of (filter (\<lambda>(q, _). P q) xs) q = map_of xs q"
  by (induction xs) auto

lemma Rename_stored:
  assumes "os_Rename a b f = (None, f')" and "a = b @ sfx" and "sfx \<noteq> []" and "slash \<notin> set sfx"
    and "fs_wf f" and "abs_clean b" and "b \<noteq> ''/''" and "stored f a = Some d"
  shows "stored f' b = Some d"
proof -
  obtain u n where b: "b = u @ slash # n" "valid_name n" by (rule abs_clean_split [OF assms(6,7)]) blast
  have anc: "ancestors a = ancestors b"
    using ancestors_siblings [of "n @ sfx" n u] assms(2,4) b by (simp add: valid_name_def)
  let ?keep = "\<lambda>q. q \<noteq> b \<and> \<not> HasPrefix q (b @ ''/'')"
  let ?xs = "filter (\<lambda>(q, _). ?keep q) (fs_paths f)"
  let ?f = "f\<lparr>fs_paths := map (\<lambda>(q, k). (move_path a b q, k)) ?xs\<rparr>"
  have inj: "inj_on (move_path a b) (fst ` set ?xs)" by (rule inj_on_subset [OF move_path_inj]) auto
  have dist: "distinct (map fst ?xs)" using assms(5) by (auto simp: fs_wf_def distinct_map intro: inj_on_subset)
  have moved: "view ?f (move_path a b q) = view f q" if "view f q \<noteq> None" "?keep q" for q
  proof -
    have "map_of (fs_paths f) q \<noteq> None" using that(1) by (auto simp: view_def inode_at_def split: option.splits)
    then obtain i where "(q, i) \<in> set (fs_paths f)" by (auto dest: map_of_SomeD)
    then have "q \<in> fst ` set ?xs" using that(2) by force
    then show ?thesis
      using map_of_move [OF dist inj, of q] map_of_filter_key [of ?keep q "fs_paths f", OF that(2)]
      by (auto simp: view_def inode_at_def split: option.split)
  qed
  have dirs: "\<forall>q \<in> set (ancestors b). is_dir_at f q" and content: "content_at f a = Some d"
    using assms(8) by (simp_all add: stored_eq anc split: if_splits)
  have same: "is_dir_at ?f q" if "q \<in> set (ancestors b)" for q
  proof -
    from that obtain t where t: "b = q @ slash # t" by (rule ancestor_above)
    then have "?keep q" "move_path a b q = q" using assms(2) by (auto simp: HasPrefix_iff move_path_def)
    moreover have "view f q \<noteq> None" using dirs that by (cases "view f q") (auto simp: is_dir_at_def)
    ultimately show ?thesis using moved [of q] dirs that by (simp add: is_dir_at_def)
  qed
  have "\<not> HasPrefix a (b @ ''/'')" using assms(2,4) by (cases sfx) (auto simp: HasPrefix_iff)
  then have "view ?f b = view f a"
    using moved [of a] content assms(2,3) by (auto simp: content_at_def move_path_def split: option.splits)
  then have "stored ?f b = Some d" using same content by (simp add: stored_eq content_at_def)
  moreover have "f' = touch_path (Dir b) (touch_path (Dir a) ?f)"
    using assms(1-3) by (auto simp: os_Rename_def Let_def split: sum.splits prod.splits if_splits)
  ultimately show ?thesis by simp
qed

section \<open>Sound file systems\<close>

definition fs_ok :: "fs \<Rightarrow> bool" where
  "fs_ok f \<longleftrightarrow> fs_wf f \<and> fresh_inode f \<and> no_faults f"

lemma no_faults_upd: "no_faults f \<Longrightarrow> no_faults (upd_inode i (set_data d t) f)"
  by (auto simp: no_faults_def upd_inode_def set_data_def)

lemma no_faults_touch: "no_faults f \<Longrightarrow> no_faults (touch_path p f)"
  by (auto simp: no_faults_def touch_path_def upd_inode_def split: option.splits)

lemma fresh_inode_upd [simp]: "fresh_inode (upd_inode i g f) = fresh_inode f"
  by (simp add: fresh_inode_def upd_inode_def)

lemma fs_ok_upd [simp]: "fs_ok f \<Longrightarrow> fs_ok (upd_inode i (set_data d t) f)"
  by (simp add: fs_ok_def no_faults_upd)

lemma fs_ok_touch [simp]: "fs_ok f \<Longrightarrow> fs_ok (touch_path p f)"
  by (simp add: fs_ok_def no_faults_touch)

lemma fs_ok_add:
  assumes "fs_ok f" and "abs_clean p" and "i_faults n = []"
  shows "fs_ok (f\<lparr>fs_paths := (p, fs_next f) # filter (\<lambda>(q, _). q \<noteq> p) (fs_paths f),
      fs_inodes := (fs_inodes f)(fs_next f \<mapsto> n), fs_next := Suc (fs_next f)\<rparr>)"
  using assms fs_wf_add [of f p "fs_next f"]
  by (auto simp: fs_ok_def fs_wf_def fresh_inode_def no_faults_def)

lemma fs_ok_Mkdir: "fs_ok f \<Longrightarrow> abs_clean p \<Longrightarrow> fs_ok (snd (os_Mkdir p f))"
  by (auto simp: os_Mkdir_def Let_def fs_ok_add split: sum.split prod.split)

lemma fs_ok_make_dirs: "fs_ok f \<Longrightarrow> list_all abs_clean as \<Longrightarrow> fs_ok (snd (make_dirs as f))"
proof (induction as arbitrary: f)
  case (Cons a as)
  then show ?case
    using fs_ok_Mkdir [of f a] by (cases "os_Mkdir a f") (auto split: sum.split option.split)
qed simp

lemma Join_not_Nil: "sep \<noteq> [] \<Longrightarrow> 2 \<le> length xs \<Longrightarrow> Join xs sep \<noteq> []"
  by (induction xs sep rule: Join.induct) auto

lemma ancestors_clean:
  assumes "abs_clean p" and "a \<in> set (ancestors p)"
  shows "abs_clean a"
proof -
  obtain t where t: "p = a @ slash # t" using assms(2) by (rule ancestor_above)
  have "a \<noteq> []" using assms(2) by (auto simp: ancestors_def Let_def Join_not_Nil)
  moreover then have "t \<noteq> []" using assms(1) t by (cases a) (auto simp: abs_clean_def clean_rel_append_iff)
  ultimately show ?thesis using abs_clean_below [of a t] assms(1) t by blast
qed

lemma abs_clean_Dir: "abs_clean p \<Longrightarrow> p \<noteq> ''/'' \<Longrightarrow> abs_clean (Dir p)"
proof -
  assume p: "abs_clean p" "p \<noteq> ''/''"
  then obtain d n where "p = d @ slash # n" "valid_name n" "Dir p = (if d = [] then ''/'' else d)"
    by (rule abs_clean_split) blast
  then show ?thesis using p(1) abs_clean_below [of d n] by (auto simp: valid_name_def)
qed

lemma fs_ok_MkdirAll: "fs_ok f \<Longrightarrow> abs_clean p \<Longrightarrow> fs_ok (snd (os_MkdirAll p f))"
  using fs_ok_make_dirs [of f "ancestors p @ [p]"] ancestors_clean [of p]
  by (auto simp: os_MkdirAll_def list_all_iff split: sum.split)

lemma fs_ok_OpenFile: "fs_ok f \<Longrightarrow> abs_clean p \<Longrightarrow> fs_ok (snd (os_OpenFile wr cr ex tr p f))"
  by (auto simp: os_OpenFile_def Let_def fs_ok_add split: sum.split prod.split)

lemma fs_ok_WriteAt: "fs_ok f \<Longrightarrow> fs_ok (snd (file_WriteAt fl d off f))"
proof -
  assume ok: "fs_ok f"
  have "upd_inode i (\<lambda>n. set_data (overlay (i_data n) k d) t n) f =
      (case fs_inodes f i of None \<Rightarrow> upd_inode i (set_data [] t) f
       | Some m \<Rightarrow> upd_inode i (set_data (overlay (i_data m) k d) t) f)" for i k t
    by (simp add: upd_inode_def split: option.split)
  then show ?thesis using ok by (auto simp: file_WriteAt_def split: option.split)
qed

lemma fs_ok_WriteFile: "fs_ok f \<Longrightarrow> abs_clean p \<Longrightarrow> fs_ok (snd (os_WriteFile p d f))"
proof -
  assume "fs_ok f" and "abs_clean p"
  then have "fs_ok (snd (os_OpenFile True True False True p f))" by (rule fs_ok_OpenFile)
  then show ?thesis
    using fs_ok_WriteAt [of "snd (os_OpenFile True True False True p f)" _ d 0]
    by (auto simp: os_WriteFile_def case_prod_unfold split: sum.split option.split)
qed

lemma fs_ok_Rename:
  assumes "fs_ok f" and "abs_clean a" and "abs_clean b" and "a \<noteq> ''/''" and "b \<noteq> ''/''"
  shows "fs_ok (snd (os_Rename a b f))"
proof -
  have "fs_inodes (snd (os_Rename a b f)) i = Some n \<Longrightarrow> i_faults n = []" for i n
    using assms(1) by (auto simp: os_Rename_def Let_def fs_ok_def no_faults_def touch_path_def upd_inode_def
        split: sum.splits prod.splits option.splits if_splits)
  moreover have "fresh_inode (snd (os_Rename a b f))"
    using assms(1) by (auto simp: os_Rename_def Let_def fs_ok_def fresh_inode_def [of "_\<lparr>fs_paths := _\<rparr>"]
        fresh_inode_def [of f] split: sum.splits prod.splits)
  ultimately show ?thesis using fs_wf_Rename assms by (auto simp: fs_ok_def no_faults_def)
qed

lemma abs_clean_tmp:
  assumes "abs_clean p" and "p \<noteq> ''/''"
  shows "abs_clean (p @ ''.tmp'')"
proof -
  obtain t where t: "p = slash # t" "clean_rel t" "t \<noteq> []" using assms by (auto simp: abs_clean_def)
  have name: "valid_name n \<Longrightarrow> clean_rel (n @ ''.tmp'')" for n
    by (rule clean_rel_Join [of "[n @ ''.tmp'']", simplified]) (auto simp: valid_name_def append_eq_Cons_conv)
  from t(2) have "clean_rel (t @ ''.tmp'')"
    by (cases rule: clean_rel_cases) (use t(3) name in \<open>auto simp: clean_rel_append_iff\<close>)
  then show ?thesis using t(1) by (auto simp: abs_clean_def)
qed

text \<open>A file that was replaced without an error holds the payload, on a sound file system again.\<close>

theorem replaced_file_stored:
  assumes "replace_file io texts path (Some payload) f = (None, f')" and "fs_ok f" and "abs_clean path" and "path \<noteq> ''/''"
  shows "stored f' path = Some (payload @ [10]) \<and> fs_ok f'"
proof -
  let ?tmp = "path @ ''.tmp''"
  obtain f1 f2 where f1: "os_MkdirAll (Dir path) f = (None, f1)" and f2: "os_WriteFile ?tmp (payload @ [10]) f1 = (None, f2)"
    and f': "os_Rename ?tmp path f2 = (None, f')"
    using replace_file_done [OF assms(1)] by (metis option.inject)
  obtain d n where p: "path = d @ slash # n" "valid_name n" by (rule abs_clean_split [OF assms(3,4)]) blast
  have tmp: "abs_clean ?tmp" "?tmp \<noteq> ''/''" using abs_clean_tmp [OF assms(3,4)] by auto
  have ok1: "fs_ok f1" using fs_ok_MkdirAll [OF assms(2) abs_clean_Dir [OF assms(3,4)]] f1 by simp
  then have ok2: "fs_ok f2" using fs_ok_WriteFile [OF _ tmp(1), of f1 "payload @ [10]"] f2 by simp
  have "stored f2 ?tmp = Some (payload @ [10])" using WriteFile_stored [OF f2 tmp] ok1 by (simp add: fs_ok_def)
  then have "stored f' path = Some (payload @ [10])"
    using Rename_stored [OF f' refl _ _ _ assms(3,4)] ok2 by (simp add: fs_ok_def)
  moreover have "fs_ok f'" using fs_ok_Rename [OF ok2 tmp(1) assms(3) tmp(2) assms(4)] f' by simp
  ultimately show ?thesis by blast
qed

section \<open>Crashes\<close>

lemma make_dirs_existing: "list_all (\<lambda>a. \<exists>r. resolve f a = Inr r) as \<Longrightarrow> snd (make_dirs as f) = f"
  by (induction as) (auto simp: os_Mkdir_def split: sum.split)

lemma ancestors_trans: "a \<in> set (ancestors p) \<Longrightarrow> set (ancestors a) \<subseteq> set (ancestors p)"
proof -
  assume "a \<in> set (ancestors p)"
  then obtain k where k: "2 \<le> k" "k < length (Split p slash)" "a = Join (take k (Split p slash)) ''/''"
    by (auto simp: ancestors_def Let_def)
  then have "Split a slash = take k (Split p slash)"
    using Split_Join [of "take k (Split p slash)" slash] Split_parts_free [of _ p slash]
    by (auto dest: in_set_takeD)
  then show ?thesis using k by (auto simp: ancestors_def Let_def)
qed

lemma MkdirAll_existing:
  assumes "stored f path = Some d" and "abs_clean path" and "path \<noteq> ''/''" and "inode_at f ''/'' \<noteq> None"
  shows "snd (os_MkdirAll (Dir path) f) = f"
proof -
  obtain u n where p: "path = u @ slash # n" "Dir path = (if u = [] then ''/'' else u)"
    "ancestors path = (if u = [] then [] else ancestors u @ [u])"
    by (rule abs_clean_split [OF assms(2,3)])
  have dirs: "\<forall>a \<in> set (ancestors path). is_dir_at f a" using assms(1) by (simp add: stored_eq split: if_splits)
  have found: "\<exists>r. resolve f a = Inr r" if "a \<in> set (ancestors path)" for a
  proof -
    have "check_dirs f (ancestors a) = None" using dirs ancestors_trans [OF that] by (auto simp: check_dirs_None)
    moreover have "inode_at f a \<noteq> None"
      using dirs that by (cases "inode_at f a") (auto simp: is_dir_at_def view_def)
    ultimately show ?thesis by (auto simp: resolve_def)
  qed
  have "list_all (\<lambda>a. \<exists>r. resolve f a = Inr r) (ancestors (Dir path) @ [Dir path])"
  proof (cases "u = []")
    case True
    then show ?thesis using assms(4) p(2) by (auto simp: resolve_def ancestors_def)
  next
    case False
    then show ?thesis using found p(2,3) by (auto simp: list_all_iff)
  qed
  then show ?thesis using make_dirs_existing by (auto simp: os_MkdirAll_def split: sum.split)
qed

lemma stored_other:
  assumes "view f p = Some (i, n)" and "i \<noteq> j"
  shows "stored (upd_inode j (set_data d t) f) p = stored f p"
  using assms by (simp add: stored_eq content_at_def)

lemma WriteAt_upd:
  "\<exists>d t. snd (file_WriteAt fl data off f) \<in> {f, upd_inode (of_inode fl) (set_data d t) f}"
proof (cases "fs_inodes f (of_inode fl)")
  case (Some m)
  have "upd_inode (of_inode fl) (\<lambda>n. set_data (overlay (i_data n) (nat off) data) (fs_clock f) n) f =
      upd_inode (of_inode fl) (set_data (overlay (i_data m) (nat off) data) (fs_clock f)) f"
    using Some by (simp add: upd_inode_def)
  then show ?thesis using Some by (auto simp: file_WriteAt_def)
qed (simp add: file_WriteAt_def)

lemma Rename_error: "os_Rename a b f = (Some e, f') \<Longrightarrow> f' = f"
  by (auto simp: os_Rename_def Let_def split: sum.splits prod.splits if_splits)

text \<open>Opening the temporary file leaves the file at the path alone, and gives a handle to another one.\<close>

lemma open_tmp_other:
  assumes "os_OpenFile True True False True tmp f = (r, f2)" and "fs_ok f" and "stored f path = Some old"
    and "view f path = Some (i, n)" and "map_of (fs_paths f) path = Some i" and "map_of (fs_paths f) tmp \<noteq> Some i"
    and "tmp \<notin> insert path (set (ancestors path))"
  shows "stored f2 path = Some old" and "r = Inr fl \<Longrightarrow> (\<exists>n. view f2 path = Some (i, n)) \<and> of_inode fl \<noteq> i"
proof -
  have fresh: "fresh_inode f" using assms(2) by (simp add: fs_ok_def)
  have i: "i < fs_next f" using fresh assms(5) by (auto simp: fresh_inode_def dest!: map_of_SomeD)
  have "stored f2 path = Some old \<and> (r = Inr fl \<longrightarrow> (\<exists>n. view f2 path = Some (i, n)) \<and> of_inode fl \<noteq> i)"
  proof (cases "resolve f tmp")
    case (Inr x)
    obtain j m where x: "x = (j, m)" by (cases x)
    then have "i \<noteq> j" using Inr assms(6) by (auto simp: resolve_def inode_at_def split: option.splits)
    then show ?thesis
      using Inr x assms(1,3,4) by (auto simp: os_OpenFile_def stored_other split: if_splits)
  next
    case (Inl e)
    show ?thesis
    proof (cases "\<exists>fl. r = Inr fl")
      case False
      then have "f2 = f" using assms(1) Inl by (auto simp: os_OpenFile_def Let_def split: if_splits sum.splits)
      then show ?thesis using False assms(3) by auto
    next
      case True
      let ?new = "\<lparr>i_isdir = False, i_data = [], i_mode = 420, i_mtime = fs_clock f, i_readable = True,
        i_writable = True, i_faults = []\<rparr>"
      let ?g = "f\<lparr>fs_paths := (tmp, fs_next f) # filter (\<lambda>(q, _). q \<noteq> tmp) (fs_paths f),
        fs_inodes := (fs_inodes f)(fs_next f \<mapsto> ?new), fs_next := Suc (fs_next f)\<rparr>"
      have f2: "f2 = touch_path (Dir tmp) ?g" and fl: "r = Inr \<lparr>of_inode = fs_next f, of_name = tmp\<rparr>"
        using assms(1) Inl True by (auto simp: os_OpenFile_def Let_def split: if_splits sum.splits)
      have keep: "view ?g q = view f q" if "q \<noteq> tmp" for q using view_add [OF fresh, where p = tmp and n = ?new and q = q] that by simp
      have "stored ?g path = stored f path" by (rule stored_cong; rule keep) (use assms(7) in auto)
      moreover have "view ?g path = view f path" by (rule keep) (use assms(7) in auto)
      ultimately show ?thesis using f2 fl i assms(3,4) by auto
    qed
  qed
  then show "stored f2 path = Some old" and "r = Inr fl \<Longrightarrow> (\<exists>n. view f2 path = Some (i, n)) \<and> of_inode fl \<noteq> i"
    by blast+
qed

lemma stored_without:
  assumes "p \<notin> insert q (set (ancestors q))"
  shows "stored (without_path p f) q = stored f q"
proof (rule stored_cong)
  have v: "view (without_path p f) r = view f r" if "r \<noteq> p" for r
    using map_of_filter_key [of "\<lambda>r. r \<noteq> p" r "fs_paths f"] that
    by (simp add: without_path_def view_def inode_at_def split: option.split)
  show "view (without_path p f) a = view f a" if "a \<in> set (ancestors q)" for a by (rule v) (use assms that in auto)
  show "view (without_path p f) q = view f q" by (rule v) (use assms in auto)
qed

text \<open>What may be found while a file is replaced, and where its old content is lost the new one is beside it.\<close>

definition intact :: "replace_io \<Rightarrow> string \<Rightarrow> bytes \<Rightarrow> bytes \<Rightarrow> fs \<Rightarrow> bool" where
  "intact io path old new f \<longleftrightarrow>
     stored f path = Some old \<or> stored f path = Some new \<or>
     \<not> io_atomic io \<and> stored f path = None \<and> stored f (path @ ''.tmp'') = Some new"

lemma written_moments:
  assumes "write_moments io tmp data f = (err, ws)" and "fs_ok f" and "stored f path = Some old"
    and "map_of (fs_paths f) tmp \<noteq> map_of (fs_paths f) path" and "tmp \<notin> insert path (set (ancestors path))"
  shows "list_all (\<lambda>g. stored g path = Some old) ws \<and> ws \<noteq> []"
proof -
  obtain i n where vp: "view f path = Some (i, n)" and ip: "map_of (fs_paths f) path = Some i"
    using assms(3) by (auto simp: stored_eq content_at_def view_def inode_at_def split: if_splits option.splits)
  obtain r f2 where opn: "os_OpenFile True True False True tmp f = (r, f2)" by fastforce
  note other = open_tmp_other [OF opn assms(2,3) vp ip _ assms(5)]
  have f2: "stored f2 path = Some old" using other assms(4) ip by auto
  have wr: "stored (snd (file_WriteAt fl d 0 f2)) path = Some old" if "r = Inr fl" for fl d
    using other(2) [OF _ that] assms(4) ip WriteAt_upd [of fl d 0 f2] f2 by (auto simp: stored_other)
  show ?thesis
  proof (cases r)
    case (Inl e)
    then show ?thesis using assms(1) opn f2 by (auto simp: write_moments_def)
  next
    case (Inr fl)
    have last: "stored f3 path = Some old" if "file_WriteAt fl data 0 f2 = (x, f3)" for x f3
      using wr [OF Inr, of data] that by simp
    show ?thesis
      using assms(1) opn Inr f2 wr [OF Inr] last
      by (auto simp: write_moments_def Let_def list_all_iff split: option.splits prod.splits)
  qed
qed

lemma renamed_moments:
  assumes "rename_moments io tmp path f = (err, rs)" and "tmp = path @ ''.tmp''" and "fs_wf f"
    and "abs_clean path" and "path \<noteq> ''/''" and "stored f path = Some old" and "stored f tmp = Some new"
  shows "list_all (intact io path old new) rs \<and> rs \<noteq> [] \<and>
    (err = None \<longrightarrow> stored (last rs) path = Some new) \<and> (err \<noteq> None \<longrightarrow> io_atomic io \<or> \<not> io_torn io \<longrightarrow> stored (last rs) path = Some old)"
proof -
  have "stored (without_path path f) path = None"
    using map_of_filter_key [of "\<lambda>r. r \<noteq> path" path "fs_paths f"]
    by (auto simp: stored_eq content_at_def view_def inode_at_def without_path_def split: option.split dest!: map_of_SomeD)
  moreover have "path \<notin> insert tmp (set (ancestors tmp))"
  proof -
    obtain u n where p: "path = u @ slash # n" "valid_name n" by (rule abs_clean_split [OF assms(4,5)]) blast
    have "ancestors tmp = ancestors path"
      using ancestors_siblings [of "n @ ''.tmp''" n u] assms(2) p by (simp add: valid_name_def)
    then show ?thesis using assms(2) by (auto elim!: ancestor_above dest: arg_cong [of _ _ length])
  qed
  ultimately have gone: "intact io path old new (without_path path f)" if "\<not> io_atomic io"
    using stored_without assms(2,7) that by (simp add: intact_def)
  obtain e f' where ren: "os_Rename tmp path f = (e, f')" by fastforce
  show ?thesis
  proof (cases e)
    case (Some x)
    then have "f' = f" using Rename_error ren by blast
    then show ?thesis using Some ren assms(1,6) by (auto simp: rename_moments_def intact_def)
  next
    case None
    then have "stored f' path = Some new" using Rename_stored [OF _ assms(2) _ _ assms(3-5,7)] ren by simp
    then show ?thesis
      using assms(1,6) ren None gone by (auto simp: rename_moments_def intact_def split: option.splits if_splits)
  qed
qed

text \<open>
  C36: Replacing a file never loses it. If the path held a file before, then at every moment of the
  replacement, whichever system call fails, after however many bytes, and wherever the program
  crashes, the path holds the old content or the whole new one; only where renaming is not atomic
  may it be missing for a moment, or for good after a rename that fails half-way, and then the
  temporary file holds the whole new content. Without an error the path holds the new content, with
  an error, unless the rename failed half-way, the old one. (The temporary file must not be a second name of
  the same file, the root directory must exist, and reading works.)
\<close>

theorem replacement_atomic:
  assumes "fs_ok f" and "abs_clean path" and "path \<noteq> ''/''" and "inode_at f ''/'' \<noteq> None"
    and "stored f path = Some old"
    and "map_of (fs_paths f) (path @ ''.tmp'') \<noteq> map_of (fs_paths f) path"
    and "replace_moments io texts path (Some payload) f = (err, moments)"
  shows "list_all (intact io path old (payload @ [10])) moments \<and>
    (err = None \<longrightarrow> stored (last moments) path = Some (payload @ [10])) \<and>
    (err \<noteq> None \<longrightarrow> io_atomic io \<or> \<not> io_torn io \<longrightarrow> stored (last moments) path = Some old)"
proof -
  let ?tmp = "path @ ''.tmp''" and ?new = "payload @ [10]"
  obtain e1 where dir: "os_MkdirAll (Dir path) f = (e1, f)"
    using MkdirAll_existing [OF assms(5,2,3,4)] by (cases "os_MkdirAll (Dir path) f") auto
  have old: "intact io path old ?new g" if "stored g path = Some old" for g using that by (simp add: intact_def)
  obtain e2 ws where w: "write_moments io ?tmp ?new f = (e2, ws)" by fastforce
  have "?tmp \<notin> insert path (set (ancestors path))" by (auto elim!: ancestor_above dest: arg_cong [of _ _ length])
  note ws = written_moments [OF w assms(1,5,6) this]
  then have ws_old: "list_all (intact io path old ?new) ws" "stored (last ws) path = Some old"
    using old by (auto simp: list_all_iff)
  show ?thesis
  proof (cases "e1 = None \<and> e2 = None")
    case False
    then show ?thesis
      using assms(5,7) dir w ws ws_old old
      by (cases e1; cases e2) (auto simp: replace_moments_def Let_def)
  next
    case True
    have tmp: "abs_clean ?tmp" using abs_clean_tmp [OF assms(2,3)] .
    have wf: "os_WriteFile ?tmp ?new f = (None, last ws)" using write_moments_done w True by simp
    have "stored (last ws) ?tmp = Some ?new" using WriteFile_stored [OF wf tmp] assms(1) by (simp add: fs_ok_def)
    moreover have "fs_wf (last ws)" using fs_ok_WriteFile [OF assms(1) tmp, of ?new] wf by (simp add: fs_ok_def)
    moreover obtain e3 rs where r: "rename_moments io ?tmp path (last ws) = (e3, rs)" by fastforce
    ultimately have rs: "list_all (intact io path old ?new) rs \<and> rs \<noteq> [] \<and>
        (e3 = None \<longrightarrow> stored (last rs) path = Some ?new) \<and> (e3 \<noteq> None \<longrightarrow> io_atomic io \<or> \<not> io_torn io \<longrightarrow> stored (last rs) path = Some old)"
      using renamed_moments [OF r refl _ assms(2,3) ws_old(2)] by blast
    show ?thesis
      using assms(5,7) dir w r True rs ws_old(1) old
      by (cases e3) (auto simp: replace_moments_def Let_def)
  qed
qed

definition sample_disk :: fs where
  "sample_disk =
     \<lparr>fs_paths = [(''/'', 0), (''/s'', 1)],
      fs_inodes = [0 \<mapsto> \<lparr>i_isdir = True, i_data = [], i_mode = 0, i_mtime = 0, i_readable = True,
                     i_writable = True, i_faults = []\<rparr>,
                   1 \<mapsto> \<lparr>i_isdir = False, i_data = [7], i_mode = 0, i_mtime = 0, i_readable = True,
                     i_writable = True, i_faults = []\<rparr>],
      fs_next = 2, fs_clock = 0\<rparr>"

definition sample_texts :: replace_texts where
  "sample_texts = \<lparr>rx_dir = ''dir'', rx_encode = ''encode'', rx_write = ''write'', rx_rename = ''rename''\<rparr>"

lemma abs_clean_sample: "abs_clean ''/s''"
  by (auto simp: abs_clean_def clean_rel_def valid_name_def)

lemma fs_ok_sample: "fs_ok sample_disk"
  using abs_clean_sample
  by (auto simp: fs_ok_def fs_wf_def fresh_inode_def no_faults_def sample_disk_def)

text \<open>A write that stops after one byte, on a system where renaming is not atomic.\<close>

definition full_disk :: replace_io where
  "full_disk = \<lparr>io_write = Some (1, PathError ''write'' ''/s.tmp'' EFBIG), io_close = None, io_rename = None,
     io_atomic = False, io_torn = False\<rparr>"

theorem replacement_atomic_witness:
  "list_all (intact full_disk ''/s'' [7] [8, 9, 10]) (snd (replace_moments full_disk sample_texts ''/s'' (Some [8, 9]) sample_disk))"
proof -
  have "inode_at sample_disk ''/'' \<noteq> None" "stored sample_disk ''/s'' = Some [7]"
    "map_of (fs_paths sample_disk) (''/s'' @ ''.tmp'') \<noteq> map_of (fs_paths sample_disk) ''/s''"
    by (simp_all add: sample_disk_def stored_def os_ReadFile_def resolve_def ancestors_def inode_at_def)
  then show ?thesis
    using replacement_atomic [OF fs_ok_sample abs_clean_sample, of "[7]" full_disk sample_texts "[8, 9]"]
    by (metis prod.collapse append_Cons append_Nil list.distinct(1) list.inject)
qed

end
