(* ===== verification/ClientRuntime.thy ===== *)
theory ClientRuntime
  imports WinConfig Dispatcher
begin

text \<open>
  The mount runtime of the Windows client (\<^verbatim>\<open>internal/winclientruntime/runtime.go\<close>): building a
  session, and the state machine behind the start and stop buttons. \<^verbatim>\<open>Start\<close> takes the lock of the
  runtime twice and builds the session in between, so each of its locked sections is an operation here,
  and calls from several goroutines interleave as sequences of these operations.
\<close>

section \<open>Data\<close>

abbreviation (input) PhaseIdle :: string where "PhaseIdle \<equiv> ''idle''"
abbreviation (input) PhaseConnecting :: string where "PhaseConnecting \<equiv> ''connecting''"
abbreviation (input) PhaseMounted :: string where "PhaseMounted \<equiv> ''mounted''"
abbreviation (input) PhaseStopping :: string where "PhaseStopping \<equiv> ''stopping''"
abbreviation (input) PhaseError :: string where "PhaseError \<equiv> ''error''"

record Snapshot =
  sn_Phase :: string
  sn_StatusText :: string
  sn_LastError :: string
  sn_ActiveProfile :: string
  sn_ServerAddr :: string
  sn_MountPoint :: string
  sn_VolumePrefix :: string
  sn_RemotePath :: string
  sn_ClientInstanceID :: string
  sn_SessionID :: u64
  sn_PrincipalID :: string
  sn_ServerName :: string
  sn_ServerVersion :: string
  sn_ExpiresAt :: string
  sn_RequestedBackend :: string
  sn_HostBackend :: string
  sn_HostDLLPath :: string
  sn_HostLauncherPath :: string
  sn_HostBindingStatus :: string
  sn_HostDispatcherState :: string
  sn_StartedAt :: "instant option"
  sn_UpdatedAt :: "instant option"

record SessionInfo =
  si_ServerAddr :: string
  si_MountPoint :: string
  si_VolumePrefix :: string
  si_RemotePath :: string
  si_ClientInstanceID :: string
  si_SessionID :: u64
  si_PrincipalID :: string
  si_ServerName :: string
  si_ServerVersion :: string
  si_ExpiresAt :: string
  si_RequestedBackend :: string
  si_HostBackend :: string
  si_HostDLLPath :: string
  si_HostLauncherPath :: string
  si_HostBindingStatus :: string
  si_HostDispatcherState :: string

text \<open>
  The runtime: \<open>rt_cancel\<close> is the session its cancel function would cancel, \<open>None\<close> for the nil function.
  The zero time is \<open>None\<close>.
\<close>

record Runtime =
  rt_cancel :: "nat option"
  rt_state :: Snapshot

definition zero_Snapshot :: Snapshot where
  "zero_Snapshot =
     \<lparr>sn_Phase = [], sn_StatusText = [], sn_LastError = [], sn_ActiveProfile = [], sn_ServerAddr = [],
      sn_MountPoint = [], sn_VolumePrefix = [], sn_RemotePath = [], sn_ClientInstanceID = [],
      sn_SessionID = 0, sn_PrincipalID = [], sn_ServerName = [], sn_ServerVersion = [], sn_ExpiresAt = [],
      sn_RequestedBackend = [], sn_HostBackend = [], sn_HostDLLPath = [], sn_HostLauncherPath = [],
      sn_HostBindingStatus = [], sn_HostDispatcherState = [], sn_StartedAt = None, sn_UpdatedAt = None\<rparr>"

text \<open>The dash in the status texts, in UTF-8.\<close>

definition em_dash :: string where
  "em_dash = [CHR 0xE2, CHR 0x80, CHR 0x94]"

definition NewWithClock :: "instant \<Rightarrow> Runtime" where
  "NewWithClock current =
     \<lparr>rt_cancel = None,
      rt_state = zero_Snapshot\<lparr>sn_Phase := PhaseIdle,
        sn_StatusText := ''Idle '' @ em_dash @ '' no active mount session'',
        sn_StartedAt := Some current, sn_UpdatedAt := Some current\<rparr>\<rparr>"

section \<open>The locked sections\<close>

text \<open>What a snapshot shows of the configuration a session is started with.\<close>

definition config_snapshot :: "string \<Rightarrow> Config \<Rightarrow> Snapshot" where
  "config_snapshot activeProfile config =
     zero_Snapshot\<lparr>sn_ActiveProfile := activeProfile, sn_ServerAddr := cfg_Addr config,
       sn_MountPoint := cfg_MountPoint config, sn_VolumePrefix := cfg_VolumePrefix config,
       sn_RemotePath := cfg_Path config, sn_ClientInstanceID := cfg_ClientInstanceID config,
       sn_RequestedBackend := cfg_HostBackend config\<rparr>"

definition transitionToError :: "instant \<Rightarrow> string \<Rightarrow> Config \<Rightarrow> string \<Rightarrow> Runtime \<Rightarrow> Runtime" where
  "transitionToError now activeProfile config err r =
     (let started = sn_StartedAt (rt_state r);
          state = (config_snapshot activeProfile config)\<lparr>sn_Phase := PhaseError,
            sn_StatusText := ''Mount runtime failed for '' @ cfg_MountPoint config, sn_LastError := err,
            sn_StartedAt := started, sn_UpdatedAt := Some now\<rparr>;
          state = (if sn_StartedAt state = None then state\<lparr>sn_StartedAt := Some now\<rparr> else state)
      in r\<lparr>rt_state := state\<rparr>)"

definition claim_start :: "instant \<Rightarrow> string \<Rightarrow> Config \<Rightarrow> Runtime \<Rightarrow> string option \<times> Runtime" where
  "claim_start now activeProfile config r =
     (if rt_cancel r \<noteq> None \<or> sn_Phase (rt_state r) = PhaseConnecting \<or> sn_Phase (rt_state r) = PhaseMounted \<or>
         sn_Phase (rt_state r) = PhaseStopping
      then (Some (''mount runtime is busy ('' @ sn_Phase (rt_state r) @ '')''), r)
      else
        (None, r\<lparr>rt_state := (config_snapshot activeProfile config)\<lparr>sn_Phase := PhaseConnecting,
           sn_StatusText := ''Connecting to '' @ cfg_Addr config @ '' and preparing mount at '' @ cfg_MountPoint config,
           sn_StartedAt := Some now, sn_UpdatedAt := Some now\<rparr>\<rparr>))"

definition mount_started :: "instant \<Rightarrow> string \<Rightarrow> SessionInfo \<Rightarrow> nat \<Rightarrow> Runtime \<Rightarrow> Runtime" where
  "mount_started now activeProfile info cancel r =
     r\<lparr>rt_cancel := Some cancel,
       rt_state :=
         \<lparr>sn_Phase = PhaseMounted,
          sn_StatusText = ''Mounted '' @ si_ServerAddr info @ '' at '' @ si_MountPoint info, sn_LastError = [],
          sn_ActiveProfile = activeProfile, sn_ServerAddr = si_ServerAddr info,
          sn_MountPoint = si_MountPoint info, sn_VolumePrefix = si_VolumePrefix info,
          sn_RemotePath = si_RemotePath info, sn_ClientInstanceID = si_ClientInstanceID info,
          sn_SessionID = si_SessionID info, sn_PrincipalID = si_PrincipalID info,
          sn_ServerName = si_ServerName info, sn_ServerVersion = si_ServerVersion info,
          sn_ExpiresAt = si_ExpiresAt info, sn_RequestedBackend = si_RequestedBackend info,
          sn_HostBackend = si_HostBackend info, sn_HostDLLPath = si_HostDLLPath info,
          sn_HostLauncherPath = si_HostLauncherPath info, sn_HostBindingStatus = si_HostBindingStatus info,
          sn_HostDispatcherState = si_HostDispatcherState info,
          sn_StartedAt = sn_StartedAt (rt_state r), sn_UpdatedAt = Some now\<rparr>\<rparr>"

text \<open>\<^verbatim>\<open>Stop\<close>: the error, the session it cancels and the runtime.\<close>

definition Runtime_Stop :: "instant \<Rightarrow> Runtime \<Rightarrow> (string + nat) \<times> Runtime" where
  "Runtime_Stop now r =
     (case rt_cancel r of
        None \<Rightarrow> (Inl ''no active mount session'', r)
      | Some cancel \<Rightarrow>
          (Inr cancel,
           r\<lparr>rt_state := (rt_state r)\<lparr>sn_Phase := PhaseStopping,
               sn_StatusText := ''Stopping mount at '' @ sn_MountPoint (rt_state r),
               sn_UpdatedAt := Some now\<rparr>\<rparr>))"

text \<open>
  How the run of a session ends: with no error, with the error of a cancelled context, or with another.
  \<open>cancelled\<close> tells whether the context of the session was cancelled.
\<close>

datatype session_error = SessionCanceled | SessionFailed string

definition waitForSession :: "instant \<Rightarrow> session_error option \<Rightarrow> bool \<Rightarrow> Runtime \<Rightarrow> Runtime" where
  "waitForSession updated err cancelled r =
     (let r = r\<lparr>rt_cancel := None\<rparr>;
          state = rt_state r in
      case err of
        Some (SessionFailed text) \<Rightarrow>
          if cancelled
          then r\<lparr>rt_state := state\<lparr>sn_Phase := PhaseIdle,
                 sn_StatusText := ''Idle '' @ em_dash @ '' last mount '' @ sn_MountPoint state @ '' stopped'',
                 sn_LastError := [], sn_UpdatedAt := Some updated\<rparr>\<rparr>
          else r\<lparr>rt_state := state\<lparr>sn_Phase := PhaseError,
                 sn_StatusText := ''Mount runtime failed at '' @ sn_MountPoint state,
                 sn_LastError := text, sn_UpdatedAt := Some updated\<rparr>\<rparr>
      | _ \<Rightarrow> r\<lparr>rt_state := state\<lparr>sn_Phase := PhaseIdle,
               sn_StatusText := ''Idle '' @ em_dash @ '' last mount '' @ sn_MountPoint state @ '' stopped'',
               sn_LastError := [], sn_UpdatedAt := Some updated\<rparr>\<rparr>)"

text \<open>
  \<^verbatim>\<open>Start\<close> when nothing else runs between its sections: the error, the session to run, and the runtime.
  \<open>build\<close> is the builder, \<open>cancel\<close> the session it makes, the times are those the clock shows.
\<close>

definition Runtime_Start ::
  "platform \<Rightarrow> (Config \<Rightarrow> 'w \<Rightarrow> (string + 's \<times> SessionInfo) \<times> 'w) \<Rightarrow> Config \<Rightarrow> string \<Rightarrow> nat \<Rightarrow> instant \<Rightarrow> instant \<Rightarrow>
    Runtime \<Rightarrow> 'w \<Rightarrow> (string + 's) \<times> Runtime \<times> 'w" where
  "Runtime_Start pf build config activeProfile cancel t1 t2 r w =
     (let config = Normalized pf config in
      case Config_Validate pf OperationMount config of
        Some err \<Rightarrow> (Inl err, transitionToError t1 activeProfile config err r, w)
      | None \<Rightarrow>
          (case claim_start t1 activeProfile config r of
             (Some err, r) \<Rightarrow> (Inl err, r, w)
           | (None, r) \<Rightarrow>
               (case build config w of
                  (Inl err, w) \<Rightarrow> (Inl err, transitionToError t2 activeProfile config err r, w)
                | (Inr (session, info), w) \<Rightarrow>
                    (Inr session, mount_started t2 activeProfile info cancel r, w))))"

section \<open>Building a session\<close>

text \<open>The calls that open a session on a connected client, each only if the one before succeeded.\<close>

definition open_session ::
  "'w client_env \<Rightarrow> Config \<Rightarrow> ('w, HelloResp \<times> AuthResp \<times> CreateSessionResp \<times> HeartbeatResp) call" where
  "open_session env config cw =
     (case Client_Hello env cw of
        (Inl err, cw) \<Rightarrow> (Inl err, cw)
      | (Inr helloResp, cw) \<Rightarrow>
          (case Client_Auth env (cfg_Token config) cw of
             (Inl err, cw) \<Rightarrow> (Inl err, cw)
           | (Inr authResp, cw) \<Rightarrow>
               (case Client_CreateSession env (cfg_ClientInstanceID config) (cfg_LeaseSeconds config) cw of
                  (Inl err, cw) \<Rightarrow> (Inl err, cw)
                | (Inr sessionResp, cw) \<Rightarrow>
                    (case Client_Heartbeat env cw of
                       (Inl err, cw) \<Rightarrow> (Inl err, cw)
                     | (Inr hbResp, cw) \<Rightarrow> (Inr (helloResp, authResp, sessionResp, hbResp), cw)))))"

definition session_mount :: "Config \<Rightarrow> Client \<times> 'w \<Rightarrow> (Client \<times> 'w) Mount" where
  "session_mount config = (\<lambda>(c, w).
     New_mount (c, w) \<lparr>op_RootNodeID = cl_RootNodeID c, op_VolumeName = cfg_VolumePrefix config,
       op_ReadOnly = True, op_CaseSensitive = False, op_ReadDirBatchSize = 0\<rparr>)"

text \<open>
  \<^verbatim>\<open>DefaultBuilder.Build\<close> with the hosts of \<^verbatim>\<open>internal/winfsp\<close>. \<open>dial\<close> is the error of connecting to an
  address, if any, \<open>hang_up\<close> what closing the connection does to the far end, and \<open>probe\<close>
  \<^verbatim>\<open>winfsp.Probe\<close>, which asks the system. The client lives on in the mount of the host.
\<close>

definition Build ::
  "platform \<Rightarrow> 'w client_env \<Rightarrow> (string \<Rightarrow> string option) \<Rightarrow> ('w \<Rightarrow> 'w) \<Rightarrow> (HostConfig \<Rightarrow> string + BindingInfo) \<Rightarrow>
    Config \<Rightarrow> 'w \<Rightarrow> (string + (Client \<times> 'w) Host \<times> SessionInfo) \<times> 'w" where
  "Build pf env dial hang_up probe config w =
     (let config = Normalized pf config in
      case dial (cfg_Addr config) of
        Some err \<Rightarrow> (Inl err, w)
      | None \<Rightarrow>
          (case open_session env config (snd (Connect (\<lambda>_. True) (New_client (cfg_Addr config))), w) of
             (Inl err, c, w) \<Rightarrow> (Inl (client_error_text (ce_libtext env) err), hang_up w)
           | (Inr (helloResp, authResp, sessionResp, _), c, w) \<Rightarrow>
               let host = NewHost \<lparr>hc_MountPoint = cfg_MountPoint config, hc_VolumePrefix = cfg_VolumePrefix config,
                            hc_Backend = cfg_HostBackend config, hc_DebugLog = False\<rparr>
                            (session_mount config (c, w)) in
               (case probe (ho_config host) of
                  Inl err \<Rightarrow> (Inl err, hang_up w)
                | Inr binding \<Rightarrow>
                    let host = SetBinding binding host;
                        hostBinding = Host_Binding host in
                    (case MountRuntimeSupportError hostBinding of
                       Some supportErr \<Rightarrow>
                         (Inl (supportErr @ '' (binding='' @ BindingInfo_Summary hostBinding @ '')''), hang_up w)
                     | None \<Rightarrow>
                         (Inr (host,
                            \<lparr>si_ServerAddr = cfg_Addr config, si_MountPoint = cfg_MountPoint config,
                             si_VolumePrefix = cfg_VolumePrefix config, si_RemotePath = cfg_Path config,
                             si_ClientInstanceID = cfg_ClientInstanceID config,
                             si_SessionID = CreateSessionResp_SessionID sessionResp,
                             si_PrincipalID = AuthResp_PrincipalID authResp,
                             si_ServerName = HelloResp_ServerName helloResp,
                             si_ServerVersion = HelloResp_ServerVersion helloResp,
                             si_ExpiresAt = CreateSessionResp_ExpiresAt sessionResp,
                             si_RequestedBackend = bi_RequestedBackend hostBinding,
                             si_HostBackend = bi_EffectiveBackend hostBinding,
                             si_HostDLLPath = bi_DLLPath hostBinding,
                             si_HostLauncherPath = bi_LauncherPath hostBinding,
                             si_HostBindingStatus = BindingInfo_Summary hostBinding,
                             si_HostDispatcherState = bi_DispatcherStatus hostBinding\<rparr>), w)))))"

section \<open>Interleavings\<close>

text \<open>
  The program around one runtime: the calls of \<^verbatim>\<open>Start\<close> that are between their two sections, the sessions
  whose goroutine runs, those whose context was cancelled, and the number of the next session.
\<close>

record system =
  sy_runtime :: Runtime
  sy_building :: "(string \<times> Config) list"
  sy_running :: "nat list"
  sy_cancelled :: "nat set"
  sy_next :: nat

definition new_system :: "instant \<Rightarrow> system" where
  "new_system current =
     \<lparr>sy_runtime = NewWithClock current, sy_building = [], sy_running = [], sy_cancelled = {}, sy_next = 0\<rparr>"

text \<open>The section that a step executes; \<open>Refused\<close> is a \<^verbatim>\<open>Start\<close> with a configuration that is not valid.\<close>

datatype runtime_action =
    Refused string Config
  | Claimed string Config
  | Busy string Config
  | BuildFailed nat string
  | Built nat SessionInfo
  | StopPressed
  | SessionEnds nat "session_error option"

definition drop_nth :: "nat \<Rightarrow> 'a list \<Rightarrow> 'a list" where
  "drop_nth k xs = take k xs @ drop (Suc k) xs"

inductive runtime_step :: "platform \<Rightarrow> runtime_action \<Rightarrow> system \<Rightarrow> system \<Rightarrow> bool" for pf where
  refused: "Config_Validate pf OperationMount (Normalized pf c) = Some err \<Longrightarrow>
    runtime_step pf (Refused p c) s
      (s\<lparr>sy_runtime := transitionToError t p (Normalized pf c) err (sy_runtime s)\<rparr>)"
| claimed: "Config_Validate pf OperationMount (Normalized pf c) = None \<Longrightarrow>
    claim_start t p (Normalized pf c) (sy_runtime s) = (None, r) \<Longrightarrow>
    runtime_step pf (Claimed p c) s
      (s\<lparr>sy_runtime := r, sy_building := sy_building s @ [(p, Normalized pf c)]\<rparr>)"
| busy: "Config_Validate pf OperationMount (Normalized pf c) = None \<Longrightarrow>
    claim_start t p (Normalized pf c) (sy_runtime s) = (Some err, r) \<Longrightarrow>
    runtime_step pf (Busy p c) s (s\<lparr>sy_runtime := r\<rparr>)"
| failed: "k < length (sy_building s) \<Longrightarrow> sy_building s ! k = (p, c) \<Longrightarrow>
    runtime_step pf (BuildFailed k err) s
      (s\<lparr>sy_runtime := transitionToError t p c err (sy_runtime s), sy_building := drop_nth k (sy_building s)\<rparr>)"
| built: "k < length (sy_building s) \<Longrightarrow> sy_building s ! k = (p, c) \<Longrightarrow>
    runtime_step pf (Built k info) s
      (s\<lparr>sy_runtime := mount_started t p info (sy_next s) (sy_runtime s),
         sy_building := drop_nth k (sy_building s), sy_running := sy_running s @ [sy_next s],
         sy_next := sy_next s + 1\<rparr>)"
| stop: "Runtime_Stop t (sy_runtime s) = (Inr sid, r) \<Longrightarrow>
    runtime_step pf StopPressed s (s\<lparr>sy_runtime := r, sy_cancelled := insert sid (sy_cancelled s)\<rparr>)"
| no_stop: "Runtime_Stop t (sy_runtime s) = (Inl err, r) \<Longrightarrow>
    runtime_step pf StopPressed s (s\<lparr>sy_runtime := r\<rparr>)"
| ends: "sid \<in> set (sy_running s) \<Longrightarrow>
    runtime_step pf (SessionEnds sid err) s
      (s\<lparr>sy_runtime := waitForSession t err (sid \<in> sy_cancelled s) (sy_runtime s),
         sy_running := remove1 sid (sy_running s)\<rparr>)"

text \<open>Runs whose steps are all allowed in the state they are taken in.\<close>

inductive runtime_run :: "platform \<Rightarrow> (system \<Rightarrow> runtime_action \<Rightarrow> bool) \<Rightarrow> system \<Rightarrow> system \<Rightarrow> bool"
  for pf allowed s0 where
  none: "runtime_run pf allowed s0 s0"
| more: "runtime_run pf allowed s0 s \<Longrightarrow> allowed s a \<Longrightarrow> runtime_step pf a s s' \<Longrightarrow> runtime_run pf allowed s0 s'"

text \<open>\<^verbatim>\<open>Start\<close> is its sections one after the other.\<close>

theorem Start_is_run:
  assumes "Runtime_Start pf build config p (sy_next s) t1 t2 (sy_runtime s) w = (res, r, w')" and "sy_building s = []"
  shows "\<exists>s'. runtime_run pf (\<lambda>_ _. True) s s' \<and> sy_runtime s' = r \<and> sy_building s' = []"
proof -
  let ?c = "Normalized pf config"
  have one: "runtime_run pf (\<lambda>_ _. True) s s'" if "runtime_step pf a s s'" for a s'
    using that by (blast intro: runtime_run.intros)
  consider (refused) err where "Config_Validate pf OperationMount ?c = Some err" "r = transitionToError t1 p ?c err (sy_runtime s)"
    | (busy) err where "Config_Validate pf OperationMount ?c = None" "claim_start t1 p ?c (sy_runtime s) = (Some err, r)"
    | (failed) r1 err where "Config_Validate pf OperationMount ?c = None" "claim_start t1 p ?c (sy_runtime s) = (None, r1)"
        "r = transitionToError t2 p ?c err r1"
    | (built) r1 info where "Config_Validate pf OperationMount ?c = None" "claim_start t1 p ?c (sy_runtime s) = (None, r1)"
        "r = mount_started t2 p info (sy_next s) r1"
    using assms(1) by (auto simp: Runtime_Start_def Let_def split: option.splits prod.splits sum.splits)
  then show ?thesis
  proof cases
    case refused
    then show ?thesis using one [OF runtime_step.refused [where p = p and t = t1]] assms(2) by force
  next
    case busy
    then show ?thesis using one [OF runtime_step.busy] assms(2) by force
  next
    case failed
    let ?m = "s\<lparr>sy_runtime := r1, sy_building := sy_building s @ [(p, ?c)]\<rparr>"
    have "runtime_run pf (\<lambda>_ _. True) s ?m" using one [OF runtime_step.claimed] failed by blast
    moreover have "runtime_step pf (BuildFailed 0 err) ?m
        (?m\<lparr>sy_runtime := transitionToError t2 p ?c err (sy_runtime ?m), sy_building := drop_nth 0 (sy_building ?m)\<rparr>)"
      using assms(2) by (intro runtime_step.failed) auto
    ultimately have "runtime_run pf (\<lambda>_ _. True) s
        (?m\<lparr>sy_runtime := transitionToError t2 p ?c err (sy_runtime ?m), sy_building := drop_nth 0 (sy_building ?m)\<rparr>)"
      by (blast intro: runtime_run.more)
    then show ?thesis using failed assms(2) by (force simp: drop_nth_def)
  next
    case built
    let ?m = "s\<lparr>sy_runtime := r1, sy_building := sy_building s @ [(p, ?c)]\<rparr>"
    have "runtime_run pf (\<lambda>_ _. True) s ?m" using one [OF runtime_step.claimed] built by blast
    moreover have "runtime_step pf (Built 0 info) ?m
        (?m\<lparr>sy_runtime := mount_started t2 p info (sy_next ?m) (sy_runtime ?m),
          sy_building := drop_nth 0 (sy_building ?m), sy_running := sy_running ?m @ [sy_next ?m],
          sy_next := sy_next ?m + 1\<rparr>)"
      using assms(2) by (intro runtime_step.built) auto
    ultimately have "runtime_run pf (\<lambda>_ _. True) s
        (?m\<lparr>sy_runtime := mount_started t2 p info (sy_next ?m) (sy_runtime ?m),
          sy_building := drop_nth 0 (sy_building ?m), sy_running := sy_running ?m @ [sy_next ?m],
          sy_next := sy_next ?m + 1\<rparr>)"
      by (blast intro: runtime_run.more)
    then show ?thesis using built assms(2) by (force simp: drop_nth_def)
  qed
qed

section \<open>One session at a time\<close>

text \<open>Runs in which no \<^verbatim>\<open>Start\<close> is refused for its configuration while another one builds its session.\<close>

definition patient :: "system \<Rightarrow> runtime_action \<Rightarrow> bool" where
  "patient s a \<longleftrightarrow> (case a of Refused _ _ \<Rightarrow> sy_building s = [] | _ \<Rightarrow> True)"

definition one_session :: "system \<Rightarrow> bool" where
  "one_session s \<longleftrightarrow>
     (case (sy_building s, sy_running s) of
        ([], []) \<Rightarrow> rt_cancel (sy_runtime s) = None \<and> sn_Phase (rt_state (sy_runtime s)) \<in> {PhaseIdle, PhaseError}
      | ([b], []) \<Rightarrow> rt_cancel (sy_runtime s) = None \<and> sn_Phase (rt_state (sy_runtime s)) = PhaseConnecting
      | ([], [sid]) \<Rightarrow> rt_cancel (sy_runtime s) = Some sid \<and>
          sn_Phase (rt_state (sy_runtime s)) \<in> {PhaseMounted, PhaseStopping, PhaseError}
      | _ \<Rightarrow> False)"

lemma one_session_cases:
  assumes "one_session s"
  obtains (idle) "sy_building s = []" "sy_running s = []" "rt_cancel (sy_runtime s) = None"
      "sn_Phase (rt_state (sy_runtime s)) \<in> {PhaseIdle, PhaseError}"
  | (building) b where "sy_building s = [b]" "sy_running s = []" "rt_cancel (sy_runtime s) = None"
      "sn_Phase (rt_state (sy_runtime s)) = PhaseConnecting"
  | (running) sid where "sy_building s = []" "sy_running s = [sid]" "rt_cancel (sy_runtime s) = Some sid"
      "sn_Phase (rt_state (sy_runtime s)) \<in> {PhaseMounted, PhaseStopping, PhaseError}"
  using assms by (auto simp: one_session_def split: list.splits)

lemmas section_defs = transitionToError_def claim_start_def mount_started_def Runtime_Stop_def waitForSession_def
  config_snapshot_def Let_def

lemma phase_sections [simp]:
  "rt_cancel (transitionToError t p c err r) = rt_cancel r"
  "sn_Phase (rt_state (transitionToError t p c err r)) = PhaseError"
  "rt_cancel (mount_started t p info sid r) = Some sid"
  "sn_Phase (rt_state (mount_started t p info sid r)) = PhaseMounted"
  "rt_cancel (waitForSession t res cancelled r) = None"
  "sn_Phase (rt_state (waitForSession t res cancelled r)) =
     (if cancelled \<or> res \<in> {None, Some SessionCanceled} then PhaseIdle else PhaseError)"
  by (auto simp: section_defs split: option.split session_error.split)

lemma one_session_step:
  assumes "one_session s" and "patient s a" and "runtime_step pf a s s'"
  shows "one_session s'"
  using assms(3)
proof (cases rule: runtime_step.cases)
  case (refused c err p t)
  show ?thesis
    by (rule one_session_cases [OF assms(1)]; use refused assms(2) in \<open>auto simp: one_session_def patient_def\<close>)
next
  case (claimed c t p r)
  show ?thesis
    by (rule one_session_cases [OF assms(1)]; use claimed assms(2) in \<open>auto simp: one_session_def claim_start_def split: if_splits\<close>)
next
  case (busy c t p err r)
  then have "r = sy_runtime s" by (simp add: claim_start_def split: if_splits)
  then show ?thesis using busy assms(1) by (simp add: one_session_def)
next
  case (failed k p c err t)
  show ?thesis
    by (rule one_session_cases [OF assms(1)]; use failed assms(2) in \<open>auto simp: one_session_def drop_nth_def\<close>)
next
  case (built k p c info t)
  show ?thesis
    by (rule one_session_cases [OF assms(1)]; use built assms(2) in \<open>auto simp: one_session_def drop_nth_def\<close>)
next
  case (stop t sid r)
  show ?thesis
    by (rule one_session_cases [OF assms(1)]; use stop assms(2) in \<open>auto simp: one_session_def Runtime_Stop_def\<close>)
next
  case (no_stop t err r)
  then have "r = sy_runtime s" by (simp add: Runtime_Stop_def split: option.splits)
  then show ?thesis using no_stop assms(1) by (simp add: one_session_def)
next
  case (ends sid err t)
  show ?thesis
    by (rule one_session_cases [OF assms(1)]; use ends assms(2) in \<open>auto simp: one_session_def\<close>)
qed

lemma one_session_run: "runtime_run pf patient s0 s \<Longrightarrow> one_session s0 \<Longrightarrow> one_session s"
  by (induction rule: runtime_run.induct) (auto intro: one_session_step)

lemma one_session_new: "one_session (new_system t)"
  by (simp add: one_session_def new_system_def NewWithClock_def)

text \<open>
  C32: However the calls of \<^verbatim>\<open>Start\<close> and \<^verbatim>\<open>Stop\<close>, the builders and the sessions interleave, at most one session is
  being built or running, the cancel function of the runtime is that of the running session, so that
  \<^verbatim>\<open>Stop\<close> always reaches it, and a valid \<^verbatim>\<open>Start\<close> is accepted exactly if there is none; provided that no
  \<^verbatim>\<open>Start\<close> with an invalid configuration is refused while another builds its session.
\<close>

theorem one_session_at_a_time:
  assumes "runtime_run pf patient (new_system t0) s"
  shows "length (sy_building s) + length (sy_running s) \<le> 1 \<and>
    rt_cancel (sy_runtime s) = (case sy_running s of [] \<Rightarrow> None | sid # _ \<Rightarrow> Some sid) \<and>
    fst (Runtime_Stop t (sy_runtime s)) = (case sy_running s of [] \<Rightarrow> Inl ''no active mount session'' | sid # _ \<Rightarrow> Inr sid) \<and>
    (fst (claim_start t p c (sy_runtime s)) = None \<longleftrightarrow> sy_building s = [] \<and> sy_running s = [])"
  using one_session_run [OF assms one_session_new]
  by (cases rule: one_session_cases) (auto simp: Runtime_Stop_def claim_start_def)

definition empty_config :: Config where
  "empty_config =
     \<lparr>cfg_Addr = [], cfg_Token = [], cfg_ClientInstanceID = [], cfg_LeaseSeconds = 0, cfg_MountPoint = [],
      cfg_VolumePrefix = [], cfg_Path = [], cfg_LocalPath = [], cfg_HostBackend = [], cfg_Offset = 0,
      cfg_Length = 0, cfg_MaxEntries = 0\<rparr>"

definition sample_platform :: platform where
  "sample_platform = \<lparr>pf_windows = True, pf_Stat = (\<lambda>_. Inl ErrNotExist)\<rparr>"

definition sample_info :: SessionInfo where
  "sample_info =
     \<lparr>si_ServerAddr = ''s'', si_MountPoint = ''Z:'', si_VolumePrefix = ''devmount'', si_RemotePath = ''/'',
      si_ClientInstanceID = ''c'', si_SessionID = 1001, si_PrincipalID = ''developer'', si_ServerName = ''n'',
      si_ServerVersion = ''v'', si_ExpiresAt = [], si_RequestedBackend = ''auto'', si_HostBackend = ''h'',
      si_HostDLLPath = [], si_HostLauncherPath = [], si_HostBindingStatus = [], si_HostDispatcherState = []\<rparr>"

lemma empty_config_valid:
  "Config_Validate sample_platform OperationMount (Normalized sample_platform empty_config) = None"
  by code_simp

lemma bad_config_invalid:
  "Config_Validate sample_platform OperationMount
     (Normalized sample_platform (empty_config\<lparr>cfg_MountPoint := ''x''\<rparr>)) \<noteq> None"
  by code_simp

text \<open>A session started on an idle runtime.\<close>

lemma runtime_run_claimed:
  assumes "runtime_run sample_platform allowed s0 s" and "allowed s (Claimed p empty_config)"
    and "claim_start 0 p (Normalized sample_platform empty_config) (sy_runtime s) = (None, r)"
  shows "runtime_run sample_platform allowed s0
    (s\<lparr>sy_runtime := r, sy_building := sy_building s @ [(p, Normalized sample_platform empty_config)]\<rparr>)"
  using assms runtime_step.claimed [OF empty_config_valid] by (blast intro: runtime_run.more)

lemma runtime_run_built:
  assumes "runtime_run pf allowed s0 s" and "allowed s (Built 0 info)" and "sy_building s = (p, c) # bs"
  shows "runtime_run pf allowed s0
    (s\<lparr>sy_runtime := mount_started 0 p info (sy_next s) (sy_runtime s), sy_building := bs,
       sy_running := sy_running s @ [sy_next s], sy_next := sy_next s + 1\<rparr>)"
  using runtime_run.more [OF assms(1,2) runtime_step.built [of 0 s p c pf info 0]] assms(3)
  by (simp add: drop_nth_def)

lemmas sample_run_defs = new_system_def NewWithClock_def claim_start_def mount_started_def zero_Snapshot_def
  config_snapshot_def

theorem one_session_at_a_time_witness:
  "\<exists>s. runtime_run sample_platform patient (new_system 0) s \<and> sy_running s = [0] \<and>
    fst (Runtime_Stop 1 (sy_runtime s)) = Inr 0 \<and> fst (claim_start 1 [] empty_config (sy_runtime s)) \<noteq> None"
proof -
  let ?s = "new_system 0"
  obtain r where r: "claim_start 0 [] (Normalized sample_platform empty_config) (sy_runtime ?s) = (None, r)"
    by (simp add: sample_run_defs)
  note claimed = runtime_run_claimed [OF runtime_run.none [of sample_platform patient ?s] _ r]
  let ?m = "?s\<lparr>sy_runtime := r, sy_building := sy_building ?s @ [([], Normalized sample_platform empty_config)]\<rparr>"
  have "runtime_run sample_platform patient ?s ?m" using claimed by (simp add: patient_def)
  from runtime_run_built [OF this, where info = sample_info and p = "[]" and c = "Normalized sample_platform empty_config" and bs = "[]"]
  obtain s where s: "runtime_run sample_platform patient ?s s" "sy_running s = [0]"
    by (fastforce simp: patient_def new_system_def)
  then show ?thesis using one_session_at_a_time [OF s(1), of 1 "[]" empty_config] by auto
qed

text \<open>
  Without the proviso two sessions can run, and the runtime knows only the one that was built last: a refused
  \<^verbatim>\<open>Start\<close> sets the phase to error while another call is building its session, so that a third call is not
  held back. When either session ends, the runtime forgets the other, and \<^verbatim>\<open>Stop\<close> finds nothing to stop.
\<close>

theorem refused_start_breaks_exclusion:
  "\<exists>s s'. runtime_run sample_platform (\<lambda>_ _. True) (new_system 0) s \<and> sy_running s = [0, 1] \<and>
     rt_cancel (sy_runtime s) = Some 1 \<and>
     runtime_step sample_platform (SessionEnds 0 None) s s' \<and> sy_running s' = [1] \<and>
     fst (Runtime_Stop t (sy_runtime s')) = Inl ''no active mount session''"
proof -
  let ?s = "new_system 0" and ?c = "Normalized sample_platform empty_config"
    and ?bad = "empty_config\<lparr>cfg_MountPoint := ''x''\<rparr>"
  obtain r where r: "claim_start 0 [] ?c (sy_runtime ?s) = (None, r)" "rt_cancel r = None"
    by (simp add: sample_run_defs)
  let ?s1 = "?s\<lparr>sy_runtime := r, sy_building := sy_building ?s @ [([], ?c)]\<rparr>"
  have s1: "runtime_run sample_platform (\<lambda>_ _. True) ?s ?s1"
    by (rule runtime_run_claimed [OF runtime_run.none _ r(1)]) simp
  obtain err where "Config_Validate sample_platform OperationMount (Normalized sample_platform ?bad) = Some err"
    using bad_config_invalid by auto
  from runtime_run.more [OF s1 _ runtime_step.refused [OF this, of "[]" ?s1 0]]
  obtain q where s2: "runtime_run sample_platform (\<lambda>_ _. True) ?s (?s1\<lparr>sy_runtime := q\<rparr>)"
    and q: "rt_cancel q = None" "sn_Phase (rt_state q) = PhaseError" using r(2) by auto
  obtain u where u: "claim_start 0 [] ?c (sy_runtime (?s1\<lparr>sy_runtime := q\<rparr>)) = (None, u)"
    using q by (simp add: claim_start_def)
  let ?s3 = "?s1\<lparr>sy_runtime := u, sy_building := [([], ?c), ([], ?c)]\<rparr>"
  have s3: "runtime_run sample_platform (\<lambda>_ _. True) ?s ?s3"
    using runtime_run_claimed [OF s2 _ u] by (simp add: new_system_def)
  let ?s4 = "?s3\<lparr>sy_runtime := mount_started 0 [] sample_info 0 u, sy_building := [([], ?c)], sy_running := [0],
    sy_next := 1\<rparr>"
  have s4: "runtime_run sample_platform (\<lambda>_ _. True) ?s ?s4"
    using runtime_run_built [OF s3, where info = sample_info and p = "[]" and c = ?c and bs = "[([], ?c)]"] by (simp add: new_system_def)
  let ?s5 = "?s4\<lparr>sy_runtime := mount_started 0 [] sample_info 1 (sy_runtime ?s4), sy_building := [], sy_running := [0, 1],
    sy_next := 2\<rparr>"
  have s5: "runtime_run sample_platform (\<lambda>_ _. True) ?s ?s5"
    using runtime_run_built [OF s4, where info = sample_info and p = "[]" and c = ?c and bs = "[]"] by (simp add: numeral_2_eq_2)
  have "runtime_step sample_platform (SessionEnds 0 None) ?s5
      (?s5\<lparr>sy_runtime := waitForSession 0 None (0 \<in> sy_cancelled ?s5) (sy_runtime ?s5),
        sy_running := remove1 0 (sy_running ?s5)\<rparr>)"
    by (rule runtime_step.ends) simp
  then show ?thesis
    using s5 by (intro exI conjI) (assumption | simp add: Runtime_Stop_def)+
qed

end
