(* ===== verification/ClientStore.thy ===== *)
theory ClientStore
  imports WinConfig LocalFiles ClientRuntime
begin

text \<open>
  The files the Windows client keeps: the profiles and settings
  (\<^verbatim>\<open>internal/winclientstore/store.go\<close>) and the recovery marker that tells an unclean exit
  (\<^verbatim>\<open>internal/winclientrecovery/recovery.go\<close>). What \<^verbatim>\<open>encoding/json\<close> and \<^verbatim>\<open>time.Parse\<close> do are
  parameters, as is the order in which \<^verbatim>\<open>range\<close> visits a map.
\<close>

section \<open>Profiles and settings\<close>

abbreviation (input) SchemaVersion :: int where "SchemaVersion \<equiv> 2"

record Settings =
  set_DefaultWorkspace :: string
  set_AutoReconnect :: bool
  set_LaunchOnLogin :: bool

record WorkspaceMeta =
  wm_DisplayName :: string
  wm_AutoMount :: bool
  wm_LastUsedAt :: string

text \<open>A nil map reads like the empty one, and \<^verbatim>\<open>normalizeState\<close> replaces it before anything is written to it.\<close>

record StoreState =
  st_Version :: int
  st_ActiveProfile :: string
  st_Profiles :: "string \<rightharpoonup> Config"
  st_Settings :: Settings
  st_WorkspaceMeta :: "string \<rightharpoonup> WorkspaceMeta"

record store_env =
  se_platform :: platform
  se_range :: "string set \<Rightarrow> string list"
  se_Parse :: "string \<Rightarrow> instant option"
  se_Marshal :: "StoreState \<Rightarrow> bytes option"
  se_Unmarshal :: "bytes \<Rightarrow> StoreState \<Rightarrow> StoreState option"
  se_libtext :: string
  se_io :: replace_io

definition zero_meta :: WorkspaceMeta where
  "zero_meta = \<lparr>wm_DisplayName = [], wm_AutoMount = False, wm_LastUsedAt = []\<rparr>"

definition DefaultState :: StoreState where
  "DefaultState =
     \<lparr>st_Version = SchemaVersion, st_ActiveProfile = [], st_Profiles = Map.empty,
      st_Settings = \<lparr>set_DefaultWorkspace = [], set_AutoReconnect = False, set_LaunchOnLogin = False\<rparr>,
      st_WorkspaceMeta = Map.empty\<rparr>"

definition SortedProfileNames :: "store_env \<Rightarrow> StoreState \<Rightarrow> string list" where
  "SortedProfileNames env state = sort (se_range env (dom (st_Profiles state)))"

definition normalizeTimestamp :: "store_env \<Rightarrow> string \<Rightarrow> string" where
  "normalizeTimestamp env v =
     (let v = TrimSpace v in
      if v = [] then []
      else case se_Parse env v of None \<Rightarrow> [] | Some parsed \<Rightarrow> FormatRFC3339 parsed)"

definition normalizeWorkspaceMeta :: "store_env \<Rightarrow> WorkspaceMeta \<Rightarrow> WorkspaceMeta" where
  "normalizeWorkspaceMeta env meta =
     meta\<lparr>wm_DisplayName := TrimSpace (wm_DisplayName meta),
          wm_LastUsedAt := normalizeTimestamp env (wm_LastUsedAt meta)\<rparr>"

text \<open>The body of the loop over the profiles; a missing entry of a Go map reads as the zero value.\<close>

definition normalize_profile ::
  "store_env \<Rightarrow> StoreState \<Rightarrow> string \<Rightarrow> (string \<rightharpoonup> Config) \<times> (string \<rightharpoonup> WorkspaceMeta) \<Rightarrow>
    (string \<rightharpoonup> Config) \<times> (string \<rightharpoonup> WorkspaceMeta)" where
  "normalize_profile env state name = (\<lambda>(profiles, metas).
     let trimmed = TrimSpace name in
     if trimmed = [] then (profiles, metas)
     else
       (profiles(trimmed \<mapsto> Normalized (se_platform env) (the (st_Profiles state name))),
        metas(trimmed \<mapsto> normalizeWorkspaceMeta env
          (case st_WorkspaceMeta state trimmed of None \<Rightarrow> zero_meta | Some m \<Rightarrow> m))))"

definition with_default :: "string \<Rightarrow> StoreState \<Rightarrow> StoreState" where
  "with_default name state = state\<lparr>st_Settings := (st_Settings state)\<lparr>set_DefaultWorkspace := name\<rparr>\<rparr>"

definition normalizeState :: "store_env \<Rightarrow> StoreState \<Rightarrow> StoreState" where
  "normalizeState env state =
     (let state = (if st_Version state = 0 \<or> st_Version state < SchemaVersion
                   then state\<lparr>st_Version := SchemaVersion\<rparr> else state);
          state = with_default (TrimSpace (set_DefaultWorkspace (st_Settings state))) state;
          (profiles, metas) = fold (normalize_profile env state) (se_range env (dom (st_Profiles state)))
                                (Map.empty, Map.empty);
          state = state\<lparr>st_Profiles := profiles, st_WorkspaceMeta := metas\<rparr>;
          state = (if st_Profiles state (st_ActiveProfile state) = None
                   then state\<lparr>st_ActiveProfile := []\<rparr> else state)
      in if set_DefaultWorkspace (st_Settings state) = [] then
           if st_ActiveProfile state \<noteq> [] then with_default (st_ActiveProfile state) state
           else (case SortedProfileNames env state of [] \<Rightarrow> state | name # _ \<Rightarrow> with_default name state)
         else state)"

definition Store_Load :: "store_env \<Rightarrow> string \<Rightarrow> fs \<Rightarrow> string + StoreState" where
  "Store_Load env path f =
     (if TrimSpace path = [] then Inr DefaultState
      else (case os_ReadFile f path of
         Inl err \<Rightarrow> if IsNotExist err then Inr DefaultState
                    else Inl (''read store '' @ path @ '': '' @ error_text err)
       | Inr data \<Rightarrow>
           if data = [] then Inr DefaultState
           else (case se_Unmarshal env data DefaultState of
                   None \<Rightarrow> Inl (''decode store '' @ path @ '': '' @ se_libtext env)
                 | Some state \<Rightarrow> Inr (normalizeState env state))))"

definition Store_Save :: "store_env \<Rightarrow> string \<Rightarrow> StoreState \<Rightarrow> fs \<Rightarrow> string option \<times> fs" where
  "Store_Save env path state f =
     (if TrimSpace path = [] then (Some ''store path is empty'', f)
      else
        replace_file (se_io env) \<lparr>rx_dir = ''create store directory'', rx_encode = ''encode store: '' @ se_libtext env,
            rx_write = ''write temp store'', rx_rename = ''replace store''\<rparr> path
          (se_Marshal env (normalizeState env state)) f)"

definition SaveWorkspace ::
  "store_env \<Rightarrow> string \<Rightarrow> string \<Rightarrow> Config \<Rightarrow> WorkspaceMeta \<Rightarrow> fs \<Rightarrow> (string + StoreState) \<times> fs" where
  "SaveWorkspace env path name config meta f =
     (let name = TrimSpace name in
      if name = [] then (Inl ''profile name is required'', f)
      else (case Store_Load env path f of
         Inl err \<Rightarrow> (Inl err, f)
       | Inr state \<Rightarrow>
           let state = state\<lparr>st_Profiles := (st_Profiles state)(name \<mapsto> Normalized (se_platform env) config)\<rparr>;
               state = state\<lparr>st_WorkspaceMeta := (st_WorkspaceMeta state)(name \<mapsto> normalizeWorkspaceMeta env meta)\<rparr>;
               state = state\<lparr>st_ActiveProfile := name\<rparr>;
               state = (if TrimSpace (set_DefaultWorkspace (st_Settings state)) = []
                        then with_default name state else state) in
           (case Store_Save env path state f of
              (Some err, f) \<Rightarrow> (Inl err, f)
            | (None, f) \<Rightarrow> (Inr state, f))))"

definition SaveProfile :: "store_env \<Rightarrow> string \<Rightarrow> string \<Rightarrow> Config \<Rightarrow> fs \<Rightarrow> (string + StoreState) \<times> fs" where
  "SaveProfile env path name config f = SaveWorkspace env path name config zero_meta f"

text \<open>What \<^verbatim>\<open>DeleteProfile\<close> does to the state that was loaded.\<close>

definition without_profile :: "store_env \<Rightarrow> string \<Rightarrow> StoreState \<Rightarrow> StoreState" where
  "without_profile env name state =
     (let state = state\<lparr>st_Profiles := (st_Profiles state)(name := None),
                       st_WorkspaceMeta := (st_WorkspaceMeta state)(name := None)\<rparr>;
          state = (if st_ActiveProfile state = name
                   then (case SortedProfileNames env state of
                           [] \<Rightarrow> state\<lparr>st_ActiveProfile := []\<rparr>
                         | nxt # _ \<Rightarrow> state\<lparr>st_ActiveProfile := nxt\<rparr>)
                   else state)
      in if set_DefaultWorkspace (st_Settings state) = name
         then with_default (st_ActiveProfile state) state else state)"

definition DeleteProfile :: "store_env \<Rightarrow> string \<Rightarrow> string \<Rightarrow> fs \<Rightarrow> (string + StoreState) \<times> fs" where
  "DeleteProfile env path name f =
     (let name = TrimSpace name in
      if name = [] then (Inl ''profile name is required'', f)
      else (case Store_Load env path f of
         Inl err \<Rightarrow> (Inl err, f)
       | Inr state \<Rightarrow>
           let state = without_profile env name state in
           (case Store_Save env path state f of
              (Some err, f) \<Rightarrow> (Inl err, f)
            | (None, f) \<Rightarrow> (Inr state, f))))"

section \<open>Normal states\<close>

text \<open>
  What the language promises: \<^verbatim>\<open>range\<close> visits every key of a map once.
\<close>

definition env_ok :: "store_env \<Rightarrow> bool" where
  "env_ok env \<longleftrightarrow>
     (\<forall>A. finite A \<longrightarrow> distinct (se_range env A) \<and> set (se_range env A) = A)"

definition normal_maps ::
  "store_env \<Rightarrow> (string \<rightharpoonup> Config) \<times> (string \<rightharpoonup> WorkspaceMeta) \<Rightarrow> bool" where
  "normal_maps env = (\<lambda>(profiles, metas).
     finite (dom profiles) \<and> dom metas = dom profiles \<and> (\<forall>n \<in> dom profiles. TrimSpace n = n \<and> n \<noteq> []) \<and>
     (\<forall>c \<in> ran profiles. Normalized (se_platform env) c = c) \<and>
     (\<forall>m \<in> ran metas. TrimSpace (wm_DisplayName m) = wm_DisplayName m))"

text \<open>
  The time stamps of a state are their own normal form. Normalizing does not make sure of it: a time
  late on the last day of the year 9999 falls into the next year in UTC, and is formatted as a text
  that is no time any more.
\<close>

definition times_ok :: "store_env \<Rightarrow> StoreState \<Rightarrow> bool" where
  "times_ok env state \<longleftrightarrow>
     (\<forall>m \<in> ran (st_WorkspaceMeta state). normalizeTimestamp env (wm_LastUsedAt m) = wm_LastUsedAt m)"

definition normal_state :: "store_env \<Rightarrow> StoreState \<Rightarrow> bool" where
  "normal_state env state \<longleftrightarrow>
     SchemaVersion \<le> st_Version state \<and> normal_maps env (st_Profiles state, st_WorkspaceMeta state) \<and>
     (st_ActiveProfile state = [] \<or> st_ActiveProfile state \<in> dom (st_Profiles state)) \<and>
     TrimSpace (set_DefaultWorkspace (st_Settings state)) = set_DefaultWorkspace (st_Settings state) \<and>
     (set_DefaultWorkspace (st_Settings state) = [] \<longrightarrow> st_Profiles state = Map.empty)"

lemma TrimSpace_Nil [simp]: "TrimSpace [] = []"
  by (simp add: TrimSpace_def trim_by_def)

lemma normal_maps_put:
  assumes "normal_maps env (profiles, metas)" and "TrimSpace n = n" and "n \<noteq> []"
    and "Normalized (se_platform env) c = c" and "TrimSpace (wm_DisplayName m) = wm_DisplayName m"
  shows "normal_maps env (profiles(n \<mapsto> c), metas(n \<mapsto> m))"
  using assms by (auto simp: normal_maps_def ran_def split: if_splits)

lemma normal_maps_step:
  assumes "env_ok env" and "normal_maps env pm"
  shows "normal_maps env (normalize_profile env state n pm)"
proof -
  obtain profiles metas where pm: "pm = (profiles, metas)" by (cases pm)
  show ?thesis
    using assms normal_maps_put [of env profiles metas "TrimSpace n"]
    by (simp add: pm normalize_profile_def normalizeWorkspaceMeta_def Let_def)
qed

lemma normal_maps_fold: "env_ok env \<Longrightarrow> normal_maps env pm \<Longrightarrow> normal_maps env (fold (normalize_profile env state) ns pm)"
  by (induction ns arbitrary: pm) (simp_all add: normal_maps_step)

lemma normal_maps_empty [simp]: "normal_maps env (Map.empty, Map.empty)"
  by (simp add: normal_maps_def)

lemma SortedProfileNames_set:
  "env_ok env \<Longrightarrow> finite (dom (st_Profiles state)) \<Longrightarrow> set (SortedProfileNames env state) = dom (st_Profiles state)"
  by (simp add: SortedProfileNames_def env_ok_def)

lemma SortedProfileNames_active [simp]:
  "SortedProfileNames env (state\<lparr>st_ActiveProfile := a\<rparr>) = SortedProfileNames env state"
  by (simp add: SortedProfileNames_def)

lemma with_default_fields [simp]:
  "st_Version (with_default n st) = st_Version st" "st_ActiveProfile (with_default n st) = st_ActiveProfile st"
  "st_Profiles (with_default n st) = st_Profiles st" "st_WorkspaceMeta (with_default n st) = st_WorkspaceMeta st"
  "set_DefaultWorkspace (st_Settings (with_default n st)) = n"
  by (simp_all add: with_default_def)

text \<open>The choice of the default workspace, when there is none.\<close>

definition choose_default :: "store_env \<Rightarrow> StoreState \<Rightarrow> StoreState" where
  "choose_default env state =
     (if set_DefaultWorkspace (st_Settings state) = [] then
        if st_ActiveProfile state \<noteq> [] then with_default (st_ActiveProfile state) state
        else (case SortedProfileNames env state of [] \<Rightarrow> state | name # _ \<Rightarrow> with_default name state)
      else state)"

lemma choose_default_normal:
  assumes "env_ok env" and "SchemaVersion \<le> st_Version state" and "normal_maps env (st_Profiles state, st_WorkspaceMeta state)"
    and "st_ActiveProfile state = [] \<or> st_ActiveProfile state \<in> dom (st_Profiles state)"
    and "TrimSpace (set_DefaultWorkspace (st_Settings state)) = set_DefaultWorkspace (st_Settings state)"
  shows "normal_state env (choose_default env state)"
proof -
  have fin: "finite (dom (st_Profiles state))" and trimmed: "\<And>n. n \<in> dom (st_Profiles state) \<Longrightarrow> TrimSpace n = n \<and> n \<noteq> []"
    using assms(3) by (auto simp: normal_maps_def)
  note names = SortedProfileNames_set [OF assms(1) fin]
  show ?thesis
  proof (cases "SortedProfileNames env state")
    case Nil
    then have "st_Profiles state = Map.empty" using names by (metis dom_eq_empty_conv list.set(1))
    then show ?thesis using assms by (auto simp: choose_default_def normal_state_def Nil)
  next
    case (Cons n ns)
    then have n: "n \<in> dom (st_Profiles state)" using names by auto
    show ?thesis
      using assms trimmed trimmed [OF n] n Cons
      by (auto simp: choose_default_def normal_state_def iff del: domIff)
  qed
qed

lemma normalizeState_normal:
  assumes "env_ok env"
  shows "normal_state env (normalizeState env state)"
proof -
  let ?v = "if st_Version state = 0 \<or> st_Version state < SchemaVersion then state\<lparr>st_Version := SchemaVersion\<rparr> else state"
  let ?state = "with_default (TrimSpace (set_DefaultWorkspace (st_Settings ?v))) ?v"
  obtain profiles metas where pm: "fold (normalize_profile env ?state) (se_range env (dom (st_Profiles ?state)))
      (Map.empty, Map.empty) = (profiles, metas)"
    by (cases "fold (normalize_profile env ?state) (se_range env (dom (st_Profiles ?state))) (Map.empty, Map.empty)")
  then have maps: "normal_maps env (profiles, metas)"
    using normal_maps_fold [OF assms normal_maps_empty, of ?state] by metis
  let ?m = "?state\<lparr>st_Profiles := profiles, st_WorkspaceMeta := metas\<rparr>"
  let ?a = "if st_Profiles ?m (st_ActiveProfile ?m) = None then ?m\<lparr>st_ActiveProfile := []\<rparr> else ?m"
  have "normalizeState env state = choose_default env ?a"
    using pm by (simp only: normalizeState_def choose_default_def Let_def prod.case)
  moreover have "normal_state env (choose_default env ?a)"
    using maps by (intro choose_default_normal assms) (auto simp: with_default_def)
  ultimately show ?thesis by simp
qed

lemma if_dom_id: "(\<lambda>n. if n \<in> dom m then m n else None) = m"
  by (rule ext) (simp add: dom_def)

lemma fold_normal_profiles:
  assumes "normal_maps env (st_Profiles state, st_WorkspaceMeta state)" and "set ns \<subseteq> dom (st_Profiles state)"
  shows "fst (fold (normalize_profile env state) ns (profiles, metas)) =
    (\<lambda>n. if n \<in> set ns then st_Profiles state n else profiles n)"
  using assms(2)
proof (induction ns arbitrary: profiles metas)
  case (Cons n ns)
  then obtain c where c: "st_Profiles state n = Some c" by auto
  moreover have "TrimSpace n = n" "n \<noteq> []" "Normalized (se_platform env) c = c"
    using assms(1) c unfolding normal_maps_def by (auto intro: ranI)
  ultimately have "\<exists>metas'. normalize_profile env state n (profiles, metas) = (profiles(n \<mapsto> c), metas')"
    by (simp add: normalize_profile_def)
  then show ?case using Cons c by (auto simp: fun_eq_iff)
qed simp

lemma fold_normal_maps:
  assumes "normal_maps env (st_Profiles state, st_WorkspaceMeta state)" and "set ns \<subseteq> dom (st_Profiles state)"
    and "times_ok env state"
  shows "fold (normalize_profile env state) ns (profiles, metas) =
    ((\<lambda>n. if n \<in> set ns then st_Profiles state n else profiles n),
     (\<lambda>n. if n \<in> set ns then st_WorkspaceMeta state n else metas n))"
  using assms(2)
proof (induction ns arbitrary: profiles metas)
  case (Cons n ns)
  then obtain c where c: "st_Profiles state n = Some c" by auto
  moreover have "dom (st_WorkspaceMeta state) = dom (st_Profiles state)" using assms(1) by (simp add: normal_maps_def)
  then obtain m where m: "st_WorkspaceMeta state n = Some m" using c by blast
  moreover have "TrimSpace n = n" "n \<noteq> []" "Normalized (se_platform env) c = c"
    "TrimSpace (wm_DisplayName m) = wm_DisplayName m"
    using assms(1) c m unfolding normal_maps_def by (auto intro: ranI)
  moreover then have "normalizeWorkspaceMeta env m = m"
    using assms(3) m by (simp add: normalizeWorkspaceMeta_def times_ok_def ranI)
  ultimately have "normalize_profile env state n (profiles, metas) = (profiles(n \<mapsto> c), metas(n \<mapsto> m))"
    by (simp add: normalize_profile_def)
  then show ?case using Cons c m by (auto simp: fun_eq_iff)
qed simp

lemma normalize_maps_id:
  assumes "env_ok env" and "normal_maps env (st_Profiles state, st_WorkspaceMeta state)" and "times_ok env state"
  shows "fold (normalize_profile env state) (se_range env (dom (st_Profiles state))) (Map.empty, Map.empty) =
    (st_Profiles state, st_WorkspaceMeta state)"
proof -
  have "finite (dom (st_Profiles state))" "dom (st_WorkspaceMeta state) = dom (st_Profiles state)"
    using assms(2) by (simp_all add: normal_maps_def)
  moreover then have "set (se_range env (dom (st_Profiles state))) = dom (st_Profiles state)"
    using assms(1) by (simp add: env_ok_def)
  ultimately show ?thesis
    using fold_normal_maps [OF assms(2) _ assms(3), of "se_range env (dom (st_Profiles state))"] by (auto simp: fun_eq_iff)
qed

lemma normalizeState_Profiles:
  assumes "env_ok env" and "normal_maps env (st_Profiles state, st_WorkspaceMeta state)"
  shows "st_Profiles (normalizeState env state) = st_Profiles state"
proof -
  let ?v = "if st_Version state = 0 \<or> st_Version state < SchemaVersion then state\<lparr>st_Version := SchemaVersion\<rparr> else state"
  let ?state = "with_default (TrimSpace (set_DefaultWorkspace (st_Settings ?v))) ?v"
  have maps: "st_Profiles ?state = st_Profiles state" "st_WorkspaceMeta ?state = st_WorkspaceMeta state" by simp_all
  have "set (se_range env (dom (st_Profiles state))) = dom (st_Profiles state)"
    using assms by (simp add: env_ok_def normal_maps_def)
  then have "fst (fold (normalize_profile env ?state) (se_range env (dom (st_Profiles ?state))) (Map.empty, Map.empty)) =
      st_Profiles state"
    using fold_normal_profiles [of env ?state "se_range env (dom (st_Profiles state))" Map.empty Map.empty] assms(2)
    by (simp only: maps subset_refl if_dom_id)
  then obtain metas where "fold (normalize_profile env ?state) (se_range env (dom (st_Profiles ?state)))
      (Map.empty, Map.empty) = (st_Profiles state, metas)"
    by (metis prod.collapse)
  then show ?thesis
    by (simp only: normalizeState_def Let_def prod.case) (simp split: list.split)
qed

lemma normalizeState_id:
  assumes "env_ok env" and "normal_state env state" and "times_ok env state"
  shows "normalizeState env state = state"
proof -
  have maps: "normal_maps env (st_Profiles state, st_WorkspaceMeta state)" and ver: "SchemaVersion \<le> st_Version state"
    and dflt: "TrimSpace (set_DefaultWorkspace (st_Settings state)) = set_DefaultWorkspace (st_Settings state)"
    using assms(2) by (simp_all add: normal_state_def)
  have fin: "finite (dom (st_Profiles state))" using maps by (simp add: normal_maps_def)
  note normalize_maps_id [OF assms(1) maps assms(3)]
  moreover have "with_default (set_DefaultWorkspace (st_Settings state)) state = state"
    by (simp add: with_default_def)
  moreover have "st_Profiles state (st_ActiveProfile state) = None \<Longrightarrow> st_ActiveProfile state = []"
    using assms(2) by (auto simp: normal_state_def)
  moreover have "set_DefaultWorkspace (st_Settings state) = [] \<Longrightarrow>
      SortedProfileNames env state = [] \<and> st_ActiveProfile state = []"
    using assms(2) SortedProfileNames_set [OF assms(1) fin] by (auto simp: normal_state_def)
  moreover have "st_ActiveProfile state = [] \<Longrightarrow> state\<lparr>st_ActiveProfile := []\<rparr> = state" by (cases state) simp
  ultimately show ?thesis
    using ver dflt by (auto simp: normalizeState_def Let_def split: list.split)
qed

lemma DefaultState_normal: "normal_state env DefaultState"
  by (simp add: normal_state_def DefaultState_def)

lemma Load_normal: "env_ok env \<Longrightarrow> Store_Load env path f = Inr state \<Longrightarrow> normal_state env state"
  by (auto simp: Store_Load_def DefaultState_normal normalizeState_normal split: if_splits sum.splits option.splits)

section \<open>What is saved is loaded\<close>

text \<open>JSON carries a state: what is encoded is decoded to the same, on top of the default state.\<close>

definition json_carries :: "store_env \<Rightarrow> StoreState \<Rightarrow> bool" where
  "json_carries env state \<longleftrightarrow>
     (\<forall>payload. se_Marshal env state = Some payload \<longrightarrow> se_Unmarshal env (payload @ [10]) DefaultState = Some state)"

lemma abs_clean_not_blank: "abs_clean p \<Longrightarrow> TrimSpace p \<noteq> []"
  by (auto simp: abs_clean_def TrimSpace_blank_iff is_space_def)

lemma Save_Load:
  assumes "Store_Save env path state f = (None, f')" and "env_ok env" and "fs_ok f" and "abs_clean path"
    and "path \<noteq> ''/''" and "json_carries env (normalizeState env state)" and "times_ok env (normalizeState env state)"
  shows "Store_Load env path f' = Inr (normalizeState env state) \<and> fs_ok f'"
proof -
  obtain payload where payload: "se_Marshal env (normalizeState env state) = Some payload"
    using assms(1) by (auto simp: Store_Save_def split: if_splits elim: replace_file_done)
  then have stored: "stored f' path = Some (payload @ [10])" and "fs_ok f'"
    using assms(1) replaced_file_stored [OF _ assms(3,4,5)] by (auto simp: Store_Save_def split: if_splits)
  then have "os_ReadFile f' path = Inr (payload @ [10])" by (simp add: stored_def split: sum.splits)
  moreover have "normalizeState env (normalizeState env state) = normalizeState env state"
    using normalizeState_id normalizeState_normal assms(2,7) by blast
  ultimately show ?thesis
    using assms(6) payload \<open>fs_ok f'\<close> abs_clean_not_blank [OF assms(4)]
    by (simp add: Store_Load_def json_carries_def)
qed

lemma SaveWorkspace_normal:
  assumes "SaveWorkspace env path name config meta f = (Inr state, f')" and "env_ok env"
  shows "normal_state env state"
proof -
  let ?n = "TrimSpace name"
  obtain old where old: "Store_Load env path f = Inr old" and n: "?n \<noteq> []"
    and state: "state = (let state = old\<lparr>st_Profiles := (st_Profiles old)(?n \<mapsto> Normalized (se_platform env) config),
        st_WorkspaceMeta := (st_WorkspaceMeta old)(?n \<mapsto> normalizeWorkspaceMeta env meta), st_ActiveProfile := ?n\<rparr>
      in if TrimSpace (set_DefaultWorkspace (st_Settings state)) = [] then with_default ?n state else state)"
    using assms(1) by (auto simp: SaveWorkspace_def Let_def split: if_splits sum.splits prod.splits option.splits)
  have "normal_state env old" using Load_normal [OF assms(2) old] .
  then have "normal_maps env ((st_Profiles old)(?n \<mapsto> Normalized (se_platform env) config),
      (st_WorkspaceMeta old)(?n \<mapsto> normalizeWorkspaceMeta env meta))"
    using n by (intro normal_maps_put) (auto simp: normal_state_def normalizeWorkspaceMeta_def)
  then show ?thesis
    using \<open>normal_state env old\<close> n by (auto simp: state Let_def normal_state_def)
qed

text \<open>
  C37: A profile that was saved is loaded: after \<^verbatim>\<open>SaveWorkspace\<close> reported success, loading the store gives
  exactly the state that it returned, in which the profile under the trimmed name is the normalized
  configuration and the active one, and every other profile is as it was loaded before. Assumed is
  that JSON carries this state and that its time stamps read back as they are written.
\<close>

theorem saved_profile_loaded:
  assumes "SaveWorkspace env path name config meta f = (Inr state, f')" and "env_ok env" and "fs_ok f"
    and "abs_clean path" and "path \<noteq> ''/''" and "json_carries env state" and "times_ok env state"
  shows "Store_Load env path f' = Inr state \<and> st_ActiveProfile state = TrimSpace name \<and>
    (\<exists>old. Store_Load env path f = Inr old \<and>
       st_Profiles state = (st_Profiles old)(TrimSpace name \<mapsto> Normalized (se_platform env) config))"
proof -
  have "normalizeState env state = state"
    using normalizeState_id [OF assms(2)] SaveWorkspace_normal [OF assms(1,2)] assms(7) by blast
  moreover have "Store_Save env path state f = (None, f')"
    using assms(1) by (auto simp: SaveWorkspace_def Let_def split: if_splits sum.splits prod.splits option.splits)
  ultimately have "Store_Load env path f' = Inr state" using Save_Load [OF _ assms(2-5)] assms(6,7) by simp
  then show ?thesis
    using assms(1) by (auto simp: SaveWorkspace_def Let_def split: if_splits sum.splits prod.splits option.splits)
qed

text \<open>A parser that knows one time stamp, and a workspace that was used at that time.\<close>

definition sample_time :: string where
  "sample_time = ''2024-01-02T03:04:05Z''"

definition sample_meta :: WorkspaceMeta where
  "sample_meta = \<lparr>wm_DisplayName = ''Work'', wm_AutoMount = True, wm_LastUsedAt = sample_time\<rparr>"

definition sample_saved :: StoreState where
  "sample_saved =
     DefaultState\<lparr>st_Profiles := [''work'' \<mapsto> Normalized sample_platform empty_config],
       st_WorkspaceMeta := [''work'' \<mapsto> sample_meta], st_ActiveProfile := ''work'',
       st_Settings := \<lparr>set_DefaultWorkspace = ''work'', set_AutoReconnect = False, set_LaunchOnLogin = False\<rparr>\<rparr>"

definition sample_io :: replace_io where
  "sample_io = \<lparr>io_write = None, io_close = None, io_rename = None, io_atomic = False, io_torn = False\<rparr>"

definition sample_env :: store_env where
  "sample_env =
     \<lparr>se_platform = sample_platform, se_range = sorted_list_of_set,
      se_Parse = (\<lambda>v. if v = sample_time then Some (1704164645000000000) else None),
      se_Marshal = (\<lambda>_. Some [1]), se_Unmarshal = (\<lambda>_ _. Some sample_saved), se_libtext = [], se_io = sample_io\<rparr>"

lemma abs_clean_sample_path: "abs_clean ''/p''"
  by (auto simp: abs_clean_def clean_rel_def valid_name_def)

lemma sample_env_ok: "env_ok sample_env"
  by (simp add: env_ok_def sample_env_def)

lemma sample_format: "FormatRFC3339 (1704164645000000000) = sample_time" "TrimSpace sample_time = sample_time"
  "TrimSpace (CHR '' '' # sample_time) = sample_time" "sample_time \<noteq> []"
  by code_simp+

lemma sample_timestamp: "normalizeTimestamp sample_env sample_time = sample_time"
  "normalizeTimestamp sample_env (CHR '' '' # sample_time) = sample_time"
  by (simp_all add: normalizeTimestamp_def sample_env_def sample_format)

lemma sample_replaced: "fst (replace_file sample_io texts ''/p'' (Some [1]) sample_disk) = None"
  by (simp add: replace_file_def replace_moments_def write_moments_def rename_moments_def sample_io_def os_MkdirAll_def
      os_Stat_def resolve_def ancestors_def inode_at_def sample_disk_def
      Dir_def Clean_def clean_step_def file_info_def os_OpenFile_def Let_def touch_path_def
      upd_inode_def file_WriteAt_def file_Close_def file_fault_def set_data_def os_Rename_def HasPrefix_def)

lemma sample_save:
  "\<exists>f'. SaveWorkspace sample_env ''/p'' '' work '' empty_config (sample_meta\<lparr>wm_LastUsedAt := CHR '' '' # sample_time\<rparr>)
     sample_disk = (Inr sample_saved, f')"
proof -
  have blank: "TrimSpace ''/p'' \<noteq> []" "TrimSpace '' work '' = ''work''" "TrimSpace ''Work'' = ''Work''"
    by (simp_all add: TrimSpace_def trim_by_def is_space_def)
  have load: "Store_Load sample_env ''/p'' sample_disk = Inr DefaultState"
    using blank by (simp add: Store_Load_def os_ReadFile_def resolve_def ancestors_def inode_at_def sample_disk_def
        IsNotExist_def)
  have meta: "normalizeWorkspaceMeta sample_env (sample_meta\<lparr>wm_LastUsedAt := CHR '' '' # sample_time\<rparr>) = sample_meta"
    by (simp add: normalizeWorkspaceMeta_def sample_meta_def sample_timestamp blank)
  have saved: "\<exists>f'. Store_Save sample_env ''/p'' st sample_disk = (None, f')" for st
    using sample_replaced blank by (auto simp: Store_Save_def sample_env_def prod_eq_iff)
  obtain f' where "Store_Save sample_env ''/p'' sample_saved sample_disk = (None, f')" using saved by blast
  moreover have "with_default ''work'' (DefaultState\<lparr>st_Profiles := [''work'' \<mapsto> Normalized sample_platform empty_config],
      st_WorkspaceMeta := [''work'' \<mapsto> sample_meta], st_ActiveProfile := ''work''\<rparr>) = sample_saved"
    by (simp add: with_default_def sample_saved_def DefaultState_def)
  moreover have "se_platform sample_env = sample_platform" by (simp add: sample_env_def)
  ultimately show ?thesis
    using blank load meta by (simp add: SaveWorkspace_def Let_def DefaultState_def)
qed

theorem saved_profile_loaded_witness:
  "\<exists>f'. SaveWorkspace sample_env ''/p'' '' work '' empty_config
      (sample_meta\<lparr>wm_LastUsedAt := CHR '' '' # sample_time\<rparr>) sample_disk = (Inr sample_saved, f') \<and>
    Store_Load sample_env ''/p'' f' = Inr sample_saved"
proof -
  obtain f' where f': "SaveWorkspace sample_env ''/p'' '' work '' empty_config
      (sample_meta\<lparr>wm_LastUsedAt := CHR '' '' # sample_time\<rparr>) sample_disk = (Inr sample_saved, f')"
    using sample_save by blast
  have "json_carries sample_env sample_saved" by (simp add: json_carries_def sample_env_def)
  moreover have "times_ok sample_env sample_saved"
    by (simp add: times_ok_def sample_saved_def DefaultState_def sample_meta_def sample_timestamp)
  ultimately show ?thesis
    using saved_profile_loaded [OF f' sample_env_ok fs_ok_sample abs_clean_sample_path] f' by simp
qed

section \<open>Deleting a profile\<close>

lemma without_profile_maps:
  "st_Profiles (without_profile env name state) = (st_Profiles state)(name := None)"
  "st_WorkspaceMeta (without_profile env name state) = (st_WorkspaceMeta state)(name := None)"
  by (simp_all add: without_profile_def Let_def split: list.split)

lemma normal_maps_delete:
  "normal_maps env (profiles, metas) \<Longrightarrow> normal_maps env (profiles(n := None), metas(n := None))"
  by (auto simp: normal_maps_def ran_def split: if_splits)

text \<open>A profile that was deleted is not loaded again.\<close>

theorem deleted_profile_gone:
  assumes "DeleteProfile env path name f = (Inr state, f')" and "env_ok env" and "fs_ok f"
    and "abs_clean path" and "path \<noteq> ''/''" and "json_carries env (normalizeState env state)"
    and "times_ok env (normalizeState env state)"
  shows "\<exists>new. Store_Load env path f' = Inr new \<and> st_Profiles new = st_Profiles state \<and>
    TrimSpace name \<notin> dom (st_Profiles new)"
proof -
  obtain old where old: "Store_Load env path f = Inr old" and state: "state = without_profile env (TrimSpace name) old"
    and saved: "Store_Save env path state f = (None, f')"
    using assms(1) by (auto simp: DeleteProfile_def Let_def split: if_splits sum.splits prod.splits option.splits)
  have "normal_maps env (st_Profiles state, st_WorkspaceMeta state)"
    using Load_normal [OF assms(2) old] by (simp add: state without_profile_maps normal_maps_delete normal_state_def)
  then have "st_Profiles (normalizeState env state) = st_Profiles state" by (rule normalizeState_Profiles [OF assms(2)])
  moreover have "TrimSpace name \<notin> dom (st_Profiles state)" by (simp add: state without_profile_maps)
  ultimately show ?thesis using Save_Load [OF saved assms(2-7)] by simp
qed

text \<open>
  The state that \<^verbatim>\<open>DeleteProfile\<close> returns is not always the one it saves: with no active profile, deleting the
  default one leaves the returned state without a default, although the stored one has a new default.
\<close>

theorem deleted_default_forgotten:
  assumes "env_ok env" and "normal_state env state" and "st_ActiveProfile state = []"
    and "name = set_DefaultWorkspace (st_Settings state)" and "n \<in> dom (st_Profiles state)" and "n \<noteq> name"
  shows "set_DefaultWorkspace (st_Settings (without_profile env name state)) = [] \<and>
    set_DefaultWorkspace (st_Settings (normalizeState env (without_profile env name state))) \<noteq> []"
proof
  have "name \<noteq> []" using assms(2,4,5) by (auto simp: normal_state_def)
  then show "set_DefaultWorkspace (st_Settings (without_profile env name state)) = []"
    using assms(3,4) by (auto simp: without_profile_def Let_def)
  let ?new = "without_profile env name state"
  have "normal_maps env (st_Profiles ?new, st_WorkspaceMeta ?new)"
    using assms(2) by (simp add: without_profile_maps normal_maps_delete normal_state_def)
  then have "st_Profiles (normalizeState env ?new) = (st_Profiles state)(name := None)"
    by (simp add: normalizeState_Profiles [OF assms(1)] without_profile_maps)
  moreover have "((st_Profiles state)(name := None)) n \<noteq> None" using assms(5,6) by auto
  ultimately have "st_Profiles (normalizeState env ?new) \<noteq> Map.empty" by metis
  then show "set_DefaultWorkspace (st_Settings (normalizeState env ?new)) \<noteq> []"
    using normalizeState_normal [OF assms(1), of ?new] by (auto simp: normal_state_def)
qed

section \<open>The interface of a saved state\<close>

text \<open>
  What both files promise: a state that was saved without an error is loaded, in its normal form, and the next
  save finds the file system as sound as before.
\<close>

locale saved_state =
  fixes save :: "'s \<Rightarrow> fs \<Rightarrow> string option \<times> fs"
    and load :: "fs \<Rightarrow> string + 's"
    and norm :: "'s \<Rightarrow> 's"
    and carried :: "'s \<Rightarrow> bool"
    and sound :: "fs \<Rightarrow> bool"
  assumes load_saved: "sound f \<Longrightarrow> carried (norm s) \<Longrightarrow> save s f = (None, f') \<Longrightarrow> load f' = Inr (norm s)"
    and sound_saved: "sound f \<Longrightarrow> carried (norm s) \<Longrightarrow> save s f = (None, f') \<Longrightarrow> sound f'"
begin

text \<open>The last of several saves wins.\<close>

lemma last_save_loaded:
  assumes "sound f" and "\<And>s. carried s"
    and "fold (\<lambda>s r. case r of None \<Rightarrow> None | Some f \<Rightarrow> (case save s f of (None, f') \<Rightarrow> Some f' | _ \<Rightarrow> None))
           (states @ [s]) (Some f) = Some f'"
  shows "load f' = Inr (norm s)"
proof -
  let ?step = "\<lambda>s r. case r of None \<Rightarrow> None | Some f \<Rightarrow> (case save s f of (None, f') \<Rightarrow> Some f' | _ \<Rightarrow> None)"
  have sound: "sound g \<Longrightarrow> fold ?step states (Some g) = Some h \<Longrightarrow> sound h" for g h
  proof (induction states arbitrary: g)
    case (Cons t ts)
    have none: "fold ?step ts None = None" by (induction ts) simp_all
    then obtain g' where "save t g = (None, g')" "fold ?step ts (Some g') = Some h"
      using Cons.prems(2) by (auto split: prod.splits option.splits)
    then show ?case using Cons.IH sound_saved [OF Cons.prems(1) assms(2)] by blast
  qed simp
  obtain h where h: "fold ?step states (Some f) = Some h"
    using assms(3) by (cases "fold ?step states (Some f)") auto
  then have "save s h = (None, f')" using assms(3) by (auto split: prod.splits option.splits)
  then show ?thesis using load_saved sound [OF assms(1) h] assms(2) by blast
qed

text \<open>Reading a state, changing it and saving it.\<close>

lemma changed_state_loaded:
  "sound f \<Longrightarrow> carried (norm (g s)) \<Longrightarrow> load f = Inr s \<Longrightarrow> save (g s) f = (None, f') \<Longrightarrow>
    load f' = Inr (norm (g s)) \<and> sound f'"
  using load_saved sound_saved by blast

end

interpretation profiles: saved_state "Store_Save env path" "Store_Load env path" "normalizeState env"
    "\<lambda>s. json_carries env s \<and> times_ok env s"
    "\<lambda>f. env_ok env \<and> abs_clean path \<and> path \<noteq> ''/'' \<and> fs_ok f" for env path
  by unfold_locales (use Save_Load in blast)+

section \<open>The recovery marker\<close>

record RecoveryState =
  rc_Dirty :: bool
  rc_StartedAt :: "instant option"
  rc_UpdatedAt :: "instant option"
  rc_LastCleanExit :: "instant option"
  rc_ActiveProfile :: string
  rc_MountPoint :: string
  rc_HostBackend :: string
  rc_LastPhase :: string
  rc_LastError :: string

record recovery_env =
  re_Marshal :: "RecoveryState \<Rightarrow> bytes option"
  re_Unmarshal :: "bytes \<Rightarrow> RecoveryState option"
  re_Format :: "instant \<Rightarrow> string"
  re_libtext :: string
  re_io :: replace_io

definition zero_recovery :: RecoveryState where
  "zero_recovery =
     \<lparr>rc_Dirty = False, rc_StartedAt = None, rc_UpdatedAt = None, rc_LastCleanExit = None, rc_ActiveProfile = [],
      rc_MountPoint = [], rc_HostBackend = [], rc_LastPhase = [], rc_LastError = []\<rparr>"

definition RecoveryState_Summary :: "recovery_env \<Rightarrow> RecoveryState \<Rightarrow> string" where
  "RecoveryState_Summary env s =
     (if rc_Dirty s
      then ''unclean shutdown detected (profile='' @ or_default (rc_ActiveProfile s) ''-'' @ '' mount='' @
        or_default (rc_MountPoint s) ''-'' @ '' phase='' @ or_default (rc_LastPhase s) ''-'' @ '')''
      else (case rc_LastCleanExit s of
              Some t \<Rightarrow> ''last clean exit at '' @ re_Format env t
            | None \<Rightarrow> ''no previous recovery marker''))"

definition Recovery_Load :: "recovery_env \<Rightarrow> string \<Rightarrow> fs \<Rightarrow> string + RecoveryState" where
  "Recovery_Load env path f =
     (if TrimSpace path = [] then Inr zero_recovery
      else (case os_ReadFile f path of
         Inl err \<Rightarrow> if IsNotExist err then Inr zero_recovery
                    else Inl (''read recovery marker: '' @ error_text err)
       | Inr data \<Rightarrow>
           if data = [] then Inr zero_recovery
           else (case re_Unmarshal env data of
                   None \<Rightarrow> Inl (''decode recovery marker: '' @ re_libtext env)
                 | Some state \<Rightarrow> Inr state)))"

definition Recovery_save :: "recovery_env \<Rightarrow> string \<Rightarrow> RecoveryState \<Rightarrow> fs \<Rightarrow> string option \<times> fs" where
  "Recovery_save env path state f =
     (if TrimSpace path = [] then (Some ''recovery path is empty'', f)
      else
        replace_file (re_io env) \<lparr>rx_dir = ''create recovery directory'', rx_encode = ''encode recovery marker: '' @ re_libtext env,
            rx_write = ''write recovery marker'', rx_rename = ''replace recovery marker''\<rparr> path
          (re_Marshal env state) f)"

text \<open>Each operation returns the state and the error, and changes the file system.\<close>

definition MarkStart ::
  "recovery_env \<Rightarrow> string \<Rightarrow> instant \<Rightarrow> instant \<Rightarrow> string \<Rightarrow> Config \<Rightarrow> Snapshot \<Rightarrow> fs \<Rightarrow>
    (RecoveryState \<times> string option) \<times> fs" where
  "MarkStart env path now1 now2 profile cfg snapshot f =
     (let state = \<lparr>rc_Dirty = True, rc_StartedAt = Some now1, rc_UpdatedAt = Some now2, rc_LastCleanExit = None,
            rc_ActiveProfile = TrimSpace profile, rc_MountPoint = cfg_MountPoint cfg,
            rc_HostBackend = cfg_HostBackend cfg, rc_LastPhase = sn_Phase snapshot,
            rc_LastError = sn_LastError snapshot\<rparr>;
          (err, f) = Recovery_save env path state f
      in ((state, err), f))"

definition updated_marker :: "instant \<Rightarrow> Snapshot \<Rightarrow> RecoveryState \<Rightarrow> RecoveryState" where
  "updated_marker now snapshot state =
     (let state = state\<lparr>rc_UpdatedAt := Some now, rc_LastPhase := sn_Phase snapshot,
            rc_LastError := sn_LastError snapshot\<rparr>;
          state = (if TrimSpace (sn_MountPoint snapshot) \<noteq> []
                   then state\<lparr>rc_MountPoint := sn_MountPoint snapshot\<rparr> else state);
          state = (if TrimSpace (sn_ActiveProfile snapshot) \<noteq> []
                   then state\<lparr>rc_ActiveProfile := sn_ActiveProfile snapshot\<rparr> else state)
      in if TrimSpace (sn_RequestedBackend snapshot) \<noteq> []
         then state\<lparr>rc_HostBackend := sn_RequestedBackend snapshot\<rparr> else state)"

definition clean_marker :: "instant \<Rightarrow> Snapshot \<Rightarrow> RecoveryState \<Rightarrow> RecoveryState" where
  "clean_marker now snapshot state =
     state\<lparr>rc_Dirty := False, rc_LastCleanExit := Some now, rc_UpdatedAt := Some now,
       rc_LastPhase := sn_Phase snapshot, rc_LastError := sn_LastError snapshot\<rparr>"

definition change_marker ::
  "recovery_env \<Rightarrow> string \<Rightarrow> (RecoveryState \<Rightarrow> RecoveryState) \<Rightarrow> fs \<Rightarrow> (RecoveryState \<times> string option) \<times> fs" where
  "change_marker env path g f =
     (case Recovery_Load env path f of
        Inl err \<Rightarrow> ((zero_recovery, Some err), f)
      | Inr state \<Rightarrow> (let (err, f) = Recovery_save env path (g state) f in ((g state, err), f)))"

definition Recovery_Update ::
  "recovery_env \<Rightarrow> string \<Rightarrow> instant \<Rightarrow> Snapshot \<Rightarrow> fs \<Rightarrow> (RecoveryState \<times> string option) \<times> fs" where
  "Recovery_Update env path now snapshot = change_marker env path (updated_marker now snapshot)"

definition MarkCleanExit ::
  "recovery_env \<Rightarrow> string \<Rightarrow> instant \<Rightarrow> Snapshot \<Rightarrow> fs \<Rightarrow> (RecoveryState \<times> string option) \<times> fs" where
  "MarkCleanExit env path now snapshot = change_marker env path (clean_marker now snapshot)"

text \<open>
  What is assumed of JSON: what was encoded is decoded again, to a state with the same dirty flag. The
  texts may come back changed, as those with invalid bytes do.
\<close>

definition flag_carried :: "recovery_env \<Rightarrow> bool" where
  "flag_carried env \<longleftrightarrow>
     (\<forall>s payload. re_Marshal env s = Some payload \<longrightarrow>
        (\<exists>s'. re_Unmarshal env (payload @ [10]) = Some s' \<and> rc_Dirty s' = rc_Dirty s))"

text \<open>The state that is read after \<open>s\<close> was written.\<close>

definition reread :: "recovery_env \<Rightarrow> RecoveryState \<Rightarrow> RecoveryState" where
  "reread env s =
     (case re_Marshal env s of
        None \<Rightarrow> s
      | Some payload \<Rightarrow> (case re_Unmarshal env (payload @ [10]) of None \<Rightarrow> s | Some s' \<Rightarrow> s'))"

lemma reread_dirty: "flag_carried env \<Longrightarrow> rc_Dirty (reread env s) = rc_Dirty s"
  unfolding flag_carried_def reread_def by (auto split: option.split) fastforce+

lemma marker_save_load:
  assumes "abs_clean path" and "path \<noteq> ''/''" and "fs_ok f" and "flag_carried env"
    and "Recovery_save env path s f = (None, f')"
  shows "Recovery_Load env path f' = Inr (reread env s) \<and> fs_ok f'"
proof -
  obtain payload where payload: "re_Marshal env s = Some payload"
    using assms(5) by (auto simp: Recovery_save_def split: if_splits elim: replace_file_done)
  then have "stored f' path = Some (payload @ [10])" and ok: "fs_ok f'"
    using assms(5) replaced_file_stored [OF _ assms(3,1,2)] by (auto simp: Recovery_save_def split: if_splits)
  then have "os_ReadFile f' path = Inr (payload @ [10])" by (simp add: stored_def split: sum.splits)
  moreover obtain s' where "re_Unmarshal env (payload @ [10]) = Some s'"
    using assms(4) payload unfolding flag_carried_def by blast
  ultimately show ?thesis
    using payload ok abs_clean_not_blank [OF assms(1)] by (simp add: Recovery_Load_def reread_def)
qed

interpretation marker: saved_state "Recovery_save env path" "Recovery_Load env path" "reread env" "\<lambda>_. flag_carried env"
    "\<lambda>f. abs_clean path \<and> path \<noteq> ''/'' \<and> fs_ok f" for env path
  by unfold_locales (use marker_save_load in blast)+

section \<open>Unclean exits\<close>

text \<open>The life of the marker as a sequence of operations; \<open>None\<close> as soon as one reports an error.\<close>

datatype marker_op =
    OpStart instant instant string Config Snapshot
  | OpUpdate instant Snapshot
  | OpCleanExit instant Snapshot

fun marker_do :: "recovery_env \<Rightarrow> string \<Rightarrow> marker_op \<Rightarrow> fs \<Rightarrow> (RecoveryState \<times> string option) \<times> fs" where
  "marker_do env path (OpStart now1 now2 profile cfg snapshot) = MarkStart env path now1 now2 profile cfg snapshot"
| "marker_do env path (OpUpdate now snapshot) = Recovery_Update env path now snapshot"
| "marker_do env path (OpCleanExit now snapshot) = MarkCleanExit env path now snapshot"

fun marker_run :: "recovery_env \<Rightarrow> string \<Rightarrow> marker_op list \<Rightarrow> fs \<Rightarrow> fs option" where
  "marker_run env path [] f = Some f"
| "marker_run env path (p # ps) f =
     (case marker_do env path p f of
        ((_, None), f) \<Rightarrow> marker_run env path ps f
      | ((_, Some _), _) \<Rightarrow> None)"

text \<open>What the marker should say: dirty from a start to the next clean exit.\<close>

fun dirty_after :: "marker_op \<Rightarrow> bool \<Rightarrow> bool" where
  "dirty_after (OpStart _ _ _ _ _) d = True"
| "dirty_after (OpUpdate _ _) d = d"
| "dirty_after (OpCleanExit _ _) d = False"

lemma updated_marker_dirty [simp]: "rc_Dirty (updated_marker now sn st) = rc_Dirty st"
  by (simp add: updated_marker_def Let_def)

lemma clean_marker_dirty [simp]: "\<not> rc_Dirty (clean_marker now sn st)"
  by (simp add: clean_marker_def)

lemma change_marker_loaded:
  assumes "change_marker env path g f = ((st', None), f')" and "abs_clean path" and "path \<noteq> ''/''" and "fs_ok f"
    and "flag_carried env" and "Recovery_Load env path f = Inr st"
  shows "Recovery_Load env path f' = Inr (reread env (g st)) \<and> fs_ok f'"
  using assms(1,6) marker.changed_state_loaded [where path = path and f = f and env = env and g = g and s = st and f' = f'] assms(2-5)
  by (auto simp: change_marker_def split: prod.splits)

lemma marker_step:
  assumes "marker_do env path p f = ((st', None), f')" and "abs_clean path" and "path \<noteq> ''/''" and "fs_ok f"
    and "flag_carried env" and "Recovery_Load env path f = Inr st"
  shows "\<exists>new. Recovery_Load env path f' = Inr new \<and> rc_Dirty new = dirty_after p (rc_Dirty st) \<and> fs_ok f'"
proof (cases p)
  case (OpStart t1 t2 profile cfg sn)
  then have "Recovery_save env path st' f = (None, f')" and "rc_Dirty st'"
    using assms(1) by (auto simp: MarkStart_def Let_def split: prod.splits)
  then show ?thesis using marker_save_load [OF assms(2-5)] OpStart reread_dirty [OF assms(5)] by auto
next
  case (OpUpdate t sn)
  then show ?thesis
    using change_marker_loaded [OF _ assms(2-6), of "updated_marker t sn" st' f'] assms(1) reread_dirty [OF assms(5)]
    by (auto simp: Recovery_Update_def)
next
  case (OpCleanExit t sn)
  then show ?thesis
    using change_marker_loaded [OF _ assms(2-6), of "clean_marker t sn" st' f'] assms(1) reread_dirty [OF assms(5)]
    by (auto simp: MarkCleanExit_def)
qed

text \<open>
  C38: The recovery marker detects an unclean exit: after any operations that reported no error, the marker on disk
  says unclean exactly if a start was recorded with no clean exit after it, whatever updates came between,
  and it said so before if there was neither. Of JSON it is only assumed that the marker it has written
  can be read and keeps its dirty flag.
\<close>

theorem unclean_exit_detected:
  assumes "marker_run env path ops f = Some f'" and "abs_clean path" and "path \<noteq> ''/''" and "fs_ok f"
    and "flag_carried env" and "Recovery_Load env path f = Inr st"
  shows "\<exists>new. Recovery_Load env path f' = Inr new \<and> rc_Dirty new = fold dirty_after ops (rc_Dirty st)"
  using assms(1,4,6)
proof (induction ops arbitrary: f st)
  case (Cons p ps)
  then obtain st' g where step: "marker_do env path p f = ((st', None), g)" and rest: "marker_run env path ps g = Some f'"
    by (auto split: prod.splits option.splits)
  obtain new where "Recovery_Load env path g = Inr new" "rc_Dirty new = dirty_after p (rc_Dirty st)" "fs_ok g"
    using marker_step [OF step assms(2,3) Cons.prems(2) assms(5) Cons.prems(3)] by blast
  then show ?case using Cons.IH [OF rest] by fastforce
qed simp

text \<open>An encoding that carries the flag and the phase and loses everything else.\<close>

definition lossy_env :: recovery_env where
  "lossy_env =
     \<lparr>re_Marshal = (\<lambda>s. Some ((if rc_Dirty s then 1 else 0) # map (\<lambda>c. of_nat (of_char c)) (rc_LastPhase s))),
      re_Unmarshal = (\<lambda>data. case data of [] \<Rightarrow> None | b # bs \<Rightarrow>
        Some (zero_recovery\<lparr>rc_Dirty := (b = 1), rc_LastPhase := map (\<lambda>b. char_of (unat b)) (butlast bs)\<rparr>)),
      re_Format = FormatRFC3339, re_libtext = [], re_io = sample_io\<rparr>"

definition sample_life :: "marker_op list" where
  "sample_life =
     (let sn = rt_state (NewWithClock 0)
      in [OpStart 1 2 [] empty_config sn, OpUpdate 3 sn, OpCleanExit 4 sn, OpStart 5 6 [] empty_config sn])"

lemma lossy_carries: "flag_carried lossy_env"
  by (auto simp: flag_carried_def lossy_env_def)

lemma sample_life_run: "marker_run lossy_env ''/p'' sample_life sample_disk \<noteq> None"
  by code_simp

theorem unclean_exit_detected_witness:
  "\<exists>f' new. marker_run lossy_env ''/p'' sample_life sample_disk = Some f' \<and>
    Recovery_Load lossy_env ''/p'' f' = Inr new \<and> rc_Dirty new"
proof -
  obtain f' where run: "marker_run lossy_env ''/p'' sample_life sample_disk = Some f'"
    using sample_life_run by blast
  have "Recovery_Load lossy_env ''/p'' sample_disk = Inr zero_recovery"
    by (simp add: Recovery_Load_def os_ReadFile_def resolve_def ancestors_def inode_at_def sample_disk_def IsNotExist_def)
  then show ?thesis
    using unclean_exit_detected [OF run abs_clean_sample_path _ fs_ok_sample lossy_carries] run
    by (auto simp: sample_life_def Let_def)
qed

end
