(* ===== verification/Materialize.thy ===== *)
theory Materialize
  imports LocalFiles ClientRuntime
begin

text \<open>
  Copying a remote tree to local files (\<^verbatim>\<open>internal/materialize/materialize.go\<close>). The loops end when the
  server says so, so they have fuel. Local paths are written with slashes; on Windows, where a backslash
  separates too, a name with one is several names. Two results: where only the slash separates, or no
  name has a backslash, a copy changes nothing outside the local directory, and a file that the
  server serves faithfully is copied byte for byte.
\<close>

section \<open>State\<close>

record Stats =
  sta_Directories :: int
  sta_Files :: int
  sta_Bytes :: int

record Materializer =
  mt_readLength :: u32
  mt_maxEntries :: u32
  mt_preserveTime :: bool

definition New_materializer :: "u32 \<Rightarrow> u32 \<Rightarrow> Materializer" where
  "New_materializer readLength maxEntries =
     \<lparr>mt_readLength = (if readLength = 0 then 1048576 else readLength),
      mt_maxEntries = (if maxEntries = 0 then 128 else maxEntries), mt_preserveTime = True\<rparr>"

text \<open>
  What a copy works on: the mount, the local files, and the context, as the number of times it will still be
  found alive (\<open>None\<close> if it is never cancelled). \<open>sv_Parse\<close> is \<^verbatim>\<open>time.Parse\<close> with the layouts of
  \<^verbatim>\<open>parseModTime\<close>: \<open>None\<close> if no layout fits, \<open>Some None\<close> for the zero time.
\<close>

record 'c sync_state =
  ss_mount :: "'c Mount"
  ss_fs :: fs
  ss_ctx :: "nat option"

record 'c sync_env =
  sv_client :: "'c ProtocolClient"
  sv_Parse :: "string \<Rightarrow> instant option option"
  sv_windows :: bool

datatype sync_error =
    SyncMount mount_error
  | SyncLocal go_error
  | SyncCanceled
  | SyncText string

definition ctx_Err :: "'c sync_state \<Rightarrow> sync_error option \<times> 'c sync_state" where
  "ctx_Err s =
     (case ss_ctx s of
        None \<Rightarrow> (None, s)
      | Some 0 \<Rightarrow> (Some SyncCanceled, s)
      | Some (Suc k) \<Rightarrow> (None, s\<lparr>ss_ctx := Some k\<rparr>))"

definition on_mount :: "('c, 'r) mount_op \<Rightarrow> 'c sync_state \<Rightarrow> (mount_error + 'r) \<times> 'c sync_state" where
  "on_mount oper s = (case oper (ss_mount s) of (r, m) \<Rightarrow> (r, s\<lparr>ss_mount := m\<rparr>))"

definition on_fs :: "(fs \<Rightarrow> 'r \<times> fs) \<Rightarrow> 'c sync_state \<Rightarrow> 'r \<times> 'c sync_state" where
  "on_fs oper s = (case oper (ss_fs s) of (r, f) \<Rightarrow> (r, s\<lparr>ss_fs := f\<rparr>))"

definition no_stats :: Stats where
  "no_stats = \<lparr>sta_Directories = 0, sta_Files = 0, sta_Bytes = 0\<rparr>"

definition add_stats :: "Stats \<Rightarrow> Stats \<Rightarrow> Stats" where
  "add_stats a b =
     \<lparr>sta_Directories = sta_Directories a + sta_Directories b, sta_Files = sta_Files a + sta_Files b,
      sta_Bytes = sta_Bytes a + sta_Bytes b\<rparr>"

section \<open>Names and times\<close>

definition validateLocalName :: "string \<Rightarrow> string + string" where
  "validateLocalName name =
     (let name = TrimSpace name in
      if name = [] then Inl ''empty entry name''
      else if name = ''.'' \<or> name = ''..'' then Inl (''invalid entry name '' @ Quote name)
      else if Contains name ''/'' \<or> Contains name [backslash, backslash]
        then Inl (''entry name '' @ Quote name @ '' contains path separator'')
      else Inr name)"

text \<open>\<^verbatim>\<open>filepath.Join\<close> of the local path and a name; on Windows it takes backslashes for separators and cleans.\<close>

definition local_Join :: "bool \<Rightarrow> string \<Rightarrow> string \<Rightarrow> string" where
  "local_Join windows p name = path_Join p (if windows then ReplaceAll name backslash slash else name)"

definition parseModTime :: "(string \<Rightarrow> instant option option) \<Rightarrow> string \<Rightarrow> instant option option" where
  "parseModTime parse v = (let v = TrimSpace v in if v = [] then Some None else parse v)"

definition os_Chtimes :: "string \<Rightarrow> instant \<Rightarrow> fs \<Rightarrow> fs" where
  "os_Chtimes p t f =
     (case resolve f p of
        Inl _ \<Rightarrow> f
      | Inr (i, n) \<Rightarrow> upd_inode i (\<lambda>n. n\<lparr>i_mtime := t\<rparr>) f)"

section \<open>Copying a file\<close>

text \<open>
  The loop over the blocks; the result is the number of bytes and the error. It ends when the far end says so,
  so it has fuel, and \<open>None\<close> means that the fuel did not suffice.
\<close>

type_synonym 'c file_copy = "((int \<times> sync_error option) \<times> 'c sync_state) option"

fun copy_blocks ::
  "'c sync_env \<Rightarrow> Materializer \<Rightarrow> nat \<Rightarrow> u64 \<Rightarrow> OsFile \<Rightarrow> int \<Rightarrow> 'c sync_state \<Rightarrow> 'c file_copy" where
  "copy_blocks env mt 0 handleID file offset s = None"
| "copy_blocks env mt (Suc fuel) handleID file offset s =
     (case ctx_Err s of
        (Some err, s) \<Rightarrow> Some ((offset, Some err), s)
      | (None, s) \<Rightarrow>
          (case on_mount (mount_Read (sv_client env) handleID offset (mt_readLength mt)) s of
             (Inl err, s) \<Rightarrow> Some ((offset, Some (SyncMount err)), s)
           | (Inr result, s) \<Rightarrow>
               if rr_Data result \<noteq> [] then
                 (case on_fs (file_WriteAt file (rr_Data result) offset) s of
                    ((_, Some err), s) \<Rightarrow> Some ((offset, Some (SyncLocal err)), s)
                  | ((n, None), s) \<Rightarrow>
                      if rr_EOF result then Some ((offset + int n, None), s)
                      else copy_blocks env mt fuel handleID file (offset + int n) s)
               else Some ((offset, None), s)))"

definition syncFile ::
  "'c sync_env \<Rightarrow> Materializer \<Rightarrow> nat \<Rightarrow> string \<Rightarrow> string \<Rightarrow> MountFileInfo \<Rightarrow> 'c sync_state \<Rightarrow>
    ((Stats \<times> sync_error option) \<times> 'c sync_state) option" where
  "syncFile env mt fuel remotePath localPath info s =
     (case ctx_Err s of
        (Some err, s) \<Rightarrow> Some ((no_stats, Some err), s)
      | (None, s) \<Rightarrow>
      (case on_fs (os_MkdirAll (Dir localPath)) s of
         (Some err, s) \<Rightarrow> Some ((no_stats, Some (SyncLocal err)), s)
       | (None, s) \<Rightarrow>
       (case on_mount (mount_Open (sv_client env) remotePath) s of
          (Inl err, s) \<Rightarrow> Some ((no_stats, Some (SyncMount err)), s)
        | (Inr handle, s) \<Rightarrow>
            let close = (\<lambda>s. snd (on_mount (mount_Close (sv_client env) (mf_HandleID handle)) s)) in
            (case on_fs (os_Create localPath) s of
               (Inl err, s) \<Rightarrow> Some ((no_stats, Some (SyncLocal err)), close s)
             | (Inr file, s) \<Rightarrow>
                 (case copy_blocks env mt fuel (mf_HandleID handle) file 0 s of
                    None \<Rightarrow> None
                  | Some ((copied, Some err), s) \<Rightarrow>
                      Some ((no_stats\<lparr>sta_Files := 1, sta_Bytes := copied\<rparr>, Some err), close s)
                  | Some ((copied, None), s) \<Rightarrow>
                      let stats = no_stats\<lparr>sta_Files := 1, sta_Bytes := copied\<rparr> in
                      (case file_Close (ss_fs s) file of
                         Some err \<Rightarrow> Some ((stats, Some (SyncLocal err)), close s)
                       | None \<Rightarrow>
                           let s = (if mt_preserveTime mt then
                                      (case parseModTime (sv_Parse env) (mi_ModTime info) of
                                         Some (Some modTime) \<Rightarrow> s\<lparr>ss_fs := os_Chtimes localPath modTime (ss_fs s)\<rparr>
                                       | _ \<Rightarrow> s)
                                    else s)
                           in Some ((stats, None), close s)))))))"

section \<open>Copying a directory\<close>

text \<open>
  The loop over the entries of a page and the loop over the pages, given how a child is copied; then the
  recursion. The fuel bounds the number of pages and the depth of the tree.
\<close>

type_synonym 'c sync_result = "((Stats \<times> sync_error option) \<times> 'c sync_state) option"

fun sync_entries ::
  "bool \<Rightarrow> (MountFileInfo \<Rightarrow> string \<Rightarrow> 'c sync_state \<Rightarrow> 'c sync_result) \<Rightarrow> MountFileInfo list \<Rightarrow> string \<Rightarrow> Stats \<Rightarrow>
    'c sync_state \<Rightarrow> 'c sync_result" where
  "sync_entries windows child [] localPath stats s = Some ((stats, None), s)"
| "sync_entries windows child (entry # es) localPath stats s =
     (case validateLocalName (mi_Name entry) of
        Inl text \<Rightarrow> Some ((stats, Some (SyncText (mi_Path entry @ '': '' @ text))), s)
      | Inr name \<Rightarrow>
          (case child entry (local_Join windows localPath name) s of
             None \<Rightarrow> None
           | Some ((childStats, err), s) \<Rightarrow>
               if err \<noteq> None then Some ((stats, err), s)
               else sync_entries windows child es localPath (add_stats stats childStats) s))"

fun sync_pages ::
  "'c sync_env \<Rightarrow> Materializer \<Rightarrow> (MountFileInfo \<Rightarrow> string \<Rightarrow> 'c sync_state \<Rightarrow> 'c sync_result) \<Rightarrow> nat \<Rightarrow>
    u64 \<Rightarrow> u64 \<Rightarrow> string \<Rightarrow> Stats \<Rightarrow> 'c sync_state \<Rightarrow> 'c sync_result" where
  "sync_pages env mt child 0 handleID cookie localPath stats s = None"
| "sync_pages env mt child (Suc fuel) handleID cookie localPath stats s =
     (case ctx_Err s of
        (Some err, s) \<Rightarrow> Some ((stats, Some err), s)
      | (None, s) \<Rightarrow>
      (case on_mount (mount_ReadDirectory (sv_client env) handleID cookie (mt_maxEntries mt)) s of
         (Inl err, s) \<Rightarrow> Some ((stats, Some (SyncMount err)), s)
       | (Inr page, s) \<Rightarrow>
           (case sync_entries (sv_windows env) child (dp_Entries page) localPath stats s of
              None \<Rightarrow> None
            | Some ((stats, err), s) \<Rightarrow>
                if err \<noteq> None \<or> dp_EOF page then Some ((stats, err), s)
                else sync_pages env mt child fuel handleID (dp_NextCookie page) localPath stats s)))"

fun syncDirectory ::
  "'c sync_env \<Rightarrow> Materializer \<Rightarrow> nat \<Rightarrow> string \<Rightarrow> string \<Rightarrow> 'c sync_state \<Rightarrow> 'c sync_result" where
  "syncDirectory env mt 0 remotePath localPath s = None"
| "syncDirectory env mt (Suc fuel) remotePath localPath s =
     (case ctx_Err s of
        (Some err, s) \<Rightarrow> Some ((no_stats, Some err), s)
      | (None, s) \<Rightarrow>
      (case on_fs (os_MkdirAll localPath) s of
         (Some err, s) \<Rightarrow> Some ((no_stats, Some (SyncLocal err)), s)
       | (None, s) \<Rightarrow>
       (case on_mount (mount_OpenDirectory (sv_client env) remotePath) s of
          (Inl err, s) \<Rightarrow> Some ((no_stats, Some (SyncMount err)), s)
        | (Inr handle, s) \<Rightarrow>
            map_option (\<lambda>(r, s). (r, snd (on_mount (mount_Close (sv_client env) (md_HandleID handle)) s)))
              (sync_pages env mt
                (\<lambda>entry childLocalPath.
                   if mi_IsDirectory entry then syncDirectory env mt fuel (mi_Path entry) childLocalPath
                   else syncFile env mt fuel (mi_Path entry) childLocalPath entry)
                fuel (md_HandleID handle) 0 localPath (no_stats\<lparr>sta_Directories := 1\<rparr>) s))))"

definition Sync ::
  "'c sync_env \<Rightarrow> Materializer \<Rightarrow> nat \<Rightarrow> string \<Rightarrow> string \<Rightarrow> 'c sync_state \<Rightarrow>
    ((Stats \<times> sync_error option) \<times> 'c sync_state) option" where
  "Sync env mt fuel remotePath localPath s =
     (if TrimSpace localPath = [] then Some ((no_stats, Some (SyncText ''local path is required'')), s)
      else
        (case ctx_Err s of
           (Some err, s) \<Rightarrow> Some ((no_stats, Some err), s)
         | (None, s) \<Rightarrow>
             (case on_mount (mount_GetAttr (sv_client env) remotePath) s of
                (Inl err, s) \<Rightarrow> Some ((no_stats, Some (SyncMount err)), s)
              | (Inr info, s) \<Rightarrow>
                  if mi_IsDirectory info then syncDirectory env mt fuel (mi_Path info) localPath s
                  else syncFile env mt fuel (mi_Path info) localPath info s)))"

section \<open>What is below a directory\<close>

lemma ancestors_iff:
  assumes "p = slash # r"
  shows "a \<in> set (ancestors p) \<longleftrightarrow> a \<noteq> [] \<and> (\<exists>t. p = a @ slash # t)"
proof
  assume a: "a \<in> set (ancestors p)"
  then have "a \<noteq> []" by (auto simp: ancestors_def Let_def Join_not_Nil)
  moreover from a have "\<exists>t. p = a @ slash # t" by (rule ancestor_above) blast
  ultimately show "a \<noteq> [] \<and> (\<exists>t. p = a @ slash # t)" ..
next
  assume "a \<noteq> [] \<and> (\<exists>t. p = a @ slash # t)"
  then obtain t b where t: "p = a @ slash # t" "a = slash # b" using assms by (cases a) auto
  have "a = Join (take (length (Split a slash)) (Split p slash)) ''/''"
    using Join_Split [of a slash] by (simp add: t(1) Split_append_sep)
  moreover have "2 \<le> length (Split a slash)" using t(2) by (cases "Split b slash") auto
  moreover have "length (Split a slash) < length (Split p slash)" using Split_nonempty [of t slash] by (simp add: t(1) Split_append_sep)
  ultimately show "a \<in> set (ancestors p)" unfolding ancestors_def Let_def set_map by (intro image_eqI) auto
qed

definition within :: "string \<Rightarrow> string \<Rightarrow> bool" where
  "within root p \<longleftrightarrow> p = root \<or> (\<exists>t. p = root @ slash # t)"

text \<open>Neither the directory, nor below it, nor a directory that leads to it.\<close>

definition outside :: "string \<Rightarrow> string \<Rightarrow> bool" where
  "outside root q \<longleftrightarrow> q \<noteq> ''/'' \<and> \<not> within root q \<and> q \<notin> set (ancestors root)"

lemma outside_ancestor:
  assumes "within root p" and "abs_clean root" and "root \<noteq> ''/''" and "a \<in> set (ancestors p)"
  shows "\<not> outside root a"
proof (cases "p = root")
  case False
  then obtain t where t: "p = root @ slash # t" using assms(1) by (auto simp: within_def)
  obtain r where r: "root = slash # r" using assms(2) by (auto simp: abs_clean_def)
  then have "a \<noteq> []" and "\<exists>u. root @ slash # t = a @ slash # u"
    using assms(4) ancestors_iff [of p "r @ slash # t" a] t by auto
  then obtain u where "root @ slash # t = a @ slash # u" by blast
  then have "a = root \<or> (\<exists>v. a = root @ slash # v) \<or> (\<exists>v. root = a @ slash # v)"
    by (auto simp: append_eq_append_conv2 Cons_eq_append_conv append_eq_Cons_conv)
  then show ?thesis using ancestors_iff [OF r] \<open>a \<noteq> []\<close> by (auto simp: outside_def within_def)
qed (use assms in \<open>auto simp: outside_def\<close>)

lemma outside_chain:
  assumes "within root p" and "abs_clean root" and "root \<noteq> ''/''" and "abs_clean p"
  shows "list_all (\<lambda>a. abs_clean a \<and> \<not> outside root a) (ancestors p @ [p])"
  using assms outside_ancestor [OF assms(1-3)] ancestors_clean [OF assms(4)]
  by (auto simp: list_all_iff outside_def)

lemma outside_Dir:
  assumes "within root p" and "abs_clean root" and "root \<noteq> ''/''" and "abs_clean p"
  shows "list_all (\<lambda>a. abs_clean a \<and> \<not> outside root a) (ancestors (Dir p) @ [Dir p])"
proof -
  have "p \<noteq> ''/''" using assms(1-3) by (auto simp: within_def abs_clean_def)
  then obtain d n where d: "Dir p = (if d = [] then ''/'' else d)" "ancestors p = (if d = [] then [] else ancestors d @ [d])"
    using abs_clean_split [OF assms(4)] by metis
  show ?thesis
  proof (cases "d = []")
    case True
    then show ?thesis using d(1) by (simp add: ancestors_def outside_def)
  next
    case False
    then show ?thesis using outside_chain [OF assms] d by simp
  qed
qed

lemma within_child:
  assumes "within root p" and "abs_clean p" and "p \<noteq> ''/''" and "valid_name n"
  shows "within root (path_Join p n) \<and> abs_clean (path_Join p n) \<and> path_Join p n \<noteq> ''/''"
proof -
  have "clean_rel n" "n \<noteq> []" using assms(4) by (auto simp: clean_rel_def valid_name_def Split_free)
  then have "path_Join p n = p @ slash # n" "abs_clean (path_Join p n)"
    using path_Join_abs [OF assms(2), of n] assms(3) by auto
  then show ?thesis using assms(1) \<open>n \<noteq> []\<close> by (auto simp: within_def append_eq_Cons_conv)
qed

lemma validateLocalName_valid: "validateLocalName name = Inr n \<Longrightarrow> valid_name n"
  by (auto simp: validateLocalName_def Let_def valid_name_def split: if_splits)

text \<open>On Windows a name with a backslash passes and leads out of the local directory.\<close>

theorem windows_name_escapes:
  "validateLocalName (''..'' @ [backslash] @ ''..'' @ [backslash] @ ''x'') = Inr (''..'' @ [backslash] @ ''..'' @ [backslash] @ ''x'') \<and>
   local_Join True ''/copies/a'' (''..'' @ [backslash] @ ''..'' @ [backslash] @ ''x'') = ''/x''"
  by code_simp

text \<open>A server whose listings have no empty names and none with a backslash.\<close>

definition plain_listings :: "'c ProtocolClient \<Rightarrow> bool" where
  "plain_listings pc \<longleftrightarrow>
     (\<forall>k cookie n c resp c'. pc_ReadDir pc k cookie n c = (Inr resp, c') \<longrightarrow>
        list_all (\<lambda>e. de_Name e \<noteq> [] \<and> backslash \<notin> set (de_Name e)) (ReadDirResp_Entries resp))"

definition no_backslashes :: "MountFileInfo list \<Rightarrow> bool" where
  "no_backslashes es \<longleftrightarrow> list_all (\<lambda>e. backslash \<notin> set (mi_Name e)) es"

lemma take_entries_names:
  "list_all (\<lambda>e. de_Name e \<noteq> [] \<and> backslash \<notin> set (de_Name e)) es \<Longrightarrow> no_backslashes (fst (take_entries h es m))"
  by (induction es arbitrary: m)
    (simp_all add: no_backslashes_def fileInfoFromNode_def Let_def case_prod_unfold)

lemma listing_names:
  assumes "mount_ReadDirectory pc h cookie n m = (Inr page, m')" and "plain_listings pc"
  shows "no_backslashes (dp_Entries page)"
proof -
  let ?n = "if n = 0 then op_ReadDirBatchSize (m_opts m) else n"
  obtain dh where dh: "m_directoryHandles m h = Some dh"
    using assms(1) by (auto simp: mount_ReadDirectory_def split: option.splits)
  obtain x c' where x: "pc_ReadDir pc (md_RemoteCursorID dh) cookie ?n (m_client m) = (x, c')" by fastforce
  obtain resp where resp: "x = Inr resp"
    using assms(1) dh x by (cases x) (auto simp: mount_ReadDirectory_def calling_def Let_def)
  have r: "pc_ReadDir pc (md_RemoteCursorID dh) cookie ?n (m_client m) = (Inr resp, c')" using x resp by simp
  have page: "dp_Entries page = fst (take_entries dh (ReadDirResp_Entries resp) (m\<lparr>m_client := c'\<rparr>))"
    using assms(1) dh r by (auto simp: mount_ReadDirectory_def calling_def Let_def case_prod_unfold)
  have "list_all (\<lambda>e. de_Name e \<noteq> [] \<and> backslash \<notin> set (de_Name e)) (ReadDirResp_Entries resp)"
    using assms(2) r unfolding plain_listings_def by blast
  then show ?thesis unfolding page by (rule take_entries_names)
qed

lemma local_Join_plain:
  assumes "validateLocalName name = Inr n" and "\<not> windows \<or> backslash \<notin> set name"
  shows "local_Join windows p n = path_Join p n"
proof -
  have "n = TrimSpace name" using assms(1) by (auto simp: validateLocalName_def Let_def split: if_splits)
  then have "set n \<subseteq> set name" by (auto simp: TrimSpace_def trim_by_def dest!: set_dropWhileD)
  then have "\<not> windows \<or> backslash \<notin> set n" using assms(2) by blast
  then show ?thesis using ReplaceAll_id [of backslash n slash] by (auto simp: local_Join_def)
qed

section \<open>Local changes stay below the directory\<close>

definition fs_inv :: "fs \<Rightarrow> bool" where
  "fs_inv f \<longleftrightarrow> fs_wf f \<and> fresh_inode f \<and> distinct (map snd (fs_paths f))"

definition keeps_outside :: "string \<Rightarrow> fs \<Rightarrow> fs \<Rightarrow> bool" where
  "keeps_outside root f f' \<longleftrightarrow> fs_inv f' \<and> (\<forall>q. outside root q \<longrightarrow> view f' q = view f q)"

lemma keeps_refl: "fs_inv f \<Longrightarrow> keeps_outside root f f"
  by (simp add: keeps_outside_def)

lemma keeps_trans: "keeps_outside root f g \<Longrightarrow> keeps_outside root g h \<Longrightarrow> keeps_outside root f h"
  by (simp add: keeps_outside_def)

lemma keeps_touch: "keeps_outside root f g \<Longrightarrow> keeps_outside root f (touch_path p g)"
  by (simp add: keeps_outside_def fs_inv_def)
    (simp add: touch_path_def upd_inode_def split: option.split)

lemma keeps_add:
  assumes "fs_inv f" and "abs_clean p" and "\<not> outside root p"
  shows "keeps_outside root f (f\<lparr>fs_paths := (p, fs_next f) # filter (\<lambda>(q, _). q \<noteq> p) (fs_paths f),
      fs_inodes := (fs_inodes f)(fs_next f \<mapsto> n), fs_next := Suc (fs_next f)\<rparr>)"
proof -
  have inv: "fs_wf f" "fresh_inode f" "distinct (map snd (fs_paths f))" using assms(1) by (simp_all add: fs_inv_def)
  have "distinct (map snd (filter P (fs_paths f)))" for P
    using inv(3) by (auto simp: distinct_map intro: inj_on_subset)
  moreover have "fs_next f \<notin> snd ` set (filter P (fs_paths f))" for P
    using inv(2) by (auto simp: fresh_inode_def)
  moreover have "fs_wf (f\<lparr>fs_paths := (p, fs_next f) # filter (\<lambda>(q, _). q \<noteq> p) (fs_paths f)\<rparr>)"
    by (rule fs_wf_add [OF inv(1) assms(2)])
  ultimately show ?thesis
    using assms(3) inv(2) view_add [OF inv(2)]
    by (auto simp: keeps_outside_def fs_inv_def fresh_inode_def fs_wf_def)
qed

lemma keeps_Mkdir: "fs_inv f \<Longrightarrow> abs_clean p \<Longrightarrow> \<not> outside root p \<Longrightarrow> keeps_outside root f (snd (os_Mkdir p f))"
  by (auto simp: os_Mkdir_def Let_def keeps_refl keeps_add keeps_touch split: sum.split prod.split)

lemma keeps_make_dirs:
  "fs_inv f \<Longrightarrow> list_all (\<lambda>a. abs_clean a \<and> \<not> outside root a) as \<Longrightarrow> keeps_outside root f (snd (make_dirs as f))"
proof (induction as arbitrary: f)
  case (Cons a as)
  obtain e g where g: "os_Mkdir a f = (e, g)" by (cases "os_Mkdir a f")
  have "keeps_outside root f g" using keeps_Mkdir [of f a root] Cons.prems g by simp
  moreover then have "keeps_outside root g (snd (make_dirs as g))"
    using Cons by (simp add: keeps_outside_def)
  ultimately show ?case
    using Cons g by (auto simp: keeps_refl intro: keeps_trans split: sum.split option.split)
qed (simp add: keeps_refl)

lemma keeps_MkdirAll:
  "fs_inv f \<Longrightarrow> list_all (\<lambda>a. abs_clean a \<and> \<not> outside root a) (ancestors p @ [p]) \<Longrightarrow>
    keeps_outside root f (snd (os_MkdirAll p f))"
  using keeps_make_dirs [of f root "ancestors p @ [p]"] by (auto simp: os_MkdirAll_def keeps_refl split: sum.split)

text \<open>A file that no path outside names.\<close>

definition hidden :: "string \<Rightarrow> fs \<Rightarrow> OsFile \<Rightarrow> bool" where
  "hidden root f fl \<longleftrightarrow> (\<forall>q. outside root q \<longrightarrow> map_of (fs_paths f) q \<noteq> Some (of_inode fl))"

lemma keeps_upd:
  assumes "fs_inv f" and "hidden root f fl"
  shows "keeps_outside root f (upd_inode (of_inode fl) g f)"
proof -
  have "view (upd_inode (of_inode fl) g f) q = view f q" if "outside root q" for q
  proof -
    have "map_of (fs_paths f) q \<noteq> Some (of_inode fl)" using assms(2) that by (simp add: hidden_def)
    then show ?thesis
      by (cases "map_of (fs_paths f) q") (auto simp: view_def inode_at_upd inode_at_def option.map_comp comp_def)
  qed
  moreover have "fs_inv (upd_inode (of_inode fl) g f)"
    using assms(1) by (simp add: fs_inv_def upd_inode_def fs_wf_def fresh_inode_def)
  ultimately show ?thesis by (simp add: keeps_outside_def)
qed

lemma keeps_WriteAt:
  assumes "fs_inv f" and "hidden root f fl"
  shows "keeps_outside root f (snd (file_WriteAt fl d off f)) \<and> hidden root (snd (file_WriteAt fl d off f)) fl"
  using assms keeps_upd [OF assms] keeps_refl [OF assms(1)]
  by (auto simp: file_WriteAt_def hidden_def upd_inode_def [of _ _ f] split: option.split)

lemma map_of_inode_inj:
  "distinct (map snd xs) \<Longrightarrow> map_of xs p = Some i \<Longrightarrow> map_of xs q = Some i \<Longrightarrow> q = p"
  by (metis distinct_map inj_onD map_of_SomeD prod.inject snd_conv)

lemma keeps_Create:
  assumes "os_Create p f = (r, g)" and "fs_inv f" and "abs_clean p" and "\<not> outside root p"
  shows "keeps_outside root f g" and "r = Inr fl \<Longrightarrow> hidden root g fl"
proof -
  have "keeps_outside root f g \<and> (r = Inr fl \<longrightarrow> hidden root g fl)"
  proof (cases "resolve f p")
    case (Inr x)
    obtain i n where x: "x = (i, n)" by (cases x)
    then have "map_of (fs_paths f) p = Some i"
      using Inr by (auto simp: resolve_def inode_at_def split: option.splits)
    then have hid: "hidden root f \<lparr>of_inode = i, of_name = p\<rparr>"
      using assms(2,4) map_of_inode_inj by (fastforce simp: hidden_def fs_inv_def)
    then have "keeps_outside root f (upd_inode i (set_data [] (fs_clock f)) f)"
      using keeps_upd [OF assms(2) hid] by simp
    then show ?thesis
      using assms(1,2) Inr x hid
      by (auto simp: os_Create_def os_OpenFile_def keeps_refl hidden_def upd_inode_def split: if_splits)
  next
    case (Inl e)
    show ?thesis
    proof (cases "\<exists>fl. r = Inr fl")
      case False
      then have "g = f" using assms(1) Inl by (auto simp: os_Create_def os_OpenFile_def Let_def split: if_splits sum.splits)
      then show ?thesis using False assms(2) by (auto simp: keeps_refl)
    next
      case True
      let ?new = "\<lparr>i_isdir = False, i_data = [], i_mode = 420, i_mtime = fs_clock f, i_readable = True,
        i_writable = True, i_faults = []\<rparr>"
      let ?g = "f\<lparr>fs_paths := (p, fs_next f) # filter (\<lambda>(q, _). q \<noteq> p) (fs_paths f),
        fs_inodes := (fs_inodes f)(fs_next f \<mapsto> ?new), fs_next := Suc (fs_next f)\<rparr>"
      have g: "g = touch_path (Dir p) ?g" and r: "r = Inr \<lparr>of_inode = fs_next f, of_name = p\<rparr>"
        using assms(1) Inl True by (auto simp: os_Create_def os_OpenFile_def Let_def split: if_splits sum.splits)
      have keep: "keeps_outside root f g" using keeps_touch [OF keeps_add [OF assms(2,3,4)]] g by simp
      moreover have "map_of (fs_paths g) p = Some (fs_next f)"
        by (simp add: g touch_path_def upd_inode_def split: option.split)
      then have "hidden root g \<lparr>of_inode = fs_next f, of_name = p\<rparr>"
        using keep assms(4) map_of_inode_inj by (fastforce simp: hidden_def keeps_outside_def fs_inv_def)
      ultimately show ?thesis using r by auto
    qed
  qed
  then show "keeps_outside root f g" and "r = Inr fl \<Longrightarrow> hidden root g fl" by blast+
qed

lemma keeps_Chtimes: "fs_inv f \<Longrightarrow> keeps_outside root f (os_Chtimes p t f)"
proof -
  assume f: "fs_inv f"
  have "view (upd_inode i (\<lambda>n. n\<lparr>i_mtime := t\<rparr>) f) q = view f q" for i q
    by (cases "inode_at f q") (auto simp: view_def inode_at_upd)
  moreover have "fs_inv (upd_inode i g f)" for i g using f by (simp add: fs_inv_def upd_inode_def fs_wf_def fresh_inode_def)
  ultimately show ?thesis using f by (auto simp: os_Chtimes_def keeps_outside_def split: sum.split)
qed

section \<open>Copies are confined\<close>

lemma ctx_Err_fs [simp]: "ctx_Err s = (e, s') \<Longrightarrow> ss_fs s' = ss_fs s"
  by (auto simp: ctx_Err_def split: option.splits nat.splits)

lemma on_mount_fs [simp]: "on_mount oper s = (r, s') \<Longrightarrow> ss_fs s' = ss_fs s"
  by (auto simp: on_mount_def split: prod.splits)

lemma on_mount_fs' [simp]: "ss_fs (snd (on_mount oper s)) = ss_fs s"
  by (simp add: on_mount_def split: prod.split)

lemma on_fs_fs: "on_fs oper s = (r, s') \<Longrightarrow> oper (ss_fs s) = (r, ss_fs s')"
  by (auto simp: on_fs_def split: prod.splits)

lemma copy_blocks_confined:
  "copy_blocks env mt fuel h fl off s = Some (r, s') \<Longrightarrow> fs_inv (ss_fs s) \<Longrightarrow> hidden root (ss_fs s) fl \<Longrightarrow>
    keeps_outside root (ss_fs s) (ss_fs s')"
proof (induction fuel arbitrary: off s)
  case (Suc fuel)
  obtain e1 s1 where s1: "ctx_Err s = (e1, s1)" by (cases "ctx_Err s")
  obtain rd s2 where s2: "on_mount (mount_Read (sv_client env) h off (mt_readLength mt)) s1 = (rd, s2)"
    by (cases "on_mount (mount_Read (sv_client env) h off (mt_readLength mt)) s1")
  have f2: "ss_fs s1 = ss_fs s" "ss_fs s2 = ss_fs s" using ctx_Err_fs [OF s1] on_mount_fs [OF s2] by simp_all
  note refl = keeps_refl [OF Suc.prems(2), of root]
  show ?case
  proof (cases "e1 = None \<and> (\<exists>res. rd = Inr res \<and> rr_Data res \<noteq> [])")
    case False
    then have "ss_fs s' = ss_fs s"
      using Suc.prems(1) s1 s2 f2 by (auto split: option.splits sum.splits if_splits)
    then show ?thesis using refl by simp
  next
    case True
    then obtain res where res: "e1 = None" "rd = Inr res" "rr_Data res \<noteq> []" by blast
    obtain n we s3 where s3: "on_fs (file_WriteAt fl (rr_Data res) off) s2 = ((n, we), s3)"
      by (cases "on_fs (file_WriteAt fl (rr_Data res) off) s2" rule: prod.exhaust) (metis surj_pair)
    have w: "keeps_outside root (ss_fs s) (ss_fs s3)" "hidden root (ss_fs s3) fl"
      using keeps_WriteAt [OF Suc.prems(2,3), of "rr_Data res" off] on_fs_fs [OF s3] f2 by simp_all
    show ?thesis
    proof (cases "s' = s3")
      case False
      then have "copy_blocks env mt fuel h fl (off + int n) s3 = Some (r, s')"
        using Suc.prems(1) s1 s2 s3 res by (auto split: option.splits if_splits)
      then show ?thesis using Suc.IH w keeps_trans by (metis keeps_outside_def)
    qed (use w in simp)
  qed
qed simp

lemma syncFile_confined:
  assumes "syncFile env mt fuel rp lp info s = Some (r, s')" and "fs_inv (ss_fs s)"
    and "within root lp" and "abs_clean lp" and "abs_clean root" and "root \<noteq> ''/''"
  shows "keeps_outside root (ss_fs s) (ss_fs s')"
proof -
  have lp: "\<not> outside root lp" using assms(3) by (simp add: outside_def)
  obtain e1 s1 where s1: "ctx_Err s = (e1, s1)" by (cases "ctx_Err s")
  obtain e2 s2 where s2: "on_fs (os_MkdirAll (Dir lp)) s1 = (e2, s2)" by (cases "on_fs (os_MkdirAll (Dir lp)) s1")
  have k2: "keeps_outside root (ss_fs s) (ss_fs s2)"
    using keeps_MkdirAll [OF assms(2) outside_Dir [OF assms(3,5,6,4)]] on_fs_fs [OF s2] ctx_Err_fs [OF s1]
    by (metis snd_conv)
  obtain h s3 where s3: "on_mount (mount_Open (sv_client env) rp) s2 = (h, s3)"
    by (cases "on_mount (mount_Open (sv_client env) rp) s2")
  have f3: "ss_fs s3 = ss_fs s2" using on_mount_fs [OF s3] .
  obtain fr s4 where s4: "on_fs (os_Create lp) s3 = (fr, s4)" by (cases "on_fs (os_Create lp) s3")
  have inv2: "fs_inv (ss_fs s2)" using k2 by (simp add: keeps_outside_def)
  have created: "os_Create lp (ss_fs s2) = (fr, ss_fs s4)" using on_fs_fs [OF s4] f3 by simp
  note k4 = keeps_Create [OF created inv2 assms(4) lp]
  have k4': "keeps_outside root (ss_fs s) (ss_fs s4)" using keeps_trans [OF k2 k4(1)] .
  show ?thesis
  proof (cases "e1 = None \<and> e2 = None \<and> (\<exists>hd. h = Inr hd) \<and> (\<exists>fl. fr = Inr fl)")
    case False
    then have "ss_fs s' \<in> {ss_fs s, ss_fs s2, ss_fs s4}"
      using assms(1) s1 s2 s3 s4 f3 ctx_Err_fs [OF s1]
      by (auto simp: syncFile_def Let_def split: option.splits sum.splits)
    then show ?thesis using k2 k4' keeps_refl [OF assms(2)] by auto
  next
    case True
    then obtain hd fl where ok: "e1 = None" "e2 = None" "h = Inr hd" "fr = Inr fl" by blast
    obtain copied ce s5 where s5: "copy_blocks env mt fuel (mf_HandleID hd) fl 0 s4 = Some ((copied, ce), s5)"
      using assms(1) s1 s2 s3 s4 ok by (auto simp: syncFile_def Let_def split: option.splits)
    have "keeps_outside root (ss_fs s4) (ss_fs s5)"
      using copy_blocks_confined [OF s5] k4 ok(4) by (simp add: keeps_outside_def)
    then have k5: "keeps_outside root (ss_fs s) (ss_fs s5)" using keeps_trans [OF k4'] by blast
    then have "keeps_outside root (ss_fs s) (os_Chtimes lp t (ss_fs s5))" for t
      using keeps_trans [OF k5 keeps_Chtimes] by (simp add: keeps_outside_def)
    moreover have "ss_fs s' = ss_fs s5 \<or> (\<exists>t. ss_fs s' = os_Chtimes lp t (ss_fs s5))"
      using assms(1) s1 s2 s3 s4 s5 ok
      by (auto simp: syncFile_def Let_def split: option.splits if_splits)
    ultimately show ?thesis using k5 by auto
  qed
qed

text \<open>A way to copy a child that changes nothing outside.\<close>

definition confined :: "string \<Rightarrow> (MountFileInfo \<Rightarrow> string \<Rightarrow> 'c sync_state \<Rightarrow> 'c sync_result) \<Rightarrow> bool" where
  "confined root child \<longleftrightarrow>
     (\<forall>entry lp s r s'. child entry lp s = Some (r, s') \<longrightarrow> fs_inv (ss_fs s) \<longrightarrow> within root lp \<longrightarrow> abs_clean lp \<longrightarrow>
        keeps_outside root (ss_fs s) (ss_fs s'))"

lemma confinedD:
  "confined root child \<Longrightarrow> child entry lp s = Some (r, s') \<Longrightarrow> fs_inv (ss_fs s) \<Longrightarrow> within root lp \<Longrightarrow> abs_clean lp \<Longrightarrow>
    keeps_outside root (ss_fs s) (ss_fs s')"
  unfolding confined_def by blast

lemma sync_entries_confined:
  assumes "confined root child" and "within root lp" and "abs_clean lp" and "lp \<noteq> ''/''"
  shows "sync_entries w child es lp stats s = Some (r, s') \<Longrightarrow> fs_inv (ss_fs s) \<Longrightarrow> \<not> w \<or> no_backslashes es \<Longrightarrow>
    keeps_outside root (ss_fs s) (ss_fs s')"
proof (induction es arbitrary: stats s)
  case (Cons e es)
  show ?case
  proof (cases "validateLocalName (mi_Name e)")
    case (Inl t)
    then show ?thesis using Cons.prems keeps_refl by auto
  next
    case (Inr n)
    note child = within_child [OF assms(2-4) validateLocalName_valid [OF Inr]]
    have "local_Join w lp n = path_Join lp n"
      using local_Join_plain [OF Inr] Cons.prems(3) by (auto simp: no_backslashes_def)
    then obtain cs err s1 where s1: "child e (path_Join lp n) s = Some ((cs, err), s1)"
      and j: "local_Join w lp n = path_Join lp n"
      using Cons.prems(1) Inr by (auto split: option.splits)
    have k1: "keeps_outside root (ss_fs s) (ss_fs s1)"
      using confinedD [OF assms(1) s1 Cons.prems(2)] child by blast
    show ?thesis
    proof (cases err)
      case (Some x)
      then show ?thesis using Cons.prems(1) Inr s1 k1 j by simp
    next
      case None
      then have "sync_entries w child es lp (add_stats stats cs) s1 = Some (r, s')" using Cons.prems(1) Inr s1 j by simp
      moreover have "\<not> w \<or> no_backslashes es" using Cons.prems(3) by (auto simp: no_backslashes_def)
      ultimately show ?thesis using Cons.IH k1 keeps_trans by (metis keeps_outside_def)
    qed
  qed
qed (simp add: keeps_refl)

lemma sync_pages_confined:
  assumes "confined root child" and "within root lp" and "abs_clean lp" and "lp \<noteq> ''/''"
    and plain: "\<not> sv_windows env \<or> plain_listings (sv_client env)"
  shows "sync_pages env mt child fuel h cookie lp stats s = Some (r, s') \<Longrightarrow> fs_inv (ss_fs s) \<Longrightarrow>
    keeps_outside root (ss_fs s) (ss_fs s')"
proof (induction fuel arbitrary: cookie stats s)
  case (Suc fuel)
  obtain e1 s1 where s1: "ctx_Err s = (e1, s1)" by (cases "ctx_Err s")
  obtain pg s2 where s2: "on_mount (mount_ReadDirectory (sv_client env) h cookie (mt_maxEntries mt)) s1 = (pg, s2)"
    by (cases "on_mount (mount_ReadDirectory (sv_client env) h cookie (mt_maxEntries mt)) s1")
  have f2: "ss_fs s1 = ss_fs s" "ss_fs s2 = ss_fs s" using ctx_Err_fs [OF s1] on_mount_fs [OF s2] by simp_all
  show ?case
  proof (cases "e1 = None \<and> (\<exists>page. pg = Inr page)")
    case False
    then have "ss_fs s' = ss_fs s"
      using Suc.prems(1) s1 s2 f2 by (auto split: option.splits sum.splits)
    then show ?thesis using keeps_refl [OF Suc.prems(2)] by simp
  next
    case True
    then obtain page where page: "e1 = None" "pg = Inr page" by blast
    obtain st err s3 where s3: "sync_entries (sv_windows env) child (dp_Entries page) lp stats s2 = Some ((st, err), s3)"
      using Suc.prems(1) s1 s2 page by (auto split: option.splits)
    have "\<not> sv_windows env \<or> no_backslashes (dp_Entries page)"
      using plain s2 page(2) listing_names by (auto simp: on_mount_def split: prod.splits)
    then have k3: "keeps_outside root (ss_fs s) (ss_fs s3)"
      using sync_entries_confined [OF assms(1-4) s3] f2 Suc.prems(2) by simp
    show ?thesis
    proof (cases "err \<noteq> None \<or> dp_EOF page")
      case True
      then have "s' = s3" using Suc.prems(1) s1 s2 s3 page by simp
      then show ?thesis using k3 by simp
    next
      case False
      then have "sync_pages env mt child fuel h (dp_NextCookie page) lp st s3 = Some (r, s')"
        using Suc.prems(1) s1 s2 s3 page by simp
      then show ?thesis using Suc.IH k3 keeps_trans by (metis keeps_outside_def)
    qed
  qed
qed simp

lemma syncDirectory_confined:
  assumes "abs_clean root" and "root \<noteq> ''/''" and plain: "\<not> sv_windows env \<or> plain_listings (sv_client env)"
  shows "syncDirectory env mt fuel rp lp s = Some (r, s') \<Longrightarrow> fs_inv (ss_fs s) \<Longrightarrow> within root lp \<Longrightarrow> abs_clean lp \<Longrightarrow>
    keeps_outside root (ss_fs s) (ss_fs s')"
proof (induction fuel arbitrary: rp lp s r s')
  case (Suc fuel)
  let ?child = "\<lambda>entry childLocalPath. if mi_IsDirectory entry then syncDirectory env mt fuel (mi_Path entry) childLocalPath
    else syncFile env mt fuel (mi_Path entry) childLocalPath entry"
  have child: "confined root ?child"
    unfolding confined_def
  proof (intro allI impI)
    fix entry clp t q t'
    assume "?child entry clp t = Some (q, t')" and inv: "fs_inv (ss_fs t)" "within root clp" "abs_clean clp"
    then show "keeps_outside root (ss_fs t) (ss_fs t')"
      using Suc.IH [OF _ inv] syncFile_confined [OF _ inv assms(1,2)] by (cases "mi_IsDirectory entry") simp_all
  qed
  have lp: "lp \<noteq> ''/''" using Suc.prems(3) assms by (auto simp: within_def abs_clean_def)
  obtain e1 s1 where s1: "ctx_Err s = (e1, s1)" by (cases "ctx_Err s")
  obtain e2 s2 where s2: "on_fs (os_MkdirAll lp) s1 = (e2, s2)" by (cases "on_fs (os_MkdirAll lp) s1")
  have k2: "keeps_outside root (ss_fs s) (ss_fs s2)"
    using keeps_MkdirAll [OF Suc.prems(2) outside_chain [OF Suc.prems(3) assms(1,2) Suc.prems(4)]] on_fs_fs [OF s2]
      ctx_Err_fs [OF s1] by (metis snd_conv)
  obtain h s3 where s3: "on_mount (mount_OpenDirectory (sv_client env) rp) s2 = (h, s3)"
    by (cases "on_mount (mount_OpenDirectory (sv_client env) rp) s2")
  have f3: "ss_fs s3 = ss_fs s2" using on_mount_fs [OF s3] .
  show ?case
  proof (cases "e1 = None \<and> e2 = None \<and> (\<exists>dh. h = Inr dh)")
    case False
    then have "ss_fs s' \<in> {ss_fs s, ss_fs s2}"
      using Suc.prems(1) s1 s2 s3 f3 ctx_Err_fs [OF s1] by (auto split: option.splits sum.splits)
    then show ?thesis using k2 keeps_refl [OF Suc.prems(2)] by auto
  next
    case True
    then obtain dh where ok: "e1 = None" "e2 = None" "h = Inr dh" by blast
    obtain s4 where s4: "sync_pages env mt ?child fuel (md_HandleID dh) 0 lp (no_stats\<lparr>sta_Directories := 1\<rparr>) s3 = Some (r, s4)"
      and s': "ss_fs s' = ss_fs s4"
      using Suc.prems(1) s1 s2 s3 ok by auto
    have "keeps_outside root (ss_fs s3) (ss_fs s4)"
      using sync_pages_confined [OF child Suc.prems(3,4) lp plain s4] k2 f3 by (simp add: keeps_outside_def)
    then show ?thesis using keeps_trans [OF k2] f3 s' by simp
  qed
qed simp

text \<open>
  C33: Copying a remote tree is confined: whether the copy succeeds, fails or is cancelled, every path that is
  not the local directory, below it, or a directory leading to it, names the same file as before, with
  the same content and permissions. Where the slash is the only separator this holds whatever names
  and paths the server reports; on Windows it needs that no name the server lists has a backslash.
\<close>

theorem copies_confined:
  assumes "Sync env mt fuel remotePath localPath s = Some (r, s')" and "fs_inv (ss_fs s)"
    and "abs_clean localPath" and "localPath \<noteq> ''/''" and "outside localPath q"
    and "\<not> sv_windows env \<or> plain_listings (sv_client env)"
  shows "view (ss_fs s') q = view (ss_fs s) q"
proof -
  have self: "within localPath localPath" by (simp add: within_def)
  obtain e1 s1 where s1: "ctx_Err s = (e1, s1)" by (cases "ctx_Err s")
  obtain gi s2 where s2: "on_mount (mount_GetAttr (sv_client env) remotePath) s1 = (gi, s2)"
    by (cases "on_mount (mount_GetAttr (sv_client env) remotePath) s1")
  have f2: "ss_fs s1 = ss_fs s" "ss_fs s2 = ss_fs s" using ctx_Err_fs [OF s1] on_mount_fs [OF s2] by simp_all
  have "keeps_outside localPath (ss_fs s) (ss_fs s')"
  proof (cases "TrimSpace localPath \<noteq> [] \<and> e1 = None \<and> (\<exists>info. gi = Inr info)")
    case False
    then have "ss_fs s' = ss_fs s" using assms(1) s1 s2 f2 by (auto simp: Sync_def split: option.splits sum.splits if_splits)
    then show ?thesis using keeps_refl [OF assms(2)] by simp
  next
    case True
    then obtain info where "gi = Inr info" by blast
    then show ?thesis
      using assms(1,2) s1 s2 f2 True self
        syncDirectory_confined [OF assms(3,4,6), of mt fuel "mi_Path info" localPath s2 r s']
        syncFile_confined [of env mt fuel "mi_Path info" localPath info s2 r s' localPath] assms(3,4)
      by (auto simp: Sync_def split: if_splits)
  qed
  then show ?thesis using assms(5) by (simp add: keeps_outside_def)
qed

section \<open>Copies are faithful\<close>

text \<open>
  A mount that serves a file under a handle: a read returns the bytes from the offset on, at least one unless the
  offset is at the end, and end of file only together with the last byte.
\<close>

definition serves_file :: "'c ProtocolClient \<Rightarrow> ('c Mount \<Rightarrow> bool) \<Rightarrow> u64 \<Rightarrow> u32 \<Rightarrow> bytes \<Rightarrow> bool" where
  "serves_file pc I h len content \<longleftrightarrow>
     (\<forall>m off. I m \<and> off \<le> length content \<longrightarrow>
        (\<exists>k eof m'. mount_Read pc h (int off) len m =
             (Inr \<lparr>rr_Data = take k (drop off content), rr_Offset = int off, rr_EOF = eof\<rparr>, m') \<and> I m' \<and>
           (off < length content \<longrightarrow> 0 < k) \<and> (eof \<longrightarrow> length content \<le> off + k)))"

text \<open>The local file under a path holds some bytes and is open.\<close>

definition holding :: "fs \<Rightarrow> string \<Rightarrow> OsFile \<Rightarrow> bytes \<Rightarrow> bool" where
  "holding f p fl d \<longleftrightarrow>
     (\<forall>a \<in> set (ancestors p). is_dir_at f a) \<and>
     (\<exists>n. view f p = Some (of_inode fl, n) \<and> \<not> i_isdir n \<and> i_readable n \<and> i_data n = d \<and> i_faults n = [])"

lemma holding_stored: "holding f p fl d \<Longrightarrow> stored f p = Some d"
  by (auto simp: holding_def stored_eq content_at_def)

lemma holding_write:
  assumes "holding f p fl d" and "data \<noteq> []" and "length d + length data < 2 ^ 63"
  obtains f' where "file_WriteAt fl data (int (length d)) f = ((length data, None), f')" "holding f' p fl (d @ data)"
proof -
  obtain n where n: "view f p = Some (of_inode fl, n)" "\<not> i_isdir n" "i_readable n" "i_data n = d" "i_faults n = []"
    and dirs: "\<forall>a \<in> set (ancestors p). is_dir_at f a" using assms(1) by (auto simp: holding_def)
  obtain m where m: "fs_inodes f (of_inode fl) = Some m" "n = m\<lparr>i_mtime := 0\<rparr>" using view_inode [OF n(1)] by blast
  have "overlay d (length d) data = d @ data" using assms(2) by (simp add: overlay_def)
  then have upd: "upd_inode (of_inode fl) (\<lambda>n. set_data (overlay (i_data n) (length d) data) (fs_clock f) n) f =
      upd_inode (of_inode fl) (set_data (d @ data) (fs_clock f)) f"
    using m n(4) by (simp add: upd_inode_def)
  have "int (length d + length data) < int (2 ^ 63)" using assms(3) by (simp only: of_nat_less_iff)
  then have small: "\<not> 2 ^ 63 \<le> int (length d) + int (length data)" by simp
  show thesis
  proof (rule that)
    show "file_WriteAt fl data (int (length d)) f =
        ((length data, None), upd_inode (of_inode fl) (set_data (d @ data) (fs_clock f)) f)"
      using m n(5) upd small by (simp add: file_WriteAt_def)
    show "holding (upd_inode (of_inode fl) (set_data (d @ data) (fs_clock f)) f) p fl (d @ data)"
      using n dirs by (auto simp: holding_def)
  qed
qed

lemma copy_blocks_exact:
  assumes "serves_file (sv_client env) I h (mt_readLength mt) content" and "length content < 2 ^ 63"
  shows "length content - off < fuel \<Longrightarrow> off \<le> length content \<Longrightarrow> ss_ctx s = None \<Longrightarrow> I (ss_mount s) \<Longrightarrow>
    holding (ss_fs s) p fl (take off content) \<Longrightarrow>
    \<exists>s'. copy_blocks env mt fuel h fl (int off) s = Some ((int (length content), None), s') \<and>
      ss_ctx s' = None \<and> holding (ss_fs s') p fl content"
proof (induction fuel arbitrary: off s)
  case (Suc fuel)
  obtain k eof m where rd: "mount_Read (sv_client env) h (int off) (mt_readLength mt) (ss_mount s) =
      (Inr \<lparr>rr_Data = take k (drop off content), rr_Offset = int off, rr_EOF = eof\<rparr>, m)"
    and m: "I m" and k: "off < length content \<Longrightarrow> 0 < k" and eof: "eof \<Longrightarrow> length content \<le> off + k"
    using assms(1) Suc.prems(2,4) unfolding serves_file_def by blast
  define d where "d = take k (drop off content)"
  let ?s = "s\<lparr>ss_mount := m\<rparr>"
  have ctx: "ctx_Err s = (None, s)" using Suc.prems(3) by (simp add: ctx_Err_def)
  have read: "on_mount (mount_Read (sv_client env) h (int off) (mt_readLength mt)) s =
      (Inr \<lparr>rr_Data = d, rr_Offset = int off, rr_EOF = eof\<rparr>, ?s)"
    using rd by (simp add: on_mount_def d_def)
  show ?case
  proof (cases "off < length content")
    case False
    then have "d = []" and off: "off = length content" using Suc.prems(2) by (auto simp: d_def)
    then have "copy_blocks env mt (Suc fuel) h fl (int off) s = Some ((int off, None), ?s)" using ctx read by simp
    then show ?thesis using Suc.prems(3,5) off by auto
  next
    case True
    have ne: "d \<noteq> []" and len: "length (take off content) = off" using True k by (auto simp: d_def)
    have "off + length d \<le> length content" using True by (auto simp: d_def)
    then obtain f' where wr: "file_WriteAt fl d (int off) (ss_fs s) = ((length d, None), f')"
      and hold: "holding f' p fl (take off content @ d)"
      using holding_write [OF Suc.prems(5) ne] assms(2) len by auto
    have app: "take off content @ d = take (off + length d) content" by (auto simp: d_def take_add min_def)
    let ?t = "?s\<lparr>ss_fs := f'\<rparr>"
    have wr': "on_fs (file_WriteAt fl d (int off)) ?s = ((length d, None), ?t)" using wr by (simp add: on_fs_def)
    show ?thesis
    proof (cases eof)
      case True
      then have all: "off + length d = length content" using eof \<open>off < length content\<close> by (auto simp: d_def)
      have "copy_blocks env mt (Suc fuel) h fl (int off) s = Some ((int (off + length d), None), ?t)"
        using ctx read wr' ne True by simp
      then show ?thesis using hold app Suc.prems(3) unfolding all by (intro exI [of _ ?t]) simp
    next
      case False
      have step: "copy_blocks env mt (Suc fuel) h fl (int off) s = copy_blocks env mt fuel h fl (int (off + length d)) ?t"
        using ctx read wr' ne False by simp
      have "length content - (off + length d) < fuel" using Suc.prems(1) ne \<open>off < length content\<close> by (cases d) auto
      then show ?thesis
        unfolding step using hold app Suc.prems(3) m \<open>off + length d \<le> length content\<close> by (intro Suc.IH) simp_all
    qed
  qed
qed simp

lemma stored_Chtimes: "stored (os_Chtimes q t f) p = stored f p"
proof -
  have "view (os_Chtimes q t f) a = view f a" for a
    by (cases "inode_at f a") (auto simp: os_Chtimes_def view_def inode_at_upd split: sum.split)
  then show ?thesis by (intro stored_cong) simp_all
qed

lemma syncFile_exact:
  assumes "serves_file (sv_client env) I (mf_HandleID h) (mt_readLength mt) content" and "length content < 2 ^ 63"
    and "length content < fuel" and "ss_ctx s = None"
    and "os_MkdirAll (Dir lp) (ss_fs s) = (None, f1)" and "os_Create lp f1 = (Inr fl, f2)"
    and "mount_Open (sv_client env) rp (ss_mount s) = (Inr h, m)" and "I m"
    and "fs_ok (ss_fs s)" and "abs_clean lp" and "lp \<noteq> ''/''"
  shows "\<exists>s'. syncFile env mt fuel rp lp info s =
      Some ((\<lparr>sta_Directories = 0, sta_Files = 1, sta_Bytes = int (length content)\<rparr>, None), s') \<and>
    stored (ss_fs s') lp = Some content"
proof -
  have ok1: "fs_ok f1" using fs_ok_MkdirAll [OF assms(9) abs_clean_Dir [OF assms(10,11)]] assms(5) by simp
  have opened: "os_OpenFile True True False True lp f1 = (Inr fl, f2)" using assms(6) by (simp add: os_Create_def)
  have hold: "holding f2 lp fl (take 0 content)"
    using open_truncated [OF opened assms(10,11)] ok1 by (auto simp: holding_def fs_ok_def)
  let ?s = "s\<lparr>ss_fs := f2, ss_mount := m\<rparr>"
  obtain t where t: "copy_blocks env mt fuel (mf_HandleID h) fl (int 0) ?s = Some ((int (length content), None), t)"
    and held: "holding (ss_fs t) lp fl content"
    using copy_blocks_exact [OF assms(1,2), of 0 fuel ?s lp fl] assms(3,4,8) hold by auto
  have closed: "file_Close (ss_fs t) fl = None"
  proof -
    obtain n where "view (ss_fs t) lp = Some (of_inode fl, n)" "i_faults n = []" using held by (auto simp: holding_def)
    then show ?thesis using view_inode [of "ss_fs t" lp "of_inode fl" n] by (auto simp: file_Close_def file_fault_def)
  qed
  have run: "ctx_Err s = (None, s)" "on_fs (os_MkdirAll (Dir lp)) s = (None, s\<lparr>ss_fs := f1\<rparr>)"
    "on_mount (mount_Open (sv_client env) rp) (s\<lparr>ss_fs := f1\<rparr>) = (Inr h, s\<lparr>ss_fs := f1, ss_mount := m\<rparr>)"
    "on_fs (os_Create lp) (s\<lparr>ss_fs := f1, ss_mount := m\<rparr>) = (Inr fl, ?s)"
    "copy_blocks env mt fuel (mf_HandleID h) fl 0 ?s = Some ((int (length content), None), t)"
    using assms(4-7) t by (simp_all add: ctx_Err_def on_fs_def on_mount_def)
  define t' where "t' = (if mt_preserveTime mt then
      (case parseModTime (sv_Parse env) (mi_ModTime info) of
         Some (Some modTime) \<Rightarrow> t\<lparr>ss_fs := os_Chtimes lp modTime (ss_fs t)\<rparr> | _ \<Rightarrow> t) else t)"
  have "syncFile env mt fuel rp lp info s =
      Some ((no_stats\<lparr>sta_Files := 1, sta_Bytes := int (length content)\<rparr>, None),
        snd (on_mount (mount_Close (sv_client env) (mf_HandleID h)) t'))"
    unfolding syncFile_def run t'_def by (simp only: run closed Let_def prod.case option.case sum.case)
  moreover have "stored (ss_fs t') lp = Some content"
    using holding_stored [OF held] by (simp add: t'_def stored_Chtimes split: option.split)
  ultimately show ?thesis by (simp add: no_stats_def)
qed

text \<open>
  C34: A copied file is the remote file: if the mount opens the remote file and serves its content, the local
  directory can be made and the local file created, and the copy is not cancelled, then copying ends
  without an error within as many rounds as the file has bytes and one more, counts one file and its
  bytes, and the local path holds exactly the remote content, also if it held another file before.
\<close>

theorem copied_file_faithful:
  assumes "serves_file (sv_client env) I (mf_HandleID h) (mt_readLength mt) content" and "length content < 2 ^ 63"
    and "length content < fuel" and "ss_ctx s = None"
    and "os_MkdirAll (Dir lp) (ss_fs s) = (None, f1)" and "os_Create lp f1 = (Inr fl, f2)"
    and "mount_Open (sv_client env) rp (ss_mount s) = (Inr h, m)" and "I m"
    and "fs_ok (ss_fs s)" and "abs_clean lp" and "lp \<noteq> ''/''"
  shows "\<exists>s'. syncFile env mt fuel rp lp info s =
      Some ((\<lparr>sta_Directories = 0, sta_Files = 1, sta_Bytes = int (length content)\<rparr>, None), s') \<and>
    stored (ss_fs s') lp = Some content"
  using assms by (rule syncFile_exact)

section \<open>A sample copy\<close>

definition sample_node :: NodeInfo where
  "sample_node =
     \<lparr>ni_NodeID = 2, ni_ParentNodeID = 1, ni_Name = ''a'', ni_FileType = ''file'', ni_Size = 3, ni_Mode = 0,
      ni_ModTime = []\<rparr>"

definition sample_remote :: "unit ProtocolClient" where
  "sample_remote =
     \<lparr>pc_Lookup = (\<lambda>_ _ c. (Inr \<lparr>LookupResp_Entry = sample_node\<rparr>, c)),
      pc_GetAttr = (\<lambda>_ c. (Inr \<lparr>GetAttrResp_Entry = sample_node\<rparr>, c)),
      pc_OpenDir = (\<lambda>_ c. (Inl NotConnected, c)), pc_ReadDir = (\<lambda>_ _ _ c. (Inl NotConnected, c)),
      pc_CloseDir = (\<lambda>_ c. (Inl NotConnected, c)),
      pc_OpenRead = (\<lambda>_ c. (Inr \<lparr>OpenResp_HandleID = 9, OpenResp_Size = 3\<rparr>, c)),
      pc_Read = (\<lambda>_ off n c. (Inr \<lparr>ReadResp_Data = take 2 (drop (nat off) [5, 6, 7]), ReadResp_EOF = (1 \<le> off),
        ReadResp_Offset = off\<rparr>, c)),
      pc_CloseHandle = (\<lambda>_ c. (Inr \<lparr>CloseResp_Closed = True\<rparr>, c))\<rparr>"

definition sample_sync_env :: "unit sync_env" where
  "sample_sync_env = \<lparr>sv_client = sample_remote, sv_Parse = (\<lambda>_. None), sv_windows = True\<rparr>"

definition sample_sync :: "unit sync_state" where
  "sample_sync =
     \<lparr>ss_mount = New_mount () \<lparr>op_RootNodeID = 1, op_VolumeName = [], op_ReadOnly = True, op_CaseSensitive = False,
        op_ReadDirBatchSize = 0\<rparr>,
      ss_fs = sample_disk, ss_ctx = None\<rparr>"

lemma abs_clean_copy: "abs_clean ''/x''"
  by (auto simp: abs_clean_def clean_rel_def valid_name_def)

theorem copies_confined_witness:
  "\<exists>r s'. Sync sample_sync_env (New_materializer 2 0) 4 ''/a'' ''/x'' sample_sync = Some (r, s') \<and>
    view (ss_fs s') ''/s'' = view sample_disk ''/s''"
proof -
  have "Sync sample_sync_env (New_materializer 2 0) 4 ''/a'' ''/x'' sample_sync \<noteq> None" by code_simp
  then obtain r s' where run: "Sync sample_sync_env (New_materializer 2 0) 4 ''/a'' ''/x'' sample_sync = Some (r, s')"
    by auto
  have disk: "ss_fs sample_sync = sample_disk" by (simp add: sample_sync_def)
  have "fs_inv (ss_fs sample_sync)"
    using fs_ok_sample disk by (simp add: fs_inv_def fs_ok_def sample_disk_def)
  moreover have "outside ''/x'' ''/s''" by (simp add: outside_def within_def ancestors_def)
  moreover have "plain_listings (sv_client sample_sync_env)"
    by (simp add: plain_listings_def sample_sync_env_def sample_remote_def one_file_client_def)
  ultimately show ?thesis using copies_confined [OF run _ abs_clean_copy] run disk by auto
qed

lemma sample_open:
  "\<exists>h m. mount_Open sample_remote ''/a'' (ss_mount sample_sync) = (Inr h, m) \<and> mf_HandleID h = 1 \<and>
    m_fileHandles m 1 \<noteq> None"
proof -
  have "case mount_Open sample_remote ''/a'' (ss_mount sample_sync) of
      (Inl _, _) \<Rightarrow> False | (Inr h, m) \<Rightarrow> mf_HandleID h = 1 \<and> \<not> Option.is_none (m_fileHandles m 1)"
    by code_simp
  then show ?thesis by (auto simp: Option.is_none_def split: prod.splits sum.splits)
qed

lemma sample_created:
  "\<exists>f1 fl f2. os_MkdirAll (Dir ''/x'') sample_disk = (None, f1) \<and> os_Create ''/x'' f1 = (Inr fl, f2)"
proof -
  have "case os_MkdirAll (Dir ''/x'') sample_disk of
      (Some _, _) \<Rightarrow> False | (None, f1) \<Rightarrow> (case os_Create ''/x'' f1 of (Inl _, _) \<Rightarrow> False | (Inr _, _) \<Rightarrow> True)"
    by code_simp
  then show ?thesis by (auto split: prod.splits option.splits sum.splits)
qed

lemma sample_serves: "serves_file sample_remote (\<lambda>m. m_fileHandles m 1 \<noteq> None) 1 2 [5, 6, 7]"
proof -
  let ?data = "[5, 6, 7] :: bytes"
  have "\<exists>k eof m'. mount_Read sample_remote 1 (int off) 2 m =
      (Inr \<lparr>rr_Data = take k (drop off ?data), rr_Offset = int off, rr_EOF = eof\<rparr>, m') \<and> m_fileHandles m' 1 \<noteq> None \<and>
      (off < length ?data \<longrightarrow> 0 < k) \<and> (eof \<longrightarrow> length ?data \<le> off + k)"
    if "m_fileHandles m 1 \<noteq> None" for m off
    by (rule exI [of _ 2], rule exI [of _ "1 \<le> int off"], rule exI [of _ m])
      (use that in \<open>auto simp: mount_Read_def calling_def sample_remote_def\<close>)
  then show ?thesis unfolding serves_file_def by blast
qed

theorem copied_file_faithful_witness:
  "\<exists>s'. syncFile sample_sync_env (New_materializer 2 0) 4 ''/a'' ''/x'' (fileInfoFromNode ''/a'' sample_node) sample_sync =
      Some ((\<lparr>sta_Directories = 0, sta_Files = 1, sta_Bytes = 3\<rparr>, None), s') \<and> stored (ss_fs s') ''/x'' = Some [5, 6, 7]"
proof -
  have env: "sv_client sample_sync_env = sample_remote" "mt_readLength (New_materializer 2 0) = 2"
    "ss_fs sample_sync = sample_disk" "ss_ctx sample_sync = None"
    by (simp_all add: sample_sync_env_def New_materializer_def sample_sync_def)
  obtain h m where open_h: "mount_Open sample_remote ''/a'' (ss_mount sample_sync) = (Inr h, m)" "mf_HandleID h = 1"
      "m_fileHandles m 1 \<noteq> None"
    using sample_open by blast
  obtain f1 fl f2 where made: "os_MkdirAll (Dir ''/x'') sample_disk = (None, f1)" "os_Create ''/x'' f1 = (Inr fl, f2)"
    using sample_created by blast
  show ?thesis
    using copied_file_faithful [of sample_sync_env "\<lambda>m. m_fileHandles m 1 \<noteq> None" h "New_materializer 2 0" "[5, 6, 7]" 4
        sample_sync "''/x''" f1 fl f2 "''/a''" m] sample_serves open_h made env fs_ok_sample abs_clean_copy by simp
qed
end
