(* ===== verification/Runner.thy ===== *)
theory Runner
  imports Materialize NativeHandles
begin

text \<open>
  The command runner of the Windows client (\<^verbatim>\<open>internal/winclient/runner.go\<close>): it connects, opens a session,
  runs one operation on a fresh read-only mount and returns a report. The main result is that no operation
  leaves a handle open on the mount, whatever the server answers.
\<close>

section \<open>Package fmt\<close>

text \<open>\<^verbatim>\<open>%o\<close> and \<^verbatim>\<open>hex.EncodeToString\<close>.\<close>

fun octal :: "nat \<Rightarrow> string" where
  "octal n = (if n < 8 then [char_of (48 + n)] else octal (n div 8) @ [char_of (48 + n mod 8)])"

declare octal.simps [simp del]

definition EncodeToString :: "bytes \<Rightarrow> string" where
  "EncodeToString data = concat (map (\<lambda>b. [hex_digit (unat b div 16), hex_digit (unat b mod 16)]) data)"

section \<open>The runner\<close>

text \<open>
  What the runner relies on: the system, the protocol client with its far end, the error of connecting to an
  address, if any, what closing the connection does to the far end, \<^verbatim>\<open>time.Parse\<close>, and \<^verbatim>\<open>%q\<close>
  of arbitrary bytes, which depends on the tables of printable characters.
\<close>

record 'w runner_env =
  re_platform :: platform
  re_client :: "'w client_env"
  re_dial :: "string \<Rightarrow> string option"
  re_hang_up :: "'w \<Rightarrow> 'w"
  re_Parse :: "string \<Rightarrow> instant option option"
  re_windows :: bool
  re_QuoteBytes :: "bytes \<Rightarrow> string"

datatype runner_error =
    RunText string
  | RunClient client_error
  | RunSync sync_error

abbreviation RunMount :: "mount_error \<Rightarrow> runner_error" where
  "RunMount err \<equiv> RunSync (SyncMount err)"

definition runner_sync :: "'w runner_env \<Rightarrow> (Client \<times> 'w) sync_env" where
  "runner_sync env = \<lparr>sv_client = client_as_ProtocolClient (re_client env), sv_Parse = re_Parse env, sv_windows = re_windows env\<rparr>"

definition newline :: string where
  "newline = [CHR 0x0A]"

text \<open>The lines every report starts with.\<close>

definition session_report :: "HelloResp \<Rightarrow> AuthResp \<Rightarrow> CreateSessionResp \<Rightarrow> HeartbeatResp \<Rightarrow> string" where
  "session_report helloResp authResp sessionResp hbResp =
     ''hello: server='' @ HelloResp_ServerName helloResp @ '' version='' @ HelloResp_ServerVersion helloResp @
       '' selected='' @ format_u32 (ucast (HelloResp_SelectedProtocolVersion helloResp)) @ newline @
     ''auth: principal='' @ AuthResp_PrincipalID authResp @
       '' authenticated='' @ format_bool (AuthResp_Authenticated authResp) @ newline @
     ''session: id='' @ format_u64 (CreateSessionResp_SessionID sessionResp) @
       '' state='' @ CreateSessionResp_State sessionResp @ '' expires='' @ CreateSessionResp_ExpiresAt sessionResp @ newline @
     ''heartbeat: state='' @ HeartbeatResp_State hbResp @ '' expires='' @ HeartbeatResp_ExpiresAt hbResp @ newline"

definition entry_line :: "MountFileInfo \<Rightarrow> string" where
  "entry_line entry =
     ''- '' @ mi_Path entry @ '' node='' @ format_u64 (mi_NodeID entry) @
       '' dir='' @ format_bool (mi_IsDirectory entry) @ '' size='' @ format_int (mi_Size entry) @ newline"

text \<open>
  The switch over the operations: the error or the lines added to the report, and the mount and the local files
  afterwards; \<open>None\<close> if copying a tree runs out of fuel.
\<close>

definition run_volume :: "'c sync_state \<Rightarrow> (runner_error + string) \<times> 'c sync_state" where
  "run_volume s =
     (let info = mount_VolumeInfo (ss_mount s) in
      (Inr (''volume: name='' @ vi_Name info @ '' readonly='' @ format_bool (vi_ReadOnly info) @
         '' case_sensitive='' @ format_bool (vi_CaseSensitive info) @
         '' max_component='' @ format_u32 (vi_MaxComponentLength info) @ newline), s))"

definition run_getattr :: "'c sync_env \<Rightarrow> Config \<Rightarrow> 'c sync_state \<Rightarrow> (runner_error + string) \<times> 'c sync_state" where
  "run_getattr env config s =
     (case on_mount (mount_GetAttr (sv_client env) (cfg_Path config)) s of
        (Inl err, s) \<Rightarrow> (Inl (RunMount err), s)
      | (Inr info, s) \<Rightarrow>
          (Inr (''getattr: path='' @ mi_Path info @ '' node='' @ format_u64 (mi_NodeID info) @
             '' dir='' @ format_bool (mi_IsDirectory info) @ '' size='' @ format_int (mi_Size info) @
             '' mode='' @ octal (unat (mi_Mode info)) @ newline), s))"

definition run_readdir :: "'c sync_env \<Rightarrow> Config \<Rightarrow> 'c sync_state \<Rightarrow> (runner_error + string) \<times> 'c sync_state" where
  "run_readdir env config s =
     (case on_mount (mount_OpenDirectory (sv_client env) (cfg_Path config)) s of
        (Inl err, s) \<Rightarrow> (Inl (RunMount err), s)
      | (Inr handle, s) \<Rightarrow>
          let close = (\<lambda>s. snd (on_mount (mount_Close (sv_client env) (md_HandleID handle)) s)) in
          (case on_mount (mount_ReadDirectory (sv_client env) (md_HandleID handle) 0 (cfg_MaxEntries config)) s of
             (Inl err, s) \<Rightarrow> (Inl (RunMount err), close s)
           | (Inr page, s) \<Rightarrow>
               (Inr (''readdir: path='' @ mi_Path (md_Info handle) @ '' eof='' @ format_bool (dp_EOF page) @
                  '' next_cookie='' @ format_u64 (dp_NextCookie page) @
                  '' entries='' @ decimal (length (dp_Entries page)) @ newline @
                  concat (map entry_line (dp_Entries page))), close s)))"

definition run_read ::
  "'c sync_env \<Rightarrow> (bytes \<Rightarrow> string) \<Rightarrow> Config \<Rightarrow> 'c sync_state \<Rightarrow> (runner_error + string) \<times> 'c sync_state" where
  "run_read env quote config s =
     (case on_mount (mount_Open (sv_client env) (cfg_Path config)) s of
        (Inl err, s) \<Rightarrow> (Inl (RunMount err), s)
      | (Inr handle, s) \<Rightarrow>
          let close = (\<lambda>s. snd (on_mount (mount_Close (sv_client env) (mf_HandleID handle)) s)) in
          (case on_mount (mount_Read (sv_client env) (mf_HandleID handle) (cfg_Offset config) (cfg_Length config)) s of
             (Inl err, s) \<Rightarrow> (Inl (RunMount err), close s)
           | (Inr result, s) \<Rightarrow>
               (Inr (''read: path='' @ mi_Path (mf_Info handle) @ '' offset='' @ format_int (cfg_Offset config) @
                  '' eof='' @ format_bool (rr_EOF result) @ '' bytes='' @ decimal (length (rr_Data result)) @ newline @
                  ''hex='' @ EncodeToString (rr_Data result) @ newline @
                  ''text='' @ quote (rr_Data result) @ newline), close s)))"

definition run_materialize ::
  "'c sync_env \<Rightarrow> nat \<Rightarrow> Config \<Rightarrow> 'c sync_state \<Rightarrow> ((runner_error + string) \<times> 'c sync_state) option" where
  "run_materialize env fuel config s =
     (case Sync env (New_materializer (cfg_Length config) (cfg_MaxEntries config)) fuel (cfg_Path config)
             (cfg_LocalPath config) s of
        None \<Rightarrow> None
      | Some ((stats, Some err), s) \<Rightarrow> Some (Inl (RunSync err), s)
      | Some ((stats, None), s) \<Rightarrow>
          Some (Inr (''materialize: remote='' @ cfg_Path config @ '' local='' @ cfg_LocalPath config @
            '' directories='' @ format_int (sta_Directories stats) @ '' files='' @ format_int (sta_Files stats) @
            '' bytes='' @ format_int (sta_Bytes stats) @ newline), s))"

definition run_operation ::
  "'c sync_env \<Rightarrow> (bytes \<Rightarrow> string) \<Rightarrow> nat \<Rightarrow> Config \<Rightarrow> Operation \<Rightarrow> 'c sync_state \<Rightarrow>
    ((runner_error + string) \<times> 'c sync_state) option" where
  "run_operation env quote fuel config oper s =
     (if oper = OperationVolume then Some (run_volume s)
      else if oper = OperationGetAttr then Some (run_getattr env config s)
      else if oper = OperationReadDir then Some (run_readdir env config s)
      else if oper = OperationRead then Some (run_read env quote config s)
      else if oper = OperationMaterialize then run_materialize env fuel config s
      else Some (Inl (RunText (''unsupported operation '' @ Quote oper)), s))"

text \<open>
  \<^verbatim>\<open>Execute\<close>: the report or the error, the far end and the local files. The context is found alive \<open>ctx\<close> times
  (\<open>None\<close> if it is never cancelled); whether it is alive is asked once before connecting.
\<close>

definition Execute ::
  "'w runner_env \<Rightarrow> nat \<Rightarrow> nat option \<Rightarrow> Config \<Rightarrow> Operation \<Rightarrow> 'w \<Rightarrow> fs \<Rightarrow> ((runner_error + string) \<times> 'w \<times> fs) option" where
  "Execute env fuel ctx config oper w f =
     (let config = Normalized (re_platform env) config in
      case Config_Validate (re_platform env) oper config of
        Some err \<Rightarrow> Some (Inl (RunText err), w, f)
      | None \<Rightarrow>
          if ctx = Some 0 then Some (Inl (RunSync SyncCanceled), w, f)
          else
            (case re_dial env (cfg_Addr config) of
               Some err \<Rightarrow> Some (Inl (RunText err), w, f)
             | None \<Rightarrow>
                 (case open_session (re_client env) config (snd (Connect (\<lambda>_. True) (New_client (cfg_Addr config))), w) of
                    (Inl err, c, w) \<Rightarrow> Some (Inl (RunClient err), re_hang_up env w, f)
                  | (Inr (helloResp, authResp, sessionResp, hbResp), c, w) \<Rightarrow>
                      (case run_operation (runner_sync env) (re_QuoteBytes env) fuel config oper
                              \<lparr>ss_mount = session_mount config (c, w), ss_fs = f, ss_ctx = map_option (\<lambda>k. k - 1) ctx\<rparr> of
                         None \<Rightarrow> None
                       | Some (r, s) \<Rightarrow>
                           Some (map_sum id (\<lambda>text. session_report helloResp authResp sessionResp hbResp @ text) r,
                                 re_hang_up env (snd (m_client (ss_mount s))), ss_fs s)))))"

definition sample_options :: Options where
  "sample_options =
     \<lparr>op_RootNodeID = 1, op_VolumeName = [], op_ReadOnly = True, op_CaseSensitive = False, op_ReadDirBatchSize = 0\<rparr>"

section \<open>Handles are closed again\<close>

text \<open>No file handle is open, and no directory handle that was not open before.\<close>

definition no_new_handles :: "'c Mount \<Rightarrow> 'c Mount \<Rightarrow> bool" where
  "no_new_handles m m' \<longleftrightarrow> m_fileHandles m' = Map.empty \<and> dom (m_directoryHandles m') \<subseteq> dom (m_directoryHandles m)"

lemma no_new_handles_trans:
  "no_new_handles m m1 \<Longrightarrow> no_new_handles m1 m2 \<Longrightarrow> no_new_handles m m2"
  unfolding no_new_handles_def by blast

lemma no_new_handles_refl: "m_fileHandles m = Map.empty \<Longrightarrow> no_new_handles m m"
  by (simp add: no_new_handles_def)

lemma no_new_handles_file: "no_new_handles m m' \<Longrightarrow> m_fileHandles m' = Map.empty"
  by (simp add: no_new_handles_def)

lemma no_new_handles_same:
  "m_fileHandles m = Map.empty \<Longrightarrow> same_handles m m' \<Longrightarrow> no_new_handles m m'"
  by (simp add: no_new_handles_def same_handles_def)

lemma mount_Open_handles:
  assumes "mount_Open pc p m = (r, m')" and "m_fileHandles m = Map.empty"
  shows "case r of Inl _ \<Rightarrow> no_new_handles m m'
    | Inr h \<Rightarrow> dom (m_fileHandles m') = {mf_HandleID h} \<and> m_directoryHandles m' = m_directoryHandles m"
  using assms by (auto simp: mount_Open_def calling_def allocLocalHandle_def no_new_handles_def same_handles_def Let_def
      split: prod.splits sum.splits if_splits dest!: mount_GetAttr_handles)

lemma mount_OpenDirectory_handles:
  assumes "mount_OpenDirectory pc p m = (r, m')" and "m_fileHandles m = Map.empty"
  shows "case r of Inl _ \<Rightarrow> no_new_handles m m'
    | Inr h \<Rightarrow> m_fileHandles m' = Map.empty \<and>
        dom (m_directoryHandles m') = insert (md_HandleID h) (dom (m_directoryHandles m))"
  using assms by (auto simp: mount_OpenDirectory_def calling_def allocLocalHandle_def no_new_handles_def same_handles_def
      Let_def split: prod.splits sum.splits if_splits dest!: mount_GetAttr_handles)

lemma file_closed:
  assumes "mount_Close pc i m1 = (r, m2)" and "dom (m_fileHandles m1) = {i}"
    and "m_directoryHandles m1 = m_directoryHandles m"
  shows "no_new_handles m m2"
proof -
  obtain h where h: "m_fileHandles m1 i = Some h" using assms(2) by auto
  have "dom ((m_fileHandles m1)(i := None)) = {}" using assms(2) by simp
  then have "(m_fileHandles m1)(i := None) = Map.empty" by (rule dom_eq_empty_conv [THEN iffD1])
  then show ?thesis
    using assms(1,3) h by (auto simp: mount_Close_def calling_def no_new_handles_def split: prod.splits)
qed

lemma directory_closed:
  assumes "mount_Close pc i m1 = (r, m2)" and "m_fileHandles m1 = Map.empty"
    and "dom (m_directoryHandles m1) \<subseteq> insert i (dom (m_directoryHandles m))"
  shows "no_new_handles m m2"
proof (cases "m_directoryHandles m1 i")
  case None
  then have "i \<notin> dom (m_directoryHandles m1)" by auto
  then have "dom (m_directoryHandles m1) \<subseteq> dom (m_directoryHandles m)" using assms(3) by blast
  then show ?thesis using assms(1,2) None by (simp add: mount_Close_def no_new_handles_def)
next
  case (Some h)
  have "dom ((m_directoryHandles m1)(i := None)) \<subseteq> dom (m_directoryHandles m)" using assms(3) by auto
  then show ?thesis
    using assms(1,2) Some by (auto simp: mount_Close_def calling_def no_new_handles_def iff del: domIff split: prod.splits)
qed

lemma ctx_Err_mount: "ctx_Err s = (e, s') \<Longrightarrow> ss_mount s' = ss_mount s"
  by (auto simp: ctx_Err_def split: option.splits nat.splits)

lemma on_fs_mount: "on_fs oper s = (r, s') \<Longrightarrow> ss_mount s' = ss_mount s"
  by (auto simp: on_fs_def split: prod.splits)

lemma on_mount_mount: "on_mount oper s = (r, s') \<Longrightarrow> oper (ss_mount s) = (r, ss_mount s')"
  by (auto simp: on_mount_def split: prod.splits)

lemma copy_blocks_handles:
  "copy_blocks env mt fuel h fl off s = Some (r, s') \<Longrightarrow> same_handles (ss_mount s) (ss_mount s')"
proof (induction fuel arbitrary: off s)
  case (Suc fuel)
  obtain e1 s1 where s1: "ctx_Err s = (e1, s1)" by (cases "ctx_Err s")
  obtain d s2 where s2: "on_mount (mount_Read (sv_client env) h off (mt_readLength mt)) s1 = (d, s2)"
    by (cases "on_mount (mount_Read (sv_client env) h off (mt_readLength mt)) s1")
  have h2: "same_handles (ss_mount s) (ss_mount s2)"
    using mount_Read_handles [OF on_mount_mount [OF s2]] ctx_Err_mount [OF s1] by simp
  show ?case
  proof (cases "e1 = None \<and> (\<exists>res. d = Inr res \<and> rr_Data res \<noteq> [])")
    case False
    then have "ss_mount s' \<in> {ss_mount s, ss_mount s2}"
      using Suc.prems s1 s2 ctx_Err_mount [OF s1] by (auto split: option.splits sum.splits if_splits)
    then show ?thesis using h2 by auto
  next
    case True
    then obtain res where res: "e1 = None" "d = Inr res" "rr_Data res \<noteq> []" by blast
    obtain n e3 s3 where s3: "on_fs (file_WriteAt fl (rr_Data res) off) s2 = ((n, e3), s3)"
      by (metis prod.exhaust)
    have h3: "same_handles (ss_mount s) (ss_mount s3)" using h2 on_fs_mount [OF s3] by simp
    have "s' = s3 \<or> copy_blocks env mt fuel h fl (off + int n) s3 = Some (r, s')"
      using Suc.prems s1 s2 s3 res by (auto split: option.splits if_splits)
    then show ?thesis using h3 Suc.IH same_handles_trans by blast
  qed
qed simp

lemma syncFile_handles:
  assumes "syncFile env mt fuel rp lp info s = Some (r, s')" and "m_fileHandles (ss_mount s) = Map.empty"
  shows "no_new_handles (ss_mount s) (ss_mount s')"
proof -
  obtain e1 s1 where s1: "ctx_Err s = (e1, s1)" by (cases "ctx_Err s")
  obtain e2 s2 where s2: "on_fs (os_MkdirAll (Dir lp)) s1 = (e2, s2)" by (cases "on_fs (os_MkdirAll (Dir lp)) s1")
  obtain h s3 where s3: "on_mount (mount_Open (sv_client env) rp) s2 = (h, s3)"
    by (cases "on_mount (mount_Open (sv_client env) rp) s2")
  have m: "ss_mount s1 = ss_mount s" "ss_mount s2 = ss_mount s" using ctx_Err_mount [OF s1] on_fs_mount [OF s2] by simp_all
  note opened = mount_Open_handles [OF on_mount_mount [OF s3]]
  show ?thesis
  proof (cases "e1 = None \<and> e2 = None \<and> (\<exists>fh. h = Inr fh)")
    case False
    then have "ss_mount s' = ss_mount s \<or> ss_mount s' = ss_mount s3 \<and> isl h"
      using assms(1) s1 s2 s3 m by (auto simp: syncFile_def split: option.splits sum.splits)
    then show ?thesis using opened assms(2) m no_new_handles_refl by (auto simp: isl_def)
  next
    case True
    then obtain fh where ok: "e1 = None" "e2 = None" "h = Inr fh" by blast
    obtain fl s4 where s4: "on_fs (os_Create lp) s3 = (fl, s4)" by (cases "on_fs (os_Create lp) s3")
    let ?close = "\<lambda>s. snd (on_mount (mount_Close (sv_client env) (mf_HandleID fh)) s)"
    have closed: "no_new_handles (ss_mount s) (ss_mount (?close t))" if "same_handles (ss_mount s3) (ss_mount t)" for t
      using file_closed [of "sv_client env" "mf_HandleID fh" "ss_mount t" _ _ "ss_mount s"] that opened assms(2) m ok
      by (auto simp: on_mount_def same_handles_def split: prod.split)
    have s4m: "ss_mount s4 = ss_mount s3" using on_fs_mount [OF s4] .
    have "\<exists>t. same_handles (ss_mount s3) (ss_mount t) \<and> s' = ?close t"
    proof (cases fl)
      case (Inl err)
      then have "s' = ?close s4" using assms(1) s1 s2 s3 s4 ok by (simp add: syncFile_def Let_def)
      then show ?thesis using s4m by (intro exI [of _ s4]) simp
    next
      case (Inr f)
      obtain n e t where t: "copy_blocks env mt fuel (mf_HandleID fh) f 0 s4 = Some ((n, e), t)"
        using assms(1) s1 s2 s3 s4 ok Inr by (auto simp: syncFile_def Let_def split: option.splits)
      have "same_handles (ss_mount s3) (ss_mount t)" "same_handles (ss_mount s3) (ss_mount (t\<lparr>ss_fs := g\<rparr>))" for g
        using copy_blocks_handles [OF t] s4m by simp_all
      moreover have "\<exists>g. s' = ?close (t\<lparr>ss_fs := g\<rparr>) \<or> s' = ?close t"
        using assms(1) s1 s2 s3 s4 ok Inr t by (auto simp: syncFile_def Let_def split: option.splits if_splits)
      ultimately show ?thesis by blast
    qed
    then show ?thesis using closed by blast
  qed
qed

text \<open>A way to copy a child that leaves no handle open.\<close>

definition closes_handles :: "(MountFileInfo \<Rightarrow> string \<Rightarrow> 'c sync_state \<Rightarrow> 'c sync_result) \<Rightarrow> bool" where
  "closes_handles child \<longleftrightarrow>
     (\<forall>entry lp s r s'. child entry lp s = Some (r, s') \<longrightarrow> m_fileHandles (ss_mount s) = Map.empty \<longrightarrow>
        no_new_handles (ss_mount s) (ss_mount s'))"

lemma sync_entries_handles:
  assumes "closes_handles child"
  shows "sync_entries w child es lp stats s = Some (r, s') \<Longrightarrow> m_fileHandles (ss_mount s) = Map.empty \<Longrightarrow>
    no_new_handles (ss_mount s) (ss_mount s')"
proof (induction es arbitrary: stats s)
  case (Cons e es)
  show ?case
  proof (cases "validateLocalName (mi_Name e)")
    case (Inl t)
    then show ?thesis using Cons.prems no_new_handles_refl by auto
  next
    case (Inr n)
    obtain cs err s1 where s1: "child e (local_Join w lp n) s = Some ((cs, err), s1)"
      using Cons.prems(1) Inr by (auto split: option.splits)
    have k1: "no_new_handles (ss_mount s) (ss_mount s1)"
      using assms s1 Cons.prems(2) unfolding closes_handles_def by blast
    have "s' = s1 \<or> sync_entries w child es lp (add_stats stats cs) s1 = Some (r, s')"
      using Cons.prems(1) Inr s1 by (auto split: if_splits)
    then show ?thesis using k1 Cons.IH no_new_handles_trans no_new_handles_file by blast
  qed
qed (simp add: no_new_handles_refl)

lemma sync_pages_handles:
  assumes "closes_handles child"
  shows "sync_pages env mt child fuel h cookie lp stats s = Some (r, s') \<Longrightarrow> m_fileHandles (ss_mount s) = Map.empty \<Longrightarrow>
    no_new_handles (ss_mount s) (ss_mount s')"
proof (induction fuel arbitrary: cookie stats s)
  case (Suc fuel)
  obtain e1 s1 where s1: "ctx_Err s = (e1, s1)" by (cases "ctx_Err s")
  obtain pg s2 where s2: "on_mount (mount_ReadDirectory (sv_client env) h cookie (mt_maxEntries mt)) s1 = (pg, s2)"
    by (cases "on_mount (mount_ReadDirectory (sv_client env) h cookie (mt_maxEntries mt)) s1")
  have k2: "no_new_handles (ss_mount s) (ss_mount s2)"
    using mount_ReadDirectory_handles [OF on_mount_mount [OF s2]] ctx_Err_mount [OF s1] no_new_handles_same Suc.prems(2) by metis
  show ?case
  proof (cases "e1 = None \<and> (\<exists>page. pg = Inr page)")
    case False
    then have "ss_mount s' \<in> {ss_mount s, ss_mount s2}"
      using Suc.prems(1) s1 s2 ctx_Err_mount [OF s1] by (auto split: option.splits sum.splits)
    then show ?thesis using k2 no_new_handles_refl [OF Suc.prems(2)] by auto
  next
    case True
    then obtain page where page: "e1 = None" "pg = Inr page" by blast
    obtain st err s3 where s3: "sync_entries (sv_windows env) child (dp_Entries page) lp stats s2 = Some ((st, err), s3)"
      using Suc.prems(1) s1 s2 page by (auto split: option.splits)
    have k3: "no_new_handles (ss_mount s) (ss_mount s3)"
      using sync_entries_handles [OF assms s3] k2 no_new_handles_trans no_new_handles_file by blast
    have "s' = s3 \<or> sync_pages env mt child fuel h (dp_NextCookie page) lp st s3 = Some (r, s')"
      using Suc.prems(1) s1 s2 s3 page by (auto split: if_splits)
    then show ?thesis using k3 Suc.IH no_new_handles_trans no_new_handles_file by blast
  qed
qed simp

lemma syncDirectory_handles:
  "syncDirectory env mt fuel rp lp s = Some (r, s') \<Longrightarrow> m_fileHandles (ss_mount s) = Map.empty \<Longrightarrow>
    no_new_handles (ss_mount s) (ss_mount s')"
proof (induction fuel arbitrary: rp lp s r s')
  case (Suc fuel)
  let ?child = "\<lambda>entry childLocalPath. if mi_IsDirectory entry then syncDirectory env mt fuel (mi_Path entry) childLocalPath
    else syncFile env mt fuel (mi_Path entry) childLocalPath entry"
  have child: "closes_handles ?child"
    using Suc.IH syncFile_handles by (auto simp: closes_handles_def)
  obtain e1 s1 where s1: "ctx_Err s = (e1, s1)" by (cases "ctx_Err s")
  obtain e2 s2 where s2: "on_fs (os_MkdirAll lp) s1 = (e2, s2)" by (cases "on_fs (os_MkdirAll lp) s1")
  obtain h s3 where s3: "on_mount (mount_OpenDirectory (sv_client env) rp) s2 = (h, s3)"
    by (cases "on_mount (mount_OpenDirectory (sv_client env) rp) s2")
  have m: "ss_mount s1 = ss_mount s" "ss_mount s2 = ss_mount s" using ctx_Err_mount [OF s1] on_fs_mount [OF s2] by simp_all
  note opened = mount_OpenDirectory_handles [OF on_mount_mount [OF s3]]
  show ?case
  proof (cases "e1 = None \<and> e2 = None \<and> (\<exists>dh. h = Inr dh)")
    case False
    then have "ss_mount s' = ss_mount s \<or> ss_mount s' = ss_mount s3 \<and> isl h"
      using Suc.prems(1) s1 s2 s3 m by (auto split: option.splits sum.splits)
    then show ?thesis using opened Suc.prems(2) m no_new_handles_refl by (auto simp: isl_def)
  next
    case True
    then obtain dh where ok: "e1 = None" "e2 = None" "h = Inr dh" by blast
    obtain s4 where s4: "sync_pages env mt ?child fuel (md_HandleID dh) 0 lp (no_stats\<lparr>sta_Directories := 1\<rparr>) s3 = Some (r, s4)"
      and s': "s' = snd (on_mount (mount_Close (sv_client env) (md_HandleID dh)) s4)"
      using Suc.prems(1) s1 s2 s3 ok by auto
    have "no_new_handles (ss_mount s3) (ss_mount s4)"
      using sync_pages_handles [OF child s4] opened ok m Suc.prems(2) by simp
    then have "m_fileHandles (ss_mount s4) = Map.empty"
      "dom (m_directoryHandles (ss_mount s4)) \<subseteq> insert (md_HandleID dh) (dom (m_directoryHandles (ss_mount s)))"
      using opened ok m Suc.prems(2) by (simp_all add: no_new_handles_def)
    then show ?thesis
      using directory_closed [of "sv_client env" "md_HandleID dh" "ss_mount s4" _ _ "ss_mount s"] s'
      by (auto simp: on_mount_def split: prod.split)
  qed
qed simp

lemma Sync_handles:
  assumes "Sync env mt fuel rp lp s = Some (r, s')" and "m_fileHandles (ss_mount s) = Map.empty"
  shows "no_new_handles (ss_mount s) (ss_mount s')"
proof -
  obtain e1 s1 where s1: "ctx_Err s = (e1, s1)" by (cases "ctx_Err s")
  obtain gi s2 where s2: "on_mount (mount_GetAttr (sv_client env) rp) s1 = (gi, s2)"
    by (cases "on_mount (mount_GetAttr (sv_client env) rp) s1")
  have k2: "same_handles (ss_mount s) (ss_mount s2)" "ss_mount s1 = ss_mount s"
    using mount_GetAttr_handles [OF on_mount_mount [OF s2]] ctx_Err_mount [OF s1] by simp_all
  then have f2: "m_fileHandles (ss_mount s2) = Map.empty" using assms(2) by (simp add: same_handles_def)
  have "ss_mount s' \<in> {ss_mount s, ss_mount s2} \<or> no_new_handles (ss_mount s2) (ss_mount s')"
    using assms(1) s1 s2 k2(2) f2 by (auto simp: Sync_def split: if_splits option.splits sum.splits
        dest: syncDirectory_handles syncFile_handles)
  then show ?thesis
    using no_new_handles_same [OF assms(2) k2(1)] no_new_handles_refl [OF assms(2)] no_new_handles_trans by auto
qed

lemma run_getattr_handles:
  "run_getattr env config s = (r, s') \<Longrightarrow> same_handles (ss_mount s) (ss_mount s')"
  by (auto simp: run_getattr_def split: prod.splits sum.splits dest!: on_mount_mount mount_GetAttr_handles)

lemma run_readdir_handles:
  assumes "run_readdir env config s = (r, s')" and "m_fileHandles (ss_mount s) = Map.empty"
  shows "no_new_handles (ss_mount s) (ss_mount s')"
proof -
  obtain h s1 where s1: "on_mount (mount_OpenDirectory (sv_client env) (cfg_Path config)) s = (h, s1)"
    by (cases "on_mount (mount_OpenDirectory (sv_client env) (cfg_Path config)) s")
  note opened = mount_OpenDirectory_handles [OF on_mount_mount [OF s1] assms(2)]
  show ?thesis
  proof (cases h)
    case (Inl err)
    then show ?thesis using assms(1) s1 opened by (simp add: run_readdir_def)
  next
    case (Inr dh)
    obtain pg s2 where s2: "on_mount (mount_ReadDirectory (sv_client env) (md_HandleID dh) 0 (cfg_MaxEntries config)) s1 = (pg, s2)"
      by (cases "on_mount (mount_ReadDirectory (sv_client env) (md_HandleID dh) 0 (cfg_MaxEntries config)) s1")
    have "same_handles (ss_mount s1) (ss_mount s2)" using mount_ReadDirectory_handles [OF on_mount_mount [OF s2]] .
    then have "m_fileHandles (ss_mount s2) = Map.empty"
      "dom (m_directoryHandles (ss_mount s2)) \<subseteq> insert (md_HandleID dh) (dom (m_directoryHandles (ss_mount s)))"
      using opened Inr by (simp_all add: same_handles_def)
    moreover have "s' = snd (on_mount (mount_Close (sv_client env) (md_HandleID dh)) s2)"
      using assms(1) s1 s2 Inr by (auto simp: run_readdir_def Let_def split: sum.splits)
    ultimately show ?thesis
      using directory_closed [of "sv_client env" "md_HandleID dh" "ss_mount s2" _ _ "ss_mount s"]
      by (auto simp: on_mount_def split: prod.split)
  qed
qed

lemma run_read_handles:
  assumes "run_read env quote config s = (r, s')" and "m_fileHandles (ss_mount s) = Map.empty"
  shows "no_new_handles (ss_mount s) (ss_mount s')"
proof -
  obtain h s1 where s1: "on_mount (mount_Open (sv_client env) (cfg_Path config)) s = (h, s1)"
    by (cases "on_mount (mount_Open (sv_client env) (cfg_Path config)) s")
  note opened = mount_Open_handles [OF on_mount_mount [OF s1] assms(2)]
  show ?thesis
  proof (cases h)
    case (Inl err)
    then show ?thesis using assms(1) s1 opened by (simp add: run_read_def)
  next
    case (Inr fh)
    obtain d s2 where s2: "on_mount (mount_Read (sv_client env) (mf_HandleID fh) (cfg_Offset config) (cfg_Length config)) s1 = (d, s2)"
      by (cases "on_mount (mount_Read (sv_client env) (mf_HandleID fh) (cfg_Offset config) (cfg_Length config)) s1")
    have "same_handles (ss_mount s1) (ss_mount s2)" using mount_Read_handles [OF on_mount_mount [OF s2]] .
    then have "dom (m_fileHandles (ss_mount s2)) = {mf_HandleID fh}"
      "m_directoryHandles (ss_mount s2) = m_directoryHandles (ss_mount s)"
      using opened Inr by (simp_all add: same_handles_def)
    moreover have "s' = snd (on_mount (mount_Close (sv_client env) (mf_HandleID fh)) s2)"
      using assms(1) s1 s2 Inr by (auto simp: run_read_def Let_def split: sum.splits)
    ultimately show ?thesis
      using file_closed [of "sv_client env" "mf_HandleID fh" "ss_mount s2" _ _ "ss_mount s"]
      by (auto simp: on_mount_def split: prod.split)
  qed
qed

lemma run_operation_handles:
  assumes "run_operation env quote fuel config oper s = Some (r, s')" and "m_fileHandles (ss_mount s) = Map.empty"
  shows "no_new_handles (ss_mount s) (ss_mount s')"
proof -
  have mat: "no_new_handles (ss_mount s) (ss_mount s')" if "run_materialize env fuel config s = Some (r, s')"
    using that Sync_handles [OF _ assms(2)] by (auto simp: run_materialize_def split: option.splits)
  have getattr: "no_new_handles (ss_mount s) (ss_mount s')" if "run_getattr env config s = (r, s')"
    using no_new_handles_same [OF assms(2) run_getattr_handles [OF that]] .
  show ?thesis
    using assms(1) mat getattr run_readdir_handles [OF _ assms(2)] run_read_handles [OF _ assms(2)] no_new_handles_refl [OF assms(2)]
    by (auto simp: run_operation_def run_volume_def Let_def split: if_splits)
qed

text \<open>
  C35: The runner leaves no handle behind: whatever operation it runs on its fresh mount, whether it succeeds, fails
  or is cancelled, and whatever the server answers, also to a close, the mount has neither a file handle
  nor a directory handle open afterwards.
\<close>

theorem operation_closes_handles:
  assumes "run_operation env quote fuel config oper \<lparr>ss_mount = New_mount client opts, ss_fs = f, ss_ctx = ctx\<rparr> = Some (r, s)"
  shows "m_fileHandles (ss_mount s) = Map.empty \<and> m_directoryHandles (ss_mount s) = Map.empty"
proof -
  have "m_fileHandles (New_mount client opts) = Map.empty" "m_directoryHandles (New_mount client opts) = Map.empty"
    by (simp_all add: New_mount_def Let_def)
  then show ?thesis using run_operation_handles [OF assms] by (simp add: no_new_handles_def)
qed

theorem operation_closes_handles_witness:
  "\<exists>r s. run_operation sample_sync_env (\<lambda>_. []) 4 (empty_config\<lparr>cfg_Path := ''/a'', cfg_LocalPath := ''/x''\<rparr>) OperationMaterialize
      \<lparr>ss_mount = New_mount () sample_options, ss_fs = sample_disk, ss_ctx = None\<rparr> = Some (r, s) \<and>
    m_fileHandles (ss_mount s) = Map.empty \<and> m_directoryHandles (ss_mount s) = Map.empty"
proof -
  have "\<not> Option.is_none (run_operation sample_sync_env (\<lambda>_. []) 4
      (empty_config\<lparr>cfg_Path := ''/a'', cfg_LocalPath := ''/x''\<rparr>) OperationMaterialize
      \<lparr>ss_mount = New_mount () sample_options, ss_fs = sample_disk, ss_ctx = None\<rparr>)"
    by code_simp
  then obtain r s where run: "run_operation sample_sync_env (\<lambda>_. []) 4
      (empty_config\<lparr>cfg_Path := ''/a'', cfg_LocalPath := ''/x''\<rparr>) OperationMaterialize
      \<lparr>ss_mount = New_mount () sample_options, ss_fs = sample_disk, ss_ctx = None\<rparr> = Some (r, s)"
    by (auto simp: Option.is_none_def)
  then show ?thesis using operation_closes_handles [OF run] by blast
qed

section \<open>Operations the runner does not have\<close>

text \<open>
  A configuration is valid for mounting, but the runner has no such operation: it refuses only after it has
  opened a session on the server.
\<close>

theorem mount_refused_after_session:
  assumes "open_session (re_client env) (Normalized (re_platform env) config)
      (snd (Connect (\<lambda>_. True) (New_client (cfg_Addr (Normalized (re_platform env) config)))), w) = (Inr resps, c, w')"
    and "Config_Validate (re_platform env) OperationMount (Normalized (re_platform env) config) = None"
    and "re_dial env (cfg_Addr (Normalized (re_platform env) config)) = None" and "ctx \<noteq> Some 0"
  shows "Execute env fuel ctx config OperationMount w f =
    Some (Inl (RunText (''unsupported operation '' @ Quote ''mount'')), re_hang_up env w', f)"
proof -
  obtain a b d e where "resps = (a, b, d, e)" by (metis prod.exhaust)
  then show ?thesis
    using assms by (simp add: Execute_def Let_def run_operation_def session_mount_def New_mount_def)
qed

end
