(* ===== verification/Validation.thy ===== *)
theory Validation
  imports ClientRuntime
begin

text \<open>
  The record of a validation on a Windows host (\<^verbatim>\<open>internal/winclientrelease/validation.go\<close> and
  \<^verbatim>\<open>intake.go\<close>) and the matrix of Explorer requests (\<^verbatim>\<open>internal/winclientsmoke/request_matrix.go\<close>). The record
  carries a summary that every change keeps up to date.
\<close>

section \<open>The matrix of Explorer requests\<close>

type_synonym RequestStatus = string

abbreviation (input) RequestStatusReady :: RequestStatus where "RequestStatusReady \<equiv> ''ready''"
abbreviation (input) RequestStatusGap :: RequestStatus where "RequestStatusGap \<equiv> ''gap''"
abbreviation (input) RequestStatusBlocked :: RequestStatus where "RequestStatusBlocked \<equiv> ''blocked''"

record RequestMatrixEntry =
  rm_ScenarioID :: string
  rm_Request :: string
  rm_Callback :: string
  rm_Status :: RequestStatus
  rm_Detail :: string

record RequestMatrix =
  rx_Ready :: nat
  rx_Gaps :: nat
  rx_Blocked :: nat
  rx_Finalized :: bool
  rx_Entries :: "RequestMatrixEntry list"

text \<open>The map from lower-case names to callbacks; a later callback of the same name replaces an earlier one.\<close>

definition callback_state :: "NativeCallbackTable \<Rightarrow> (string \<rightharpoonup> NativeCallback)" where
  "callback_state table = fold (\<lambda>cb m. m(ToLower (nc_Name cb) \<mapsto> cb)) (nt_Callbacks table) Map.empty"

text \<open>A callback that is not in the table reads as the zero value, whose state is empty.\<close>

definition matrix_entry :: "(string \<rightharpoonup> NativeCallback) \<Rightarrow> string \<times> string \<times> string \<Rightarrow> RequestMatrixEntry" where
  "matrix_entry callbackState = (\<lambda>(scenarioID, request, callback).
     let (st, detail) = (case callbackState (ToLower callback) of None \<Rightarrow> ([], []) | Some cb \<Rightarrow> (nc_State cb, nc_Detail cb))
     in \<lparr>rm_ScenarioID = scenarioID, rm_Request = request, rm_Callback = callback,
         rm_Status = (if st = CallbackStateGap \<or> st = CallbackStatePreflight then RequestStatusGap
                      else if st = CallbackStateReadOnly then RequestStatusBlocked
                      else RequestStatusReady),
         rm_Detail = detail\<rparr>)"

definition explorer_requests :: "(string \<times> string \<times> string) list" where
  "explorer_requests =
     [(''explorer-mount-visible'', ''Query volume label / capability flags'', ''GetVolumeInfo''),
      (''explorer-root-browse'', ''Root getattr before browse'', ''GetFileInfo''),
      (''explorer-root-browse'', ''Open root directory'', ''OpenDirectory''),
      (''explorer-root-browse'', ''Enumerate directory entries'', ''ReadDirectory''),
      (''explorer-file-preview'', ''Open preview target'', ''Open''),
      (''explorer-file-preview'', ''Read preview bytes'', ''Read''),
      (''explorer-file-preview'', ''Cleanup preview handle'', ''Cleanup''),
      (''explorer-file-preview'', ''Close preview handle'', ''Close''),
      (''explorer-readonly-copy'', ''Open copy source'', ''Open''),
      (''explorer-readonly-copy'', ''Read copy source'', ''Read''),
      (''explorer-readonly-copy'', ''Flush copy handle'', ''Flush''),
      (''explorer-properties'', ''Query metadata before properties dialog'', ''GetFileInfo''),
      (''explorer-properties'', ''Query security by name'', ''GetSecurityByName''),
      (''explorer-properties'', ''Query security on open handle'', ''GetSecurity''),
      (''explorer-security-query'', ''Read root security by name'', ''GetSecurityByName''),
      (''explorer-create-denied'', ''Create a new file from Explorer'', ''Create''),
      (''explorer-write-denied'', ''Open writable target'', ''Open''),
      (''explorer-write-denied'', ''Attempt direct write'', ''Write''),
      (''explorer-write-denied'', ''Attempt file resize'', ''SetFileSize''),
      (''explorer-write-denied'', ''Attempt basic info mutation'', ''SetBasicInfo''),
      (''explorer-write-denied'', ''Attempt security mutation'', ''SetSecurity''),
      (''explorer-write-denied'', ''Attempt overwrite/supersede'', ''Overwrite''),
      (''explorer-rename-denied'', ''Open rename target'', ''Open''),
      (''explorer-rename-denied'', ''Attempt Explorer rename'', ''Rename''),
      (''explorer-delete-denied'', ''Probe delete permission'', ''CanDelete''),
      (''explorer-delete-denied'', ''Attempt delete-on-close on open handle'', ''SetDeleteOnClose''),
      (''explorer-delete-denied'', ''Cleanup denied delete handle'', ''Cleanup''),
      (''explorer-unmount-cleanup'', ''Explorer cleanup after stop'', ''Cleanup''),
      (''explorer-diagnostics'', ''Query diagnostics metadata'', ''GetVolumeInfo'')]"

definition DefaultExplorerRequestMatrix :: "NativeCallbackTable \<Rightarrow> RequestMatrix" where
  "DefaultExplorerRequestMatrix table =
     (let entries = map (matrix_entry (callback_state table)) explorer_requests;
          gaps = length (filter (\<lambda>e. rm_Status e = RequestStatusGap) entries);
          blocked = length (filter (\<lambda>e. rm_Status e = RequestStatusBlocked) entries);
          ready = length (filter (\<lambda>e. rm_Status e \<noteq> RequestStatusGap \<and> rm_Status e \<noteq> RequestStatusBlocked) entries)
      in \<lparr>rx_Ready = ready, rx_Gaps = gaps, rx_Blocked = blocked, rx_Finalized = (gaps = 0), rx_Entries = entries\<rparr>)"

definition RequestMatrix_Summary :: "RequestMatrix \<Rightarrow> string" where
  "RequestMatrix_Summary m =
     ''entries='' @ decimal (length (rx_Entries m)) @ '' ready='' @ decimal (rx_Ready m) @ '' blocked='' @
     decimal (rx_Blocked m) @ '' gaps='' @ decimal (rx_Gaps m) @ '' finalized='' @ format_bool (rx_Finalized m)"

section \<open>The record\<close>

type_synonym ValidationStatus = string

abbreviation (input) ValidationNotRun :: ValidationStatus where "ValidationNotRun \<equiv> ''not-run''"
abbreviation (input) ValidationPass :: ValidationStatus where "ValidationPass \<equiv> ''pass''"
abbreviation (input) ValidationWarn :: ValidationStatus where "ValidationWarn \<equiv> ''warn''"
abbreviation (input) ValidationFail :: ValidationStatus where "ValidationFail \<equiv> ''fail''"

record Scenario =
  sc_ID :: string
  sc_Name :: string
  sc_Goal :: string
  sc_Steps :: "string list"
  sc_Expected :: "string list"

definition DefaultExplorerSmoke :: "Scenario list" where
  "DefaultExplorerSmoke =
     [\<lparr>sc_ID = ''explorer-mount-visible'', sc_Name = ''Explorer sees mount point'',
       sc_Goal = ''Verify the mounted drive or directory appears in Explorer.'',
       sc_Steps = [''Start the mount from the Dashboard or tray menu.'', ''Open Explorer and locate the configured mount point.''],
       sc_Expected = [''The mount point is visible.'', ''The volume label uses the configured prefix.'']\<rparr>,
      \<lparr>sc_ID = ''explorer-root-browse'', sc_Name = ''Browse root directory'',
       sc_Goal = ''Verify Explorer can enumerate the root directory and issue the common getattr/opendir/readdir sequence.'',
       sc_Steps = [''Open the mounted root.'', ''Sort by name and refresh once.'', ''Observe Diagnostics for callback and request-matrix summaries after refresh.''],
       sc_Expected = [''Explorer lists entries without hanging.'', ''Refresh does not produce a binding/runtime error.'']\<rparr>,
      \<lparr>sc_ID = ''explorer-file-preview'', sc_Name = ''Open a small file'',
       sc_Goal = ''Verify a small file can be opened through the mounted view.'',
       sc_Steps = [''Double-click a known small text file.'', ''Close the viewer/editor after preview.''],
       sc_Expected = [''The file contents load.'', ''The runtime remains mounted after close.'']\<rparr>,
      \<lparr>sc_ID = ''explorer-readonly-copy'', sc_Name = ''Copy out from read-only mount'',
       sc_Goal = ''Verify users can copy files from the mounted view.'',
       sc_Steps = [''Copy a file from the mount to Desktop or a temp folder.'', ''Open the copied file locally.''],
       sc_Expected = [''Copy succeeds.'', ''Local copy matches expected contents.'']\<rparr>,
      \<lparr>sc_ID = ''explorer-properties'', sc_Name = ''Open Explorer properties/security'',
       sc_Goal = ''Verify Explorer can query metadata and security descriptors for a mounted item.'',
       sc_Steps = [''Right-click a mounted file or directory and open Properties.'', ''Browse to the General and Security tabs if available.''],
       sc_Expected = [''Explorer does not hang while loading properties.'', ''Diagnostics still report the security callbacks as ready.'']\<rparr>,
      \<lparr>sc_ID = ''explorer-create-denied'', sc_Name = ''Create gesture is denied cleanly'',
       sc_Goal = ''Verify Explorer receives a clean read-only denial when attempting to create a new file or folder.'',
       sc_Steps = [''From Explorer, try New > Text Document or create a folder inside the mount.'', ''Dismiss any retry prompt after the first denial.''],
       sc_Expected = [''Explorer shows a read-only/access denied style result.'', ''Diagnostics show Create as explicitly blocked, not a gap.'']\<rparr>,
      \<lparr>sc_ID = ''explorer-write-denied'', sc_Name = ''Write and metadata mutation are denied cleanly'',
       sc_Goal = ''Verify write-side callbacks are explicitly blocked in read-only mode.'',
       sc_Steps = [''Open a mounted file in a text editor and try to save changes.'', ''Try to change metadata or trigger an overwrite-style save path.''],
       sc_Expected = [''Save fails with a read-only/access denied style result.'', ''Diagnostics show Write/SetFileSize/SetBasicInfo/SetSecurity/Overwrite as blocked callbacks, not gaps.'']\<rparr>,
      \<lparr>sc_ID = ''explorer-rename-denied'', sc_Name = ''Rename gesture is denied cleanly'',
       sc_Goal = ''Verify Explorer receives a clean read-only denial for rename.'',
       sc_Steps = [''Select a mounted file or directory and press F2 or use Rename.'', ''Confirm the rename attempt once.''],
       sc_Expected = [''Explorer shows an access denied/read-only style failure instead of hanging.'', ''Diagnostics show Rename as explicitly blocked, not a gap.'']\<rparr>,
      \<lparr>sc_ID = ''explorer-delete-denied'', sc_Name = ''Delete gesture is denied cleanly'',
       sc_Goal = ''Verify Explorer receives a clean read-only denial for delete and delete-on-close flows.'',
       sc_Steps = [''Select a mounted file and press Delete or use the context menu.'', ''If Explorer opens a preview/editor first, close the handle and retry once.''],
       sc_Expected = [''Explorer shows an access denied/read-only style failure instead of hanging.'', ''Diagnostics still show CanDelete and SetDeleteOnClose as explicit read-only callbacks, not gaps.'']\<rparr>,
      \<lparr>sc_ID = ''explorer-diagnostics'', sc_Name = ''Export diagnostics after smoke'',
       sc_Goal = ''Verify diagnostics export works after Explorer interactions.'',
       sc_Steps = [''Run Export Diagnostics from the tray or Diagnostics page.'', ''Inspect the generated zip.''],
       sc_Expected = [''The zip contains report.txt and report.json.'', ''The report includes binding/runtime summaries.'']\<rparr>,
      \<lparr>sc_ID = ''explorer-unmount-cleanup'', sc_Name = ''Stop mount and verify cleanup'',
       sc_Goal = ''Verify the mount disappears cleanly after stop.'',
       sc_Steps = [''Stop the mount from the Dashboard or tray.'', ''Refresh Explorer.''],
       sc_Expected = [''The mount point is no longer active.'', ''The runtime returns to idle without an unhandled error.'']\<rparr>]"

record ScenarioRecord =
  sr_ScenarioID :: string
  sr_Name :: string
  sr_Status :: ValidationStatus
  sr_Notes :: string

record ChecklistRecord =
  ck_Item :: string
  ck_Status :: ValidationStatus
  ck_Notes :: string

record InstallerRunRecord =
  ir_Channel :: string
  ir_Action :: string
  ir_Status :: ValidationStatus
  ir_VersionFrom :: string
  ir_VersionTo :: string
  ir_LogPath :: string
  ir_Notes :: string

record ValidationSummary =
  vs_NotRun :: nat
  vs_Pass :: nat
  vs_Warn :: nat
  vs_Fail :: nat
  vs_Overall :: ValidationStatus

record HostEnvironment =
  he_Source :: string
  he_Machine :: string
  he_OSVersion :: string
  he_WinFspVersion :: string
  he_PackageChannel :: string
  he_DiagnosticsBundle :: string
  he_InstallerLogDir :: string
  he_Notes :: "string list"

record ValidationPatch =
  vp_CompletedBy :: string
  vp_CompletedAt :: "instant option"
  vp_Environment :: HostEnvironment
  vp_ExplorerScenarios :: "ScenarioRecord list"
  vp_InstallerChecklist :: "ChecklistRecord list"
  vp_RecoveryChecklist :: "ChecklistRecord list"
  vp_InstallerRuns :: "InstallerRunRecord list"
  vp_Notes :: "string list"

record HostValidationRecord =
  hv_GeneratedAt :: instant
  hv_CompletedAt :: "instant option"
  hv_CompletedBy :: string
  hv_Version :: string
  hv_Environment :: HostEnvironment
  hv_NativeCallbackSummary :: string
  hv_ExplorerMatrixSummary :: string
  hv_ExplorerScenarios :: "ScenarioRecord list"
  hv_InstallerChecklist :: "ChecklistRecord list"
  hv_RecoveryChecklist :: "ChecklistRecord list"
  hv_InstallerRuns :: "InstallerRunRecord list"
  hv_Summary :: ValidationSummary
  hv_Notes :: "string list"

text \<open>The statuses the summary counts, in the order of its loops.\<close>

definition all_statuses :: "HostValidationRecord \<Rightarrow> ValidationStatus list" where
  "all_statuses r =
     map sr_Status (hv_ExplorerScenarios r) @ map ck_Status (hv_InstallerChecklist r) @
     map ck_Status (hv_RecoveryChecklist r) @ map ir_Status (hv_InstallerRuns r)"

definition count_status :: "ValidationStatus \<Rightarrow> ValidationSummary \<Rightarrow> ValidationSummary" where
  "count_status st s =
     (if st = ValidationPass then s\<lparr>vs_Pass := vs_Pass s + 1\<rparr>
      else if st = ValidationWarn then s\<lparr>vs_Warn := vs_Warn s + 1\<rparr>
      else if st = ValidationFail then s\<lparr>vs_Fail := vs_Fail s + 1\<rparr>
      else s\<lparr>vs_NotRun := vs_NotRun s + 1\<rparr>)"

definition RecomputeSummary :: "HostValidationRecord \<Rightarrow> HostValidationRecord" where
  "RecomputeSummary r =
     (let s = fold count_status (all_statuses r)
                \<lparr>vs_NotRun = 0, vs_Pass = 0, vs_Warn = 0, vs_Fail = 0, vs_Overall = ValidationNotRun\<rparr>;
          overall = (if vs_Fail s > 0 then ValidationFail
                     else if vs_Warn s > 0 then ValidationWarn
                     else if vs_Pass s > 0 \<and> vs_NotRun s = 0 then ValidationPass
                     else if vs_Pass s > 0 then ValidationWarn
                     else ValidationNotRun)
      in r\<lparr>hv_Summary := s\<lparr>vs_Overall := overall\<rparr>\<rparr>)"

definition new_check :: "string \<Rightarrow> ChecklistRecord" where
  "new_check item = \<lparr>ck_Item = item, ck_Status = ValidationNotRun, ck_Notes = []\<rparr>"

definition new_run :: "string \<Rightarrow> string \<Rightarrow> InstallerRunRecord" where
  "new_run channel action =
     \<lparr>ir_Channel = channel, ir_Action = action, ir_Status = ValidationNotRun, ir_VersionFrom = [],
      ir_VersionTo = [], ir_LogPath = [], ir_Notes = []\<rparr>"

definition zero_environment :: HostEnvironment where
  "zero_environment =
     \<lparr>he_Source = [], he_Machine = [], he_OSVersion = [], he_WinFspVersion = [], he_PackageChannel = [],
      he_DiagnosticsBundle = [], he_InstallerLogDir = [], he_Notes = []\<rparr>"

definition NewHostValidationRecord ::
  "instant \<Rightarrow> string \<Rightarrow> Scenario list \<Rightarrow> NativeCallbackTable \<Rightarrow> RequestMatrix \<Rightarrow> HostValidationRecord" where
  "NewHostValidationRecord now version smoke table matrix =
     RecomputeSummary
       \<lparr>hv_GeneratedAt = now, hv_CompletedAt = None, hv_CompletedBy = [], hv_Version = TrimSpace version,
        hv_Environment = zero_environment\<lparr>he_Source := ''real-windows-host''\<rparr>,
        hv_NativeCallbackSummary = NativeCallbackTable_Summary table,
        hv_ExplorerMatrixSummary = RequestMatrix_Summary matrix,
        hv_ExplorerScenarios = map (\<lambda>s. \<lparr>sr_ScenarioID = sc_ID s, sr_Name = sc_Name s,
          sr_Status = ValidationNotRun, sr_Notes = []\<rparr>) smoke,
        hv_InstallerChecklist = map new_check
          [''WinFsp installed and version captured'', ''MSI install succeeded'',
           ''EXE/portable bundle launch succeeded'', ''Shortcuts / tray / Dashboard available after install'',
           ''Upgrade path preserves config'', ''Uninstall removes binaries and leaves expected user data policy''],
        hv_RecoveryChecklist = map new_check
          [''Dirty-exit marker written during forced termination'', ''Next launch reports recovery warning'',
           ''Clean stop clears recovery marker state''],
        hv_InstallerRuns = [new_run ''msi'' ''install'', new_run ''msi'' ''upgrade'', new_run ''msi'' ''uninstall'',
          new_run ''exe'' ''portable-launch''],
        hv_Summary = \<lparr>vs_NotRun = 0, vs_Pass = 0, vs_Warn = 0, vs_Fail = 0, vs_Overall = []\<rparr>,
        hv_Notes = [''Run this checklist on a real Windows host with WinFsp installed.'',
          ''Attach exported diagnostics and installer logs to the final validation record.'',
          ''Record MSI install/upgrade/uninstall and EXE portable launch results in installer_runs for release sign-off.'']\<rparr>"

section \<open>Changes\<close>

text \<open>The loops that change the first element that fits and stop; \<open>None\<close> if there is none.\<close>

fun update_first :: "('a \<Rightarrow> bool) \<Rightarrow> ('a \<Rightarrow> 'a) \<Rightarrow> 'a list \<Rightarrow> 'a list option" where
  "update_first fits change [] = None"
| "update_first fits change (x # xs) =
     (if fits x then Some (change x # xs) else map_option ((#) x) (update_first fits change xs))"

definition ApplyScenario ::
  "string \<Rightarrow> ValidationStatus \<Rightarrow> string \<Rightarrow> HostValidationRecord \<Rightarrow> bool \<times> HostValidationRecord" where
  "ApplyScenario sid status notes r =
     (case update_first (\<lambda>s. sr_ScenarioID s = sid) (\<lambda>s. s\<lparr>sr_Status := status, sr_Notes := TrimSpace notes\<rparr>)
             (hv_ExplorerScenarios r) of
        Some scenarios \<Rightarrow> (True, RecomputeSummary (r\<lparr>hv_ExplorerScenarios := scenarios\<rparr>))
      | None \<Rightarrow> (False, r))"

definition ApplyChecklist ::
  "string \<Rightarrow> string \<Rightarrow> ValidationStatus \<Rightarrow> string \<Rightarrow> HostValidationRecord \<Rightarrow> bool \<times> HostValidationRecord" where
  "ApplyChecklist section_name item status notes r =
     (let section_name = ToLower (TrimSpace section_name);
          mark = update_first (\<lambda>c. ck_Item c = item) (\<lambda>c. c\<lparr>ck_Status := status, ck_Notes := TrimSpace notes\<rparr>) in
      if section_name = ''installer'' then
        (case mark (hv_InstallerChecklist r) of
           Some items \<Rightarrow> (True, RecomputeSummary (r\<lparr>hv_InstallerChecklist := items\<rparr>))
         | None \<Rightarrow> (False, r))
      else if section_name = ''recovery'' then
        (case mark (hv_RecoveryChecklist r) of
           Some items \<Rightarrow> (True, RecomputeSummary (r\<lparr>hv_RecoveryChecklist := items\<rparr>))
         | None \<Rightarrow> (False, r))
      else (False, r))"

definition is_run :: "string \<Rightarrow> string \<Rightarrow> InstallerRunRecord \<Rightarrow> bool" where
  "is_run channel action item \<longleftrightarrow> ir_Channel item = channel \<and> ir_Action item = action"

definition ApplyInstallerRun ::
  "string \<Rightarrow> string \<Rightarrow> ValidationStatus \<Rightarrow> string \<Rightarrow> HostValidationRecord \<Rightarrow> bool \<times> HostValidationRecord" where
  "ApplyInstallerRun channel action status notes r =
     (case update_first (is_run channel action) (\<lambda>i. i\<lparr>ir_Status := status, ir_Notes := TrimSpace notes\<rparr>)
             (hv_InstallerRuns r) of
        Some items \<Rightarrow> (True, RecomputeSummary (r\<lparr>hv_InstallerRuns := items\<rparr>))
      | None \<Rightarrow> (False, r))"

text \<open>A field keeps its value unless the new one has something other than white space.\<close>

definition keep_or :: "string \<Rightarrow> string \<Rightarrow> string" where
  "keep_or old new = (if TrimSpace new \<noteq> [] then TrimSpace new else old)"

definition ApplyEnvironment :: "HostEnvironment \<Rightarrow> HostValidationRecord \<Rightarrow> HostValidationRecord" where
  "ApplyEnvironment env r =
     (let e = hv_Environment r in
      r\<lparr>hv_Environment :=
        \<lparr>he_Source = keep_or (he_Source e) (he_Source env), he_Machine = keep_or (he_Machine e) (he_Machine env),
         he_OSVersion = keep_or (he_OSVersion e) (he_OSVersion env),
         he_WinFspVersion = keep_or (he_WinFspVersion e) (he_WinFspVersion env),
         he_PackageChannel = keep_or (he_PackageChannel e) (he_PackageChannel env),
         he_DiagnosticsBundle = keep_or (he_DiagnosticsBundle e) (he_DiagnosticsBundle env),
         he_InstallerLogDir = keep_or (he_InstallerLogDir e) (he_InstallerLogDir env),
         he_Notes = he_Notes e @ he_Notes env\<rparr>\<rparr>)"

definition AddNote :: "string \<Rightarrow> HostValidationRecord \<Rightarrow> HostValidationRecord" where
  "AddNote note r = (let note = TrimSpace note in if note = [] then r else r\<lparr>hv_Notes := hv_Notes r @ [note]\<rparr>)"

definition MarkCompleted :: "string \<Rightarrow> instant \<Rightarrow> HostValidationRecord \<Rightarrow> HostValidationRecord" where
  "MarkCompleted by_whom at r = r\<lparr>hv_CompletedBy := TrimSpace by_whom, hv_CompletedAt := Some at\<rparr>"

text \<open>A loop over changes that may be refused, with a warning for every refusal.\<close>

fun apply_all ::
  "('a \<Rightarrow> HostValidationRecord \<Rightarrow> bool \<times> HostValidationRecord) \<Rightarrow> ('a \<Rightarrow> string) \<Rightarrow> 'a list \<Rightarrow>
    string list \<times> HostValidationRecord \<Rightarrow> string list \<times> HostValidationRecord" where
  "apply_all change warning [] st = st"
| "apply_all change warning (item # items) (warnings, r) =
     (case change item r of
        (done_item, r) \<Rightarrow> apply_all change warning items (if done_item then warnings else warnings @ [warning item], r))"

definition fill_run :: "string \<Rightarrow> string \<Rightarrow> string \<Rightarrow> InstallerRunRecord \<Rightarrow> InstallerRunRecord" where
  "fill_run versionFrom versionTo logPath i =
     i\<lparr>ir_VersionFrom := keep_or (ir_VersionFrom i) versionFrom, ir_VersionTo := keep_or (ir_VersionTo i) versionTo,
       ir_LogPath := keep_or (ir_LogPath i) logPath\<rparr>"

definition patch_run :: "InstallerRunRecord \<Rightarrow> HostValidationRecord \<Rightarrow> bool \<times> HostValidationRecord" where
  "patch_run item r =
     (let fits = is_run (ir_Channel item) (ir_Action item);
          change = (\<lambda>i. fill_run (ir_VersionFrom item) (ir_VersionTo item) (ir_LogPath item)
                     (i\<lparr>ir_Status := ir_Status item, ir_Notes := TrimSpace (ir_Notes item)\<rparr>))
      in (list_ex fits (hv_InstallerRuns r),
          r\<lparr>hv_InstallerRuns := map (\<lambda>i. if fits i then change i else i) (hv_InstallerRuns r)\<rparr>))"

definition ApplyPatch :: "instant \<Rightarrow> ValidationPatch \<Rightarrow> HostValidationRecord \<Rightarrow> string list \<times> HostValidationRecord" where
  "ApplyPatch now patch r =
     (let st = ([], ApplyEnvironment (vp_Environment patch) r);
          st = apply_all (\<lambda>item. ApplyScenario (sr_ScenarioID item) (sr_Status item) (sr_Notes item))
                 (\<lambda>item. ''unknown explorer scenario '' @ Quote (sr_ScenarioID item)) (vp_ExplorerScenarios patch) st;
          st = apply_all (\<lambda>item. ApplyChecklist ''installer'' (ck_Item item) (ck_Status item) (ck_Notes item))
                 (\<lambda>item. ''unknown installer checklist item '' @ Quote (ck_Item item)) (vp_InstallerChecklist patch) st;
          st = apply_all (\<lambda>item. ApplyChecklist ''recovery'' (ck_Item item) (ck_Status item) (ck_Notes item))
                 (\<lambda>item. ''unknown recovery checklist item '' @ Quote (ck_Item item)) (vp_RecoveryChecklist patch) st;
          st = apply_all patch_run
                 (\<lambda>item. ''unknown installer run '' @ Quote (ir_Channel item) @ ''/'' @ Quote (ir_Action item))
                 (vp_InstallerRuns patch) st;
          warnings = fst st;
          r = fold AddNote (vp_Notes patch) (snd st);
          completedBy = TrimSpace (vp_CompletedBy patch);
          r = (if vp_CompletedAt patch \<noteq> None \<or> completedBy \<noteq> []
               then MarkCompleted (if completedBy = [] then hv_CompletedBy r else completedBy)
                      (case vp_CompletedAt patch of None \<Rightarrow> now | Some at \<Rightarrow> at) r
               else r)
      in (warnings, RecomputeSummary r))"

section \<open>Templates and results of installers\<close>

record InstallerActionResult =
  ia_Status :: ValidationStatus
  ia_VersionFrom :: string
  ia_VersionTo :: string
  ia_LogPath :: string
  ia_Notes :: string

record InstallerResultSet =
  is_Version :: string
  is_LogDir :: string
  is_MSI_Install :: InstallerActionResult
  is_MSI_Upgrade :: InstallerActionResult
  is_MSI_Uninstall :: InstallerActionResult
  is_EXE_PortableLaunch :: InstallerActionResult
  is_Notes :: "string list"

definition new_action_result :: "string \<Rightarrow> InstallerActionResult" where
  "new_action_result version =
     \<lparr>ia_Status = ValidationNotRun, ia_VersionFrom = [], ia_VersionTo = TrimSpace version, ia_LogPath = [], ia_Notes = []\<rparr>"

definition NewInstallerResultSetTemplate :: "string \<Rightarrow> InstallerResultSet" where
  "NewInstallerResultSetTemplate version =
     \<lparr>is_Version = TrimSpace version, is_LogDir = [], is_MSI_Install = new_action_result version,
      is_MSI_Upgrade = new_action_result version, is_MSI_Uninstall = new_action_result version,
      is_EXE_PortableLaunch = new_action_result version,
      is_Notes = [''Fill this file on the real Windows host after each installer validation round.'']\<rparr>"

definition NewValidationPatchTemplate :: "HostValidationRecord \<Rightarrow> ValidationPatch" where
  "NewValidationPatchTemplate validation =
     (let env = hv_Environment validation in
      \<lparr>vp_CompletedBy = [], vp_CompletedAt = None,
       vp_Environment = zero_environment\<lparr>he_Source := or_default (he_Source env) ''real-windows-host'',
         he_PackageChannel := or_default (he_PackageChannel env) ''msi,exe''\<rparr>,
       vp_ExplorerScenarios = map (\<lambda>s. s\<lparr>sr_Status := ValidationNotRun, sr_Notes := []\<rparr>) (hv_ExplorerScenarios validation),
       vp_InstallerChecklist = map (\<lambda>c. c\<lparr>ck_Status := ValidationNotRun, ck_Notes := []\<rparr>) (hv_InstallerChecklist validation),
       vp_RecoveryChecklist = map (\<lambda>c. c\<lparr>ck_Status := ValidationNotRun, ck_Notes := []\<rparr>) (hv_RecoveryChecklist validation),
       vp_InstallerRuns = map (\<lambda>i. i\<lparr>ir_Status := ValidationNotRun, ir_Notes := [], ir_LogPath := [], ir_VersionFrom := []\<rparr>)
         (hv_InstallerRuns validation),
       vp_Notes = [''Fill only the fields observed during the current Windows host validation round.'']\<rparr>)"

definition apply_result ::
  "string \<times> string \<times> InstallerActionResult \<Rightarrow> HostValidationRecord \<Rightarrow> bool \<times> HostValidationRecord" where
  "apply_result = (\<lambda>(channel, action, result) r.
     case ApplyInstallerRun channel action (ia_Status result) (ia_Notes result) r of
       (False, r) \<Rightarrow> (False, r)
     | (True, r) \<Rightarrow>
         (True, r\<lparr>hv_InstallerRuns := map (\<lambda>i. if is_run channel action i
            then fill_run (ia_VersionFrom result) (ia_VersionTo result) (ia_LogPath result) i else i)
            (hv_InstallerRuns r)\<rparr>))"

definition ApplyInstallerResultSet :: "InstallerResultSet \<Rightarrow> HostValidationRecord \<Rightarrow> string list \<times> HostValidationRecord" where
  "ApplyInstallerResultSet results r =
     (let r = (if TrimSpace (is_LogDir results) \<noteq> []
               then r\<lparr>hv_Environment := (hv_Environment r)\<lparr>he_InstallerLogDir := TrimSpace (is_LogDir results)\<rparr>\<rparr> else r);
          st = apply_all apply_result
                 (\<lambda>(channel, action, _). ''unknown installer run '' @ Quote channel @ ''/'' @ Quote action)
                 [(''msi'', ''install'', is_MSI_Install results), (''msi'', ''upgrade'', is_MSI_Upgrade results),
                  (''msi'', ''uninstall'', is_MSI_Uninstall results),
                  (''exe'', ''portable-launch'', is_EXE_PortableLaunch results)] ([], r);
          st = apply_all (\<lambda>(item, result). ApplyChecklist ''installer'' item (ia_Status result) (ia_Notes result))
                 (\<lambda>(item, _). ''unknown installer checklist item '' @ Quote item)
                 [(''MSI install succeeded'', is_MSI_Install results),
                  (''EXE/portable bundle launch succeeded'', is_EXE_PortableLaunch results)] st;
          r = fold AddNote (is_Notes results) (snd st);
          r = (if TrimSpace (is_Version results) \<noteq> [] \<and> TrimSpace (hv_Version r) = []
               then r\<lparr>hv_Version := TrimSpace (is_Version results)\<rparr> else r)
      in (fst st, RecomputeSummary r))"

section \<open>What the matrix says\<close>

text \<open>
  For the table of the program the matrix has no gap exactly if the dispatcher is active, and denies the nine
  requests that would change something. Every smoke scenario has its requests; one scenario of the matrix,
  the security query, is in no smoke list.
\<close>

definition state_status :: "string option \<Rightarrow> RequestStatus" where
  "state_status st = (case st of None \<Rightarrow> RequestStatusReady | Some st \<Rightarrow> 
     if st = CallbackStateGap \<or> st = CallbackStatePreflight then RequestStatusGap
                      else if st = CallbackStateReadOnly then RequestStatusBlocked
                      else RequestStatusReady)"

lemma matrix_callbacks:
  "nt_Callbacks a = nt_Callbacks b \<Longrightarrow> DefaultExplorerRequestMatrix a = DefaultExplorerRequestMatrix b"
  by (simp add: DefaultExplorerRequestMatrix_def callback_state_def)

definition table_of :: "NativeCallback list \<Rightarrow> NativeCallbackTable" where
  "table_of callbacks =
     \<lparr>nt_Backend = [], nt_Active = False, nt_Finalized = True, nt_Ready = 0, nt_Gaps = 0, nt_ReadOnly = 0,
      nt_Preflight = 0, nt_Callbacks = callbacks, nt_ClosureDetail = []\<rparr>"

lemma lowered_callbacks: "map (\<lambda>cb. (ToLower (nc_Name cb), nc_State cb)) (native_callbacks x) =
   [(''getvolumeinfo'', x), (''getfileinfo'', x), (''create'', CallbackStateReadOnly), (''open'', x), (''opendirectory'', x),
    (''readdirectory'', x), (''read'', x), (''write'', CallbackStateReadOnly), (''overwrite'', CallbackStateReadOnly),
    (''cleanup'', x), (''close'', x), (''flush'', x), (''getsecuritybyname'', x), (''getsecurity'', x),
    (''setsecurity'', CallbackStateReadOnly), (''setbasicinfo'', CallbackStateReadOnly), (''setfilesize'', CallbackStateReadOnly),
    (''candelete'', CallbackStateReadOnly), (''setdeleteonclose'', CallbackStateReadOnly), (''rename'', CallbackStateReadOnly)]"
  by code_simp
lemma requested_callbacks: "map (\<lambda>(_, _, cb). ToLower cb) explorer_requests =
   [''getvolumeinfo'', ''getfileinfo'', ''opendirectory'', ''readdirectory'', ''open'', ''read'', ''cleanup'', ''close'', ''open'', ''read'',
   ''flush'', ''getfileinfo'', ''getsecuritybyname'', ''getsecurity'', ''getsecuritybyname'', ''create'', ''open'', ''write'',
   ''setfilesize'', ''setbasicinfo'', ''setsecurity'', ''overwrite'', ''open'', ''rename'', ''candelete'', ''setdeleteonclose'',
   ''cleanup'', ''cleanup'', ''getvolumeinfo'']" by code_simp

lemma fold_states:
  "map_option nc_State (fold (\<lambda>cb m. m(k cb \<mapsto> cb)) cs m x) =
     (case map_of (rev (map (\<lambda>cb. (k cb, nc_State cb)) cs)) x of None \<Rightarrow> map_option nc_State (m x) | Some st \<Rightarrow> Some st)"
  by (induction cs arbitrary: m) (auto simp: map_add_def split: option.split)

lemma state_lookup:
  "map_option nc_State (callback_state t x) =
     map_of (rev (map (\<lambda>cb. (ToLower (nc_Name cb), nc_State cb)) (nt_Callbacks t))) x"
  by (simp add: callback_state_def fold_states split: option.split)

lemma entry_status: "map rm_Status (map (matrix_entry cs) reqs) = map (\<lambda>n. state_status (map_option nc_State (cs n))) (map (\<lambda>(_, _, cb). ToLower cb) reqs)"
  by (induction reqs) (auto simp: matrix_entry_def state_status_def split: option.split)

lemma matrix_statuses: "map rm_Status (rx_Entries (DefaultExplorerRequestMatrix (table_of (native_callbacks x)))) =
   (let s = state_status (Some x); b = RequestStatusBlocked in
    [s, s, s, s, s, s, s, s, s, s, s, s, s, s, s, b, s, b, b, b, b, b, s, b, b, b, s, s, s])"
  unfolding DefaultExplorerRequestMatrix_def Let_def RequestMatrix.simps entry_status requested_callbacks state_lookup
  by (simp add: table_of_def lowered_callbacks) (simp add: state_status_def)
lemma matrix_counts:
  "rx_Gaps (DefaultExplorerRequestMatrix t) = length (filter (\<lambda>s. s = RequestStatusGap) (map rm_Status (rx_Entries (DefaultExplorerRequestMatrix t))))"
  "rx_Blocked (DefaultExplorerRequestMatrix t) = length (filter (\<lambda>s. s = RequestStatusBlocked) (map rm_Status (rx_Entries (DefaultExplorerRequestMatrix t))))"
  "rx_Finalized (DefaultExplorerRequestMatrix t) \<longleftrightarrow> rx_Gaps (DefaultExplorerRequestMatrix t) = 0"
  unfolding DefaultExplorerRequestMatrix_def Let_def by (simp_all add: filter_map comp_def)

theorem default_matrix:
  "rx_Finalized (DefaultExplorerRequestMatrix (DefaultNativeCallbackTable b)) = nt_Active (DefaultNativeCallbackTable b) \<and>
   rx_Blocked (DefaultExplorerRequestMatrix (DefaultNativeCallbackTable b)) = 9"
proof -
  let ?t = "DefaultNativeCallbackTable b"
  have "nt_Callbacks ?t = nt_Callbacks (table_of (native_callbacks (if nt_Active ?t then CallbackStateReady else CallbackStatePreflight)))"
    by (simp add: DefaultNativeCallbackTable_def table_of_def Let_def)
  note matrix = matrix_callbacks [OF this]
  show ?thesis
    unfolding matrix_counts(3) matrix_counts(1,2) matrix
    by (cases "nt_Active ?t") (simp_all add: matrix_statuses state_status_def Let_def)
qed

theorem smoke_has_requests:
  "list_all (\<lambda>s. list_ex (\<lambda>(scenario, _). scenario = sc_ID s) explorer_requests) DefaultExplorerSmoke \<and>
   filter (\<lambda>(scenario, _). \<not> list_ex (\<lambda>s. sc_ID s = scenario) DefaultExplorerSmoke) explorer_requests =
     [(''explorer-security-query'', ''Read root security by name'', ''GetSecurityByName'')]"
  by code_simp

section \<open>The summary is always up to date\<close>

text \<open>What the summary of a list of statuses is.\<close>

definition summary_of :: "ValidationStatus list \<Rightarrow> ValidationSummary" where
  "summary_of sts =
     (let number = (\<lambda>st. length (filter (\<lambda>x. x = st) sts));
          notRun = length (filter (\<lambda>x. x \<noteq> ValidationPass \<and> x \<noteq> ValidationWarn \<and> x \<noteq> ValidationFail) sts)
      in \<lparr>vs_NotRun = notRun, vs_Pass = number ValidationPass, vs_Warn = number ValidationWarn,
          vs_Fail = number ValidationFail,
          vs_Overall = (if number ValidationFail > 0 then ValidationFail
                        else if number ValidationWarn > 0 then ValidationWarn
                        else if number ValidationPass > 0 \<and> notRun = 0 then ValidationPass
                        else if number ValidationPass > 0 then ValidationWarn
                        else ValidationNotRun)\<rparr>)"

definition summarised :: "HostValidationRecord \<Rightarrow> bool" where
  "summarised r \<longleftrightarrow> hv_Summary r = summary_of (all_statuses r)"

lemma fold_count_status:
  "fold count_status sts s =
     s\<lparr>vs_Pass := vs_Pass s + length (filter (\<lambda>x. x = ValidationPass) sts),
       vs_Warn := vs_Warn s + length (filter (\<lambda>x. x = ValidationWarn) sts),
       vs_Fail := vs_Fail s + length (filter (\<lambda>x. x = ValidationFail) sts),
       vs_NotRun := vs_NotRun s +
         length (filter (\<lambda>x. x \<noteq> ValidationPass \<and> x \<noteq> ValidationWarn \<and> x \<noteq> ValidationFail) sts)\<rparr>"
  by (induction sts arbitrary: s) (auto simp: count_status_def)

lemma RecomputeSummary_eq: "RecomputeSummary r = r\<lparr>hv_Summary := summary_of (all_statuses r)\<rparr>"
  by (simp add: RecomputeSummary_def fold_count_status summary_of_def Let_def)

lemma all_statuses_summary [simp]: "all_statuses (r\<lparr>hv_Summary := s\<rparr>) = all_statuses r"
  by (simp add: all_statuses_def)

lemma summarised_Recompute [simp]: "summarised (RecomputeSummary r)"
  by (simp add: summarised_def RecomputeSummary_eq)

text \<open>
  Passing overall means that every check passed and that there is one.
\<close>

lemma overall_pass:
  assumes "summarised r"
  shows "vs_Overall (hv_Summary r) = ValidationPass \<longleftrightarrow>
    all_statuses r \<noteq> [] \<and> list_all (\<lambda>st. st = ValidationPass) (all_statuses r)"
proof -
  let ?number = "\<lambda>st. length (filter (\<lambda>x. x = st) (all_statuses r))"
  let ?other = "filter (\<lambda>x. x \<noteq> ValidationPass \<and> x \<noteq> ValidationWarn \<and> x \<noteq> ValidationFail) (all_statuses r)"
  have "vs_Overall (hv_Summary r) = ValidationPass \<longleftrightarrow>
      ?number ValidationFail = 0 \<and> ?number ValidationWarn = 0 \<and> ?number ValidationPass > 0 \<and> ?other = []"
    using assms by (simp add: summarised_def summary_of_def Let_def)
  also have "\<dots> \<longleftrightarrow> all_statuses r \<noteq> [] \<and> list_all (\<lambda>st. st = ValidationPass) (all_statuses r)"
    unfolding length_0_conv length_greater_0_conv filter_empty_conv list_all_iff by (cases "all_statuses r") auto
  finally show ?thesis .
qed

lemma no_fail_no_not_run:
  assumes "summarised r"
  shows "list_all (\<lambda>st. st = ValidationPass) (all_statuses r) \<Longrightarrow>
    vs_Fail (hv_Summary r) = 0 \<and> vs_NotRun (hv_Summary r) = 0"
  using assms by (auto simp: summarised_def summary_of_def Let_def list_all_iff filter_empty_conv)

section \<open>Any sequence of changes\<close>

datatype record_edit =
    EditScenario string ValidationStatus string
  | EditChecklist string string ValidationStatus string
  | EditRun string string ValidationStatus string
  | EditEnvironment HostEnvironment
  | EditNote string
  | EditCompleted string instant
  | EditPatch instant ValidationPatch
  | EditResults InstallerResultSet

fun apply_edit :: "record_edit \<Rightarrow> HostValidationRecord \<Rightarrow> HostValidationRecord" where
  "apply_edit (EditScenario sid status notes) r = snd (ApplyScenario sid status notes r)"
| "apply_edit (EditChecklist sec item status notes) r = snd (ApplyChecklist sec item status notes r)"
| "apply_edit (EditRun channel action status notes) r = snd (ApplyInstallerRun channel action status notes r)"
| "apply_edit (EditEnvironment env) r = ApplyEnvironment env r"
| "apply_edit (EditNote note) r = AddNote note r"
| "apply_edit (EditCompleted by_whom at) r = MarkCompleted by_whom at r"
| "apply_edit (EditPatch now patch) r = snd (ApplyPatch now patch r)"
| "apply_edit (EditResults results) r = snd (ApplyInstallerResultSet results r)"

lemma summarised_edit: "summarised r \<Longrightarrow> summarised (apply_edit e r)"
  by (cases e) (auto simp: ApplyScenario_def ApplyChecklist_def ApplyInstallerRun_def ApplyPatch_def Let_def
      ApplyInstallerResultSet_def ApplyEnvironment_def AddNote_def MarkCompleted_def summarised_def all_statuses_def
      RecomputeSummary_eq split: option.split)

text \<open>The installer runs of a record, by channel and action: no change adds or removes one.\<close>

definition run_keys :: "HostValidationRecord \<Rightarrow> (string \<times> string) list" where
  "run_keys r = map (\<lambda>i. (ir_Channel i, ir_Action i)) (hv_InstallerRuns r)"

lemma update_first_map:
  "update_first fits change xs = Some ys \<Longrightarrow> (\<And>x. f (change x) = f x) \<Longrightarrow> map f ys = map f xs"
  by (induction xs arbitrary: ys) (auto split: if_splits)

lemma run_keys_simps [simp]:
  "run_keys (RecomputeSummary r) = run_keys r" "run_keys (ApplyEnvironment env r) = run_keys r"
  "run_keys (AddNote n r) = run_keys r" "run_keys (MarkCompleted w t r) = run_keys r"
  "run_keys (snd (ApplyScenario sid st ns r)) = run_keys r" "run_keys (snd (ApplyChecklist sec it st ns r)) = run_keys r"
  by (simp_all add: run_keys_def RecomputeSummary_eq ApplyEnvironment_def AddNote_def MarkCompleted_def
      ApplyScenario_def ApplyChecklist_def Let_def split: option.split)

lemma run_keys_ApplyInstallerRun [simp]: "run_keys (snd (ApplyInstallerRun c a st ns r)) = run_keys r"
  by (auto simp: run_keys_def RecomputeSummary_eq ApplyInstallerRun_def split: option.split
      dest!: update_first_map [where f = "\<lambda>i. (ir_Channel i, ir_Action i)"])

lemma run_keys_filled:
  assumes "\<And>i. ir_Channel (f i) = ir_Channel i \<and> ir_Action (f i) = ir_Action i"
  shows "run_keys (r\<lparr>hv_InstallerRuns := map (\<lambda>i. if P i then f i else i) (hv_InstallerRuns r)\<rparr>) = run_keys r"
  using assms by (simp add: run_keys_def)

lemma fill_run_key [simp]: "ir_Channel (fill_run a b c i) = ir_Channel i" "ir_Action (fill_run a b c i) = ir_Action i"
  by (simp_all add: fill_run_def)

lemma run_keys_patch [simp]: "run_keys (snd (patch_run item r)) = run_keys r"
  by (simp add: patch_run_def Let_def run_keys_filled)

lemma run_keys_result [simp]: "run_keys (snd (apply_result x r)) = run_keys r"
proof -
  obtain c a res where x: "x = (c, a, res)" by (cases x) auto
  obtain b r1 where b: "ApplyInstallerRun c a (ia_Status res) (ia_Notes res) r = (b, r1)"
    by (cases "ApplyInstallerRun c a (ia_Status res) (ia_Notes res) r")
  have "run_keys r1 = run_keys r" using run_keys_ApplyInstallerRun [of c a "ia_Status res" "ia_Notes res" r] b by simp
  then show ?thesis using b by (cases b) (simp_all add: x apply_result_def run_keys_filled)
qed

lemma run_keys_all: "(\<And>x r. run_keys (snd (change x r)) = run_keys r) \<Longrightarrow>
    run_keys (snd (apply_all change warning items st)) = run_keys (snd st)"
proof (induction items arbitrary: st)
  case (Cons x items)
  obtain ws r where st: "st = (ws, r)" by (cases st)
  obtain b r1 where b: "change x r = (b, r1)" by (cases "change x r")
  then have "run_keys r1 = run_keys r" using Cons.prems [of x r] by simp
  then show ?case using Cons b by (simp add: st)
qed simp

lemma run_keys_notes [simp]: "run_keys (fold AddNote ns r) = run_keys r"
  by (induction ns arbitrary: r) simp_all

lemma run_keys_edit: "run_keys (apply_edit e r) = run_keys r"
proof (cases e)
  case (EditPatch now patch)
  show ?thesis
    by (simp add: EditPatch ApplyPatch_def Let_def run_keys_all del: apply_all.simps)
next
  case (EditResults results)
  have env: "run_keys (r\<lparr>hv_Environment := x\<rparr>) = run_keys r" and version: "run_keys (q\<lparr>hv_Version := y\<rparr>) = run_keys q"
    for x y q by (simp_all add: run_keys_def)
  show ?thesis
    by (simp add: EditResults ApplyInstallerResultSet_def Let_def run_keys_all env version split: prod.split del: apply_all.simps)
qed simp_all

lemma edits_keep:
  assumes "summarised r"
  shows "summarised (fold apply_edit edits r)" and "run_keys (fold apply_edit edits r) = run_keys r"
proof -
  show "summarised (fold apply_edit edits r)"
    using assms by (induction edits arbitrary: r) (simp_all add: summarised_edit)
  show "run_keys (fold apply_edit edits r) = run_keys r"
    by (induction edits arbitrary: r) (simp_all add: run_keys_edit)
qed

lemma new_record_keys:
  "run_keys (NewHostValidationRecord t v smoke table matrix) =
    [(''msi'', ''install''), (''msi'', ''upgrade''), (''msi'', ''uninstall''), (''exe'', ''portable-launch'')]"
  "summarised (NewHostValidationRecord t v smoke table matrix)"
  by (simp_all add: NewHostValidationRecord_def) (simp add: run_keys_def new_run_def)

section \<open>Unfilled templates\<close>

text \<open>
  A patch template names every check of the record with the status not-run. A patch that was filled only
  for the checks of one round therefore takes back the results of earlier rounds: applying the template itself
  resets every installer run.
\<close>

definition reset_runs :: "(string \<times> string) set \<Rightarrow> HostValidationRecord \<Rightarrow> bool" where
  "reset_runs K r \<longleftrightarrow> (\<forall>i \<in> set (hv_InstallerRuns r). (ir_Channel i, ir_Action i) \<in> K \<longrightarrow> ir_Status i = ValidationNotRun)"

lemma patch_run_resets:
  assumes "reset_runs K r" and "ir_Status item = ValidationNotRun"
  shows "reset_runs (insert (ir_Channel item, ir_Action item) K) (snd (patch_run item r))"
proof -
  have "ir_Status (fill_run a b c i) = ir_Status i" for a b c i by (simp add: fill_run_def)
  then show ?thesis using assms by (auto simp: reset_runs_def patch_run_def Let_def is_run_def)
qed

lemma patch_runs_reset:
  "list_all (\<lambda>i. ir_Status i = ValidationNotRun) items \<Longrightarrow> reset_runs K (snd st) \<Longrightarrow>
    reset_runs (K \<union> (\<lambda>i. (ir_Channel i, ir_Action i)) ` set items) (snd (apply_all patch_run warning items st))"
proof (induction items arbitrary: K st)
  case (Cons item items)
  obtain ws r where st: "st = (ws, r)" by (cases st)
  obtain b r1 where b: "patch_run item r = (b, r1)" by (cases "patch_run item r")
  have "reset_runs (insert (ir_Channel item, ir_Action item) K) r1"
    using patch_run_resets [of K r item] Cons.prems b by (simp add: st)
  then have "reset_runs (insert (ir_Channel item, ir_Action item) K \<union> (\<lambda>i. (ir_Channel i, ir_Action i)) ` set items)
      (snd (apply_all patch_run warning items (if b then ws else ws @ [warning item], r1)))"
    using Cons.IH [of "insert (ir_Channel item, ir_Action item) K" "(if b then ws else ws @ [warning item], r1)"]
      Cons.prems(1) by (simp only: list.pred_inject snd_conv)
  moreover have "insert (ir_Channel item, ir_Action item) K \<union> (\<lambda>i. (ir_Channel i, ir_Action i)) ` set items =
      K \<union> (\<lambda>i. (ir_Channel i, ir_Action i)) ` set (item # items)" by auto
  ultimately show ?case using b by (simp add: st)
qed simp

lemma reset_runs_simps [simp]:
  "reset_runs K (RecomputeSummary r) = reset_runs K r" "reset_runs K (AddNote n r) = reset_runs K r"
  "reset_runs K (MarkCompleted w t r) = reset_runs K r"
  by (simp_all add: reset_runs_def RecomputeSummary_eq AddNote_def MarkCompleted_def Let_def)

lemma reset_runs_notes [simp]: "reset_runs K (fold AddNote ns r) = reset_runs K r"
  by (induction ns arbitrary: r) simp_all

theorem template_resets_runs:
  "list_all (\<lambda>i. ir_Status i = ValidationNotRun)
     (hv_InstallerRuns (snd (ApplyPatch now (NewValidationPatchTemplate v) v)))"
proof -
  let ?p = "NewValidationPatchTemplate v" and ?r = "snd (ApplyPatch now (NewValidationPatchTemplate v) v)"
  have items: "list_all (\<lambda>i. ir_Status i = ValidationNotRun) (vp_InstallerRuns ?p)"
    "(\<lambda>i. (ir_Channel i, ir_Action i)) ` set (vp_InstallerRuns ?p) = set (run_keys v)"
    by (simp_all add: NewValidationPatchTemplate_def Let_def list_all_iff run_keys_def image_image)
  have open_template: "vp_CompletedBy ?p = []" "vp_CompletedAt ?p = None" "TrimSpace [] = []"
    by (simp_all add: NewValidationPatchTemplate_def Let_def TrimSpace_def trim_by_def)
  have none: "reset_runs {} q" for q by (simp add: reset_runs_def)
  have "reset_runs (set (run_keys v)) ?r"
    using patch_runs_reset [OF items(1), of "{}"] items(2) none
    by (simp add: ApplyPatch_def Let_def open_template del: apply_all.simps)
  moreover have "run_keys ?r = run_keys v" using run_keys_edit [of "EditPatch now ?p" v] by simp
  ultimately have "reset_runs (set (run_keys ?r)) ?r" by simp
  then show ?thesis by (auto simp: reset_runs_def list_all_iff run_keys_def)
qed

end
