(* ===== verification/Release.thy ===== *)
theory Release
  imports Validation
begin

text \<open>
  The release gate (\<^verbatim>\<open>internal/winclientrelease\<close>: \<^verbatim>\<open>release.go\<close>, \<^verbatim>\<open>closure.go\<close>, \<^verbatim>\<open>issues.go\<close>, \<^verbatim>\<open>intake_report.go\<close>,
  \<^verbatim>\<open>fixplan.go\<close>, \<^verbatim>\<open>rc.go\<close>, \<^verbatim>\<open>final.go\<close>): from a validation record to the decision whether the release may be
  published. The Markdown and JSON renderings are left out.
\<close>

section \<open>The manifest\<close>

record Artifact =
  af_Name :: string
  af_Kind :: string
  af_Path :: string

record Manifest =
  mf_PackageName :: string
  mf_Version :: string
  mf_Artifacts :: "Artifact list"
  mf_NativeCallbackSummary :: string
  mf_ExplorerMatrixSummary :: string
  mf_ValidationTemplate :: string
  mf_ValidationResult :: string
  mf_ValidationIntake :: string
  mf_BackfillPatch :: string
  mf_ReleaseClosure :: string
  mf_IssueList :: string
  mf_FixPlan :: string
  mf_ReleaseCandidate :: string
  mf_FinalRelease :: string
  mf_FinalSignoff :: string
  mf_FinalStatus :: string
  mf_InstallerResults :: "string list"
  mf_SmokeScenarios :: "Scenario list"

definition NewManifest ::
  "string \<Rightarrow> Artifact list \<Rightarrow> NativeCallbackTable \<Rightarrow> RequestMatrix \<Rightarrow> Scenario list \<Rightarrow> Manifest" where
  "NewManifest version artifacts table matrix smoke =
     \<lparr>mf_PackageName = ''developer-mount-windows-client'', mf_Version = TrimSpace version, mf_Artifacts = artifacts,
      mf_NativeCallbackSummary = NativeCallbackTable_Summary table,
      mf_ExplorerMatrixSummary = RequestMatrix_Summary matrix,
      mf_ValidationTemplate = ''windows-host-validation-template.json'',
      mf_ValidationResult = ''windows-host-validation-result-template.json'',
      mf_ValidationIntake = ''windows-validation-intake-report.json'',
      mf_BackfillPatch = ''windows-host-backfill-patch-template.json'',
      mf_ReleaseClosure = ''windows-release-closure.json'', mf_IssueList = ''windows-pre-release-issues.json'',
      mf_FixPlan = ''windows-first-pass-fix-plan.json'', mf_ReleaseCandidate = ''windows-release-candidate.json'',
      mf_FinalRelease = ''windows-final-release.json'', mf_FinalSignoff = ''windows-final-signoff.md'',
      mf_FinalStatus = ''needs-validation'',
      mf_InstallerResults = [''msi-install'', ''msi-upgrade'', ''msi-uninstall'', ''exe-portable-launch''],
      mf_SmokeScenarios = smoke\<rparr>"

section \<open>The closure\<close>

record ReleaseClosure =
  rl_GeneratedAt :: instant
  rl_Version :: string
  rl_Manifest :: Manifest
  rl_Validation :: HostValidationRecord
  rl_ReleaseReady :: bool
  rl_Reasons :: "string list"

definition hasInstallerRunStatus :: "HostValidationRecord \<Rightarrow> string \<Rightarrow> string \<Rightarrow> ValidationStatus \<Rightarrow> bool" where
  "hasInstallerRunStatus r channel action status \<longleftrightarrow>
     list_ex (\<lambda>item. ir_Channel item = channel \<and> ir_Action item = action \<and> ir_Status item = status) (hv_InstallerRuns r)"

definition must_pass :: "(string \<times> string) list" where
  "must_pass = [(''msi'', ''install''), (''msi'', ''upgrade''), (''msi'', ''uninstall''), (''exe'', ''portable-launch'')]"

definition closure_reasons :: "HostValidationRecord \<Rightarrow> string list" where
  "closure_reasons v =
     (if vs_Fail (hv_Summary v) > 0 then [''validation record still contains failed checks''] else []) @
     (if vs_NotRun (hv_Summary v) > 0 then [''validation record still contains not-run checks''] else []) @
     concat (map (\<lambda>(channel, action).
       if \<not> hasInstallerRunStatus v channel action ValidationPass
       then [''installer run '' @ channel @ ''/'' @ action @ '' has not passed''] else []) must_pass) @
     (if hv_CompletedAt v = None \<or> TrimSpace (hv_CompletedBy v) = []
      then [''validation record is not marked completed''] else [])"

definition evaluate :: "ReleaseClosure \<Rightarrow> ReleaseClosure" where
  "evaluate c =
     (let reasons = closure_reasons (rl_Validation c);
          ready = (length reasons = 0)
      in c\<lparr>rl_Reasons := reasons, rl_ReleaseReady := ready,
           rl_Manifest := (rl_Manifest c)\<lparr>mf_FinalStatus := (if ready then ''ready'' else ''needs-validation'')\<rparr>\<rparr>)"

definition NewReleaseClosure :: "instant \<Rightarrow> Manifest \<Rightarrow> HostValidationRecord \<Rightarrow> ReleaseClosure" where
  "NewReleaseClosure now manifest validation =
     evaluate \<lparr>rl_GeneratedAt = now, rl_Version = TrimSpace (mf_Version manifest), rl_Manifest = manifest,
       rl_Validation = validation, rl_ReleaseReady = False, rl_Reasons = []\<rparr>"

section \<open>The issues\<close>

abbreviation (input) IssueSeverityBlocker :: string where "IssueSeverityBlocker \<equiv> ''blocker''"
abbreviation (input) IssueSeverityWarning :: string where "IssueSeverityWarning \<equiv> ''warning''"
abbreviation (input) IssueSeverityInfo :: string where "IssueSeverityInfo \<equiv> ''info''"
abbreviation (input) IssueStatusOpen :: string where "IssueStatusOpen \<equiv> ''open''"
abbreviation (input) IssueStatusClosed :: string where "IssueStatusClosed \<equiv> ''closed''"

record ReleaseIssue =
  ri_ID :: string
  ri_Category :: string
  ri_Title :: string
  ri_Severity :: string
  ri_Status :: string
  ri_Evidence :: string
  ri_Remediation :: string

record PreReleaseIssueList =
  pl_GeneratedAt :: instant
  pl_Version :: string
  pl_ReleaseReady :: bool
  pl_OpenCount :: nat
  pl_ClosedCount :: nat
  pl_Issues :: "ReleaseIssue list"

fun firstNonEmpty :: "string list \<Rightarrow> string" where
  "firstNonEmpty [] = []"
| "firstNonEmpty (v # vs) = (if TrimSpace v \<noteq> [] then TrimSpace v else firstNonEmpty vs)"

text \<open>The replacer of \<^verbatim>\<open>slug\<close>, one character at a time, and the loop that shortens runs of dashes.\<close>

definition slug_char :: "char \<Rightarrow> string" where
  "slug_char c =
     (if c = CHR '' '' \<or> c = slash \<or> c = CHR ''_'' \<or> c = CHR ''.'' \<or> c = CHR '':'' then ''-''
      else if c = CHR ''('' \<or> c = CHR '')'' \<or> c = CHR ''['' \<or> c = CHR '']'' \<or> c = CHR 0x27 then []
      else [c])"

fun halve_dashes :: "string \<Rightarrow> string" where
  "halve_dashes (a # b # s) =
     (if a = CHR ''-'' \<and> b = CHR ''-'' then CHR ''-'' # halve_dashes s else a # halve_dashes (b # s))"
| "halve_dashes s = s"

lemma halve_dashes_length: "length (halve_dashes s) \<le> length s"
  by (induction s rule: halve_dashes.induct) auto

lemma halve_dashes_less: "Contains s ''--'' \<Longrightarrow> length (halve_dashes s) < length s"
proof (induction s rule: halve_dashes.induct)
  case (1 a b s)
  have "length (halve_dashes s) \<le> length s" by (rule halve_dashes_length)
  then show ?case using 1 by (auto simp: HasPrefix_def)
qed (simp_all add: HasPrefix_def)

function collapse_dashes :: "string \<Rightarrow> string" where
  "collapse_dashes s = (if Contains s ''--'' then collapse_dashes (halve_dashes s) else s)"
  by pat_completeness auto
termination
  by (relation "measure length") (auto intro: halve_dashes_less)

declare collapse_dashes.simps [simp del]

definition slug :: "string \<Rightarrow> string" where
  "slug s = Trim (collapse_dashes (concat (map slug_char (ToLower (TrimSpace s))))) (CHR ''-'')"

definition issueFromScenario :: "ScenarioRecord \<Rightarrow> ReleaseIssue option" where
  "issueFromScenario item =
     (let issue = (\<lambda>severity evidence remediation.
        \<lparr>ri_ID = ''scenario-'' @ sr_ScenarioID item, ri_Category = ''explorer'', ri_Title = sr_Name item,
         ri_Severity = severity, ri_Status = IssueStatusOpen, ri_Evidence = evidence, ri_Remediation = remediation\<rparr>) in
      if sr_Status item = ValidationPass then None
      else if sr_Status item = ValidationWarn
        then Some (issue IssueSeverityWarning (TrimSpace (sr_Notes item))
          ''Re-run the Explorer smoke scenario on a real Windows host and capture a stable pass or explicit release waiver.'')
      else if sr_Status item = ValidationFail
        then Some (issue IssueSeverityBlocker (TrimSpace (sr_Notes item))
          ''Fix the Explorer path or capture a release blocker waiver before shipping.'')
      else Some (issue IssueSeverityBlocker ''scenario not yet executed on a Windows host''
          ''Run this Explorer smoke scenario and backfill the result.''))"

definition issueFromChecklist :: "string \<Rightarrow> ChecklistRecord \<Rightarrow> ReleaseIssue option" where
  "issueFromChecklist sec item =
     (if ck_Status item = ValidationPass then None
      else Some
        \<lparr>ri_ID = sec @ ''-'' @ slug (ck_Item item), ri_Category = sec, ri_Title = ck_Item item,
         ri_Severity = (if ck_Status item = ValidationWarn then IssueSeverityWarning else IssueSeverityBlocker),
         ri_Status = IssueStatusOpen,
         ri_Evidence = (if TrimSpace (ck_Notes item) = []
                        then sec @ '' checklist item has status '' @ ck_Status item else TrimSpace (ck_Notes item)),
         ri_Remediation = ''Backfill the '' @ sec @ '' checklist item with a stable Windows-host result.''\<rparr>)"

definition issueFromInstallerRun :: "InstallerRunRecord \<Rightarrow> ReleaseIssue option" where
  "issueFromInstallerRun item =
     (if ir_Status item = ValidationPass then None
      else Some
        \<lparr>ri_ID = ''installer-'' @ slug (ir_Channel item) @ ''-'' @ slug (ir_Action item), ri_Category = ''installer'',
         ri_Title = ToUpper (ir_Channel item) @ ''/'' @ ir_Action item,
         ri_Severity = (if ir_Status item = ValidationWarn then IssueSeverityWarning else IssueSeverityBlocker),
         ri_Status = IssueStatusOpen,
         ri_Evidence = (if TrimSpace (ir_Notes item) = []
                        then ''installer run '' @ ir_Channel item @ ''/'' @ ir_Action item @ '' has status '' @ ir_Status item
                        else TrimSpace (ir_Notes item)),
         ri_Remediation = ''Run the installer scenario on a real Windows host and capture logs/screenshots for sign-off.''\<rparr>)"

definition closure_issue :: "nat \<Rightarrow> string \<Rightarrow> ReleaseIssue" where
  "closure_issue idx reason =
     \<lparr>ri_ID = ''closure-'' @ pad 2 (idx + 1), ri_Category = ''closure'', ri_Title = reason,
      ri_Severity = IssueSeverityBlocker, ri_Status = IssueStatusOpen, ri_Evidence = ''release closure evaluator'',
      ri_Remediation = ''Update the Windows host validation result and regenerate the release closure.''\<rparr>"

definition NewPreReleaseIssueList ::
  "instant \<Rightarrow> Manifest \<Rightarrow> HostValidationRecord \<Rightarrow> ReleaseClosure \<Rightarrow> PreReleaseIssueList" where
  "NewPreReleaseIssueList now manifest validation closure =
     (let issues =
        List.map_filter issueFromScenario (hv_ExplorerScenarios validation) @
        List.map_filter (issueFromChecklist ''installer'') (hv_InstallerChecklist validation) @
        List.map_filter (issueFromChecklist ''recovery'') (hv_RecoveryChecklist validation) @
        List.map_filter issueFromInstallerRun (hv_InstallerRuns validation) @
        map (\<lambda>(idx, reason). closure_issue idx reason) (List.enumerate 0 (rl_Reasons closure))
      in \<lparr>pl_GeneratedAt = now,
          pl_Version = TrimSpace (firstNonEmpty [rl_Version closure, mf_Version manifest, hv_Version validation]),
          pl_ReleaseReady = rl_ReleaseReady closure,
          pl_OpenCount = length (filter (\<lambda>i. ri_Status i \<noteq> IssueStatusClosed) issues),
          pl_ClosedCount = length (filter (\<lambda>i. ri_Status i = IssueStatusClosed) issues),
          pl_Issues = issues\<rparr>)"

section \<open>The intake report\<close>

abbreviation (input) IntakeEvidencePresent :: string where "IntakeEvidencePresent \<equiv> ''present''"
abbreviation (input) IntakeEvidenceMissing :: string where "IntakeEvidenceMissing \<equiv> ''missing''"

record IntakeEvidence =
  ie_Key :: string
  ie_Status :: string
  ie_Detail :: string
  ie_Remediation :: string

record ValidationIntakeReport =
  vi_GeneratedAt :: instant
  vi_Version :: string
  vi_Completed :: bool
  vi_ValidationOverall :: ValidationStatus
  vi_ReadyForTargetedFix :: bool
  vi_MissingEvidenceCount :: nat
  vi_OpenScenarioCount :: nat
  vi_OpenInstallerRuns :: nat
  vi_OpenChecklistItems :: nat
  vi_Evidence :: "IntakeEvidence list"
  vi_PendingScenarios :: "string list"
  vi_PendingInstallerRuns :: "string list"
  vi_PendingChecklist :: "string list"
  vi_Notes :: "string list"

definition evidence :: "string \<times> string \<times> string \<Rightarrow> IntakeEvidence" where
  "evidence = (\<lambda>(key, v, remediation).
     \<lparr>ie_Key = key, ie_Status = (if TrimSpace v = [] then IntakeEvidenceMissing else IntakeEvidencePresent),
      ie_Detail = TrimSpace v, ie_Remediation = remediation\<rparr>)"

definition required_evidence :: "HostValidationRecord \<Rightarrow> (string \<times> string \<times> string) list" where
  "required_evidence v =
     (let env = hv_Environment v in
      [(''completed_at'', case hv_CompletedAt v of None \<Rightarrow> [] | Some at \<Rightarrow> FormatRFC3339 at,
        ''Mark the validation result completed after the first Windows-host run is fully backfilled.''),
       (''environment.machine'', he_Machine env,
        ''Record the Windows host machine name used for the first-pass validation.''),
       (''environment.os_version'', he_OSVersion env, ''Capture the exact Windows build used for validation.''),
       (''environment.winfsp_version'', he_WinFspVersion env, ''Capture the WinFsp version from the validation host.''),
       (''environment.diagnostics_bundle'', he_DiagnosticsBundle env,
        ''Attach the exported diagnostics ZIP produced after the Explorer and installer validation runs.''),
       (''environment.installer_log_dir'', he_InstallerLogDir env,
        ''Archive the MSI/EXE installer logs and record the directory path.'')])"

definition missing_log :: "InstallerRunRecord \<Rightarrow> IntakeEvidence" where
  "missing_log run =
     \<lparr>ie_Key = ''installer_runs.'' @ ir_Channel run @ ''.'' @ ir_Action run @ ''.log_path'',
      ie_Status = IntakeEvidenceMissing, ie_Detail = [],
      ie_Remediation = ''Capture the installer log path for each real Windows-host installer run.''\<rparr>"

definition NewValidationIntakeReport :: "instant \<Rightarrow> Manifest \<Rightarrow> HostValidationRecord \<Rightarrow> ValidationIntakeReport" where
  "NewValidationIntakeReport now manifest validation =
     (let completed = (hv_CompletedAt validation \<noteq> None);
          required = map evidence (required_evidence validation);
          logs = filter (\<lambda>run. TrimSpace (ir_LogPath run) = []) (hv_InstallerRuns validation);
          missing = length (filter (\<lambda>e. ie_Status e = IntakeEvidenceMissing) required) + length logs;
          scenarios = filter (\<lambda>s. sr_Status s \<noteq> ValidationPass) (hv_ExplorerScenarios validation);
          runs = filter (\<lambda>i. ir_Status i \<noteq> ValidationPass) (hv_InstallerRuns validation);
          pending = (\<lambda>prefix items. map (\<lambda>c. prefix @ '': '' @ ck_Item c @ '' ('' @ ck_Status c @ '')'')
                       (filter (\<lambda>c. ck_Status c \<noteq> ValidationPass) items));
          checklist = pending ''installer'' (hv_InstallerChecklist validation) @
                      pending ''recovery'' (hv_RecoveryChecklist validation)
      in \<lparr>vi_GeneratedAt = now,
          vi_Version = TrimSpace (firstNonEmpty [hv_Version validation, mf_Version manifest]),
          vi_Completed = completed, vi_ValidationOverall = vs_Overall (hv_Summary validation),
          vi_ReadyForTargetedFix = (completed \<and> missing = 0), vi_MissingEvidenceCount = missing,
          vi_OpenScenarioCount = length scenarios, vi_OpenInstallerRuns = length runs,
          vi_OpenChecklistItems = length checklist,
          vi_Evidence = required @ map missing_log logs,
          vi_PendingScenarios = map (\<lambda>s. sr_ScenarioID s @ '' ('' @ sr_Status s @ '')'') scenarios,
          vi_PendingInstallerRuns = map (\<lambda>i. ir_Channel i @ ''/'' @ ir_Action i @ '' ('' @ ir_Status i @ '')'') runs,
          vi_PendingChecklist = checklist,
          vi_Notes =
            (if \<not> completed then [''The validation result has not been marked completed yet.''] else []) @
            (if missing > 0 then [''Capture the missing diagnostics bundle, installer logs, and host metadata before claiming first-pass fixes are grounded in real Windows-host evidence.''] else []) @
            (if length scenarios + length runs + length checklist = 0
             then [''All first-pass Windows-host checks are recorded as pass.''] else [])\<rparr>)"

section \<open>The fix plan\<close>

record FixPlanItem =
  fx_ID :: string
  fx_Severity :: string
  fx_Category :: string
  fx_Title :: string
  fx_Evidence :: string
  fx_Remediation :: string
  fx_SuggestedArea :: string
  fx_SuggestedFiles :: "string list"

record FirstPassFixPlan =
  fp_GeneratedAt :: instant
  fp_Version :: string
  fp_Blockers :: nat
  fp_Warnings :: nat
  fp_Infos :: nat
  fp_Items :: "FixPlanItem list"

definition suggestedAreaForIssue :: "ReleaseIssue \<Rightarrow> string" where
  "suggestedAreaForIssue issue =
     (let c = ri_Category issue in
      if c = ''explorer'' then ''winfsp-native-callbacks''
      else if c = ''installer'' \<or> c = ''installer-run'' then ''windows-release-packaging''
      else if c = ''recovery'' then ''winclient-recovery''
      else if c = ''closure'' then ''release-closure''
      else ''windows-client-productization'')"

definition suggestedFilesForIssue :: "ReleaseIssue \<Rightarrow> string list" where
  "suggestedFilesForIssue issue =
     (let c = ri_Category issue in
      if c = ''explorer''
        then [''internal/winfsp/callbacks.go'', ''internal/winfsp/dispatcher_bridge.go'', ''internal/winclientsmoke/request_matrix.go'']
      else if c = ''installer''
        then [''scripts/package-windows-release.ps1'', ''scripts/package-windows-installer.ps1'', ''internal/winclientrelease/release.go'']
      else if c = ''installer-run''
        then [''scripts/backfill-windows-validation.ps1'', ''scripts/finalize-windows-release.ps1'', ''internal/winclientrelease/intake.go'']
      else if c = ''recovery''
        then [''internal/winclientrecovery/recovery.go'', ''internal/winclientdiag/diag.go'', ''internal/winclientgui/diag_windows.go'']
      else if c = ''closure''
        then [''internal/winclientrelease/closure.go'', ''internal/winclientrelease/issues.go'', ''scripts/finalize-windows-release.ps1'']
      else [])"

definition plan_item :: "ReleaseIssue \<Rightarrow> FixPlanItem" where
  "plan_item issue =
     \<lparr>fx_ID = ri_ID issue, fx_Severity = ri_Severity issue, fx_Category = ri_Category issue, fx_Title = ri_Title issue,
      fx_Evidence = ri_Evidence issue, fx_Remediation = ri_Remediation issue,
      fx_SuggestedArea = suggestedAreaForIssue issue, fx_SuggestedFiles = suggestedFilesForIssue issue\<rparr>"

definition NewFirstPassFixPlan ::
  "instant \<Rightarrow> Manifest \<Rightarrow> HostValidationRecord \<Rightarrow> PreReleaseIssueList \<Rightarrow> FirstPassFixPlan" where
  "NewFirstPassFixPlan now manifest validation issues =
     (let number = (\<lambda>P. length (filter (\<lambda>i. P (ri_Severity i)) (pl_Issues issues))) in
      \<lparr>fp_GeneratedAt = now,
       fp_Version = TrimSpace (firstNonEmpty [hv_Version validation, mf_Version manifest, pl_Version issues]),
       fp_Blockers = number (\<lambda>s. s = IssueSeverityBlocker),
       fp_Warnings = number (\<lambda>s. s = IssueSeverityWarning),
       fp_Infos = number (\<lambda>s. s \<noteq> IssueSeverityBlocker \<and> s \<noteq> IssueSeverityWarning),
       fp_Items = map plan_item (pl_Issues issues)\<rparr>)"

section \<open>The release candidate and the final release\<close>

record ReleaseCandidate =
  rn_GeneratedAt :: instant
  rn_Version :: string
  rn_Channel :: string
  rn_ReleaseReady :: bool
  rn_ManifestPath :: string
  rn_ValidationPath :: string
  rn_ClosurePath :: string
  rn_IssueListPath :: string
  rn_FixPlanPath :: string
  rn_ArtifactCount :: nat
  rn_OpenIssues :: nat
  rn_FinalStatus :: string
  rn_ClosureReasons :: "string list"
  rn_OutstandingIssues :: "ReleaseIssue list"
  rn_Artifacts :: "Artifact list"

definition NewReleaseCandidate ::
  "instant \<Rightarrow> Manifest \<Rightarrow> HostValidationRecord \<Rightarrow> ReleaseClosure \<Rightarrow> PreReleaseIssueList \<Rightarrow> ReleaseCandidate" where
  "NewReleaseCandidate now manifest validation closure issues =
     (let overall = vs_Overall (hv_Summary validation);
          status = (if rl_ReleaseReady closure \<and> pl_OpenCount issues = 0 \<and> overall = ValidationPass then ''rc-ready''
                    else if overall = ValidationWarn \<or> pl_OpenCount issues > 0 then ''needs-attention''
                    else ''blocked'')
      in \<lparr>rn_GeneratedAt = now,
          rn_Version = TrimSpace (firstNonEmpty [rl_Version closure, hv_Version validation, mf_Version manifest]),
          rn_Channel = ''rc'', rn_ReleaseReady = rl_ReleaseReady closure, rn_ManifestPath = ''release-manifest.json'',
          rn_ValidationPath = or_default (mf_ValidationResult manifest) ''windows-host-validation-result-template.json'',
          rn_ClosurePath = or_default (mf_ReleaseClosure manifest) ''windows-release-closure.json'',
          rn_IssueListPath = or_default (mf_IssueList manifest) ''windows-pre-release-issues.json'',
          rn_FixPlanPath = ''windows-first-pass-fix-plan.json'', rn_ArtifactCount = length (mf_Artifacts manifest),
          rn_OpenIssues = pl_OpenCount issues, rn_FinalStatus = status, rn_ClosureReasons = rl_Reasons closure,
          rn_OutstandingIssues = pl_Issues issues, rn_Artifacts = mf_Artifacts manifest\<rparr>)"

record FinalRelease =
  fr_GeneratedAt :: instant
  fr_Version :: string
  fr_Channel :: string
  fr_ReleaseReady :: bool
  fr_PublishReady :: bool
  fr_FinalStatus :: string
  fr_ValidationOverall :: ValidationStatus
  fr_OpenIssues :: nat
  fr_MissingEvidenceCount :: nat
  fr_ManifestPath :: string
  fr_ValidationPath :: string
  fr_IntakePath :: string
  fr_ClosurePath :: string
  fr_IssueListPath :: string
  fr_FixPlanPath :: string
  fr_RCPath :: string
  fr_ClosureReasons :: "string list"
  fr_OutstandingNotes :: "string list"

definition NewFinalRelease ::
  "instant \<Rightarrow> Manifest \<Rightarrow> HostValidationRecord \<Rightarrow> ValidationIntakeReport \<Rightarrow> ReleaseClosure \<Rightarrow> PreReleaseIssueList \<Rightarrow>
    ReleaseCandidate \<Rightarrow> FinalRelease" where
  "NewFinalRelease now manifest validation intake closure issues rc =
     (let overall = vs_Overall (hv_Summary validation);
          publish = (rl_ReleaseReady closure \<and> rn_FinalStatus rc = ''rc-ready'' \<and> vi_ReadyForTargetedFix intake \<and>
                     pl_OpenCount issues = 0 \<and> overall = ValidationPass)
      in \<lparr>fr_GeneratedAt = now,
          fr_Version = TrimSpace (firstNonEmpty [rn_Version rc, hv_Version validation, mf_Version manifest]),
          fr_Channel = ''stable'', fr_ReleaseReady = rl_ReleaseReady closure, fr_PublishReady = publish,
          fr_FinalStatus = (if publish then ''publish-ready''
                            else if overall = ValidationWarn \<or> pl_OpenCount issues > 0 \<or> vi_MissingEvidenceCount intake > 0
                              then ''needs-attention''
                            else ''blocked''),
          fr_ValidationOverall = overall, fr_OpenIssues = pl_OpenCount issues,
          fr_MissingEvidenceCount = vi_MissingEvidenceCount intake, fr_ManifestPath = ''release-manifest.json'',
          fr_ValidationPath = or_default (mf_ValidationResult manifest) ''windows-host-validation-result-template.json'',
          fr_IntakePath = or_default (mf_ValidationIntake manifest) ''windows-validation-intake-report.json'',
          fr_ClosurePath = or_default (mf_ReleaseClosure manifest) ''windows-release-closure.json'',
          fr_IssueListPath = or_default (mf_IssueList manifest) ''windows-pre-release-issues.json'',
          fr_FixPlanPath = or_default (mf_FixPlan manifest) ''windows-first-pass-fix-plan.json'',
          fr_RCPath = or_default (mf_ReleaseCandidate manifest) ''windows-release-candidate.json'',
          fr_ClosureReasons = rl_Reasons closure,
          fr_OutstandingNotes =
            (if \<not> vi_ReadyForTargetedFix intake
             then [''validation intake still misses required Windows-host evidence''] else []) @
            (if pl_OpenCount issues > 0 then [''pre-release issue list still contains open items''] else []) @
            (if overall \<noteq> ValidationPass then [''validation summary is not fully pass''] else [])\<rparr>)"

text \<open>The whole chain, as the diagnostics export runs it (\<^verbatim>\<open>internal/winclientdiag/diag.go\<close>).\<close>

definition final_release :: "instant \<Rightarrow> Manifest \<Rightarrow> HostValidationRecord \<Rightarrow> FinalRelease" where
  "final_release now manifest validation =
     (let closure = NewReleaseClosure now manifest validation;
          issues = NewPreReleaseIssueList now manifest validation closure;
          intake = NewValidationIntakeReport now manifest validation;
          rc = NewReleaseCandidate now manifest validation closure issues
      in NewFinalRelease now manifest validation intake closure issues rc)"

section \<open>The decision is right\<close>

lemma TrimSpace_nonblank: "c \<in> set s \<Longrightarrow> \<not> is_space c \<Longrightarrow> TrimSpace s \<noteq> []"
proof -
  assume c: "c \<in> set s" "\<not> is_space c"
  then have ne: "dropWhile is_space s \<noteq> []" by (auto simp: dropWhile_eq_Nil_conv)
  have "hd (dropWhile is_space s) \<in> set (dropWhile is_space s)" using ne by simp
  moreover have "\<not> is_space (hd (dropWhile is_space s))" using ne by (rule hd_dropWhile)
  ultimately show ?thesis by (auto simp: TrimSpace_def trim_by_def)
qed

lemma TrimSpace_FormatRFC3339: "TrimSpace (FormatRFC3339 t) \<noteq> []"
proof (rule TrimSpace_nonblank [of "CHR ''Z''"])
  obtain y m d where "civil_from_days (t div second_ns div 86400) = (y, m, d)"
    by (cases "civil_from_days (t div second_ns div 86400)")
  then show "CHR ''Z'' \<in> set (FormatRFC3339 t)" by (simp add: FormatRFC3339_def Let_def)
qed (simp add: is_space_def)

lemma issue_iff:
  "issueFromScenario s = None \<longleftrightarrow> sr_Status s = ValidationPass"
  "issueFromChecklist sec k = None \<longleftrightarrow> ck_Status k = ValidationPass"
  "issueFromInstallerRun i = None \<longleftrightarrow> ir_Status i = ValidationPass"
  by (auto simp: issueFromScenario_def issueFromChecklist_def issueFromInstallerRun_def Let_def)

lemma map_filter_Nil: "List.map_filter f xs = [] \<longleftrightarrow> list_all (\<lambda>x. f x = None) xs"
  by (induction xs) (auto simp: List.map_filter_simps split: option.split)

text \<open>Every check that did not pass is an open issue, and so is every reason against the closure.\<close>

lemma no_open_issue:
  "pl_OpenCount (NewPreReleaseIssueList now m v c) = 0 \<longleftrightarrow>
    list_all (\<lambda>st. st = ValidationPass) (all_statuses v) \<and> rl_Reasons c = []"
proof -
  let ?l = "NewPreReleaseIssueList now m v c"
  have opened: "list_all (\<lambda>i. ri_Status i = IssueStatusOpen) (pl_Issues ?l)"
    by (auto simp: NewPreReleaseIssueList_def Let_def list_all_iff List.map_filter_def issueFromScenario_def
        issueFromChecklist_def issueFromInstallerRun_def closure_issue_def split: if_splits)
  have "pl_OpenCount ?l = length (filter (\<lambda>i. ri_Status i \<noteq> IssueStatusClosed) (pl_Issues ?l))"
    by (simp add: NewPreReleaseIssueList_def Let_def)
  also have "\<dots> = 0 \<longleftrightarrow> pl_Issues ?l = []"
    using opened by (cases "pl_Issues ?l") auto
  also have "\<dots> \<longleftrightarrow> list_all (\<lambda>st. st = ValidationPass) (all_statuses v) \<and> rl_Reasons c = []"
    by (auto simp: NewPreReleaseIssueList_def Let_def map_filter_Nil all_statuses_def list_all_iff issue_iff enumerate_eq_zip)
  finally show ?thesis .
qed

lemma closure_ready:
  assumes "summarised v" and "set must_pass \<subseteq> set (run_keys v)"
    and "list_all (\<lambda>st. st = ValidationPass) (all_statuses v)"
  shows "closure_reasons v = [] \<longleftrightarrow> hv_CompletedAt v \<noteq> None \<and> TrimSpace (hv_CompletedBy v) \<noteq> []"
proof -
  have "hasInstallerRunStatus v c a ValidationPass" if "(c, a) \<in> set must_pass" for c a
    using assms(2,3) that by (force simp: run_keys_def hasInstallerRunStatus_def list_ex_iff list_all_iff all_statuses_def)
  then have "concat (map (\<lambda>(channel, action).
       if \<not> hasInstallerRunStatus v channel action ValidationPass
       then [''installer run '' @ channel @ ''/'' @ action @ '' has not passed''] else []) must_pass) = []"
    by auto
  then show ?thesis using no_fail_no_not_run [OF assms(1,3)] by (simp add: closure_reasons_def)
qed

lemma intake_ready:
  "vi_ReadyForTargetedFix (NewValidationIntakeReport now m v) \<longleftrightarrow>
    hv_CompletedAt v \<noteq> None \<and>
    list_all (\<lambda>s. TrimSpace s \<noteq> [])
      ([he_Machine (hv_Environment v), he_OSVersion (hv_Environment v), he_WinFspVersion (hv_Environment v),
        he_DiagnosticsBundle (hv_Environment v), he_InstallerLogDir (hv_Environment v)] @
       map ir_LogPath (hv_InstallerRuns v))"
  by (auto simp: NewValidationIntakeReport_def Let_def required_evidence_def evidence_def TrimSpace_FormatRFC3339
      list_all_iff filter_empty_conv)

text \<open>
  C39: A release is declared ready to publish exactly if the validation is complete: every scenario, checklist item
  and installer run of the record passed, the record is marked as completed by somebody, and all the evidence
  is there (machine, system, WinFsp version, diagnostics, logs). This holds for the record after any sequence of
  changes to a new one, whatever patches and results, also malformed ones, were merged into it.
\<close>

theorem publish_ready_exact:
  "let v = fold apply_edit edits (NewHostValidationRecord t version smoke table matrix);
       env = hv_Environment v;
       final = final_release now manifest v in
   (fr_PublishReady final \<longleftrightarrow>
      list_all (\<lambda>st. st = ValidationPass) (all_statuses v) \<and>
      hv_CompletedAt v \<noteq> None \<and> TrimSpace (hv_CompletedBy v) \<noteq> [] \<and>
      list_all (\<lambda>s. TrimSpace s \<noteq> [])
        ([he_Machine env, he_OSVersion env, he_WinFspVersion env, he_DiagnosticsBundle env, he_InstallerLogDir env] @
         map ir_LogPath (hv_InstallerRuns v))) \<and>
   (fr_FinalStatus final = ''publish-ready'' \<longleftrightarrow> fr_PublishReady final)"
proof -
  define v where "v = fold apply_edit edits (NewHostValidationRecord t version smoke table matrix)"
  have v: "summarised v" "run_keys v = must_pass"
    using edits_keep [OF new_record_keys(2), of edits t version smoke table matrix]
    by (simp_all add: v_def new_record_keys(1) must_pass_def)
  then have some: "all_statuses v \<noteq> []" by (auto simp: all_statuses_def run_keys_def must_pass_def)
  let ?c = "NewReleaseClosure now manifest v"
  have closure: "rl_Reasons ?c = closure_reasons v" "rl_ReleaseReady ?c \<longleftrightarrow> closure_reasons v = []"
    by (simp_all add: NewReleaseClosure_def evaluate_def Let_def)
  have "fr_PublishReady (final_release now manifest v) \<longleftrightarrow>
      closure_reasons v = [] \<and> vi_ReadyForTargetedFix (NewValidationIntakeReport now manifest v) \<and>
      list_all (\<lambda>st. st = ValidationPass) (all_statuses v)"
    using overall_pass [OF v(1)] some
    by (auto simp: final_release_def NewFinalRelease_def NewReleaseCandidate_def Let_def no_open_issue closure)
  moreover have "fr_FinalStatus (final_release now manifest v) = ''publish-ready'' \<longleftrightarrow>
      fr_PublishReady (final_release now manifest v)"
    by (simp add: final_release_def NewFinalRelease_def Let_def)
  ultimately show ?thesis
    using closure_ready [OF v(1)] v(2) unfolding v_def [symmetric] Let_def intake_ready by auto
qed

text \<open>It can be reached: a patch that fills in every field of the template makes a release ready to publish.\<close>

definition passing_patch :: "HostValidationRecord \<Rightarrow> ValidationPatch" where
  "passing_patch v =
     (let p = NewValidationPatchTemplate v in
      p\<lparr>vp_CompletedBy := ''qa'', vp_CompletedAt := Some 0,
        vp_Environment := (vp_Environment p)\<lparr>he_Machine := ''m'', he_OSVersion := ''11'', he_WinFspVersion := ''2'',
          he_DiagnosticsBundle := ''d.zip'', he_InstallerLogDir := ''logs''\<rparr>,
        vp_ExplorerScenarios := map (\<lambda>s. s\<lparr>sr_Status := ValidationPass\<rparr>) (vp_ExplorerScenarios p),
        vp_InstallerChecklist := map (\<lambda>c. c\<lparr>ck_Status := ValidationPass\<rparr>) (vp_InstallerChecklist p),
        vp_RecoveryChecklist := map (\<lambda>c. c\<lparr>ck_Status := ValidationPass\<rparr>) (vp_RecoveryChecklist p),
        vp_InstallerRuns := map (\<lambda>i. i\<lparr>ir_Status := ValidationPass, ir_LogPath := ''x.log''\<rparr>) (vp_InstallerRuns p)\<rparr>)"

definition sample_record :: HostValidationRecord where
  "sample_record = NewHostValidationRecord 0 ''1.0'' []
     \<lparr>nt_Backend = [], nt_Active = False, nt_Finalized = True, nt_Ready = 0, nt_Gaps = 0, nt_ReadOnly = 0, nt_Preflight = 0,
      nt_Callbacks = [], nt_ClosureDetail = []\<rparr>
     \<lparr>rx_Ready = 0, rx_Gaps = 0, rx_Blocked = 0, rx_Finalized = True, rx_Entries = []\<rparr>"

theorem release_can_be_published:
  "fr_FinalStatus (final_release 0 (NewManifest ''1.0'' []
     \<lparr>nt_Backend = [], nt_Active = False, nt_Finalized = True, nt_Ready = 0, nt_Gaps = 0, nt_ReadOnly = 0, nt_Preflight = 0,
      nt_Callbacks = [], nt_ClosureDetail = []\<rparr>
     \<lparr>rx_Ready = 0, rx_Gaps = 0, rx_Blocked = 0, rx_Finalized = True, rx_Entries = []\<rparr> [])
     (snd (ApplyPatch 0 (passing_patch sample_record) sample_record))) = ''publish-ready''"
  by code_simp

end
