(* ===== verification/ClientLog.thy ===== *)
theory ClientLog
  imports Materialize
begin

text \<open>
  The log of the Windows client (\<^verbatim>\<open>internal/winclientlog/log.go\<close>): one line per entry, appended to a file. An entry
  that is recorded never loses an earlier one, and the tail of the log is its last bytes.
\<close>

section \<open>Entries\<close>

abbreviation (input) LevelInfo :: string where "LevelInfo \<equiv> ''info''"
abbreviation (input) LevelWarn :: string where "LevelWarn \<equiv> ''warn''"
abbreviation (input) LevelError :: string where "LevelError \<equiv> ''error''"

text \<open>The zero time is \<open>None\<close>.\<close>

record Entry =
  le_Timestamp :: "instant option"
  le_Level :: string
  le_Code :: string
  le_Component :: string
  le_Message :: string
  le_Fields :: "string \<rightharpoonup> string"

definition sanitizeKey :: "string \<Rightarrow> string" where
  "sanitizeKey key =
     (let key = TrimSpace (ReplaceAll (ReplaceAll key (CHR '' '') (CHR ''_'')) (CHR 0x09) (CHR ''_''))
      in if key = [] then ''field'' else key)"

text \<open>The raw strings of the source hold two and four backslashes: pairs are doubled, single ones kept.\<close>

fun double_pairs :: "string \<Rightarrow> string" where
  "double_pairs (a # b # s) =
     (if a = backslash \<and> b = backslash then [backslash, backslash, backslash, backslash] @ double_pairs s
      else a # double_pairs (b # s))"
| "double_pairs s = s"

definition quoteField :: "string \<Rightarrow> string" where
  "quoteField v =
     (let v = TrimSpace v in
      if v = [] then [CHR 0x22, CHR 0x22]
      else [CHR 0x22] @
           concat (map (\<lambda>c. if c = CHR 0x22 then [backslash, backslash, CHR 0x22] else [c]) (double_pairs v)) @
           [CHR 0x22])"

definition formatEntry :: "instant \<Rightarrow> Entry \<Rightarrow> string" where
  "formatEntry timestamp entry =
     Join
       ([''ts='' @ FormatRFC3339 timestamp, ''level='' @ ToUpper (le_Level entry), ''code='' @ quoteField (le_Code entry),
         ''component='' @ quoteField (le_Component entry), ''msg='' @ quoteField (le_Message entry)] @
        map (\<lambda>key. sanitizeKey key @ ''='' @ quoteField (case le_Fields entry key of None \<Rightarrow> [] | Some v \<Rightarrow> v))
          (sorted_list_of_set (dom (le_Fields entry)))) '' '' @ [CHR 0x0A]"

section \<open>The logger\<close>

definition completed_entry :: "instant \<Rightarrow> Entry \<Rightarrow> Entry" where
  "completed_entry now entry =
     (let entry = (if le_Timestamp entry = None then entry\<lparr>le_Timestamp := Some now\<rparr> else entry);
          entry = (if le_Level entry = [] then entry\<lparr>le_Level := LevelInfo\<rparr> else entry);
          entry = entry\<lparr>le_Code := or_default (le_Code entry) ''generic''\<rparr>;
          entry = entry\<lparr>le_Component := or_default (le_Component entry) ''win32-client''\<rparr>;
          entry = entry\<lparr>le_Message := TrimSpace (le_Message entry)\<rparr>
      in if le_Message entry = [] then entry\<lparr>le_Message := ''(empty message)''\<rparr> else entry)"

definition string_bytes :: "string \<Rightarrow> bytes" where
  "string_bytes s = map (\<lambda>c. of_nat (of_char c)) s"

definition entry_line_bytes :: "instant \<Rightarrow> Entry \<Rightarrow> bytes" where
  "entry_line_bytes now entry =
     (let entry = completed_entry now entry
      in string_bytes (formatEntry (case le_Timestamp entry of None \<Rightarrow> now | Some t \<Rightarrow> t) entry))"

text \<open>
  Opening with \<^verbatim>\<open>O_APPEND\<close>: every write goes to the end of the file. The error is its text.
\<close>

definition append_to :: "OsFile \<Rightarrow> bytes \<Rightarrow> fs \<Rightarrow> (nat \<times> go_error option) \<times> fs" where
  "append_to file data f =
     file_WriteAt file data (case fs_inodes f (of_inode file) of None \<Rightarrow> 0 | Some n \<Rightarrow> int (length (i_data n))) f"

definition Record_entry :: "string \<Rightarrow> instant \<Rightarrow> Entry \<Rightarrow> fs \<Rightarrow> string option \<times> fs" where
  "Record_entry path now entry f =
     (if TrimSpace path = [] then (Some ''log path is empty'', f)
      else
        (case os_MkdirAll (Dir path) f of
           (Some err, f) \<Rightarrow> (Some (''create log directory: '' @ error_text err), f)
         | (None, f) \<Rightarrow>
             (case os_OpenFile True True False False path f of
                (Inl err, f) \<Rightarrow> (Some (''open log file: '' @ error_text err), f)
              | (Inr file, f) \<Rightarrow>
                  (case append_to file (entry_line_bytes now entry) f of
                     ((_, err), f) \<Rightarrow> (map_option error_text err, f)))))"

definition plain_entry :: "string \<Rightarrow> string \<Rightarrow> string \<Rightarrow> string \<Rightarrow> Entry" where
  "plain_entry level code component message =
     \<lparr>le_Timestamp = None, le_Level = level, le_Code = code, le_Component = component, le_Message = message,
      le_Fields = Map.empty\<rparr>"

definition Logger_Append :: "string \<Rightarrow> instant \<Rightarrow> string \<Rightarrow> string \<Rightarrow> fs \<Rightarrow> string option \<times> fs" where
  "Logger_Append path now level message = Record_entry path now (plain_entry (ToLower (TrimSpace level)) [] [] message)"

definition Logger_Info :: "string \<Rightarrow> instant \<Rightarrow> string \<Rightarrow> fs \<Rightarrow> string option \<times> fs" where
  "Logger_Info path now message = Record_entry path now (plain_entry LevelInfo ''ui.info'' ''win32-client'' message)"

definition Logger_Warn :: "string \<Rightarrow> instant \<Rightarrow> string \<Rightarrow> fs \<Rightarrow> string option \<times> fs" where
  "Logger_Warn path now message = Record_entry path now (plain_entry LevelWarn ''ui.warn'' ''win32-client'' message)"

definition Logger_Error :: "string \<Rightarrow> instant \<Rightarrow> string \<Rightarrow> fs \<Rightarrow> string option \<times> fs" where
  "Logger_Error path now message = Record_entry path now (plain_entry LevelError ''ui.error'' ''win32-client'' message)"

definition Tail :: "string \<Rightarrow> int \<Rightarrow> fs \<Rightarrow> string + bytes" where
  "Tail path maxBytes f =
     (if TrimSpace path = [] then Inl ''log path is empty''
      else
        (case os_ReadFile f path of
           Inl err \<Rightarrow> if IsNotExist err then Inr [] else Inl (''read log file: '' @ error_text err)
         | Inr data \<Rightarrow>
             Inr (if 0 < maxBytes \<and> maxBytes < int (length data) then drop (length data - nat maxBytes) data else data)))"

section \<open>Nothing is lost\<close>

lemma entry_line_nonempty: "entry_line_bytes now entry \<noteq> []"
  by (simp add: entry_line_bytes_def formatEntry_def string_bytes_def Let_def)

lemma open_existing:
  assumes "os_OpenFile True True False False p f = (Inr fl, f')" and "stored f p = Some old" and "no_faults f"
  shows "f' = f" and "holding f p fl old"
proof -
  have dirs: "\<forall>a \<in> set (ancestors p). is_dir_at f a" and content: "content_at f p = Some old"
    using assms(2) by (auto simp: stored_eq split: if_splits)
  obtain i n where r: "resolve f p = Inr (i, n)" and n: "i_data n = old" "\<not> i_isdir n" "i_readable n"
    using assms(2) by (auto simp: stored_def os_ReadFile_def split: sum.splits prod.splits if_splits)
  have open_r: "f' = f \<and> of_inode fl = i" using assms(1) r n by (auto simp: os_OpenFile_def split: if_splits)
  then show "f' = f" by simp
  have "inode_at f p = Some (i, n)" using r by (auto simp: resolve_def split: option.splits)
  moreover have "i_faults n = []"
    using assms(3) calculation by (auto simp: no_faults_def inode_at_def split: option.splits)
  ultimately show "holding f p fl old"
    using dirs open_r n by (auto simp: holding_def view_def)
qed

lemma append_holding:
  assumes "holding f p fl old" and "data \<noteq> []" and "length old + length data < 2 ^ 63"
  shows "\<exists>f'. append_to fl data f = ((length data, None), f') \<and> stored f' p = Some (old @ data)"
proof -
  obtain n where n: "view f p = Some (of_inode fl, n)" "i_data n = old" using assms(1) by (auto simp: holding_def)
  obtain m where m: "fs_inodes f (of_inode fl) = Some m" "n = m\<lparr>i_mtime := 0\<rparr>" using view_inode [OF n(1)] by blast
  then have "append_to fl data f = file_WriteAt fl data (int (length old)) f" using n(2) by (simp add: append_to_def)
  then show ?thesis using holding_write [OF assms] holding_stored by metis
qed

text \<open>
  A recorded entry is appended to the log as one piece and everything before it is kept.
\<close>

theorem recorded_entry_appended:
  assumes "Record_entry path now entry f = (None, f')" and "stored f path = Some old" and "fs_ok f"
    and "abs_clean path" and "path \<noteq> ''/''" and "inode_at f ''/'' \<noteq> None"
    and "length old + length (entry_line_bytes now entry) < 2 ^ 63"
  shows "stored f' path = Some (old @ entry_line_bytes now entry) \<and>
    Tail path (int (length (entry_line_bytes now entry))) f' = Inr (entry_line_bytes now entry)"
proof -
  let ?line = "entry_line_bytes now entry"
  have dir: "os_MkdirAll (Dir path) f = (fst (os_MkdirAll (Dir path) f), f)"
    using MkdirAll_existing [OF assms(2,4,5,6)] by (simp add: prod_eq_iff)
  obtain fl f2 where opened: "os_OpenFile True True False False path f = (Inr fl, f2)"
    using assms(1) dir by (auto simp: Record_entry_def split: if_splits option.splits prod.splits sum.splits)
  note existing = open_existing [OF opened assms(2)]
  have faults: "no_faults f" using assms(3) by (simp add: fs_ok_def)
  obtain f3 where f3: "append_to fl ?line f = ((length ?line, None), f3)" "stored f3 path = Some (old @ ?line)"
    using append_holding [OF existing(2) [OF faults] entry_line_nonempty assms(7)] by blast
  have "f' = f3" and path: "TrimSpace path \<noteq> []"
    using assms(1) dir opened existing(1) [OF faults] f3(1)
    by (auto simp: Record_entry_def split: if_splits option.splits prod.splits)
  then have stored: "stored f' path = Some (old @ ?line)" using f3(2) by simp
  then have "os_ReadFile f' path = Inr (old @ ?line)" by (auto simp: stored_def split: sum.splits)
  then show ?thesis using stored path entry_line_nonempty [of now entry] by (auto simp: Tail_def)
qed

end
