(* ===== verification/Spec2Isabelle.thy ===== *)
theory Spec2Isabelle
  imports FileIO ReplyTypes JournalEvents ClientServer NativeStatus ClientStore Runner Release ClientLog
begin

text \<open>
  \<^bold>\<open>Developer mount.\<close> The program exports a directory of a host over a framed protocol and mounts it on a Windows
  machine. The server (\<^verbatim>\<open>internal/server\<close>) keeps sessions, node and handle tables and an event journal over the
  exported directory; the client (\<^verbatim>\<open>internal/clientcore\<close>) speaks the protocol
  (\<^verbatim>\<open>internal/protocol\<close>, \<^verbatim>\<open>internal/transport\<close>) over one connection; the mount core
  (\<^verbatim>\<open>internal/mountcore\<close>) turns paths into protocol calls; the WinFsp layers (\<^verbatim>\<open>internal/winfsp\<close>) turn native
  callbacks into calls of the mount core; and the Windows client programs (\<^verbatim>\<open>internal/winclient\<close> and its
  neighbours) configure, start and stop mounts, copy remote trees and keep their settings in local files.
  All paths below are relative to \<^verbatim>\<open>src/internal\<close>.

  \<^bold>\<open>How code becomes definitions.\<close> A struct is a record whose fields carry a short prefix, an operation a function
  from the state before to its result and the state after, an error the left side of a sum or an option.
  Identifiers, offsets in headers and counters are words of their width and wrap as in Go; sizes and times
  that the code computes with are integers. A nil pointer or nil logger is \<open>None\<close>. Everything that runs under one
  lock is one step, and so is every operation of the metadata backend and every request, although the code takes
  the backend's lock several times in some of them (\<^verbatim>\<open>RenamePath\<close>, \<^verbatim>\<open>CreateFile\<close>, \<^verbatim>\<open>CloseHandle\<close> and others):
  requests of several connections interleave as wholes. For \<^verbatim>\<open>journalBroker.Append\<close>, \<^verbatim>\<open>Runtime.Start\<close> and the
  compare-and-swap loop of \<^verbatim>\<open>lockWaitCounters\<close> the parts between the locks are separate steps as well, and there are
  theorems over their interleavings. Time is an argument. Parameters of the model are: the JSON encoder, the far end of the
  client's connection, dialling and hanging up, writes to a connection that fail, how writing, closing and renaming
  a local file fail and whether renaming is atomic, whether paths are those of Windows, the texts of library errors, \<^verbatim>\<open>time.Parse\<close>, the order in which
  Go ranges over a map, and what the Windows client asks of its system (\<^verbatim>\<open>os.Stat\<close> on drives, WinFsp
  probing). Where a theorem relies on one of them, it says so in a hypothesis with a name of its own, and a
  witness shows a concrete instance.

  \<^bold>\<open>Foundations.\<close>
  \<^item> \<open>Prelude\<close>: types, collections of facts, shared lemmas on lists, maps and words.
  \<^item> \<open>GoLib\<close>: the packages \<^verbatim>\<open>strings\<close>, \<^verbatim>\<open>path/filepath\<close>, \<^verbatim>\<open>sort\<close>, \<^verbatim>\<open>fmt\<close>, \<^verbatim>\<open>time\<close> as far as they are used, for
    ASCII text.
  \<^item> \<open>Filesystem\<close>, \<open>LocalFiles\<close>: package \<^verbatim>\<open>os\<close> over a table of paths and inodes, with permissions, and with
    I/O faults that any call on a file may report. There are no symbolic links; a write that meets such a fault
    writes nothing, and a newly created file has none. \<open>LocalFiles\<close> also has the routine with which both stores
    of the client replace a file, with all the moments it passes through, writes that stop half-way and renames that
    are not atomic: the old or the new content is never lost.
  \<^item> \<open>Paths\<close>: clean paths under \<^verbatim>\<open>Join\<close>, \<^verbatim>\<open>Dir\<close> and \<^verbatim>\<open>Base\<close>.

  \<^bold>\<open>Protocol and server.\<close>
  \<^item> \<open>Protocol\<close>, \<open>Codec\<close> (\<^verbatim>\<open>protocol/types.go\<close>, \<^verbatim>\<open>transport/codec.go\<close>): every message; frames. Encoding and
    decoding are inverse in both directions.
  \<^item> \<open>Sessions\<close> (\<^verbatim>\<open>server/session_manager.go\<close>): leases. The table refines an abstract lease table; expiry is
    final; heartbeats in time keep a session.
  \<^item> \<open>Profile\<close> (\<^verbatim>\<open>editor_profile.go\<close>), \<open>Observers\<close> (lock, control and fault observers, runtime snapshots).
  \<^item> \<open>Metadata\<close>, \<open>Backend\<close> (\<^verbatim>\<open>metadata_backend.go\<close>, \<^verbatim>\<open>metadata_cache.go\<close>): nodes, caches, cursors and handles,
    and every public operation. \<open>Snapshots\<close> shows that patching a cached listing is listing again; \<open>Tables\<close>
    has the invariant and its preservation; \<open>BackendFrame\<close> what operations leave alone; \<open>BackendProps\<close> the
    properties of whole runs (confinement, consistent tables, complete paging, the recursive snapshot ends);
    \<open>FileIO\<close> that handles refine byte lists.
  \<^item> \<open>Journal\<close> (\<^verbatim>\<open>journal.go\<close>): a poll returns exactly the next matching events or reports a loss; overlapping
    appends can lose an event.
  \<^item> \<open>Server\<close>, \<open>ServerRun\<close>, \<open>ServerProps\<close>, \<open>ReplyTypes\<close>, \<open>JournalEvents\<close> (\<^verbatim>\<open>server.go\<close>, \<^verbatim>\<open>audit.go\<close>, \<^verbatim>\<open>config.go\<close>, \<^verbatim>\<open>status.go\<close>):
    every channel and opcode, whole connections over byte streams, and interleaved connections. \<^verbatim>\<open>writeResponse\<close> and
    \<^verbatim>\<open>writeError\<close> are in two parts: what they are going to send, and \<open>sendReply\<close>, which may fail to encode it (then
    nothing is sent) or to write all of it. Shown are well-typed replies, nothing without the token, no effect
    without a session, a safe server after any input and any failed reply, error codes and bounds, and that
    the events of a request are exactly those of its reply and replay to the paths that exist afterwards.

  \<^bold>\<open>Client and mount.\<close>
  \<^item> \<open>Client\<close>, \<open>ClientProps\<close> (\<^verbatim>\<open>clientcore\<close>): the calls, the tables for recovery, the heartbeat loop; the tables
    stay consistent whatever arrives.
  \<^item> \<open>ClientServer\<close>: client and server over one connection; a call is one dispatch; what is written is read back;
    heartbeats at the computed interval keep the session.
  \<^item> \<open>Mount\<close>, \<open>MountProps\<close> (\<^verbatim>\<open>platform/windows/path.go\<close>, \<^verbatim>\<open>mountcore/mount.go\<close>): after any run
    of calls on an unchanging tree of plain names, resolving through the cache is walking the tree.
  \<^item> \<open>Winfsp\<close>, \<open>Dispatcher\<close> (\<^verbatim>\<open>winfsp/*.go\<close> outside the Windows builds): status codes, callbacks, bridge, ABI,
    service, host and binding. \<open>NativeRequests\<close>: the stack refines the callbacks. \<open>NativeHandles\<close>: handle counts.
    \<open>ReadOnly\<close>: no native request changes a file of the server. \<open>NativeStatus\<close>: what Windows is told when
    a call or the lookup of a path fails, and the start of the service.

  \<^bold>\<open>Windows client programs.\<close>
  \<^item> \<open>WinConfig\<close> (\<^verbatim>\<open>winclient/config.go\<close>): validation is exact, resolved drives are free, suggested directories new.
  \<^item> \<open>ClientRuntime\<close> (\<^verbatim>\<open>winclientruntime/runtime.go\<close>): the state machine of start and stop; one session at a time.
  \<^item> \<open>ClientStore\<close> (\<^verbatim>\<open>winclientstore/store.go\<close>, \<^verbatim>\<open>winclientrecovery/recovery.go\<close>): saved profiles are loaded again,
    if JSON and the time format carry the saved state; the marker detects unclean exits, if JSON keeps its flag. Both use one locale of saved states, interpreted twice.
  \<^item> \<open>Materialize\<close> (\<^verbatim>\<open>materialize/materialize.go\<close>), \<open>Runner\<close> (\<^verbatim>\<open>winclient/runner.go\<close>): copies are faithful and
    confined to the local directory, where only the slash separates paths or, on Windows, no listed name has a backslash
    (one that has can escape); no handle is left open.
  \<^item> \<open>ClientLog\<close> (\<^verbatim>\<open>winclientlog/log.go\<close>): a recorded entry is appended and nothing before it is lost.
  \<^item> \<open>Validation\<close> (\<^verbatim>\<open>winclientrelease/validation.go\<close>, \<^verbatim>\<open>intake.go\<close>, \<^verbatim>\<open>winclientsmoke\<close>), \<open>Release\<close> (the other files of
    \<^verbatim>\<open>winclientrelease\<close>): the record of a validation and the release gate; a release is ready to publish
    exactly if every check passed, the record is completed and the evidence is there.

  \<^bold>\<open>Interfaces.\<close> Contracts are locales, each interpreted on the definitions of the component that provides it:
  tables with an identifier counter (\<open>id_table\<close>: sessions, watches), framing (\<open>framing\<close>: the codec), patched
  listings (\<open>patchable_listing\<close>: directory snapshots), byte stores (\<open>byte_store\<close>: open files), properties that all
  handlers of the dispatcher keep (\<open>handler_steps\<close>, interpreted three times), renaming of keys (\<open>rekeying\<close>: recovered
  handles and resubscribed watches), and saved states (\<open>saved_state\<close>: the profile store and the recovery marker).

  \<^bold>\<open>Loops and fuel.\<close> Structural recursion and measures wherever the loop is bounded by its data. The recursive
  snapshot of the backend has the fuel \<open>walk_fuel\<close>, computed from the file system, and is proved to return. The
  heartbeat loop runs over the list of what its select finds ready. Searching a free child directory is a
  partial function, shown to return
  when some candidate is free. Copying a file or a tree ends when the server says so; it takes fuel as an argument, and a
  file is shown to be copied for any fuel above its length.

  \<^bold>\<open>Not modelled.\<close> The native dispatcher of the Windows build (\<^verbatim>\<open>winfsp/dispatcher_native_windows.go\<close>,
  \<^verbatim>\<open>dispatcher_windows.go\<close>, \<^verbatim>\<open>binding_windows.go\<close>, \<^verbatim>\<open>host_windows.go\<close>) is system calls and memory layouts of C; the graphical
  programs (\<^verbatim>\<open>winclientgui\<close>, \<^verbatim>\<open>winclientusergui\<close>) are windows and message loops; diagnostics, the product
  description and the benchmark gate (\<^verbatim>\<open>winclientdiag\<close>, \<^verbatim>\<open>winclientproduct\<close>, \<^verbatim>\<open>benchgate\<close>) collect and print, the last
  one over floating-point numbers; the commands under
  \<^verbatim>\<open>src/cmd\<close> parse flags and wire the packages above. Of modelled parts are left out: duration counters,
  trace output, the HTTP status handler, reading the server's configuration file, Markdown and JSON reports, and finding
  the default paths of the stores. Non-ASCII white space and case folding are outside \<open>GoLib\<close>.
\<close>

end
